(* ===== verification/Prelude.thy ===== *)
theory Prelude
  imports Complex_Main "HOL-Library.AList" "HOL-Library.List_Lexorder" "HOL-Library.Char_ord"
    "HOL-Library.Sublist"
begin

text \<open>
  What every component of the model shares.

  \<^item> Python exceptions: \<open>pyexc\<close>, the values on the left of \<open>pyexc + 'a\<close>. An operation that
    raises returns \<open>Inl\<close>; the collection \<open>ok_simps\<close> rewrites statements about the
    guarded operations (\<open>if guard then Inl e else ...\<close>) into their guards.
  \<^item> Strings: \<open>str\<close> is the Python string as a list of (byte) characters; substring test,
    joining, trimming, ASCII lower case, and the decimal rendering of integers with and
    without thousands separators (\<open>str(n)\<close>, \<open>f"{n:,}"\<close>).
  \<^item> Sets of strings that Python sorts before it uses them: \<open>sorted_set\<close>.
  \<^item> State machines: the locale \<open>machine\<close>, whose lemmas lift a one-step invariant to every
    run and every prefix of a run.
\<close>

named_theorems ok_simps "when a guarded operation returns, and with what"

section \<open>Exceptions\<close>

type_synonym str = string

datatype pyexc =
    ValueError str
  | Denied str
  | StaleClaim str
  | UncertainPersistence str
  | NoResultFound
  | KeyError str
  | TypeError
  | AttributeError

text \<open>\<open>Denied\<close> is the base class of \<open>StaleClaim\<close> (an \<open>except Denied\<close> catches both).\<close>

fun is_denied :: "pyexc \<Rightarrow> bool" where
  "is_denied (Denied _) = True"
| "is_denied (StaleClaim _) = True"
| "is_denied _ = False"

lemma if_Inl_Inr [ok_simps]: "((if c then Inl e else r) = Inr x) = (\<not> c \<and> r = Inr x)"
  by auto

lemma if_Inl_Inl [ok_simps]: "((if c then Inl e else r) = Inl e') = (if c then e = e' else r = Inl e')"
  by auto

lemma case_sum_Inr [ok_simps]:
  "((case r of Inl e \<Rightarrow> Inl e | Inr y \<Rightarrow> f y) = Inr x) = (\<exists>y. r = Inr y \<and> f y = Inr x)"
  by (cases r) auto

lemma case_option_Inr [ok_simps]:
  "((case r of None \<Rightarrow> Inl e | Some y \<Rightarrow> f y) = Inr x) = (\<exists>y. r = Some y \<and> f y = Inr x)"
  by (cases r) auto

section \<open>Strings\<close>

text \<open>Python's \<open>sub in s\<close>.\<close>

fun contains :: "str \<Rightarrow> str \<Rightarrow> bool" where
  "contains sub [] = (sub = [])"
| "contains sub (c # cs) = (prefix sub (c # cs) \<or> contains sub cs)"

lemma contains_iff: "contains sub s = (\<exists>a b. s = a @ sub @ b)"
proof (induction s)
  case Nil
  show ?case by auto
next
  case (Cons c cs)
  have "(\<exists>a b. c # cs = a @ sub @ b) = (prefix sub (c # cs) \<or> (\<exists>a b. cs = a @ sub @ b))"
    by (auto simp: prefix_def Cons_eq_append_conv)
  with Cons.IH show ?case by simp
qed

lemma contains_appendI: "contains sub s \<Longrightarrow> contains sub (a @ s @ b)"
  by (metis append.assoc contains_iff)

lemma contains_prefixI: "contains sub s \<Longrightarrow> contains sub (s @ b)"
  using contains_appendI [of sub s "[]" b] by simp

lemma contains_suffixI: "contains sub s \<Longrightarrow> contains sub (a @ s)"
  using contains_appendI [of sub s a "[]"] by simp

definition lower_char :: "char \<Rightarrow> char" where
  "lower_char c = (if CHR ''A'' \<le> c \<and> c \<le> CHR ''Z'' then char_of (of_char c + 32 :: nat) else c)"

text \<open>\<open>s.lower()\<close> on ASCII text.\<close>

definition lower :: "str \<Rightarrow> str" where
  "lower s = map lower_char s"

text \<open>The whitespace that \<open>str.strip\<close> removes (ASCII part).\<close>

definition is_space :: "char \<Rightarrow> bool" where
  "is_space c = (c = CHR '' '' \<or> (9 \<le> (of_char c :: nat) \<and> (of_char c :: nat) \<le> 13)
     \<or> (28 \<le> (of_char c :: nat) \<and> (of_char c :: nat) \<le> 31))"

definition strip :: "str \<Rightarrow> str" where
  "strip s = rev (dropWhile is_space (rev (dropWhile is_space s)))"

fun join :: "str \<Rightarrow> str list \<Rightarrow> str" where
  "join sep [] = []"
| "join sep [x] = x"
| "join sep (x # y # ys) = x @ sep @ join sep (y # ys)"

definition opt_or :: "'a option \<Rightarrow> 'a \<Rightarrow> 'a" where
  "opt_or v d = (case v of None \<Rightarrow> d | Some x \<Rightarrow> x)"

text \<open>\<open>v or d\<close> for a string that may be \<open>None\<close>: the empty string is falsy.\<close>

definition str_or :: "str option \<Rightarrow> str \<Rightarrow> str" where
  "str_or v d = (case v of None \<Rightarrow> d | Some s \<Rightarrow> if s = [] then d else s)"

definition truthy :: "str option \<Rightarrow> bool" where
  "truthy v = (case v of None \<Rightarrow> False | Some s \<Rightarrow> s \<noteq> [])"

subsection \<open>Decimal rendering\<close>

definition digit_char :: "nat \<Rightarrow> char" where
  "digit_char d = char_of (48 + d)"

fun nat_str :: "nat \<Rightarrow> str" where
  "nat_str n = (if n < 10 then [digit_char n] else nat_str (n div 10) @ [digit_char (n mod 10)])"

declare nat_str.simps [simp del]

definition int_str :: "int \<Rightarrow> str" where
  "int_str i = (if i < 0 then CHR ''-'' # nat_str (nat (- i)) else nat_str (nat i))"

text \<open>Groups of three from the right: the argument is the reversed digit string.\<close>

fun group3 :: "str \<Rightarrow> str" where
  "group3 (a # b # c # d # ds) = a # b # c # CHR '','' # group3 (d # ds)"
| "group3 ds = ds"

definition int_commas :: "int \<Rightarrow> str" where
  "int_commas i = (let s = rev (group3 (rev (nat_str (nat \<bar>i\<bar>)))) in if i < 0 then CHR ''-'' # s else s)"

definition opt_int_str :: "int option \<Rightarrow> str" where
  "opt_int_str v = (case v of None \<Rightarrow> ''None'' | Some i \<Rightarrow> int_str i)"

text \<open>\<open>f"{q:.0f}"\<close>: nearest integer, ties to even.\<close>

definition round_half_even :: "rat \<Rightarrow> int" where
  "round_half_even q = (let f = \<lfloor>q\<rfloor>; r = q - of_int f in
     if r < 1 / 2 then f else if r > 1 / 2 then f + 1 else if even f then f else f + 1)"

lemma round_half_even_of_int [simp]: "round_half_even (of_int i) = i"
  by (simp add: round_half_even_def)

lemma round_half_even_error: "\<bar>of_int (round_half_even q) - q\<bar> \<le> 1 / 2"
proof -
  have "of_int \<lfloor>q\<rfloor> \<le> q" "q < of_int \<lfloor>q\<rfloor> + 1" by linarith+
  then show ?thesis by (auto simp: round_half_even_def Let_def)
qed

lemma nat_str_nonempty [simp]: "nat_str n \<noteq> []"
  by (subst nat_str.simps) simp

subsection \<open>Python's repr\<close>

definition repr_char :: "char \<Rightarrow> char \<Rightarrow> str" where
  "repr_char q c = (let n = of_char c :: nat; hex = (\<lambda>d. if d < 10 then char_of (48 + d) else char_of (87 + d)) in
     if c = q \<or> n = 92 then [CHR 0x5C, c]
     else if n = 10 then [CHR 0x5C, CHR ''n'']
     else if n = 13 then [CHR 0x5C, CHR ''r'']
     else if n = 9 then [CHR 0x5C, CHR ''t'']
     else if n < 32 \<or> 127 \<le> n \<and> n \<le> 160 \<or> n = 173 then [CHR 0x5C, CHR ''x'', hex (n div 16), hex (n mod 16)]
     else [c])"

definition py_repr :: "str \<Rightarrow> str" where
  "py_repr s = (let q = (if CHR 0x27 \<in> set s \<and> CHR 0x22 \<notin> set s then CHR 0x22 else CHR 0x27) in q # concat (map (repr_char q) s) @ [q])"

definition list_repr :: "str list \<Rightarrow> str" where
  "list_repr xs = ''['' @ join '', '' (map py_repr xs) @ '']''"

section \<open>Sorted sets of strings\<close>

text \<open>\<open>sorted(set(xs))\<close>: the order of \<open>List_Lexorder\<close> is Python's order on strings.\<close>

definition sorted_set :: "'a::linorder list \<Rightarrow> 'a list" where
  "sorted_set xs = sort (remdups xs)"

lemma set_sorted_set [simp]: "set (sorted_set xs) = set xs"
  by (simp add: sorted_set_def)

lemma sorted_sorted_set [simp]: "sorted (sorted_set xs)"
  by (simp add: sorted_set_def)

lemma distinct_sorted_set [simp]: "distinct (sorted_set xs)"
  by (simp add: sorted_set_def)

lemma sorted_set_eq_iff: "(sorted_set xs = sorted_set ys) = (set xs = set ys)"
  by (metis distinct_sorted_set set_sorted_set sorted_distinct_set_unique sorted_sorted_set)

lemma sorted_set_eq_Nil [simp]: "(sorted_set xs = []) = (xs = [])"
  by (metis set_empty set_sorted_set)

section \<open>State machines\<close>

text \<open>
  A deterministic machine is a step function; \<open>run\<close> feeds it a list of events. The contract
  is an invariant that every step keeps; the locale lifts it to runs.
\<close>

definition run :: "('s \<Rightarrow> 'e \<Rightarrow> 's) \<Rightarrow> 's \<Rightarrow> 'e list \<Rightarrow> 's" where
  "run stp s es = foldl stp s es"

lemma run_Nil [simp]: "run stp s [] = s"
  by (simp add: run_def)

lemma run_Cons [simp]: "run stp s (e # es) = run stp (stp s e) es"
  by (simp add: run_def)

lemma run_append [simp]: "run stp s (es @ fs) = run stp (run stp s es) fs"
  by (simp add: run_def)

locale machine =
  fixes stp :: "'s \<Rightarrow> 'e \<Rightarrow> 's"
    and inv :: "'s \<Rightarrow> bool"
  assumes step_inv: "inv s \<Longrightarrow> inv (stp s e)"
begin

lemma run_inv: "inv s \<Longrightarrow> inv (run stp s es)"
  by (induction es arbitrary: s) (auto intro: step_inv)

lemma run_rel:
  assumes "\<And>s e. inv s \<Longrightarrow> R s (stp s e)" and "reflp R" and "transp R" and "inv s"
  shows "R s (run stp s es)"
  using assms(4)
proof (induction es arbitrary: s)
  case Nil
  from assms(2) show ?case by (simp add: reflpD)
next
  case (Cons e es)
  from Cons.prems have "R s (stp s e)" by (rule assms(1))
  moreover from Cons.prems have "R (stp s e) (run stp (stp s e) es)"
    by (intro Cons.IH step_inv)
  ultimately show ?case using assms(3) by (simp add: transpD [of R s "stp s e"])
qed

end

end
