(* ===== verification/Json.thy ===== *)
theory Json
  imports Prelude
begin

text \<open>
  JSON values, the canonical rendering \<open>json.dumps(v, sort_keys=True,
  separators=(',', ':'), allow_nan=False)\<close>, and the two functions the ingestion package builds on it:
  \<open>bounded\<close> (a size limit and a round trip through the text) and \<open>digest\<close> (SHA-256 of the text;
  the hash function is a parameter). A float is kept with the text \<open>repr\<close> gives it
  (\<open>JFloat text value\<close>); strings hold code points below 256.
\<close>

datatype json =
    JNull
  | JBool bool
  | JInt int
  | JFloat str rat
  | JStr str
  | JArr "json list"
  | JObj "(str \<times> json) list"

definition hex_digit :: "nat \<Rightarrow> char" where
  "hex_digit d = (if d < 10 then char_of (48 + d) else char_of (87 + d))"

definition json_escape :: "char \<Rightarrow> str" where
  "json_escape c = (let n = of_char c :: nat in
     if n = 34 then [CHR 0x5C, c]
     else if n = 92 then [c, c]
     else if n = 10 then [CHR 0x5C, CHR ''n'']
     else if n = 13 then [CHR 0x5C, CHR ''r'']
     else if n = 9 then [CHR 0x5C, CHR ''t'']
     else if n = 8 then [CHR 0x5C, CHR ''b'']
     else if n = 12 then [CHR 0x5C, CHR ''f'']
     else if n < 32 \<or> 126 < n then [CHR 0x5C, CHR ''u'', CHR ''0'', CHR ''0'', hex_digit (n div 16), hex_digit (n mod 16)]
     else [c])"

definition json_str :: "str \<Rightarrow> str" where
  "json_str s = CHR 0x22 # concat (map json_escape s) @ [CHR 0x22]"

primrec dumps :: "json \<Rightarrow> str" where
  "dumps JNull = ''null''"
| "dumps (JBool b) = (if b then ''true'' else ''false'')"
| "dumps (JInt i) = int_str i"
| "dumps (JFloat t q) = t"
| "dumps (JStr s) = json_str s"
| "dumps (JArr vs) = ''['' @ join '','' (map dumps vs) @ '']''"
| "dumps (JObj fs) = CHR ''{'' #
     join '','' (map (\<lambda>(k, t). json_str k @ '':'' @ t) (sort_key fst (map (map_prod id dumps) fs))) @ ''}''"

text \<open>The value \<open>json.loads\<close> reads back: the same, with the fields of each object in key order.\<close>

primrec canon :: "json \<Rightarrow> json" where
  "canon JNull = JNull"
| "canon (JBool b) = JBool b"
| "canon (JInt i) = JInt i"
| "canon (JFloat t q) = JFloat t q"
| "canon (JStr s) = JStr s"
| "canon (JArr vs) = JArr (map canon vs)"
| "canon (JObj fs) = JObj (sort_key fst (map (map_prod id canon) fs))"

definition MAX_PAYLOAD :: nat where
  "MAX_PAYLOAD = 128 * 1024"

definition bounded :: "nat \<Rightarrow> json \<Rightarrow> pyexc + json" where
  "bounded limit v = (if length (dumps v) > limit then Inl (Denied ''PAYLOAD_BOUND'') else Inr (canon v))"

definition digest :: "(str \<Rightarrow> str) \<Rightarrow> json \<Rightarrow> str" where
  "digest sha v = sha (dumps v)"

text \<open>\<open>v.get(k)\<close> on an object; a value that is not an object has no fields.\<close>

fun jget :: "str \<Rightarrow> json \<Rightarrow> json option" where
  "jget k (JObj fs) = map_of fs k"
| "jget k _ = None"

fun jstr :: "json option \<Rightarrow> str option" where
  "jstr (Some (JStr s)) = Some s"
| "jstr _ = None"

fun jint :: "json option \<Rightarrow> int option" where
  "jint (Some (JInt i)) = Some i"
| "jint _ = None"

text \<open>\<open>type(v) in (int, float)\<close> and finite.\<close>

fun jnum :: "json option \<Rightarrow> rat option" where
  "jnum (Some (JInt i)) = Some (of_int i)"
| "jnum (Some (JFloat t q)) = Some q"
| "jnum _ = None"

section \<open>The canonical form\<close>

lemma sort_key_map_fst:
  "map (map_prod id f) (sort_key fst xs) = sort_key fst (map (map_prod id f) xs)"
proof -
  have ins: "map (map_prod id f) (insort_key fst x xs) = insort_key fst (map_prod id f x) (map (map_prod id f) xs)"
    for x xs
    by (induction xs) auto
  show ?thesis
    by (induction xs) (simp_all add: ins [unfolded id_def])
qed

lemma sort_key_idem: "sort_key f (sort_key f xs) = sort_key f xs"
  by (rule sort_key_id_if_sorted) simp

lemma dumps_canon [simp]: "dumps (canon v) = dumps v"
proof (induction v)
  case (JArr vs)
  then have "map (dumps \<circ> canon) vs = map dumps vs" by simp
  then show ?case by (simp only: canon.simps dumps.simps map_map)
next
  case (JObj fs)
  have "map (map_prod id dumps) (map (map_prod id canon) fs) = map (map_prod id dumps) fs"
    using JObj.IH by (auto simp: snds.simps)
  then show ?case
    by (simp add: sort_key_map_fst sort_key_idem del: map_map)
qed auto

lemma canon_idem [simp]: "canon (canon v) = canon v"
proof (induction v)
  case (JObj fs)
  have "map (map_prod id canon) (map (map_prod id canon) fs) = map (map_prod id canon) fs"
    using JObj.IH by (auto simp: snds.simps)
  then show ?case
    by (simp add: sort_key_map_fst sort_key_idem del: map_map)
qed auto

lemma bounded_Inr [ok_simps]: "(bounded n v = Inr w) = (length (dumps v) \<le> n \<and> w = canon v)"
  by (auto simp: bounded_def)

lemma bounded_again: "bounded n v = Inr w \<Longrightarrow> bounded n w = Inr w"
  by (simp add: bounded_Inr)

lemma digest_canon: "digest sha (canon v) = digest sha v"
  by (simp add: digest_def)

end
