(* ===== verification/Dates.thy ===== *)
theory Dates
  imports Prelude
begin

text \<open>
  Python's \<open>datetime.date\<close>: a date is a year, month and day; \<open>toordinal\<close> numbers the days of
  the proleptic Gregorian calendar from 1 January of year 1, so \<open>timedelta\<close> arithmetic and
  comparison are arithmetic on ordinals. \<open>iso_ordinal\<close> is \<open>date.fromisoformat\<close> followed by
  \<open>toordinal\<close>, for the calendar and the week forms.
\<close>

record date =
  d_year :: int
  d_month :: int
  d_day :: int

definition leap :: "int \<Rightarrow> bool" where
  "leap y = (y mod 4 = 0 \<and> (y mod 100 \<noteq> 0 \<or> y mod 400 = 0))"

definition days_in_month :: "int \<Rightarrow> int \<Rightarrow> int" where
  "days_in_month y m = (if m = 2 then (if leap y then 29 else 28)
     else if m = 4 \<or> m = 6 \<or> m = 9 \<or> m = 11 then 30 else 31)"

definition valid_date :: "date \<Rightarrow> bool" where
  "valid_date d = (1 \<le> d_year d \<and> d_year d \<le> 9999 \<and> 1 \<le> d_month d \<and> d_month d \<le> 12 \<and>
     1 \<le> d_day d \<and> d_day d \<le> days_in_month (d_year d) (d_month d))"

definition days_before_year :: "int \<Rightarrow> int" where
  "days_before_year y = (y - 1) * 365 + (y - 1) div 4 - (y - 1) div 100 + (y - 1) div 400"

definition month_offset :: "int \<Rightarrow> int" where
  "month_offset m = (if m \<le> 1 then 0 else if m = 2 then 31 else if m = 3 then 59 else if m = 4 then 90
     else if m = 5 then 120 else if m = 6 then 151 else if m = 7 then 181 else if m = 8 then 212
     else if m = 9 then 243 else if m = 10 then 273 else if m = 11 then 304 else 334)"

definition days_before_month :: "int \<Rightarrow> int \<Rightarrow> int" where
  "days_before_month y m = month_offset m + (if 2 < m \<and> leap y then 1 else 0)"

definition toordinal :: "date \<Rightarrow> int" where
  "toordinal d = days_before_year (d_year d) + days_before_month (d_year d) (d_month d) + d_day d"

text \<open>\<open>date.weekday()\<close>: Monday is 0.\<close>

definition weekday :: "int \<Rightarrow> int" where
  "weekday n = (n + 6) mod 7"

definition date_min :: date where
  "date_min = \<lparr>d_year = 1, d_month = 1, d_day = 1\<rparr>"

section \<open>Parsing\<close>

definition is_digit :: "char \<Rightarrow> bool" where
  "is_digit c = (CHR ''0'' \<le> c \<and> c \<le> CHR ''9'')"

definition num_of :: "str \<Rightarrow> int" where
  "num_of s = foldl (\<lambda>n c. 10 * n + (of_char c - 48)) 0 s"

definition fixed_num :: "nat \<Rightarrow> str \<Rightarrow> int option" where
  "fixed_num n s = (if length s = n \<and> list_all is_digit s then Some (num_of s) else None)"

definition isoweek1monday :: "int \<Rightarrow> int" where
  "isoweek1monday y = (let first = days_before_year y + 1; fw = (first + 6) mod 7; wk = first - fw
     in if 3 < fw then wk + 7 else wk)"

definition week_ordinal :: "int \<Rightarrow> int \<Rightarrow> int \<Rightarrow> int option" where
  "week_ordinal y w d = (let fw = (days_before_year y + 1) mod 7 in
     if 1 \<le> y \<and> y \<le> 9999 \<and> 1 \<le> d \<and> d \<le> 7 \<and>
        (1 \<le> w \<and> w \<le> 52 \<or> w = 53 \<and> (fw = 4 \<or> fw = 3 \<and> leap y))
     then Some (isoweek1monday y + (w - 1) * 7 + (d - 1)) else None)"

definition ymd_ordinal :: "int option \<Rightarrow> int option \<Rightarrow> int option \<Rightarrow> int option" where
  "ymd_ordinal y m d = (case (y, m, d) of
     (Some y, Some m, Some d) \<Rightarrow>
       (let dt = \<lparr>d_year = y, d_month = m, d_day = d\<rparr> in if valid_date dt then Some (toordinal dt) else None)
   | _ \<Rightarrow> None)"

definition ywd_ordinal :: "int option \<Rightarrow> int option \<Rightarrow> int option \<Rightarrow> int option" where
  "ywd_ordinal y w d = (case (y, w, d) of (Some y, Some w, Some d) \<Rightarrow> week_ordinal y w d | _ \<Rightarrow> None)"

definition iso_ordinal :: "str \<Rightarrow> int option" where
  "iso_ordinal s = (let n = length s; y = fixed_num 4 (take 4 s) in
     if n = 10 \<and> s ! 4 = CHR ''-'' \<and> s ! 5 = CHR ''W'' then
       (if s ! 8 = CHR ''-'' then ywd_ordinal y (fixed_num 2 (take 2 (drop 6 s))) (fixed_num 1 (drop 9 s)) else None)
     else if n = 10 then
       (if s ! 4 = CHR ''-'' \<and> s ! 7 = CHR ''-''
        then ymd_ordinal y (fixed_num 2 (take 2 (drop 5 s))) (fixed_num 2 (drop 8 s)) else None)
     else if n = 8 \<and> s ! 4 = CHR ''-'' then
       (if s ! 5 = CHR ''W'' then ywd_ordinal y (fixed_num 2 (drop 6 s)) (Some 1) else None)
     else if n = 8 \<and> s ! 4 = CHR ''W'' then ywd_ordinal y (fixed_num 2 (take 2 (drop 5 s))) (fixed_num 1 (drop 7 s))
     else if n = 8 then ymd_ordinal y (fixed_num 2 (take 2 (drop 4 s))) (fixed_num 2 (drop 6 s))
     else if n = 7 \<and> s ! 4 = CHR ''W'' then ywd_ordinal y (fixed_num 2 (drop 5 s)) (Some 1)
     else None)"

section \<open>Ordinals\<close>

lemma leap_year_length: "days_before_year (y + 1) - days_before_year y = (if leap y then 366 else 365)"
proof -
  have step: "(y div n) - ((y - 1) div n) = (if y mod n = 0 then 1 else 0)" if "0 < n" for n :: int
  proof -
    define q r where "q = y div n" and "r = y mod n"
    have y: "y = n * q + r" "0 \<le> r" "r < n" using that by (simp_all add: q_def r_def)
    show ?thesis
    proof (cases "r = 0")
      case True
      have "y - 1 = n * (q - 1) + (n - 1)" using y True by (simp add: algebra_simps)
      then have "(y - 1) div n = q - 1" using that by (intro int_div_pos_eq [where r = "n - 1"]) auto
      with True show ?thesis by (simp add: q_def r_def)
    next
      case False
      have "y - 1 = n * q + (r - 1)" using y by simp
      then have "(y - 1) div n = q" using y False by (intro int_div_pos_eq [where r = "r - 1"]) auto
      with False show ?thesis by (simp add: q_def r_def)
    qed
  qed
  have "(400::int) dvd y \<Longrightarrow> 100 dvd y" by (rule dvd_trans [of 100 400]) simp_all
  moreover have "(100::int) dvd y \<Longrightarrow> 4 dvd y" by (rule dvd_trans [of 4 100]) simp_all
  ultimately have sub: "y mod 400 = 0 \<Longrightarrow> y mod 100 = 0" "y mod 100 = 0 \<Longrightarrow> y mod 4 = 0"
    by (simp_all add: dvd_eq_mod_eq_0)
  have "days_before_year (y + 1) - days_before_year y =
      365 + (y div 4 - (y - 1) div 4) - (y div 100 - (y - 1) div 100) + (y div 400 - (y - 1) div 400)"
    by (simp add: days_before_year_def)
  also have "\<dots> = 365 + (if y mod 4 = 0 then 1 else 0) - (if y mod 100 = 0 then 1 else 0)
      + (if y mod 400 = 0 then 1 else 0)"
    by (simp only: step [of 4] step [of 100] step [of 400] zero_less_numeral)
  also have "\<dots> = (if leap y then 366 else 365)"
    unfolding leap_def using sub by (cases "y mod 400 = 0"; cases "y mod 100 = 0"; cases "y mod 4 = 0") simp_all
  finally show ?thesis .
qed

lemma days_in_month_le: "days_in_month y m \<le> 31"
  by (simp add: days_in_month_def)

end
