(* ===== verification/SubjectIdentity.thy ===== *)
theory SubjectIdentity
  imports Dates "HOL-Library.Code_Target_Nat"
begin

text \<open>
  Acquisition-subject identity: app/reporting/acquisition_subjects.py. One strict parser for the opportunity ids of
  every kind, the percent-encoding of free scope text, the anchor an id resolves to, and the identities of the new kinds, which are
  recognised but never emitted.

  A scope text is kept as its UTF-8 bytes, one per character, so \<open>valid_utf8\<close> says that bytes are a text. Python's
  \<open>$\<close> also matches before one final newline; \<open>line_of\<close> writes that out. \<open>int(text)\<close> is unbounded here
  (CPython refuses more than 4300 digits). Error messages are left out: a raise is its exception class.
\<close>

section \<open>Splitting\<close>

text \<open>\<open>s.split(c)\<close> and \<open>s.split(c, n)\<close> for a one-character separator.\<close>

fun split_on :: "char \<Rightarrow> str \<Rightarrow> str list" where
  "split_on c [] = [[]]"
| "split_on c (x # xs) = (if x = c then [] # split_on c xs
     else (case split_on c xs of [] \<Rightarrow> [[x]] | p # ps \<Rightarrow> (x # p) # ps))"

fun split_max :: "char \<Rightarrow> nat \<Rightarrow> str \<Rightarrow> str list" where
  "split_max c 0 s = [s]"
| "split_max c (Suc n) s = (case dropWhile (\<lambda>x. x \<noteq> c) s of [] \<Rightarrow> [s] | _ # rest \<Rightarrow> takeWhile (\<lambda>x. x \<noteq> c) s # split_max c n rest)"

lemma split_on_nonempty [simp]: "split_on c s \<noteq> []"
  by (induction s) (auto split: list.splits)

lemma join_split_on: "join [c] (split_on c s) = s"
proof (induction s)
  case (Cons x xs)
  then show ?case by (cases "split_on c xs" rule: list.exhaust; cases "tl (split_on c xs)") (auto split: list.splits)
qed simp

lemma split_on_plain [simp]: "c \<notin> set s \<Longrightarrow> split_on c s = [s]"
  by (induction s) auto

lemma split_on_step [simp]: "c \<notin> set p \<Longrightarrow> split_on c (p @ c # s) = p # split_on c s"
  by (induction p) auto

lemma split_on_parts: "p \<in> set (split_on c s) \<Longrightarrow> c \<notin> set p"
  by (induction s arbitrary: p) (auto split: list.splits if_splits)

lemma split_max_Suc: "split_max c (Suc n) s = (case split_on c s of p # q # ps \<Rightarrow> p # split_max c n (join [c] (q # ps)) | _ \<Rightarrow> [s])"
proof (cases "c \<in> set s")
  case True
  then obtain p r where s: "s = p @ c # r" "c \<notin> set p" by (meson split_list_first)
  obtain q ps where r: "split_on c r = q # ps" by (cases "split_on c r") auto
  have "takeWhile (\<lambda>x. x \<noteq> c) s = p" "dropWhile (\<lambda>x. x \<noteq> c) s = c # r"
    using s by (auto simp: takeWhile_append dropWhile_append)
  moreover have "join [c] (q # ps) = r" using join_split_on [of c r] r by simp
  ultimately show ?thesis using s r by simp
next
  case False
  then have "dropWhile (\<lambda>x. x \<noteq> c) s = []" by (auto simp: dropWhile_eq_Nil_conv)
  with False show ?thesis by (simp del: dropWhile_eq_Nil_conv)
qed

section \<open>Percent-encoding\<close>

definition is_alnum :: "char \<Rightarrow> bool" where
  "is_alnum c = (is_digit c \<or> CHR ''A'' \<le> c \<and> c \<le> CHR ''Z'' \<or> CHR ''a'' \<le> c \<and> c \<le> CHR ''z'')"

definition unreserved :: "char \<Rightarrow> bool" where
  "unreserved c = (is_alnum c \<or> c \<in> set ''-._~'')"

definition hex_upper :: "nat \<Rightarrow> char" where
  "hex_upper d = (if d < 10 then char_of (48 + d) else char_of (55 + d))"

definition hex_value :: "char \<Rightarrow> nat option" where
  "hex_value c = (let n = of_char c in if is_digit c then Some (n - 48)
     else if CHR ''A'' \<le> c \<and> c \<le> CHR ''F'' then Some (n - 55)
     else if CHR ''a'' \<le> c \<and> c \<le> CHR ''f'' then Some (n - 87) else None)"

definition pct :: "char \<Rightarrow> str" where
  "pct c = (if unreserved c then [c] else [CHR ''%'', hex_upper (of_char c div 16), hex_upper (of_char c mod 16)])"

definition quote :: "str \<Rightarrow> str" where
  "quote s = concat (map pct s)"

fun unquote :: "str \<Rightarrow> str" where
  "unquote [] = []"
| "unquote (c # s) = (if c = CHR ''%''
     then (case s of h # l # r \<Rightarrow> (case (hex_value h, hex_value l) of
              (Some a, Some b) \<Rightarrow> char_of (16 * a + b) # unquote r
            | _ \<Rightarrow> c # unquote s)
          | _ \<Rightarrow> c # unquote s)
     else c # unquote s)"

text \<open>Python's strict UTF-8 decoder accepts exactly these byte sequences.\<close>

definition cont :: "char \<Rightarrow> bool" where
  "cont c = (128 \<le> (of_char c :: nat) \<and> (of_char c :: nat) < 192)"

fun valid_utf8 :: "str \<Rightarrow> bool" where
  "valid_utf8 [] = True"
| "valid_utf8 (c # s) = (let n = of_char c :: nat in
     if n < 128 then valid_utf8 s
     else if 194 \<le> n \<and> n < 224 then (case s of d # r \<Rightarrow> cont d \<and> valid_utf8 r | _ \<Rightarrow> False)
     else if 224 \<le> n \<and> n < 240 then (case s of d # e # r \<Rightarrow> cont d \<and> cont e \<and> (n = 224 \<longrightarrow> 160 \<le> (of_char d :: nat)) \<and>
         (n = 237 \<longrightarrow> (of_char d :: nat) < 160) \<and> valid_utf8 r | _ \<Rightarrow> False)
     else if 240 \<le> n \<and> n < 245 then (case s of d # e # f # r \<Rightarrow> cont d \<and> cont e \<and> cont f \<and> (n = 240 \<longrightarrow> 144 \<le> (of_char d :: nat)) \<and>
         (n = 244 \<longrightarrow> (of_char d :: nat) < 144) \<and> valid_utf8 r | _ \<Rightarrow> False)
     else False)"

section \<open>The grammar\<close>

datatype subject_error = UnknownOpportunityKind | MalformedOpportunityId | IdentityTooLong | NewKindNotEmitCapable

definition PLANNING_DELIVERY_ID :: str where
  "PLANNING_DELIVERY_ID = ''planning_delivery''"

definition STRATEGIC_LAND_ID :: str where
  "STRATEGIC_LAND_ID = ''strategic_land''"

definition LIFECYCLE_KINDS :: "str list" where
  "LIFECYCLE_KINDS = [''site'', ''recent_permission'', ''long_pending_application'']"

definition NEW_KINDS :: "(str \<times> str) list" where
  "NEW_KINDS = [(''component'', ''MIXED_COMPONENT''), (''affordable_package'', ''AFFORDABLE_PACKAGE''), (''residual'', ''RESIDUAL_OPPORTUNITY'')]"

definition NEW_KIND_ANCHOR_PREFIX :: "(str \<times> str) list" where
  "NEW_KIND_ANCHOR_PREFIX = [(''component'', ''component~''), (''affordable_package'', ''affordable~''), (''residual'', ''residual~'')]"

definition EMIT_CAPABLE_NEW_KINDS :: "str list" where
  "EMIT_CAPABLE_NEW_KINDS = []"

definition MAX_OPPORTUNITY_ID_LENGTH :: nat where "MAX_OPPORTUNITY_ID_LENGTH = 200"
definition MAX_KIND_LENGTH :: nat where "MAX_KIND_LENGTH = 50"
definition MAX_ANCHOR_SCOPE_KEY_LENGTH :: nat where "MAX_ANCHOR_SCOPE_KEY_LENGTH = 100"
definition MAX_ANCHOR_ID :: int where "MAX_ANCHOR_ID = 2 ^ 31 - 1"

record parsed_id =
  pi_domain :: str
  pi_kind :: str
  pi_anchor :: int
  pi_scope :: "str option"
  pi_legacy_scope :: "str option"
  pi_is_legacy :: bool

definition subject_of :: "str \<Rightarrow> str \<Rightarrow> int \<Rightarrow> str option \<Rightarrow> str option \<Rightarrow> bool \<Rightarrow> parsed_id" where
  "subject_of d k n sc leg old = \<lparr>pi_domain = d, pi_kind = k, pi_anchor = n, pi_scope = sc, pi_legacy_scope = leg, pi_is_legacy = old\<rparr>"

text \<open>The text that \<open>^...$\<close> has to match: a final newline is not part of it.\<close>

definition line_of :: "str \<Rightarrow> str" where
  "line_of s = (if s \<noteq> [] \<and> last s = CHR 0x0A then butlast s else s)"

fun canonical_digits :: "str \<Rightarrow> bool" where
  "canonical_digits [] = False"
| "canonical_digits (c # s) = (is_digit c \<and> c \<noteq> CHR ''0'' \<and> list_all is_digit s)"

definition safe_scope_key :: "str \<Rightarrow> bool" where
  "safe_scope_key s = (line_of s \<noteq> [] \<and> list_all (\<lambda>c. unreserved c \<or> c = CHR ''%'') (line_of s))"

definition canonical_anchor_id :: "str \<Rightarrow> subject_error + int" where
  "canonical_anchor_id t = (if \<not> canonical_digits (line_of t) then Inl MalformedOpportunityId
     else let v = num_of (strip t) in if MAX_ANCHOR_ID < v then Inl MalformedOpportunityId else Inr v)"

definition encode_scope_key :: "str \<Rightarrow> subject_error + str" where
  "encode_scope_key raw = (if raw = [] then Inl MalformedOpportunityId else Inr (quote raw))"

definition decode_scope_key :: "str \<Rightarrow> subject_error + str" where
  "decode_scope_key key = (if \<not> safe_scope_key key then Inl MalformedOpportunityId
     else let raw = unquote key in
       if \<not> valid_utf8 raw then Inl MalformedOpportunityId
       else if raw = [] \<or> encode_scope_key raw \<noteq> Inr key then Inl MalformedOpportunityId
       else Inr raw)"

definition new_kind_anchor_scope_key :: "str \<Rightarrow> str \<Rightarrow> subject_error + str" where
  "new_kind_anchor_scope_key kind key =
    (case map_of NEW_KIND_ANCHOR_PREFIX kind of None \<Rightarrow> Inl UnknownOpportunityKind
     | Some p \<Rightarrow> (case decode_scope_key key of Inl e \<Rightarrow> Inl e
       | Inr _ \<Rightarrow> if MAX_ANCHOR_SCOPE_KEY_LENGTH < length (p @ key) then Inl IdentityTooLong else Inr (p @ key)))"

definition id_of :: "str list \<Rightarrow> str" where
  "id_of parts = join '':'' parts"

definition build_new_kind_opportunity_id :: "str \<Rightarrow> int \<Rightarrow> str \<Rightarrow> subject_error + str" where
  "build_new_kind_opportunity_id kind site raw =
    (if kind \<notin> set (map fst NEW_KINDS) then Inl UnknownOpportunityKind
     else if \<not> (1 \<le> site \<and> site \<le> MAX_ANCHOR_ID) then Inl MalformedOpportunityId
     else (case encode_scope_key raw of Inl e \<Rightarrow> Inl e
     | Inr key \<Rightarrow> (case new_kind_anchor_scope_key kind key of Inl e \<Rightarrow> Inl e
     | Inr _ \<Rightarrow> let oid = id_of [PLANNING_DELIVERY_ID, kind, int_str site, key] in
         if MAX_OPPORTUNITY_ID_LENGTH < length oid \<or> MAX_KIND_LENGTH < length kind then Inl IdentityTooLong else Inr oid)))"

definition parsed_with :: "str \<Rightarrow> str \<Rightarrow> str option \<Rightarrow> str option \<Rightarrow> bool \<Rightarrow> subject_error + int \<Rightarrow> subject_error + parsed_id" where
  "parsed_with d k sc leg old anchor = (case anchor of Inl e \<Rightarrow> Inl e
     | Inr n \<Rightarrow> Inr (subject_of d k n sc leg old))"

definition parse_phase_id :: "str \<Rightarrow> subject_error + parsed_id" where
  "parse_phase_id oid = (let head = split_max CHR '':'' 3 oid; parts = split_on CHR '':'' oid in
     if length head \<noteq> 4 \<or> head ! 3 = [] then Inl MalformedOpportunityId
     else parsed_with PLANNING_DELIVERY_ID ''phase'' (Some (head ! 3)) (Some (parts ! 3)) True (canonical_anchor_id (head ! 2)))"

definition parse_new_kind_id :: "str \<Rightarrow> str \<Rightarrow> subject_error + parsed_id" where
  "parse_new_kind_id kind oid = (let parts = split_on CHR '':'' oid in
     if length parts \<noteq> 4 then Inl MalformedOpportunityId
     else (case canonical_anchor_id (parts ! 2) of Inl e \<Rightarrow> Inl e
     | Inr n \<Rightarrow> let key = parts ! 3 in
       (case decode_scope_key key of Inl e \<Rightarrow> Inl e
        | Inr _ \<Rightarrow> (case new_kind_anchor_scope_key kind key of Inl e \<Rightarrow> Inl e
        | Inr _ \<Rightarrow> if MAX_OPPORTUNITY_ID_LENGTH < length oid \<or> MAX_KIND_LENGTH < length kind then Inl IdentityTooLong
            else parsed_with PLANNING_DELIVERY_ID kind (Some key) None False (Inr n)))))"

definition parse_opportunity_id :: "str \<Rightarrow> subject_error + parsed_id" where
  "parse_opportunity_id oid =
    (let parts = split_on CHR '':'' oid in
     if oid = [] \<or> length parts < 3 then Inl MalformedOpportunityId
     else let domain = parts ! 0; kind = parts ! 1 in
     if domain = STRATEGIC_LAND_ID then
       (if kind \<noteq> ''allocation'' then Inl UnknownOpportunityKind
        else if length parts \<noteq> 3 then Inl MalformedOpportunityId
        else parsed_with STRATEGIC_LAND_ID ''allocation'' None None True (canonical_anchor_id (parts ! 2)))
     else if domain \<noteq> PLANNING_DELIVERY_ID then Inl UnknownOpportunityKind
     else if kind \<in> set LIFECYCLE_KINDS then
       (if length parts \<noteq> 3 then Inl MalformedOpportunityId
        else parsed_with PLANNING_DELIVERY_ID kind None None True (canonical_anchor_id (parts ! 2)))
     else if kind = ''phase'' then parse_phase_id oid
     else if kind \<in> set (map fst NEW_KINDS) then parse_new_kind_id kind oid
     else Inl UnknownOpportunityKind)"

definition resolve_anchor_key :: "parsed_id \<Rightarrow> str \<Rightarrow> subject_error + (str \<times> int \<times> str option)" where
  "resolve_anchor_key p ty =
    (if pi_domain p \<noteq> ty then Inl MalformedOpportunityId
     else if pi_domain p = STRATEGIC_LAND_ID then Inr (STRATEGIC_LAND_ID, pi_anchor p, Some ''WHOLE_ALLOCATION'')
     else if pi_kind p = ''phase'' then Inr (PLANNING_DELIVERY_ID, pi_anchor p, pi_legacy_scope p)
     else if pi_kind p \<in> set LIFECYCLE_KINDS then Inr (PLANNING_DELIVERY_ID, pi_anchor p, Some ''WHOLE_SITE'')
     else if pi_kind p \<in> set (map fst NEW_KINDS) then
       (if pi_kind p \<notin> set EMIT_CAPABLE_NEW_KINDS then Inl NewKindNotEmitCapable
        else (case pi_scope p of None \<Rightarrow> Inl MalformedOpportunityId
          | Some key \<Rightarrow> (case new_kind_anchor_scope_key (pi_kind p) key of Inl e \<Rightarrow> Inl e
             | Inr k \<Rightarrow> Inr (PLANNING_DELIVERY_ID, pi_anchor p, Some k))))
     else Inl UnknownOpportunityKind)"

definition family_identity :: "parsed_id \<Rightarrow> str \<times> int" where
  "family_identity p = (pi_domain p, pi_anchor p)"

section \<open>Round trips of the encoding\<close>

lemma hex_value_upper [simp]: "d < 16 \<Longrightarrow> hex_value (hex_upper d) = Some d"
proof -
  have "\<forall>d\<in>set [0..<16]. hex_value (hex_upper d) = Some d" by code_simp
  then show "d < 16 \<Longrightarrow> hex_value (hex_upper d) = Some d" by simp
qed

lemma of_char_div16: "(of_char (c :: char) :: nat) div 16 < 16"
proof -
  have "(of_char c :: nat) < 256" by simp
  then show ?thesis by linarith
qed

lemma unreserved_neq: "unreserved c \<Longrightarrow> c \<noteq> CHR ''%'' \<and> c \<noteq> CHR '':'' \<and> c \<noteq> CHR 0x0A"
  by (auto simp: unreserved_def is_alnum_def is_digit_def less_eq_char_def)

lemma hex_upper_unreserved: "d < 16 \<Longrightarrow> unreserved (hex_upper d)"
proof -
  have "\<forall>d\<in>set [0..<16]. unreserved (hex_upper d)" by code_simp
  then show "d < 16 \<Longrightarrow> unreserved (hex_upper d)" by simp
qed

lemma unquote_pct: "unquote (pct c @ r) = c # unquote r"
  using unreserved_neq [of c] of_char_div16 [of c]
  by (auto simp: pct_def mult.commute [of 16] div_mult_mod_eq)

lemma unquote_quote [simp]: "unquote (quote s) = s"
  by (induction s) (simp_all add: quote_def unquote_pct)

lemma quote_chars: "list_all (\<lambda>c. unreserved c \<or> c = CHR ''%'') (quote s)"
  by (induction s) (auto simp: quote_def pct_def hex_upper_unreserved of_char_div16)

lemma quote_plain: "CHR '':'' \<notin> set (quote s)" "CHR 0x0A \<notin> set (quote s)"
  using quote_chars [of s] unreserved_neq by (auto simp: list_all_iff)

lemma pct_nonempty: "pct c \<noteq> []"
  by (simp add: pct_def)

lemma quote_Nil [simp]: "(quote s = []) = (s = [])"
  by (cases s) (simp_all add: quote_def pct_nonempty)

lemma line_of_plain: "CHR 0x0A \<notin> set s \<Longrightarrow> line_of s = s"
  by (auto simp: line_of_def dest: last_in_set)

lemma decode_quote: "raw \<noteq> [] \<Longrightarrow> valid_utf8 raw \<Longrightarrow> decode_scope_key (quote raw) = Inr raw"
  using quote_chars [of raw]
  by (simp add: decode_scope_key_def safe_scope_key_def line_of_plain quote_plain encode_scope_key_def)

lemma decode_Inr: "(decode_scope_key key = Inr raw) = (raw \<noteq> [] \<and> valid_utf8 raw \<and> key = quote raw)"
proof
  assume "decode_scope_key key = Inr raw"
  then show "raw \<noteq> [] \<and> valid_utf8 raw \<and> key = quote raw"
    by (auto simp: decode_scope_key_def encode_scope_key_def Let_def split: if_splits)
qed (auto simp: decode_quote)

lemma char_digit: "d < 10 \<Longrightarrow> is_digit (digit_char d) \<and> (of_char (digit_char d) :: int) = 48 + int d \<and> (digit_char d = CHR ''0'') = (d = 0)"
proof -
  have "\<forall>d\<in>set [0..<10]. is_digit (digit_char d) \<and> (of_char (digit_char d) :: int) = 48 + int d \<and> (digit_char d = CHR ''0'') = (d = 0)" by code_simp
  then show "d < 10 \<Longrightarrow> is_digit (digit_char d) \<and> (of_char (digit_char d) :: int) = 48 + int d \<and> (digit_char d = CHR ''0'') = (d = 0)" by simp
qed

lemma num_of_snoc: "num_of (s @ [c]) = 10 * num_of s + (of_char c - 48)"
  by (simp add: num_of_def)

lemma nat_str_digits: "list_all is_digit (nat_str n) \<and> num_of (nat_str n) = int n \<and> (0 < n \<longrightarrow> hd (nat_str n) \<noteq> CHR ''0'')"
proof (induction n rule: nat_str.induct)
  case (1 n)
  show ?case
  proof (cases "n < 10")
    case True
    then show ?thesis using char_digit [of n] by (simp add: nat_str.simps [of n] num_of_def)
  next
    case False
    have "n mod 10 < 10" by simp
    note c = char_digit [OF this]
    have "int n = 10 * int (n div 10) + int (n mod 10)" by presburger
    with False 1 c show ?thesis
      by (subst (1 2 3) nat_str.simps) (auto simp: num_of_snoc)
  qed
qed

lemma strip_plain: "(\<And>c. c \<in> set s \<Longrightarrow> \<not> is_space c) \<Longrightarrow> strip s = s"
proof -
  assume "\<And>c. c \<in> set s \<Longrightarrow> \<not> is_space c"
  then have "dropWhile is_space t = t" if "set t = set s" for t
    using that by (cases t) auto
  then show ?thesis by (simp add: strip_def)
qed

lemma digit_not_space: "is_digit c \<Longrightarrow> \<not> is_space c \<and> c \<noteq> CHR '':'' \<and> c \<noteq> CHR 0x0A"
  by (auto simp: is_digit_def is_space_def less_eq_char_def)

lemma strip_digits: "list_all is_digit s \<Longrightarrow> strip s = s"
  by (rule strip_plain) (auto simp: list_all_iff digit_not_space)

lemma strip_newline: "s \<noteq> [] \<Longrightarrow> list_all is_digit s \<Longrightarrow> strip (s @ [CHR 0x0A]) = s"
proof -
  assume s: "s \<noteq> []" "list_all is_digit s"
  have keep: "dropWhile is_space (t @ u) = t @ u" if "set t = set s" for t u
  proof -
    from that s obtain c r where "t = c # r" "c \<in> set s" by (cases t) auto
    with s(2) show ?thesis by (simp add: list_all_iff digit_not_space)
  qed
  have "is_space CHR 0x0A" by (simp add: is_space_def)
  then have "dropWhile is_space (rev (s @ [CHR 0x0A])) = rev s"
    using keep [of "rev s" "[]"] by simp
  then show ?thesis using keep [of s "[CHR 0x0A]"] by (simp add: strip_def)
qed

lemma canonical_int_str:
  assumes "1 \<le> n"
  shows "canonical_digits (int_str n)" and "num_of (int_str n) = n" and "list_all is_digit (int_str n)" and "int_str n \<noteq> []"
proof -
  define s where "s = nat_str (nat n)"
  have d: "list_all is_digit s" "num_of s = n" "hd s \<noteq> CHR ''0''" "s \<noteq> []"
    using nat_str_digits [of "nat n"] assms by (auto simp: s_def)
  have i: "int_str n = s" using assms by (simp add: int_str_def s_def)
  show "canonical_digits (int_str n)" using d unfolding i by (cases s) auto
  show "num_of (int_str n) = n" "list_all is_digit (int_str n)" "int_str n \<noteq> []" using d unfolding i by auto
qed

lemma num_of_Cons: "num_of (c # s) = (of_char c - 48) * 10 ^ length s + num_of s"
  by (induction s rule: rev_induct) (simp_all add: num_of_def algebra_simps)

lemma digit_value: "is_digit c \<Longrightarrow> 0 \<le> (of_char c :: int) - 48 \<and> (of_char c :: int) - 48 \<le> 9 \<and> (c \<noteq> CHR ''0'' \<longrightarrow> 1 \<le> (of_char c :: int) - 48)
    \<and> c = digit_char (nat (of_char c - 48))"
proof -
  assume d: "is_digit c"
  define n :: nat where "n = of_char c"
  have c: "c = char_of n" by (simp add: n_def)
  have "48 \<le> n" "n < 58" using d by (auto simp: is_digit_def n_def less_eq_char_def)
  then have "n \<in> set [48..<58]" by (simp only: set_upt atLeastLessThan_iff)
  moreover have "\<forall>n\<in>set [48..<58]. let c = char_of n in 0 \<le> (of_char c :: int) - 48 \<and> (of_char c :: int) - 48 \<le> 9 \<and>
     (c \<noteq> CHR ''0'' \<longrightarrow> 1 \<le> (of_char c :: int) - 48) \<and> c = digit_char (nat (of_char c - 48))" by code_simp
  ultimately show ?thesis unfolding c Let_def by blast
qed

lemma digit_nat: "0 \<le> v \<and> v \<le> 9 \<and> P \<and> c = digit_char (nat v) \<Longrightarrow> \<exists>d. v = int d \<and> d < 10 \<and> c = digit_char d"
  by (intro exI [of _ "nat v"]) (simp add: nat_less_iff)

lemma num_of_nonneg: "list_all is_digit s \<Longrightarrow> 0 \<le> num_of s"
proof (induction s)
  case Nil
  show ?case by (simp add: num_of_def)
next
  case (Cons c s)
  then have "0 \<le> num_of s" "0 \<le> (of_char c :: int) - 48" using digit_value [of c] by auto
  then show ?case by (simp add: num_of_Cons)
qed

lemma num_of_pos: "canonical_digits s \<Longrightarrow> 1 \<le> num_of s"
proof (cases s)
  case (Cons c t)
  assume "canonical_digits s"
  with Cons have c: "1 \<le> (of_char c :: int) - 48" "0 \<le> num_of t" using digit_value [of c] num_of_nonneg [of t] by auto
  have "1 * 1 \<le> ((of_char c :: int) - 48) * 10 ^ length t" using c(1) by (intro mult_mono) auto
  with c(2) Cons show ?thesis by (simp add: num_of_Cons)
qed simp

lemma int_str_num_of: "canonical_digits s \<Longrightarrow> int_str (num_of s) = s"
proof (induction s rule: rev_induct)
  case (snoc c s)
  show ?case
  proof (cases "s = []")
    case True
    with snoc.prems have c: "is_digit c" by simp
    obtain d where d: "(of_char c :: int) - 48 = int d" "d < 10" "c = digit_char d"
      using digit_value [OF c] digit_nat by blast
    have "num_of [c] = int d" by (simp add: num_of_def d(1))
    moreover have "nat_str d = [digit_char d]" using d(2) by (subst nat_str.simps) simp
    ultimately show ?thesis using True d(3) by (simp add: int_str_def)
  next
    case False
    with snoc.prems have s: "canonical_digits s" and c: "is_digit c" by (cases s; auto)+
    define m where "m = nat (num_of s)"
    have m: "num_of s = int m" "1 \<le> m" using num_of_pos [OF s] by (simp_all add: m_def)
    obtain d where d: "(of_char c :: int) - 48 = int d" "d < 10" "c = digit_char d"
      using digit_value [OF c] digit_nat by blast
    have "num_of (s @ [c]) = int (10 * m + d)" by (simp add: num_of_snoc m(1) d(1))
    moreover have "int_str (int (10 * m + d)) = nat_str m @ [digit_char d]"
    proof -
      have "\<not> 10 * m + d < 10" "(10 * m + d) div 10 = m" "(10 * m + d) mod 10 = d" using m(2) d(2) by simp_all
      then have "nat_str (10 * m + d) = nat_str m @ [digit_char d]" by (subst nat_str.simps) simp
      then show ?thesis by (simp only: int_str_def of_nat_less_0_iff if_False nat_int)
    qed
    moreover have "nat_str m = s" using snoc.IH [OF s] m(1) by (simp add: int_str_def)
    ultimately show ?thesis using d(3) by simp
  qed
qed simp

text \<open>An anchor segment is the decimal numeral of its number, perhaps with one final newline.\<close>

definition newline_or_not :: "str list" where
  "newline_or_not = [[], [CHR 0x0A]]"

lemma canonical_anchor_Inr: "(canonical_anchor_id t = Inr n) = (1 \<le> n \<and> n \<le> MAX_ANCHOR_ID \<and> t \<in> {int_str n @ nl |nl. nl \<in> set newline_or_not})"
proof
  assume a: "canonical_anchor_id t = Inr n"
  define s where "s = line_of t"
  have s: "canonical_digits s" and n: "n = num_of (strip t)" "n \<le> MAX_ANCHOR_ID"
    using a by (auto simp: canonical_anchor_id_def s_def Let_def split: if_splits)
  have d: "list_all is_digit s" "s \<noteq> []" using s by (cases s; auto)+
  have t: "t = s \<or> t = s @ [CHR 0x0A]" by (auto simp: s_def line_of_def) (metis append_butlast_last_id)
  then have "strip t = s" using strip_digits strip_newline d by auto
  with n(1) s have "s = int_str n" "1 \<le> n" by (simp_all add: int_str_num_of num_of_pos)
  with t n(2) show "1 \<le> n \<and> n \<le> MAX_ANCHOR_ID \<and> t \<in> {int_str n @ nl |nl. nl \<in> set newline_or_not}"
    by (auto simp: newline_or_not_def)
next
  assume a: "1 \<le> n \<and> n \<le> MAX_ANCHOR_ID \<and> t \<in> {int_str n @ nl |nl. nl \<in> set newline_or_not}"
  then have c: "canonical_digits (int_str n)" "num_of (int_str n) = n" "list_all is_digit (int_str n)" "int_str n \<noteq> []"
    by (simp_all add: canonical_int_str)
  then have "CHR 0x0A \<notin> set (int_str n)" using digit_not_space by (metis list_all_iff)
  then have "line_of (int_str n) = int_str n" by (rule line_of_plain)
  then show "canonical_anchor_id t = Inr n"
    using a c strip_digits [OF c(3)] strip_newline [OF c(4,3)] by (auto simp: canonical_anchor_id_def newline_or_not_def line_of_def)
qed

section \<open>Which ids are accepted\<close>

lemma split_on_Cons2:
  assumes "split_on c s = p # q # ps"
  shows "\<exists>r. s = p @ c # r \<and> c \<notin> set p \<and> split_on c r = q # ps"
proof (cases "c \<in> set s")
  case True
  then obtain a r where s: "s = a @ c # r" "c \<notin> set a" by (meson split_list_first)
  with assms show ?thesis by simp
next
  case False
  with assms show ?thesis by simp
qed

lemma split_on_single: "split_on c s = [p] \<Longrightarrow> s = p \<and> c \<notin> set p"
  using split_on_parts [of p c s] join_split_on [of c s] by auto

lemma split_on_hd: "hd (split_on c s) = takeWhile (\<lambda>x. x \<noteq> c) s"
  by (induction s) (auto split: list.splits)

lemma split_max_step [simp]: "c \<notin> set p \<Longrightarrow> split_max c (Suc n) (p @ c # s) = p # split_max c n s"
  by (auto simp: takeWhile_append dropWhile_append)

lemma split_max_plain [simp]: "c \<notin> set s \<Longrightarrow> split_max c n s = [s]"
proof (cases n)
  case (Suc m)
  assume "c \<notin> set s"
  then have "dropWhile (\<lambda>x. x \<noteq> c) s = []" by auto
  with Suc show ?thesis by (simp del: dropWhile_eq_Nil_conv)
qed simp

declare split_max.simps(2) [simp del]

lemma split_max_1: "c \<in> set s \<Longrightarrow> \<exists>p r. s = p @ c # r \<and> c \<notin> set p \<and> split_max c (Suc 0) s = [p, r]"
  by (metis split_list_first split_max.simps(1) split_max_step)

text \<open>The id of a parsed subject; \<open>nl\<close> is what may follow the anchor number.\<close>

definition id_text :: "parsed_id \<Rightarrow> str \<Rightarrow> str" where
  "id_text p nl = id_of ([pi_domain p, pi_kind p, int_str (pi_anchor p) @ nl] @ (case pi_scope p of None \<Rightarrow> [] | Some k \<Rightarrow> [k]))"

definition new_kind_scope :: "str \<Rightarrow> str \<Rightarrow> bool" where
  "new_kind_scope kind key = (\<exists>raw. raw \<noteq> [] \<and> valid_utf8 raw \<and> key = quote raw \<and>
     (\<exists>pre. map_of NEW_KIND_ANCHOR_PREFIX kind = Some pre \<and> length (pre @ key) \<le> MAX_ANCHOR_SCOPE_KEY_LENGTH))"

definition accepted :: "parsed_id \<Rightarrow> bool" where
  "accepted p = (1 \<le> pi_anchor p \<and> pi_anchor p \<le> MAX_ANCHOR_ID \<and>
    (if pi_domain p = STRATEGIC_LAND_ID then pi_kind p = ''allocation'' \<and> pi_scope p = None \<and> pi_legacy_scope p = None \<and> pi_is_legacy p
     else pi_domain p = PLANNING_DELIVERY_ID \<and>
      (if pi_kind p \<in> set LIFECYCLE_KINDS then pi_scope p = None \<and> pi_legacy_scope p = None \<and> pi_is_legacy p
       else if pi_kind p = ''phase'' then pi_is_legacy p \<and> pi_scope p \<noteq> Some [] \<and>
         (case pi_scope p of None \<Rightarrow> False | Some k \<Rightarrow> pi_legacy_scope p = Some (takeWhile (\<lambda>c. c \<noteq> CHR '':'') k))
       else \<not> pi_is_legacy p \<and> pi_legacy_scope p = None \<and> (case pi_scope p of None \<Rightarrow> False | Some k \<Rightarrow> new_kind_scope (pi_kind p) k))))"

lemma parsed_with_Inr: "(parsed_with d k sc leg old a = Inr p) =
    (\<exists>n. a = Inr n \<and> p = subject_of d k n sc leg old)"
  by (auto simp: parsed_with_def split: sum.splits)

lemma anchor_key_Inr: "(new_kind_anchor_scope_key kind key = Inr k) =
    (\<exists>pre raw. map_of NEW_KIND_ANCHOR_PREFIX kind = Some pre \<and> raw \<noteq> [] \<and> valid_utf8 raw \<and> key = quote raw \<and>
       k = pre @ key \<and> length (pre @ key) \<le> MAX_ANCHOR_SCOPE_KEY_LENGTH)"
  unfolding new_kind_anchor_scope_key_def
  by (cases "map_of NEW_KIND_ANCHOR_PREFIX kind"; cases "decode_scope_key key") (auto simp: decode_Inr decode_quote)

lemma kinds_plain:
  assumes "k \<in> set (''phase'' # ''allocation'' # LIFECYCLE_KINDS @ map fst NEW_KINDS)"
  shows "CHR '':'' \<notin> set k \<and> length k \<le> 24"
proof -
  have "list_all (\<lambda>k. CHR '':'' \<notin> set k \<and> length k \<le> 24) (''phase'' # ''allocation'' # LIFECYCLE_KINDS @ map fst NEW_KINDS)" by code_simp
  with assms show ?thesis unfolding list_all_iff by blast
qed

lemma domains_plain: "CHR '':'' \<notin> set STRATEGIC_LAND_ID" "CHR '':'' \<notin> set PLANNING_DELIVERY_ID" "STRATEGIC_LAND_ID \<noteq> PLANNING_DELIVERY_ID"
  "length PLANNING_DELIVERY_ID = 17"
  by (simp_all add: STRATEGIC_LAND_ID_def PLANNING_DELIVERY_ID_def)

lemma new_kind_keys:
  assumes "map_of NEW_KIND_ANCHOR_PREFIX k = Some pre"
  shows "k \<in> set (map fst NEW_KINDS) \<and> k \<notin> set LIFECYCLE_KINDS \<and> k \<noteq> ''phase'' \<and> 0 < length pre \<and> length k + 76 < 200"
proof -
  have "list_all (\<lambda>(k, pre). k \<in> set (map fst NEW_KINDS) \<and> k \<notin> set LIFECYCLE_KINDS \<and> k \<noteq> ''phase'' \<and> 0 < length pre \<and> length k + 76 < 200)
      NEW_KIND_ANCHOR_PREFIX" by code_simp
  with map_of_SomeD [OF assms] show ?thesis unfolding list_all_iff by blast
qed

lemma anchor_segment_plain: "1 \<le> n \<Longrightarrow> nl \<in> set newline_or_not \<Longrightarrow> CHR '':'' \<notin> set (int_str n @ nl)"
proof -
  assume a: "1 \<le> n" "nl \<in> set newline_or_not"
  have "CHR '':'' \<notin> set t" if "list_all is_digit t" for t using that digit_not_space by (induction t) auto
  from this [OF canonical_int_str(3) [OF a(1)]] a(2) show ?thesis by (auto simp: newline_or_not_def)
qed

lemma nat_str_length: "n < 10 ^ k \<Longrightarrow> 0 < k \<Longrightarrow> length (nat_str n) \<le> k"
proof (induction k arbitrary: n)
  case (Suc k)
  show ?case
  proof (cases "n < 10")
    case True
    then show ?thesis by (subst nat_str.simps) simp
  next
    case False
    with Suc.prems have "0 < k" "n div 10 < 10 ^ k" by (cases k; auto)+
    then have "length (nat_str (n div 10)) \<le> k" by (intro Suc.IH)
    with False show ?thesis by (subst nat_str.simps) simp
  qed
qed simp

lemma canonical_anchor_length: "canonical_anchor_id t = Inr n \<Longrightarrow> length t \<le> 11"
proof -
  assume "canonical_anchor_id t = Inr n"
  then obtain nl where t: "1 \<le> n" "n \<le> MAX_ANCHOR_ID" "t = int_str n @ nl" "nl \<in> set newline_or_not"
    unfolding canonical_anchor_Inr by blast
  then have "length (nat_str (nat n)) \<le> 10" by (intro nat_str_length) (auto simp: MAX_ANCHOR_ID_def nat_less_iff)
  with t show ?thesis by (auto simp: int_str_def newline_or_not_def)
qed

lemma parse_three: "split_on CHR '':'' oid = [d, k, t] \<Longrightarrow> oid = id_of [d, k, t]"
  using join_split_on [of "CHR '':''" oid] by (simp add: id_of_def)

lemma parse_four: "split_on CHR '':'' oid = [d, k, t, s] \<Longrightarrow> oid = id_of [d, k, t, s]"
  using join_split_on [of "CHR '':''" oid] by (simp add: id_of_def)

lemma split_id_of [simp]:
  "CHR '':'' \<notin> set d \<Longrightarrow> CHR '':'' \<notin> set k \<Longrightarrow> CHR '':'' \<notin> set t \<Longrightarrow> split_on CHR '':'' (id_of [d, k, t]) = [d, k, t]"
  "CHR '':'' \<notin> set d \<Longrightarrow> CHR '':'' \<notin> set k \<Longrightarrow> CHR '':'' \<notin> set t \<Longrightarrow>
     split_on CHR '':'' (id_of [d, k, t, s]) = d # k # t # split_on CHR '':'' s"
  by (simp_all add: id_of_def)

lemma id_of_nonempty [simp]: "id_of (d # k # r) \<noteq> []"
  by (simp add: id_of_def)

lemma first_sep: "c \<notin> set a \<Longrightarrow> c \<notin> set b \<Longrightarrow> (a @ c # r = b @ c # s) = (a = b \<and> r = s)"
proof (induction a arbitrary: b)
  case Nil
  then show ?case by (cases b) auto
next
  case (Cons x a)
  then show ?case by (cases b) auto
qed

lemma phase_id_Inr:
  assumes "split_on CHR '':'' oid = PLANNING_DELIVERY_ID # ''phase'' # q # qs"
  shows "(parse_phase_id oid = Inr p) = (\<exists>t code n. oid = id_of [PLANNING_DELIVERY_ID, ''phase'', t, code] \<and> CHR '':'' \<notin> set t \<and> code \<noteq> [] \<and>
    canonical_anchor_id t = Inr n \<and> p = subject_of PLANNING_DELIVERY_ID ''phase'' n (Some code) (Some (takeWhile (\<lambda>c. c \<noteq> CHR '':'') code)) True)"
proof -
  obtain r where r: "oid = PLANNING_DELIVERY_ID @ CHR '':'' # r" "split_on CHR '':'' r = ''phase'' # q # qs"
    using split_on_Cons2 [OF assms] by blast
  obtain u where u: "r = ''phase'' @ CHR '':'' # u" "split_on CHR '':'' u = q # qs"
    using split_on_Cons2 [OF r(2)] by blast
  have pre: "CHR '':'' \<notin> set PLANNING_DELIVERY_ID" "CHR '':'' \<notin> set ''phase''" by (simp_all add: domains_plain)
  have oid: "oid = PLANNING_DELIVERY_ID @ CHR '':'' # ''phase'' @ CHR '':'' # u" by (simp add: r u)
  have head: "split_max CHR '':'' 3 oid = PLANNING_DELIVERY_ID # ''phase'' # split_max CHR '':'' 1 u"
    unfolding oid numeral_3_eq_3 One_nat_def by (simp only: split_max_step [OF pre(1)] split_max_step [OF pre(2)])
  have four: "id_of [PLANNING_DELIVERY_ID, ''phase'', t, code] = PLANNING_DELIVERY_ID @ CHR '':'' # ''phase'' @ CHR '':'' # t @ CHR '':'' # code" for t code
    by (simp add: id_of_def)
  show ?thesis
  proof (cases "CHR '':'' \<in> set u")
    case False
    then have "parse_phase_id oid = Inl MalformedOpportunityId" by (simp add: parse_phase_id_def head Let_def)
    moreover have "oid \<noteq> id_of [PLANNING_DELIVERY_ID, ''phase'', t, code]" for t code
      using False unfolding oid four by auto
    ultimately show ?thesis by simp
  next
    case True
    then obtain t code where t: "u = t @ CHR '':'' # code" "CHR '':'' \<notin> set t" "split_max CHR '':'' 1 u = [t, code]"
      using split_max_1 [of "CHR '':''" u] by (auto simp: One_nat_def)
    have uniq: "(oid = id_of [PLANNING_DELIVERY_ID, ''phase'', t', code'] \<and> CHR '':'' \<notin> set t') = (t' = t \<and> code' = code)" for t' code'
    proof -
      have "(t @ CHR '':'' # code = t' @ CHR '':'' # code' \<and> CHR '':'' \<notin> set t') = (t' = t \<and> code' = code)"
        using first_sep [OF t(2), of t' code code'] t(2) by blast
      then show ?thesis unfolding oid four t(1) by simp
    qed
    have parts: "split_on CHR '':'' oid = PLANNING_DELIVERY_ID # ''phase'' # t # split_on CHR '':'' code"
      unfolding oid t(1) by (simp only: split_on_step [OF pre(1)] split_on_step [OF pre(2)] split_on_step [OF t(2)])
    have "parts ! 3 = takeWhile (\<lambda>c. c \<noteq> CHR '':'') code" if "parts = PLANNING_DELIVERY_ID # ''phase'' # t # split_on CHR '':'' code" for parts
      using that split_on_hd [of "CHR '':''" code] by (simp add: hd_conv_nth eval_nat_numeral)
    with head t(3) parts have "(parse_phase_id oid = Inr p) = (code \<noteq> [] \<and> (\<exists>n. canonical_anchor_id t = Inr n \<and>
        p = subject_of PLANNING_DELIVERY_ID ''phase'' n (Some code) (Some (takeWhile (\<lambda>c. c \<noteq> CHR '':'') code)) True))"
      by (simp add: parse_phase_id_def Let_def parsed_with_Inr eval_nat_numeral)
    also have "\<dots> = (\<exists>t' code' n. (oid = id_of [PLANNING_DELIVERY_ID, ''phase'', t', code'] \<and> CHR '':'' \<notin> set t') \<and> code' \<noteq> [] \<and>
        canonical_anchor_id t' = Inr n \<and> p = subject_of PLANNING_DELIVERY_ID ''phase'' n (Some code') (Some (takeWhile (\<lambda>c. c \<noteq> CHR '':'') code')) True)"
      unfolding uniq by blast
    finally show ?thesis by simp
  qed
qed

lemma short_parts: "(length ps < 3) = (\<nexists>d k t ts. ps = d # k # t # ts)" for ps :: "'a list"
  by (cases ps; cases "tl ps"; cases "tl (tl ps)") auto

lemma new_kind_id_Inr:
  assumes "split_on CHR '':'' oid = PLANNING_DELIVERY_ID # kind # q # qs" and "kind \<in> set (map fst NEW_KINDS)"
  shows "(parse_new_kind_id kind oid = Inr p) = (\<exists>t key n. oid = id_of [PLANNING_DELIVERY_ID, kind, t, key] \<and> CHR '':'' \<notin> set t \<and>
    new_kind_scope kind key \<and> canonical_anchor_id t = Inr n \<and> p = subject_of PLANNING_DELIVERY_ID kind n (Some key) None False)" (is "?l = ?r")
proof
  assume l: ?l
  then obtain key where parts: "split_on CHR '':'' oid = [PLANNING_DELIVERY_ID, kind, q, key]"
    using assms(1) by (cases qs; cases "tl qs") (auto simp: parse_new_kind_id_def)
  with l obtain n raw k where n: "canonical_anchor_id q = Inr n" and d: "decode_scope_key key = Inr raw" and k: "new_kind_anchor_scope_key kind key = Inr k"
    and p: "p = subject_of PLANNING_DELIVERY_ID kind n (Some key) None False"
    by (auto simp: parse_new_kind_id_def Let_def parsed_with_def eval_nat_numeral split: sum.splits if_splits)
  have "new_kind_scope kind key" using k by (auto simp: new_kind_scope_def anchor_key_Inr)
  moreover have "CHR '':'' \<notin> set q" using split_on_parts [of q "CHR '':''" oid] parts by simp
  ultimately show ?r using parse_four [OF parts] n p by blast
next
  assume ?r
  then obtain t key n where oid: "oid = id_of [PLANNING_DELIVERY_ID, kind, t, key]" and t: "CHR '':'' \<notin> set t" and key: "new_kind_scope kind key"
    and n: "canonical_anchor_id t = Inr n" and p: "p = subject_of PLANNING_DELIVERY_ID kind n (Some key) None False" by blast
  from key obtain raw pre where raw: "raw \<noteq> []" "valid_utf8 raw" "key = quote raw" and pre: "map_of NEW_KIND_ANCHOR_PREFIX kind = Some pre"
    and len: "length (pre @ key) \<le> MAX_ANCHOR_SCOPE_KEY_LENGTH" by (auto simp: new_kind_scope_def)
  have kp: "CHR '':'' \<notin> set kind" "length kind \<le> 24" using kinds_plain [of kind] assms(2) by auto
  have parts: "split_on CHR '':'' oid = [PLANNING_DELIVERY_ID, kind, t, key]"
    unfolding oid using t kp domains_plain quote_plain by (simp add: raw(3))
  have dk: "decode_scope_key key = Inr raw" using raw by (simp add: decode_quote)
  have ak: "new_kind_anchor_scope_key kind key = Inr (pre @ key)" using raw pre len by (auto simp: anchor_key_Inr)
  have "length t \<le> 11" by (rule canonical_anchor_length [OF n])
  then have "\<not> MAX_OPPORTUNITY_ID_LENGTH < length oid" "\<not> MAX_KIND_LENGTH < length kind"
    using kp len unfolding oid by (simp_all add: id_of_def domains_plain MAX_OPPORTUNITY_ID_LENGTH_def MAX_KIND_LENGTH_def MAX_ANCHOR_SCOPE_KEY_LENGTH_def)
  then show ?l using n dk ak p by (simp add: parse_new_kind_id_def parts Let_def parsed_with_def eval_nat_numeral)
qed

text \<open>The four shapes of an id, over the anchor segment \<open>t\<close>.\<close>

inductive id_shape :: "str \<Rightarrow> int \<Rightarrow> str \<Rightarrow> parsed_id \<Rightarrow> bool" for t :: str and n :: int where
  strategic: "id_shape t n (id_of [STRATEGIC_LAND_ID, ''allocation'', t]) (subject_of STRATEGIC_LAND_ID ''allocation'' n None None True)"
| lifecycle: "k \<in> set LIFECYCLE_KINDS \<Longrightarrow> id_shape t n (id_of [PLANNING_DELIVERY_ID, k, t]) (subject_of PLANNING_DELIVERY_ID k n None None True)"
| phase: "code \<noteq> [] \<Longrightarrow> id_shape t n (id_of [PLANNING_DELIVERY_ID, ''phase'', t, code])
    (subject_of PLANNING_DELIVERY_ID ''phase'' n (Some code) (Some (takeWhile (\<lambda>c. c \<noteq> CHR '':'') code)) True)"
| new_kind: "k \<in> set (map fst NEW_KINDS) \<Longrightarrow> new_kind_scope k key \<Longrightarrow> id_shape t n (id_of [PLANNING_DELIVERY_ID, k, t, key])
    (subject_of PLANNING_DELIVERY_ID k n (Some key) None False)"

lemma kinds_apart: "''phase'' \<notin> set LIFECYCLE_KINDS" "''phase'' \<notin> set (map fst NEW_KINDS)"
    "k \<in> set (map fst NEW_KINDS) \<Longrightarrow> k \<notin> set LIFECYCLE_KINDS \<and> k \<noteq> ''phase''"
proof -
  show "''phase'' \<notin> set LIFECYCLE_KINDS" "''phase'' \<notin> set (map fst NEW_KINDS)" by code_simp+
  have "list_all (\<lambda>k. k \<notin> set LIFECYCLE_KINDS \<and> k \<noteq> ''phase'') (map fst NEW_KINDS)" by code_simp
  then show "k \<in> set (map fst NEW_KINDS) \<Longrightarrow> k \<notin> set LIFECYCLE_KINDS \<and> k \<noteq> ''phase''" unfolding list_all_iff by blast
qed

lemma three_parts: "length ps = 3 \<Longrightarrow> ps ! 0 = d \<Longrightarrow> ps ! 1 = k \<Longrightarrow> ps = [d, k, ps ! 2]"
  by (cases ps; cases "tl ps"; cases "tl (tl ps)") auto

lemma parse_shapes_only:
  assumes "parse_opportunity_id oid = Inr p"
  shows "\<exists>t n. canonical_anchor_id t = Inr n \<and> id_shape t n oid p"
proof -
  define ps where "ps = split_on CHR '':'' oid"
  define d k where "d = ps ! 0" and "k = ps ! 1"
  have "\<not> (oid = [] \<or> length ps < 3) \<and>
    (if d = STRATEGIC_LAND_ID then (if k \<noteq> ''allocation'' then Inl UnknownOpportunityKind else if length ps \<noteq> 3 then Inl MalformedOpportunityId
        else parsed_with STRATEGIC_LAND_ID ''allocation'' None None True (canonical_anchor_id (ps ! 2)))
      else if d \<noteq> PLANNING_DELIVERY_ID then Inl UnknownOpportunityKind
      else if k \<in> set LIFECYCLE_KINDS then (if length ps \<noteq> 3 then Inl MalformedOpportunityId
        else parsed_with PLANNING_DELIVERY_ID k None None True (canonical_anchor_id (ps ! 2)))
      else if k = ''phase'' then parse_phase_id oid
      else if k \<in> set (map fst NEW_KINDS) then parse_new_kind_id k oid else Inl UnknownOpportunityKind) = Inr p" (is "\<not> ?short \<and> ?body = _")
    using assms unfolding parse_opportunity_id_def Let_def ps_def [symmetric] d_def k_def if_Inl_Inr [of _ MalformedOpportunityId] .
  then have long: "\<not> length ps < 3" and body: "?body = Inr p" by blast+
  then obtain q qs where split: "ps = d # k # q # qs" unfolding short_parts by (auto simp: d_def k_def)
  have three: "oid = id_of [d, k, ps ! 2]" if "length ps = 3"
    by (rule parse_three) (use three_parts [OF that d_def [symmetric] k_def [symmetric]] ps_def in simp)
  consider (strategic) "d = STRATEGIC_LAND_ID" "k = ''allocation''" "length ps = 3"
      "parsed_with STRATEGIC_LAND_ID ''allocation'' None None True (canonical_anchor_id (ps ! 2)) = Inr p"
    | (lifecycle) "d = PLANNING_DELIVERY_ID" "k \<in> set LIFECYCLE_KINDS" "length ps = 3"
      "parsed_with PLANNING_DELIVERY_ID k None None True (canonical_anchor_id (ps ! 2)) = Inr p"
    | (phase) "d = PLANNING_DELIVERY_ID" "k = ''phase''" "parse_phase_id oid = Inr p"
    | (new_kind) "d = PLANNING_DELIVERY_ID" "k \<in> set (map fst NEW_KINDS)" "parse_new_kind_id k oid = Inr p"
    using body by (auto split: if_split_asm)
  then show ?thesis
  proof cases
    case strategic
    then show ?thesis using three id_shape.strategic by (auto simp: parsed_with_Inr subject_of_def)
  next
    case lifecycle
    then show ?thesis using three id_shape.lifecycle [OF lifecycle(2)] by (auto simp: parsed_with_Inr subject_of_def)
  next
    case phase
    have "split_on CHR '':'' oid = PLANNING_DELIVERY_ID # ''phase'' # q # qs" using split phase(1,2) by (simp add: ps_def)
    from phase(3) [unfolded phase_id_Inr [OF this]] obtain t code n where "code \<noteq> []" and a: "canonical_anchor_id t = Inr n"
      and e: "oid = id_of [PLANNING_DELIVERY_ID, ''phase'', t, code]"
        "p = subject_of PLANNING_DELIVERY_ID ''phase'' n (Some code) (Some (takeWhile (\<lambda>c. c \<noteq> CHR '':'') code)) True"
      by (elim exE conjE) rule
    from id_shape.phase [OF this(1), of t n] a show ?thesis unfolding e by blast
  next
    case new_kind
    have "split_on CHR '':'' oid = PLANNING_DELIVERY_ID # k # q # qs" using split new_kind(1) by (simp add: ps_def)
    from new_kind(3) [unfolded new_kind_id_Inr [OF this new_kind(2)]] obtain t key n where "new_kind_scope k key" and a: "canonical_anchor_id t = Inr n"
      and e: "oid = id_of [PLANNING_DELIVERY_ID, k, t, key]" "p = subject_of PLANNING_DELIVERY_ID k n (Some key) None False"
      by (elim exE conjE) rule
    from id_shape.new_kind [OF new_kind(2) this(1), of t n] a show ?thesis unfolding e by blast
  qed
qed

lemma shapes_parse:
  assumes "id_shape t n oid p" and "canonical_anchor_id t = Inr n"
  shows "parse_opportunity_id oid = Inr p"
proof -
  have t: "CHR '':'' \<notin> set t" using assms(2) anchor_segment_plain unfolding canonical_anchor_Inr by blast
  have kp: "CHR '':'' \<notin> set k" if "k = ''phase'' \<or> k = ''allocation'' \<or> k \<in> set LIFECYCLE_KINDS \<or> k \<in> set (map fst NEW_KINDS)" for k
    using kinds_plain [of k] that by auto
  note defs = parse_opportunity_id_def parsed_with_def subject_of_def eval_nat_numeral
  from assms(1) show ?thesis
  proof cases
    case strategic
    then have "split_on CHR '':'' oid = [STRATEGIC_LAND_ID, ''allocation'', t]" using t domains_plain kp by simp
    with strategic assms(2) show ?thesis by (simp add: defs)
  next
    case (lifecycle k)
    then have "split_on CHR '':'' oid = [PLANNING_DELIVERY_ID, k, t]" using t domains_plain kp by simp
    with lifecycle assms(2) domains_plain show ?thesis by (simp add: defs)
  next
    case (phase code)
    then have parts: "split_on CHR '':'' oid = PLANNING_DELIVERY_ID # ''phase'' # t # split_on CHR '':'' code" using t domains_plain kp by simp
    have "parse_phase_id oid = Inr p" unfolding phase_id_Inr [OF parts] using phase t assms(2) unfolding subject_of_def by blast
    with parts domains_plain phase kinds_apart show ?thesis by (simp add: parse_opportunity_id_def)
  next
    case (new_kind k key)
    then have parts: "split_on CHR '':'' oid = PLANNING_DELIVERY_ID # k # t # split_on CHR '':'' key" using t domains_plain kp by simp
    have "parse_new_kind_id k oid = Inr p"
      unfolding new_kind_id_Inr [OF parts new_kind(3)] using new_kind t assms(2) unfolding subject_of_def by blast
    with parts domains_plain new_kind kinds_apart(3) [OF new_kind(3)] show ?thesis by (simp add: parse_opportunity_id_def)
  qed
qed

lemma shape_accepted:
  assumes "id_shape (int_str n @ nl) n oid p" and "1 \<le> n" and "n \<le> MAX_ANCHOR_ID"
  shows "accepted p \<and> oid = id_text p nl"
  using assms(1)
proof cases
  case (lifecycle k)
  with assms(2,3) domains_plain show ?thesis by (simp add: accepted_def id_text_def subject_of_def)
next
  case (phase code)
  with assms(2,3) domains_plain kinds_apart show ?thesis by (simp add: accepted_def id_text_def subject_of_def)
next
  case (new_kind k key)
  with assms(2,3) domains_plain kinds_apart(3) [OF new_kind(3)] show ?thesis by (simp add: accepted_def id_text_def subject_of_def)
qed (use assms(2,3) in \<open>simp add: accepted_def id_text_def subject_of_def\<close>)

lemma accepted_shape:
  assumes "accepted p"
  shows "id_shape (int_str (pi_anchor p) @ nl) (pi_anchor p) (id_text p nl) p"
proof -
  obtain d k n sc leg old where p: "p = subject_of d k n sc leg old" by (cases p) (simp add: subject_of_def)
  note a = assms [unfolded accepted_def p subject_of_def parsed_id.simps]
  show ?thesis
  proof (cases "d = STRATEGIC_LAND_ID")
    case True
    with a show ?thesis using id_shape.strategic by (simp add: p id_text_def subject_of_def)
  next
    case False
    with a have d: "d = PLANNING_DELIVERY_ID" by simp
    show ?thesis
    proof (cases "k \<in> set LIFECYCLE_KINDS")
      case True
      with a False show ?thesis using id_shape.lifecycle [OF True] by (simp add: p id_text_def subject_of_def)
    next
      case no_life: False
      show ?thesis
      proof (cases "k = ''phase''")
        case True
        from a False no_life True obtain c where c: "sc = Some c" by (cases sc) auto
        with a False no_life True show ?thesis using id_shape.phase [of c] by (simp add: p id_text_def subject_of_def)
      next
        case no_phase: False
        from a False no_life no_phase obtain c where c: "sc = Some c" "new_kind_scope k c" by (cases sc) auto
        then have "k \<in> set (map fst NEW_KINDS)" using new_kind_keys unfolding new_kind_scope_def by blast
        from id_shape.new_kind [OF this c(2)] a False no_life no_phase c show ?thesis by (simp add: p id_text_def subject_of_def)
      qed
    qed
  qed
qed

text \<open>
  C36. The parser accepts exactly the texts of well-formed subjects: the five existing shapes (site, recent permission, long pending, phase, allocation)
  and the three reserved kinds (component, affordable package, residual). An accepted id is its subject's domain, kind, anchor number
  without leading zeros (from 1 to the column's bound) and scope, joined by colons; and, where the module promises that an id that is not canonical
  raises, it is also accepted with one newline after the anchor number (\<open>newline_accepted\<close> below).
\<close>

theorem accepted_ids:
  "(parse_opportunity_id oid = Inr p) = (accepted p \<and> (\<exists>nl\<in>set newline_or_not. oid = id_text p nl))" (is "?l = ?r")
proof
  assume ?l
  then obtain t n where "canonical_anchor_id t = Inr n" and shape: "id_shape t n oid p" using parse_shapes_only by blast
  then obtain nl where "1 \<le> n" "n \<le> MAX_ANCHOR_ID" and "nl \<in> set newline_or_not" and "t = int_str n @ nl"
    unfolding canonical_anchor_Inr by blast
  with shape show ?r using shape_accepted by blast
next
  assume r: ?r
  then obtain nl where nl: "nl \<in> set newline_or_not" and oid: "oid = id_text p nl" and p: "accepted p" by blast
  have "canonical_anchor_id (int_str (pi_anchor p) @ nl) = Inr (pi_anchor p)"
    unfolding canonical_anchor_Inr using p nl by (auto simp: accepted_def)
  with accepted_shape [OF p, of nl] show ?l unfolding oid by (rule shapes_parse)
qed

lemma build_Inr:
  assumes "build_new_kind_opportunity_id kind site raw = Inr oid"
  shows "kind \<in> set (map fst NEW_KINDS) \<and> 1 \<le> site \<and> site \<le> MAX_ANCHOR_ID \<and> new_kind_scope kind (quote raw) \<and>
    oid = id_of [PLANNING_DELIVERY_ID, kind, int_str site, quote raw]"
proof -
  from assms obtain k where a: "kind \<in> set (map fst NEW_KINDS)" "1 \<le> site" "site \<le> MAX_ANCHOR_ID" "raw \<noteq> []"
      and k: "new_kind_anchor_scope_key kind (quote raw) = Inr k"
      and oid: "oid = id_of [PLANNING_DELIVERY_ID, kind, int_str site, quote raw]"
    unfolding build_new_kind_opportunity_id_def encode_scope_key_def
    by (auto simp: Let_def split: if_split_asm sum.split_asm)
  from k have "new_kind_scope kind (quote raw)" by (auto simp: new_kind_scope_def anchor_key_Inr)
  with a oid show ?thesis by blast
qed

text \<open>
  C37. An id built for a new kind parses back to exactly the subject it was built from, its scope decodes to the original
  text, and it resolves to no anchor: the kind is recognised but not emitted.
\<close>

theorem built_ids_round_trip:
  assumes "build_new_kind_opportunity_id kind site raw = Inr oid"
  shows "parse_opportunity_id oid = Inr (subject_of PLANNING_DELIVERY_ID kind site (Some (quote raw)) None False) \<and>
    decode_scope_key (quote raw) = Inr raw \<and>
    resolve_anchor_key (subject_of PLANNING_DELIVERY_ID kind site (Some (quote raw)) None False) PLANNING_DELIVERY_ID = Inl NewKindNotEmitCapable"
proof -
  note b = build_Inr [OF assms]
  have a: "canonical_anchor_id (int_str site) = Inr site"
    unfolding canonical_anchor_Inr using b by (auto simp: newline_or_not_def)
  from b obtain raw' where raw': "raw' \<noteq> []" "valid_utf8 raw'" "quote raw = quote raw'" by (auto simp: new_kind_scope_def)
  then have "raw = raw'" by (metis unquote_quote)
  with raw' have d: "decode_scope_key (quote raw) = Inr raw" by (simp add: decode_quote)
  have k: "kind \<in> set (map fst NEW_KINDS)" using b by blast
  have "parse_opportunity_id oid = Inr (subject_of PLANNING_DELIVERY_ID kind site (Some (quote raw)) None False)"
    using shapes_parse [OF id_shape.new_kind [OF k] a] b by blast
  moreover have "resolve_anchor_key (subject_of PLANNING_DELIVERY_ID kind site (Some (quote raw)) None False) PLANNING_DELIVERY_ID = Inl NewKindNotEmitCapable"
    using kinds_apart(3) [OF k] k domains_plain by (simp add: resolve_anchor_key_def subject_of_def EMIT_CAPABLE_NEW_KINDS_def)
  ultimately show ?thesis using d by blast
qed

theorem built_ids_round_trip_witness:
  "parse_opportunity_id ''planning_delivery:component:12:a%3Ab'' = Inr (subject_of PLANNING_DELIVERY_ID ''component'' 12 (Some ''a%3Ab'') None False)"
proof -
  have "build_new_kind_opportunity_id ''component'' 12 ''a:b'' = Inr ''planning_delivery:component:12:a%3Ab''" by code_simp
  moreover have "quote ''a:b'' = ''a%3Ab''" by code_simp
  ultimately show ?thesis using built_ids_round_trip [of "''component''" 12 "''a:b''"] by simp
qed

definition lifecycle_subject :: "parsed_id \<Rightarrow> bool" where
  "lifecycle_subject p = (pi_domain p = PLANNING_DELIVERY_ID \<and> pi_kind p \<in> set LIFECYCLE_KINDS)"

definition phase_name :: "parsed_id \<Rightarrow> str option" where
  "phase_name p = (if pi_domain p = PLANNING_DELIVERY_ID \<and> pi_kind p = ''phase'' then map_option (takeWhile (\<lambda>c. c \<noteq> CHR '':'')) (pi_scope p) else None)"

lemma subject_of_fields [simp]:
  "pi_domain (subject_of d k n sc leg old) = d" "pi_kind (subject_of d k n sc leg old) = k" "pi_anchor (subject_of d k n sc leg old) = n"
  "pi_scope (subject_of d k n sc leg old) = sc" "pi_legacy_scope (subject_of d k n sc leg old) = leg"
  by (simp_all add: subject_of_def)

lemma anchor_of_shape:
  assumes "id_shape t m oid p" and "resolve_anchor_key p ty = Inr (s, n, l)"
  shows "family_identity p = (s, n) \<and> (s = STRATEGIC_LAND_ID \<and> p = subject_of STRATEGIC_LAND_ID ''allocation'' n None None True \<or>
    s = PLANNING_DELIVERY_ID \<and> (lifecycle_subject p \<and> l = Some ''WHOLE_SITE'' \<or> \<not> lifecycle_subject p \<and> phase_name p = l \<and> l \<noteq> None))"
  using assms(1)
proof cases
  case strategic
  then show ?thesis using assms(2) by (simp add: resolve_anchor_key_def family_identity_def split: if_split_asm)
next
  case (lifecycle k)
  then have "k \<noteq> ''phase''" using kinds_apart(1) by blast
  with lifecycle show ?thesis using assms(2) domains_plain
    by (simp add: resolve_anchor_key_def family_identity_def lifecycle_subject_def split: if_split_asm)
next
  case (phase code)
  then show ?thesis using assms(2) domains_plain kinds_apart(1)
    by (auto simp: resolve_anchor_key_def family_identity_def lifecycle_subject_def phase_name_def split: if_split_asm)
next
  case (new_kind k key)
  then show ?thesis using assms(2) domains_plain kinds_apart(3) [OF new_kind(3)]
    by (simp add: resolve_anchor_key_def EMIT_CAPABLE_NEW_KINDS_def split: if_split_asm)
qed

text \<open>
  Two ids that resolve to one anchor belong to one family, and are the same subject, two lifecycle stages of one site, two phases whose codes
  agree up to the first colon, or a lifecycle stage and a phase whose code reads WHOLE_SITE up to its first colon.
\<close>

theorem anchors_tell_subjects_apart:
  assumes "parse_opportunity_id i = Inr p" and "parse_opportunity_id j = Inr q"
    and "resolve_anchor_key p (pi_domain p) = Inr a" and "resolve_anchor_key q (pi_domain q) = Inr a"
  shows "family_identity p = family_identity q \<and>
    (p = q \<or> lifecycle_subject p \<and> lifecycle_subject q \<or> phase_name p \<noteq> None \<and> phase_name p = phase_name q \<or>
     lifecycle_subject p \<and> phase_name q = Some ''WHOLE_SITE'' \<or> lifecycle_subject q \<and> phase_name p = Some ''WHOLE_SITE'')"
proof -
  obtain s n l where a: "a = (s, n, l)" by (cases a)
  obtain t m where "id_shape t m i p" using parse_shapes_only [OF assms(1)] by blast
  note p = anchor_of_shape [OF this assms(3) [unfolded a]]
  obtain u k where "id_shape u k j q" using parse_shapes_only [OF assms(2)] by blast
  note q = anchor_of_shape [OF this assms(4) [unfolded a]]
  have "STRATEGIC_LAND_ID \<noteq> PLANNING_DELIVERY_ID" by (rule domains_plain)
  with p q show ?thesis by metis
qed

theorem anchors_tell_subjects_apart_witness:
  "family_identity (subject_of PLANNING_DELIVERY_ID ''site'' 7 None None True) =
   family_identity (subject_of PLANNING_DELIVERY_ID ''phase'' 7 (Some ''WHOLE_SITE'') (Some ''WHOLE_SITE'') True)"
proof -
  let ?p = "subject_of PLANNING_DELIVERY_ID ''site'' 7 None None True" and ?q = "subject_of PLANNING_DELIVERY_ID ''phase'' 7 (Some ''WHOLE_SITE'') (Some ''WHOLE_SITE'') True"
  let ?a = "(PLANNING_DELIVERY_ID, 7, Some ''WHOLE_SITE'')"
  have "parse_opportunity_id ''planning_delivery:site:7'' = Inr ?p" "parse_opportunity_id ''planning_delivery:phase:7:WHOLE_SITE'' = Inr ?q"
    "resolve_anchor_key ?p (pi_domain ?p) = Inr ?a" "resolve_anchor_key ?q (pi_domain ?q) = Inr ?a" by code_simp+
  then show ?thesis using anchors_tell_subjects_apart by blast
qed

text \<open>A newline after the anchor number is accepted, although the parser promises to refuse ids that are not canonical.\<close>

lemma newline_accepted: "parse_opportunity_id (''planning_delivery:site:12'' @ [CHR 0x0A]) = parse_opportunity_id ''planning_delivery:site:12''"
  by code_simp

end
