(* ===== verification/DiscoveryContract.thy ===== *)
theory DiscoveryContract
  imports SubjectIdentity Json "HOL-Library.Product_Lexorder"
begin

text \<open>
  Discovery accounting: app/pipeline/discovery_contract.py. Evidence of a discovery window and its outcome, the coverage watermark,
  the identity of a displayed application, the destinations admitted, and the denominators. Validation is a
  function that returns \<open>Inl (ValueError ...)\<close> where \<open>__post_init__\<close> raises. Dates are ordinals.

  \<open>urlsplit\<close> is Python's, over ASCII: the split into scheme, authority, path, query and fragment, then user, host and port.
  The proposal qualifier of app/scrapers/unit_filter.py is an argument of \<open>candidate_materiality\<close>.
\<close>

section \<open>URLs\<close>

record url =
  url_scheme :: str
  url_netloc :: str
  url_path :: str
  url_fragment :: str

definition is_alpha :: "char \<Rightarrow> bool" where
  "is_alpha c = (CHR ''A'' \<le> c \<and> c \<le> CHR ''Z'' \<or> CHR ''a'' \<le> c \<and> c \<le> CHR ''z'')"

definition scheme_char :: "char \<Rightarrow> bool" where
  "scheme_char c = (is_alpha c \<or> is_digit c \<or> c \<in> set ''+-.'')"

text \<open>\<open>s.partition(c)\<close>: before and after the first separator; \<open>None\<close> where there is none.\<close>

definition partition_at :: "char \<Rightarrow> str \<Rightarrow> str \<times> str option" where
  "partition_at c s = (takeWhile (\<lambda>x. x \<noteq> c) s, case dropWhile (\<lambda>x. x \<noteq> c) s of [] \<Rightarrow> None | _ # r \<Rightarrow> Some r)"

definition rpartition_at :: "char \<Rightarrow> str \<Rightarrow> str option \<times> str" where
  "rpartition_at c s = (let t = rev s in
     (case dropWhile (\<lambda>x. x \<noteq> c) t of [] \<Rightarrow> None | _ # r \<Rightarrow> Some (rev r), rev (takeWhile (\<lambda>x. x \<noteq> c) t)))"

definition clean_url :: "str \<Rightarrow> str" where
  "clean_url u = filter (\<lambda>c. c \<notin> {CHR 0x09, CHR 0x0A, CHR 0x0D}) (dropWhile (\<lambda>c. (of_char c :: nat) \<le> 32) u)"

definition split_scheme :: "str \<Rightarrow> str \<times> str" where
  "split_scheme u = (case partition_at CHR '':'' u of
      (s, Some r) \<Rightarrow> if s \<noteq> [] \<and> is_alpha (hd s) \<and> list_all scheme_char s then (lower s, r) else ([], u)
    | (_, None) \<Rightarrow> ([], u))"

definition split_netloc :: "str \<Rightarrow> str \<times> str" where
  "split_netloc u = (if take 2 u = ''//'' then (let r = drop 2 u in (takeWhile (\<lambda>c. c \<notin> set ''/?#'') r, dropWhile (\<lambda>c. c \<notin> set ''/?#'') r)) else ([], u))"

definition urlsplit :: "str \<Rightarrow> pyexc + url" where
  "urlsplit raw =
    (let (scheme, rest) = split_scheme (clean_url raw); (netloc, tl1) = split_netloc rest;
         (before, frag) = partition_at CHR ''#'' tl1; (path, qu) = partition_at CHR ''?'' before in
     if (CHR ''['' \<in> set netloc) \<noteq> (CHR '']'' \<in> set netloc) then Inl (ValueError ''Invalid IPv6 URL'')
     else Inr \<lparr>url_scheme = scheme, url_netloc = netloc, url_path = path, url_fragment = opt_or frag []\<rparr>)"

definition hostinfo :: "url \<Rightarrow> str" where
  "hostinfo u = snd (rpartition_at CHR ''@'' (url_netloc u))"

definition userinfo :: "url \<Rightarrow> str option" where
  "userinfo u = fst (rpartition_at CHR ''@'' (url_netloc u))"

definition host_and_port :: "url \<Rightarrow> str \<times> str option" where
  "host_and_port u = (case partition_at CHR ''['' (hostinfo u) of
      (_, Some bracketed) \<Rightarrow> (case partition_at CHR '']'' bracketed of
          (h, rest) \<Rightarrow> (h, snd (partition_at CHR '':'' (opt_or rest []))))
    | (_, None) \<Rightarrow> partition_at CHR '':'' (hostinfo u))"

definition hostname :: "url \<Rightarrow> str option" where
  "hostname u = (let h = fst (host_and_port u) in if h = [] then None else Some (lower h))"

text \<open>\<open>None\<close> inside: no port given.\<close>

definition port_of :: "url \<Rightarrow> pyexc + int option" where
  "port_of u = (case snd (host_and_port u) of None \<Rightarrow> Inr None
     | Some p \<Rightarrow> if p = [] then Inr None
       else if \<not> list_all is_digit p then Inl (ValueError ''Port could not be cast to integer value'')
       else if 65535 < num_of p then Inl (ValueError ''Port out of range 0-65535'') else Inr (Some (num_of p)))"

definition username :: "url \<Rightarrow> str option" where
  "username u = map_option (\<lambda>i. fst (partition_at CHR '':'' i)) (userinfo u)"

definition password :: "url \<Rightarrow> str option" where
  "password u = Option.bind (userinfo u) (\<lambda>i. snd (partition_at CHR '':'' i))"

section \<open>Vocabularies\<close>

definition COUNCILS :: "str list" where
  "COUNCILS = [''bolton'', ''bury'', ''manchester'', ''oldham'', ''rochdale'', ''salford'', ''stockport'', ''tameside'', ''wigan'']"

definition SOURCE_ROOTS :: "(str \<times> (str \<times> str)) list" where
  "SOURCE_ROOTS =
    [(''bolton'', (''paplanning.bolton.gov.uk'', ''/online-applications/'')),
     (''bury'', (''planning.bury.gov.uk'', ''/online-applications/'')),
     (''oldham'', (''planningpa.oldham.gov.uk'', ''/online-applications/'')),
     (''stockport'', (''planning.stockport.gov.uk'', ''/PlanningData-live/'')),
     (''tameside'', (''publicaccess.tameside.gov.uk'', ''/online-applications/'')),
     (''wigan'', (''planning.wigan.gov.uk'', ''/online-applications/'')),
     (''manchester'', (''arcusbe.manchester.gov.uk'', ''/pr/'')),
     (''rochdale'', (''account.rochdale.gov.uk'', ''/pr/'')),
     (''salford'', (''salfordcitycouncil.my.site.com'', ''/pr/''))]"

definition DISCOVERY_FIELDS :: "str list" where
  "DISCOVERY_FIELDS = [''proposal'', ''address'', ''application_type'', ''received_date'', ''validated_date'', ''publication_date'', ''units'',
     ''bedspaces'', ''unit_metric'', ''unit_scope'', ''status'', ''decision'', ''decision_date'', ''parent_reference'', ''related_reference'']"

definition FIELD_STATES :: "str list" where
  "FIELD_STATES = [''PRESENT_VALUE'', ''PRESENT_BLANK'', ''NOT_PRESENT'', ''CONFLICTING'', ''UNPARSEABLE'', ''UNKNOWN'']"

definition COMMITTEE_ORIGINS :: "(str \<times> str) list" where
  "COMMITTEE_ORIGINS =
    [(''bolton'', ''bolton.moderngov.co.uk''), (''bury'', ''councildecisions.bury.gov.uk''), (''manchester'', ''democracy.manchester.gov.uk''),
     (''oldham'', ''committees.oldham.gov.uk''), (''rochdale'', ''democracy.rochdale.gov.uk''), (''salford'', ''sccdemocracy.salford.gov.uk''),
     (''tameside'', ''tameside.moderngov.co.uk''), (''wigan'', ''wigan.moderngov.co.uk'')]"

section \<open>Identity\<close>

datatype identity_class = WITHHELD_INSUFFICIENT_IDENTITY | WITHHELD_CONFLICT | ALREADY_KNOWN | NEW_CANDIDATE

definition account_identity :: "str \<Rightarrow> str list \<Rightarrow> (str \<times> str) set \<Rightarrow> pyexc + identity_class \<times> str option" where
  "account_identity council displayed known =
    (if council \<notin> set COUNCILS then Inl (ValueError ''council not admitted'')
     else if displayed = [] \<or> list_ex (\<lambda>r. strip r = []) displayed then Inr (WITHHELD_INSUFFICIENT_IDENTITY, None)
     else if length (remdups displayed) \<noteq> 1 then Inr (WITHHELD_CONFLICT, None)
     else let ref = hd displayed in
       if length ref > 100 \<or> ref \<noteq> strip ref \<or> list_ex (\<lambda>c. (of_char c :: nat) < 32) ref then Inr (WITHHELD_INSUFFICIENT_IDENTITY, None)
       else Inr (if (council, ref) \<in> known then ALREADY_KNOWN else NEW_CANDIDATE, Some ref))"

text \<open>\<open>re.fullmatch('[0-9a-f]{64}', s)\<close>.\<close>

definition sha256_text :: "str \<Rightarrow> bool" where
  "sha256_text s = (length s = 64 \<and> list_all (\<lambda>c. is_digit c \<or> CHR ''a'' \<le> c \<and> c \<le> CHR ''f'') s)"

definition dot_segment :: "str \<Rightarrow> bool" where
  "dot_segment path = list_ex (\<lambda>p. p = ''.'' \<or> p = ''..'') (split_on CHR ''/'' path)"

definition re_space :: "char \<Rightarrow> bool" where
  "re_space = is_space"

record trigger =
  tr_council :: str
  tr_reference :: str
  tr_source_url :: str
  tr_displayed :: "str list"
  tr_body_sha256 :: str

definition check_trigger :: "trigger \<Rightarrow> pyexc + trigger" where
  "check_trigger t = (case urlsplit (tr_source_url t) of Inl e \<Rightarrow> Inl e
     | Inr u \<Rightarrow> (case map_of COMMITTEE_ORIGINS (tr_council t) of None \<Rightarrow> Inl (ValueError ''trigger destination'')
     | Some origin \<Rightarrow> if url_scheme u \<noteq> ''https'' \<or> hostname u \<noteq> Some origin then Inl (ValueError ''trigger destination'')
       else (case port_of u of Inl e \<Rightarrow> Inl e
       | Inr port \<Rightarrow> if port \<notin> {None, Some 443} \<or> truthy (username u) \<or> truthy (password u) \<or> url_fragment u \<noteq> [] \<or> length (tr_source_url t) > 2048 \<or>
            \<not> (prefix ''/documents/'' (url_path u) \<or> url_path u = ''/ieListDocuments.aspx'') \<or>
            list_ex (\<lambda>c. re_space c \<or> c = CHR 0x5C) (tr_source_url t) \<or> dot_segment (url_path u)
          then Inl (ValueError ''trigger destination'')
          else (case account_identity (tr_council t) (tr_displayed t) {} of Inl e \<Rightarrow> Inl e
          | Inr (_, ref) \<Rightarrow> if ref \<noteq> Some (tr_reference t) \<or> \<not> sha256_text (tr_body_sha256 t) then Inl (ValueError ''trigger identity/provenance'') else Inr t))))"

section \<open>Literals\<close>

record literal =
  li_state :: str
  li_value :: "str option"
  li_locator :: str

definition check_literal :: "literal \<Rightarrow> pyexc + literal" where
  "check_literal l =
    (if li_state l \<notin> set FIELD_STATES \<or> li_locator l = [] \<or> length (li_locator l) > 256 then Inl (ValueError ''field state/provenance'')
     else if (case li_value l of None \<Rightarrow> False | Some v \<Rightarrow> length v > 8192) then Inl (ValueError ''field value bound'')
     else if li_state l = ''PRESENT_VALUE'' then
       (if (case li_value l of None \<Rightarrow> True | Some v \<Rightarrow> strip v = []) then Inl (ValueError ''missing literal value'') else Inr l)
     else if li_state l = ''PRESENT_BLANK'' then
       (if (case li_value l of None \<Rightarrow> False | Some v \<Rightarrow> strip v \<noteq> []) then Inl (ValueError ''nonblank blank'') else Inr l)
     else if li_value l \<noteq> None then Inl (ValueError ''unqualified value'') else Inr l)"

section \<open>Windows\<close>

datatype completeness = COMPLETE | INCOMPLETE | FAILED | UNKNOWN_COMPLETENESS

text \<open>A duration that is not finite is \<open>None\<close>.\<close>

record window =
  wi_council :: str
  wi_run_id :: str
  wi_requested_start :: int
  wi_requested_end :: int
  wi_applied_start :: "int option"
  wi_applied_end :: "int option"
  wi_date_semantics :: str
  wi_source_contract :: "str option"
  wi_applied_evidence :: "str option"
  wi_terminal_evidence :: "str option"
  wi_pages :: int
  wi_unique_references :: int
  wi_requests :: int
  wi_observed_bytes :: "int option"
  wi_elapsed_seconds :: "rat option"
  wi_explicit_zero :: bool
  wi_capped :: bool
  wi_failure :: "str option"
  wi_accounting_complete :: bool
  wi_completeness_basis :: str
  wi_owner_acceptance :: "str option"

definition owner_accepted :: "window \<Rightarrow> bool" where
  "owner_accepted w = (wi_completeness_basis w = ''OWNER_ACCEPTED_SINGLE_PAGE'')"

definition check_window :: "window \<Rightarrow> pyexc + window" where
  "check_window w =
    (if wi_council w \<notin> set COUNCILS \<or> wi_run_id w = [] then Inl (ValueError ''council/run not admitted'')
     else if wi_requested_end w < wi_requested_start w then Inl (ValueError ''inverted interval'')
     else if wi_date_semantics w \<notin> set [''RECEIVED'', ''VALIDATED'', ''PUBLICATION''] then Inl (ValueError ''date semantics'')
     else if wi_pages w < 0 \<or> wi_unique_references w < 0 \<or> wi_requests w < 0 then Inl (ValueError ''invalid accounting'')
     else if (case wi_observed_bytes w of None \<Rightarrow> False | Some n \<Rightarrow> n < 0) then Inl (ValueError ''invalid bytes'')
     else if (case wi_elapsed_seconds w of None \<Rightarrow> True | Some q \<Rightarrow> q < 0) then Inl (ValueError ''invalid duration'')
     else if wi_explicit_zero w \<and> wi_unique_references w \<noteq> 0 then Inl (ValueError ''zero/result conflict'')
     else if wi_completeness_basis w \<notin> set [''SOURCE_TERMINAL'', ''OWNER_ACCEPTED_SINGLE_PAGE''] then Inl (ValueError ''completeness basis'')
     else if owner_accepted w \<noteq> (wi_owner_acceptance w \<noteq> None) \<or>
        owner_accepted w \<and> (wi_terminal_evidence w \<noteq> None \<or> wi_explicit_zero w \<or>
          (case wi_owner_acceptance w of None \<Rightarrow> True | Some s \<Rightarrow> \<not> sha256_text s)) then Inl (ValueError ''owner acceptance basis'')
     else Inr w)"

definition outcome :: "window \<Rightarrow> completeness" where
  "outcome w =
    (if truthy (wi_failure w) then (if wi_pages w \<noteq> 0 then INCOMPLETE else FAILED)
     else if wi_capped w \<or> \<not> wi_accounting_complete w then INCOMPLETE
     else if \<not> (truthy (wi_source_contract w) \<and> truthy (wi_applied_evidence w) \<and> wi_date_semantics w \<noteq> []) then UNKNOWN_COMPLETENESS
     else if (wi_applied_start w, wi_applied_end w) \<noteq> (Some (wi_requested_start w), Some (wi_requested_end w)) then UNKNOWN_COMPLETENESS
     else if owner_accepted w then
       (if wi_pages w = 0 \<or> wi_requests w = 0 then INCOMPLETE else if wi_unique_references w \<noteq> 0 then COMPLETE else UNKNOWN_COMPLETENESS)
     else if \<not> truthy (wi_terminal_evidence w) \<or> wi_pages w = 0 \<or> wi_requests w = 0 then INCOMPLETE
     else if wi_unique_references w = 0 \<and> \<not> wi_explicit_zero w then UNKNOWN_COMPLETENESS
     else COMPLETE)"

definition advances :: "window \<Rightarrow> bool" where
  "advances w = (outcome w = COMPLETE \<and> wi_completeness_basis w = ''SOURCE_TERMINAL'')"

text \<open>Days are ordinals without an end: where the source has reached its last date (\<open>date.max\<close>, ordinal 3652059) and another advancing window follows, the next day overflows there.\<close>

fun sweep :: "str \<Rightarrow> str \<Rightarrow> int \<Rightarrow> window list \<Rightarrow> pyexc + int" where
  "sweep council sem cursor [] = Inr cursor"
| "sweep council sem cursor (w # ws) =
    (if wi_council w \<noteq> council \<or> wi_date_semantics w \<noteq> sem then Inl (ValueError ''mixed coverage ledger'')
     else sweep council sem (if advances w \<and> wi_requested_start w \<le> cursor + 1 then max cursor (wi_requested_end w) else cursor) ws)"

definition completed_through :: "int \<Rightarrow> window list \<Rightarrow> str \<Rightarrow> str \<Rightarrow> pyexc + int" where
  "completed_through previous windows council sem = sweep council sem previous (sort_key wi_requested_start windows)"

section \<open>Materiality, latency and denominators\<close>

definition candidate_materiality :: "(str \<Rightarrow> int \<Rightarrow> bool \<times> str) \<Rightarrow> literal \<Rightarrow> int \<Rightarrow> str \<times> str option" where
  "candidate_materiality qualify proposal threshold =
    (if li_state proposal \<noteq> ''PRESENT_VALUE'' then (li_state proposal, None)
     else (case qualify (opt_or (li_value proposal) []) threshold of (qualifies, classification) \<Rightarrow>
       (if qualifies then ''QUALIFICATION_REQUIRED'' else ''RELATIONSHIP_OR_MATERIALITY_UNRESOLVED'', Some classification)))"

definition contract_fingerprint :: "(str \<Rightarrow> str) \<Rightarrow> json \<Rightarrow> str" where
  "contract_fingerprint sha v = digest sha v"

text \<open>\<open>None\<close> for an instant stands for a naive datetime.\<close>

definition latency_seconds :: "rat option \<Rightarrow> rat option option \<Rightarrow> pyexc + rat option" where
  "latency_seconds discovered published = (case published of None \<Rightarrow> Inr None
     | Some p \<Rightarrow> (case (discovered, p) of
         (Some d, Some q) \<Rightarrow> if d < q then Inl (ValueError ''invalid publication clock'') else Inr (Some (d - q))
       | _ \<Rightarrow> Inl (ValueError ''invalid publication clock'')))"

record denominator =
  dn_denominator :: int
  dn_detected :: int
  dn_missed :: "(str \<times> str) list"
  dn_already_known :: int
  dn_recall :: "rat option"

definition compare_denominator :: "(str \<times> str) list option \<Rightarrow> (str \<times> str) list \<Rightarrow> (str \<times> str) list \<Rightarrow> denominator option" where
  "compare_denominator eligible detected known = (case eligible of None \<Rightarrow> None
     | Some el \<Rightarrow> let fresh = filter (\<lambda>x. x \<notin> set known) (remdups el);
           found = filter (\<lambda>x. x \<in> set detected) fresh; missed = filter (\<lambda>x. x \<notin> set detected) fresh in
         Some \<lparr>dn_denominator = int (length fresh), dn_detected = int (length found), dn_missed = sort missed,
           dn_already_known = int (length (filter (\<lambda>x. x \<in> set known) (remdups el))),
           dn_recall = (if fresh = [] then None else Some (of_nat (length found) / of_nat (length fresh)))\<rparr>)"

section \<open>Envelopes\<close>

record envelope =
  en_council :: str
  en_reference :: str
  en_source_url :: str
  en_source_record_id :: str
  en_discovered_aware :: bool
  en_window :: window
  en_displayed :: "str list"
  en_body_sha256 :: str
  en_fields :: "(str \<times> literal) list"
  en_site_relationship :: str
  en_application_role :: str

definition APPLICATION_ROLES :: "str list" where
  "APPLICATION_ROLES = [''SUBSTANTIVE'', ''VARIATION'', ''RESERVED_MATTERS'', ''DISCHARGE_CONDITION'', ''OTHER_RELATED_APPLICATION'', ''UNKNOWN'']"

definition check_destination :: "str \<Rightarrow> str \<Rightarrow> pyexc + unit" where
  "check_destination council source = (case urlsplit source of Inl e \<Rightarrow> Inl e
     | Inr u \<Rightarrow> if url_scheme u \<noteq> ''https'' \<or> hostname u = None \<or> truthy (username u) \<or> truthy (password u) \<or> url_fragment u \<noteq> []
         then Inl (ValueError ''source URL'')
       else (case map_of SOURCE_ROOTS council of None \<Rightarrow> Inl (KeyError council)
       | Some (host, pre) \<Rightarrow> if hostname u \<noteq> Some host then Inl (ValueError ''source destination not admitted'')
         else (case port_of u of Inl e \<Rightarrow> Inl e
         | Inr port \<Rightarrow> if port \<notin> {None, Some 443} \<or> \<not> prefix pre (url_path u) \<or> length source > 2048 \<or>
               list_ex (\<lambda>c. re_space c \<or> c = CHR 0x5C \<or> c = CHR ''%'') (url_path u) \<or> dot_segment (url_path u)
             then Inl (ValueError ''source destination not admitted'') else Inr ())))"

definition check_envelope :: "envelope \<Rightarrow> pyexc + envelope" where
  "check_envelope e =
    (if en_council e \<noteq> wi_council (en_window e) \<or> en_council e \<notin> set COUNCILS then Inl (ValueError ''identity council'')
     else (case account_identity (en_council e) (en_displayed e) {} of Inl x \<Rightarrow> Inl x
     | Inr (_, ref) \<Rightarrow> if ref \<noteq> Some (en_reference e) then Inl (ValueError ''source identity not qualified'')
       else (case check_destination (en_council e) (en_source_url e) of Inl x \<Rightarrow> Inl x
       | Inr _ \<Rightarrow>
         if en_source_record_id e = [] \<or> length (en_source_record_id e) > 256 \<or> \<not> sha256_text (en_body_sha256 e) then Inl (ValueError ''source provenance'')
         else if \<not> en_discovered_aware e then Inl (ValueError ''discovery clock'')
         else if list_ex (\<lambda>(k, v). k \<notin> set DISCOVERY_FIELDS) (en_fields e) then Inl (ValueError ''unapproved discovery field'')
         else if length (remdups (map fst (en_fields e))) \<noteq> length (en_fields e) then Inl (ValueError ''duplicate field'')
         else if en_site_relationship e \<noteq> ''UNKNOWN'' then Inl (ValueError ''this initial path cannot assert site relationships'')
         else if en_application_role e \<notin> set APPLICATION_ROLES then Inl (ValueError ''application role'')
         else Inr e)))"

section \<open>Coverage\<close>

text \<open>The days a ledger's complete, source-terminated windows cover.\<close>

definition covered :: "window list \<Rightarrow> int \<Rightarrow> bool" where
  "covered ws d = list_ex (\<lambda>w. advances w \<and> wi_requested_start w \<le> d \<and> d \<le> wi_requested_end w) ws"

lemma covered_Cons: "covered (w # ws) d = (advances w \<and> wi_requested_start w \<le> d \<and> d \<le> wi_requested_end w \<or> covered ws d)"
  by (simp add: covered_def)

lemma sweep_covered:
  "sweep council sem c0 ws = Inr c \<Longrightarrow> c0 \<le> c \<and> (c0 < d \<and> d \<le> c \<longrightarrow> covered ws d)"
proof (induction ws arbitrary: c0)
  case (Cons w ws)
  define c1 where "c1 = (if advances w \<and> wi_requested_start w \<le> c0 + 1 then max c0 (wi_requested_end w) else c0)"
  from Cons.prems have "sweep council sem c1 ws = Inr c" by (simp only: sweep.simps if_Inl_Inr c1_def [symmetric])
  from Cons.IH [OF this] have "c1 \<le> c" "c1 < d \<and> d \<le> c \<longrightarrow> covered ws d" by simp_all
  then show ?case by (auto simp: c1_def covered_Cons split: if_split_asm)
qed auto

lemma sweep_closed:
  assumes "sweep council sem c0 ws = Inr c" and "sorted (map wi_requested_start ws)"
  shows "\<not> covered ws (c + 1)"
  using assms
proof (induction ws arbitrary: c0)
  case Nil
  then show ?case by (simp add: covered_def)
next
  case (Cons w ws)
  define c1 where "c1 = (if advances w \<and> wi_requested_start w \<le> c0 + 1 then max c0 (wi_requested_end w) else c0)"
  from Cons.prems have s: "sweep council sem c1 ws = Inr c" by (simp only: sweep.simps if_Inl_Inr c1_def [symmetric])
  from sweep_covered [OF s, of "c0 + 1"] have ge: "c1 \<le> c" by simp
  from Cons.IH [OF s] Cons.prems have tl: "\<not> covered ws (c + 1)" by simp
  have "\<not> (advances w \<and> wi_requested_start w \<le> c + 1 \<and> c + 1 \<le> wi_requested_end w)"
  proof
    assume a: "advances w \<and> wi_requested_start w \<le> c + 1 \<and> c + 1 \<le> wi_requested_end w"
    show False
    proof (cases "wi_requested_start w \<le> c0 + 1")
      case True
      with a ge show False by (auto simp: c1_def)
    next
      case False
      then have c1: "c1 = c0" by (simp add: c1_def)
      have "c = c0"
      proof (rule ccontr)
        assume "c \<noteq> c0"
        with ge c1 have "covered ws (c0 + 1)" using sweep_covered [OF s, of "c0 + 1"] by auto
        then obtain v where "v \<in> set ws" "wi_requested_start v \<le> c0 + 1" by (auto simp: covered_def list_ex_iff)
        with Cons.prems(2) False show False by auto
      qed
      with a False show False by simp
    qed
  qed
  with tl show ?case by (simp add: covered_Cons)
qed

lemma covered_sort: "covered (sort_key f ws) d = covered ws d"
  by (simp add: covered_def list_ex_iff)

text \<open>
  C40. The watermark never leaps a gap and never lags: it is the last day reached from the previous one through days each covered by a complete, source-terminated
  window. Every day passed over is covered, the next one is not, so owner-accepted, capped, failed or mismatched windows never move it, in whatever order the windows come.
\<close>

theorem watermark_exact:
  assumes "completed_through previous windows council sem = Inr c"
  shows "previous \<le> c \<and> (\<forall>d. previous < d \<and> d \<le> c \<longrightarrow> covered windows d) \<and> \<not> covered windows (c + 1)"
proof -
  let ?ws = "sort_key wi_requested_start windows"
  from assms have s: "sweep council sem previous ?ws = Inr c" by (simp add: completed_through_def)
  have "sorted (map wi_requested_start ?ws)" by simp
  from sweep_closed [OF s this] sweep_covered [OF s] show ?thesis unfolding covered_sort by blast
qed

definition demo_window :: "int \<Rightarrow> int \<Rightarrow> window" where
  "demo_window a b = \<lparr>wi_council = ''bury'', wi_run_id = ''r'', wi_requested_start = a, wi_requested_end = b, wi_applied_start = Some a, wi_applied_end = Some b,
     wi_date_semantics = ''RECEIVED'', wi_source_contract = Some ''c'', wi_applied_evidence = Some ''e'', wi_terminal_evidence = Some ''t'', wi_pages = 1,
     wi_unique_references = 4, wi_requests = 1, wi_observed_bytes = Some 900, wi_elapsed_seconds = Some 2, wi_explicit_zero = False, wi_capped = False,
     wi_failure = None, wi_accounting_complete = True, wi_completeness_basis = ''SOURCE_TERMINAL'', wi_owner_acceptance = None\<rparr>"

theorem watermark_exact_witness:
  "completed_through 100 [demo_window 120 130, demo_window 104 110, demo_window 101 105] ''bury'' ''RECEIVED'' = Inr 110 \<and>
   covered [demo_window 120 130, demo_window 104 110, demo_window 101 105] 107 \<and> \<not> covered [demo_window 120 130, demo_window 104 110, demo_window 101 105] 111"
proof -
  let ?ws = "[demo_window 120 130, demo_window 104 110, demo_window 101 105]"
  have c: "completed_through 100 ?ws ''bury'' ''RECEIVED'' = Inr 110" by code_simp
  from watermark_exact [OF c] show ?thesis using c by (auto dest: spec [of _ 107])
qed

text \<open>
  A window is complete exactly when nothing failed or was capped or left unaccounted, the contract and the applied interval are evidenced and the
  interval is the one requested, pages and requests were made, and either the owner accepted a non-empty page or the source's own terminal evidence closes a result that is non-empty or explicitly zero.
\<close>

lemma complete_exactly:
  "(outcome w = COMPLETE) =
    (\<not> truthy (wi_failure w) \<and> \<not> wi_capped w \<and> wi_accounting_complete w \<and> truthy (wi_source_contract w) \<and> truthy (wi_applied_evidence w) \<and>
     wi_date_semantics w \<noteq> [] \<and> wi_applied_start w = Some (wi_requested_start w) \<and> wi_applied_end w = Some (wi_requested_end w) \<and>
     wi_pages w \<noteq> 0 \<and> wi_requests w \<noteq> 0 \<and>
     (if owner_accepted w then wi_unique_references w \<noteq> 0
      else truthy (wi_terminal_evidence w) \<and> (wi_unique_references w \<noteq> 0 \<or> wi_explicit_zero w)))"
  by (auto simp: outcome_def)

text \<open>
  An envelope's destination is searched for white space only in the path \<open>urlsplit\<close> returns, from which tabs and line breaks are already gone, so a source URL
  with a line break is admitted; a trigger's whole URL is searched, and the same break is refused there.
\<close>

lemma line_break_in_source_url:
  "check_destination ''bury'' (''https://planning.bury.gov.uk/online-app'' @ [CHR 0x0A] @ ''lications/x'') = Inr ()"
  by code_simp

end
