(* ===== verification/AccessPolicy.thy ===== *)
theory AccessPolicy
  imports Json DiscoveryContract
begin

text \<open>
  The access policy a deployment is given (\<open>load_policy\<close> of app/security/access.py): a JSON document, checked as a whole before anything of it is used. The bytes of the file are the
  text, \<open>loads\<close> reads it (\<open>None\<close> where \<open>json.loads\<close> raises), SHA-256 is the parameter \<open>sha\<close>. Keys of an object are distinct.
\<close>

text \<open>\<open>AccessDenied\<close> with its message, \<open>AccessUnavailable\<close>, or another exception of Python's.\<close>

datatype access_error = Refused str | Unavailable | Raised str

record user_grant =
  gr_role :: str
  gr_enabled :: bool
  gr_workspace :: int
  gr_buyers :: "int list"
  gr_not_before :: int

text \<open>A machine's \<open>not_before\<close> is read when it is used and never checked.\<close>

record machine_grant =
  mc_enabled :: bool
  mc_workspace :: int
  mc_buyers :: "int list"
  mc_actions :: "str list"
  mc_not_before :: json

record access_policy =
  ap_environment :: str
  ap_issuer :: str
  ap_client :: str
  ap_grants :: "((str \<times> str) \<times> user_grant) list"
  ap_paid :: "(str \<times> bool) list"
  ap_machines :: "(str \<times> machine_grant) list"
  ap_revision :: str

section \<open>The issuer\<close>

text \<open>The query \<open>urlsplit\<close> gives, which \<open>url\<close> does not keep.\<close>

definition url_query :: "str \<Rightarrow> str" where
  "url_query raw = (let rest = fst (partition_at CHR ''#'' (snd (split_netloc (snd (split_scheme (clean_url raw)))))) in opt_or (snd (partition_at CHR ''?'' rest)) [])"

definition LOCAL_HOSTS :: "str list" where "LOCAL_HOSTS = [''localhost'', ''127.0.0.1'']"

definition issuer_ok :: "str \<Rightarrow> str \<Rightarrow> bool" where
  "issuer_ok environment issuer = (case urlsplit issuer of Inl _ \<Rightarrow> False
     | Inr u \<Rightarrow> hostname u \<noteq> None \<and> \<not> truthy (username u) \<and> \<not> truthy (password u) \<and> url_query issuer = [] \<and> url_fragment u = [] \<and>
         (url_scheme u = ''https'' \<or> environment = ''local'' \<and> url_scheme u = ''http'' \<and> the (hostname u) \<in> set LOCAL_HOSTS))"

section \<open>Grants\<close>

definition positive_int :: "json option \<Rightarrow> int option" where
  "positive_int v = (case v of Some (JInt i) \<Rightarrow> if 0 < i then Some i else None | _ \<Rightarrow> None)"

fun positive_ints :: "json list \<Rightarrow> int list option" where
  "positive_ints [] = Some []"
| "positive_ints (v # vs) = (case (positive_int (Some v), positive_ints vs) of (Some i, Some is') \<Rightarrow> Some (i # is') | _ \<Rightarrow> None)"

definition buyer_list :: "json option \<Rightarrow> int list option" where
  "buyer_list v = (case v of Some (JArr vs) \<Rightarrow> positive_ints vs | _ \<Rightarrow> None)"

definition json_bool :: "json option \<Rightarrow> bool option" where
  "json_bool v = (case v of Some (JBool b) \<Rightarrow> Some b | _ \<Rightarrow> None)"

definition not_before_of :: "json \<Rightarrow> int option" where
  "not_before_of g = (case jget ''not_before'' g of None \<Rightarrow> Some 0 | Some (JInt i) \<Rightarrow> Some i | _ \<Rightarrow> None)"

text \<open>One principal: its key and grant; \<open>None\<close> where the document is refused.\<close>

definition principal_of :: "str \<Rightarrow> json \<Rightarrow> ((str \<times> str) \<times> user_grant) option" where
  "principal_of issuer g = (case jget ''subject'' g of Some (JStr subject) \<Rightarrow>
      (case (jget ''role'' g, json_bool (jget ''enabled'' g), positive_int (jget ''workspace_id'' g), buyer_list (jget ''buyer_ids'' g), not_before_of g) of
         (Some (JStr role), Some enabled, Some ws, Some buyers, Some nb) \<Rightarrow>
           if jget ''issuer'' g = Some (JStr issuer) \<and> subject \<noteq> [] \<and> role \<in> {''reader'', ''operator''} \<and> distinct buyers
           then Some ((issuer, subject), \<lparr>gr_role = role, gr_enabled = enabled, gr_workspace = ws, gr_buyers = buyers, gr_not_before = nb\<rparr>) else None
       | _ \<Rightarrow> None)
    | _ \<Rightarrow> None)"

fun principals_of :: "str \<Rightarrow> json list \<Rightarrow> ((str \<times> str) \<times> user_grant) list \<Rightarrow> ((str \<times> str) \<times> user_grant) list option" where
  "principals_of issuer [] found = Some found"
| "principals_of issuer (g # gs) found = (case principal_of issuer g of None \<Rightarrow> None
     | Some (k, x) \<Rightarrow> if k \<in> fst ` set found then None else principals_of issuer gs (found @ [(k, x)]))"

definition action_list :: "json option \<Rightarrow> str list option" where
  "action_list v = (case v of Some (JArr vs) \<Rightarrow>
       if list_all (\<lambda>x. case x of JStr s \<Rightarrow> s \<noteq> [] \<and> CHR ''*'' \<notin> set s | _ \<Rightarrow> False) vs then Some (List.map_filter (\<lambda>x. case x of JStr s \<Rightarrow> Some s | _ \<Rightarrow> None) vs) else None
     | _ \<Rightarrow> None)"

definition machine_of :: "str \<times> json \<Rightarrow> (str \<times> machine_grant) option" where
  "machine_of p = (case p of (name, g) \<Rightarrow>
     (case (json_bool (jget ''enabled'' g), positive_int (jget ''workspace_id'' g), buyer_list (jget ''buyer_ids'' g), action_list (jget ''actions'' g)) of
        (Some enabled, Some ws, Some buyers, Some actions) \<Rightarrow> if name = [] then None
          else Some (name, \<lparr>mc_enabled = enabled, mc_workspace = ws, mc_buyers = buyers, mc_actions = actions, mc_not_before = opt_or (jget ''not_before'' g) (JInt 0)\<rparr>)
      | _ \<Rightarrow> None))"

fun all_some :: "'a option list \<Rightarrow> 'a list option" where
  "all_some [] = Some []"
| "all_some (x # xs) = (case (x, all_some xs) of (Some y, Some ys) \<Rightarrow> Some (y # ys) | _ \<Rightarrow> None)"

definition machines_of :: "json option \<Rightarrow> (str \<times> machine_grant) list option" where
  "machines_of v = (case v of None \<Rightarrow> Some [] | Some (JObj fs) \<Rightarrow> all_some (map machine_of fs) | _ \<Rightarrow> None)"

definition PAID_LIMITS :: "(str \<times> nat \<times> nat) list" where
  "PAID_LIMITS = [(''visual.classify'', 1, 32 * 1024 * 1024), (''contacts.enrich'', 8, 120000), (''plan.summary'', 1, 300000), (''allocation.summary'', 2, 300000),
     (''shortlist.intelligence'', 2, 300000), (''shortlist.research'', 24, 300000), (''search.parse'', 1, 20000), (''report.narrative'', 1, 300000),
     (''evaluation.run'', 2, 300000), (''pipeline.processing'', 100, 300000), (''pipeline.extract'', 3, 300000), (''pipeline.refresh'', 3, 300000),
     (''plan.extract'', 1, 300000), (''scheme.summary'', 1, 300000), (''applicant.intelligence'', 2, 300000)]"

definition paid_of :: "json option \<Rightarrow> (str \<times> bool) list option" where
  "paid_of v = (case v of None \<Rightarrow> Some []
     | Some (JObj fs) \<Rightarrow> all_some (map (\<lambda>(k, b). if k \<in> fst ` set PAID_LIMITS then map_option (Pair k) (json_bool (Some b)) else None) fs)
     | _ \<Rightarrow> None)"

section \<open>The policy\<close>

definition single_process :: "json \<Rightarrow> bool" where
  "single_process d = (jget ''web_processes'' d = Some (JInt 1) \<and> jget ''web_replicas'' d = Some (JInt 1))"

definition owner_ok :: "((str \<times> str) \<times> user_grant) list \<Rightarrow> str \<Rightarrow> json option \<Rightarrow> bool" where
  "owner_ok gs issuer v = (case v of Some (JStr s) \<Rightarrow> (case map_of gs (issuer, s) of None \<Rightarrow> False | Some g \<Rightarrow> gr_role g = ''operator'' \<and> gr_enabled g) | _ \<Rightarrow> False)"

text \<open>An issuer that is neither text nor empty has no \<open>decode\<close>: the one exception that is not turned into \<open>AccessUnavailable\<close>.\<close>

definition opaque_issuer :: "json option \<Rightarrow> bool" where
  "opaque_issuer v = (case v of Some (JInt i) \<Rightarrow> i \<noteq> 0 | Some (JBool b) \<Rightarrow> b | Some (JFloat t q) \<Rightarrow> q \<noteq> 0 | Some (JArr vs) \<Rightarrow> vs \<noteq> [] | Some (JObj fs) \<Rightarrow> fs \<noteq> [] | _ \<Rightarrow> False)"

definition policy_head :: "json \<Rightarrow> bool" where
  "policy_head d = (jget ''version'' d = Some (JInt 1) \<and> jget ''enabled'' d = Some (JBool True) \<and> jget ''environment'' d \<in> {Some (JStr ''local''), Some (JStr ''production'')})"

definition policy_of_json :: "str \<Rightarrow> json \<Rightarrow> access_policy option" where
  "policy_of_json revision d = (case (jget ''environment'' d, jget ''issuer'' d, jget ''client_id'' d, jget ''principals'' d) of
      (Some (JStr environment), Some (JStr issuer), Some (JStr client), Some (JArr ps)) \<Rightarrow>
        (case (principals_of issuer ps [], paid_of (jget ''paid_actions'' d), machines_of (jget ''machines'' d)) of
           (Some gs, Some paid, Some machines) \<Rightarrow>
             if issuer_ok environment issuer \<and> client \<noteq> [] \<and> single_process d \<and> owner_ok gs issuer (jget ''owner_subject'' d)
             then Some \<lparr>ap_environment = environment, ap_issuer = issuer, ap_client = client, ap_grants = gs, ap_paid = paid, ap_machines = machines, ap_revision = revision\<rparr>
             else None
         | _ \<Rightarrow> None)
    | _ \<Rightarrow> None)"

definition load_policy :: "(str \<Rightarrow> str) \<Rightarrow> (str \<Rightarrow> json option) \<Rightarrow> str \<Rightarrow> access_error + access_policy" where
  "load_policy sha loads raw = (case loads raw of None \<Rightarrow> Inl Unavailable
     | Some d \<Rightarrow> if policy_head d \<and> opaque_issuer (jget ''issuer'' d) then Inl (Raised ''AttributeError'')
         else if \<not> policy_head d then Inl Unavailable
         else (case policy_of_json (sha raw) d of None \<Rightarrow> Inl Unavailable | Some p \<Rightarrow> Inr p))"

end
