(* ===== verification/AccessLeases.thy ===== *)
theory AccessLeases
  imports AccessPolicy
begin

text \<open>
  Execution leases (\<open>LeaseRegistry\<close> of app/security/access.py, \<open>command_scope\<close> of cli.py). The registry is the state of one process; each method takes the clock readings and the policy
  readings it makes, and returns what it returns or raises with the registry it leaves. Dictionaries are association lists in insertion order. \<open>is\<close> on actors is equality, their
  \<open>ac_object\<close> being the object's identity. What the framework makes of the cookies (signature, chunks, the claims inside) is an argument.
\<close>

section \<open>Actors\<close>

type_synonym issuance = "str \<times> str \<times> int"

record actor =
  ac_object :: nat
  ac_lease :: str
  ac_issuer :: str
  ac_subject :: str
  ac_role :: str
  ac_workspace :: int
  ac_buyers :: "int set"
  ac_revision :: str
  ac_issued :: int
  ac_expires :: rat
  ac_cookie :: str
  ac_machine :: bool
  ac_actions :: "str set"

definition issuance_of :: "actor \<Rightarrow> issuance" where
  "issuance_of a = (ac_issuer a, ac_subject a, ac_issued a)"

record registry =
  rg_boot :: int
  rg_ready :: bool
  rg_leases :: "(str \<times> actor \<times> rat) list"
  rg_issuances :: "(issuance \<times> rat) list"
  rg_revisions :: "(issuance \<times> str) list"
  rg_revoked :: "issuance set"
  rg_clock :: rat
  rg_floor :: int

definition opened_registry :: "rat \<Rightarrow> registry" where
  "opened_registry now = \<lparr>rg_boot = \<lceil>now\<rceil>, rg_ready = False, rg_leases = [], rg_issuances = [], rg_revisions = [], rg_revoked = {}, rg_clock = of_int \<lceil>now\<rceil> - 1, rg_floor = 0\<rparr>"

definition LIFETIME :: int where "LIFETIME = 28800"
definition IDLE :: int where "IDLE = 1800"
definition CAPACITY :: nat where "CAPACITY = 10000"

definition issued_at :: "issuance \<Rightarrow> int" where
  "issued_at k = snd (snd k)"

definition ended :: "rat \<Rightarrow> issuance \<Rightarrow> bool" where
  "ended now k = (of_int (issued_at k + LIFETIME) \<le> now)"

type_synonym 'a access_outcome = "(access_error + 'a) \<times> registry"

section \<open>Reclaiming\<close>

definition revoke_issuance :: "issuance \<Rightarrow> registry \<Rightarrow> registry" where
  "revoke_issuance k s = s\<lparr>rg_revoked := insert k (rg_revoked s)\<rparr>"

definition reclaim_issuance :: "rat \<Rightarrow> issuance \<times> rat \<Rightarrow> registry \<Rightarrow> registry" where
  "reclaim_issuance now e s = (case e of (k, activity) \<Rightarrow>
    if ended now k then s\<lparr>rg_issuances := AList.delete k (rg_issuances s), rg_revisions := AList.delete k (rg_revisions s), rg_revoked := rg_revoked s - {k}\<rparr>
    else if of_int IDLE \<le> now - activity then revoke_issuance k s else s)"

definition reclaim_lease :: "rat \<Rightarrow> str \<times> actor \<times> rat \<Rightarrow> registry \<Rightarrow> registry" where
  "reclaim_lease now e s = (case e of (key, a, _) \<Rightarrow>
    let k = issuance_of a;
        s' = (if ac_expires a \<le> now \<and> \<not> ac_machine a \<and> k \<in> fst ` set (rg_issuances s) then revoke_issuance k s else s) in
    if ac_expires a \<le> now \<or> \<not> ac_machine a \<and> k \<in> rg_revoked s' then s'\<lparr>rg_leases := AList.delete key (rg_leases s')\<rparr> else s')"

definition reclaim_leases :: "rat \<Rightarrow> registry \<Rightarrow> registry" where
  "reclaim_leases now s = (let s' = fold (reclaim_issuance now) (rg_issuances s) (s\<lparr>rg_clock := now\<rparr>) in fold (reclaim_lease now) (rg_leases s') s')"

definition reclaimed_at :: "rat \<Rightarrow> registry \<Rightarrow> unit access_outcome" where
  "reclaimed_at now s = (if now < rg_clock s then (Inl Unavailable, s) else (Inr (), reclaim_leases now s))"

section \<open>Checking\<close>

text \<open>\<open>actor.issued_at < grant.get('not_before', 0)\<close>; \<open>None\<close> where the comparison raises.\<close>

definition before_machine :: "int \<Rightarrow> json \<Rightarrow> bool option" where
  "before_machine issued nb = (case nb of JInt i \<Rightarrow> Some (issued < i) | JBool b \<Rightarrow> Some (issued < (if b then 1 else 0)) | JFloat t q \<Rightarrow> Some (of_int issued < q) | _ \<Rightarrow> None)"

text \<open>Whether the current policy still carries the actor: \<open>Some True\<close>, \<open>Some False\<close>, or the comparison raises.\<close>

definition still_granted :: "access_policy \<Rightarrow> actor \<Rightarrow> bool option" where
  "still_granted p a =
    (if ac_machine a then (case map_of (ap_machines p) (ac_subject a) of None \<Rightarrow> Some False
       | Some g \<Rightarrow> if \<not> mc_enabled g \<or> ac_revision a \<noteq> ap_revision p then Some False else map_option Not (before_machine (ac_issued a) (mc_not_before g)))
     else (case map_of (ap_grants p) (ac_issuer a, ac_subject a) of None \<Rightarrow> Some False
       | Some g \<Rightarrow> Some (gr_enabled g \<and> ac_revision a = ap_revision p \<and> gr_not_before g \<le> ac_issued a)))"

definition check_lease :: "access_policy \<Rightarrow> actor \<Rightarrow> registry \<Rightarrow> actor access_outcome" where
  "check_lease p a s =
    (if map_option fst (map_of (rg_leases s) (ac_lease a)) \<noteq> Some a then (Inl (Refused ''Authentication required.''), s)
     else (case still_granted p a of None \<Rightarrow> (Inl (Raised ''TypeError''), s)
       | Some False \<Rightarrow> (Inl (Refused ''Access changed. Sign in again.''), if ac_machine a then s else revoke_issuance (issuance_of a) s)
       | Some True \<Rightarrow> if \<not> ac_machine a \<and> issuance_of a \<in> rg_revoked s then (Inl (Refused ''Sign in again.''), s) else (Inr a, s)))"

definition check :: "access_error + access_policy \<Rightarrow> rat \<Rightarrow> actor option \<Rightarrow> registry \<Rightarrow> actor access_outcome" where
  "check policy now actor s = (case policy of Inl e \<Rightarrow> (Inl e, s)
     | Inr p \<Rightarrow> (case reclaimed_at now s of (Inl e, s') \<Rightarrow> (Inl e, s')
         | (Inr _, s') \<Rightarrow> (case actor of None \<Rightarrow> (Inl (Refused ''Authentication required.''), s') | Some a \<Rightarrow> check_lease p a s')))"

section \<open>Issuing\<close>

text \<open>The claims of a verified identity: the fields of an object. What is checked before the lock, at the first clock reading.\<close>

definition GOOGLE :: str where "GOOGLE = ''https://accounts.google.com''"

definition claimed_issuer :: "access_policy \<Rightarrow> json \<Rightarrow> json option" where
  "claimed_issuer p c = (if ap_issuer p = GOOGLE \<and> jget ''iss'' c = Some (JStr ''accounts.google.com'') then Some (JStr (ap_issuer p)) else jget ''iss'' c)"

definition audiences :: "json \<Rightarrow> json list option" where
  "audiences c = (case jget ''aud'' c of Some (JStr a) \<Rightarrow> Some [JStr a] | Some (JArr vs) \<Rightarrow> Some vs | _ \<Rightarrow> None)"

definition audience_ok :: "access_policy \<Rightarrow> json \<Rightarrow> bool" where
  "audience_ok p c = (case audiences c of None \<Rightarrow> False
     | Some vs \<Rightarrow> JStr (ap_client p) \<in> set vs \<and> \<not> (1 < length vs \<and> jget ''azp'' c \<noteq> Some (JStr (ap_client p))) \<and>
         (jget ''azp'' c = None \<or> jget ''azp'' c = Some (JStr (ap_client p))))"

definition verified_identity :: "access_policy \<Rightarrow> json \<Rightarrow> (str \<times> str) option" where
  "verified_identity p c = (case (claimed_issuer p c, jget ''sub'' c) of (Some (JStr i), Some (JStr sub)) \<Rightarrow>
       if i = ap_issuer p \<and> jget ''email_verified'' c = Some (JBool True) then Some (i, sub) else None
    | _ \<Rightarrow> None)"

definition timely :: "registry \<Rightarrow> rat \<Rightarrow> json \<Rightarrow> (int \<times> int) option" where
  "timely s now c = (case (jget ''iat'' c, jget ''exp'' c) of (Some (JInt issued), Some (JInt expiry)) \<Rightarrow>
       if issued < rg_boot s \<or> now < of_int issued \<or> of_int expiry \<le> now \<or> expiry \<le> issued \<or> of_int (issued + LIFETIME) \<le> now then None else Some (issued, expiry)
    | _ \<Rightarrow> None)"

definition granted_to :: "access_policy \<Rightarrow> str \<times> str \<Rightarrow> int \<Rightarrow> user_grant option" where
  "granted_to p who issued = (case map_of (ap_grants p) who of None \<Rightarrow> None | Some g \<Rightarrow> if gr_enabled g \<and> gr_not_before g \<le> issued then Some g else None)"

definition touch :: "actor \<Rightarrow> rat \<Rightarrow> registry \<Rightarrow> registry" where
  "touch a now s = s\<lparr>rg_leases := AList.update (ac_lease a) (a, now) (rg_leases s), rg_issuances := AList.update (issuance_of a) now (rg_issuances s)\<rparr>"

definition renew :: "access_error + access_policy \<Rightarrow> rat \<Rightarrow> rat \<Rightarrow> str \<Rightarrow> issuance \<Rightarrow> actor \<Rightarrow> registry \<Rightarrow> actor access_outcome" where
  "renew policy now checked cookie k prior s = (case check policy checked (Some prior) s of (Inl e, s') \<Rightarrow> (Inl e, s')
     | (Inr _, s') \<Rightarrow> if issuance_of prior \<noteq> k \<or> ac_cookie prior \<noteq> cookie then (Inl (Refused ''Sign in again.''), s') else (Inr prior, touch prior now s'))"

definition admit :: "access_policy \<Rightarrow> rat \<Rightarrow> str \<Rightarrow> nat \<Rightarrow> str \<Rightarrow> issuance \<Rightarrow> int \<Rightarrow> user_grant \<Rightarrow> registry \<Rightarrow> actor access_outcome" where
  "admit p now token object cookie k expiry g s =
    (if k \<notin> fst ` set (rg_issuances s) \<and> issued_at k < rg_floor s then (Inl (Refused ''Sign in again.''), s)
     else if CAPACITY \<le> length (rg_leases s) \<or> k \<notin> fst ` set (rg_issuances s) \<and> CAPACITY \<le> length (rg_issuances s) then (Inl Unavailable, s)
     else let a = \<lparr>ac_object = object, ac_lease = token, ac_issuer = fst k, ac_subject = fst (snd k), ac_role = gr_role g, ac_workspace = gr_workspace g,
         ac_buyers = set (gr_buyers g), ac_revision = ap_revision p, ac_issued = issued_at k, ac_expires = of_int (min expiry (issued_at k + LIFETIME)), ac_cookie = cookie,
         ac_machine = False, ac_actions = {}\<rparr> in
       (Inr a, (touch a now s)\<lparr>rg_revisions := AList.update k (ap_revision p) (rg_revisions s)\<rparr>))"

definition issue_locked :: "access_error + access_policy \<Rightarrow> access_policy \<Rightarrow> rat \<Rightarrow> rat \<Rightarrow> str \<Rightarrow> nat \<Rightarrow> str \<Rightarrow> actor option \<Rightarrow> issuance \<Rightarrow> int \<Rightarrow> user_grant \<Rightarrow> registry \<Rightarrow> actor access_outcome" where
  "issue_locked again p now checked token object cookie prior k expiry g s =
    (if now < of_int (issued_at k) \<or> of_int expiry \<le> now \<or> ended now k then (Inl (Refused ''Sign in again.''), s)
     else (case reclaimed_at now s of (Inl e, s') \<Rightarrow> (Inl e, s')
       | (Inr _, s') \<Rightarrow>
           if k \<in> rg_revoked s' then (Inl (Refused ''Sign in again.''), s')
           else if (case map_of (rg_revisions s') k of None \<Rightarrow> False | Some r \<Rightarrow> r \<noteq> ap_revision p) then (Inl (Refused ''Access changed. Sign in again.''), revoke_issuance k s')
           else (case prior of Some a \<Rightarrow> renew again now checked cookie k a s' | None \<Rightarrow> admit p now token object cookie k expiry g s')))"

text \<open>\<open>first\<close>, \<open>now\<close> and \<open>checked\<close> are the clock before the lock, in it, and in the check of an earlier lease, which reads the policy \<open>again\<close>.\<close>

record attempt_args =
  aa_policy :: "access_error + access_policy"
  aa_again :: "access_error + access_policy"
  aa_first :: rat
  aa_now :: rat
  aa_checked :: rat
  aa_token :: str
  aa_object :: nat
  aa_claims :: json
  aa_cookie :: str
  aa_prior :: "actor option"

definition issue :: "attempt_args \<Rightarrow> registry \<Rightarrow> actor access_outcome" where
  "issue x s =
    (if \<not> rg_ready s then (Inl Unavailable, s)
     else (case aa_policy x of Inl e \<Rightarrow> (Inl e, s) | Inr p \<Rightarrow>
       if \<not> audience_ok p (aa_claims x) then (Inl (Refused ''Access denied.''), s)
       else (case verified_identity p (aa_claims x) of None \<Rightarrow> (Inl (Refused ''Access denied.''), s) | Some (iss, sub) \<Rightarrow>
         (case timely s (aa_first x) (aa_claims x) of None \<Rightarrow> (Inl (Refused ''Sign in again.''), s) | Some (issued, expiry) \<Rightarrow>
           (case granted_to p (iss, sub) issued of None \<Rightarrow> (Inl (Refused ''Access denied.''), s)
            | Some g \<Rightarrow> issue_locked (aa_again x) p (aa_now x) (aa_checked x) (aa_token x) (aa_object x) (aa_cookie x) (aa_prior x) (iss, sub, issued) expiry g s)))))"

section \<open>Revoking\<close>

definition drop_leases :: "(actor \<Rightarrow> bool) \<Rightarrow> registry \<Rightarrow> registry" where
  "drop_leases P s = s\<lparr>rg_leases := filter (\<lambda>(key, a, t). \<not> P a) (rg_leases s)\<rparr>"

definition native_issuance :: "json \<Rightarrow> issuance option" where
  "native_issuance c = (case (jget ''iss'' c, jget ''sub'' c, jget ''iat'' c) of
      (Some (JStr i), Some (JStr sub), Some (JInt issued)) \<Rightarrow> Some (if i = ''accounts.google.com'' then GOOGLE else i, sub, issued)
    | _ \<Rightarrow> None)"

definition tombstone :: "issuance \<Rightarrow> rat \<Rightarrow> registry \<Rightarrow> registry" where
  "tombstone k now s = (if k \<in> fst ` set (rg_issuances s) then s
     else s\<lparr>rg_issuances := rg_issuances s @ [(k, now)], rg_revisions := AList.update k ''logged-out-before-admission'' (rg_revisions s)\<rparr>)"

definition log_out :: "issuance \<Rightarrow> rat \<Rightarrow> registry \<Rightarrow> registry" where
  "log_out k now s =
    (if issued_at k < rg_boot s \<or> now < of_int (issued_at k) \<or> ended now k then s
     else if k \<notin> fst ` set (rg_issuances s) \<and> CAPACITY \<le> length (rg_issuances s) then s\<lparr>rg_floor := max (rg_floor s) (issued_at k + 1)\<rparr>
     else drop_leases (\<lambda>a. issuance_of a = k) (revoke_issuance k (tombstone k now s)))"

text \<open>\<open>None\<close>: the cookie does not verify or decode.\<close>

definition revoke_native :: "json option \<Rightarrow> rat \<Rightarrow> registry \<Rightarrow> unit access_outcome" where
  "revoke_native claims now s = (case Option.bind claims native_issuance of None \<Rightarrow> (Inl (Refused ''Invalid native identity cookie.''), s)
     | Some k \<Rightarrow> (case reclaimed_at now s of (Inl e, s') \<Rightarrow> (Inl e, s') | (Inr _, s') \<Rightarrow> (Inr (), log_out k now s')))"

definition revoke :: "str \<Rightarrow> rat \<Rightarrow> registry \<Rightarrow> unit access_outcome" where
  "revoke cookie now s = (case reclaimed_at now s of (Inl e, s') \<Rightarrow> (Inl e, s')
     | (Inr _, s') \<Rightarrow> (let targets = issuance_of ` {a \<in> (fst \<circ> snd) ` set (rg_leases s'). ac_cookie a = cookie \<and> \<not> ac_machine a} in
         (Inr (), drop_leases (\<lambda>a. issuance_of a \<in> targets) (s'\<lparr>rg_revoked := rg_revoked s' \<union> targets\<rparr>))))"

section \<open>Machines\<close>

definition launch :: "access_error + access_policy \<Rightarrow> str option \<Rightarrow> str \<Rightarrow> rat \<Rightarrow> rat \<Rightarrow> str \<Rightarrow> nat \<Rightarrow> registry \<Rightarrow> actor access_outcome" where
  "launch policy name command first now nonce object s = (case policy of Inl e \<Rightarrow> (Inl e, s) | Inr p \<Rightarrow>
    (case Option.bind name (map_of (ap_machines p)) of None \<Rightarrow> (Inl (Refused ''Explicit command identity and scope required.''), s)
     | Some g \<Rightarrow> if \<not> mc_enabled g \<or> ''launch:'' @ command \<notin> set (mc_actions g) then (Inl (Refused ''Explicit command identity and scope required.''), s)
         else (case reclaimed_at now s of (Inl e, s') \<Rightarrow> (Inl e, s')
           | (Inr _, s') \<Rightarrow> if CAPACITY \<le> length (rg_leases s') then (Inl Unavailable, s')
               else let a = \<lparr>ac_object = object, ac_lease = nonce, ac_issuer = ''machine'', ac_subject = the name, ac_role = ''operator'', ac_workspace = mc_workspace g,
                   ac_buyers = set (mc_buyers g), ac_revision = ap_revision p, ac_issued = \<lfloor>first\<rfloor>, ac_expires = first + of_int LIFETIME, ac_cookie = nonce,
                   ac_machine = True, ac_actions = set (mc_actions g)\<rparr> in
                 (Inr a, s'\<lparr>rg_leases := AList.update nonce (a, first) (rg_leases s')\<rparr>))))"

definition close :: "str \<Rightarrow> registry \<Rightarrow> registry" where
  "close nonce s = s\<lparr>rg_leases := AList.delete nonce (rg_leases s)\<rparr>"

section \<open>Requiring\<close>

definition require_operator :: "access_error + access_policy \<Rightarrow> access_error + access_policy \<Rightarrow> rat \<Rightarrow> actor option \<Rightarrow> str \<Rightarrow> bool \<Rightarrow> registry \<Rightarrow> actor access_outcome" where
  "require_operator policy again now current action paid s = (case check policy now current s of (Inl e, s') \<Rightarrow> (Inl e, s')
     | (Inr a, s') \<Rightarrow>
         (if ac_role a \<noteq> ''operator'' then Inl (Refused ''Operator permission required.'')
          else if ac_machine a \<and> action \<notin> ac_actions a then Inl (Refused ''Command scope denied.'')
          else if \<not> paid then Inr a
          else (case again of Inl e \<Rightarrow> Inl e
            | Inr q \<Rightarrow> if map_of (ap_paid q) action \<noteq> Some True then Inl (Refused ''This paid action is disabled.'') else Inr a), s'))"

definition require_buyer :: "access_error + access_policy \<Rightarrow> rat \<Rightarrow> actor option \<Rightarrow> int \<Rightarrow> int \<Rightarrow> registry \<Rightarrow> actor access_outcome" where
  "require_buyer policy now current ws buyer s = (case check policy now current s of (Inl e, s') \<Rightarrow> (Inl e, s')
     | (Inr a, s') \<Rightarrow> (if ws \<noteq> ac_workspace a \<or> buyer \<notin> ac_buyers a then Inl (Refused ''Access denied.'') else Inr a, s'))"

section \<open>A process\<close>

datatype access_event = Ready | Issue attempt_args | Check "access_error + access_policy" rat "actor option" | Native "json option" rat | Revoke str rat
  | Launch "access_error + access_policy" "str option" str rat rat str nat | Close str

fun access_step :: "registry \<Rightarrow> access_event \<Rightarrow> registry" where
  "access_step s Ready = s\<lparr>rg_ready := True\<rparr>"
| "access_step s (Issue x) = snd (issue x s)"
| "access_step s (Check p now a) = snd (check p now a s)"
| "access_step s (Native c now) = snd (revoke_native c now s)"
| "access_step s (Revoke cookie now) = snd (revoke cookie now s)"
| "access_step s (Launch p name command first now nonce object) = snd (launch p name command first now nonce object s)"
| "access_step s (Close nonce) = close nonce s"

end
