(* ===== verification/AccessProperties.thy ===== *)
theory AccessProperties
  imports AccessLeases
begin

text \<open>
  What the lease registry guarantees over any sequence of its operations, whatever the clock readings, policies and claims: it stays bounded, an issuance that was logged out is never
  admitted again, and whoever is admitted is granted what they hold by the policy in force.
\<close>

section \<open>Invariants\<close>

text \<open>Policies are read from one of the texts \<open>T\<close> the deployment was given. What an actor may do is what the policy of its revision grants.\<close>

definition from_texts :: "(str \<Rightarrow> str) \<Rightarrow> (str \<Rightarrow> json option) \<Rightarrow> str set \<Rightarrow> access_error + access_policy \<Rightarrow> bool" where
  "from_texts sha loads T r = (r \<in> load_policy sha loads ` T)"

definition grant_held :: "access_policy \<Rightarrow> actor \<Rightarrow> bool" where
  "grant_held p a = (if ac_machine a
     then (case map_of (ap_machines p) (ac_subject a) of None \<Rightarrow> False
       | Some g \<Rightarrow> mc_enabled g \<and> ac_role a = ''operator'' \<and> ac_workspace a = mc_workspace g \<and> ac_buyers a = set (mc_buyers g) \<and> ac_actions a = set (mc_actions g))
     else (case map_of (ap_grants p) (ac_issuer a, ac_subject a) of None \<Rightarrow> False
       | Some g \<Rightarrow> gr_enabled g \<and> gr_not_before g \<le> ac_issued a \<and> ac_role a = gr_role g \<and> ac_workspace a = gr_workspace g \<and> ac_buyers a = set (gr_buyers g)))"

definition authorised_lease :: "(str \<Rightarrow> str) \<Rightarrow> (str \<Rightarrow> json option) \<Rightarrow> str set \<Rightarrow> actor \<Rightarrow> bool" where
  "authorised_lease sha loads T a = (\<exists>p. from_texts sha loads T (Inr p) \<and> ac_revision a = ap_revision p \<and> grant_held p a)"

definition lease_ok :: "registry \<Rightarrow> str \<times> actor \<times> rat \<Rightarrow> bool" where
  "lease_ok s e = (case e of (key, a, t) \<Rightarrow> key = ac_lease a \<and>
     (if ac_machine a then ac_issuer a = ''machine''
      else issuance_of a \<in> fst ` set (rg_issuances s) \<and> ac_expires a \<le> of_int (ac_issued a + LIFETIME) \<and> rg_boot s \<le> ac_issued a))"

definition keys_ok :: "registry \<Rightarrow> bool" where
  "keys_ok s = (distinct (map fst (rg_issuances s)) \<and> fst ` set (rg_revisions s) = fst ` set (rg_issuances s) \<and> rg_revoked s \<subseteq> fst ` set (rg_issuances s) \<and>
     length (rg_issuances s) \<le> CAPACITY)"

definition registry_ok :: "registry \<Rightarrow> bool" where
  "registry_ok s = (keys_ok s \<and> distinct (map fst (rg_leases s)) \<and> length (rg_leases s) \<le> CAPACITY \<and> (\<forall>e\<in>set (rg_leases s). lease_ok s e))"

lemma lease_ok_grows:
  assumes "lease_ok s e" and "fst ` set (rg_issuances s) \<subseteq> fst ` set (rg_issuances s')" and "rg_boot s' = rg_boot s"
  shows "lease_ok s' e"
  using assms by (cases e) (auto simp: lease_ok_def split: if_splits)

lemma lease_ok_revoked [simp]: "lease_ok (s\<lparr>rg_revoked := R\<rparr>) = lease_ok s"
  by (intro ext) (simp add: lease_ok_def split: prod.splits)

lemma fold_keeps:
  assumes "\<And>x s. x \<in> set xs \<Longrightarrow> P s \<Longrightarrow> P (f x s)" and "P s"
  shows "P (fold f xs s)"
  using assms by (induction xs arbitrary: s) auto

text \<open>What the first pass of a reclaim keeps, of a registry \<open>s0\<close>.\<close>

definition pruned :: "rat \<Rightarrow> registry \<Rightarrow> registry \<Rightarrow> bool" where
  "pruned now s0 s = (keys_ok s \<and> rg_leases s = rg_leases s0 \<and> rg_clock s = now \<and> rg_floor s = rg_floor s0 \<and> rg_boot s = rg_boot s0 \<and>
     fst ` set (rg_issuances s) \<subseteq> fst ` set (rg_issuances s0) \<and> (\<forall>k\<in>fst ` set (rg_issuances s0). ended now k \<or> k \<in> fst ` set (rg_issuances s)) \<and>
     (\<forall>k\<in>rg_revoked s0. ended now k \<or> k \<in> rg_revoked s))"

lemma delete_length: "length (AList.delete k xs) \<le> length xs"
  by (induction xs) auto

lemma set_delete: "set (AList.delete k xs) \<subseteq> set xs"
  by (auto simp: AList.delete_eq)

lemma delete_keys: "fst ` set (AList.delete k xs) = fst ` set xs - {k}"
  by (auto simp: AList.delete_eq)

lemma reclaim_issuance_pruned:
  assumes "e \<in> set (rg_issuances s0)" and "pruned now s0 s"
  shows "pruned now s0 (reclaim_issuance now e s)"
proof -
  obtain k activity where e: "e = (k, activity)" by (cases e)
  have k: "k \<in> fst ` set (rg_issuances s0)" using assms(1) e by force
  show ?thesis
  proof (cases "ended now k")
    case True
    have "length (AList.delete k (rg_issuances s)) \<le> CAPACITY" using assms(2) delete_length [of k "rg_issuances s"] by (simp add: pruned_def keys_ok_def)
    then show ?thesis using True assms(2) by (auto simp: e reclaim_issuance_def pruned_def keys_ok_def delete_keys distinct_delete)
  next
    case False
    then show ?thesis using assms(2) k by (auto simp: e reclaim_issuance_def revoke_issuance_def pruned_def keys_ok_def)
  qed
qed

text \<open>What the second pass keeps.\<close>

definition swept :: "registry \<Rightarrow> registry \<Rightarrow> bool" where
  "swept s0 s = (keys_ok s \<and> rg_issuances s = rg_issuances s0 \<and> rg_clock s = rg_clock s0 \<and> rg_floor s = rg_floor s0 \<and> rg_boot s = rg_boot s0 \<and> rg_revoked s0 \<subseteq> rg_revoked s \<and>
     distinct (map fst (rg_leases s)) \<and> length (rg_leases s) \<le> length (rg_leases s0) \<and> set (rg_leases s) \<subseteq> set (rg_leases s0))"

lemma reclaim_lease_swept:
  assumes "swept s0 s"
  shows "swept s0 (reclaim_lease now e s)"
proof -
  obtain key a t where e: "e = (key, a, t)" by (cases e)
  have drop: "swept s0 (s'\<lparr>rg_leases := AList.delete key (rg_leases s')\<rparr>)" if "swept s0 s'" for s'
    using that delete_length [of key "rg_leases s'"] set_delete [of key "rg_leases s'"] by (auto simp: swept_def keys_ok_def distinct_delete)
  have "swept s0 (revoke_issuance (issuance_of a) s)" if "issuance_of a \<in> fst ` set (rg_issuances s)"
    using that assms by (auto simp: swept_def keys_ok_def revoke_issuance_def)
  then show ?thesis using assms drop by (auto simp: e reclaim_lease_def Let_def)
qed

lemma reclaim_lease_shrinks: "fst ` set (rg_leases (fold (reclaim_lease now) ys s)) \<subseteq> fst ` set (rg_leases s)"
proof (induction ys arbitrary: s)
  case (Cons y ys)
  have "fst ` set (rg_leases (reclaim_lease now y s)) \<subseteq> fst ` set (rg_leases s)"
    by (cases y) (auto simp: reclaim_lease_def Let_def revoke_issuance_def delete_keys simp del: image_iff)
  with Cons [of "reclaim_lease now y s"] show ?case by simp
qed simp

lemma reclaim_lease_gone:
  assumes "e \<in> set es" and "ac_expires (fst (snd e)) \<le> now"
  shows "fst e \<notin> fst ` set (rg_leases (fold (reclaim_lease now) es s))"
  using assms(1)
proof (induction es arbitrary: s)
  case (Cons x es)
  show ?case
  proof (cases "x = e")
    case True
    obtain key a t where e: "e = (key, a, t)" by (cases e)
    have "fst e \<notin> fst ` set (rg_leases (reclaim_lease now e s))"
      using assms(2) by (simp add: e reclaim_lease_def Let_def delete_keys)
    then show ?thesis using reclaim_lease_shrinks [of now es "reclaim_lease now e s"] True by auto
  qed (use Cons in auto)
qed simp

lemma reclaim_facts:
  assumes "registry_ok s" and "s' = reclaim_leases now s"
  shows "registry_ok s'" and "rg_clock s' = now" and "rg_floor s' = rg_floor s" and "rg_boot s' = rg_boot s" and "fst ` set (rg_issuances s') \<subseteq> fst ` set (rg_issuances s)"
    and "\<forall>k\<in>rg_revoked s. ended now k \<or> k \<in> rg_revoked s'" and "set (rg_leases s') \<subseteq> set (rg_leases s)" and "\<forall>e\<in>set (rg_leases s'). now < ac_expires (fst (snd e))"
proof -
  define s1 where "s1 = fold (reclaim_issuance now) (rg_issuances s) (s\<lparr>rg_clock := now\<rparr>)"
  have start: "pruned now s (s\<lparr>rg_clock := now\<rparr>)" using assms(1) by (auto simp: pruned_def registry_ok_def keys_ok_def)
  have p: "pruned now s s1" unfolding s1_def by (rule fold_keeps [where P = "pruned now s"]) (rule reclaim_issuance_pruned, assumption+, rule start)
  have s': "s' = fold (reclaim_lease now) (rg_leases s1) s1" by (simp add: assms(2) reclaim_leases_def s1_def Let_def)
  have start: "swept s1 s1" using p assms(1) by (auto simp: swept_def pruned_def registry_ok_def)
  have w: "swept s1 s'" unfolding s' by (rule fold_keeps [where P = "swept s1"]) (rule reclaim_lease_swept, assumption, rule start)
  show "rg_clock s' = now" "rg_floor s' = rg_floor s" "rg_boot s' = rg_boot s" "fst ` set (rg_issuances s') \<subseteq> fst ` set (rg_issuances s)"
    "\<forall>k\<in>rg_revoked s. ended now k \<or> k \<in> rg_revoked s'" and leases: "set (rg_leases s') \<subseteq> set (rg_leases s)"
    using p w by (auto simp: pruned_def swept_def)
  show alive: "\<forall>e\<in>set (rg_leases s'). now < ac_expires (fst (snd e))"
  proof
    fix e assume e: "e \<in> set (rg_leases s')"
    then have "e \<in> set (rg_leases s1)" using w by (auto simp: swept_def)
    with e show "now < ac_expires (fst (snd e))" using reclaim_lease_gone [of e "rg_leases s1" now s1] unfolding s' by (auto simp: not_le [symmetric])
  qed
  have "lease_ok s' e" if "e \<in> set (rg_leases s')" for e
  proof -
    obtain key a t where e: "e = (key, a, t)" by (cases e)
    have old: "lease_ok s e" using that leases assms(1) by (auto simp: registry_ok_def)
    have "issuance_of a \<in> fst ` set (rg_issuances s')" if "\<not> ac_machine a"
    proof -
      have "ac_expires a \<le> of_int (ac_issued a + LIFETIME)" "now < ac_expires a" "issuance_of a \<in> fst ` set (rg_issuances s)"
        using old alive \<open>e \<in> set (rg_leases s')\<close> that by (auto simp: e lease_ok_def)
      then have "\<not> ended now (issuance_of a)" by (simp add: ended_def issued_at_def issuance_of_def)
      moreover have "ended now (issuance_of a) \<or> issuance_of a \<in> fst ` set (rg_issuances s1)"
        using p \<open>issuance_of a \<in> fst ` set (rg_issuances s)\<close> unfolding pruned_def by blast
      ultimately show ?thesis using w by (simp add: swept_def)
    qed
    moreover have "rg_boot s' = rg_boot s" using p w by (simp add: pruned_def swept_def)
    ultimately show ?thesis using old by (auto simp: e lease_ok_def)
  qed
  then show "registry_ok s'" using w p assms(1) by (auto simp: registry_ok_def swept_def pruned_def)
qed

section \<open>Operations\<close>

text \<open>An issuance that can no longer be admitted: logged out, past its lifetime, from before the process, or unseen and below the floor of a full registry.\<close>

definition barred :: "issuance \<Rightarrow> registry \<Rightarrow> bool" where
  "barred k s = (k \<in> rg_revoked s \<or> ended (rg_clock s) k \<or> issued_at k < rg_boot s \<or> k \<notin> fst ` set (rg_issuances s) \<and> issued_at k < rg_floor s)"

text \<open>What every operation keeps, from a registry \<open>s\<close> to \<open>s'\<close>; the leases are those of \<open>s\<close> and of actors in \<open>A\<close>.\<close>

definition steps_to :: "actor set \<Rightarrow> registry \<Rightarrow> registry \<Rightarrow> bool" where
  "steps_to A s s' = (registry_ok s' \<and> rg_boot s' = rg_boot s \<and> (\<forall>k. barred k s \<longrightarrow> barred k s') \<and>
     (fst \<circ> snd) ` set (rg_leases s') \<subseteq> (fst \<circ> snd) ` set (rg_leases s) \<union> A)"

lemma steps_to_refl: "registry_ok s \<Longrightarrow> steps_to A s s"
  by (simp add: steps_to_def)

lemma steps_to_trans: "steps_to A s s' \<Longrightarrow> steps_to B s' s'' \<Longrightarrow> A \<union> B \<subseteq> C \<Longrightarrow> steps_to C s s''"
  unfolding steps_to_def by (intro conjI) (simp, simp, simp, blast)

lemma ended_mono: "ended t k \<Longrightarrow> t \<le> t' \<Longrightarrow> ended t' k"
  by (auto simp: ended_def)

lemma reclaim_steps:
  assumes "registry_ok s" and "rg_clock s \<le> now"
  shows "steps_to A s (reclaim_leases now s)"
proof -
  note f = reclaim_facts [OF assms(1) refl, of now]
  have "barred k (reclaim_leases now s)" if "barred k s" for k
    using that f(6) subsetD [OF f(5)] ended_mono [OF _ assms(2), of k] unfolding barred_def f(2,3,4) by blast
  moreover have "(fst \<circ> snd) ` set (rg_leases (reclaim_leases now s)) \<subseteq> (fst \<circ> snd) ` set (rg_leases s)" using f(7) by (rule image_mono)
  ultimately show ?thesis using f(1,4) by (auto simp: steps_to_def)
qed

lemma reclaimed_cases:
  assumes "registry_ok s"
  obtains "now < rg_clock s" and "reclaimed_at now s = (Inl Unavailable, s)"
  | s' where "reclaimed_at now s = (Inr (), s')" and "steps_to {} s s'" and "registry_ok s'" and "rg_clock s' = now" and "rg_boot s' = rg_boot s"
      and "\<forall>e\<in>set (rg_leases s'). now < ac_expires (fst (snd e))"
proof (cases "now < rg_clock s")
  case False
  note f = reclaim_facts [OF assms refl, of now]
  show ?thesis using that(2) [of "reclaim_leases now s"] False f(1,2,4,8) reclaim_steps [OF assms, of now] by (simp add: reclaimed_at_def)
qed (use that(1) in \<open>simp add: reclaimed_at_def\<close>)

lemma revoke_issuance_steps:
  assumes "registry_ok s" and "k \<in> fst ` set (rg_issuances s)"
  shows "steps_to A s (revoke_issuance k s)"
proof -
  have "registry_ok (revoke_issuance k s)"
    using assms by (auto simp: registry_ok_def keys_ok_def revoke_issuance_def)
  then show ?thesis by (auto simp: steps_to_def barred_def revoke_issuance_def)
qed

lemma lease_held_under:
  assumes "registry_ok s" and "map_option fst (map_of (rg_leases s) key) = Some a"
  shows "\<exists>t. (key, a, t) \<in> set (rg_leases s)" and "lease_ok s (key, a, t)"
proof -
  obtain t' where "(key, a, t') \<in> set (rg_leases s)" using assms(2) by (auto dest: map_of_SomeD)
  moreover from this have "lease_ok s (key, a, t')" using assms(1) by (auto simp: registry_ok_def)
  ultimately show "\<exists>t. (key, a, t) \<in> set (rg_leases s)" "lease_ok s (key, a, t)" by (auto simp: lease_ok_def)
qed

text \<open>A check keeps the registry; the actor it lets through holds a live lease, and the policy it read still carries the actor.\<close>

lemma check_sound:
  assumes "registry_ok s" and "check policy now actor s = (r, s')"
  shows "steps_to {} s s'"
    and "r = Inr a \<Longrightarrow> \<exists>p t. policy = Inr p \<and> actor = Some a \<and> still_granted p a = Some True \<and> (ac_lease a, a, t) \<in> set (rg_leases s') \<and> (ac_machine a \<or> \<not> barred (issuance_of a) s')"
proof -
  have "steps_to {} s s' \<and> (\<forall>a. r = Inr a \<longrightarrow>
    (\<exists>p t. policy = Inr p \<and> actor = Some a \<and> still_granted p a = Some True \<and> (ac_lease a, a, t) \<in> set (rg_leases s') \<and> (ac_machine a \<or> \<not> barred (issuance_of a) s')))"
  proof (cases policy)
    case (Inl e)
    then show ?thesis using assms steps_to_refl by (auto simp: check_def)
  next
    case (Inr p)
    show ?thesis
    proof (cases rule: reclaimed_cases [OF assms(1), of now])
      case 1
      then show ?thesis using assms Inr steps_to_refl by (auto simp: check_def)
    next
      case (2 s1)
      show ?thesis
      proof (cases "\<exists>a. actor = Some a \<and> map_option fst (map_of (rg_leases s1) (ac_lease a)) = Some a")
        case False
        then show ?thesis using assms Inr 2 by (auto simp: check_def check_lease_def split: option.splits)
      next
        case True
        then obtain a where a: "actor = Some a" "map_option fst (map_of (rg_leases s1) (ac_lease a)) = Some a" by auto
        obtain t where t: "(ac_lease a, a, t) \<in> set (rg_leases s1)" using lease_held_under(1) [OF 2(3) a(2)] by auto
        note ok = lease_held_under(2) [OF 2(3) a(2)]
        have alive: "now < ac_expires a" using 2(6) t by fastforce
        have revoked: "steps_to {} s (revoke_issuance (issuance_of a) s1)" if "\<not> ac_machine a"
          using steps_to_trans [OF 2(2) revoke_issuance_steps [OF 2(3), of "issuance_of a" "{}"], of "{}"] ok that by (auto simp: lease_ok_def)
        have clear: "\<not> barred (issuance_of a) s1" if "\<not> ac_machine a" "issuance_of a \<notin> rg_revoked s1"
          using that ok alive 2(4) by (auto simp: barred_def lease_ok_def ended_def issued_at_def issuance_of_def)
        have ran: "check_lease p a s1 = (r, s')" using assms(2) Inr 2(1) a(1) by (simp add: check_def)
        show ?thesis
        proof (cases "still_granted p a")
          case None
          then show ?thesis using ran a 2(2) by (auto simp: check_lease_def)
        next
          case (Some b)
          then show ?thesis using ran a 2(2) t Inr revoked clear by (cases b) (auto simp: check_lease_def split: if_splits)
        qed
      qed
    qed
  qed
  then show "steps_to {} s s'" and "r = Inr a \<Longrightarrow> \<exists>p t. policy = Inr p \<and> actor = Some a \<and> still_granted p a = Some True \<and> (ac_lease a, a, t) \<in> set (rg_leases s') \<and> (ac_machine a \<or> \<not> barred (issuance_of a) s')"
    by blast+
qed

lemma update_keys: "fst ` set (AList.update k v xs) = insert k (fst ` set xs)"
  by (induction xs) auto

lemma update_length: "length (AList.update k v xs) = (if k \<in> fst ` set xs then length xs else Suc (length xs))"
  by (induction xs) auto

lemma set_update: "set (AList.update k v xs) \<subseteq> insert (k, v) (set xs)"
  by (induction xs) auto

text \<open>Recording a lease with the activity of its issuance, as \<open>issue\<close> does for a new actor and for an earlier one.\<close>

lemma enrol_steps:
  fixes s a now R
  defines "k \<equiv> issuance_of a" and "s' \<equiv> (touch a now s)\<lparr>rg_revisions := R\<rparr>"
  assumes ok: "registry_ok s" and mine: "\<not> ac_machine a" "ac_expires a \<le> of_int (ac_issued a + LIFETIME)" "rg_boot s \<le> ac_issued a"
    and room: "ac_lease a \<in> fst ` set (rg_leases s) \<or> length (rg_leases s) < CAPACITY" "k \<in> fst ` set (rg_issuances s) \<or> length (rg_issuances s) < CAPACITY"
    and R: "fst ` set R = insert k (fst ` set (rg_revisions s))" and clear: "\<not> barred k s"
  shows "steps_to {a} s s'" and "\<not> barred k s'"
proof -
  have keys: "fst ` set (rg_issuances s') = insert k (fst ` set (rg_issuances s))" by (simp add: s'_def touch_def update_keys k_def)
  have same: "rg_boot s' = rg_boot s" "rg_revoked s' = rg_revoked s" "rg_clock s' = rg_clock s" "rg_floor s' = rg_floor s" by (simp_all add: s'_def touch_def)
  have "keys_ok s'"
    using ok R room(2) by (auto simp: s'_def touch_def registry_ok_def keys_ok_def update_keys update_length k_def distinct_update)
  moreover have "lease_ok s' e" if "e \<in> set (rg_leases s')" for e
  proof -
    have "e = (ac_lease a, a, now) \<or> e \<in> set (rg_leases s)" using that set_update [of "ac_lease a" "(a, now)" "rg_leases s"] by (auto simp: s'_def touch_def)
    then show ?thesis
    proof
      assume "e = (ac_lease a, a, now)"
      then show ?thesis using mine keys same by (simp add: lease_ok_def k_def)
    next
      assume "e \<in> set (rg_leases s)"
      then have "lease_ok s e" using ok by (simp add: registry_ok_def)
      then show ?thesis by (rule lease_ok_grows) (use keys same in auto)
    qed
  qed
  moreover have "distinct (map fst (rg_leases s')) \<and> length (rg_leases s') \<le> CAPACITY"
    using ok room(1) by (auto simp: s'_def touch_def registry_ok_def update_length distinct_update)
  ultimately have "registry_ok s'" by (simp add: registry_ok_def)
  moreover have "barred j s'" if "barred j s" for j
    using that clear keys same by (auto simp: barred_def)
  moreover have "(fst \<circ> snd) ` set (rg_leases s') \<subseteq> (fst \<circ> snd) ` set (rg_leases s) \<union> {a}"
    using image_mono [OF set_update [of "ac_lease a" "(a, now)" "rg_leases s"], of "fst \<circ> snd"] by (auto simp: s'_def touch_def)
  ultimately show "steps_to {a} s s'" using same by (simp add: steps_to_def)
  show "\<not> barred k s'" using clear keys same by (auto simp: barred_def)
qed

lemma steps_to_ok: "steps_to A s s' \<Longrightarrow> registry_ok s'"
  by (simp add: steps_to_def)

lemma steps_to_more: "steps_to A s s' \<Longrightarrow> A \<subseteq> B \<Longrightarrow> steps_to B s s'"
  unfolding steps_to_def by blast

lemma renew_sound:
  assumes ok: "registry_ok s" and who: "fst k \<noteq> ''machine''" and ran: "renew policy now checked cookie k prior s = (r, s')"
  shows "steps_to {a. r = Inr a} s s'"
    and "r = Inr a \<Longrightarrow> a = prior \<and> issuance_of a = k \<and> \<not> ac_machine a \<and> \<not> barred k s' \<and> a \<in> (fst \<circ> snd) ` set (rg_leases s)"
proof -
  obtain r1 s1 where c: "check policy checked (Some prior) s = (r1, s1)" by (cases "check policy checked (Some prior) s")
  note kept = check_sound(1) [OF ok c]
  have "steps_to {a. r = Inr a} s s' \<and> (\<forall>a. r = Inr a \<longrightarrow>
    a = prior \<and> issuance_of a = k \<and> \<not> ac_machine a \<and> \<not> barred k s' \<and> a \<in> (fst \<circ> snd) ` set (rg_leases s))"
  proof (cases "\<exists>b. r1 = Inr b \<and> issuance_of prior = k \<and> ac_cookie prior = cookie")
    case False
    then have "s' = s1" "\<forall>a. r \<noteq> Inr a" using ran c by (auto simp: renew_def split: sum.splits if_splits)
    then show ?thesis using steps_to_more [OF kept] by auto
  next
    case True
    then obtain b where b: "r1 = Inr b" and k: "issuance_of prior = k" "ac_cookie prior = cookie" by auto
    then have out: "r = Inr prior" "s' = touch prior now s1" using ran c by (auto simp: renew_def)
    obtain t where t: "(ac_lease prior, prior, t) \<in> set (rg_leases s1)" and live: "ac_machine prior \<or> \<not> barred k s1"
      using check_sound(2) [OF ok c, of b] b k by auto
    have l: "lease_ok s1 (ac_lease prior, prior, t)" using t steps_to_ok [OF kept] by (auto simp: registry_ok_def)
    then have m: "\<not> ac_machine prior" using who k by (auto simp: lease_ok_def issuance_of_def)
    then have facts: "ac_expires prior \<le> of_int (ac_issued prior + LIFETIME)" "rg_boot s1 \<le> ac_issued prior" "issuance_of prior \<in> fst ` set (rg_issuances s1)"
      using l by (auto simp: lease_ok_def)
    have R: "fst ` set (rg_revisions s1) = insert (issuance_of prior) (fst ` set (rg_revisions s1))"
      using facts(3) steps_to_ok [OF kept] unfolding registry_ok_def keys_ok_def by blast
    have here: "ac_lease prior \<in> fst ` set (rg_leases s1)" using t by force
    have same: "(touch prior now s1)\<lparr>rg_revisions := rg_revisions s1\<rparr> = s'" by (simp add: out touch_def)
    have clear: "\<not> barred (issuance_of prior) s1" using live m k by simp
    note e = enrol_steps [OF steps_to_ok [OF kept] m facts(1,2) disjI1 [OF here] disjI1 [OF facts(3)] R clear, where now = now, unfolded same]
    have "prior \<in> (fst \<circ> snd) ` set (rg_leases s)" using kept t unfolding steps_to_def by force
    then show ?thesis using out(1) m k e(2) steps_to_trans [OF kept e(1), of "{a. r = Inr a}"] by auto
  qed
  then show "steps_to {a. r = Inr a} s s'"
    and "r = Inr a \<Longrightarrow> a = prior \<and> issuance_of a = k \<and> \<not> ac_machine a \<and> \<not> barred k s' \<and> a \<in> (fst \<circ> snd) ` set (rg_leases s)"
    by blast+
qed

lemma admit_sound:
  assumes ok: "registry_ok s" and ran: "admit p now token object cookie k expiry g s = (r, s')" and clear: "k \<notin> rg_revoked s" "\<not> ended (rg_clock s) k" "rg_boot s \<le> issued_at k"
  shows "steps_to {a. r = Inr a} s s'"
    and "r = Inr a \<Longrightarrow> issuance_of a = k \<and> \<not> ac_machine a \<and> \<not> barred k s' \<and> ac_revision a = ap_revision p \<and>
      ac_role a = gr_role g \<and> ac_workspace a = gr_workspace g \<and> ac_buyers a = set (gr_buyers g)"
proof -
  have "steps_to {a. r = Inr a} s s' \<and> (\<forall>a. r = Inr a \<longrightarrow> issuance_of a = k \<and> \<not> ac_machine a \<and> \<not> barred k s' \<and> ac_revision a = ap_revision p \<and>
      ac_role a = gr_role g \<and> ac_workspace a = gr_workspace g \<and> ac_buyers a = set (gr_buyers g))"
  proof (cases "\<exists>a. r = Inr a")
    case False
    then have "s' = s" using ran by (auto simp: admit_def Let_def split: if_splits)
    then show ?thesis using False ok steps_to_refl by auto
  next
    case True
    then obtain a where a: "r = Inr a" by auto
    have room: "\<not> (k \<notin> fst ` set (rg_issuances s) \<and> issued_at k < rg_floor s)" "length (rg_leases s) < CAPACITY"
      "k \<in> fst ` set (rg_issuances s) \<or> length (rg_issuances s) < CAPACITY"
      using ran a by (auto simp: admit_def Let_def split: if_splits)
    have s': "s' = (touch a now s)\<lparr>rg_revisions := AList.update k (ap_revision p) (rg_revisions s)\<rparr>" and f: "\<not> ac_machine a" "issuance_of a = k"
      "ac_expires a \<le> of_int (ac_issued a + LIFETIME)" "ac_issued a = issued_at k" "ac_revision a = ap_revision p \<and> ac_role a = gr_role g \<and> ac_workspace a = gr_workspace g \<and> ac_buyers a = set (gr_buyers g)"
      using ran a by (auto simp: admit_def Let_def issuance_of_def issued_at_def split: if_splits)
    have "\<not> barred (issuance_of a) s" using clear room(1) f(2) by (auto simp: barred_def)
    then have "steps_to {a} s s'" "\<not> barred k s'"
      using enrol_steps [of s a, OF ok f(1,3) _ disjI2 [OF room(2)], of "AList.update k (ap_revision p) (rg_revisions s)" now] room(3) clear(3) f(2,4)
      by (simp_all add: s' update_keys)
    then show ?thesis using a f by auto
  qed
  then show "steps_to {a. r = Inr a} s s'"
    and "r = Inr a \<Longrightarrow> issuance_of a = k \<and> \<not> ac_machine a \<and> \<not> barred k s' \<and> ac_revision a = ap_revision p \<and>
      ac_role a = gr_role g \<and> ac_workspace a = gr_workspace g \<and> ac_buyers a = set (gr_buyers g)"
    by blast+
qed

text \<open>A policy that was loaded: its issuer is a URL with a host, its revision the digest of its text.\<close>

lemma no_machine_issuer: "\<not> issuer_ok environment ''machine''"
proof -
  have "case urlsplit ''machine'' of Inl _ \<Rightarrow> True | Inr u \<Rightarrow> hostname u = None" by code_simp
  then show ?thesis by (auto simp: issuer_ok_def split: sum.splits)
qed

lemma loaded_policy:
  assumes "load_policy sha loads raw = Inr p"
  shows "ap_issuer p \<noteq> ''machine''" and "ap_revision p = sha raw"
proof -
  obtain d where "policy_of_json (sha raw) d = Some p" using assms by (auto simp: load_policy_def split: option.splits if_splits)
  then have "issuer_ok (ap_environment p) (ap_issuer p) \<and> ap_revision p = sha raw"
    by (auto simp: policy_of_json_def split: option.splits json.splits if_splits)
  then show "ap_issuer p \<noteq> ''machine''" "ap_revision p = sha raw" using no_machine_issuer by auto
qed

lemma issue_locked_sound:
  assumes ok: "registry_ok s" and ran: "issue_locked again p now checked token object cookie prior k expiry g s = (r, s')"
    and who: "fst k \<noteq> ''machine''" and boot: "rg_boot s \<le> issued_at k"
  shows "steps_to {a. r = Inr a} s s'"
    and "r = Inr a \<Longrightarrow> issuance_of a = k \<and> \<not> ac_machine a \<and> \<not> barred k s' \<and> (a \<in> (fst \<circ> snd) ` set (rg_leases s) \<or> ac_revision a = ap_revision p \<and>
      ac_role a = gr_role g \<and> ac_workspace a = gr_workspace g \<and> ac_buyers a = set (gr_buyers g))"
proof -
  have "steps_to {a. r = Inr a} s s' \<and> (\<forall>a. r = Inr a \<longrightarrow> issuance_of a = k \<and> \<not> ac_machine a \<and> \<not> barred k s' \<and> (a \<in> (fst \<circ> snd) ` set (rg_leases s) \<or>
      ac_revision a = ap_revision p \<and> ac_role a = gr_role g \<and> ac_workspace a = gr_workspace g \<and> ac_buyers a = set (gr_buyers g)))"
  proof (cases "now < of_int (issued_at k) \<or> of_int expiry \<le> now \<or> ended now k")
    case True
    then show ?thesis using ran ok steps_to_refl by (auto simp: issue_locked_def)
  next
    case False
    show ?thesis
    proof (cases rule: reclaimed_cases [OF ok, of now])
      case 1
      then show ?thesis using ran False ok steps_to_refl by (auto simp: issue_locked_def)
    next
      case (2 s1)
      have old: "(fst \<circ> snd) ` set (rg_leases s1) \<subseteq> (fst \<circ> snd) ` set (rg_leases s)" using 2(2) by (simp add: steps_to_def)
      note chain = steps_to_trans [OF 2(2), of _ _ "{a. r = Inr a}"]
      consider "k \<in> rg_revoked s1" | q where "k \<notin> rg_revoked s1" "map_of (rg_revisions s1) k = Some q" "q \<noteq> ap_revision p"
        | "k \<notin> rg_revoked s1" "\<not> (case map_of (rg_revisions s1) k of None \<Rightarrow> False | Some q \<Rightarrow> q \<noteq> ap_revision p)"
        by (cases "map_of (rg_revisions s1) k") auto
      then show ?thesis
      proof cases
        case 1
        then show ?thesis using ran False 2(1,2) steps_to_more [OF 2(2)] by (auto simp: issue_locked_def)
      next
        case (2 q)
        have "k \<in> fst ` set (rg_revisions s1)" using 2 by (auto dest: map_of_SomeD intro: image_eqI [rotated])
        then have "k \<in> fst ` set (rg_issuances s1)" using \<open>registry_ok s1\<close> unfolding registry_ok_def keys_ok_def by blast
        then have "steps_to {a. r = Inr a} s (revoke_issuance k s1)" by (rule chain [OF revoke_issuance_steps [OF \<open>registry_ok s1\<close>, of k "{}"]]) simp
        then show ?thesis using ran False 2 \<open>reclaimed_at now s = (Inr (), s1)\<close> by (auto simp: issue_locked_def)
      next
        case 3
        then have here: "(case prior of Some a \<Rightarrow> renew again now checked cookie k a s1 | None \<Rightarrow> admit p now token object cookie k expiry g s1) = (r, s')"
          using ran False 2(1) by (simp add: issue_locked_def)
        show ?thesis
        proof (cases prior)
          case None
          have "rg_boot s1 \<le> issued_at k" "\<not> ended (rg_clock s1) k" using 2(4,5) boot False by auto
          then have "admit p now token object cookie k expiry g s1 = (r, s')" using here None by simp
          note a = admit_sound [OF 2(3) this 3(1) \<open>\<not> ended (rg_clock s1) k\<close> \<open>rg_boot s1 \<le> issued_at k\<close>]
          have "steps_to {a. r = Inr a} s s'" by (rule chain [OF a(1)]) simp
          then show ?thesis using a(2) by blast
        next
          case (Some b)
          then have "renew again now checked cookie k b s1 = (r, s')" using here by simp
          note a = renew_sound [OF 2(3) who this]
          have "steps_to {a. r = Inr a} s s'" by (rule chain [OF a(1)]) simp
          then show ?thesis using a(2) old by blast
        qed
      qed
    qed
  qed
  then show "steps_to {a. r = Inr a} s s'"
    and "r = Inr a \<Longrightarrow> issuance_of a = k \<and> \<not> ac_machine a \<and> \<not> barred k s' \<and> (a \<in> (fst \<circ> snd) ` set (rg_leases s) \<or> ac_revision a = ap_revision p \<and>
      ac_role a = gr_role g \<and> ac_workspace a = gr_workspace g \<and> ac_buyers a = set (gr_buyers g))"
    by blast+
qed

text \<open>An admitted actor holds a lease already or is granted what the policy gives the identity.\<close>

lemma issue_sound:
  assumes ok: "registry_ok s" and read: "from_texts sha loads T (aa_policy x)" and ran: "issue x s = (r, s')"
  shows "steps_to {a. r = Inr a} s s'"
    and "r = Inr a \<Longrightarrow> \<not> ac_machine a \<and> \<not> barred (issuance_of a) s' \<and> (a \<in> (fst \<circ> snd) ` set (rg_leases s) \<or> authorised_lease sha loads T a)"
proof -
  have "steps_to {a. r = Inr a} s s' \<and> (\<forall>a. r = Inr a \<longrightarrow>
    \<not> ac_machine a \<and> \<not> barred (issuance_of a) s' \<and> (a \<in> (fst \<circ> snd) ` set (rg_leases s) \<or> authorised_lease sha loads T a))"
  proof (cases "\<exists>p iss sub issued expiry g. aa_policy x = Inr p \<and> rg_ready s \<and> audience_ok p (aa_claims x) \<and> verified_identity p (aa_claims x) = Some (iss, sub) \<and>
      timely s (aa_first x) (aa_claims x) = Some (issued, expiry) \<and> granted_to p (iss, sub) issued = Some g")
    case False
    then have "s' = s" "\<forall>a. r \<noteq> Inr a" using ran by (auto simp: issue_def split: if_splits sum.splits option.splits prod.splits)
    then show ?thesis using steps_to_refl [OF ok] by auto
  next
    case True
    then obtain p iss sub issued expiry g where p: "aa_policy x = Inr p" and v: "verified_identity p (aa_claims x) = Some (iss, sub)"
      and t: "timely s (aa_first x) (aa_claims x) = Some (issued, expiry)" and g: "granted_to p (iss, sub) issued = Some g"
      and rest: "rg_ready s" "audience_ok p (aa_claims x)" by blast
    let ?k = "(iss, sub, issued)"
    have loaded: "\<exists>raw. load_policy sha loads raw = Inr p" using read p by (auto simp: from_texts_def)
    have "iss = ap_issuer p" using v by (auto simp: verified_identity_def split: option.splits json.splits if_splits)
    then have who: "fst ?k \<noteq> ''machine''" using loaded loaded_policy(1) by auto
    have boot: "rg_boot s \<le> issued_at ?k" using t by (auto simp: timely_def issued_at_def split: option.splits json.splits if_splits)
    have "issue_locked (aa_again x) p (aa_now x) (aa_checked x) (aa_token x) (aa_object x) (aa_cookie x) (aa_prior x) ?k expiry g s = (r, s')"
      using ran p v t g rest by (simp add: issue_def)
    note l = issue_locked_sound [OF ok this who boot]
    have "authorised_lease sha loads T a" if "issuance_of a = ?k \<and> \<not> ac_machine a"
      "ac_revision a = ap_revision p \<and> ac_role a = gr_role g \<and> ac_workspace a = gr_workspace g \<and> ac_buyers a = set (gr_buyers g)" for a
      using that g read p by (auto simp: authorised_lease_def grant_held_def granted_to_def issuance_of_def split: option.splits if_splits)
    then have "\<forall>a. r = Inr a \<longrightarrow> \<not> ac_machine a \<and> \<not> barred (issuance_of a) s' \<and> (a \<in> (fst \<circ> snd) ` set (rg_leases s) \<or> authorised_lease sha loads T a)"
      using l(2) by metis
    with l(1) show ?thesis by (rule conjI)
  qed
  then show "steps_to {a. r = Inr a} s s'"
    and "r = Inr a \<Longrightarrow> \<not> ac_machine a \<and> \<not> barred (issuance_of a) s' \<and> (a \<in> (fst \<circ> snd) ` set (rg_leases s) \<or> authorised_lease sha loads T a)"
    by blast+
qed

text \<open>Logging out, by the identity cookie or by the cookie of a lease.\<close>

lemma drop_leases_steps:
  assumes "registry_ok s"
  shows "steps_to {} s (drop_leases P s)"
proof -
  have "lease_ok (drop_leases P s) = lease_ok s" by (intro ext) (simp add: lease_ok_def drop_leases_def split: prod.splits)
  moreover have "length (rg_leases (drop_leases P s)) \<le> length (rg_leases s)" by (simp add: drop_leases_def)
  moreover have "set (rg_leases (drop_leases P s)) \<subseteq> set (rg_leases s)" by (auto simp: drop_leases_def)
  moreover have "keys_ok (drop_leases P s) = keys_ok s" by (simp add: drop_leases_def keys_ok_def)
  moreover have "distinct (map fst (rg_leases s)) \<longrightarrow> distinct (map fst (rg_leases (drop_leases P s)))" by (simp add: drop_leases_def distinct_map_filter)
  ultimately have "registry_ok (drop_leases P s)" using assms unfolding registry_ok_def by (metis le_trans subsetD)
  then show ?thesis by (auto simp: steps_to_def barred_def drop_leases_def)
qed

lemma tombstone_steps:
  assumes ok: "registry_ok s" and room: "k \<in> fst ` set (rg_issuances s) \<or> length (rg_issuances s) < CAPACITY"
  shows "steps_to {} s (revoke_issuance k (tombstone k now s))" and "barred k (revoke_issuance k (tombstone k now s))"
proof -
  let ?s = "revoke_issuance k (tombstone k now s)"
  have keys: "fst ` set (rg_issuances ?s) = insert k (fst ` set (rg_issuances s))" by (auto simp: tombstone_def revoke_issuance_def)
  have "keys_ok ?s"
  proof (cases "k \<in> fst ` set (rg_issuances s)")
    case True
    then show ?thesis using ok by (auto simp: tombstone_def revoke_issuance_def registry_ok_def keys_ok_def)
  next
    case False
    then show ?thesis using ok room by (auto simp: tombstone_def revoke_issuance_def registry_ok_def keys_ok_def update_keys)
  qed
  moreover have "rg_leases ?s = rg_leases s" "rg_boot ?s = rg_boot s" by (simp_all add: tombstone_def revoke_issuance_def)
  moreover have "lease_ok ?s e" if "lease_ok s e" for e
    by (rule lease_ok_grows [OF that]) (use keys calculation(3) in auto)
  ultimately have "registry_ok ?s" using ok by (simp add: registry_ok_def)
  then show "steps_to {} s ?s" by (auto simp: steps_to_def barred_def tombstone_def revoke_issuance_def)
  show "barred k ?s" by (simp add: barred_def revoke_issuance_def)
qed

lemma log_out_steps:
  assumes ok: "registry_ok s" and clock: "rg_clock s = now"
  shows "steps_to {} s (log_out k now s)" and "of_int (issued_at k) \<le> now \<Longrightarrow> barred k (log_out k now s)"
proof -
  have "steps_to {} s (log_out k now s) \<and> (of_int (issued_at k) \<le> now \<longrightarrow> barred k (log_out k now s))"
  proof (cases "issued_at k < rg_boot s \<or> now < of_int (issued_at k) \<or> ended now k")
    case True
    then show ?thesis using steps_to_refl [OF ok] clock by (auto simp: log_out_def barred_def)
  next
    case False
    show ?thesis
    proof (cases "k \<notin> fst ` set (rg_issuances s) \<and> CAPACITY \<le> length (rg_issuances s)")
      case True
      let ?s = "s\<lparr>rg_floor := max (rg_floor s) (issued_at k + 1)\<rparr>"
      have "lease_ok ?s = lease_ok s" by (intro ext) (simp add: lease_ok_def split: prod.splits)
      then have "registry_ok ?s" using ok by (simp add: registry_ok_def keys_ok_def)
      then have "steps_to {} s ?s" "barred k ?s" using True by (auto simp: steps_to_def barred_def)
      then show ?thesis using True False by (simp add: log_out_def)
    next
      case room: False
      let ?s = "revoke_issuance k (tombstone k now s)"
      have free: "k \<in> fst ` set (rg_issuances s) \<or> length (rg_issuances s) < CAPACITY" using room by auto
      note t = tombstone_steps [OF ok free, of now]
      note d = drop_leases_steps [OF steps_to_ok [OF t(1)], of "\<lambda>a. issuance_of a = k"]
      have "steps_to {} s (drop_leases (\<lambda>a. issuance_of a = k) ?s)" by (rule steps_to_trans [OF t(1) d]) simp
      moreover have "barred k (drop_leases (\<lambda>a. issuance_of a = k) ?s)" using d t(2) unfolding steps_to_def by blast
      ultimately have "steps_to {} s (drop_leases (\<lambda>a. issuance_of a = k) ?s)" "barred k (drop_leases (\<lambda>a. issuance_of a = k) ?s)" .
      then show ?thesis using free False by (auto simp: log_out_def)
    qed
  qed
  then show "steps_to {} s (log_out k now s)" and "of_int (issued_at k) \<le> now \<Longrightarrow> barred k (log_out k now s)" by blast+
qed

lemma revoke_native_steps:
  assumes ok: "registry_ok s" and ran: "revoke_native c now s = (r, s')"
  shows "steps_to {} s s'" and "r = Inr () \<Longrightarrow> Option.bind c native_issuance = Some k \<Longrightarrow> of_int (issued_at k) \<le> now \<Longrightarrow> barred k s'"
proof -
  have "steps_to {} s s' \<and> (r = Inr () \<longrightarrow> (\<forall>k. Option.bind c native_issuance = Some k \<longrightarrow> of_int (issued_at k) \<le> now \<longrightarrow> barred k s'))"
  proof (cases "Option.bind c native_issuance")
    case None
    then show ?thesis using ran steps_to_refl [OF ok] by (simp add: revoke_native_def)
  next
    case (Some k)
    show ?thesis
    proof (cases rule: reclaimed_cases [OF ok, of now])
      case 1
      then show ?thesis using ran Some steps_to_refl [OF ok] by (auto simp: revoke_native_def)
    next
      case (2 s1)
      then have "r = Inr ()" "s' = log_out k now s1" using ran Some by (simp_all add: revoke_native_def)
      then show ?thesis using Some steps_to_trans [OF 2(2) log_out_steps(1) [OF 2(3,4)], of "{}"] log_out_steps(2) [OF 2(3,4)] by simp
    qed
  qed
  then show "steps_to {} s s'" and "r = Inr () \<Longrightarrow> Option.bind c native_issuance = Some k \<Longrightarrow> of_int (issued_at k) \<le> now \<Longrightarrow> barred k s'" by blast+
qed

lemma revoke_steps:
  assumes ok: "registry_ok s"
  shows "steps_to {} s (snd (revoke cookie now s))"
proof (cases rule: reclaimed_cases [OF ok, of now])
  case 1
  then show ?thesis using steps_to_refl [OF ok] by (simp add: revoke_def)
next
  case (2 s1)
  define targets where "targets = issuance_of ` {a \<in> (fst \<circ> snd) ` set (rg_leases s1). ac_cookie a = cookie \<and> \<not> ac_machine a}"
  let ?s = "s1\<lparr>rg_revoked := rg_revoked s1 \<union> targets\<rparr>"
  have "lease_ok s1 e" if "e \<in> set (rg_leases s1)" for e using that 2(3) by (simp add: registry_ok_def)
  then have "targets \<subseteq> fst ` set (rg_issuances s1)" unfolding targets_def lease_ok_def by fastforce
  then have "registry_ok ?s" using 2(3) by (simp add: registry_ok_def keys_ok_def)
  moreover from this have "steps_to {} s1 ?s" by (auto simp: steps_to_def barred_def)
  then have "steps_to {} s ?s" by (rule steps_to_trans [OF 2(2)]) simp
  ultimately have "steps_to {} s (drop_leases (\<lambda>a. issuance_of a \<in> targets) ?s)"
    using steps_to_trans [OF _ drop_leases_steps, of "{}" s ?s "{}"] by simp
  moreover have "snd (revoke cookie now s) = drop_leases (\<lambda>a. issuance_of a \<in> targets) ?s" using 2(1) by (simp add: revoke_def targets_def Let_def)
  ultimately show ?thesis by simp
qed

text \<open>Machines.\<close>

lemma launch_steps:
  assumes ok: "registry_ok s" and read: "from_texts sha loads T policy" and ran: "launch policy name command first now nonce object s = (r, s')"
  shows "steps_to {a. r = Inr a} s s'" and "r = Inr a \<Longrightarrow> authorised_lease sha loads T a"
proof -
  have "steps_to {a. r = Inr a} s s' \<and> (\<forall>a. r = Inr a \<longrightarrow> authorised_lease sha loads T a)"
  proof (cases "\<exists>a. r = Inr a")
    case False
    have "s' = s \<or> (\<exists>u. reclaimed_at now s = (u, s'))"
      using ran False by (auto simp: launch_def Let_def split: sum.splits option.splits prod.splits if_splits)
    then have "steps_to {} s s'" using reclaimed_cases [OF ok, of now] steps_to_refl [OF ok] by (metis prod.inject)
    then show ?thesis using False steps_to_more by auto
  next
    case True
    then obtain a where a: "r = Inr a" by auto
    show ?thesis
    proof (cases rule: reclaimed_cases [OF ok, of now])
      case 1
      then show ?thesis using ran a by (auto simp: launch_def Let_def split: sum.splits option.splits prod.splits if_splits)
    next
      case (2 s1)
      obtain p g where p: "policy = Inr p" "Option.bind name (map_of (ap_machines p)) = Some g" "mc_enabled g" "length (rg_leases s1) < CAPACITY"
        and s': "s' = s1\<lparr>rg_leases := AList.update (ac_lease a) (a, first) (rg_leases s1)\<rparr>"
        and f: "ac_machine a" "ac_issuer a = ''machine''" "ac_revision a = ap_revision p" "ac_subject a = the name" "ac_role a = ''operator''" "ac_workspace a = mc_workspace g"
          "ac_buyers a = set (mc_buyers g)" "ac_actions a = set (mc_actions g)"
        using ran a 2(1) by (auto simp: launch_def Let_def split: sum.splits option.splits if_splits)
      have "lease_ok s' e" if "e \<in> set (rg_leases s')" for e
      proof -
        have "e = (ac_lease a, a, first) \<or> e \<in> set (rg_leases s1)" using that set_update [of "ac_lease a" "(a, first)" "rg_leases s1"] by (auto simp: s')
        moreover have "lease_ok s1 e \<Longrightarrow> lease_ok s' e" by (rule lease_ok_grows) (auto simp: s')
        moreover have "lease_ok s' (ac_lease a, a, first)" using f(1,2) by (simp add: lease_ok_def)
        ultimately show ?thesis using 2(3) by (auto simp: registry_ok_def)
      qed
      then have "registry_ok s'" using 2(3) p(4) by (auto simp: registry_ok_def keys_ok_def s' update_length distinct_update)
      moreover have "barred k s' = barred k s1" for k by (simp add: barred_def s')
      moreover have "(fst \<circ> snd) ` set (rg_leases s') \<subseteq> (fst \<circ> snd) ` set (rg_leases s1) \<union> {a}"
        using image_mono [OF set_update [of "ac_lease a" "(a, first)" "rg_leases s1"], of "fst \<circ> snd"] by (auto simp: s')
      ultimately have "steps_to {a} s1 s'" by (simp add: steps_to_def s')
      then have "steps_to {a. r = Inr a} s s'" by (rule steps_to_trans [OF 2(2)]) (simp add: a)
      moreover have "authorised_lease sha loads T a"
        using read p f by (cases name) (auto simp: authorised_lease_def grant_held_def)
      ultimately show ?thesis using a by simp
    qed
  qed
  then show "steps_to {a. r = Inr a} s s'" and "r = Inr a \<Longrightarrow> authorised_lease sha loads T a" by blast+
qed

lemma close_steps: "registry_ok s \<Longrightarrow> steps_to {} s (close nonce s)"
proof -
  assume ok: "registry_ok s"
  have "lease_ok (close nonce s) = lease_ok s" by (intro ext) (simp add: lease_ok_def close_def split: prod.splits)
  moreover have "set (rg_leases (close nonce s)) \<subseteq> set (rg_leases s)" by (simp add: close_def set_delete)
  moreover have "length (rg_leases (close nonce s)) \<le> length (rg_leases s)" by (simp add: close_def delete_length)
  moreover have "keys_ok (close nonce s) = keys_ok s" by (simp add: close_def keys_ok_def)
  moreover have "distinct (map fst (rg_leases s)) \<longrightarrow> distinct (map fst (rg_leases (close nonce s)))" by (simp add: close_def distinct_delete)
  ultimately have "registry_ok (close nonce s)" using ok unfolding registry_ok_def by (metis le_trans subsetD)
  then show ?thesis using \<open>set (rg_leases (close nonce s)) \<subseteq> set (rg_leases s)\<close> by (auto simp: steps_to_def barred_def close_def)
qed

section \<open>Runs\<close>

text \<open>The policies a process reads are the deployment's texts.\<close>

fun access_from :: "(str \<Rightarrow> str) \<Rightarrow> (str \<Rightarrow> json option) \<Rightarrow> str set \<Rightarrow> access_event \<Rightarrow> bool" where
  "access_from sha loads T (Issue x) = (from_texts sha loads T (aa_policy x) \<and> from_texts sha loads T (aa_again x))"
| "access_from sha loads T (Check p now a) = from_texts sha loads T p"
| "access_from sha loads T (Launch p name command first now nonce object) = from_texts sha loads T p"
| "access_from sha loads T e = True"

definition leases_authorised :: "(str \<Rightarrow> str) \<Rightarrow> (str \<Rightarrow> json option) \<Rightarrow> str set \<Rightarrow> registry \<Rightarrow> bool" where
  "leases_authorised sha loads T s = (registry_ok s \<and> (\<forall>a\<in>(fst \<circ> snd) ` set (rg_leases s). authorised_lease sha loads T a))"

lemma authorised_steps:
  assumes "leases_authorised sha loads T s" and "steps_to A s s'" and "\<forall>a\<in>A. a \<in> (fst \<circ> snd) ` set (rg_leases s) \<or> authorised_lease sha loads T a"
  shows "leases_authorised sha loads T s' \<and> rg_boot s' = rg_boot s \<and> (\<forall>k. barred k s \<longrightarrow> barred k s')"
  using assms unfolding leases_authorised_def steps_to_def by blast

lemma access_step_steps:
  assumes inv: "leases_authorised sha loads T s" and reads: "access_from sha loads T e"
  shows "leases_authorised sha loads T (access_step s e) \<and> rg_boot (access_step s e) = rg_boot s \<and> (\<forall>k. barred k s \<longrightarrow> barred k (access_step s e))"
proof -
  have ok: "registry_ok s" using inv by (simp add: leases_authorised_def)
  show ?thesis
  proof (cases e)
    case Ready
    have "lease_ok (s\<lparr>rg_ready := True\<rparr>) = lease_ok s" by (intro ext) (simp add: lease_ok_def split: prod.splits)
    then have "registry_ok (s\<lparr>rg_ready := True\<rparr>)" using ok by (simp add: registry_ok_def keys_ok_def)
    then have "steps_to {} s (s\<lparr>rg_ready := True\<rparr>)" by (simp add: steps_to_def barred_def)
    then show ?thesis using authorised_steps [OF inv] Ready by simp
  next
    case (Issue x)
    then have read: "from_texts sha loads T (aa_policy x)" using reads by simp
    obtain r s' where i: "issue x s = (r, s')" by (cases "issue x s")
    have "steps_to {a. r = Inr a} s s'" by (rule issue_sound(1) [OF ok read i])
    then show ?thesis using authorised_steps [OF inv, of "{a. r = Inr a}" s'] issue_sound(2) [OF ok read i] Issue i by auto
  next
    case (Check p now a)
    obtain r s' where c: "check p now a s = (r, s')" by (cases "check p now a s")
    show ?thesis using authorised_steps [OF inv check_sound(1) [OF ok c]] Check c by simp
  next
    case (Native c now)
    obtain r s' where n: "revoke_native c now s = (r, s')" by (cases "revoke_native c now s")
    show ?thesis using authorised_steps [OF inv revoke_native_steps(1) [OF ok n]] Native n by simp
  next
    case (Revoke cookie now)
    then show ?thesis using authorised_steps [OF inv revoke_steps [OF ok]] by simp
  next
    case (Launch p name command first now nonce object)
    then have read: "from_texts sha loads T p" using reads by simp
    obtain r s' where l: "launch p name command first now nonce object s = (r, s')" by (cases "launch p name command first now nonce object s")
    show ?thesis using authorised_steps [OF inv launch_steps(1) [OF ok read l]] launch_steps(2) [OF ok read l] Launch l by auto
  next
    case (Close nonce)
    then show ?thesis using authorised_steps [OF inv close_steps [OF ok]] by simp
  qed
qed

lemma access_run:
  assumes "leases_authorised sha loads T s" and "\<forall>e\<in>set es. access_from sha loads T e"
  shows "leases_authorised sha loads T (foldl access_step s es) \<and> (\<forall>k. barred k s \<longrightarrow> barred k (foldl access_step s es))"
  using assms
proof (induction es arbitrary: s)
  case (Cons e es)
  then show ?case using access_step_steps [of sha loads T s e] by simp
qed simp

lemma opened_authorised: "leases_authorised sha loads T (opened_registry now)"
  by (simp add: leases_authorised_def opened_registry_def registry_ok_def keys_ok_def)

lemmas run_authorised = access_run [OF opened_authorised, THEN conjunct1]

section \<open>Properties\<close>

text \<open>A deployment with one text, two operators and a machine, for the witnesses.\<close>

definition demo_policy :: json where
  "demo_policy = JObj [(''version'', JInt 1), (''enabled'', JBool True), (''environment'', JStr ''local''), (''issuer'', JStr ''http://localhost''), (''client_id'', JStr ''app''),
     (''web_processes'', JInt 1), (''web_replicas'', JInt 1), (''owner_subject'', JStr ''o''), (''paid_actions'', JObj [(''search.parse'', JBool True)]),
     (''principals'', JArr [JObj [(''issuer'', JStr ''http://localhost''), (''subject'', JStr ''o''), (''role'', JStr ''operator''), (''enabled'', JBool True),
       (''workspace_id'', JInt 1), (''buyer_ids'', JArr [JInt 4])]])]"

definition demo_loads :: "str \<Rightarrow> json option" where
  "demo_loads raw = (if raw = ''p'' then Some demo_policy else None)"

definition demo_read :: "access_error + access_policy" where
  "demo_read = load_policy id demo_loads ''p''"

definition demo_claims :: json where
  "demo_claims = JObj [(''iss'', JStr ''http://localhost''), (''sub'', JStr ''o''), (''aud'', JStr ''app''), (''iat'', JInt 100), (''exp'', JInt 4000), (''email_verified'', JBool True)]"

definition demo_issue :: "rat \<Rightarrow> str \<Rightarrow> attempt_args" where
  "demo_issue now token = \<lparr>aa_policy = demo_read, aa_again = demo_read, aa_first = now, aa_now = now, aa_checked = now, aa_token = token, aa_object = 0, aa_claims = demo_claims,
     aa_cookie = ''c'', aa_prior = None\<rparr>"

definition demo_actor :: actor where
  "demo_actor = \<lparr>ac_object = 0, ac_lease = ''t'', ac_issuer = ''http://localhost'', ac_subject = ''o'', ac_role = ''operator'', ac_workspace = 1, ac_buyers = {4}, ac_revision = ''p'',
     ac_issued = 100, ac_expires = 4000, ac_cookie = ''c'', ac_machine = False, ac_actions = {}\<rparr>"

definition demo_events :: "access_event list" where
  "demo_events = [Ready, Issue (demo_issue 110 ''t'')]"

lemma demo_from: "e \<in> set demo_events \<Longrightarrow> access_from id demo_loads {''p''} e"
  by (auto simp: demo_events_def demo_issue_def from_texts_def demo_read_def)

text \<open>
  Whatever is asked of the registry and in whatever order (admissions, checks, logouts, machine launches, clock readings that jump), it stays bounded and consistent: at most
  10000 leases and 10000 issuances, each under one key, the revisions recorded for exactly the issuances, and only known issuances revoked.
\<close>

theorem registry_bounded:
  assumes "\<forall>e\<in>set es. access_from sha loads T e"
  shows "length (rg_leases (foldl access_step (opened_registry boot) es)) \<le> 10000 \<and> length (rg_issuances (foldl access_step (opened_registry boot) es)) \<le> 10000 \<and>
    distinct (map fst (rg_leases (foldl access_step (opened_registry boot) es))) \<and> distinct (map fst (rg_issuances (foldl access_step (opened_registry boot) es))) \<and>
    fst ` set (rg_revisions (foldl access_step (opened_registry boot) es)) = fst ` set (rg_issuances (foldl access_step (opened_registry boot) es)) \<and>
    rg_revoked (foldl access_step (opened_registry boot) es) \<subseteq> fst ` set (rg_issuances (foldl access_step (opened_registry boot) es))"
  using run_authorised [OF assms] by (simp add: leases_authorised_def registry_ok_def keys_ok_def CAPACITY_def)

theorem registry_bounded_witness:
  "length (rg_leases (foldl access_step (opened_registry 90) demo_events)) \<le> 10000 \<and> length (rg_issuances (foldl access_step (opened_registry 90) demo_events)) \<le> 10000"
  using registry_bounded [of demo_events id demo_loads "{''p''}" 90] demo_from by blast

text \<open>
  C15. Logging out is final: once the identity cookie of an issuance that is not from the future was logged out, then after any further operations that issuance is not admitted, neither
  as a new actor nor with an earlier one, and no actor of it passes a check. A cookie whose \<open>iat\<close> is still ahead of the clock is the exception (\<open>early_logout_forgotten\<close> below).
\<close>

theorem logged_out_stays_out:
  assumes "\<forall>e\<in>set (es @ es'). access_from sha loads T e"
    and "revoke_native (Some c) now (foldl access_step (opened_registry boot) es) = (Inr (), s)" and "native_issuance c = Some k" and "of_int (issued_at k) \<le> now"
    and "from_texts sha loads T (aa_policy x)"
  shows "\<not> (\<exists>a s'. issue x (foldl access_step s es') = (Inr a, s') \<and> issuance_of a = k) \<and>
    \<not> (\<exists>a s'. check policy t actor (foldl access_step s es') = (Inr a, s') \<and> \<not> ac_machine a \<and> issuance_of a = k)"
proof -
  have start: "leases_authorised sha loads T (foldl access_step (opened_registry boot) es)" using assms(1) by (intro run_authorised) auto
  then have ok: "registry_ok (foldl access_step (opened_registry boot) es)" by (simp add: leases_authorised_def)
  have "leases_authorised sha loads T s" using authorised_steps [OF start revoke_native_steps(1) [OF ok assms(2)]] by simp
  moreover have gone: "barred k s" using revoke_native_steps(2) [OF ok assms(2)] assms(3,4) by simp
  moreover have "\<forall>e\<in>set es'. access_from sha loads T e" using assms(1) by simp
  ultimately have run: "leases_authorised sha loads T (foldl access_step s es') \<and> (\<forall>k. barred k s \<longrightarrow> barred k (foldl access_step s es'))"
    by (intro access_run)
  then have later: "registry_ok (foldl access_step s es')" "barred k (foldl access_step s es')" using gone unfolding leases_authorised_def by blast+
  have "issuance_of a \<noteq> k" if "issue x (foldl access_step s es') = (Inr a, s')" for a s'
    using issue_sound [OF later(1) assms(5) that] later(2) unfolding steps_to_def by blast
  moreover have "ac_machine a \<or> issuance_of a \<noteq> k" if "check policy t actor (foldl access_step s es') = (Inr a, s')" for a s'
    using check_sound [OF later(1) that] later(2) unfolding steps_to_def by blast
  ultimately show ?thesis by blast
qed

theorem logged_out_stays_out_witness:
  "\<not> (\<exists>a s'. issue (demo_issue 130 ''u'') (snd (revoke_native (Some demo_claims) 120 (foldl access_step (opened_registry 90) demo_events))) = (Inr a, s') \<and>
    issuance_of a = (''http://localhost'', ''o'', 100))"
proof -
  let ?run = "foldl access_step (opened_registry 90) demo_events"
  have "fst (revoke_native (Some demo_claims) 120 ?run) = Inr ()" by code_simp
  then have "revoke_native (Some demo_claims) 120 ?run = (Inr (), snd (revoke_native (Some demo_claims) 120 ?run))" by (metis prod.collapse)
  moreover have "native_issuance demo_claims = Some (''http://localhost'', ''o'', 100)" by code_simp
  moreover have "from_texts id demo_loads {''p''} (aa_policy (demo_issue 130 ''u''))" by (simp add: demo_issue_def from_texts_def demo_read_def)
  ultimately show ?thesis
    using logged_out_stays_out [of demo_events "[]" id demo_loads "{''p''}" demo_claims 120 90] demo_from by (auto simp: issued_at_def)
qed

text \<open>
  C16. Authority comes from the policy in force: where different texts have different digests, whoever passes a buyer's guard or an operator's guard holds the grant of the policy
  read at that moment, with its role, workspace, buyers and actions (not those of an earlier policy or of another identity); a buyer's guard lets through only the workspace and a buyer of
  that grant, an operator's guard only operators, machines only for actions they were granted, and a paid action only where the policy enables it.
\<close>

theorem guards_as_granted:
  assumes "inj_on sha T" and "\<forall>e\<in>set es. access_from sha loads T e" and "from_texts sha loads T policy" and "s = foldl access_step (opened_registry boot) es"
  shows "(\<forall>a. fst (require_buyer policy now actor ws buyer s) = Inr a \<longrightarrow>
      (\<exists>p. policy = Inr p \<and> actor = Some a \<and> ac_revision a = ap_revision p \<and> grant_held p a \<and> ws = ac_workspace a \<and> buyer \<in> ac_buyers a)) \<and>
    (\<forall>a. fst (require_operator policy again now actor action paid s) = Inr a \<longrightarrow>
      (\<exists>p. policy = Inr p \<and> actor = Some a \<and> ac_revision a = ap_revision p \<and> grant_held p a \<and> ac_role a = ''operator'' \<and> (ac_machine a \<longrightarrow> action \<in> ac_actions a) \<and>
        (paid \<longrightarrow> (\<exists>q. again = Inr q \<and> map_of (ap_paid q) action = Some True))))"
proof -
  have start: "leases_authorised sha loads T s" using assms(2) unfolding assms(4) by (rule run_authorised)
  then have ok: "registry_ok s" by (simp add: leases_authorised_def)
  have granted: "\<exists>p. policy = Inr p \<and> actor = Some a \<and> ac_revision a = ap_revision p \<and> grant_held p a" if c: "check policy now actor s = (Inr a, s')" for a s'
  proof -
    obtain p t where p: "policy = Inr p" "actor = Some a" "still_granted p a = Some True" "(ac_lease a, a, t) \<in> set (rg_leases s')"
      using check_sound(2) [OF ok c refl] by blast
    have "leases_authorised sha loads T s'" using authorised_steps [OF start check_sound(1) [OF ok c]] by simp
    then have "authorised_lease sha loads T a" using p(4) unfolding leases_authorised_def by force
    then obtain q where q: "from_texts sha loads T (Inr q)" "ac_revision a = ap_revision q" "grant_held q a" by (auto simp: authorised_lease_def)
    have "ac_revision a = ap_revision p" using p(3) by (auto simp: still_granted_def split: if_splits option.splits)
    moreover have "q = p"
    proof -
      obtain x y where xy: "x \<in> T" "load_policy sha loads x = Inr q" "y \<in> T" "load_policy sha loads y = Inr p"
        using q(1) assms(3) p(1) unfolding from_texts_def by (metis imageE)
      then have "sha x = sha y" using loaded_policy(2) q(2) calculation by metis
      then have "x = y" using inj_onD [OF assms(1)] xy(1,3) by blast
      then show ?thesis using xy(2,4) by simp
    qed
    ultimately show ?thesis using p(1,2) q(3) by simp
  qed
  have "\<exists>p. policy = Inr p \<and> actor = Some a \<and> ac_revision a = ap_revision p \<and> grant_held p a \<and> ws = ac_workspace a \<and> buyer \<in> ac_buyers a"
    if "fst (require_buyer policy now actor ws buyer s) = Inr a" for a
    using that granted by (auto simp: require_buyer_def split: prod.splits sum.splits if_splits)
  moreover have "\<exists>p. policy = Inr p \<and> actor = Some a \<and> ac_revision a = ap_revision p \<and> grant_held p a \<and> ac_role a = ''operator'' \<and> (ac_machine a \<longrightarrow> action \<in> ac_actions a) \<and>
        (paid \<longrightarrow> (\<exists>q. again = Inr q \<and> map_of (ap_paid q) action = Some True))"
    if "fst (require_operator policy again now actor action paid s) = Inr a" for a
    using that granted by (auto simp: require_operator_def split: prod.splits sum.splits if_splits)
  ultimately show ?thesis by blast
qed

theorem guards_as_granted_witness:
  "\<exists>p. demo_read = Inr p \<and> grant_held p demo_actor \<and> ac_role demo_actor = ''operator''"
proof -
  let ?s = "foldl access_step (opened_registry 90) demo_events"
  have "fst (require_operator demo_read demo_read 115 (Some demo_actor) ''search.parse'' True ?s) = Inr demo_actor" by code_simp
  then show ?thesis
    using guards_as_granted [of id "{''p''}" demo_events demo_loads demo_read ?s 90 115 "Some demo_actor" 1 4 demo_read "''search.parse''" True] demo_from
    by (auto simp: from_texts_def demo_read_def)
qed

section \<open>A gap\<close>

text \<open>A logout of an issuance whose \<open>iat\<close> is still ahead of the clock leaves nothing behind: the same cookie is admitted once the clock has passed it.\<close>

lemma early_logout_forgotten:
  "native_issuance demo_claims = Some (''http://localhost'', ''o'', 100) \<and>
   fst (revoke_native (Some demo_claims) 95 (foldl access_step (opened_registry 90) [Ready])) = Inr () \<and>
   fst (issue (demo_issue 110 ''t'') (snd (revoke_native (Some demo_claims) 95 (foldl access_step (opened_registry 90) [Ready])))) = Inr demo_actor"
  by (intro conjI) code_simp+

end
