(* ===== verification/AgentResult.thy ===== *)
theory AgentResult
  imports Json
begin

text \<open>
  The answer of an agent evaluation (app/policy/agent_evaluation_result.py) and the validator that turns a model's JSON into one (app/policy/agent_evaluation_validator.py).
  The JSON is any value: the validator's own exceptions, where it meets a shape it does not expect, are values of \<open>crash\<close>. Keys of a parsed object are distinct. What is left
  open in a result's fields is left open here: a cited reference, a reason's label or an unknown's question is whatever JSON the model gave.
\<close>

section \<open>Vocabularies\<close>

definition PURSUE :: str where "PURSUE = ''PURSUE''"
definition INVESTIGATE :: str where "INVESTIGATE = ''INVESTIGATE''"
definition MONITOR :: str where "MONITOR = ''MONITOR''"
definition NOT_RELEVANT :: str where "NOT_RELEVANT = ''NOT_RELEVANT''"

definition PARCEL_TBD :: str where "PARCEL_TBD = ''PARCEL_TBD''"
definition SUBJECT_PHASE :: str where "SUBJECT_PHASE = ''PHASE''"
definition WHOLE_ALLOCATION :: str where "WHOLE_ALLOCATION = ''WHOLE_ALLOCATION''"
definition DEVELOPMENT_SITE :: str where "DEVELOPMENT_SITE = ''DEVELOPMENT_SITE''"

definition IDENTIFY_PHASE_OR_PARCEL :: str where "IDENTIFY_PHASE_OR_PARCEL = ''IDENTIFY_PHASE_OR_PARCEL''"

text \<open>Each set in the order \<open>sorted\<close> shows it.\<close>

definition RECOMMENDATION_VALUES :: "str list" where
  "RECOMMENDATION_VALUES = [INVESTIGATE, MONITOR, NOT_RELEVANT, PURSUE]"

definition CONFIDENCE_VALUES :: "str list" where
  "CONFIDENCE_VALUES = [''HIGH'', ''LOW'', ''MEDIUM'']"

definition ACQUISITION_SUBJECT_LEVELS :: "str list" where
  "ACQUISITION_SUBJECT_LEVELS = [''AFFORDABLE_PACKAGE'', ''DELIVERY_PIPELINE'', DEVELOPMENT_SITE, PARCEL_TBD, SUBJECT_PHASE, WHOLE_ALLOCATION]"

definition NEXT_ACTION_VALUES :: "str list" where
  "NEXT_ACTION_VALUES = [''CHECK_IMPLEMENTATION_ACTIVITY'', ''COMMERCIAL_DUE_DILIGENCE'', ''CONTACT_OWNER_OR_CONTROLLER'', IDENTIFY_PHASE_OR_PARCEL, ''NO_ACTION'',
     ''REVIEW_PLANNING_POSITION'', ''VERIFY_AFFORDABLE_PACKAGE'', ''VERIFY_CONTROL_POSITION'', ''VERIFY_OWNERSHIP'']"

definition MONITORING_TRIGGER_VALUES :: "str list" where
  "MONITORING_TRIGGER_VALUES = [''AFFORDABLE_POSITION_CHANGED'', ''ALLOCATION_STATUS_CHANGED'', ''DECISION_CHANGED'', ''IMPLEMENTATION_ACTIVITY_CHANGED'',
     ''IMPLEMENTATION_DEADLINE_CHANGED'', ''OWNERSHIP_EVIDENCE_CHANGED'', ''PHASING_EVIDENCE_CHANGED'', ''PLANNING_STATUS_CHANGED'', ''UNIT_COUNT_CHANGED'']"

section \<open>Results\<close>

record acquisition_subject =
  as_level :: str
  as_reference :: json
  as_note :: json

record result_key =
  rk_buyer :: str
  rk_opportunity :: str
  rk_acquisition_type :: str

record material_signal =
  ms_label :: json
  ms_reference :: str

record material_unknown =
  mu_question :: json
  mu_blocking :: bool
  mu_resolvable :: bool
  mu_material :: bool
  mu_why :: json

record agent_result =
  ar_key :: result_key
  ar_recommendation :: str
  ar_confidence :: str
  ar_basis :: "json list"
  ar_subject :: acquisition_subject
  ar_positive :: "material_signal list"
  ar_negative :: "material_signal list"
  ar_unknowns :: "material_unknown list"
  ar_summary :: str
  ar_next_action :: str
  ar_next_detail :: str
  ar_trigger :: "str option"
  ar_evidence :: "json list"
  ar_mandate_fingerprint :: str
  ar_opportunity_fingerprint :: str
  ar_policy_version :: str

text \<open>The check of the constructor: the message of its \<open>ValueError\<close>, or the result.\<close>

definition checked_result :: "agent_result \<Rightarrow> str + agent_result" where
  "checked_result r =
    (if ar_recommendation r \<notin> set RECOMMENDATION_VALUES then Inl (''recommendation '' @ py_repr (ar_recommendation r) @ '' is not one of '' @ list_repr RECOMMENDATION_VALUES)
     else if ar_confidence r \<notin> set CONFIDENCE_VALUES then Inl (''confidence '' @ py_repr (ar_confidence r) @ '' is not one of '' @ list_repr CONFIDENCE_VALUES)
     else if ar_recommendation r = MONITOR \<and> \<not> truthy (ar_trigger r) then Inl ''monitoring_trigger is required whenever recommendation == MONITOR''
     else if (case ar_trigger r of None \<Rightarrow> False | Some t \<Rightarrow> t \<notin> set MONITORING_TRIGGER_VALUES) then
       Inl (''monitoring_trigger '' @ py_repr (opt_or (ar_trigger r) []) @ '' is not one of '' @ list_repr MONITORING_TRIGGER_VALUES)
     else if ar_next_action r \<notin> set NEXT_ACTION_VALUES then Inl (''next_action '' @ py_repr (ar_next_action r) @ '' is not one of '' @ list_repr NEXT_ACTION_VALUES)
     else Inr r)"

section \<open>Python values of JSON\<close>

primrec json_repr :: "json \<Rightarrow> str" where
  "json_repr JNull = ''None''"
| "json_repr (JBool b) = (if b then ''True'' else ''False'')"
| "json_repr (JInt i) = int_str i"
| "json_repr (JFloat t q) = t"
| "json_repr (JStr s) = py_repr s"
| "json_repr (JArr vs) = ''['' @ join '', '' (map json_repr vs) @ '']''"
| "json_repr (JObj fs) = CHR ''{'' # join '', '' (map (\<lambda>(k, t). py_repr k @ '': '' @ t) (map (map_prod id json_repr) fs)) @ ''}''"

fun json_truthy :: "json \<Rightarrow> bool" where
  "json_truthy JNull = False"
| "json_truthy (JBool b) = b"
| "json_truthy (JInt i) = (i \<noteq> 0)"
| "json_truthy (JFloat t q) = (q \<noteq> 0)"
| "json_truthy (JStr s) = (s \<noteq> [])"
| "json_truthy (JArr vs) = (vs \<noteq> [])"
| "json_truthy (JObj fs) = (fs \<noteq> [])"

fun type_name :: "json \<Rightarrow> str" where
  "type_name JNull = ''NoneType''"
| "type_name (JBool b) = ''bool''"
| "type_name (JInt i) = ''int''"
| "type_name (JFloat t q) = ''float''"
| "type_name (JStr s) = ''str''"
| "type_name (JArr vs) = ''list''"
| "type_name (JObj fs) = ''dict''"

definition class_repr :: "str \<Rightarrow> str" where
  "class_repr n = ''<class '' @ py_repr n @ ''>''"

text \<open>\<open>AttributeError\<close>: a method of a value that has none; \<open>TypeError\<close>: a list or an object as the member of a set; \<open>ValueError\<close>: the message of a constructor.\<close>

datatype crash = Attribute_Error | Unhashable | Value_Error str

fun set_member :: "str list \<Rightarrow> json \<Rightarrow> crash + bool" where
  "set_member xs (JStr s) = Inr (s \<in> set xs)"
| "set_member xs (JArr vs) = Inl Unhashable"
| "set_member xs (JObj fs) = Inl Unhashable"
| "set_member xs v = Inr False"

fun gather :: "('a \<Rightarrow> crash + 'b) \<Rightarrow> 'a list \<Rightarrow> crash + 'b list" where
  "gather f [] = Inr []"
| "gather f (x # xs) = (case f x of Inl e \<Rightarrow> Inl e | Inr y \<Rightarrow> (case gather f xs of Inl e \<Rightarrow> Inl e | Inr ys \<Rightarrow> Inr (y # ys)))"

definition lefts :: "('a + 'b) list \<Rightarrow> 'a list" where
  "lefts = List.map_filter (\<lambda>x. case x of Inl a \<Rightarrow> Some a | Inr b \<Rightarrow> None)"

definition rights :: "('a + 'b) list \<Rightarrow> 'b list" where
  "rights = List.map_filter (\<lambda>x. case x of Inl a \<Rightarrow> None | Inr b \<Rightarrow> Some b)"

section \<open>Unsupported language\<close>

definition FORBIDDEN_PHRASES :: "str list" where
  "FORBIDDEN_PHRASES = [''is available'', ''for sale'', ''motivated seller'', ''likely to sell'', ''willing to sell'', ''wants out'', ''wants to sell'', ''unwilling to sell'',
     ''site is dormant'', ''site dormant'', ''land banked'', ''land-banked'', ''construction has started'', ''construction commenced'', ''construction has commenced'',
     ''development has commenced'', ''development is underway'', ''development underway'', ''physical works have started'', ''physical works started'', ''site is inactive'',
     ''confirmed uncommenced'', ''owner is not progressing'', ''owner not progressing'', ''self-delivering'', ''self delivering'']"

definition NEGATION_CUES :: "str list" where
  "NEGATION_CUES = [''does not'', ''do not'', ''never'', ''not itself'', ''not that'', ''not proof'', ''no evidence'', ''not confirmed'', ''not established'', ''not mean'',
     ''cannot'', ''can not'', ''no direct evidence'']"

text \<open>\<open>s.split(".")\<close>\<close>

fun sentences :: "str \<Rightarrow> str list" where
  "sentences [] = [[]]"
| "sentences (c # cs) = (if c = CHR ''.'' then [] # sentences cs else (case sentences cs of s # ss \<Rightarrow> (c # s) # ss | [] \<Rightarrow> [[c]]))"

definition unnegated :: "str \<Rightarrow> str \<Rightarrow> bool" where
  "unnegated sentence phrase = (contains phrase sentence \<and> \<not> list_ex (\<lambda>cue. contains cue sentence) NEGATION_CUES)"

definition forbidden_phrase :: "str \<Rightarrow> str option" where
  "forbidden_phrase s = map_option snd (find (\<lambda>(sentence, phrase). unnegated sentence phrase) (List.product (sentences (lower s)) FORBIDDEN_PHRASES))"

text \<open>A value that is not a string and not false has no \<open>lower\<close>.\<close>

definition find_unsupported_language :: "json \<Rightarrow> crash + str option" where
  "find_unsupported_language v = (if \<not> json_truthy v then Inr None else (case v of JStr s \<Rightarrow> Inr (forbidden_phrase s) | _ \<Rightarrow> Inl Attribute_Error))"

end
