(* ===== verification/AgentValidator.thy ===== *)
theory AgentValidator
  imports AgentResult
begin

text \<open>
  \<open>validate_and_build_result\<close> of app/policy/agent_evaluation_validator.py, check by check and in its order. The context is its table of reference tokens. A list of messages is
  a rejection; the constructor's own check comes last.
\<close>

type_synonym tokens = "(str \<times> str) list"

datatype validation_outcome = Rejected "str list" | Accepted agent_result

definition andthen :: "crash + 'a \<Rightarrow> ('a \<Rightarrow> crash + 'b) \<Rightarrow> crash + 'b" where
  "andthen m f = (case m of Inl e \<Rightarrow> Inl e | Inr x \<Rightarrow> f x)"

lemma andthen_simps [simp]: "andthen (Inl e) f = Inl e" "andthen (Inr x) f = f x"
  by (simp_all add: andthen_def)

section \<open>Fields\<close>

datatype field_type = TStr | TList | TDict

fun typed :: "field_type \<Rightarrow> json \<Rightarrow> bool" where
  "typed TStr (JStr s) = True"
| "typed TList (JArr vs) = True"
| "typed TDict (JObj fs) = True"
| "typed ty v = False"

fun field_class :: "field_type \<Rightarrow> str" where
  "field_class TStr = class_repr ''str''"
| "field_class TList = class_repr ''list''"
| "field_class TDict = class_repr ''dict''"

definition REQUIRED_FIELDS :: "(str \<times> field_type) list" where
  "REQUIRED_FIELDS = [(''recommendation'', TStr), (''confidence'', TStr), (''confidence_basis'', TList), (''acquisition_subject'', TDict), (''supporting_reasons'', TList),
     (''countervailing_reasons'', TList), (''material_unknowns'', TList), (''reasoning_summary'', TStr), (''next_action'', TStr), (''next_action_detail'', TStr),
     (''evidence_references'', TList)]"

definition field_error :: "(str \<times> json) list \<Rightarrow> str \<times> field_type \<Rightarrow> str list" where
  "field_error fs f = (case f of (k, ty) \<Rightarrow> (case map_of fs k of
     None \<Rightarrow> [''missing required field '' @ py_repr k]
   | Some v \<Rightarrow> if typed ty v then []
       else [''field '' @ py_repr k @ '' has wrong type: expected '' @ field_class ty @ '', got '' @ class_repr (type_name v)]))"

definition text_field :: "(str \<times> json) list \<Rightarrow> str \<Rightarrow> str" where
  "text_field fs k = (case map_of fs k of Some (JStr s) \<Rightarrow> s | _ \<Rightarrow> [])"

definition list_field :: "(str \<times> json) list \<Rightarrow> str \<Rightarrow> json list" where
  "list_field fs k = (case map_of fs k of Some (JArr vs) \<Rightarrow> vs | _ \<Rightarrow> [])"

definition object_field :: "(str \<times> json) list \<Rightarrow> str \<Rightarrow> (str \<times> json) list" where
  "object_field fs k = (case map_of fs k of Some (JObj gs) \<Rightarrow> gs | _ \<Rightarrow> [])"

text \<open>\<open>d.get(k)\<close>\<close>

definition get_field :: "(str \<times> json) list \<Rightarrow> str \<Rightarrow> json" where
  "get_field fs k = opt_or (map_of fs k) JNull"

section \<open>Vocabularies and the subject\<close>

definition vocabulary_error :: "str \<Rightarrow> str \<Rightarrow> str list \<Rightarrow> str list" where
  "vocabulary_error name v xs = (if v \<in> set xs then [] else [name @ '' '' @ py_repr v @ '' not in '' @ list_repr xs])"

definition trigger_errors :: "str \<Rightarrow> json \<Rightarrow> crash + str list" where
  "trigger_errors rec trigger = andthen (if trigger = JNull then Inr True else set_member MONITORING_TRIGGER_VALUES trigger) (\<lambda>known.
     Inr ((if known then [] else [''monitoring_trigger '' @ json_repr trigger @ '' not in '' @ list_repr MONITORING_TRIGGER_VALUES]) @
          (if rec = MONITOR \<and> \<not> json_truthy trigger then [''MONITOR requires a non-null monitoring_trigger''] else [])))"

definition parcel_error :: "str \<Rightarrow> json \<Rightarrow> str list" where
  "parcel_error level reference = (if level = PARCEL_TBD \<and> json_truthy reference then
     [''acquisition_subject.level=PARCEL_TBD must not carry a specific reference (got '' @ json_repr reference @
      '') - a populated reference asserts a parcel has been identified, which contradicts PARCEL_TBD's own meaning; use PHASE instead if a specific '' @
      ''phase/parcel has actually been established by evidence''] else [])"

definition identify_error :: "str \<Rightarrow> str \<Rightarrow> str list" where
  "identify_error action level = (if action = IDENTIFY_PHASE_OR_PARCEL \<and> level \<noteq> PARCEL_TBD \<and> level \<noteq> SUBJECT_PHASE then
     [''next_action=IDENTIFY_PHASE_OR_PARCEL is inconsistent with acquisition_subject.level='' @ py_repr level @
      '' - choosing to identify a phase/parcel implies the acquisition subject is not yet established; use acquisition_subject.level=PARCEL_TBD (or PHASE if a specific '' @
      ''phase/parcel is already evidenced), never WHOLE_ALLOCATION or DEVELOPMENT_SITE''] else [])"

definition checked_subject :: "str \<Rightarrow> (str \<times> json) list \<Rightarrow> crash + (str list + acquisition_subject) \<times> str list" where
  "checked_subject action fs =
    (let level = get_field fs ''level''; reference = get_field fs ''reference'' in
     andthen (set_member ACQUISITION_SUBJECT_LEVELS level) (\<lambda>known.
       case level of
         JStr l \<Rightarrow> Inr (if known then (Inr \<lparr>as_level = l, as_reference = reference, as_note = get_field fs ''note''\<rparr>, parcel_error l reference @ identify_error action l)
           else (Inl [], [''acquisition_subject.level '' @ json_repr level @ '' not in '' @ list_repr ACQUISITION_SUBJECT_LEVELS]))
       | _ \<Rightarrow> Inr (Inl [], [''acquisition_subject.level '' @ json_repr level @ '' not in '' @ list_repr ACQUISITION_SUBJECT_LEVELS])))"

section \<open>References\<close>

definition ref_error :: "tokens \<Rightarrow> str \<Rightarrow> json \<Rightarrow> crash + str list" where
  "ref_error tokens label r = andthen (set_member (map fst tokens) r) (\<lambda>known.
     Inr (if known then [] else [label @ '' cites unknown reference token '' @ json_repr r @ '' (not present in this evaluation's own context)'']))"

definition signal_of :: "tokens \<Rightarrow> str \<Rightarrow> json \<Rightarrow> crash + str + material_signal" where
  "signal_of tokens label item = (case item of
     JObj fs \<Rightarrow> (let r = get_field fs ''evidence_reference'' in andthen (set_member (map fst tokens) r) (\<lambda>known.
       Inr (if known then Inr \<lparr>ms_label = opt_or (map_of fs ''label'') (JStr []), ms_reference = (case r of JStr s \<Rightarrow> s | _ \<Rightarrow> [])\<rparr>
            else Inl (label @ '' cites unknown reference token '' @ json_repr r))))
   | _ \<Rightarrow> Inl Attribute_Error)"

text \<open>The message of the \<open>TypeError\<close> that \<open>v["fact_or_question"]\<close> raises.\<close>

fun subscript_error :: "json \<Rightarrow> str" where
  "subscript_error (JStr s) = ''string indices must be integers, not '' @ py_repr ''str''"
| "subscript_error (JArr vs) = ''list indices must be integers or slices, not str''"
| "subscript_error v = py_repr (type_name v) @ '' object is not subscriptable''"

definition unknown_of :: "json \<Rightarrow> str + material_unknown" where
  "unknown_of item = (case item of
     JObj fs \<Rightarrow> (case find (\<lambda>k. map_of fs k = None) [''fact_or_question'', ''blocking'', ''resolvable''] of
         Some k \<Rightarrow> Inl (''material_unknowns entry malformed: '' @ py_repr k)
       | None \<Rightarrow> Inr \<lparr>mu_question = get_field fs ''fact_or_question'', mu_blocking = json_truthy (get_field fs ''blocking''),
           mu_resolvable = json_truthy (get_field fs ''resolvable''), mu_material = json_truthy (opt_or (map_of fs ''material'') (JBool True)),
           mu_why = opt_or (map_of fs ''why_it_matters'') (JStr [])\<rparr>)
   | v \<Rightarrow> Inl (''material_unknowns entry malformed: '' @ subscript_error v))"

section \<open>The recommendation against its own evidence\<close>

definition decisive :: "material_unknown \<Rightarrow> bool" where
  "decisive u = (mu_material u \<and> mu_resolvable u \<and> mu_blocking u)"

definition absence_of_ownership :: "tokens \<Rightarrow> str \<Rightarrow> bool" where
  "absence_of_ownership tokens r = (r = ''packet.actors_control.has_ownership_evidence'' \<and> map_of tokens r = Some ''False'')"

definition NOT_A_CONFIRMED_FACT_PREFIXES :: "str list" where
  "NOT_A_CONFIRMED_FACT_PREFIXES = [''buyer_fit.unknown['', ''buyer_fit.investigate['']"

definition confirmed :: "tokens \<Rightarrow> str \<Rightarrow> bool" where
  "confirmed tokens r = (\<not> list_ex (\<lambda>p. prefix p r) NOT_A_CONFIRMED_FACT_PREFIXES \<and> \<not> absence_of_ownership tokens r)"

definition incompatibility :: "tokens \<Rightarrow> str \<Rightarrow> bool" where
  "incompatibility tokens r = (confirmed tokens r \<and> \<not> list_ex (\<lambda>p. prefix p r) (NOT_A_CONFIRMED_FACT_PREFIXES @ [''packet.actors_control.'']))"

definition investigate_error :: "str \<Rightarrow> material_unknown list \<Rightarrow> str list" where
  "investigate_error rec us = (if rec = INVESTIGATE \<and> \<not> list_ex decisive us then
     [''INVESTIGATE requires at least one material_unknowns entry with material=True, resolvable=True, blocking=True''] else [])"

definition monitor_error :: "str \<Rightarrow> material_unknown list \<Rightarrow> str list" where
  "monitor_error rec us = (if rec = MONITOR \<and> list_ex decisive us then
     [''MONITOR is inconsistent with a material_unknowns entry that is material=True, resolvable=True, blocking=True - by this policy's own rule '' @
      ''(MATERIAL + RESOLVABLE + BLOCKING = INVESTIGATE), a question resolvable right now is investigation work to act on (INVESTIGATE, or PURSUE if the '' @
      ''opportunity already has a credible angle), never a reason to wait for a future external trigger''] else [])"

definition contradiction_error :: "tokens \<Rightarrow> str \<Rightarrow> material_signal list \<Rightarrow> material_signal list \<Rightarrow> material_unknown list \<Rightarrow> str list" where
  "contradiction_error tokens rec pos neg us =
    (if (rec = MONITOR \<or> rec = NOT_RELEVANT) \<and> pos \<noteq> [] \<and> filter (\<lambda>s. confirmed tokens (ms_reference s)) neg = [] \<and> us \<noteq> [] \<and> list_all (\<lambda>u. \<not> mu_blocking u) us then
     [rec @ '' is inconsistent with the model's own structured output: at least one supporting reason was cited, no CONFIRMED countervailing reason was cited (a '' @
      ''buyer_fit.unknown[i]/buyer_fit.investigate[i] citation alone does not count), and every material_unknowns entry is blocking=false - there is no basis left for '' @
      ''anything other than PURSUE (with any non-blocking unknowns investigated in parallel)''] else [])"

definition relevance_error :: "tokens \<Rightarrow> str \<Rightarrow> material_signal list \<Rightarrow> str list" where
  "relevance_error tokens rec neg = (if rec = NOT_RELEVANT \<and> filter (incompatibility tokens) (map ms_reference neg) = [] then
     [''NOT_RELEVANT requires at least one countervailing_reasons entry citing a CONFIRMED MANDATE-INCOMPATIBILITY fact (packet.* excluding actors_control.*, signals.*, or '' @
      ''buyer_fit.non_terminal_does_not_match[i]) - never solely material_unknowns, never solely buyer_fit.unknown[i]/buyer_fit.investigate[i] (Buyer Fit's own unresolved '' @
      ''buckets), and never solely packet.actors_control.* (developer/ownership identity is transaction context, never itself a mandate-incompatibility fact)''] else [])"

section \<open>Free text\<close>

definition text_of :: "str \<Rightarrow> json \<Rightarrow> crash + json" where
  "text_of k item = (case item of JObj fs \<Rightarrow> Inr (get_field fs k) | _ \<Rightarrow> Inl Attribute_Error)"

definition language_error :: "str \<times> json \<Rightarrow> crash + str list" where
  "language_error field = (case field of (name, v) \<Rightarrow> andthen (find_unsupported_language v) (\<lambda>found. Inr (case found of
     None \<Rightarrow> [] | Some phrase \<Rightarrow> [name @ '' contains unsupported language ('' @ py_repr phrase @ ''): '' @ json_repr v])))"

definition free_texts :: "(str \<times> json) list \<Rightarrow> crash + (str \<times> json) list" where
  "free_texts fs = andthen (gather (text_of ''label'') (list_field fs ''supporting_reasons'')) (\<lambda>pos.
     andthen (gather (text_of ''label'') (list_field fs ''countervailing_reasons'')) (\<lambda>neg.
     andthen (gather (text_of ''why_it_matters'') (list_field fs ''material_unknowns'')) (\<lambda>whys.
     Inr ([(''reasoning_summary'', JStr (text_field fs ''reasoning_summary'')), (''next_action_detail'', JStr (text_field fs ''next_action_detail''))] @
       map (Pair ''supporting_reasons.label'') pos @ map (Pair ''countervailing_reasons.label'') neg @ map (Pair ''material_unknowns.why_it_matters'') whys @
       [(''acquisition_subject.note'', get_field (object_field fs ''acquisition_subject'') ''note'')]))))"

section \<open>The validator\<close>

record evaluation_identity =
  ei_key :: result_key
  ei_mandate_fingerprint :: str
  ei_opportunity_fingerprint :: str
  ei_policy_version :: str

definition build_result :: "evaluation_identity \<Rightarrow> (str \<times> json) list \<Rightarrow> acquisition_subject \<Rightarrow> material_signal list \<Rightarrow> material_signal list \<Rightarrow>
    material_unknown list \<Rightarrow> agent_result" where
  "build_result i fs subject pos neg us =
    \<lparr>ar_key = ei_key i, ar_recommendation = text_field fs ''recommendation'', ar_confidence = text_field fs ''confidence'', ar_basis = list_field fs ''confidence_basis'',
     ar_subject = subject, ar_positive = pos, ar_negative = neg, ar_unknowns = us, ar_summary = text_field fs ''reasoning_summary'',
     ar_next_action = text_field fs ''next_action'', ar_next_detail = text_field fs ''next_action_detail'', ar_trigger = jstr (Some (get_field fs ''monitoring_trigger'')),
     ar_evidence = list_field fs ''evidence_references'', ar_mandate_fingerprint = ei_mandate_fingerprint i,
     ar_opportunity_fingerprint = ei_opportunity_fingerprint i, ar_policy_version = ei_policy_version i\<rparr>"

definition conclude :: "evaluation_identity \<Rightarrow> (str \<times> json) list \<Rightarrow> str list + acquisition_subject \<Rightarrow> material_signal list \<Rightarrow> material_signal list \<Rightarrow>
    material_unknown list \<Rightarrow> str list \<Rightarrow> validation_outcome" where
  "conclude i fs subject pos neg us errors =
    (if errors \<noteq> [] then Rejected errors
     else (case subject of
         Inl _ \<Rightarrow> Rejected []
       | Inr s \<Rightarrow> (case checked_result (build_result i fs s pos neg us) of
           Inl message \<Rightarrow> Rejected [''AgentEvaluationResult construction failed: '' @ message]
         | Inr r \<Rightarrow> Accepted r)))"

definition validate_fields :: "tokens \<Rightarrow> evaluation_identity \<Rightarrow> (str \<times> json) list \<Rightarrow> crash + validation_outcome" where
  "validate_fields tokens i fs =
    (let rec = text_field fs ''recommendation''; action = text_field fs ''next_action'';
         vocabulary = vocabulary_error ''recommendation'' rec RECOMMENDATION_VALUES @ vocabulary_error ''confidence'' (text_field fs ''confidence'') CONFIDENCE_VALUES @
           vocabulary_error ''next_action'' action NEXT_ACTION_VALUES in
     andthen (trigger_errors rec (get_field fs ''monitoring_trigger'')) (\<lambda>trigger.
     andthen (checked_subject action (object_field fs ''acquisition_subject'')) (\<lambda>(subject, subject_errors).
     andthen (gather (ref_error tokens ''confidence_basis'') (list_field fs ''confidence_basis'')) (\<lambda>basis.
     andthen (gather (ref_error tokens ''evidence_references'') (list_field fs ''evidence_references'')) (\<lambda>evidence.
     andthen (gather (signal_of tokens ''supporting_reasons'') (list_field fs ''supporting_reasons'')) (\<lambda>supporting.
     andthen (gather (signal_of tokens ''countervailing_reasons'') (list_field fs ''countervailing_reasons'')) (\<lambda>countervailing.
     (let unknowns = map unknown_of (list_field fs ''material_unknowns''); pos = rights supporting; neg = rights countervailing; us = rights unknowns in
     andthen (free_texts fs) (\<lambda>texts.
     andthen (gather language_error texts) (\<lambda>languages.
     Inr (conclude i fs subject pos neg us (vocabulary @ trigger @ subject_errors @ concat basis @ concat evidence @ lefts supporting @ lefts countervailing @ lefts unknowns @
       investigate_error rec us @ monitor_error rec us @ contradiction_error tokens rec pos neg us @ relevance_error tokens rec neg @ concat languages))))))))))))"

definition validate_and_build_result :: "tokens \<Rightarrow> evaluation_identity \<Rightarrow> json \<Rightarrow> crash + validation_outcome" where
  "validate_and_build_result tokens i raw = (case raw of
     JObj fs \<Rightarrow> (let errors = concat (map (field_error fs) REQUIRED_FIELDS) in if errors \<noteq> [] then Inr (Rejected errors) else validate_fields tokens i fs)
   | _ \<Rightarrow> Inr (Rejected [''top-level output is not a JSON object: '' @ class_repr (type_name raw)]))"

end
