(* ===== verification/BuyerProfiles.thy ===== *)
theory BuyerProfiles
  imports Prelude "HOL-Library.Code_Target_Nat"
begin

text \<open>
  Buyer mandates, app/policy/buyer_profiles.py: the fixed vocabularies, the mandate record with the check its
  constructor makes, and the four mandates the repository ships. Planning states and scale metrics are datatypes; the
  vocabularies a mandate is validated against are strings, as in the source.
\<close>

section \<open>Vocabularies\<close>

datatype planning_state =
  PERMISSION_GRANTED | ADOPTED_ALLOCATION | EMERGING_ALLOCATION | OTHER_OR_UNKNOWN | PLANNING_ACTIVE_PROPOSAL

datatype scale_metric = TOTAL_UNITS | AFFORDABLE_UNITS

definition SPECIALIST_DEVELOPMENT_TYPES :: "str set" where
  "SPECIALIST_DEVELOPMENT_TYPES = {''retirement_living'', ''care_home'', ''student_accommodation'', ''supported_living'',
     ''mixed_retirement_and_market_housing'', ''mixed_specialist_and_market_housing''}"

definition WHOLLY_AFFORDABLE_THRESHOLD :: rat where
  "WHOLLY_AFFORDABLE_THRESHOLD = 100"

definition GEOGRAPHY_UNSPECIFIED :: str where "GEOGRAPHY_UNSPECIFIED = ''UNSPECIFIED''"
definition GEOGRAPHY_ALL_CURRENT_COVERAGE :: str where "GEOGRAPHY_ALL_CURRENT_COVERAGE = ''ALL_CURRENT_COVERAGE''"
definition GEOGRAPHY_COUNCILS :: str where "GEOGRAPHY_COUNCILS = ''COUNCILS''"

definition GEOGRAPHY_SCOPES :: "str set" where
  "GEOGRAPHY_SCOPES = {GEOGRAPHY_UNSPECIFIED, GEOGRAPHY_ALL_CURRENT_COVERAGE, GEOGRAPHY_COUNCILS}"

definition LAND_SITE_ACQUISITION :: str where "LAND_SITE_ACQUISITION = ''LAND_SITE_ACQUISITION''"
definition STRATEGIC_LAND_CONTROL :: str where "STRATEGIC_LAND_CONTROL = ''STRATEGIC_LAND_CONTROL''"
definition AFFORDABLE_HOUSING_PACKAGE :: str where "AFFORDABLE_HOUSING_PACKAGE = ''AFFORDABLE_HOUSING_PACKAGE''"
definition DEVELOPMENT_HOMES_ACQUISITION :: str where "DEVELOPMENT_HOMES_ACQUISITION = ''DEVELOPMENT_HOMES_ACQUISITION''"

definition ACQUISITION_TYPES :: "str set" where
  "ACQUISITION_TYPES = {LAND_SITE_ACQUISITION, STRATEGIC_LAND_CONTROL, AFFORDABLE_HOUSING_PACKAGE, DEVELOPMENT_HOMES_ACQUISITION}"

definition DEVELOPMENT_STATE_UNSPECIFIED :: str where "DEVELOPMENT_STATE_UNSPECIFIED = ''UNSPECIFIED''"
definition UNCOMMENCED_PREFERRED :: str where "UNCOMMENCED_PREFERRED = ''UNCOMMENCED_PREFERRED''"
definition UNDERWAY_ACCEPTABLE :: str where "UNDERWAY_ACCEPTABLE = ''UNDERWAY_ACCEPTABLE''"
definition UNDERWAY_PREFERRED :: str where "UNDERWAY_PREFERRED = ''UNDERWAY_PREFERRED''"

definition DEVELOPMENT_STATE_APPETITES :: "str set" where
  "DEVELOPMENT_STATE_APPETITES = {DEVELOPMENT_STATE_UNSPECIFIED, UNCOMMENCED_PREFERRED, UNDERWAY_ACCEPTABLE, UNDERWAY_PREFERRED}"

definition DEVELOPER_LED_ACCEPTABLE :: str where "DEVELOPER_LED_ACCEPTABLE = ''DEVELOPER_LED_ACCEPTABLE''"
definition THIRD_PARTY_INTEREST_ACCEPTABLE :: str where "THIRD_PARTY_INTEREST_ACCEPTABLE = ''THIRD_PARTY_INTEREST_ACCEPTABLE''"
definition UNRESOLVED_OWNERSHIP_INVESTIGATABLE :: str where
  "UNRESOLVED_OWNERSHIP_INVESTIGATABLE = ''UNRESOLVED_OWNERSHIP_INVESTIGATABLE''"
definition PARTIAL_SITE_CONTROL_ACCEPTABLE :: str where "PARTIAL_SITE_CONTROL_ACCEPTABLE = ''PARTIAL_SITE_CONTROL_ACCEPTABLE''"

definition CONTROL_APPETITES :: "str set" where
  "CONTROL_APPETITES = {DEVELOPER_LED_ACCEPTABLE, THIRD_PARTY_INTEREST_ACCEPTABLE, UNRESOLVED_OWNERSHIP_INVESTIGATABLE,
     PARTIAL_SITE_CONTROL_ACCEPTABLE}"

lemmas vocabulary_defs = GEOGRAPHY_UNSPECIFIED_def GEOGRAPHY_ALL_CURRENT_COVERAGE_def GEOGRAPHY_COUNCILS_def
  LAND_SITE_ACQUISITION_def STRATEGIC_LAND_CONTROL_def AFFORDABLE_HOUSING_PACKAGE_def DEVELOPMENT_HOMES_ACQUISITION_def
  DEVELOPMENT_STATE_UNSPECIFIED_def UNCOMMENCED_PREFERRED_def UNDERWAY_ACCEPTABLE_def UNDERWAY_PREFERRED_def
  DEVELOPER_LED_ACCEPTABLE_def THIRD_PARTY_INTEREST_ACCEPTABLE_def UNRESOLVED_OWNERSHIP_INVESTIGATABLE_def
  PARTIAL_SITE_CONTROL_ACCEPTABLE_def

section \<open>Mandates\<close>

record mandate =
  m_key :: str
  m_display_name :: str
  m_buyer_type :: str
  m_primary_requirement :: str
  m_target_unit_min :: int
  m_target_unit_max :: int
  m_scale_metric :: scale_metric
  m_accepted_planning_states :: "planning_state set"
  m_treats_no_activity_as_positive :: bool
  m_large_allocation_is_self_qualifying :: bool
  m_specialist_development_is_exclusion :: bool
  m_wholly_affordable_is_exclusion :: bool
  m_below_minimum_scale_is_exclusion :: bool
  m_notes :: str
  m_geography_scope :: str
  m_geography_councils :: "str set"
  m_acquisition_types :: "str set"
  m_development_state_appetite :: str
  m_control_appetite :: "str set"

text \<open>\<open>_require_membership\<close> and \<open>__post_init__\<close>; the message is represented by the field it names.\<close>

definition require_membership :: "str set \<Rightarrow> str set \<Rightarrow> str \<Rightarrow> pyexc + unit" where
  "require_membership values allowed field = (if values - allowed \<noteq> {} then Inl (ValueError field) else Inr ())"

definition checked_mandate :: "mandate \<Rightarrow> pyexc + mandate" where
  "checked_mandate m =
    (if m_geography_scope m \<notin> GEOGRAPHY_SCOPES then Inl (ValueError ''geography_scope'')
     else if m_geography_scope m = GEOGRAPHY_COUNCILS \<and> m_geography_councils m = {} then Inl (ValueError ''geography_scope=COUNCILS'')
     else if m_geography_scope m \<noteq> GEOGRAPHY_COUNCILS \<and> m_geography_councils m \<noteq> {} then Inl (ValueError ''geography_councils'')
     else (case require_membership (m_acquisition_types m) ACQUISITION_TYPES ''acquisition_types'' of Inl x \<Rightarrow> Inl x | Inr _ \<Rightarrow>
       if m_development_state_appetite m \<notin> DEVELOPMENT_STATE_APPETITES then Inl (ValueError ''development_state_appetite'')
       else (case require_membership (m_control_appetite m) CONTROL_APPETITES ''control_appetite'' of Inl x \<Rightarrow> Inl x
         | Inr _ \<Rightarrow> Inr m)))"

section \<open>The shipped mandates\<close>

definition NESTEN_HOMES :: mandate where
  "NESTEN_HOMES = \<lparr>
    m_key = ''nesten_homes'',
    m_display_name = ''Nesten Homes'',
    m_buyer_type = ''Regional housebuilder'',
    m_primary_requirement = ''Residential development land'',
    m_target_unit_min = 50,
    m_target_unit_max = 200,
    m_scale_metric = TOTAL_UNITS,
    m_accepted_planning_states = {PERMISSION_GRANTED, ADOPTED_ALLOCATION, EMERGING_ALLOCATION},
    m_treats_no_activity_as_positive = False,
    m_large_allocation_is_self_qualifying = False,
    m_specialist_development_is_exclusion = True,
    m_wholly_affordable_is_exclusion = False,
    m_below_minimum_scale_is_exclusion = False,
    m_notes = ''Brief: \"residential sites with planning permission; OR sites allocated for residential '' @
      ''development\" - read as accepting both adopted and emerging allocation status, since the brief '' @
      ''does not restrict Nesten to adopted-only allocations. No affordable-percentage threshold below '' @
      ''100% is implemented (brief: \"do NOT invent an affordable-percentage threshold below 100%\"). '' @
      ''Real Nesten Land Requirements (Product Owner-supplied, authoritative): 50-200 single-family '' @
      ''homes (preferred scale 50-200); acquire or joint venture; consented or promotable land; '' @
      ''typically ~2-10+ hectares (5-25+ acres); focus on South East, South West, North West and '' @
      ''Northern England; well-connected locations with family-housing demand and employment access; '' @
      ''deliverability considerations (access, drainage/flood, utilities, public transport, schools/GP, '' @
      ''S106/CIL, open space, biodiversity net gain). Site size, region, infrastructure and JV are '' @
      ''CONTEXT for investigation, not deterministic matching rules. The brief states no '' @
      ''affordable-housing exclusion, so wholly-affordable evidence is context to investigate, not a '' @
      ''hard exclusion.'',
    m_geography_scope = GEOGRAPHY_ALL_CURRENT_COVERAGE,
    m_geography_councils = {},
    m_acquisition_types = {LAND_SITE_ACQUISITION},
    m_development_state_appetite = UNCOMMENCED_PREFERRED,
    m_control_appetite = {UNRESOLVED_OWNERSHIP_INVESTIGATABLE}\<rparr>"

definition STRATEGIC_LAND_BUYER :: mandate where
  "STRATEGIC_LAND_BUYER = \<lparr>
    m_key = ''strategic_land_buyer'',
    m_display_name = ''Strategic Land Buyer'',
    m_buyer_type = ''Strategic land buyer / promoter'',
    m_primary_requirement = ''Large residential strategic-land opportunities'',
    m_target_unit_min = 100,
    m_target_unit_max = 300,
    m_scale_metric = TOTAL_UNITS,
    m_accepted_planning_states = {ADOPTED_ALLOCATION, EMERGING_ALLOCATION},
    m_treats_no_activity_as_positive = True,
    m_large_allocation_is_self_qualifying = True,
    m_specialist_development_is_exclusion = True,
    m_wholly_affordable_is_exclusion = True,
    m_below_minimum_scale_is_exclusion = False,
    m_notes = ''Brief: \"Planning permission is NOT required\" - PERMISSION_GRANTED is deliberately not in this '' @
      ''buyer's accepted_planning_states (their own stated appetite doesn't mention it), but per this '' @
      ''module's own rule, that absence produces an 'unknown relevance' note for a permission-granted '' @
      ''opportunity, never a hard exclusion - the brief never asked for permission-granted sites to be '' @
      ''excluded, only that they aren't this buyer's stated focus.'',
    m_geography_scope = GEOGRAPHY_ALL_CURRENT_COVERAGE,
    m_geography_councils = {},
    m_acquisition_types = {STRATEGIC_LAND_CONTROL},
    m_development_state_appetite = UNCOMMENCED_PREFERRED,
    m_control_appetite = {UNRESOLVED_OWNERSHIP_INVESTIGATABLE}\<rparr>"

definition NATIONAL_HOUSEBUILDER :: mandate where
  "NATIONAL_HOUSEBUILDER = \<lparr>
    m_key = ''national_housebuilder'',
    m_display_name = ''National Housebuilder'',
    m_buyer_type = ''Large national housebuilder'',
    m_primary_requirement = ''Large residential housing sites capable of meaningful delivery scale'',
    m_target_unit_min = 200,
    m_target_unit_max = 500,
    m_scale_metric = TOTAL_UNITS,
    m_accepted_planning_states = {PERMISSION_GRANTED, ADOPTED_ALLOCATION, EMERGING_ALLOCATION},
    m_treats_no_activity_as_positive = False,
    m_large_allocation_is_self_qualifying = False,
    m_specialist_development_is_exclusion = True,
    m_wholly_affordable_is_exclusion = True,
    m_below_minimum_scale_is_exclusion = False,
    m_notes = ''Brief: \"Sites larger than 500 homes may be relevant where there is evidence of credible phasing '' @
      ''or parcel delivery... classify this honestly as requiring investigation rather than '' @
      ''automatically rejecting\" - implemented identically to Nesten's own oversized-allocation '' @
      ''handling (investigate, never invented as a match) since the brief does not give National '' @
      ''Housebuilder the same large-allocation-is-self-qualifying appetite it explicitly gives '' @
      ''Strategic Land Buyer.'',
    m_geography_scope = GEOGRAPHY_ALL_CURRENT_COVERAGE,
    m_geography_councils = {},
    m_acquisition_types = {LAND_SITE_ACQUISITION},
    m_development_state_appetite = UNCOMMENCED_PREFERRED,
    m_control_appetite = {}\<rparr>"

definition HOUSING_ASSOCIATION :: mandate where
  "HOUSING_ASSOCIATION = \<lparr>
    m_key = ''housing_association'',
    m_display_name = ''Housing Association'',
    m_buyer_type = ''Housing association / registered provider'',
    m_primary_requirement = ''Affordable residential housing opportunities'',
    m_target_unit_min = 50,
    m_target_unit_max = 300,
    m_scale_metric = AFFORDABLE_UNITS,
    m_accepted_planning_states = {PERMISSION_GRANTED, ADOPTED_ALLOCATION, EMERGING_ALLOCATION},
    m_treats_no_activity_as_positive = False,
    m_large_allocation_is_self_qualifying = False,
    m_specialist_development_is_exclusion = False,
    m_wholly_affordable_is_exclusion = False,
    m_below_minimum_scale_is_exclusion = True,
    m_notes = ''Brief: scale is assessed using AFFORDABLE units (50-300), not total scheme units - a 400-home '' @
      ''scheme with 120 affordable homes is potentially relevant, never rejected for exceeding 300 '' @
      ''total units. 100% affordable is explicitly NOT an exclusion for this buyer (the opposite of the '' @
      ''other three profiles). No specialist/retirement development-type exclusion is implemented - the '' @
      ''brief explicitly states this buyer's specialist-product appetite has not been defined, so a '' @
      ''specialist residential development type (e.g. Focus School's '' @
      ''mixed_retirement_and_market_housing) is preserved as an unresolved/unknown fact, never a '' @
      ''fabricated hard exclusion. No planning-stage preference is implemented beyond exposing whatever '' @
      ''planning position exists as context (brief: \"do not assume the buyer requires planning '' @
      ''permission/adopted/emerging allocation\"). Allocation- level (Local Plan) opportunities have no '' @
      ''scheme-specific affordable-unit evidence at all (brief: \"do NOT estimate affordable units by '' @
      ''applying Local Plan/NPPF affordable-housing policy percentages to allocation capacity\") - '' @
      ''Housing Association fit for a Local Plan allocation is therefore INSUFFICIENT_EVIDENCE by '' @
      ''design, not a gap in this implementation.'',
    m_geography_scope = GEOGRAPHY_ALL_CURRENT_COVERAGE,
    m_geography_councils = {},
    m_acquisition_types = {AFFORDABLE_HOUSING_PACKAGE},
    m_development_state_appetite = UNDERWAY_ACCEPTABLE,
    m_control_appetite = {DEVELOPER_LED_ACCEPTABLE}\<rparr>"

definition BUYER_PROFILES :: "(str \<times> mandate) list" where
  "BUYER_PROFILES = map (\<lambda>p. (m_key p, p)) [NESTEN_HOMES, STRATEGIC_LAND_BUYER, NATIONAL_HOUSEBUILDER, HOUSING_ASSOCIATION]"

definition BUYER_PROFILE_ORDER :: "str list" where
  "BUYER_PROFILE_ORDER = [m_key NESTEN_HOMES, m_key STRATEGIC_LAND_BUYER, m_key NATIONAL_HOUSEBUILDER, m_key HOUSING_ASSOCIATION]"

section \<open>Properties\<close>

lemma checked_mandate_Inr: "(checked_mandate m = Inr m') = (m' = m \<and> m_geography_scope m \<in> GEOGRAPHY_SCOPES \<and>
    (m_geography_scope m = GEOGRAPHY_COUNCILS) = (m_geography_councils m \<noteq> {}) \<and> m_acquisition_types m \<subseteq> ACQUISITION_TYPES \<and>
    m_development_state_appetite m \<in> DEVELOPMENT_STATE_APPETITES \<and> m_control_appetite m \<subseteq> CONTROL_APPETITES)"
  by (auto simp: checked_mandate_def require_membership_def ok_simps)

lemmas profile_defs = NESTEN_HOMES_def STRATEGIC_LAND_BUYER_def NATIONAL_HOUSEBUILDER_def HOUSING_ASSOCIATION_def

text \<open>
  The four shipped mandates pass their constructor's validation, have distinct keys that the order lists in full, and
  state a preferred range with a positive minimum not above its maximum.
\<close>

theorem shipped_mandates_valid:
  "list_all (\<lambda>(k, m). checked_mandate m = Inr m \<and> m_key m = k \<and> 0 < m_target_unit_min m \<and> m_target_unit_min m \<le> m_target_unit_max m)
     BUYER_PROFILES \<and> map fst BUYER_PROFILES = BUYER_PROFILE_ORDER \<and> distinct BUYER_PROFILE_ORDER"
proof -
  have "checked_mandate m = Inr m" if "m \<in> {NESTEN_HOMES, STRATEGIC_LAND_BUYER, NATIONAL_HOUSEBUILDER, HOUSING_ASSOCIATION}" for m
    using that unfolding checked_mandate_Inr
    by (elim insertE emptyE) (simp_all add: profile_defs vocabulary_defs GEOGRAPHY_SCOPES_def ACQUISITION_TYPES_def
        DEVELOPMENT_STATE_APPETITES_def CONTROL_APPETITES_def)
  then show ?thesis
    by (simp add: BUYER_PROFILES_def BUYER_PROFILE_ORDER_def) (simp add: profile_defs)
qed

end
