(* ===== verification/AcquisitionPrinciples.thy ===== *)
theory AcquisitionPrinciples
  imports BuyerProfiles
begin

text \<open>
  How a transaction signal is read for each acquisition type: the principles of app/policy/acquisition_type_interpretation.py, word for word. They are descriptive; only the
  prompt of an agent evaluation consults them.
\<close>

record principle =
  sp_signal :: str
  sp_why :: str
  sp_strengthens :: str
  sp_weakens :: str
  sp_neutral :: str
  sp_distinguishing :: str

definition LAND_SITE_ACQUISITION_PRINCIPLES :: "principle list" where
  "LAND_SITE_ACQUISITION_PRINCIPLES = [
    \<lparr>sp_signal = ''recent_permission'',
     sp_why = ''A fresh grant can mean the current holder is about to commit capital to delivery (closing a land-acquisition '' @
        ''window), or has just crystallised value it may now consider realising via disposal (opening one) - the fact '' @
        ''alone does not distinguish these.'',
     sp_strengthens = ''Paired with no identified implementation activity and no clear developer-led delivery indication yet - the '' @
        ''window may still be genuinely open.'',
     sp_weakens = ''Paired with implementation_activity_evidence_identified PRESENT for the same scope, or a clear developer-led '' @
        ''delivery indication with no ownership/control uncertainty.'',
     sp_neutral = ''Isolated, with no other transaction/disposition signal yet available.'',
     sp_distinguishing = ''implementation_activity_evidence_identified; ownership_or_control_evidence_changed; the identity/type of any '' @
        ''developer indication.''\<rparr>,
    \<lparr>sp_signal = ''no_qualifying_progress_evidence_identified'',
     sp_why = ''This is the closest buyer-independent proxy PropertyAIgent has for 'a covered planning-evidence search found '' @
        ''no qualifying implementation activity for this scope' - it is not evidence of unwillingness to build or to '' @
        ''sell, and not evidence the site is uncommenced or inactive.'',
     sp_strengthens = ''Paired with any ownership/control uncertainty - worth an investigative approach.'',
     sp_weakens = ''Explained by known phasing evidence indicating delivery is planned for a later, scheduled stage rather than '' @
        ''stalled.'',
     sp_neutral = ''On its own, without any scale/fit read for this buyer's own target.'',
     sp_distinguishing = ''has_phasing_evidence; approaching_implementation_deadline; ownership_or_control_evidence_changed; '' @
        ''coverage_checked_at.''\<rparr>,
    \<lparr>sp_signal = ''implementation_activity_evidence_identified'',
     sp_why = ''Authoritative post-permission planning activity (e.g. a condition-discharge or variation/amendment filing) '' @
        ''usually signals the current holder is progressing, not disposing of, THIS scope - though it is evidence of '' @
        ''planning activity potentially relevant to implementation, never proof physical works have started.'',
     sp_strengthens = ''A distinct, evidenced later phase or adjacent parcel within the same site remains untouched by this activity '' @
        ''(see app.reporting.opportunity_intelligence_packet's own linked-context fields) - the land-acquisition '' @
        ''interest may lie there instead.'',
     sp_weakens = ''The activity covers the same scope the buyer is actually assessing (scope_verified is True).'',
     sp_neutral = ''The opportunity's own scope relative to the activity is not yet verified (scope_verified is False) - see '' @
        ''wider_site_implementation_activity_context for the preserved wider-site finding.'',
     sp_distinguishing = ''scope_verified; wider_site_implementation_activity_context; phase_code; linked_strategic_allocation_id.''\<rparr>,
    \<lparr>sp_signal = ''approaching_implementation_deadline'',
     sp_why = ''A statutory deadline approaching without identified progress can mean a holder may welcome a land-acquisition '' @
        ''conversation before the permission lapses, or may be about to commence to preserve it - both remain live '' @
        ''possibilities.'',
     sp_strengthens = ''Paired with no_qualifying_progress_evidence_identified PRESENT and no clear developer-led delivery signal.'',
     sp_weakens = ''Paired with implementation_activity_evidence_identified PRESENT (activity to preserve the permission may '' @
        ''already be underway).'',
     sp_neutral = ''Isolated.'',
     sp_distinguishing = ''implementation_activity_evidence_identified; ownership_or_control_evidence_changed.''\<rparr>,
    \<lparr>sp_signal = ''ownership_or_control_evidence_changed'',
     sp_why = ''A change in the trusted ownership/control evidence can reopen a conversation, but the signal itself never says '' @
        ''what changed.'',
     sp_strengthens = ''The newly-evidenced controller is of a type this buyer's own mandate is willing to investigate (see '' @
        ''app.policy.mandate_interpretation's own control_appetite reading).'',
     sp_weakens = ''The change is later found (via further evidence) to reflect the same delivery-focused holder as before.'',
     sp_neutral = ''On its own, before the nature of the change is established.'',
     sp_distinguishing = ''The specific new ownership/control evidence itself, once investigated.''\<rparr>]"

definition STRATEGIC_LAND_CONTROL_PRINCIPLES :: "principle list" where
  "STRATEGIC_LAND_CONTROL_PRINCIPLES = [
    \<lparr>sp_signal = ''implementation_activity_evidence_identified'',
     sp_why = ''Can mean the wider strategic allocation has genuinely moved past a control-stage opportunity into delivery - '' @
        ''or can describe only a narrower phase that does not represent the whole allocation. Authoritative planning '' @
        ''activity, never itself proof physical works have started.'',
     sp_strengthens = ''Never strengthens this acquisition type on its own.'',
     sp_weakens = ''The evidence is confirmed to apply at the SAME scope as the strategic opportunity being assessed '' @
        ''(scope_verified is True) - this is exactly why app.policy.buyer_matching's own STRATEGIC_LAND_CONTROL '' @
        ''hard-rejection rule requires verified scope before treating this as disqualifying.'',
     sp_neutral = ''scope_verified is False - a confirmed activity signal on a phase, recent permission, or long-pending '' @
        ''application does not itself prove the wider allocation has been overtaken (see '' @
        ''wider_site_implementation_activity_context for the preserved wider-site finding).'',
     sp_distinguishing = ''scope_verified; wider_site_implementation_activity_context; whether the opportunity itself is STRATEGIC_LAND '' @
        ''or a linked PLANNING_DELIVERY phase.''\<rparr>,
    \<lparr>sp_signal = ''ownership_or_control_evidence_changed'',
     sp_why = ''A change in the evidenced promoter/controller of an allocation is directly relevant to a control-stage '' @
        ''strategy.'',
     sp_strengthens = ''Paired with an early or progressing Local Plan stage (more room to shape the promotion).'',
     sp_weakens = ''Never weakens this acquisition type on its own - it is always worth investigating for a control-stage buyer.'',
     sp_neutral = ''Never fully neutral - always worth noting for this acquisition type.'',
     sp_distinguishing = ''The allocation's own progression_signal.''\<rparr>]"

definition AFFORDABLE_HOUSING_PACKAGE_PRINCIPLES :: "principle list" where
  "AFFORDABLE_HOUSING_PACKAGE_PRINCIPLES = [
    \<lparr>sp_signal = ''implementation_activity_evidence_identified'',
     sp_why = ''Can mean the affordable units are on a concrete, fundable delivery track, or that they have already been '' @
        ''allocated to another party (e.g. a registered provider already in place). Authoritative planning activity, '' @
        ''never itself proof physical works have started.'',
     sp_strengthens = ''Paired with no other registered-provider/housing-association developer indication already evidenced for this '' @
        ''scheme.'',
     sp_weakens = ''A developer indication already evidences a different housing association or registered provider already '' @
        ''engaged.'',
     sp_neutral = ''No developer/RP indication is available either way.'',
     sp_distinguishing = ''developer_indications on the packet's own actors_control field.''\<rparr>,
    \<lparr>sp_signal = ''recent_permission'',
     sp_why = ''Establishes the scheme's affordable content is now fixed by a real decision, not merely proposed.'',
     sp_strengthens = ''Paired with a confirmed, non-zero affordable-unit count within this buyer's own target.'',
     sp_weakens = ''Paired with a confirmed zero-affordable outcome (already a hard exclusion under Buyer Fit, independent of this '' @
        ''signal).'',
     sp_neutral = ''The affordable-unit count itself remains unconfirmed.'',
     sp_distinguishing = ''affordable_housing_status; affordable_unit_count/affordable_percentage on the packet.''\<rparr>]"

definition DEVELOPMENT_HOMES_ACQUISITION_PRINCIPLES :: "principle list" where
  "DEVELOPMENT_HOMES_ACQUISITION_PRINCIPLES = [
    \<lparr>sp_signal = ''implementation_activity_evidence_identified'',
     sp_why = ''Positive evidence of an authoritative post-permission planning filing - the read most favourable to this '' @
        ''acquisition type of any signal in the taxonomy, though it is evidence of activity potentially relevant to '' @
        ''implementation, never itself proof physical works or delivery have started.'',
     sp_strengthens = ''Present, for the same scope the buyer is assessing (scope_verified is True).'',
     sp_weakens = ''Never weakens this acquisition type - identified implementation activity is inherently a positive-leaning '' @
        ''signal here.'',
     sp_neutral = ''UNKNOWN (no qualifying activity identified, or scope unverified) rather than confirmed absent - this is '' @
        ''genuinely neutral, not negative (see no_qualifying_progress_evidence_identified's own principle below for why '' @
        ''it is NOT automatically read negatively even here). Raw EPC/build-status context '' @
        ''(app.reporting.opportunity_transaction_signals.TransactionSignals.raw_build_status), where available, is '' @
        ''secondary/corroborating only - never itself the basis for this signal.'',
     sp_distinguishing = ''raw_build_status (secondary/corroborating only); scope_verified; wider_site_implementation_activity_context.''\<rparr>,
    \<lparr>sp_signal = ''no_qualifying_progress_evidence_identified'',
     sp_why = ''May indicate a slower-moving pipeline - a genuine, if evidentially soft, negative for this acquisition type '' @
        ''specifically, in contrast to LAND_SITE_ACQUISITION where the same signal opens a land-acquisition window. '' @
        ''Never itself evidence the site is uncommenced, inactive, stalled, or dormant.'',
     sp_strengthens = ''Never strengthens this acquisition type.'',
     sp_weakens = ''Paired with a recent_permission that is no longer within the recency window (i.e. this reads more meaningfully '' @
        ''once enough time has passed to plausibly expect activity, never merely because the signal is PRESENT for a '' @
        ''very fresh grant).'',
     sp_neutral = ''Paired with a still-recent grant (recent_permission PRESENT) - too early to read this as a slow-moving '' @
        ''pipeline.'',
     sp_distinguishing = ''recent_permission; approaching_implementation_deadline; coverage_checked_at.''\<rparr>,
    \<lparr>sp_signal = ''recent_permission'',
     sp_why = ''A future pipeline entry point, not yet an actionable one for this acquisition type.'',
     sp_strengthens = ''Never strengthens this acquisition type on its own (no delivery evidence yet).'',
     sp_weakens = ''Never weakens this acquisition type on its own.'',
     sp_neutral = ''Always neutral in isolation - this acquisition type cares about delivery activity, which recent_permission '' @
        ''alone does not yet establish.'',
     sp_distinguishing = ''implementation_activity_evidence_identified; raw_build_status (secondary/corroborating only).''\<rparr>]"

definition ACQUISITION_TYPE_PRINCIPLES :: "(str \<times> principle list) list" where
  "ACQUISITION_TYPE_PRINCIPLES = [(LAND_SITE_ACQUISITION, LAND_SITE_ACQUISITION_PRINCIPLES), (STRATEGIC_LAND_CONTROL, STRATEGIC_LAND_CONTROL_PRINCIPLES),
     (AFFORDABLE_HOUSING_PACKAGE, AFFORDABLE_HOUSING_PACKAGE_PRINCIPLES), (DEVELOPMENT_HOMES_ACQUISITION, DEVELOPMENT_HOMES_ACQUISITION_PRINCIPLES)]"

definition get_principles :: "str \<Rightarrow> principle list" where
  "get_principles t = opt_or (map_of ACQUISITION_TYPE_PRINCIPLES t) []"

definition get_principle_for_signal :: "str \<Rightarrow> str \<Rightarrow> principle option" where
  "get_principle_for_signal t s = find (\<lambda>p. sp_signal p = s) (get_principles t)"

end
