(* ===== verification/FitTexts.thy ===== *)
theory FitTexts
  imports BuyerProfiles
begin

text \<open>
  The reason texts of \<open>assess_buyer_fit\<close> (app/policy/buyer_matching.py), one definition per emission site,
  named after its rule. The values the source interpolates are parameters.
\<close>

definition txt_specialist_exclusion :: "str \<Rightarrow> str" where
  "txt_specialist_exclusion use = ''Trusted evidence identifies this as a specialist development ('' @ use @ ''), not the general-needs residential development this buyer requires.''"

definition txt_specialist_appetite_unknown :: "str \<Rightarrow> str" where
  "txt_specialist_appetite_unknown use = ''Trusted evidence identifies this as a specialist development ('' @ use @ ''); this buyer's own appetite for specialist/retirement housing has not been specified, so '' @
     ''this is not treated as confirmed positive or negative evidence.''"

definition txt_specialist_allocation_context :: str where
  "txt_specialist_allocation_context = ''Specialist-development status cannot be established from a strategic land allocation's own '' @
     ''intended-use classification alone - not treated as a disqualifying fact for this opportunity '' @
     ''type.''"

definition txt_specialist_type_unknown :: str where
  "txt_specialist_type_unknown = ''Development type has not been established with enough confidence to confirm this is '' @
     ''general-needs housing.''"

definition txt_affordable_wholly_exclusion :: "str \<Rightarrow> str" where
  "txt_affordable_wholly_exclusion descriptor = ''Trusted evidence shows this is a '' @ descriptor @ '' affordable-led scheme, not open-market residential development.''"

definition txt_affordable_wholly_match :: "str \<Rightarrow> str" where
  "txt_affordable_wholly_match descriptor = ''Trusted evidence shows this is a '' @ descriptor @ '' affordable-led scheme, directly relevant to this buyer's affordable-housing focus.''"

definition txt_affordable_wholly_context :: "str \<Rightarrow> str" where
  "txt_affordable_wholly_context descriptor = ''Trusted evidence shows this is a '' @ descriptor @ '' affordable-led scheme; this buyer has not stated an exclusion for it, so it is context to '' @
     ''investigate, not a fit signal.''"

definition txt_affordable_composition_check :: str where
  "txt_affordable_composition_check = ''Confirm the affordable composition and whether the scheme suits this buyer's requirement.''"

definition txt_affordable_allocation_context :: str where
  "txt_affordable_allocation_context = ''Scheme-specific affordable housing proportion is not established for a strategic land '' @
     ''allocation - not assumed to be 0%, and not treated as a disqualifying fact for this '' @
     ''opportunity type.''"

definition txt_affordable_percentage_unknown :: str where
  "txt_affordable_percentage_unknown = ''Affordable housing proportion has not been confirmed - not assumed to be 0%.''"

definition txt_affordable_percentage_check :: str where
  "txt_affordable_percentage_check = ''Confirm the affordable housing proportion and whether the scheme is affordable-led.''"

definition txt_planning_accepted :: "str \<Rightarrow> str" where
  "txt_planning_accepted state = ''Planning position ('' @ state @ '') matches this buyer's stated planning appetite.''"

definition txt_planning_unknown :: str where
  "txt_planning_unknown = ''Planning position could not be classified with confidence against this buyer's stated '' @
     ''appetite.''"

definition txt_planning_nonpreferred :: "str \<Rightarrow> str" where
  "txt_planning_nonpreferred state = ''This opportunity is '' @ state @ '', which is outside this buyer's stated planning appetite but not treated as a disqualifying '' @
     ''fact.''"

definition txt_planning_active_proposal :: "str \<Rightarrow> str" where
  "txt_planning_active_proposal noun = ''An operative planning permission exists for this opportunity, and '' @ noun @ '' also live and not yet decided - review whether this represents an additional phase or a '' @
     ''proposed variation.''"

definition txt_planning_early_allocation :: str where
  "txt_planning_early_allocation = ''No planning activity has yet been identified against this allocation - an early-stage '' @
     ''position consistent with this buyer's strategic land appetite.''"

definition txt_planning_activity_unknown :: str where
  "txt_planning_activity_unknown = ''Planning activity position could not be established for this allocation.''"

definition txt_outside_discovery :: "str \<Rightarrow> str \<Rightarrow> str" where
  "txt_outside_discovery discovery preferred = ''is outside this buyer's discovery range ('' @ discovery @ ''; preferred '' @ preferred @ '') - investigate whether a relevant phase or acquisition sub-scope exists; this subject is '' @
     ''not itself a preferred or possible scale fit.''"

definition txt_scale_strategic_range :: "str \<Rightarrow> str" where
  "txt_scale_strategic_range lbl = ''This allocation's plan-stated scale ('' @ lbl @ '') is wholly above this buyer's discovery range, representing a meaningful strategic-land '' @
     ''position in its own right, independent of whether a specific parcel size is confirmed.''"

definition txt_scale_strategic_range_parcel :: str where
  "txt_scale_strategic_range_parcel = ''Establish whether a suitable development parcel/phase could become available within this '' @
     ''buyer's target range.''"

definition txt_scale_hard_minimum_uncertain :: str where
  "txt_scale_hard_minimum_uncertain = ''Supported scale is below this buyer's hard minimum.''"

definition txt_scale_uncertain_preferred :: "str \<Rightarrow> str \<Rightarrow> str" where
  "txt_scale_uncertain_preferred lbl nte = lbl @ '': uncertain discovery scale; exact mandate compliance unverified. '' @ nte"

definition txt_scale_uncertain_discovery :: "str \<Rightarrow> str \<Rightarrow> str \<Rightarrow> str \<Rightarrow> str" where
  "txt_scale_uncertain_discovery lbl preferred discovery nte = lbl @ '' - not fully within this buyer's preferred range ('' @ preferred @ ''), but wholly within its discovery range ('' @ discovery @ ''). '' @ nte"

definition txt_scale_uncertain_bounds :: "str \<Rightarrow> str \<Rightarrow> str \<Rightarrow> str" where
  "txt_scale_uncertain_bounds lbl discovery nte = lbl @ '': the supported evidence does not establish whether scale is within this buyer's discovery '' @
     ''range ('' @ discovery @ ''). '' @ nte"

definition txt_scale_verify :: str where
  "txt_scale_verify = ''Verify current subject scale before treating this lead as numerically qualified.''"

definition txt_scale_preferred :: "int \<Rightarrow> str \<Rightarrow> int \<Rightarrow> int \<Rightarrow> str" where
  "txt_scale_preferred n noun lo hi = ''Approximately '' @ int_commas n @ '' '' @ noun @ '' sits within this buyer's target range ('' @ int_str lo @ ''-'' @ int_str hi @ '' '' @ noun @ '').''"

definition txt_scale_hard_minimum :: "int \<Rightarrow> str \<Rightarrow> int \<Rightarrow> str" where
  "txt_scale_hard_minimum n noun lo = ''Trusted evidence shows only '' @ int_commas n @ '' '' @ noun @ '', below this buyer's minimum requirement of '' @ int_str lo @ '' '' @ noun @ ''.''"

definition txt_scale_discovery :: "int \<Rightarrow> str \<Rightarrow> str \<Rightarrow> str \<Rightarrow> str \<Rightarrow> str" where
  "txt_scale_discovery n noun side preferred discovery = int_commas n @ '' '' @ noun @ '' is slightly '' @ side @ '' this buyer's preferred range ('' @ preferred @ ''), but within its discovery range ('' @ discovery @ '').''"

definition txt_scale_strategic_large :: "int \<Rightarrow> str \<Rightarrow> str" where
  "txt_scale_strategic_large n noun = ''This allocation's own scale (~'' @ int_commas n @ '' '' @ noun @ '') represents a meaningful strategic-land position in its own right, independent of whether a '' @
     ''specific parcel size is confirmed.''"

definition txt_scale_strategic_parcel :: str where
  "txt_scale_strategic_parcel = ''Establish whether a suitable development parcel/phase could become available within this '' @
     ''buyer's target range.''"

definition txt_scale_phasing :: str where
  "txt_scale_phasing = ''Evidence of phased delivery exists for this opportunity - review whether a phase within this '' @
     ''buyer's target range could be available.''"

definition txt_allocation_control_unknown :: str where
  "txt_allocation_control_unknown = ''Ownership/control has not been established for this allocation - a genuine investigation '' @
     ''question, not a Buyer Fit blocker.''"

definition txt_geography_unknown :: str where
  "txt_geography_unknown = ''This opportunity's council is not available to assess against this buyer's stated geographic '' @
     ''boundary.''"

definition txt_geography_match :: "str \<Rightarrow> str" where
  "txt_geography_match council = ''This opportunity's council ('' @ council @ '') is within this buyer's stated geographic boundary.''"

definition txt_geography_exclusion :: "str \<Rightarrow> str \<Rightarrow> str" where
  "txt_geography_exclusion council councils = ''This opportunity's council ('' @ council @ '') is outside this buyer's explicit geographic boundary ('' @ councils @ '').''"

definition txt_acq_underway_hard :: str where
  "txt_acq_underway_hard = ''Trusted evidence shows development is already underway or further at this opportunity's own '' @
     ''scope, which is fundamentally incompatible with this buyer's strategic-land-control '' @
     ''acquisition strategy.''"

definition txt_acquisition_scope_check :: str where
  "txt_acquisition_scope_check = ''Trusted evidence shows development is underway or further, but this is not confirmed to '' @
     ''cover this opportunity's full relevant scope - review whether the wider strategic-land '' @
     ''opportunity has genuinely been overtaken by delivery, or only a part of it.''"

definition txt_acq_scope_unknown :: str where
  "txt_acq_scope_unknown = ''This opportunity's planning position does not clearly establish whether it remains an '' @
     ''early-stage strategic-land-control opportunity, pending review of the underway evidence's '' @
     ''own scope.''"

definition txt_acquisition_strategic_match :: str where
  "txt_acquisition_strategic_match = ''This opportunity's own planning position is consistent with this buyer's '' @
     ''strategic-land-control acquisition strategy.''"

definition txt_acq_position_unknown :: str where
  "txt_acq_position_unknown = ''This opportunity's planning position does not clearly establish whether it remains an '' @
     ''early-stage strategic-land-control opportunity.''"

definition txt_acq_zero_affordable :: str where
  "txt_acq_zero_affordable = ''Trusted evidence shows this scheme has no affordable housing content at all, incompatible '' @
     ''with this buyer's affordable-housing-package acquisition strategy.''"

definition txt_acquisition_affordable_match :: str where
  "txt_acquisition_affordable_match = ''Trusted evidence shows this scheme includes an affordable housing component, structurally '' @
     ''relevant to this buyer's affordable-housing-package acquisition strategy - this does not '' @
     ''establish that the package is known to be available for acquisition.''"

definition txt_acq_affordable_unknown :: str where
  "txt_acq_affordable_unknown = ''Affordable housing content has not been established with enough confidence to assess against '' @
     ''this buyer's affordable-housing-package acquisition strategy.''"

definition txt_acquisition_development_match :: str where
  "txt_acquisition_development_match = ''Trusted evidence shows development is underway or further, structurally compatible with this '' @
     ''buyer's development/homes acquisition strategy - this does not establish that a forward '' @
     ''purchase, forward funding or completed-homes opportunity actually exists.''"

definition txt_development_nonpreferred :: str where
  "txt_development_nonpreferred = ''This buyer prefers uncommenced sites; trusted evidence shows development is already underway '' @
     ''or further - this preference is not met, but it is not treated as a disqualifying fact on '' @
     ''its own.''"

definition txt_development_no_commencement :: str where
  "txt_development_no_commencement = ''No commencement evidence has been identified for this opportunity - this is not treated as '' @
     ''confirmed non-commencement against this buyer's stated preference.''"

definition txt_development_acceptable :: str where
  "txt_development_acceptable = ''Trusted evidence shows development is underway or further - this does not count against this '' @
     ''buyer's stated appetite.''"

definition txt_development_progress_unknown :: str where
  "txt_development_progress_unknown = ''Development progress has not been established for this opportunity.''"

definition txt_development_preferred :: str where
  "txt_development_preferred = ''Trusted evidence shows development is underway or further, a positive signal for this '' @
     ''buyer's stated preference.''"

definition txt_development_preference_unknown :: str where
  "txt_development_preference_unknown = ''Development progress has not been established for this opportunity - this buyer's stated '' @
     ''preference for development progress cannot be confirmed as met.''"

definition txt_control_developer :: str where
  "txt_control_developer = ''Trusted evidence shows a developer/applicant-led situation, which this buyer's mandate '' @
     ''accepts.''"

definition txt_control_third_party :: str where
  "txt_control_third_party = ''Trusted evidence shows a declared third-party ownership interest, which this buyer's mandate '' @
     ''accepts.''"

definition txt_control_unresolved :: str where
  "txt_control_unresolved = ''Ownership/control evidence for this opportunity remains unresolved; this buyer's mandate '' @
     ''treats unresolved ownership as worth investigating rather than a disqualifying fact.''"

definition txt_control_partial :: str where
  "txt_control_partial = ''Trusted evidence indicates a partial/shared ownership position, which this buyer's mandate '' @
     ''does not require to be whole-site control.''"

definition txt_no_affordable_count :: str where
  "txt_no_affordable_count = ''No trusted affordable-unit count is available to assess against this buyer's target range.''"

definition txt_no_count :: str where
  "txt_no_count = ''No trusted unit count is available to assess against this buyer's target range.''"

definition txt_wholly_percentage :: "rat \<Rightarrow> str" where
  "txt_wholly_percentage p = ''wholly ('' @ int_str (round_half_even p) @ ''%)''"

definition txt_wholly_counts :: str where
  "txt_wholly_counts = ''wholly (every residential unit is affordable)''"

definition txt_proposal_noun :: "int \<Rightarrow> str" where
  "txt_proposal_noun n = (if n = 1 then ''a further active planning application is''
     else int_str n @ '' further active planning applications are'')"

definition txt_below :: "str \<Rightarrow> str \<Rightarrow> str \<Rightarrow> str" where
  "txt_below prfx discovery preferred = prfx @ '' is below this buyer's discovery range ('' @ discovery @ ''; preferred '' @ preferred @ '').''"

definition txt_above :: "str \<Rightarrow> str \<Rightarrow> str \<Rightarrow> str \<Rightarrow> str" where
  "txt_above prfx discovery preferred tail = prfx @ '' is outside this buyer's discovery range ('' @ discovery @ ''; preferred '' @
     preferred @ ''). '' @ tail"

fun planning_state_label :: "planning_state \<Rightarrow> str" where
  "planning_state_label PERMISSION_GRANTED = ''planning permission granted''"
| "planning_state_label ADOPTED_ALLOCATION = ''an adopted residential allocation''"
| "planning_state_label EMERGING_ALLOCATION = ''an emerging residential allocation''"
| "planning_state_label OTHER_OR_UNKNOWN = ''an unclassified planning position''"
| "planning_state_label PLANNING_ACTIVE_PROPOSAL = ''an active planning application, not yet decided''"

text \<open>The acquisition phasing states and what is said of them above the discovery maximum.\<close>

datatype phasing_state =
  PHASING_CURRENT_EVIDENCED_PHASE | PHASING_CURRENTNESS_UNKNOWN | PHASING_HISTORICAL_ONLY | PHASING_DOCUMENTED | PHASING_NONE_IDENTIFIED

fun PHASING_TAILS :: "phasing_state \<Rightarrow> str" where
  "PHASING_TAILS PHASING_CURRENT_EVIDENCED_PHASE = ''Phased delivery is evidenced; assess the evidenced phase scope(s) separately. Availability is unverified.''"
| "PHASING_TAILS PHASING_DOCUMENTED = ''A phased-delivery strategy is evidenced; a buyer-relevant acquisition scope has not yet been established.''"
| "PHASING_TAILS PHASING_CURRENTNESS_UNKNOWN = ''Phase evidence exists, but its current implementation status cannot be established from the available dates; '' @
     ''decomposition remains unverified.''"
| "PHASING_TAILS PHASING_HISTORICAL_ONLY = ''Historic phasing evidence exists, but the phase permission's assumed implementation date has passed and its current '' @
     ''implementation status is unverified; no current phasing evidence has been identified, and decomposition remains unverified.''"
| "PHASING_TAILS PHASING_NONE_IDENTIFIED = ''No current phasing evidence has been identified in the qualified records; decomposition remains unverified.''"

definition SELF_SCOPE_TAIL :: str where
  "SELF_SCOPE_TAIL = ''This subject's own scope is a named phase; no evidence of further decomposition has been identified.''"

definition NEUTRAL_TAIL :: str where
  "NEUTRAL_TAIL = ''Decomposition remains unverified.''"

end
