(* ===== verification/CountEvidence.thy ===== *)
theory CountEvidence
  imports Prelude "HOL-Library.Product_Lexorder" "HOL-Library.Multiset" "HOL-Library.Code_Target_Nat"
begin

text \<open>
  Residential unit counts as evidence: app/reporting/residential_count.py and \<open>known_unit_count\<close>
  of commercial_evidence.py. A count is exact, approximate, a range or unknown, with the sources it rests on. The
  contract other components rely on (what a three-valued bounds test may conclude) is the locale
  \<open>bounds_test\<close>, interpreted on \<open>within_hard_bounds\<close>.

  A Python value that may be a count is a \<open>pyval\<close>: a number, a string as the decimal it parses to
  (\<open>PyReal\<close>), or something that does not parse. The en dash of the labels is the single character \<open>EN_DASH\<close>.
\<close>

section \<open>Whole counts\<close>

datatype pyval = PyNone | PyBool bool | PyInt int | PyReal rat | PyNonFinite | PyUnparsable

fun known_unit_count :: "pyval \<Rightarrow> int option" where
  "known_unit_count PyNone = None"
| "known_unit_count (PyBool b) = None"
| "known_unit_count (PyInt n) = (if n < 0 then None else Some n)"
| "known_unit_count (PyReal r) = (if r < 0 \<or> r \<noteq> of_int \<lfloor>r\<rfloor> then None else Some \<lfloor>r\<rfloor>)"
| "known_unit_count PyNonFinite = None"
| "known_unit_count PyUnparsable = None"

definition py_int :: "int option \<Rightarrow> pyval" where
  "py_int v = (case v of None \<Rightarrow> PyNone | Some n \<Rightarrow> PyInt n)"

lemma known_unit_count_nonneg: "known_unit_count v = Some n \<Longrightarrow> 0 \<le> n"
  by (cases v) (auto split: if_splits)

lemma known_py_int: "known_unit_count (py_int v) = (case v of None \<Rightarrow> None | Some n \<Rightarrow> if n < 0 then None else Some n)"
  by (simp add: py_int_def split: option.split)

section \<open>Assessments\<close>

datatype precision = EXACT | APPROXIMATE | RANGE | UNKNOWN

record count_source =
  cs_application_id :: int
  cs_application_reference :: str
  cs_value :: pyval
  cs_scope_type :: str
  cs_scope_label :: str
  cs_decision_date :: "int option"
  cs_planning_role :: "str option"
  cs_qualified :: bool
  cs_qualifier :: "str option"
  cs_subject_id :: str
  cs_metric :: str
  cs_evidence_date :: "str option"
  cs_version :: "str option"
  cs_source_reference :: "str option"
  cs_lower :: "int option"
  cs_upper :: "int option"

text \<open>\<open>ca_plan_stated\<close> marks the subclass \<open>PlanStatedCapacity\<close> of strategic_capacity.py, whose label differs.\<close>

record count_assessment =
  ca_scope_type :: str
  ca_scope_label :: str
  ca_subject_id :: str
  ca_metric :: str
  ca_precision :: precision
  ca_value :: "int option"
  ca_lower :: "int option"
  ca_upper :: "int option"
  ca_resolution :: str
  ca_confidence :: str
  ca_sources :: "count_source list"
  ca_basis :: "str option"
  ca_superseded :: "count_source list"
  ca_plan_stated :: bool

definition total_residential :: str where
  "total_residential = ''total_residential''"

text \<open>\<open>CountAssessment(**base)\<close>: the defaults around the base fields.\<close>

definition base_assessment :: "str \<Rightarrow> str \<Rightarrow> str \<Rightarrow> str \<Rightarrow> count_source list \<Rightarrow> str option \<Rightarrow> count_source list \<Rightarrow> count_assessment" where
  "base_assessment ty label subject metric sources basis superseded =
     \<lparr>ca_scope_type = ty, ca_scope_label = label, ca_subject_id = subject, ca_metric = metric, ca_precision = UNKNOWN,
      ca_value = None, ca_lower = None, ca_upper = None, ca_resolution = ''insufficient_evidence'', ca_confidence = ''none'',
      ca_sources = sources, ca_basis = basis, ca_superseded = superseded, ca_plan_stated = False\<rparr>"

definition exact_value :: "count_assessment \<Rightarrow> int option" where
  "exact_value a = (if ca_precision a = EXACT then known_unit_count (py_int (ca_value a)) else None)"

definition EN_DASH :: str where
  "EN_DASH = [CHR 0x96]"

definition underscores_to_spaces :: "str \<Rightarrow> str" where
  "underscores_to_spaces = map (\<lambda>c. if c = CHR ''_'' then CHR '' '' else c)"

text \<open>\<open>f"{n:,}"\<close>; a missing figure, which no constructor of an assessment leaves where a label reads it, is empty.\<close>

definition commas :: "int option \<Rightarrow> str" where
  "commas v = (case v of None \<Rightarrow> [] | Some n \<Rightarrow> int_commas n)"

definition ca_noun :: "count_assessment \<Rightarrow> str" where
  "ca_noun a = (if ca_metric a = total_residential then ''homes'' else underscores_to_spaces (ca_metric a))"

definition base_label :: "count_assessment \<Rightarrow> str" where
  "base_label a = (case ca_precision a of
       EXACT \<Rightarrow> commas (ca_value a) @ '' '' @ ca_noun a
     | APPROXIMATE \<Rightarrow> ''~'' @ commas (ca_value a) @ '' '' @ ca_noun a
     | RANGE \<Rightarrow> commas (ca_lower a) @ EN_DASH @ commas (ca_upper a) @ '' '' @ ca_noun a
     | UNKNOWN \<Rightarrow> ''Unit count unverified'')"

definition label :: "count_assessment \<Rightarrow> str" where
  "label a = (if ca_plan_stated a \<and> ca_precision a = RANGE \<and> (ca_lower a = None) \<noteq> (ca_upper a = None)
     then (case ca_lower a of Some n \<Rightarrow> ''at least '' @ int_commas n @ '' '' @ ca_noun a
           | None \<Rightarrow> ''up to '' @ commas (ca_upper a) @ '' '' @ ca_noun a)
     else base_label a)"

definition count_note :: "count_assessment \<Rightarrow> str" where
  "count_note a = (if ca_resolution a = ''immaterial_variance''
       then ''Current evidence varies slightly: '' @ commas (ca_lower a) @ EN_DASH @ commas (ca_upper a) @ ''.''
     else if ca_resolution a = ''material_conflict'' then ''Conflicting unit evidence; verification required.''
     else if ca_precision a = RANGE then ''Scale not yet resolved.''
     else if ca_precision a = APPROXIMATE then ''Reported estimate; exact scale unverified.'' else [])"

text \<open>Three-valued: \<open>Some True\<close> proven inside, \<open>Some False\<close> proven outside, \<open>None\<close> neither.\<close>

definition within_hard_bounds :: "int option \<Rightarrow> int option \<Rightarrow> count_assessment \<Rightarrow> bool option" where
  "within_hard_bounds minimum maximum a =
    (if ca_precision a = UNKNOWN then None else
     (case (ca_lower a, ca_upper a) of
       (Some lo, Some up) \<Rightarrow>
         if (case minimum of None \<Rightarrow> False | Some m \<Rightarrow> up < m) \<or> (case maximum of None \<Rightarrow> False | Some m \<Rightarrow> lo > m) then Some False
         else if (case minimum of None \<Rightarrow> False | Some m \<Rightarrow> lo < m) \<or> (case maximum of None \<Rightarrow> False | Some m \<Rightarrow> up > m) then None
         else Some True
     | _ \<Rightarrow> None))"

section \<open>Point evidence\<close>

definition position_key :: "count_source \<Rightarrow> str \<times> str" where
  "position_key p = (cs_application_reference p, int_str (cs_application_id p))"

definition all_same :: "'a option list \<Rightarrow> bool" where
  "all_same xs = (length (remdups xs) = 1 \<and> None \<notin> set xs)"

definition compatible_current :: "count_source list \<Rightarrow> bool" where
  "compatible_current ps = (all_same (map cs_decision_date ps) \<and> all_same (map cs_planning_role ps))"

definition assess_values :: "count_assessment \<Rightarrow> str \<Rightarrow> bool \<Rightarrow> int list \<Rightarrow> count_assessment" where
  "assess_values b confidence current vs =
    (let low = Min (set vs); high = Max (set vs) in
     if length (remdups vs) = 1
       then b\<lparr>ca_precision := EXACT, ca_value := Some low, ca_lower := Some low, ca_upper := Some high,
              ca_resolution := ''agreement'', ca_confidence := confidence\<rparr>
     else if set vs = {100, 101, 102} \<and> ca_metric b = total_residential \<and> current
       then b\<lparr>ca_precision := APPROXIMATE, ca_value := Some 100, ca_lower := Some low, ca_upper := Some high,
              ca_resolution := ''immaterial_variance'', ca_confidence := ''medium''\<rparr>
     else b\<lparr>ca_lower := Some low, ca_upper := Some high, ca_resolution := ''material_conflict'', ca_confidence := ''low''\<rparr>)"

definition assess_positions :: "str \<Rightarrow> str \<Rightarrow> str \<Rightarrow> str \<Rightarrow> str option \<Rightarrow> str \<Rightarrow> count_source list \<Rightarrow> count_source list \<Rightarrow> count_assessment" where
  "assess_positions ty lbl subject metric basis confidence superseded positions0 =
    (let ps = sort_key position_key positions0;
         b = base_assessment ty lbl subject metric ps basis superseded;
         vs = map (\<lambda>p. known_unit_count (cs_value p)) ps in
     if ps = [] then b
     else if list_ex (\<lambda>p. (cs_scope_type p, cs_scope_label p) \<noteq> (ty, lbl)) ps then b\<lparr>ca_resolution := ''unresolved_scope''\<rparr>
     else if None \<in> set vs then b\<lparr>ca_resolution := ''malformed_evidence''\<rparr>
     else assess_values b confidence (compatible_current ps) (map the vs))"

section \<open>Range evidence\<close>

definition range_source :: "int \<Rightarrow> int \<Rightarrow> str \<Rightarrow> str \<Rightarrow> str \<Rightarrow> str \<Rightarrow> count_source \<Rightarrow> bool" where
  "range_source lo hi ty lbl subject metric s = (cs_qualified s \<and> cs_qualifier s = Some ''range'' \<and> cs_scope_type s = ty \<and>
     cs_scope_label s = lbl \<and> cs_subject_id s = subject \<and> cs_metric s = metric \<and> truthy (cs_evidence_date s) \<and>
     truthy (cs_version s) \<and> truthy (cs_source_reference s) \<and> cs_lower s = Some lo \<and> cs_upper s = Some hi)"

definition supported_range :: "pyval \<Rightarrow> pyval \<Rightarrow> count_source list \<Rightarrow> str \<Rightarrow> str \<Rightarrow> str \<Rightarrow> str \<Rightarrow> count_assessment" where
  "supported_range lower_v upper_v sources ty lbl subject metric =
    (let b = base_assessment ty lbl subject metric sources None [] in
     (case (known_unit_count lower_v, known_unit_count upper_v) of
       (Some lo, Some hi) \<Rightarrow>
         if lo \<le> hi \<and> sources \<noteq> [] \<and> subject \<noteq> [] \<and> list_all (range_source lo hi ty lbl subject metric) sources
         then b\<lparr>ca_precision := RANGE, ca_lower := Some lo, ca_upper := Some hi, ca_resolution := ''supported_range'',
                ca_confidence := ''medium''\<rparr>
         else b
     | _ \<Rightarrow> b))"

section \<open>Provenance and attribution\<close>

definition is_meaningful_provenance :: "str option \<Rightarrow> bool" where
  "is_meaningful_provenance v = (case v of None \<Rightarrow> False | Some s \<Rightarrow> strip s \<noteq> [])"

definition evidenced_pairs :: "(str \<times> str \<times> str option) list \<Rightarrow> str set set" where
  "evidenced_pairs evidence = set (map (\<lambda>(l, r, s). {l, r}) (filter (\<lambda>(l, r, s). is_meaningful_provenance s) evidence))"

record scheme =
  si_development_type :: "str option"
  si_total_units_final :: pyval

record application =
  ap_id :: int
  ap_reference :: "str option"
  ap_scheme :: "scheme option"

definition COUNT_SOURCE_METRICS :: "str set" where
  "COUNT_SOURCE_METRICS = {''total_residential'', ''all_use_units''}"

definition application_key :: "application \<Rightarrow> str \<times> str" where
  "application_key a = (str_or (ap_reference a) [], int_str (ap_id a))"

text \<open>\<open>min(xs, key=...)\<close>: the first of the smallest.\<close>

definition min_by :: "('a \<Rightarrow> 'b::linorder) \<Rightarrow> 'a list \<Rightarrow> 'a option" where
  "min_by f xs = (case sort_key f xs of [] \<Rightarrow> None | x # _ \<Rightarrow> Some x)"

definition supports_exact :: "count_assessment \<Rightarrow> int \<Rightarrow> application \<Rightarrow> bool" where
  "supports_exact a n ap = (list_ex (\<lambda>s. cs_application_id s = ap_id ap \<and> known_unit_count (cs_value s) = Some n) (ca_sources a) \<and>
     (case ap_scheme ap of None \<Rightarrow> False | Some si \<Rightarrow> known_unit_count (si_total_units_final si) = Some n))"

definition select_count_supporting_source :: "count_assessment option \<Rightarrow> application list \<Rightarrow> int option \<Rightarrow> application option" where
  "select_count_supporting_source ca applications operative =
    (case ca of None \<Rightarrow> None | Some a \<Rightarrow>
     if ca_metric a \<notin> COUNT_SOURCE_METRICS then None
     else (case exact_value a of None \<Rightarrow> None | Some n \<Rightarrow>
       let supporters = filter (supports_exact a n) applications in
       (case (case operative of None \<Rightarrow> None | Some i \<Rightarrow> find (\<lambda>ap. ap_id ap = i) supporters) of
          Some ap \<Rightarrow> Some ap
        | None \<Rightarrow> min_by application_key supporters)))"

definition source_identity :: "count_source \<Rightarrow> str option \<times> str option \<times> str option" where
  "source_identity s = (cs_source_reference s, cs_version s, cs_evidence_date s)"

definition aligned_source :: "count_assessment \<Rightarrow> count_source \<Rightarrow> bool" where
  "aligned_source v s = (truthy (cs_version s) \<and> truthy (cs_source_reference s) \<and> truthy (cs_evidence_date s) \<and> cs_qualified s \<and>
     cs_metric s = ca_metric v \<and> cs_subject_id s = ca_subject_id v)"

definition scope_of :: "count_assessment \<Rightarrow> str \<times> str \<times> str" where
  "scope_of v = (ca_subject_id v, ca_scope_type v, ca_scope_label v)"

definition aligned_tenure_counts :: "count_assessment \<Rightarrow> count_assessment \<Rightarrow> count_assessment \<Rightarrow> (int \<times> int \<times> int) option" where
  "aligned_tenure_counts tot private affordable =
    (let vs = [tot, private, affordable]; ids = (\<lambda>v. set (map source_identity (ca_sources v))) in
     if list_ex (\<lambda>v. exact_value v = None \<or> ca_sources v = []) vs then None
     else if \<not> list_all (\<lambda>v. list_all (aligned_source v) (ca_sources v)) vs then None
     else if \<not> (ca_metric tot = ''total_residential'' \<and> ca_metric private = ''private_units'' \<and> ca_metric affordable = ''affordable_units'')
       then None
     else if \<not> (scope_of tot = scope_of private \<and> scope_of private = scope_of affordable) \<or>
             \<not> (ids tot = ids private \<and> ids private = ids affordable) then None
     else (case (ca_value tot, ca_value private, ca_value affordable) of
         (Some t, Some p, Some a) \<Rightarrow> if p + a \<noteq> t then None else Some (t, p, a)
       | _ \<Rightarrow> None))"

section \<open>What a bounds test may conclude\<close>

text \<open>
  \<open>possible e\<close> is the set of counts the evidence \<open>e\<close> leaves open. A test may answer only what all of
  them agree on.
\<close>

locale bounds_test =
  fixes possible :: "'e \<Rightarrow> int set" and test :: "int option \<Rightarrow> int option \<Rightarrow> 'e \<Rightarrow> bool option"
  assumes inside: "test lo up e = Some True \<Longrightarrow> n \<in> possible e \<Longrightarrow> (case lo of None \<Rightarrow> True | Some m \<Rightarrow> m \<le> n) \<and> (case up of None \<Rightarrow> True | Some m \<Rightarrow> n \<le> m)"
    and outside: "test lo up e = Some False \<Longrightarrow> n \<in> possible e \<Longrightarrow> \<not> ((case lo of None \<Rightarrow> True | Some m \<Rightarrow> m \<le> n) \<and> (case up of None \<Rightarrow> True | Some m \<Rightarrow> n \<le> m))"
begin

lemma nested:
  assumes "test lo up e = Some True" and "n \<in> possible e"
    and "case lo' of None \<Rightarrow> True | Some m' \<Rightarrow> (case lo of None \<Rightarrow> False | Some m \<Rightarrow> m' \<le> m)"
    and "case up' of None \<Rightarrow> True | Some m' \<Rightarrow> (case up of None \<Rightarrow> False | Some m \<Rightarrow> m \<le> m')"
  shows "test lo' up' e \<noteq> Some False"
  using inside [OF assms(1,2)] outside [of lo' up' e n] assms by (fastforce split: option.splits)

lemma exclusive: "test lo up e = Some True \<Longrightarrow> test lo up e' = Some False \<Longrightarrow> possible e \<inter> possible e' = {}"
  using inside outside by blast

end

definition possible_counts :: "count_assessment \<Rightarrow> int set" where
  "possible_counts a = {n. (case ca_lower a of None \<Rightarrow> True | Some lo \<Rightarrow> lo \<le> n) \<and> (case ca_upper a of None \<Rightarrow> True | Some up \<Rightarrow> n \<le> up)}"

interpretation count_bounds: bounds_test possible_counts within_hard_bounds
  by unfold_locales (auto simp: within_hard_bounds_def possible_counts_def split: option.splits if_splits)

lemmas count_defs = base_assessment_def exact_value_def known_py_int assess_values_def

section \<open>Properties\<close>

text \<open>
  A bounds test never overstates: where it answers yes every count the evidence leaves open is within the bounds,
  where it answers no none is, and where it declines on a bounded, known count, both kinds remain possible.
\<close>

theorem bounds_verdict_sound:
  assumes "ca_precision a \<noteq> UNKNOWN" and "ca_lower a = Some lo" and "ca_upper a = Some up" and "lo \<le> up" and "mn \<le> mx"
  shows "case within_hard_bounds (Some mn) (Some mx) a of
      Some True \<Rightarrow> \<forall>n\<in>possible_counts a. mn \<le> n \<and> n \<le> mx
    | Some False \<Rightarrow> \<forall>n\<in>possible_counts a. \<not> (mn \<le> n \<and> n \<le> mx)
    | None \<Rightarrow> (\<exists>n\<in>possible_counts a. mn \<le> n \<and> n \<le> mx) \<and> (\<exists>n\<in>possible_counts a. \<not> (mn \<le> n \<and> n \<le> mx))"
proof (cases "within_hard_bounds (Some mn) (Some mx) a")
  case None
  then have d: "\<not> up < mn" "\<not> lo > mx" "lo < mn \<or> up > mx"
    using assms by (auto simp: within_hard_bounds_def split: if_splits)
  have p: "max lo mn \<in> possible_counts a" "lo \<in> possible_counts a" "up \<in> possible_counts a"
    using assms d by (auto simp: possible_counts_def)
  have "\<exists>n\<in>possible_counts a. mn \<le> n \<and> n \<le> mx"
    using p(1) d assms(5) by (intro bexI [of _ "max lo mn"]) auto
  moreover have "\<exists>n\<in>possible_counts a. \<not> (mn \<le> n \<and> n \<le> mx)"
    using p(2,3) d(3) by force
  ultimately show ?thesis using None by simp
next
  case (Some b)
  then show ?thesis
    using count_bounds.inside [of "Some mn" "Some mx" a] count_bounds.outside [of "Some mn" "Some mx" a] by (cases b) auto
qed

definition demo_range :: count_assessment where
  "demo_range = (base_assessment ''phase'' ''Phase 1'' ''S1'' total_residential [] None [])\<lparr>ca_precision := RANGE, ca_lower := Some 45, ca_upper := Some 60\<rparr>"

theorem bounds_verdict_sound_witness:
  "(\<exists>n\<in>possible_counts demo_range. 50 \<le> n \<and> n \<le> 200) \<and> within_hard_bounds (Some 50) (Some 200) demo_range = None"
proof -
  have "within_hard_bounds (Some 50) (Some 200) demo_range = None" by code_simp
  then show ?thesis
    using bounds_verdict_sound [of demo_range 45 60 50 200] by (simp add: demo_range_def base_assessment_def)
qed

lemma sort_positions_mset:
  assumes "mset ps = mset qs" and "inj_on position_key (set ps)"
  shows "sort_key position_key ps = sort_key position_key qs"
proof (rule properties_for_sort_key)
  show "mset (sort_key position_key qs) = mset ps" using assms(1) by simp
  show "k \<in> set (sort_key position_key qs) \<Longrightarrow> filter (\<lambda>x. position_key k = position_key x) (sort_key position_key qs) =
      filter (\<lambda>x. position_key k = position_key x) ps" for k
  proof -
    assume "k \<in> set (sort_key position_key qs)"
    then have k: "k \<in> set ps" using mset_eq_setD [OF assms(1)] by simp
    have filt: "filter (\<lambda>x. position_key k = position_key x) xs = replicate (count (mset xs) k) k" if "set xs \<subseteq> set ps" for xs
      using that
    proof (induction xs)
      case (Cons x xs)
      then show ?case using k assms(2) by (auto dest: inj_onD)
    qed simp
    show ?thesis using filt [of ps] filt [of "sort_key position_key qs"] mset_eq_setD [OF assms(1)] assms(1) by simp
  qed
qed simp

text \<open>
  The assessment of point evidence does not depend on the order the positions are supplied in.
\<close>

theorem assessment_order_independent:
  assumes "mset ps = mset qs" and "inj_on position_key (set ps)"
  shows "assess_positions ty lbl subj m basis conf spd ps = assess_positions ty lbl subj m basis conf spd qs"
  using sort_positions_mset [OF assms] by (simp add: assess_positions_def)


definition demo_position :: "int \<Rightarrow> int \<Rightarrow> count_source" where
  "demo_position i n = \<lparr>cs_application_id = i, cs_application_reference = ''26/'' @ int_str i, cs_value = PyInt n, cs_scope_type = ''phase'',
     cs_scope_label = ''Phase 1'', cs_decision_date = Some 730000, cs_planning_role = Some ''full'', cs_qualified = False,
     cs_qualifier = None, cs_subject_id = [], cs_metric = [], cs_evidence_date = None, cs_version = None,
     cs_source_reference = None, cs_lower = None, cs_upper = None\<rparr>"

theorem assessment_order_independent_witness:
  "ca_precision (assess_positions ''phase'' ''Phase 1'' ''S1'' total_residential None ''high'' [] [demo_position 3 102, demo_position 1 100, demo_position 2 101]) = APPROXIMATE"
proof -
  have "inj_on position_key (set [demo_position 3 102, demo_position 1 100, demo_position 2 101])" by code_simp
  note this' = assessment_order_independent [OF _ this, of "[demo_position 1 100, demo_position 2 101, demo_position 3 102]"]
  have "ca_precision (assess_positions ''phase'' ''Phase 1'' ''S1'' total_residential None ''high'' [] [demo_position 1 100, demo_position 2 101, demo_position 3 102]) = APPROXIMATE"
    by code_simp
  then show ?thesis using this' by (simp add: add_mset_commute)
qed

lemma sort_key_Nil_iff: "(sort_key f xs = []) = (xs = [])"
  by (metis set_empty set_sort)

lemma remdups_one: "(length (remdups xs) = Suc 0) = (\<exists>x. set xs = {x})"
proof
  assume "length (remdups xs) = Suc 0"
  then obtain x where "remdups xs = [x]" by (auto simp: length_Suc_conv)
  then show "\<exists>x. set xs = {x}" by (metis empty_set list.simps(15) set_remdups)
next
  assume "\<exists>x. set xs = {x}"
  then show "length (remdups xs) = Suc 0" by (auto simp: length_remdups_card_conv)
qed

lemma assess_values_exact:
  assumes "ca_precision b = UNKNOWN"
  shows "(ca_precision (assess_values b c cur vs) = EXACT \<and> exact_value (assess_values b c cur vs) = Some n) = (set vs = {n} \<and> 0 \<le> n)"
proof (cases "\<exists>x. set vs = {x}")
  case True
  then obtain x where x: "set vs = {x}" by blast
  then have "length (remdups vs) = 1" by (auto simp: remdups_one)
  with x show ?thesis by (auto simp: count_defs Let_def)
next
  case False
  then have "length (remdups vs) \<noteq> 1" by (simp add: remdups_one)
  with False assms show ?thesis by (auto simp: assess_values_def Let_def)
qed

lemma all_the: "(None \<notin> set vs \<and> set (map the vs) = {n}) = (vs \<noteq> [] \<and> (\<forall>v\<in>set vs. v = Some n))"
proof
  assume l: "None \<notin> set vs \<and> set (map the vs) = {n}"
  show "vs \<noteq> [] \<and> (\<forall>v\<in>set vs. v = Some n)"
  proof (intro conjI ballI)
    show "vs \<noteq> []" using l by auto
    fix v assume "v \<in> set vs"
    with l have "v \<noteq> None" and "the v \<in> {n}" by (metis, metis image_eqI set_map)
    then show "v = Some n" by auto
  qed
next
  assume "vs \<noteq> [] \<and> (\<forall>v\<in>set vs. v = Some n)"
  then show "None \<notin> set vs \<and> set (map the vs) = {n}" by (cases vs) (auto simp: image_def)
qed

lemma set_map_single: "(xs \<noteq> [] \<and> set (map f xs) = {t}) = (xs \<noteq> [] \<and> (\<forall>x\<in>set xs. f x = t))"
  by (cases xs) auto

lemma assess_positions_exact:
  "(ca_precision (assess_positions ty lbl subj m basis conf spd ps) = EXACT \<and>
    exact_value (assess_positions ty lbl subj m basis conf spd ps) = Some n) =
   (ps \<noteq> [] \<and> set (map (\<lambda>p. (cs_scope_type p, cs_scope_label p, known_unit_count (cs_value p))) ps) = {(ty, lbl, Some n)})"
  (is "?l = ?r")
proof -
  define qs where "qs = sort_key position_key ps"
  define vs where "vs = map (\<lambda>p. known_unit_count (cs_value p)) qs"
  have set_qs: "set qs = set ps" by (simp add: qs_def)
  have "?l = (qs \<noteq> [] \<and> (\<forall>p\<in>set qs. (cs_scope_type p, cs_scope_label p) = (ty, lbl)) \<and> None \<notin> set vs \<and> set (map the vs) = {n} \<and> 0 \<le> n)"
    unfolding assess_positions_def Let_def qs_def [symmetric] vs_def [symmetric]
    by (simp add: assess_values_exact base_assessment_def list_ex_iff)
  also have "\<dots> = (qs \<noteq> [] \<and> (\<forall>p\<in>set qs. (cs_scope_type p, cs_scope_label p, known_unit_count (cs_value p)) = (ty, lbl, Some n)))"
  proof -
    have "0 \<le> n" if "qs \<noteq> []" "\<forall>p\<in>set qs. known_unit_count (cs_value p) = Some n"
      using that known_unit_count_nonneg by (cases qs) auto
    moreover have "(None \<notin> set vs \<and> set (map the vs) = {n}) = (vs \<noteq> [] \<and> (\<forall>v\<in>set vs. v = Some n))"
      by (rule all_the)
    ultimately show ?thesis unfolding vs_def by auto
  qed
  also have "\<dots> = ?r"
    unfolding set_map_single using set_qs by (metis set_empty)
  finally show ?thesis .
qed

text \<open>
  An exact count is reported only from agreement: at least one position, every one of them in the subject's own scope
  and of that same whole non-negative count; any malformed, foreign or disagreeing position withholds it.
\<close>

theorem exact_only_by_agreement:
  "(ca_precision (assess_positions ty lbl subj m basis conf spd ps) = EXACT \<and>
    exact_value (assess_positions ty lbl subj m basis conf spd ps) = Some n) =
   (ps \<noteq> [] \<and> set (map (\<lambda>p. (cs_scope_type p, cs_scope_label p, known_unit_count (cs_value p))) ps) = {(ty, lbl, Some n)})"
  by (rule assess_positions_exact)

lemma find_SomeD: "find P xs = Some x \<Longrightarrow> x \<in> set xs \<and> P x"
  by (induction xs) (auto split: if_splits)

lemma find_NoneD: "find P xs = None \<Longrightarrow> x \<in> set xs \<Longrightarrow> \<not> P x"
  by (induction xs) (auto split: if_splits)

lemma first_of_sort:
  assumes "(case sort_key f xs of [] \<Rightarrow> None | x # _ \<Rightarrow> Some x) = Some y" shows "y \<in> set xs"
proof -
  from assms obtain ys where "sort_key f xs = y # ys" by (cases "sort_key f xs") auto
  then have "y \<in> set (sort_key f xs)" by simp
  then show ?thesis by simp
qed

text \<open>
  A displayed exact count is attributed only to an application that supports it: one of the count's own sources with
  that value, whose extracted total is that value; the operative application is chosen whenever it is one of them.
\<close>

theorem attribution_supports_count:
  assumes "select_count_supporting_source (Some a) aps op = Some ap"
  shows "\<exists>n. exact_value a = Some n \<and> ap \<in> set aps \<and> supports_exact a n ap \<and>
    (\<forall>i ap'. op = Some i \<longrightarrow> ap' \<in> set aps \<longrightarrow> ap_id ap' = i \<longrightarrow> supports_exact a n ap' \<longrightarrow> ap_id ap = i)"
proof -
  from assms obtain n where n: "exact_value a = Some n"
    by (auto simp: select_count_supporting_source_def split: if_splits option.splits)
  define sps where "sps = filter (supports_exact a n) aps"
  have mem: "min_by application_key sps = Some x \<Longrightarrow> x \<in> set sps" for x
    unfolding min_by_def by (rule first_of_sort)
  from assms n have sel: "(case (case op of None \<Rightarrow> None | Some i \<Rightarrow> find (\<lambda>ap. ap_id ap = i) sps) of
      Some ap \<Rightarrow> Some ap | None \<Rightarrow> min_by application_key sps) = Some ap"
    by (simp add: select_count_supporting_source_def sps_def [symmetric] Let_def split: if_splits)
  then have mem': "ap \<in> set sps"
    using mem by (auto split: option.splits dest: find_SomeD)
  have own: "ap_id ap = i" if "op = Some i" "x \<in> set sps" "ap_id x = i" for i x
    using sel that by (auto split: option.splits dest: find_SomeD find_NoneD)
  show ?thesis
  proof (intro exI conjI allI impI)
    show "exact_value a = Some n" by (rule n)
    show "ap \<in> set aps" "supports_exact a n ap" using mem' by (simp_all add: sps_def)
    show "ap_id ap = i" if "op = Some i" "x \<in> set aps" "ap_id x = i" "supports_exact a n x" for i x
      using own [of i x] that by (simp add: sps_def)
  qed
qed

definition demo_application_row :: application where
  "demo_application_row = \<lparr>ap_id = 7, ap_reference = Some ''26/7'', ap_scheme = Some \<lparr>si_development_type = Some ''apartments'', si_total_units_final = PyInt 120\<rparr>\<rparr>"

theorem attribution_supports_count_witness:
  "supports_exact (assess_positions ''phase'' ''Phase 1'' ''S1'' total_residential None ''high'' [] [demo_position 7 120]) 120 demo_application_row"
proof -
  let ?a = "assess_positions ''phase'' ''Phase 1'' ''S1'' total_residential None ''high'' [] [demo_position 7 120]"
  have "map_option ap_id (select_count_supporting_source (Some ?a) [demo_application_row] None) = Some 7" by code_simp
  then obtain ap where ap: "select_count_supporting_source (Some ?a) [demo_application_row] None = Some ap" by auto
  have "exact_value ?a = Some 120" by code_simp
  with attribution_supports_count [OF ap] show ?thesis by auto
qed

lemma aligned_counts_add_up:
  "aligned_tenure_counts t p a = Some (x, y, z) \<Longrightarrow> y + z = x \<and> exact_value t = Some x \<and> exact_value p = Some y \<and> exact_value a = Some z"
  unfolding aligned_tenure_counts_def Let_def
  by (auto simp: exact_value_def known_py_int split: if_splits option.splits)

lemma supported_range_bounds:
  "ca_precision (supported_range lo up ss ty lbl subj m) = RANGE \<Longrightarrow>
    \<exists>l u. known_unit_count lo = Some l \<and> known_unit_count up = Some u \<and> 0 \<le> l \<and> l \<le> u \<and> ss \<noteq> [] \<and>
      (\<forall>s\<in>set ss. cs_qualified s \<and> cs_lower s = Some l \<and> cs_upper s = Some u \<and> cs_subject_id s = subj)"
  by (auto simp: supported_range_def base_assessment_def Let_def list_all_iff range_source_def known_unit_count_nonneg
      split: option.splits if_splits)

end
