(* ===== verification/StrategicCapacity.thy ===== *)
theory StrategicCapacity
  imports CountEvidence
begin

text \<open>
  A strategic allocation's stored capacity figures as count evidence, app/reporting/strategic_capacity.py:
  the kind of a (minimum, indicative, maximum) triple, the assessment it becomes and the wording that always says plan-stated
  and unverified. A stored figure is a \<open>pyval\<close> (\<open>PyInt\<close> where the column holds a whole number).
\<close>

record allocation =
  al_minimum_dwellings :: pyval
  al_indicative_capacity :: pyval
  al_maximum_capacity :: pyval
  al_intended_use :: "str option"
  al_local_plan_status :: "str option option"
  al_plan_status :: "str option"
  al_matched_site_id :: "int option"

datatype capacity_kind =
  KIND_UNKNOWN | KIND_MALFORMED | KIND_EXACT | KIND_RANGE | KIND_MINIMUM | KIND_MAXIMUM | KIND_INDICATIVE

fun valid_figure :: "pyval \<Rightarrow> bool" where
  "valid_figure PyNone = True"
| "valid_figure (PyInt n) = (0 < n)"
| "valid_figure _ = False"

fun figure :: "pyval \<Rightarrow> int option" where
  "figure (PyInt n) = Some n"
| "figure _ = None"

definition classify_capacity_kind :: "pyval \<Rightarrow> pyval \<Rightarrow> pyval \<Rightarrow> capacity_kind" where
  "classify_capacity_kind minimum indicative maximum =
    (if list_all (\<lambda>f. f = PyNone) [minimum, indicative, maximum] then KIND_UNKNOWN
     else if \<not> list_all valid_figure [minimum, indicative, maximum] then KIND_MALFORMED
     else (case (figure minimum, figure maximum) of
       (Some lo, Some hi) \<Rightarrow>
         if lo > hi then KIND_MALFORMED
         else if (case figure indicative of None \<Rightarrow> False | Some i \<Rightarrow> \<not> (lo \<le> i \<and> i \<le> hi)) then KIND_MALFORMED
         else if lo = hi then KIND_EXACT else KIND_RANGE
     | (Some lo, None) \<Rightarrow> if (case figure indicative of None \<Rightarrow> False | Some i \<Rightarrow> i < lo) then KIND_MALFORMED else KIND_MINIMUM
     | (None, Some hi) \<Rightarrow> if (case figure indicative of None \<Rightarrow> False | Some i \<Rightarrow> i > hi) then KIND_MALFORMED else KIND_MAXIMUM
     | (None, None) \<Rightarrow> KIND_INDICATIVE))"

definition kind_of :: "allocation \<Rightarrow> capacity_kind" where
  "kind_of al = classify_capacity_kind (al_minimum_dwellings al) (al_indicative_capacity al) (al_maximum_capacity al)"

definition plan_base :: count_assessment where
  "plan_base = (base_assessment ''allocation'' ''Plan-stated capacity'' [] total_residential [] (Some ''plan_stated_unverified'') [])
     \<lparr>ca_confidence := ''plan_stated'', ca_plan_stated := True\<rparr>"

definition strategic_capacity_assessment :: "allocation \<Rightarrow> count_assessment" where
  "strategic_capacity_assessment al =
    (let lo = figure (al_minimum_dwellings al); ind = figure (al_indicative_capacity al); hi = figure (al_maximum_capacity al) in
     (case kind_of al of
       KIND_UNKNOWN \<Rightarrow> plan_base\<lparr>ca_resolution := ''capacity_not_identified''\<rparr>
     | KIND_MALFORMED \<Rightarrow> plan_base\<lparr>ca_resolution := ''conflicting_or_malformed_plan_figures''\<rparr>
     | KIND_EXACT \<Rightarrow> plan_base\<lparr>ca_precision := EXACT, ca_value := lo, ca_lower := lo, ca_upper := hi, ca_resolution := ''plan_stated_single_figure''\<rparr>
     | KIND_RANGE \<Rightarrow> plan_base\<lparr>ca_precision := RANGE, ca_lower := lo, ca_upper := hi, ca_resolution := ''plan_stated_range''\<rparr>
     | KIND_MINIMUM \<Rightarrow> plan_base\<lparr>ca_precision := RANGE, ca_lower := lo, ca_upper := None, ca_resolution := ''plan_stated_minimum_only''\<rparr>
     | KIND_MAXIMUM \<Rightarrow> plan_base\<lparr>ca_precision := RANGE, ca_lower := None, ca_upper := hi, ca_resolution := ''plan_stated_maximum_only''\<rparr>
     | KIND_INDICATIVE \<Rightarrow> plan_base\<lparr>ca_precision := APPROXIMATE, ca_value := ind, ca_resolution := ''plan_stated_indicative_only''\<rparr>))"

record scale_view =
  sv_kind :: capacity_kind
  sv_display :: str
  sv_figure :: str
  sv_precision :: precision
  sv_value :: "int option"
  sv_lower :: "int option"
  sv_upper :: "int option"
  sv_basis :: str
  sv_verified :: bool
  sv_resolution :: str

definition EM_DASH :: str where
  "EM_DASH = [CHR 0x97]"

definition scale_display :: "allocation \<Rightarrow> str" where
  "scale_display al =
    (let lo = figure (al_minimum_dwellings al); ind = figure (al_indicative_capacity al); hi = figure (al_maximum_capacity al);
         suffix = '' '' @ EM_DASH @ '' unverified'' in
     (case kind_of al of
       KIND_EXACT \<Rightarrow> ''Plan-stated capacity: '' @ commas lo @ '' homes'' @ suffix
     | KIND_RANGE \<Rightarrow> ''Plan-stated range: '' @ commas lo @ EN_DASH @ commas hi @ '' homes'' @
         (case ind of None \<Rightarrow> [] | Some i \<Rightarrow> '' (plan-indicative ~'' @ int_commas i @ '')'') @ suffix
     | KIND_MINIMUM \<Rightarrow> ''Plan-stated minimum: '' @ commas lo @ '' homes'' @ suffix
     | KIND_MAXIMUM \<Rightarrow> ''Plan-stated maximum: '' @ commas hi @ '' homes'' @ suffix
     | KIND_INDICATIVE \<Rightarrow> ''Plan-stated indicative capacity: approximately '' @ commas ind @ '' homes'' @ suffix
     | KIND_MALFORMED \<Rightarrow> ''Plan-stated capacity figures conflict '' @ EM_DASH @ '' not used''
     | KIND_UNKNOWN \<Rightarrow> ''Plan capacity not identified''))"

definition scale_figure :: "allocation \<Rightarrow> str" where
  "scale_figure al =
    (let lo = figure (al_minimum_dwellings al); ind = figure (al_indicative_capacity al); hi = figure (al_maximum_capacity al) in
     (case kind_of al of
       KIND_EXACT \<Rightarrow> commas lo @ '' homes''
     | KIND_RANGE \<Rightarrow> commas lo @ EN_DASH @ commas hi @ '' homes''
     | KIND_MINIMUM \<Rightarrow> ''at least '' @ commas lo @ '' homes''
     | KIND_MAXIMUM \<Rightarrow> ''up to '' @ commas hi @ '' homes''
     | KIND_INDICATIVE \<Rightarrow> ''approximately '' @ commas ind @ '' homes''
     | _ \<Rightarrow> ''Not identified''))"

definition strategic_scale_view :: "allocation \<Rightarrow> scale_view" where
  "strategic_scale_view al = (let a = strategic_capacity_assessment al in
     \<lparr>sv_kind = kind_of al, sv_display = scale_display al, sv_figure = scale_figure al, sv_precision = ca_precision a,
      sv_value = ca_value a, sv_lower = ca_lower a, sv_upper = ca_upper a, sv_basis = ''PLAN_STATED_UNVERIFIED'',
      sv_verified = False, sv_resolution = ca_resolution a\<rparr>)"

section \<open>Properties\<close>

lemma plan_base_simps [simp]: "ca_precision plan_base = UNKNOWN" "ca_lower plan_base = None" "ca_upper plan_base = None"
  "ca_value plan_base = None" "ca_plan_stated plan_base" "ca_metric plan_base = total_residential"
  by (simp_all add: plan_base_def base_assessment_def)

lemma valid_figure_cases: "valid_figure v \<Longrightarrow> v = PyNone \<or> (\<exists>n. v = PyInt n \<and> 0 < n)"
  by (cases v) auto

text \<open>The counts a stored triple allows: at least the minimum and at most the maximum, where each is stated.\<close>

definition plan_allows :: "allocation \<Rightarrow> int \<Rightarrow> bool" where
  "plan_allows al n = ((case figure (al_minimum_dwellings al) of None \<Rightarrow> True | Some lo \<Rightarrow> lo \<le> n) \<and>
     (case figure (al_maximum_capacity al) of None \<Rightarrow> True | Some hi \<Rightarrow> n \<le> hi))"

text \<open>
  The representation of an allocation's figures is lossless and invents nothing: unless the figures are malformed, the counts
  the assessment leaves open are exactly those the stated minimum and maximum allow; malformed or missing figures give an
  unknown count, and an exact count is reported only where a positive minimum and maximum coincide.
\<close>

theorem capacity_represented:
  "(kind_of al = KIND_MALFORMED \<or> {n. plan_allows al n} = possible_counts (strategic_capacity_assessment al)) \<and>
   (ca_precision (strategic_capacity_assessment al) = UNKNOWN) = (kind_of al \<in> {KIND_MALFORMED, KIND_UNKNOWN}) \<and>
   (case exact_value (strategic_capacity_assessment al) of None \<Rightarrow> kind_of al \<noteq> KIND_EXACT
    | Some n \<Rightarrow> 0 < n \<and> al_minimum_dwellings al = PyInt n \<and> al_maximum_capacity al = PyInt n)"
proof (cases "list_all valid_figure [al_minimum_dwellings al, al_indicative_capacity al, al_maximum_capacity al]")
  case False
  then have "kind_of al = KIND_MALFORMED"
    by (auto simp: kind_of_def classify_capacity_kind_def)
  then show ?thesis
    by (simp add: strategic_capacity_assessment_def Let_def exact_value_def)
next
  case True
  then have v: "valid_figure (al_minimum_dwellings al)" "valid_figure (al_indicative_capacity al)" "valid_figure (al_maximum_capacity al)"
    by simp_all
  from valid_figure_cases [OF v(1)] valid_figure_cases [OF v(2)] valid_figure_cases [OF v(3)] show ?thesis
    by (elim disjE exE conjE)
      (simp_all add: kind_of_def classify_capacity_kind_def strategic_capacity_assessment_def Let_def exact_value_def
        possible_counts_def plan_allows_def known_py_int)
qed

lemma open_floor_never_inside: "kind_of al = KIND_MINIMUM \<Longrightarrow> within_hard_bounds lo up (strategic_capacity_assessment al) = None"
  by (simp add: strategic_capacity_assessment_def Let_def within_hard_bounds_def split: option.split)

end
