(* ===== verification/AhClaims.thy ===== *)
theory AhClaims
  imports CountEvidence
begin

text \<open>
  Affordable-housing claims: the thresholds of app/policy/ah_count_threshold.py and the claim contract of ah_assessment.py.
  A claim's figure is exact, approximate, a range, a floor or a ceiling; a threshold question has five answers, and a question
  that must not be asked raises. Bounds asked about are rationals, figures are \<open>pyval\<close>s.
\<close>

section \<open>Thresholds\<close>

datatype direction = MINIMUM | MAXIMUM

datatype verdict = MEETS | LIKELY_MEETS | INVESTIGATE | DOES_NOT_MEET | UNKNOWN_VERDICT

fun number :: "pyval \<Rightarrow> rat option" where
  "number (PyInt n) = (if 0 \<le> n then Some (of_int n) else None)"
| "number (PyReal r) = (if 0 \<le> r then Some r else None)"
| "number _ = None"

text \<open>The bounds of a range, floor or ceiling claim; \<open>None\<close> where the source answers unknown.\<close>

definition bound_pair :: "str \<Rightarrow> pyval \<Rightarrow> pyval \<Rightarrow> (rat option \<times> rat option) option" where
  "bound_pair qualifier lo up =
    (if qualifier = ''range'' then
       (case (number lo, number up) of (Some l, Some h) \<Rightarrow> if l > h then None else Some (Some l, Some h) | _ \<Rightarrow> None)
     else if qualifier = ''at_least'' then (case number lo of None \<Rightarrow> None | Some l \<Rightarrow> Some (Some l, None))
     else if qualifier = ''up_to'' then (case number up of None \<Rightarrow> None | Some h \<Rightarrow> Some (None, Some h))
     else None)"

definition judge_bounds :: "direction \<Rightarrow> rat \<Rightarrow> rat option \<Rightarrow> rat option \<Rightarrow> verdict" where
  "judge_bounds d limit lo hi = (case d of
      MINIMUM \<Rightarrow> if (case lo of None \<Rightarrow> False | Some l \<Rightarrow> l \<ge> limit) then LIKELY_MEETS
        else if (case hi of None \<Rightarrow> False | Some h \<Rightarrow> h < limit) then DOES_NOT_MEET else INVESTIGATE
    | MAXIMUM \<Rightarrow> if (case hi of None \<Rightarrow> False | Some h \<Rightarrow> h \<le> limit) then LIKELY_MEETS
        else if (case lo of None \<Rightarrow> False | Some l \<Rightarrow> l > limit) then DOES_NOT_MEET else INVESTIGATE)"

definition assess_count_threshold :: "rat \<Rightarrow> direction \<Rightarrow> str \<Rightarrow> bool \<Rightarrow> pyval \<Rightarrow> pyval \<Rightarrow> pyval \<Rightarrow> pyexc + verdict" where
  "assess_count_threshold limit d qualifier qual v lo up =
    (if limit < 0 then Inl (ValueError ''Require a nonnegative finite threshold and valid direction'')
     else if \<not> qual then Inr UNKNOWN_VERDICT
     else if qualifier = ''exact'' then
       (case number v of None \<Rightarrow> Inr UNKNOWN_VERDICT
        | Some c \<Rightarrow> Inr (if (case d of MINIMUM \<Rightarrow> c \<ge> limit | MAXIMUM \<Rightarrow> c \<le> limit) then MEETS else DOES_NOT_MEET))
     else if qualifier = ''approximate'' then
       (case number v of None \<Rightarrow> Inr UNKNOWN_VERDICT
        | Some c \<Rightarrow>
          if lo \<noteq> PyNone \<or> up \<noteq> PyNone then Inl (ValueError ''Use a source-bound qualifier when bounds are supplied'')
          else if limit * (9 / 10) \<le> c \<and> c \<le> limit * (11 / 10) then Inr INVESTIGATE
          else Inr (if (case d of MINIMUM \<Rightarrow> c > limit * (11 / 10) | MAXIMUM \<Rightarrow> c < limit * (9 / 10)) then LIKELY_MEETS else DOES_NOT_MEET))
     else (case bound_pair qualifier lo up of None \<Rightarrow> Inr UNKNOWN_VERDICT | Some (l, h) \<Rightarrow> Inr (judge_bounds d limit l h)))"

section \<open>Claims\<close>

record ah_claim =
  ah_value :: pyval
  ah_lower :: pyval
  ah_upper :: pyval
  ah_qualifier :: str
  ah_state :: str
  ah_application_reference :: "str option"
  ah_scope_type :: str
  ah_scope_label :: "str option"
  ah_stage :: "str option"
  ah_document_id :: "str option"
  ah_source_url :: "str option"
  ah_document_date :: "str option"
  ah_passage :: "str option"
  ah_review_reason :: "str option"

definition well_shaped :: "ah_claim \<Rightarrow> bool" where
  "well_shaped c = (let v = number (ah_value c); l = number (ah_lower c); h = number (ah_upper c); q = ah_qualifier c in
     if q = ''exact'' then ah_state c = ''verified'' \<and> v \<noteq> None \<and> ah_lower c = PyNone \<and> ah_upper c = PyNone
     else if q = ''approximate'' then v \<noteq> None \<and> ah_lower c = PyNone \<and> ah_upper c = PyNone
     else if q = ''range'' then (case (l, h) of (Some x, Some y) \<Rightarrow> x \<le> y \<and> ah_value c = PyNone | _ \<Rightarrow> False)
     else if q = ''at_least'' then l \<noteq> None \<and> ah_upper c = PyNone \<and> ah_value c = PyNone
     else if q = ''up_to'' then h \<noteq> None \<and> ah_lower c = PyNone \<and> ah_value c = PyNone
     else False)"

definition claim_qualified :: "ah_claim \<Rightarrow> bool" where
  "claim_qualified c = (ah_state c \<in> {''verified'', ''estimated''} \<and> truthy (ah_application_reference c) \<and> truthy (ah_scope_label c) \<and>
     ah_scope_type c \<in> {''whole_site'', ''phase'', ''plot'', ''component''} \<and> (truthy (ah_document_id c) \<or> truthy (ah_source_url c)) \<and>
     truthy (ah_passage c) \<and> well_shaped c)"

definition claim_threshold :: "ah_claim \<Rightarrow> bool \<Rightarrow> direction \<times> rat \<Rightarrow> pyexc + verdict" where
  "claim_threshold c whole_scheme b = (case b of (d, limit) \<Rightarrow>
    (case assess_count_threshold limit d (ah_qualifier c) (claim_qualified c) (ah_value c) (ah_lower c) (ah_upper c) of
       Inl x \<Rightarrow> Inl x
     | Inr r \<Rightarrow> if whole_scheme \<and> ah_scope_type c \<noteq> ''whole_site'' \<and> r \<noteq> UNKNOWN_VERDICT then
           (if d = MAXIMUM \<and> r \<in> {MEETS, LIKELY_MEETS} then Inr INVESTIGATE
            else if d = MINIMUM \<and> r = DOES_NOT_MEET then Inr INVESTIGATE else Inr r)
         else Inr r))"

record ah_assessment =
  aa_count :: ah_claim
  aa_alternatives :: "ah_claim list"

datatype search_result = Unfiltered | Outcome verdict

fun collect :: "('a \<Rightarrow> pyexc + 'b) \<Rightarrow> 'a list \<Rightarrow> pyexc + 'b list" where
  "collect f [] = Inr []"
| "collect f (x # xs) = (case f x of Inl e \<Rightarrow> Inl e | Inr y \<Rightarrow> (case collect f xs of Inl e \<Rightarrow> Inl e | Inr ys \<Rightarrow> Inr (y # ys)))"

definition combine :: "verdict list \<Rightarrow> verdict" where
  "combine outcomes = (if DOES_NOT_MEET \<in> set outcomes then DOES_NOT_MEET
     else if UNKNOWN_VERDICT \<in> set outcomes then UNKNOWN_VERDICT
     else if INVESTIGATE \<in> set outcomes then INVESTIGATE
     else if LIKELY_MEETS \<in> set outcomes then LIKELY_MEETS else MEETS)"

definition limits_asked :: "rat option \<Rightarrow> rat option \<Rightarrow> (direction \<times> rat) list" where
  "limits_asked minimum maximum = (case minimum of None \<Rightarrow> [] | Some m \<Rightarrow> [(MINIMUM, m)]) @ (case maximum of None \<Rightarrow> [] | Some m \<Rightarrow> [(MAXIMUM, m)])"

definition search_one :: "rat option \<Rightarrow> rat option \<Rightarrow> bool \<Rightarrow> ah_claim \<Rightarrow> pyexc + verdict" where
  "search_one minimum maximum whole_scheme c =
    (case collect (claim_threshold c whole_scheme) (limits_asked minimum maximum) of Inl e \<Rightarrow> Inl e | Inr outcomes \<Rightarrow> Inr (combine outcomes))"

definition search :: "ah_assessment \<Rightarrow> rat option \<Rightarrow> rat option \<Rightarrow> bool \<Rightarrow> pyexc + search_result" where
  "search a minimum maximum whole_scheme =
    (if (case (minimum, maximum) of (Some lo, Some hi) \<Rightarrow> lo > hi | _ \<Rightarrow> False) then Inl (ValueError ''Minimum exceeds maximum'')
     else if minimum = None \<and> maximum = None then Inr Unfiltered
     else if ah_state (aa_count a) = ''conflicting'' \<or> aa_alternatives a \<noteq> [] then
       (case collect (search_one minimum maximum whole_scheme) (if aa_alternatives a = [] then [aa_count a] else aa_alternatives a) of
          Inl e \<Rightarrow> Inl e
        | Inr rs \<Rightarrow> Inr (Outcome (if list_all (\<lambda>r. r = DOES_NOT_MEET) rs then DOES_NOT_MEET else INVESTIGATE)))
     else (case search_one minimum maximum whole_scheme (aa_count a) of Inl e \<Rightarrow> Inl e | Inr r \<Rightarrow> Inr (Outcome r)))"

definition stage_label :: "ah_assessment \<Rightarrow> str" where
  "stage_label a = (if \<not> truthy (ah_stage (aa_count a)) then ''Reported AH status: unknown; operative terms unverified''
     else ''Reported AH status: '' @ underscores_to_spaces (str_or (ah_stage (aa_count a)) []) @ ''; operative terms unverified'')"

definition evidence_notes :: "ah_assessment \<Rightarrow> str list" where
  "evidence_notes a = (let c = aa_count a in
     [''Application: '' @ str_or (ah_application_reference c) ''unknown'' @ ''. Scope: '' @ str_or (ah_scope_label c) ''unverified'' @ ''.'',
      stage_label a @ ''. Final approved conditions and tenure terms require checking; acquisition availability is not established.'',
      ''Count source: '' @ (if truthy (ah_source_url c) then str_or (ah_source_url c) []
         else if truthy (ah_document_id c) then ''document '' @ str_or (ah_document_id c) [] @ ''; source link unavailable''
         else ''not linked; source link unavailable'') @ ''. Document date: '' @ str_or (ah_document_date c) ''unknown'' @ ''.'',
      str_or (ah_review_reason c) ''Count evidence does not independently verify legal status, tenure or availability.''])"

section \<open>Properties\<close>

text \<open>The counts a qualified claim leaves open; an approximate figure leaves every count open.\<close>

definition claim_allows :: "ah_claim \<Rightarrow> rat \<Rightarrow> bool" where
  "claim_allows c n = (if ah_qualifier c = ''exact'' then number (ah_value c) = Some n
     else (case bound_pair (ah_qualifier c) (ah_lower c) (ah_upper c) of None \<Rightarrow> True
       | Some (l, h) \<Rightarrow> (case l of None \<Rightarrow> True | Some x \<Rightarrow> x \<le> n) \<and> (case h of None \<Rightarrow> True | Some y \<Rightarrow> n \<le> y)))"

definition satisfies :: "rat \<Rightarrow> direction \<times> rat \<Rightarrow> bool" where
  "satisfies n b = (case b of (MINIMUM, m) \<Rightarrow> m \<le> n | (MAXIMUM, m) \<Rightarrow> n \<le> m)"

lemma claim_threshold_sound:
  assumes "claim_threshold c w b = Inr r" and "ah_qualifier c \<noteq> ''approximate''" and "claim_allows c n"
  shows "(r \<in> {MEETS, LIKELY_MEETS} \<longrightarrow> satisfies n b) \<and> (r = DOES_NOT_MEET \<longrightarrow> \<not> satisfies n b)"
proof -
  obtain d limit where b: "b = (d, limit)" by (cases b)
  from assms(1) obtain r0 where r0: "assess_count_threshold limit d (ah_qualifier c) (claim_qualified c) (ah_value c) (ah_lower c) (ah_upper c) = Inr r0"
    and r: "r \<in> {MEETS, LIKELY_MEETS, DOES_NOT_MEET} \<Longrightarrow> r = r0"
    by (auto simp: claim_threshold_def b split: sum.splits if_splits)
  have "(r0 \<in> {MEETS, LIKELY_MEETS} \<longrightarrow> satisfies n b) \<and> (r0 = DOES_NOT_MEET \<longrightarrow> \<not> satisfies n b)"
  proof (cases "ah_qualifier c = ''exact''")
    case True
    with r0 assms(3) show ?thesis
      by (cases d) (auto simp: assess_count_threshold_def claim_allows_def satisfies_def b split: if_splits option.splits)
  next
    case False
    with r0 assms(2) consider "r0 = UNKNOWN_VERDICT" | l h where "bound_pair (ah_qualifier c) (ah_lower c) (ah_upper c) = Some (l, h)" "r0 = judge_bounds d limit l h"
      by (auto simp: assess_count_threshold_def split: if_splits option.splits)
    then show ?thesis
    proof cases
      case (2 l h)
      with assms(3) False show ?thesis
        by (cases d) (auto simp: judge_bounds_def claim_allows_def satisfies_def b split: if_splits option.splits)
    qed simp
  qed
  with r show ?thesis by blast
qed

lemma collect_Inr: "collect f xs = Inr ys \<Longrightarrow> list_all2 (\<lambda>x y. f x = Inr y) xs ys"
  by (induction xs arbitrary: ys) (auto split: sum.splits)

lemma list_all2_in1: "list_all2 P xs ys \<Longrightarrow> x \<in> set xs \<Longrightarrow> \<exists>y\<in>set ys. P x y"
  by (induction rule: list_all2_induct) auto

lemma list_all2_in2: "list_all2 P xs ys \<Longrightarrow> y \<in> set ys \<Longrightarrow> \<exists>x\<in>set xs. P x y"
  by (induction rule: list_all2_induct) auto

lemma search_one_sound:
  assumes "search_one mn mx w c = Inr r" and "ah_qualifier c \<noteq> ''approximate''" and "claim_allows c n"
  shows "(r \<in> {MEETS, LIKELY_MEETS} \<longrightarrow> (\<forall>b\<in>set (limits_asked mn mx). satisfies n b)) \<and>
    (r = DOES_NOT_MEET \<longrightarrow> (\<exists>b\<in>set (limits_asked mn mx). \<not> satisfies n b))"
proof -
  from assms(1) obtain os where os: "collect (claim_threshold c w) (limits_asked mn mx) = Inr os" and r: "r = combine os"
    by (auto simp: search_one_def split: sum.splits)
  note l2 = collect_Inr [OF os]
  show ?thesis
  proof (intro conjI impI ballI)
    fix b assume "r \<in> {MEETS, LIKELY_MEETS}" and b: "b \<in> set (limits_asked mn mx)"
    then have ok: "DOES_NOT_MEET \<notin> set os" "UNKNOWN_VERDICT \<notin> set os" "INVESTIGATE \<notin> set os"
      by (auto simp: r combine_def split: if_splits)
    from list_all2_in1 [OF l2 b] obtain v where v: "v \<in> set os" "claim_threshold c w b = Inr v" by blast
    with ok have "v \<in> {MEETS, LIKELY_MEETS}" by (cases v) auto
    with claim_threshold_sound [OF v(2) assms(2,3)] show "satisfies n b" by blast
  next
    assume "r = DOES_NOT_MEET"
    then have "DOES_NOT_MEET \<in> set os" by (auto simp: r combine_def split: if_splits)
    from list_all2_in2 [OF l2 this] obtain b where "b \<in> set (limits_asked mn mx)" "claim_threshold c w b = Inr DOES_NOT_MEET" by blast
    with claim_threshold_sound [OF _ assms(2,3)] show "\<exists>b\<in>set (limits_asked mn mx). \<not> satisfies n b" by blast
  qed
qed

text \<open>
  An affordable-housing search never overstates a claim: for a claim that is not an approximate figure, an answer of (likely)
  meets means every count the claim allows satisfies both bounds asked about, and does-not-meet that every count it allows breaks one.
  With conflicting alternatives the answer is never a (likely) meets, and does-not-meet only where each alternative is one.
\<close>

theorem ah_search_sound:
  assumes "search a mn mx w = Inr (Outcome r)"
  shows "if ah_state (aa_count a) = ''conflicting'' \<or> aa_alternatives a \<noteq> []
    then r \<in> {DOES_NOT_MEET, INVESTIGATE} \<and> (r = DOES_NOT_MEET \<longrightarrow>
      (\<forall>c\<in>set (aa_alternatives a). search_one mn mx w c = Inr DOES_NOT_MEET))
    else ah_qualifier (aa_count a) = ''approximate'' \<or> (\<forall>n. claim_allows (aa_count a) n \<longrightarrow>
      (r \<in> {MEETS, LIKELY_MEETS} \<longrightarrow> (\<forall>b\<in>set (limits_asked mn mx). satisfies n b)) \<and>
      (r = DOES_NOT_MEET \<longrightarrow> (\<exists>b\<in>set (limits_asked mn mx). \<not> satisfies n b)))"
proof (cases "ah_state (aa_count a) = ''conflicting'' \<or> aa_alternatives a \<noteq> []")
  case True
  have "(case collect (search_one mn mx w) (if aa_alternatives a = [] then [aa_count a] else aa_alternatives a) of
          Inl e \<Rightarrow> Inl e
        | Inr rs \<Rightarrow> Inr (Outcome (if list_all (\<lambda>r. r = DOES_NOT_MEET) rs then DOES_NOT_MEET else INVESTIGATE))) = Inr (Outcome r)"
    using assms unfolding search_def if_P [OF True] by (simp only: ok_simps split: if_split_asm) simp
  then obtain rs where rs: "collect (search_one mn mx w) (if aa_alternatives a = [] then [aa_count a] else aa_alternatives a) = Inr rs"
    and r: "r = (if list_all (\<lambda>r. r = DOES_NOT_MEET) rs then DOES_NOT_MEET else INVESTIGATE)"
    unfolding case_sum_Inr by blast
  have "search_one mn mx w c = Inr DOES_NOT_MEET" if "r = DOES_NOT_MEET" "c \<in> set (aa_alternatives a)" for c
    using list_all2_in1 [OF collect_Inr [OF rs], of c] that r
    by (cases "aa_alternatives a = []") (auto simp: list_all_iff split: if_splits)
  with True r show ?thesis by simp
next
  case False
  with assms have "search_one mn mx w (aa_count a) = Inr r"
    unfolding search_def by (auto split: sum.splits if_splits option.splits)
  with False search_one_sound show ?thesis by (metis (no_types, lifting))
qed

definition demo_claim_ah :: ah_claim where
  "demo_claim_ah = \<lparr>ah_value = PyNone, ah_lower = PyInt 40, ah_upper = PyInt 60, ah_qualifier = ''range'', ah_state = ''verified'',
     ah_application_reference = Some ''26/1'', ah_scope_type = ''whole_site'', ah_scope_label = Some ''Whole site'', ah_stage = None,
     ah_document_id = Some ''D1'', ah_source_url = None, ah_document_date = None, ah_passage = Some ''40 to 60 affordable homes'',
     ah_review_reason = None\<rparr>"

theorem ah_search_sound_witness:
  "claim_allows demo_claim_ah 45 \<and> satisfies 45 (MINIMUM, 30)"
proof -
  have "search \<lparr>aa_count = demo_claim_ah, aa_alternatives = []\<rparr> (Some 30) None True = Inr (Outcome LIKELY_MEETS)" by code_simp
  from ah_search_sound [OF this] have "\<forall>n. claim_allows demo_claim_ah n \<longrightarrow> satisfies n (MINIMUM, 30)"
    by (simp add: demo_claim_ah_def limits_asked_def)
  moreover have "claim_allows demo_claim_ah 45" by code_simp
  ultimately show ?thesis by blast
qed

end
