(* ===== verification/MatchingFacts.thy ===== *)
theory MatchingFacts
  imports FitTexts StrategicCapacity AhClaims
begin

text \<open>
  The facts a buyer is matched against (app/policy/buyer_matching.py): the facts record, the three builders
  that read it from an allocation, a scheme's extraction or a site's operative planning facts, and the adapters for
  affordability, control evidence and phasing. The reconciled planning facts (scheme_reconciliation.py) are
  records of the values these functions read.
\<close>

section \<open>Facts\<close>

datatype opportunity_type = STRATEGIC_LAND | PLANNING_DELIVERY

datatype affordable_state = AFFORDABLE_STATE_WHOLLY | AFFORDABLE_STATE_NOT_WHOLLY | AFFORDABLE_STATE_UNKNOWN

record matching_facts =
  mf_opportunity_type :: opportunity_type
  mf_unit_count :: pyval
  mf_development_type_raw :: "str option"
  mf_is_specialist :: "bool option"
  mf_affordable_percentage :: "rat option"
  mf_affordable_percentage_trusted :: bool
  mf_affordable_unit_count :: "int option"
  mf_planning_state :: planning_state
  mf_has_activity :: "bool option"
  mf_has_phasing_evidence :: bool
  mf_matched_to_site :: bool
  mf_has_active_proposal :: bool
  mf_active_proposal_count :: int
  mf_count_assessment :: "count_assessment option"
  mf_whole_site_affordable_state :: affordable_state

definition discovery_lower :: "int \<Rightarrow> int \<Rightarrow> int" where
  "discovery_lower t minimum = (minimum * (100 - t)) div 100"

definition discovery_upper :: "int \<Rightarrow> int \<Rightarrow> int" where
  "discovery_upper t maximum = - ((- maximum * (100 + t)) div 100)"

definition DEFAULT_DISCOVERY_TOLERANCE_PERCENT :: int where
  "DEFAULT_DISCOVERY_TOLERANCE_PERCENT = 10"

definition discovery_bounds :: "int option \<Rightarrow> int option \<Rightarrow> int \<Rightarrow> int option \<times> int option" where
  "discovery_bounds minimum maximum t = (map_option (discovery_lower t) minimum, map_option (discovery_upper t) maximum)"

section \<open>Strategic land\<close>

text \<open>\<open>PLAN_STATUS_META[status]["bucket"]\<close> of app/reporting/allocation_discovery.py, an unknown status read as \<open>None\<close>'s.\<close>

definition plan_bucket :: "str option \<Rightarrow> str" where
  "plan_bucket st = (case st of None \<Rightarrow> ''other'' | Some s \<Rightarrow>
     if s \<in> {''preparation'', ''early_consultation'', ''issues_and_options'', ''draft_consultation'', ''preferred_options'',
       ''proposed_submission'', ''submitted'', ''examination'', ''main_modifications'', ''inspector_report''} then ''emerging''
     else if s = ''adopted'' then ''adopted'' else ''other'')"

definition allocation_planning_state :: "allocation \<Rightarrow> planning_state" where
  "allocation_planning_state al =
    (let bucket = plan_bucket (case al_local_plan_status al of Some s \<Rightarrow> s | None \<Rightarrow> al_plan_status al) in
     if bucket = ''adopted'' then ADOPTED_ALLOCATION else if bucket = ''emerging'' then EMERGING_ALLOCATION else OTHER_OR_UNKNOWN)"

fun falsy :: "pyval \<Rightarrow> bool" where
  "falsy PyNone = True"
| "falsy (PyBool b) = (\<not> b)"
| "falsy (PyInt n) = (n = 0)"
| "falsy (PyReal r) = (r = 0)"
| "falsy _ = False"

text \<open>\<open>coverage\<close> is the development-coverage classification where one was computed; \<open>phasing\<close> whether phasing evidence exists.\<close>

definition build_strategic_land_matching_facts :: "allocation \<Rightarrow> str option \<Rightarrow> bool \<Rightarrow> matching_facts" where
  "build_strategic_land_matching_facts al coverage phasing =
    \<lparr>mf_opportunity_type = STRATEGIC_LAND,
     mf_unit_count = (if falsy (al_maximum_capacity al) then al_minimum_dwellings al else al_maximum_capacity al),
     mf_development_type_raw = al_intended_use al,
     mf_is_specialist = (if al_intended_use al = Some ''employment'' then Some True else None),
     mf_affordable_percentage = None, mf_affordable_percentage_trusted = False, mf_affordable_unit_count = None,
     mf_planning_state = allocation_planning_state al,
     mf_has_activity = (case coverage of None \<Rightarrow> None | Some c \<Rightarrow> Some (c \<noteq> ''NO_IDENTIFIED_ACTIVITY'')),
     mf_has_phasing_evidence = phasing, mf_matched_to_site = (al_matched_site_id al \<noteq> None),
     mf_has_active_proposal = False, mf_active_proposal_count = 0,
     mf_count_assessment = Some (strategic_capacity_assessment al),
     mf_whole_site_affordable_state = AFFORDABLE_STATE_UNKNOWN\<rparr>"

section \<open>Planning and delivery\<close>

record scheme_facts =
  sf_development_type :: "str option"
  sf_affordable_percentage_final :: "rat option"
  sf_affordable_missing :: bool
  sf_affordable_units_final :: "int option"
  sf_total_units_final :: pyval

definition specialist_status :: "str option \<Rightarrow> bool option" where
  "specialist_status dev_type = (if truthy dev_type then Some (str_or dev_type [] \<in> SPECIALIST_DEVELOPMENT_TYPES) else None)"

definition delivery_facts :: "planning_state \<Rightarrow> matching_facts" where
  "delivery_facts ps =
    \<lparr>mf_opportunity_type = PLANNING_DELIVERY, mf_unit_count = PyNone, mf_development_type_raw = None, mf_is_specialist = None,
     mf_affordable_percentage = None, mf_affordable_percentage_trusted = False, mf_affordable_unit_count = None,
     mf_planning_state = ps, mf_has_activity = Some True, mf_has_phasing_evidence = False, mf_matched_to_site = True,
     mf_has_active_proposal = False, mf_active_proposal_count = 0, mf_count_assessment = None,
     mf_whole_site_affordable_state = AFFORDABLE_STATE_UNKNOWN\<rparr>"

definition build_planning_delivery_matching_facts :: "scheme_facts option \<Rightarrow> planning_state \<Rightarrow> matching_facts" where
  "build_planning_delivery_matching_facts si ps = (case si of None \<Rightarrow> delivery_facts ps
     | Some s \<Rightarrow>
       let trusted = sf_affordable_percentage_final s \<noteq> None \<and> \<not> sf_affordable_missing s in
       (delivery_facts ps)\<lparr>mf_unit_count := sf_total_units_final s, mf_development_type_raw := sf_development_type s,
         mf_is_specialist := specialist_status (sf_development_type s),
         mf_affordable_percentage := (if trusted then sf_affordable_percentage_final s else None),
         mf_affordable_percentage_trusted := trusted, mf_affordable_unit_count := sf_affordable_units_final s\<rparr>)"

datatype fact_state = FACT_RESOLVED | FACT_CONFLICT | FACT_NOT_DETERMINED

record fact =
  fa_state :: fact_state
  fa_value :: "str option"
  fa_source :: "int option"
  fa_count :: "count_assessment option"

record active_position =
  po_reference :: fact
  po_proposed_units :: fact

record operative_facts =
  op_planning_status :: fact
  op_reference :: fact
  op_approved_units :: fact
  op_active_positions :: "active_position list"
  op_resolved_applications :: "(str \<times> str) list"

definition resolve_operative_planning_state :: "operative_facts \<Rightarrow> planning_state" where
  "resolve_operative_planning_state op =
    (if fa_state (op_planning_status op) = FACT_RESOLVED \<and> fa_value (op_planning_status op) = Some ''Permission granted''
       then PERMISSION_GRANTED
     else if length (op_active_positions op) \<ge> 1 then PLANNING_ACTIVE_PROPOSAL else OTHER_OR_UNKNOWN)"

text \<open>The count fact the displayed figure comes from, with the reference fact that names its application.\<close>

definition operative_count :: "operative_facts \<Rightarrow> (fact \<times> fact) option" where
  "operative_count op =
    (let approved = op_approved_units op in
     if fa_state approved = FACT_RESOLVED \<and> fa_source approved \<noteq> None then Some (approved, op_reference op)
     else if fa_state approved \<noteq> FACT_CONFLICT \<and> length (op_active_positions op) = 1 then
       (let p = hd (op_active_positions op); u = po_proposed_units p in
        if fa_state u = FACT_RESOLVED \<and> fa_source u \<noteq> None then Some (u, po_reference p) else None)
     else None)"

definition fact_application :: "fact \<Rightarrow> int option" where
  "fact_application r = (if fa_state r = FACT_RESOLVED then fa_source r else None)"

definition operative_source_scheme :: "operative_facts \<Rightarrow> application list \<Rightarrow> scheme option" where
  "operative_source_scheme op aps = (case operative_count op of None \<Rightarrow> None
     | Some (u, r) \<Rightarrow> (case select_count_supporting_source (fa_count u) aps (fact_application r) of None \<Rightarrow> None | Some ap \<Rightarrow> ap_scheme ap))"

section \<open>Corroborated development type\<close>

definition application_with_id :: "application list \<Rightarrow> int \<Rightarrow> application option" where
  "application_with_id aps i = map_of (map (\<lambda>a. (ap_id a, a)) aps) i"

definition supporter_type :: "application list \<Rightarrow> count_source \<Rightarrow> (application \<times> str) option" where
  "supporter_type aps s = (case application_with_id aps (cs_application_id s) of None \<Rightarrow> None | Some ap \<Rightarrow>
     (case ap_scheme ap of None \<Rightarrow> None | Some si \<Rightarrow> (case si_development_type si of None \<Rightarrow> None
       | Some v \<Rightarrow> if strip v = [] then None else Some (ap, v))))"

text \<open>\<open>False < True\<close>: a supporter that is the operative application comes first.\<close>

definition provenance_key :: "int option \<Rightarrow> application \<times> str \<Rightarrow> bool \<times> str \<times> str" where
  "provenance_key operative s = (Some (ap_id (fst s)) \<noteq> operative, str_or (ap_reference (fst s)) [], int_str (ap_id (fst s)))"

definition corroborated_development_type ::
    "count_assessment option \<Rightarrow> application list \<Rightarrow> int option \<Rightarrow> (str \<times> str option) option" where
  "corroborated_development_type ca aps operative = (case ca of None \<Rightarrow> None | Some a \<Rightarrow>
     if ca_precision a \<noteq> APPROXIMATE \<or> ca_resolution a \<noteq> ''immaterial_variance'' \<or> ca_sources a = [] then None
     else (let ss = map (supporter_type aps) (ca_sources a) in
       if None \<in> set ss then None
       else (let found = map the ss in
         if length (remdups (map snd found)) \<noteq> 1 then None
         else (case min_by (provenance_key operative) found of None \<Rightarrow> None
             | Some p \<Rightarrow> Some (snd (hd found), ap_reference (fst p))))))"

section \<open>Wholly affordable or not\<close>

definition label_key :: "str option \<Rightarrow> str" where
  "label_key l = lower (strip (str_or l []))"

definition whole_affordable_count :: "pyval \<Rightarrow> rat option" where
  "whole_affordable_count v = (case v of PyInt n \<Rightarrow> if n < 0 then None else Some (of_int n)
     | PyReal r \<Rightarrow> if r < 0 \<or> r \<noteq> of_int \<lfloor>r\<rfloor> then None else Some r | _ \<Rightarrow> None)"

definition total_is_exact :: "count_assessment \<Rightarrow> bool" where
  "total_is_exact ca = (ca_precision ca = EXACT \<and> exact_value ca \<noteq> None \<and> ca_metric ca = total_residential \<and>
     ca_scope_type ca \<in> {''whole_site'', ''phase''})"

definition affordable_is_exact :: "ah_assessment \<Rightarrow> bool" where
  "affordable_is_exact aa = (aa_alternatives aa = [] \<and> ah_state (aa_count aa) \<noteq> ''conflicting'' \<and> claim_qualified (aa_count aa) \<and>
     ah_qualifier (aa_count aa) = ''exact'' \<and> ah_state (aa_count aa) = ''verified'')"

definition same_subject :: "count_assessment \<Rightarrow> ah_claim \<Rightarrow> bool" where
  "same_subject ca c = (ah_scope_type c = ca_scope_type ca \<and>
     (ca_scope_type ca = ''phase'' \<longrightarrow> label_key (ah_scope_label c) = label_key (Some (ca_scope_label ca))) \<and>
     (case ah_application_reference c of None \<Rightarrow> False | Some r \<Rightarrow> r \<in> set (map cs_application_reference (ca_sources ca))))"

definition derive_whole_site_affordable_state :: "count_assessment option \<Rightarrow> ah_assessment option \<Rightarrow> bool \<Rightarrow> affordable_state" where
  "derive_whole_site_affordable_state ca aa current_scope = (case (ca, aa) of
      (Some t, Some a) \<Rightarrow>
        if \<not> current_scope \<or> \<not> total_is_exact t \<or> \<not> affordable_is_exact a \<or> \<not> same_subject t (aa_count a) then AFFORDABLE_STATE_UNKNOWN
        else (case (exact_value t, whole_affordable_count (ah_value (aa_count a))) of
            (Some tot, Some affordable) \<Rightarrow>
              if tot \<le> 0 \<or> affordable > of_int tot then AFFORDABLE_STATE_UNKNOWN
              else if affordable = of_int tot then AFFORDABLE_STATE_WHOLLY else AFFORDABLE_STATE_NOT_WHOLLY
          | _ \<Rightarrow> AFFORDABLE_STATE_UNKNOWN)
    | _ \<Rightarrow> AFFORDABLE_STATE_UNKNOWN)"

text \<open>
  The facts of the live path. The count assessment (\<open>count_assessment_for_facts\<close>) and the affordable assessment of the
  displayed application (\<open>resolve_operative_filter_facts\<close>) are computed by scheme_reconciliation.py and come in as arguments.
\<close>

definition in_current_scope :: "operative_facts \<Rightarrow> ah_claim \<Rightarrow> bool" where
  "in_current_scope op c = list_ex (\<lambda>(r, d). Some r = ah_application_reference c \<and> d \<notin> {''withdrawn'', ''refused''}) (op_resolved_applications op)"

definition build_matching_facts_from_operative :: "operative_facts \<Rightarrow> application list \<Rightarrow> count_assessment \<Rightarrow> ah_assessment \<Rightarrow> matching_facts" where
  "build_matching_facts_from_operative op aps ca aa =
    (let dev_type = (case operative_source_scheme op aps of Some si \<Rightarrow> si_development_type si
           | None \<Rightarrow> map_option fst (corroborated_development_type (Some ca) aps (fact_application (op_reference op))));
         c = aa_count aa; current = in_current_scope op c in
     (delivery_facts (resolve_operative_planning_state op))
       \<lparr>mf_count_assessment := Some ca, mf_unit_count := py_int (exact_value ca), mf_development_type_raw := dev_type,
        mf_is_specialist := specialist_status dev_type,
        mf_affordable_unit_count := (if current \<and> claim_qualified c \<and> ah_qualifier c = ''exact'' \<and> ah_scope_type c = ''whole_site''
          then known_unit_count (ah_value c) else None),
        mf_has_active_proposal := length (op_active_positions op) \<ge> 1, mf_active_proposal_count := int (length (op_active_positions op)),
        mf_whole_site_affordable_state := derive_whole_site_affordable_state (Some ca) (Some aa) current\<rparr>)"

section \<open>Control, phasing and context\<close>

record control_facts =
  cf_developer_led :: "bool option"
  cf_third_party :: "bool option"
  cf_unresolved :: "bool option"
  cf_partial :: "bool option"

record acquisition_facts =
  aq_ownership_states :: "str list"
  aq_developer_indications :: "str list"
  aq_coverage :: str
  aq_conflicts :: "str list"

definition build_control_appetite_facts :: "acquisition_facts \<Rightarrow> control_facts" where
  "build_control_appetite_facts aq =
    (let other = list_ex (\<lambda>s. s \<in> {''OTHER_OWNER_INTEREST_DECLARED'', ''PARTIAL_OWNERSHIP_IDENTIFICATION'', ''OWNERSHIP_NOT_FULLY_KNOWN''})
           (aq_ownership_states aq) in
     \<lparr>cf_developer_led = (if aq_developer_indications aq \<noteq> [] then Some True else None),
      cf_third_party = (if other then Some True else None),
      cf_unresolved = (if aq_coverage aq \<in> {''INSUFFICIENT_EVIDENCE_TO_DETERMINE_CONTROL'',
            ''RELEVANT_EVIDENCE_SEARCHED_NO_CONTROL_INDICATION_FOUND''} \<or> aq_conflicts aq \<noteq> [] then Some True
          else if aq_ownership_states aq \<noteq> [] then Some False else None),
      cf_partial = (if other then Some True else None)\<rparr>)"

definition acquisition_phasing_evidence :: "str \<Rightarrow> pyexc + phasing_state" where
  "acquisition_phasing_evidence s =
    (if s = ''CURRENT_EVIDENCED_PHASE'' then Inr PHASING_CURRENT_EVIDENCED_PHASE
     else if s = ''PHASE_EVIDENCE_CURRENTNESS_UNKNOWN'' then Inr PHASING_CURRENTNESS_UNKNOWN
     else if s = ''HISTORICAL_PHASE_ONLY'' then Inr PHASING_HISTORICAL_ONLY
     else if s = ''DOCUMENTED_PHASING'' then Inr PHASING_DOCUMENTED
     else if s = ''NONE_IDENTIFIED'' then Inr PHASING_NONE_IDENTIFIED
     else Inl (ValueError ''unknown acquisition phasing state''))"

record b2_context =
  bc_council_code :: "str option"
  bc_development_state :: "str option"
  bc_control_facts :: "control_facts option"
  bc_scope_verified :: bool
  bc_acquisition_phasing :: "phasing_state option"
  bc_phase_scope_key :: "str option"
  bc_application_anchored :: bool

definition empty_context :: b2_context where
  "empty_context = \<lparr>bc_council_code = None, bc_development_state = None, bc_control_facts = None, bc_scope_verified = False,
     bc_acquisition_phasing = None, bc_phase_scope_key = None, bc_application_anchored = False\<rparr>"

definition subject_is_self_scope :: "matching_facts \<Rightarrow> b2_context option \<Rightarrow> bool" where
  "subject_is_self_scope f ctx = (case ctx of None \<Rightarrow> False | Some c \<Rightarrow>
     bc_phase_scope_key c \<noteq> None \<or>
     (case mf_count_assessment f of None \<Rightarrow> False | Some a \<Rightarrow> ca_scope_type a = ''phase'') \<or>
     (bc_application_anchored c \<and> bc_acquisition_phasing c = Some PHASING_CURRENT_EVIDENCED_PHASE))"

definition phasing_tail :: "matching_facts \<Rightarrow> b2_context option \<Rightarrow> str" where
  "phasing_tail f ctx = (if subject_is_self_scope f ctx then SELF_SCOPE_TAIL
     else (case ctx of None \<Rightarrow> NEUTRAL_TAIL
       | Some c \<Rightarrow> (case bc_acquisition_phasing c of None \<Rightarrow> NEUTRAL_TAIL | Some p \<Rightarrow> PHASING_TAILS p)))"

section \<open>The buyer's ranges\<close>

definition discovery_min :: "mandate \<Rightarrow> int" where
  "discovery_min m = (if m_below_minimum_scale_is_exclusion m then m_target_unit_min m
     else discovery_lower DEFAULT_DISCOVERY_TOLERANCE_PERCENT (m_target_unit_min m))"

definition discovery_max :: "mandate \<Rightarrow> int" where
  "discovery_max m = discovery_upper DEFAULT_DISCOVERY_TOLERANCE_PERCENT (m_target_unit_max m)"

definition lower_above :: "count_assessment \<Rightarrow> int \<Rightarrow> bool" where
  "lower_above a n = (case ca_lower a of None \<Rightarrow> False | Some lo \<Rightarrow> lo > n)"

definition phasing_is_acquisition_relevant :: "mandate \<Rightarrow> matching_facts \<Rightarrow> b2_context option \<Rightarrow> bool" where
  "phasing_is_acquisition_relevant m f ctx =
    (if mf_opportunity_type f \<noteq> PLANNING_DELIVERY \<or> m_scale_metric m = AFFORDABLE_UNITS \<or> subject_is_self_scope f ctx then False
     else (case mf_count_assessment f of
         None \<Rightarrow> (case known_unit_count (mf_unit_count f) of None \<Rightarrow> False | Some n \<Rightarrow> n > discovery_max m)
       | Some a \<Rightarrow> (case exact_value a of Some n \<Rightarrow> n > discovery_max m
           | None \<Rightarrow> if ca_precision a \<notin> {APPROXIMATE, RANGE} then False
               else within_hard_bounds (Some (discovery_min m)) (Some (discovery_max m)) a = Some False \<and> lower_above a (discovery_max m))))"

section \<open>Properties\<close>

lemma div100: "100 * (a div 100) \<le> a \<and> a < 100 * (a div 100) + (100 :: int)"
  by presburger

text \<open>
  The discovery envelope rounds outward exactly: it contains the preferred range, its lower end is the largest whole count not above
  the tolerated fraction of the minimum and its upper end the smallest not below that of the maximum, and a wider tolerance never
  narrows it.
\<close>

theorem discovery_envelope:
  assumes "0 \<le> t" and "0 \<le> mn" and "0 \<le> mx" and "t \<le> t'"
  shows "discovery_lower t mn \<le> mn \<and> mx \<le> discovery_upper t mx \<and>
    (n \<le> discovery_lower t mn) = (100 * n \<le> mn * (100 - t)) \<and> (discovery_upper t mx \<le> n) = (mx * (100 + t) \<le> 100 * n) \<and>
    discovery_lower t' mn \<le> discovery_lower t mn \<and> discovery_upper t mx \<le> discovery_upper t' mx"
proof -
  have lo: "(k \<le> discovery_lower s mn) = (100 * k \<le> mn * (100 - s))" for k s
    using div100 [of "mn * (100 - s)"] unfolding discovery_lower_def by linarith
  have up: "(discovery_upper s mx \<le> k) = (mx * (100 + s) \<le> 100 * k)" for k s
    using div100 [of "- mx * (100 + s)"] unfolding discovery_upper_def by (simp add: algebra_simps) linarith
  have a: "mn * (100 - t') \<le> mn * (100 - t)" and b: "mx * (100 + t) \<le> mx * (100 + t')"
    using assms by (simp_all add: mult_left_mono)
  have c: "mn * (100 - t) \<le> mn * 100" and d: "mx * 100 \<le> mx * (100 + t)"
    using assms by (simp_all add: mult_left_mono)
  have "discovery_lower t' mn \<le> discovery_lower t mn"
    using lo [of "discovery_lower t' mn" t] lo [of "discovery_lower t' mn" t'] a by simp
  moreover have "discovery_upper t mx \<le> discovery_upper t' mx"
    using up [of t "discovery_upper t' mx"] up [of t' "discovery_upper t' mx"] b by simp
  moreover have "discovery_lower t mn \<le> mn"
    using lo [of "discovery_lower t mn" t] c by simp
  moreover have "mx \<le> discovery_upper t mx"
    using up [of t "discovery_upper t mx"] d by simp
  ultimately show ?thesis using lo up by simp
qed

theorem discovery_envelope_witness: "discovery_lower 10 51 \<le> 51 \<and> (discovery_upper 10 99 \<le> 109) = (99 * 110 \<le> 100 * (109 :: int))"
  using discovery_envelope [of 10 51 99 10 109] by simp

text \<open>
  A subject is called wholly affordable only on evidence: an exact current total of residential homes with positive count, and a
  qualified verified exact affordable claim of the same scope, from an application that supports the total, with the same number.
\<close>

theorem wholly_affordable_evidence:
  "(derive_whole_site_affordable_state ca aa cur = AFFORDABLE_STATE_WHOLLY) =
   (\<exists>t a n. ca = Some t \<and> aa = Some a \<and> cur \<and> total_is_exact t \<and> affordable_is_exact a \<and> same_subject t (aa_count a) \<and>
      exact_value t = Some n \<and> 0 < n \<and> whole_affordable_count (ah_value (aa_count a)) = Some (of_int n))"
  by (auto simp: derive_whole_site_affordable_state_def total_is_exact_def not_le split: option.splits if_splits)

lemma control_facts_never_deny: "cf_developer_led (build_control_appetite_facts aq) \<noteq> Some False \<and>
    cf_third_party (build_control_appetite_facts aq) \<noteq> Some False \<and> cf_partial (build_control_appetite_facts aq) \<noteq> Some False"
  by (simp add: build_control_appetite_facts_def Let_def)

lemma corroborated_type_unanimous:
  assumes "corroborated_development_type (Some a) aps op = Some (v, r)"
  shows "\<forall>s\<in>set (ca_sources a). \<exists>ap. supporter_type aps s = Some (ap, v)"
proof
  fix s assume s: "s \<in> set (ca_sources a)"
  define ss where "ss = map (supporter_type aps) (ca_sources a)"
  from assms have none: "None \<notin> set ss" and one: "length (remdups (map snd (map the ss))) = Suc 0" and v: "v = snd (hd (map the ss))"
    by (auto simp: corroborated_development_type_def ss_def [symmetric] Let_def split: if_splits option.splits)
  from one obtain x where x: "set (map snd (map the ss)) = {x}" by (auto simp: remdups_one simp del: set_map)
  have "ss \<noteq> []" using s by (auto simp: ss_def)
  then have "snd (hd (map the ss)) \<in> set (map snd (map the ss))" by (cases ss) auto
  with x v have vx: "v = x" by simp
  from s have m: "supporter_type aps s \<in> set ss" by (simp add: ss_def)
  with none obtain ap w where aw: "supporter_type aps s = Some (ap, w)" by (cases "supporter_type aps s") auto
  with m have "w \<in> set (map snd (map the ss))" by force
  with x vx aw show "\<exists>ap. supporter_type aps s = Some (ap, v)" by auto
qed

end
