(* ===== verification/BuyerFit.thy ===== *)
theory BuyerFit
  imports MatchingFacts
begin

text \<open>
  The buyer-fit decision, \<open>assess_buyer_fit\<close> of app/policy/buyer_matching.py. The function's blocks are state
  transformers on \<open>fit\<close>, applied in the source's order; a block appends reasons to the four lists and entries to the trace
  (\<open>_ReasonList.append\<close>) and sets the flags that drive the classification.
\<close>

section \<open>Reasons and their trace\<close>

datatype driver = Hard | Blocking | Possible | Outside

datatype role = Positive | ClassificationAffecting | Contextual | Investigation

record trace_entry =
  te_rule :: str
  te_reason :: str
  te_role :: role
  te_driver :: "driver option"

record fit =
  ft_matches :: "str list"
  ft_against :: "str list"
  ft_unknown :: "str list"
  ft_investigate :: "str list"
  ft_trace :: "trace_entry list"
  ft_exception :: bool
  ft_blocking :: bool
  ft_possible :: bool
  ft_outside :: bool

definition empty_fit :: fit where
  "empty_fit = \<lparr>ft_matches = [], ft_against = [], ft_unknown = [], ft_investigate = [], ft_trace = [], ft_exception = False,
     ft_blocking = False, ft_possible = False, ft_outside = False\<rparr>"

definition trace_of :: "role \<Rightarrow> str \<Rightarrow> str \<Rightarrow> driver option \<Rightarrow> trace_entry list" where
  "trace_of r rule reason d =
    (let r' = (if d \<noteq> None \<and> r = Contextual then ClassificationAffecting else r) in
     \<lparr>te_rule = rule, te_reason = reason, te_role = r', te_driver = (if r' = ClassificationAffecting then d else None)\<rparr> #
     (if d \<noteq> None \<and> r' \<noteq> ClassificationAffecting
      then [\<lparr>te_rule = rule, te_reason = reason, te_role = ClassificationAffecting, te_driver = d\<rparr>] else []))"

definition match :: "str \<Rightarrow> str \<Rightarrow> driver option \<Rightarrow> fit \<Rightarrow> fit" where
  "match rule t d s = s\<lparr>ft_matches := ft_matches s @ [t], ft_trace := ft_trace s @ trace_of Positive rule t d\<rparr>"

definition against :: "str \<Rightarrow> str \<Rightarrow> fit \<Rightarrow> fit" where
  "against rule t s = s\<lparr>ft_against := ft_against s @ [t], ft_trace := ft_trace s @ trace_of ClassificationAffecting rule t (Some Hard)\<rparr>"

definition unknown :: "str \<Rightarrow> str \<Rightarrow> fit \<Rightarrow> fit" where
  "unknown rule t s = s\<lparr>ft_unknown := ft_unknown s @ [t], ft_trace := ft_trace s @ trace_of Contextual rule t None\<rparr>"

text \<open>A classification-driving unknown: the reason and \<open>blocking_unknown = True\<close>.\<close>

definition blocking :: "str \<Rightarrow> str \<Rightarrow> fit \<Rightarrow> fit" where
  "blocking rule t s = s\<lparr>ft_unknown := ft_unknown s @ [t], ft_trace := ft_trace s @ trace_of Contextual rule t (Some Blocking),
     ft_blocking := True\<rparr>"

definition investigate :: "str \<Rightarrow> str \<Rightarrow> driver option \<Rightarrow> fit \<Rightarrow> fit" where
  "investigate rule t d s = s\<lparr>ft_investigate := ft_investigate s @ [t], ft_trace := ft_trace s @ trace_of Investigation rule t d\<rparr>"

definition exceptional :: "fit \<Rightarrow> fit" where
  "exceptional s = s\<lparr>ft_exception := True\<rparr>"

definition possible :: "fit \<Rightarrow> fit" where
  "possible s = s\<lparr>ft_possible := True\<rparr>"

definition outside :: "fit \<Rightarrow> fit" where
  "outside s = s\<lparr>ft_outside := True\<rparr>"

lemmas emit_defs = match_def against_def unknown_def blocking_def investigate_def exceptional_def possible_def outside_def

section \<open>Development type and affordability\<close>

definition specialist_block :: "mandate \<Rightarrow> matching_facts \<Rightarrow> fit \<Rightarrow> fit" where
  "specialist_block m f s = (case mf_is_specialist f of
      Some True \<Rightarrow>
        if m_specialist_development_is_exclusion m \<or> mf_opportunity_type f = STRATEGIC_LAND
        then against ''specialist.exclusion'' (txt_specialist_exclusion (str_or (mf_development_type_raw f) ''non-residential use'')) s
        else blocking ''specialist.appetite_unknown''
               (txt_specialist_appetite_unknown (str_or (mf_development_type_raw f) ''a specialist residential product'')) s
    | Some False \<Rightarrow> s
    | None \<Rightarrow>
        if mf_opportunity_type f = STRATEGIC_LAND then unknown ''specialist.allocation_context'' txt_specialist_allocation_context s
        else blocking ''specialist.type_unknown'' txt_specialist_type_unknown s)"

definition wholly_by_percentage :: "matching_facts \<Rightarrow> bool" where
  "wholly_by_percentage f = (case mf_affordable_percentage f of None \<Rightarrow> False | Some p \<Rightarrow> p \<ge> WHOLLY_AFFORDABLE_THRESHOLD)"

definition wholly_affordable :: "matching_facts \<Rightarrow> bool" where
  "wholly_affordable f = (wholly_by_percentage f \<or> mf_whole_site_affordable_state f = AFFORDABLE_STATE_WHOLLY)"

definition wholly_descriptor :: "matching_facts \<Rightarrow> str" where
  "wholly_descriptor f = (case mf_affordable_percentage f of
      Some p \<Rightarrow> if p \<ge> WHOLLY_AFFORDABLE_THRESHOLD then txt_wholly_percentage p else txt_wholly_counts
    | None \<Rightarrow> txt_wholly_counts)"

definition affordable_block :: "mandate \<Rightarrow> matching_facts \<Rightarrow> fit \<Rightarrow> fit" where
  "affordable_block m f s =
    (if wholly_affordable f then
       (if m_wholly_affordable_is_exclusion m
        then against ''affordable.wholly_exclusion'' (txt_affordable_wholly_exclusion (wholly_descriptor f)) s
        else if m_scale_metric m = AFFORDABLE_UNITS
        then match ''affordable.wholly_match'' (txt_affordable_wholly_match (wholly_descriptor f)) None s
        else investigate ''affordable.composition_check'' txt_affordable_composition_check None
               (unknown ''affordable.wholly_context'' (txt_affordable_wholly_context (wholly_descriptor f)) s))
     else if \<not> mf_affordable_percentage_trusted f then
       (if mf_opportunity_type f = STRATEGIC_LAND
        then unknown ''affordable.allocation_context'' txt_affordable_allocation_context s
        else investigate ''affordable.percentage_check'' txt_affordable_percentage_check None
               (unknown ''affordable.percentage_unknown'' txt_affordable_percentage_unknown s))
     else s)"

section \<open>Planning position\<close>

definition planning_block :: "mandate \<Rightarrow> matching_facts \<Rightarrow> fit \<Rightarrow> fit" where
  "planning_block m f s =
    (let st = mf_planning_state f in
     if st \<in> m_accepted_planning_states m then match ''planning.accepted'' (txt_planning_accepted (planning_state_label st)) None s
     else if st = OTHER_OR_UNKNOWN then blocking ''planning.unknown'' txt_planning_unknown s
     else unknown ''planning.nonpreferred'' (txt_planning_nonpreferred (planning_state_label st)) s)"

definition proposal_block :: "matching_facts \<Rightarrow> fit \<Rightarrow> fit" where
  "proposal_block f s =
    (if mf_planning_state f = PERMISSION_GRANTED \<and> mf_has_active_proposal f
     then investigate ''planning.active_proposal'' (txt_planning_active_proposal (txt_proposal_noun (mf_active_proposal_count f))) None s
     else s)"

definition no_activity_block :: "mandate \<Rightarrow> matching_facts \<Rightarrow> fit \<Rightarrow> fit" where
  "no_activity_block m f s =
    (if m_treats_no_activity_as_positive m \<and> mf_opportunity_type f = STRATEGIC_LAND then
       (case mf_has_activity f of
          Some False \<Rightarrow> match ''planning.early_allocation'' txt_planning_early_allocation None s
        | Some True \<Rightarrow> s
        | None \<Rightarrow> blocking ''planning.activity_unknown'' txt_planning_activity_unknown s)
     else s)"

section \<open>Scale\<close>

definition unit_noun :: "mandate \<Rightarrow> str" where
  "unit_noun m = (if m_scale_metric m = AFFORDABLE_UNITS then ''affordable homes'' else ''homes'')"

definition scale_assessment :: "mandate \<Rightarrow> matching_facts \<Rightarrow> count_assessment option" where
  "scale_assessment m f = (if m_scale_metric m = AFFORDABLE_UNITS then None else mf_count_assessment f)"

definition scale_value :: "mandate \<Rightarrow> matching_facts \<Rightarrow> int option" where
  "scale_value m f = (case scale_assessment m f of Some a \<Rightarrow> exact_value a
     | None \<Rightarrow> if m_scale_metric m = AFFORDABLE_UNITS then mf_affordable_unit_count f else known_unit_count (mf_unit_count f))"

definition uncertain_scale :: "mandate \<Rightarrow> matching_facts \<Rightarrow> count_assessment option" where
  "uncertain_scale m f = (case scale_assessment m f of None \<Rightarrow> None
     | Some a \<Rightarrow> if ca_precision a \<in> {APPROXIMATE, RANGE} then Some a else None)"

definition preferred_text :: "mandate \<Rightarrow> str" where
  "preferred_text m = int_str (m_target_unit_min m) @ ''-'' @ int_str (m_target_unit_max m) @ '' '' @ unit_noun m"

definition discovery_text :: "mandate \<Rightarrow> str" where
  "discovery_text m = int_str (discovery_min m) @ ''-'' @ int_str (discovery_max m) @ '' '' @ unit_noun m"

definition planning_total_units :: "mandate \<Rightarrow> matching_facts \<Rightarrow> bool" where
  "planning_total_units m f = (mf_opportunity_type f = PLANNING_DELIVERY \<and> m_scale_metric m \<noteq> AFFORDABLE_UNITS)"

definition outside_reason :: "mandate \<Rightarrow> matching_facts \<Rightarrow> b2_context \<Rightarrow> str \<Rightarrow> bool \<Rightarrow> str \<Rightarrow> str" where
  "outside_reason m f c prfx over legacy_prefix =
    (if \<not> over then txt_below prfx (discovery_text m) (preferred_text m)
     else if planning_total_units m f then txt_above prfx (discovery_text m) (preferred_text m) (phasing_tail f (Some c))
     else legacy_prefix @ '' '' @ txt_outside_discovery (discovery_text m) (preferred_text m))"

definition strategic_range_block :: "count_assessment \<Rightarrow> fit \<Rightarrow> fit" where
  "strategic_range_block a s = exceptional (investigate ''scale.strategic_range_parcel'' txt_scale_strategic_range_parcel None
     (match ''scale.strategic_range'' (txt_scale_strategic_range (label a)) None s))"

definition discovery_fit :: "mandate \<Rightarrow> matching_facts \<Rightarrow> count_assessment \<Rightarrow> bool option" where
  "discovery_fit m f a = (let v = within_hard_bounds (Some (discovery_min m)) (Some (discovery_max m)) a in
     if v = None \<and> mf_opportunity_type f = STRATEGIC_LAND \<and> lower_above a (discovery_max m) then Some False else v)"

definition hard_minimum_fit :: "mandate \<Rightarrow> count_assessment \<Rightarrow> bool option" where
  "hard_minimum_fit m a = (if m_below_minimum_scale_is_exclusion m
     then within_hard_bounds (Some (m_target_unit_min m)) None a else Some True)"

definition uncertain_verdict :: "mandate \<Rightarrow> matching_facts \<Rightarrow> b2_context \<Rightarrow> count_assessment \<Rightarrow> fit \<Rightarrow> fit" where
  "uncertain_verdict m f c a s =
    (if hard_minimum_fit m a = Some False then against ''scale.hard_minimum_uncertain'' txt_scale_hard_minimum_uncertain s
     else if within_hard_bounds (Some (m_target_unit_min m)) (Some (m_target_unit_max m)) a = Some True
       then unknown ''scale.uncertain_preferred'' (txt_scale_uncertain_preferred (label a) (count_note a)) s
     else if discovery_fit m f a = Some True
       then possible (match ''scale.uncertain_discovery''
              (txt_scale_uncertain_discovery (label a) (preferred_text m) (discovery_text m) (count_note a)) (Some Possible) s)
     else if discovery_fit m f a = Some False
       then outside (investigate ''scale.uncertain_outside''
              (outside_reason m f c (''The supported scale ('' @ label a @ '')'') (lower_above a (discovery_max m))
                 (''The supported scale ('' @ label a @ '')'')) (Some Outside) s)
     else blocking ''scale.uncertain_bounds'' (txt_scale_uncertain_bounds (label a) (discovery_text m) (count_note a)) s)"

definition unverified_minimum :: "fit \<Rightarrow> fit" where
  "unverified_minimum s = s\<lparr>ft_blocking := True, ft_trace := ft_trace s @
     [\<lparr>te_rule = ''scale.hard_minimum_unverified'', te_reason = txt_scale_verify, te_role = ClassificationAffecting, te_driver = Some Blocking\<rparr>]\<rparr>"

definition uncertain_block :: "mandate \<Rightarrow> matching_facts \<Rightarrow> b2_context \<Rightarrow> count_assessment \<Rightarrow> fit \<Rightarrow> fit" where
  "uncertain_block m f c a s =
    (let s1 = uncertain_verdict m f c a s;
         s2 = (if hard_minimum_fit m a = None then unverified_minimum s1 else s1) in
     exceptional (investigate ''scale.verify'' txt_scale_verify None s2))"

definition known_block :: "mandate \<Rightarrow> matching_facts \<Rightarrow> b2_context \<Rightarrow> int \<Rightarrow> fit \<Rightarrow> fit" where
  "known_block m f c n s =
    (let mn = m_target_unit_min m; mx = m_target_unit_max m; noun = unit_noun m in
     if mn \<le> n \<and> n \<le> mx then match ''scale.preferred'' (txt_scale_preferred n noun mn mx) None s
     else if n < mn \<and> m_below_minimum_scale_is_exclusion m then against ''scale.hard_minimum'' (txt_scale_hard_minimum n noun mn) s
     else if discovery_min m \<le> n \<and> n \<le> discovery_max m
       then possible (match ''scale.discovery''
              (txt_scale_discovery n noun (if n < mn then ''below'' else ''above'') (preferred_text m) (discovery_text m)) (Some Possible) s)
     else if n > mx \<and> m_large_allocation_is_self_qualifying m \<and> mf_opportunity_type f = STRATEGIC_LAND
       then exceptional (investigate ''scale.strategic_parcel'' txt_scale_strategic_parcel None
              (match ''scale.strategic_large'' (txt_scale_strategic_large n noun) None s))
     else
       (let s1 = outside (investigate ''scale.outside''
              (outside_reason m f c (''Scale ('' @ int_commas n @ '' '' @ noun @ '')'') (n > discovery_max m) (int_commas n @ '' '' @ noun))
              (Some Outside) s);
            s2 = (if n > mx \<and> mf_has_phasing_evidence f \<and> \<not> planning_total_units m f
                  then investigate ''scale.phasing'' txt_scale_phasing None s1 else s1) in
        exceptional s2))"

definition scale_block :: "mandate \<Rightarrow> matching_facts \<Rightarrow> b2_context \<Rightarrow> fit \<Rightarrow> fit" where
  "scale_block m f c s = (case scale_value m f of
      Some n \<Rightarrow> known_block m f c n s
    | None \<Rightarrow> (case uncertain_scale m f of
        None \<Rightarrow> blocking ''scale.unknown'' (if m_scale_metric m = AFFORDABLE_UNITS then txt_no_affordable_count else txt_no_count) s
      | Some a \<Rightarrow>
          if mf_opportunity_type f = STRATEGIC_LAND \<and> m_large_allocation_is_self_qualifying m \<and> ca_precision a = RANGE \<and>
             lower_above a (discovery_max m)
          then strategic_range_block a s else uncertain_block m f c a s))"

definition control_gap_block :: "matching_facts \<Rightarrow> fit \<Rightarrow> fit" where
  "control_gap_block f s = (if mf_opportunity_type f = STRATEGIC_LAND \<and> \<not> mf_matched_to_site f
     then investigate ''allocation.control_unknown'' txt_allocation_control_unknown None s else s)"

section \<open>The mandate's own dimensions\<close>

definition geography_block :: "mandate \<Rightarrow> b2_context \<Rightarrow> fit \<Rightarrow> fit" where
  "geography_block m c s =
    (if m_geography_scope m = GEOGRAPHY_COUNCILS then
       (case bc_council_code c of
          None \<Rightarrow> blocking ''geography.unknown'' txt_geography_unknown s
        | Some k \<Rightarrow>
            if k \<in> m_geography_councils m then match ''geography.match'' (txt_geography_match k) None s
            else against ''geography.exclusion''
                   (txt_geography_exclusion k (join '', '' (sorted_list_of_set (m_geography_councils m)))) s)
     else s)"

definition DEVELOPMENT_STARTED_STATES :: "str set" where
  "DEVELOPMENT_STARTED_STATES = {''underway'', ''partially_complete'', ''complete''}"

definition started :: "b2_context \<Rightarrow> bool" where
  "started c = (case bc_development_state c of None \<Rightarrow> False | Some d \<Rightarrow> d \<in> DEVELOPMENT_STARTED_STATES)"

text \<open>The legs of the acquisition block share what has matched, the contradictions and the open questions so far.\<close>

record acquisition =
  ac_matched :: bool
  ac_hard :: "str list"
  ac_unknowns :: "str list"

definition strategic_leg :: "mandate \<Rightarrow> matching_facts \<Rightarrow> b2_context \<Rightarrow> acquisition \<times> fit \<Rightarrow> acquisition \<times> fit" where
  "strategic_leg m f c as = (case as of (a, s) \<Rightarrow>
    if STRATEGIC_LAND_CONTROL \<notin> m_acquisition_types m then (a, s)
    else if started c \<and> bc_scope_verified c then (a\<lparr>ac_hard := ac_hard a @ [txt_acq_underway_hard]\<rparr>, s)
    else if started c then (a\<lparr>ac_unknowns := ac_unknowns a @ [txt_acq_scope_unknown]\<rparr>,
      investigate ''acquisition.scope_check'' txt_acquisition_scope_check None s)
    else if mf_opportunity_type f = STRATEGIC_LAND \<or> mf_planning_state f \<in> {ADOPTED_ALLOCATION, EMERGING_ALLOCATION}
    then (a\<lparr>ac_matched := True\<rparr>, match ''acquisition.strategic_match'' txt_acquisition_strategic_match None s)
    else (a\<lparr>ac_unknowns := ac_unknowns a @ [txt_acq_position_unknown]\<rparr>, s))"

definition affordable_leg :: "mandate \<Rightarrow> matching_facts \<Rightarrow> acquisition \<times> fit \<Rightarrow> acquisition \<times> fit" where
  "affordable_leg m f as = (case as of (a, s) \<Rightarrow>
    if AFFORDABLE_HOUSING_PACKAGE \<notin> m_acquisition_types m then (a, s)
    else if mf_affordable_percentage_trusted f \<and> mf_affordable_percentage f = Some 0
    then (a\<lparr>ac_hard := ac_hard a @ [txt_acq_zero_affordable]\<rparr>, s)
    else if opt_or (mf_affordable_unit_count f) 0 > 0 \<or>
       (mf_affordable_percentage_trusted f \<and> (case mf_affordable_percentage f of None \<Rightarrow> False | Some p \<Rightarrow> p > 0))
    then (a\<lparr>ac_matched := True\<rparr>, match ''acquisition.affordable_match'' txt_acquisition_affordable_match None s)
    else (a\<lparr>ac_unknowns := ac_unknowns a @ [txt_acq_affordable_unknown]\<rparr>, s))"

definition homes_leg :: "mandate \<Rightarrow> b2_context \<Rightarrow> acquisition \<times> fit \<Rightarrow> acquisition \<times> fit" where
  "homes_leg m c as = (case as of (a, s) \<Rightarrow>
    if DEVELOPMENT_HOMES_ACQUISITION \<in> m_acquisition_types m \<and> started c
    then (a\<lparr>ac_matched := True\<rparr>, match ''acquisition.development_match'' txt_acquisition_development_match None s)
    else (a, s))"

definition acquisition_block :: "mandate \<Rightarrow> matching_facts \<Rightarrow> b2_context \<Rightarrow> fit \<Rightarrow> fit" where
  "acquisition_block m f c s =
    (if m_acquisition_types m = {} then s else
     (case homes_leg m c (affordable_leg m f (strategic_leg m f c (\<lparr>ac_matched = False, ac_hard = [], ac_unknowns = []\<rparr>, s))) of
       (a, s') \<Rightarrow>
         if \<not> ac_matched a \<and> ac_hard a \<noteq> [] then fold (against ''acquisition.hard'') (ac_hard a) s'
         else if \<not> ac_matched a then fold (blocking ''acquisition.blocking'') (ac_unknowns a) s'
         else s'))"

definition development_unknown :: "b2_context \<Rightarrow> bool" where
  "development_unknown c = (bc_development_state c \<in> {None, Some ''unknown''})"

definition development_block :: "mandate \<Rightarrow> b2_context \<Rightarrow> fit \<Rightarrow> fit" where
  "development_block m c s =
    (let app = m_development_state_appetite m in
     if app = UNCOMMENCED_PREFERRED then
       (if started c then unknown ''development.nonpreferred'' txt_development_nonpreferred s
        else if development_unknown c then unknown ''development.no_commencement'' txt_development_no_commencement s else s)
     else if app = UNDERWAY_ACCEPTABLE then
       (if started c then match ''development.acceptable'' txt_development_acceptable None s
        else if development_unknown c then unknown ''development.progress_unknown'' txt_development_progress_unknown s else s)
     else if app = UNDERWAY_PREFERRED then
       (if started c then match ''development.preferred'' txt_development_preferred None s
        else if development_unknown c then unknown ''development.preference_unknown'' txt_development_preference_unknown s else s)
     else s)"

definition control_block :: "mandate \<Rightarrow> b2_context \<Rightarrow> fit \<Rightarrow> fit" where
  "control_block m c s0 = (case bc_control_facts c of None \<Rightarrow> s0 | Some cf \<Rightarrow>
    (let s1 = (if DEVELOPER_LED_ACCEPTABLE \<in> m_control_appetite m \<and> cf_developer_led cf = Some True
               then match ''control.developer'' txt_control_developer None s0 else s0);
         s2 = (if THIRD_PARTY_INTEREST_ACCEPTABLE \<in> m_control_appetite m \<and> cf_third_party cf = Some True
               then match ''control.third_party'' txt_control_third_party None s1 else s1);
         s3 = (if UNRESOLVED_OWNERSHIP_INVESTIGATABLE \<in> m_control_appetite m \<and> cf_unresolved cf = Some True
               then investigate ''control.unresolved'' txt_control_unresolved None s2 else s2) in
     if PARTIAL_SITE_CONTROL_ACCEPTABLE \<in> m_control_appetite m \<and> cf_partial cf = Some True
     then match ''control.partial'' txt_control_partial None s3 else s3))"

section \<open>The decision\<close>

datatype classification = STRONG_FIT | POSSIBLE_FIT | NOT_SUITABLE | INSUFFICIENT_EVIDENCE

definition classify :: "fit \<Rightarrow> classification" where
  "classify s = (if ft_against s \<noteq> [] then NOT_SUITABLE
     else if ft_blocking s \<or> ft_outside s then INSUFFICIENT_EVIDENCE
     else if ft_possible s then POSSIBLE_FIT else STRONG_FIT)"

fun contributing_drivers :: "classification \<Rightarrow> driver set" where
  "contributing_drivers NOT_SUITABLE = {Hard}"
| "contributing_drivers INSUFFICIENT_EVIDENCE = {Blocking, Outside}"
| "contributing_drivers POSSIBLE_FIT = {Possible}"
| "contributing_drivers STRONG_FIT = {}"

definition core_blocks :: "mandate \<Rightarrow> matching_facts \<Rightarrow> b2_context \<Rightarrow> fit" where
  "core_blocks m f c = control_gap_block f (scale_block m f c (no_activity_block m f (proposal_block f
     (planning_block m f (affordable_block m f (specialist_block m f empty_fit))))))"

definition fit_of :: "mandate \<Rightarrow> matching_facts \<Rightarrow> b2_context option \<Rightarrow> fit" where
  "fit_of m f ctx = (case ctx of None \<Rightarrow> core_blocks m f empty_context
     | Some c \<Rightarrow> control_block m c (development_block m c (acquisition_block m f c (geography_block m c (core_blocks m f c)))))"

record explanation =
  ex_rule :: str
  ex_reason :: str
  ex_role :: role
  ex_contributed :: bool

record assessment =
  as_classification :: classification
  as_exception :: bool
  as_matches :: "str list"
  as_does_not_match :: "str list"
  as_unknown :: "str list"
  as_investigate :: "str list"
  as_trace :: "explanation list"

definition explain :: "classification \<Rightarrow> trace_entry \<Rightarrow> explanation" where
  "explain cl t = \<lparr>ex_rule = te_rule t, ex_reason = te_reason t, ex_role = te_role t,
     ex_contributed = (case te_driver t of None \<Rightarrow> False | Some d \<Rightarrow> d \<in> contributing_drivers cl)\<rparr>"

definition assess_buyer_fit :: "mandate \<Rightarrow> matching_facts \<Rightarrow> b2_context option \<Rightarrow> assessment" where
  "assess_buyer_fit m f ctx = (let s = fit_of m f ctx; cl = classify s in
     \<lparr>as_classification = cl, as_exception = ft_exception s, as_matches = ft_matches s, as_does_not_match = ft_against s,
      as_unknown = ft_unknown s, as_investigate = ft_investigate s, as_trace = map (explain cl) (ft_trace s)\<rparr>)"

end
