(* ===== verification/BuyerFitProperties.thy ===== *)
theory BuyerFitProperties
  imports BuyerFit
begin

text \<open>
  What \<open>assess_buyer_fit\<close> guarantees: exactly which facts exclude a buyer, what a strong fit rests on, that an absent
  context is inert, that absent evidence neither excludes nor confirms, and that the trace explains the classification. The
  collections \<open>emit_simps\<close> and \<open>block_defs\<close> carry the block-by-block proofs.
\<close>

section \<open>What an emission changes\<close>

lemma emit_against [simp]:
  "ft_against (match r t d s) = ft_against s" "ft_against (against r t s) = ft_against s @ [t]"
  "ft_against (unknown r t s) = ft_against s" "ft_against (blocking r t s) = ft_against s"
  "ft_against (investigate r t d s) = ft_against s" "ft_against (exceptional s) = ft_against s"
  "ft_against (possible s) = ft_against s" "ft_against (outside s) = ft_against s" "ft_against empty_fit = []"
  "ft_against (unverified_minimum s) = ft_against s"
  by (simp_all add: emit_defs empty_fit_def unverified_minimum_def)

lemma emit_flags [simp]:
  "ft_blocking (match r t d s) = ft_blocking s" "ft_blocking (against r t s) = ft_blocking s"
  "ft_blocking (unknown r t s) = ft_blocking s" "ft_blocking (blocking r t s) = True"
  "ft_blocking (investigate r t d s) = ft_blocking s" "ft_blocking (exceptional s) = ft_blocking s"
  "ft_blocking (possible s) = ft_blocking s" "ft_blocking (outside s) = ft_blocking s" "ft_blocking empty_fit = False"
  "ft_blocking (unverified_minimum s) = True"
  "ft_outside (match r t d s) = ft_outside s" "ft_outside (against r t s) = ft_outside s"
  "ft_outside (unknown r t s) = ft_outside s" "ft_outside (blocking r t s) = ft_outside s"
  "ft_outside (investigate r t d s) = ft_outside s" "ft_outside (exceptional s) = ft_outside s"
  "ft_outside (possible s) = ft_outside s" "ft_outside (outside s) = True" "ft_outside empty_fit = False"
  "ft_outside (unverified_minimum s) = ft_outside s"
  "ft_possible (match r t d s) = ft_possible s" "ft_possible (against r t s) = ft_possible s"
  "ft_possible (unknown r t s) = ft_possible s" "ft_possible (blocking r t s) = ft_possible s"
  "ft_possible (investigate r t d s) = ft_possible s" "ft_possible (exceptional s) = ft_possible s"
  "ft_possible (possible s) = True" "ft_possible (outside s) = ft_possible s" "ft_possible empty_fit = False"
  "ft_possible (unverified_minimum s) = ft_possible s"
  by (simp_all add: emit_defs empty_fit_def unverified_minimum_def)

text \<open>No flag that keeps an assessment from being a strong fit is set.\<close>

definition quiet :: "fit \<Rightarrow> bool" where
  "quiet s = (\<not> ft_blocking s \<and> \<not> ft_outside s \<and> \<not> ft_possible s)"

section \<open>Hard exclusions\<close>

definition specialist_hard :: "mandate \<Rightarrow> matching_facts \<Rightarrow> bool" where
  "specialist_hard m f = (mf_is_specialist f = Some True \<and>
     (m_specialist_development_is_exclusion m \<or> mf_opportunity_type f = STRATEGIC_LAND))"

definition affordable_hard :: "mandate \<Rightarrow> matching_facts \<Rightarrow> bool" where
  "affordable_hard m f = (wholly_affordable f \<and> m_wholly_affordable_is_exclusion m)"

definition strategic_range :: "mandate \<Rightarrow> matching_facts \<Rightarrow> count_assessment \<Rightarrow> bool" where
  "strategic_range m f a = (mf_opportunity_type f = STRATEGIC_LAND \<and> m_large_allocation_is_self_qualifying m \<and>
     ca_precision a = RANGE \<and> lower_above a (discovery_max m))"

definition scale_hard :: "mandate \<Rightarrow> matching_facts \<Rightarrow> bool" where
  "scale_hard m f = (m_below_minimum_scale_is_exclusion m \<and> (case scale_value m f of
      Some n \<Rightarrow> n < m_target_unit_min m
    | None \<Rightarrow> (case uncertain_scale m f of None \<Rightarrow> False
        | Some a \<Rightarrow> \<not> strategic_range m f a \<and> within_hard_bounds (Some (m_target_unit_min m)) None a = Some False)))"

definition geography_hard :: "mandate \<Rightarrow> b2_context \<Rightarrow> bool" where
  "geography_hard m c = (m_geography_scope m = GEOGRAPHY_COUNCILS \<and>
     (case bc_council_code c of None \<Rightarrow> False | Some k \<Rightarrow> k \<notin> m_geography_councils m))"

definition affordable_package_shown :: "matching_facts \<Rightarrow> bool" where
  "affordable_package_shown f = (opt_or (mf_affordable_unit_count f) 0 > 0 \<or>
     (mf_affordable_percentage_trusted f \<and> (case mf_affordable_percentage f of None \<Rightarrow> False | Some p \<Rightarrow> p > 0)))"

definition no_affordable_content :: "matching_facts \<Rightarrow> bool" where
  "no_affordable_content f = (mf_affordable_percentage_trusted f \<and> mf_affordable_percentage f = Some 0)"

definition acquisition_matches :: "mandate \<Rightarrow> matching_facts \<Rightarrow> b2_context \<Rightarrow> bool" where
  "acquisition_matches m f c =
    (STRATEGIC_LAND_CONTROL \<in> m_acquisition_types m \<and> \<not> started c \<and>
       (mf_opportunity_type f = STRATEGIC_LAND \<or> mf_planning_state f \<in> {ADOPTED_ALLOCATION, EMERGING_ALLOCATION}) \<or>
     AFFORDABLE_HOUSING_PACKAGE \<in> m_acquisition_types m \<and> \<not> no_affordable_content f \<and> affordable_package_shown f \<or>
     DEVELOPMENT_HOMES_ACQUISITION \<in> m_acquisition_types m \<and> started c)"

definition acquisition_hard :: "mandate \<Rightarrow> matching_facts \<Rightarrow> b2_context \<Rightarrow> bool" where
  "acquisition_hard m f c = (\<not> acquisition_matches m f c \<and>
     (STRATEGIC_LAND_CONTROL \<in> m_acquisition_types m \<and> started c \<and> bc_scope_verified c \<or>
      AFFORDABLE_HOUSING_PACKAGE \<in> m_acquisition_types m \<and> no_affordable_content f))"

lemma specialist_against: "(ft_against (specialist_block m f s) = []) = (ft_against s = [] \<and> \<not> specialist_hard m f)"
  by (auto simp: specialist_block_def specialist_hard_def split: option.splits bool.splits)

lemma affordable_against: "(ft_against (affordable_block m f s) = []) = (ft_against s = [] \<and> \<not> affordable_hard m f)"
  by (auto simp: affordable_block_def affordable_hard_def)

lemma planning_against [simp]: "ft_against (planning_block m f s) = ft_against s"
  by (simp add: planning_block_def Let_def)

lemma proposal_against [simp]: "ft_against (proposal_block f s) = ft_against s"
  by (simp add: proposal_block_def)

lemma no_activity_against [simp]: "ft_against (no_activity_block m f s) = ft_against s"
  by (simp add: no_activity_block_def split: option.split bool.split)

lemma uncertain_against: "(ft_against (uncertain_block m f c a s) = []) =
    (ft_against s = [] \<and> \<not> (m_below_minimum_scale_is_exclusion m \<and> within_hard_bounds (Some (m_target_unit_min m)) None a = Some False))"
  by (simp add: uncertain_block_def uncertain_verdict_def hard_minimum_fit_def Let_def)

lemma known_against: "(ft_against (known_block m f c n s) = []) =
    (ft_against s = [] \<and> \<not> (m_below_minimum_scale_is_exclusion m \<and> n < m_target_unit_min m))"
  by (auto simp: known_block_def Let_def)

lemma scale_against: "(ft_against (scale_block m f c s) = []) = (ft_against s = [] \<and> \<not> scale_hard m f)"
  by (auto simp: scale_block_def scale_hard_def strategic_range_def strategic_range_block_def uncertain_against known_against
      split: option.splits)

lemma control_gap_against [simp]: "ft_against (control_gap_block f s) = ft_against s"
  by (simp add: control_gap_block_def)

lemma geography_against: "(ft_against (geography_block m c s) = []) = (ft_against s = [] \<and> \<not> geography_hard m c)"
  by (auto simp: geography_block_def geography_hard_def split: option.splits)

lemma fold_against [simp]: "ft_against (fold (against r) ts s) = ft_against s @ ts" "ft_against (fold (blocking r) ts s) = ft_against s"
  by (induction ts arbitrary: s) simp_all

lemmas leg_defs = strategic_leg_def affordable_leg_def homes_leg_def affordable_package_shown_def no_affordable_content_def

lemma strategic_leg_facts:
  "ac_matched (fst (strategic_leg m f c as)) = (ac_matched (fst as) \<or> STRATEGIC_LAND_CONTROL \<in> m_acquisition_types m \<and> \<not> started c \<and>
     (mf_opportunity_type f = STRATEGIC_LAND \<or> mf_planning_state f \<in> {ADOPTED_ALLOCATION, EMERGING_ALLOCATION}))"
  "(ac_hard (fst (strategic_leg m f c as)) = []) =
     (ac_hard (fst as) = [] \<and> \<not> (STRATEGIC_LAND_CONTROL \<in> m_acquisition_types m \<and> started c \<and> bc_scope_verified c))"
  "ft_against (snd (strategic_leg m f c as)) = ft_against (snd as)" "quiet (snd (strategic_leg m f c as)) = quiet (snd as)"
  by (cases as; auto simp: strategic_leg_def quiet_def)+

lemma affordable_leg_cases: "affordable_leg m f (a, s) =
   (if AFFORDABLE_HOUSING_PACKAGE \<notin> m_acquisition_types m then (a, s)
    else if no_affordable_content f then (a\<lparr>ac_hard := ac_hard a @ [txt_acq_zero_affordable]\<rparr>, s)
    else if affordable_package_shown f
    then (a\<lparr>ac_matched := True\<rparr>, match ''acquisition.affordable_match'' txt_acquisition_affordable_match None s)
    else (a\<lparr>ac_unknowns := ac_unknowns a @ [txt_acq_affordable_unknown]\<rparr>, s))"
  by (simp only: affordable_leg_def prod.case no_affordable_content_def affordable_package_shown_def)

lemma affordable_leg_facts:
  "ac_matched (fst (affordable_leg m f as)) = (ac_matched (fst as) \<or> AFFORDABLE_HOUSING_PACKAGE \<in> m_acquisition_types m \<and>
     \<not> no_affordable_content f \<and> affordable_package_shown f)"
  "(ac_hard (fst (affordable_leg m f as)) = []) =
     (ac_hard (fst as) = [] \<and> \<not> (AFFORDABLE_HOUSING_PACKAGE \<in> m_acquisition_types m \<and> no_affordable_content f))"
  "ft_against (snd (affordable_leg m f as)) = ft_against (snd as)" "quiet (snd (affordable_leg m f as)) = quiet (snd as)"
proof -
  obtain a s where as: "as = (a, s)" by (cases as)
  show "ac_matched (fst (affordable_leg m f as)) = (ac_matched (fst as) \<or> AFFORDABLE_HOUSING_PACKAGE \<in> m_acquisition_types m \<and>
     \<not> no_affordable_content f \<and> affordable_package_shown f)"
    unfolding as affordable_leg_cases by (cases "no_affordable_content f"; cases "affordable_package_shown f"; cases "ac_matched a"; simp)
  show "(ac_hard (fst (affordable_leg m f as)) = []) =
     (ac_hard (fst as) = [] \<and> \<not> (AFFORDABLE_HOUSING_PACKAGE \<in> m_acquisition_types m \<and> no_affordable_content f))"
    unfolding as affordable_leg_cases by (auto split: if_split)
  show "ft_against (snd (affordable_leg m f as)) = ft_against (snd as)"
    unfolding as affordable_leg_cases by simp
  show "quiet (snd (affordable_leg m f as)) = quiet (snd as)"
    unfolding as affordable_leg_cases by (simp add: quiet_def)
qed

lemma homes_leg_facts:
  "ac_matched (fst (homes_leg m c as)) = (ac_matched (fst as) \<or> DEVELOPMENT_HOMES_ACQUISITION \<in> m_acquisition_types m \<and> started c)"
  "ac_hard (fst (homes_leg m c as)) = ac_hard (fst as)"
  "ft_against (snd (homes_leg m c as)) = ft_against (snd as)" "quiet (snd (homes_leg m c as)) = quiet (snd as)"
  by (cases as; cases "DEVELOPMENT_HOMES_ACQUISITION \<in> m_acquisition_types m \<and> started c"; simp only: homes_leg_def prod.case if_True if_False;
      simp add: quiet_def)+

definition legs :: "mandate \<Rightarrow> matching_facts \<Rightarrow> b2_context \<Rightarrow> fit \<Rightarrow> acquisition \<times> fit" where
  "legs m f c s = homes_leg m c (affordable_leg m f (strategic_leg m f c (\<lparr>ac_matched = False, ac_hard = [], ac_unknowns = []\<rparr>, s)))"

lemma legs_facts:
  "ac_matched (fst (legs m f c s)) = acquisition_matches m f c"
  "(ac_hard (fst (legs m f c s)) = []) = (\<not> (STRATEGIC_LAND_CONTROL \<in> m_acquisition_types m \<and> started c \<and> bc_scope_verified c \<or>
      AFFORDABLE_HOUSING_PACKAGE \<in> m_acquisition_types m \<and> no_affordable_content f))"
  "ft_against (snd (legs m f c s)) = ft_against s" "quiet (snd (legs m f c s)) = quiet s"
proof -
  show "ac_matched (fst (legs m f c s)) = acquisition_matches m f c"
    unfolding legs_def acquisition_matches_def homes_leg_facts affordable_leg_facts strategic_leg_facts by simp
  show "(ac_hard (fst (legs m f c s)) = []) = (\<not> (STRATEGIC_LAND_CONTROL \<in> m_acquisition_types m \<and> started c \<and> bc_scope_verified c \<or>
      AFFORDABLE_HOUSING_PACKAGE \<in> m_acquisition_types m \<and> no_affordable_content f))"
    unfolding legs_def homes_leg_facts affordable_leg_facts strategic_leg_facts by simp
  show "ft_against (snd (legs m f c s)) = ft_against s" "quiet (snd (legs m f c s)) = quiet s"
    unfolding legs_def homes_leg_facts affordable_leg_facts strategic_leg_facts by simp_all
qed

lemma acquisition_block_legs: "acquisition_block m f c s = (if m_acquisition_types m = {} then s else
   (let a = fst (legs m f c s); s' = snd (legs m f c s) in
    if \<not> ac_matched a \<and> ac_hard a \<noteq> [] then fold (against ''acquisition.hard'') (ac_hard a) s'
    else if \<not> ac_matched a then fold (blocking ''acquisition.blocking'') (ac_unknowns a) s' else s'))"
  by (simp add: acquisition_block_def legs_def [symmetric] case_prod_beta Let_def)

lemma acquisition_against: "(ft_against (acquisition_block m f c s) = []) = (ft_against s = [] \<and> \<not> acquisition_hard m f c)"
proof (cases "m_acquisition_types m = {}")
  case True
  then show ?thesis by (simp add: acquisition_block_legs acquisition_hard_def)
next
  case False
  then show ?thesis
    by (simp add: acquisition_block_legs acquisition_hard_def Let_def legs_facts)
qed

lemma development_against [simp]: "ft_against (development_block m c s) = ft_against s"
  by (simp add: development_block_def Let_def)

lemma control_against [simp]: "ft_against (control_block m c s) = ft_against s"
  by (simp add: control_block_def Let_def split: option.split)

lemma core_against: "(ft_against (core_blocks m f c) = []) = (\<not> (specialist_hard m f \<or> affordable_hard m f \<or> scale_hard m f))"
  by (simp add: core_blocks_def scale_against affordable_against specialist_against)

lemma classify_against: "(classify s = NOT_SUITABLE) = (ft_against s \<noteq> [])"
  by (simp add: classify_def)

lemma exclusion_iff:
  "(as_classification (assess_buyer_fit m f ctx) = NOT_SUITABLE) =
   (specialist_hard m f \<or> affordable_hard m f \<or> scale_hard m f \<or>
    (case ctx of None \<Rightarrow> False | Some c \<Rightarrow> geography_hard m c \<or> acquisition_hard m f c))"
  by (cases ctx) (auto simp: assess_buyer_fit_def Let_def classify_against fit_of_def core_against geography_against acquisition_against)

text \<open>
  C5. A buyer is excluded exactly on these grounds of trusted evidence: a specialist (or non-residential) use where the mandate
  excludes it; a non-residential strategic allocation, whatever the mandate states; a wholly affordable scheme or a scale wholly below the minimum,
  each where the mandate makes it an exclusion; and, where a context is supplied, a known council outside a stated boundary, or an acquisition
  type contradicted (development under way at verified scope, or no affordable content) that no other stated type matches. Planning position,
  ownership, development preference and every absence of evidence never exclude. Two grounds go beyond what the code says of itself: the docstring
  of \<open>assess_buyer_fit\<close> allows only the council and the development under way to exclude in a context, where no affordable content is a third
  (\<open>no_affordable_content_excludes\<close>), and the strategic allocation is no term of the mandate.
\<close>

theorem exclusion_exactly_hard_terms:
  "(as_classification (assess_buyer_fit m f ctx) = NOT_SUITABLE) =
   (specialist_hard m f \<or> affordable_hard m f \<or> scale_hard m f \<or>
    (case ctx of None \<Rightarrow> False | Some c \<Rightarrow> geography_hard m c \<or> acquisition_hard m f c))"
  by (rule exclusion_iff)

text \<open>The ground the docstring does not name: no development is under way and the council is inside, or unstated.\<close>

lemma no_affordable_content_excludes:
  assumes "m_acquisition_types m = {AFFORDABLE_HOUSING_PACKAGE}" and "no_affordable_content f"
  shows "as_classification (assess_buyer_fit m f (Some c)) = NOT_SUITABLE"
  using assms by (simp add: exclusion_iff acquisition_hard_def acquisition_matches_def
      STRATEGIC_LAND_CONTROL_def AFFORDABLE_HOUSING_PACKAGE_def DEVELOPMENT_HOMES_ACQUISITION_def)

section \<open>What a strong fit rests on\<close>

lemma quiet_empty [simp]: "quiet empty_fit"
  by (simp add: quiet_def)

lemma specialist_quiet: "quiet (specialist_block m f s) \<Longrightarrow> quiet s \<and> (mf_is_specialist f = None \<longrightarrow> mf_opportunity_type f = STRATEGIC_LAND)"
  by (auto simp: specialist_block_def quiet_def split: option.splits bool.splits if_splits)

lemma affordable_quiet: "quiet (affordable_block m f s) = quiet s"
  by (simp add: affordable_block_def quiet_def)

lemma planning_quiet: "quiet (planning_block m f s) \<Longrightarrow> quiet s \<and> (mf_planning_state f \<in> m_accepted_planning_states m \<or> mf_planning_state f \<noteq> OTHER_OR_UNKNOWN)"
  by (auto simp: planning_block_def quiet_def Let_def split: if_splits)

lemma proposal_quiet: "quiet (proposal_block f s) = quiet s"
  by (simp add: proposal_block_def quiet_def)

lemma no_activity_quiet: "quiet (no_activity_block m f s) \<Longrightarrow> quiet s"
  by (auto simp: no_activity_block_def quiet_def split: option.splits bool.splits if_splits)

definition scale_fits :: "mandate \<Rightarrow> matching_facts \<Rightarrow> bool" where
  "scale_fits m f = (case scale_value m f of
      Some n \<Rightarrow> (m_target_unit_min m \<le> n \<and> n \<le> m_target_unit_max m) \<or>
        (n > m_target_unit_max m \<and> m_large_allocation_is_self_qualifying m \<and> mf_opportunity_type f = STRATEGIC_LAND)
    | None \<Rightarrow> (case uncertain_scale m f of None \<Rightarrow> False
        | Some a \<Rightarrow> strategic_range m f a \<or> (\<forall>n\<in>possible_counts a. m_target_unit_min m \<le> n \<and> n \<le> m_target_unit_max m)))"

lemma known_quiet:
  "quiet (known_block m f c n s) \<Longrightarrow> ft_against (known_block m f c n s) = [] \<Longrightarrow>
    quiet s \<and> ((m_target_unit_min m \<le> n \<and> n \<le> m_target_unit_max m) \<or>
      (n > m_target_unit_max m \<and> m_large_allocation_is_self_qualifying m \<and> mf_opportunity_type f = STRATEGIC_LAND))"
  by (auto simp: known_block_def quiet_def Let_def split: if_splits)

lemma uncertain_quiet:
  assumes "quiet (uncertain_block m f c a s)" and "ft_against (uncertain_block m f c a s) = []"
  shows "quiet s \<and> (\<forall>n\<in>possible_counts a. m_target_unit_min m \<le> n \<and> n \<le> m_target_unit_max m)"
proof -
  have "quiet s \<and> within_hard_bounds (Some (m_target_unit_min m)) (Some (m_target_unit_max m)) a = Some True"
    using assms by (auto simp: uncertain_block_def uncertain_verdict_def quiet_def Let_def split: if_splits)
  with count_bounds.inside [of "Some (m_target_unit_min m)" "Some (m_target_unit_max m)" a] show ?thesis by simp
qed

lemma scale_quiet: "quiet (scale_block m f c s) \<Longrightarrow> ft_against (scale_block m f c s) = [] \<Longrightarrow> quiet s \<and> scale_fits m f"
  unfolding scale_block_def scale_fits_def
  by (auto simp: strategic_range_def [symmetric] split: option.splits if_splits dest: known_quiet uncertain_quiet)
    (simp_all add: quiet_def strategic_range_block_def)

lemma control_gap_quiet: "quiet (control_gap_block f s) = quiet s"
  by (simp add: control_gap_block_def quiet_def)

lemma fold_against_quiet: "quiet (fold (against r) ts s) = quiet s"
  by (induction ts arbitrary: s) (simp_all add: quiet_def)

lemma fold_blocking_quiet: "quiet (fold (blocking r) ts s) = (ts = [] \<and> quiet s)"
proof -
  have "ft_blocking (fold (blocking r) ts s) = (ts \<noteq> [] \<or> ft_blocking s) \<and> ft_outside (fold (blocking r) ts s) = ft_outside s \<and>
     ft_possible (fold (blocking r) ts s) = ft_possible s"
    by (induction ts arbitrary: s) simp_all
  then show ?thesis by (auto simp: quiet_def)
qed

lemma geography_quiet: "quiet (geography_block m c s) \<Longrightarrow> quiet s \<and> (m_geography_scope m = GEOGRAPHY_COUNCILS \<longrightarrow> bc_council_code c \<noteq> None)"
  by (auto simp: geography_block_def quiet_def split: option.splits if_splits)

lemma acquisition_quiet: "quiet (acquisition_block m f c s) \<Longrightarrow> quiet s"
  unfolding acquisition_block_legs Let_def
  by (simp add: fold_against_quiet fold_blocking_quiet legs_facts(4) split: if_splits)

lemma development_quiet: "quiet (development_block m c s) = quiet s"
  by (simp add: development_block_def quiet_def Let_def)

lemma control_quiet: "quiet (control_block m c s) = quiet s"
  by (simp add: control_block_def quiet_def Let_def split: option.split)

lemma core_quiet:
  assumes "quiet (core_blocks m f c)" and "ft_against (core_blocks m f c) = []"
  shows "scale_fits m f \<and> (mf_planning_state f \<in> m_accepted_planning_states m \<or> mf_planning_state f \<noteq> OTHER_OR_UNKNOWN) \<and>
    (mf_is_specialist f = None \<longrightarrow> mf_opportunity_type f = STRATEGIC_LAND)"
  using assms unfolding core_blocks_def control_gap_quiet control_gap_against
  by (auto dest!: scale_quiet no_activity_quiet planning_quiet specialist_quiet simp: proposal_quiet affordable_quiet)

text \<open>
  C6. What a strong fit rests on. The scale is exact and inside the preferred range, or every count the evidence leaves open is, or it is a
  strategic allocation proven above the range for a buyer that takes large allocations. The planning position is classified, or the
  mandate accepts it, be it the unknown one. The development type is established and not an excluded one, except on strategic land, where the code asks
  for no development type and only a non-residential use counts against. No affordable or scale term is contradicted. Where a context is supplied,
  a boundary of councils is met by a known council and no acquisition type is contradicted without another that matches.
\<close>

theorem strong_fit_established:
  assumes "as_classification (assess_buyer_fit m f ctx) = STRONG_FIT"
  shows "scale_fits m f \<and> (mf_planning_state f \<in> m_accepted_planning_states m \<or> mf_planning_state f \<noteq> OTHER_OR_UNKNOWN) \<and>
    (mf_is_specialist f = None \<longrightarrow> mf_opportunity_type f = STRATEGIC_LAND) \<and> \<not> specialist_hard m f \<and> \<not> affordable_hard m f \<and> \<not> scale_hard m f \<and>
    (case ctx of None \<Rightarrow> True | Some c \<Rightarrow> \<not> acquisition_hard m f c \<and>
      (m_geography_scope m = GEOGRAPHY_COUNCILS \<longrightarrow> (\<exists>k. bc_council_code c = Some k \<and> k \<in> m_geography_councils m)))"
proof -
  have s: "quiet (fit_of m f ctx)" "ft_against (fit_of m f ctx) = []"
    using assms by (auto simp: assess_buyer_fit_def Let_def classify_def quiet_def split: if_splits)
  define c where "c = (case ctx of None \<Rightarrow> empty_context | Some c \<Rightarrow> c)"
  have "quiet (core_blocks m f c)"
    using s(1) by (auto simp: c_def fit_of_def control_quiet development_quiet dest!: acquisition_quiet geography_quiet split: option.splits)
  moreover have a: "ft_against (core_blocks m f c) = []"
    using s(2) by (simp add: c_def fit_of_def acquisition_against geography_against split: option.splits)
  moreover have "\<not> acquisition_hard m f d \<and> (m_geography_scope m = GEOGRAPHY_COUNCILS \<longrightarrow> (\<exists>k. bc_council_code d = Some k \<and> k \<in> m_geography_councils m))"
    if "ctx = Some d" for d
  proof -
    have "m_geography_scope m = GEOGRAPHY_COUNCILS \<longrightarrow> bc_council_code d \<noteq> None"
      using s(1) that by (auto simp: fit_of_def control_quiet development_quiet dest!: acquisition_quiet geography_quiet)
    moreover have "\<not> geography_hard m d \<and> \<not> acquisition_hard m f d"
      using exclusion_iff [of m f ctx] assms that by simp
    ultimately show ?thesis by (auto simp: geography_hard_def)
  qed
  ultimately show ?thesis using core_quiet core_against by (auto split: option.split)
qed

definition demo_strong :: matching_facts where
  "demo_strong = (delivery_facts PERMISSION_GRANTED)\<lparr>mf_unit_count := PyInt 120, mf_development_type_raw := Some ''houses'',
     mf_is_specialist := Some False\<rparr>"

theorem strong_fit_established_witness: "scale_fits NESTEN_HOMES demo_strong"
proof -
  have "as_classification (assess_buyer_fit NESTEN_HOMES demo_strong None) = STRONG_FIT" by code_simp
  from strong_fit_established [OF this] show ?thesis by blast
qed

section \<open>Absent context, absent evidence\<close>

definition without_b2 :: "mandate \<Rightarrow> mandate" where
  "without_b2 m = m\<lparr>m_geography_scope := GEOGRAPHY_UNSPECIFIED, m_geography_councils := {}, m_acquisition_types := {},
     m_development_state_appetite := DEVELOPMENT_STATE_UNSPECIFIED, m_control_appetite := {}\<rparr>"

lemma without_b2_fields [simp]:
  "m_target_unit_min (without_b2 m) = m_target_unit_min m" "m_target_unit_max (without_b2 m) = m_target_unit_max m"
  "m_scale_metric (without_b2 m) = m_scale_metric m" "m_accepted_planning_states (without_b2 m) = m_accepted_planning_states m"
  "m_treats_no_activity_as_positive (without_b2 m) = m_treats_no_activity_as_positive m"
  "m_large_allocation_is_self_qualifying (without_b2 m) = m_large_allocation_is_self_qualifying m"
  "m_specialist_development_is_exclusion (without_b2 m) = m_specialist_development_is_exclusion m"
  "m_wholly_affordable_is_exclusion (without_b2 m) = m_wholly_affordable_is_exclusion m"
  "m_below_minimum_scale_is_exclusion (without_b2 m) = m_below_minimum_scale_is_exclusion m"
  "m_geography_scope (without_b2 m) = GEOGRAPHY_UNSPECIFIED" "m_acquisition_types (without_b2 m) = {}"
  "m_development_state_appetite (without_b2 m) = DEVELOPMENT_STATE_UNSPECIFIED" "m_control_appetite (without_b2 m) = {}"
  by (simp_all add: without_b2_def)

lemma discovery_without_b2 [simp]: "discovery_min (without_b2 m) = discovery_min m" "discovery_max (without_b2 m) = discovery_max m"
  by (simp_all add: discovery_min_def discovery_max_def)

lemma text_without_b2 [simp]: "unit_noun (without_b2 m) = unit_noun m" "preferred_text (without_b2 m) = preferred_text m"
  "discovery_text (without_b2 m) = discovery_text m" "scale_assessment (without_b2 m) f = scale_assessment m f"
  "planning_total_units (without_b2 m) f = planning_total_units m f"
  by (simp_all add: unit_noun_def preferred_text_def discovery_text_def scale_assessment_def planning_total_units_def)

lemma scale_without_b2 [simp]: "scale_value (without_b2 m) f = scale_value m f" "uncertain_scale (without_b2 m) f = uncertain_scale m f"
  "outside_reason (without_b2 m) f c p o' l = outside_reason m f c p o' l" "discovery_fit (without_b2 m) f a = discovery_fit m f a"
  "hard_minimum_fit (without_b2 m) a = hard_minimum_fit m a"
  by (simp_all add: scale_value_def uncertain_scale_def outside_reason_def discovery_fit_def hard_minimum_fit_def)

lemma blocks_without_b2:
  "specialist_block (without_b2 m) f s = specialist_block m f s" "affordable_block (without_b2 m) f s = affordable_block m f s"
  "planning_block (without_b2 m) f s = planning_block m f s" "no_activity_block (without_b2 m) f s = no_activity_block m f s"
  by (simp_all only: specialist_block_def affordable_block_def planning_block_def no_activity_block_def without_b2_fields)

lemma scale_block_without_b2: "scale_block (without_b2 m) f c s = scale_block m f c s"
  by (simp only: scale_block_def known_block_def uncertain_block_def uncertain_verdict_def without_b2_fields discovery_without_b2
      text_without_b2 scale_without_b2)

lemma core_without_b2: "core_blocks (without_b2 m) f c = core_blocks m f c"
  by (simp only: core_blocks_def blocks_without_b2 scale_block_without_b2)

lemma empty_context_blocks:
  "control_block m empty_context s = s" "geography_block (without_b2 m) c s = s" "acquisition_block (without_b2 m) f c s = s"
  "development_block (without_b2 m) c s = s"
proof -
  have "GEOGRAPHY_UNSPECIFIED \<noteq> GEOGRAPHY_COUNCILS" "DEVELOPMENT_STATE_UNSPECIFIED \<notin> {UNCOMMENCED_PREFERRED, UNDERWAY_ACCEPTABLE, UNDERWAY_PREFERRED}"
    by (simp_all add: vocabulary_defs)
  then show "control_block m empty_context s = s" "geography_block (without_b2 m) c s = s" "acquisition_block (without_b2 m) f c s = s"
    "development_block (without_b2 m) c s = s"
    by (simp_all add: control_block_def empty_context_def geography_block_def acquisition_block_def development_block_def)
qed

text \<open>
  Without a context the four later mandate dimensions are inert: the assessment is, in every list, flag and trace entry, that of
  the same mandate with those dimensions cleared and an empty context.
\<close>

theorem absent_context_inert:
  "assess_buyer_fit m f None = assess_buyer_fit (without_b2 m) f (Some empty_context)"
  by (simp only: assess_buyer_fit_def fit_of_def option.case core_without_b2 empty_context_blocks)

lemma blocking_persists:
  "ft_blocking s \<Longrightarrow> ft_blocking (development_block m c s)" "ft_blocking s \<Longrightarrow> ft_blocking (geography_block m c s)"
  "ft_blocking s \<Longrightarrow> ft_blocking (acquisition_block m f c s)"
proof -
  assume s: "ft_blocking s"
  show "ft_blocking (development_block m c s)" using s by (simp add: development_block_def Let_def)
  show "ft_blocking (geography_block m c s)" using s by (simp add: geography_block_def split: option.split)
  have fold: "ft_blocking (fold (against r) ts t) = ft_blocking t" "ft_blocking t \<Longrightarrow> ft_blocking (fold (blocking r) ts t)" for r ts t
    by (induction ts arbitrary: t) simp_all
  have "ft_blocking (snd (legs m f c s))"
    using s by (simp add: legs_def strategic_leg_def affordable_leg_def homes_leg_def)
  then show "ft_blocking (acquisition_block m f c s)"
    using s by (simp add: acquisition_block_legs Let_def fold)
qed

text \<open>
  Where nothing is known of a delivery opportunity the answer is insufficient evidence for every mandate, with or
  without a context that knows nothing: absence of evidence neither excludes nor confirms.
\<close>

theorem nothing_known_is_insufficient:
  "as_classification (assess_buyer_fit m (delivery_facts ps) None) = INSUFFICIENT_EVIDENCE \<and>
   as_classification (assess_buyer_fit m (delivery_facts ps) (Some empty_context)) = INSUFFICIENT_EVIDENCE"
proof -
  let ?f = "delivery_facts ps"
  have f: "mf_is_specialist ?f = None" "mf_opportunity_type ?f = PLANNING_DELIVERY" "\<not> wholly_affordable ?f"
    "scale_value m ?f = None" "uncertain_scale m ?f = None" "\<not> mf_affordable_percentage_trusted ?f"
    by (simp_all add: delivery_facts_def wholly_affordable_def wholly_by_percentage_def scale_value_def scale_assessment_def uncertain_scale_def)
  have "\<not> specialist_hard m ?f" "\<not> affordable_hard m ?f" "\<not> scale_hard m ?f" "\<not> geography_hard m empty_context" "\<not> acquisition_hard m ?f empty_context"
    using f by (simp_all add: specialist_hard_def affordable_hard_def scale_hard_def geography_hard_def acquisition_hard_def
        no_affordable_content_def empty_context_def started_def)
  then have not: "ft_against (fit_of m ?f None) = []" "ft_against (fit_of m ?f (Some empty_context)) = []"
    using exclusion_iff [of m ?f None] exclusion_iff [of m ?f "Some empty_context"]
    by (auto simp: assess_buyer_fit_def Let_def classify_against)
  have "ft_blocking (core_blocks m ?f c)" for c
    using f(4,5) by (simp add: core_blocks_def control_gap_block_def scale_block_def)
  then have "ft_blocking (fit_of m ?f None)" "ft_blocking (fit_of m ?f (Some empty_context))"
    by (simp_all add: fit_of_def empty_context_blocks(1) blocking_persists)
  with not show ?thesis by (simp add: assess_buyer_fit_def Let_def classify_def)
qed

end
