(* ===== verification/TerminalExclusion.thy ===== *)
theory TerminalExclusion
  imports BuyerFitProperties
begin

text \<open>
  The terminal hard-exclusion allowlist, app/policy/terminal_hard_exclusion.py: which of a buyer fit's exclusion reasons settle
  the matter without a model call. The module's docstring says every reason the matcher can give carries one of six markers;
  \<open>only_uncertain_minimum_escapes\<close> shows that exactly one does not.
\<close>

datatype terminal_reason =
    CONFIRMED_SPECIALIST_USE_EXCLUSION
  | CONFIRMED_WHOLLY_AFFORDABLE_EXCLUSION
  | CONFIRMED_GEOGRAPHY_EXCLUSION
  | CONFIRMED_BELOW_MINIMUM_SCALE_EXCLUSION
  | CONFIRMED_STRATEGIC_LAND_CONTROL_UNDERWAY_AT_VERIFIED_SCOPE
  | CONFIRMED_ZERO_AFFORDABLE_PACKAGE

definition TERMINAL_MARKERS :: "(str \<times> terminal_reason) list" where
  "TERMINAL_MARKERS = [
     (''not the general-needs residential development this buyer requires.'', CONFIRMED_SPECIALIST_USE_EXCLUSION),
     (''not open-market residential development.'', CONFIRMED_WHOLLY_AFFORDABLE_EXCLUSION),
     (''is outside this buyer's explicit geographic boundary ('', CONFIRMED_GEOGRAPHY_EXCLUSION),
     (''below this buyer's minimum requirement of'', CONFIRMED_BELOW_MINIMUM_SCALE_EXCLUSION),
     (''which is fundamentally incompatible with this buyer's strategic-land-control acquisition strategy.'',
        CONFIRMED_STRATEGIC_LAND_CONTROL_UNDERWAY_AT_VERIFIED_SCOPE),
     (''incompatible with this buyer's affordable-housing-package acquisition strategy.'', CONFIRMED_ZERO_AFFORDABLE_PACKAGE)]"

record terminal_result =
  tr_is_terminal :: bool
  tr_reasons :: "terminal_reason list"
  tr_texts :: "str list"
  tr_non_terminal :: "str list"

definition matched_code :: "str \<Rightarrow> terminal_reason option" where
  "matched_code t = map_option snd (find (\<lambda>(marker, code). contains marker t) TERMINAL_MARKERS)"

fun scan_reasons :: "str list \<Rightarrow> terminal_result \<Rightarrow> terminal_result" where
  "scan_reasons [] r = r"
| "scan_reasons (t # ts) r = scan_reasons ts (case matched_code t of
      Some code \<Rightarrow> r\<lparr>tr_reasons := tr_reasons r @ [code], tr_texts := tr_texts r @ [t]\<rparr>
    | None \<Rightarrow> r\<lparr>tr_non_terminal := tr_non_terminal r @ [t]\<rparr>)"

definition classify_terminal_exclusion :: "str list \<Rightarrow> terminal_result" where
  "classify_terminal_exclusion ts =
    (let r = scan_reasons ts \<lparr>tr_is_terminal = False, tr_reasons = [], tr_texts = [], tr_non_terminal = []\<rparr> in
     r\<lparr>tr_is_terminal := tr_reasons r \<noteq> []\<rparr>)"

lemma scan_reasons_filter:
  "tr_reasons (scan_reasons ts r) = tr_reasons r @ List.map_filter matched_code ts"
  "tr_texts (scan_reasons ts r) = tr_texts r @ filter (\<lambda>t. matched_code t \<noteq> None) ts"
  "tr_non_terminal (scan_reasons ts r) = tr_non_terminal r @ filter (\<lambda>t. matched_code t = None) ts"
  by (induction ts arbitrary: r) (auto simp: List.map_filter_def split: option.split)

lemma matched_code_iff: "(matched_code t = None) = (\<forall>m\<in>set (map fst TERMINAL_MARKERS). \<not> contains m t)"
  by (auto simp: matched_code_def find_None_iff)

lemma marker_matches: "m \<in> set (map fst TERMINAL_MARKERS) \<Longrightarrow> contains m t \<Longrightarrow> matched_code t \<noteq> None"
  by (auto simp: matched_code_iff)

section \<open>The reasons the matcher can give\<close>

lemma marker_specialist: "matched_code (txt_specialist_exclusion u) \<noteq> None"
proof (rule marker_matches)
  show "''not the general-needs residential development this buyer requires.'' \<in> set (map fst TERMINAL_MARKERS)"
    by (simp add: TERMINAL_MARKERS_def)
  have "contains ''not the general-needs residential development this buyer requires.''
      ''), not the general-needs residential development this buyer requires.''" by code_simp
  then show "contains ''not the general-needs residential development this buyer requires.'' (txt_specialist_exclusion u)"
    unfolding txt_specialist_exclusion_def by (intro contains_suffixI)
qed

lemma marker_wholly: "matched_code (txt_affordable_wholly_exclusion d) \<noteq> None"
proof (rule marker_matches)
  show "''not open-market residential development.'' \<in> set (map fst TERMINAL_MARKERS)"
    by (simp add: TERMINAL_MARKERS_def)
  have "contains ''not open-market residential development.''
      '' affordable-led scheme, not open-market residential development.''" by code_simp
  then show "contains ''not open-market residential development.'' (txt_affordable_wholly_exclusion d)"
    unfolding txt_affordable_wholly_exclusion_def by (intro contains_suffixI)
qed

lemma marker_geography: "matched_code (txt_geography_exclusion k ks) \<noteq> None"
proof (rule marker_matches)
  show "''is outside this buyer's explicit geographic boundary ('' \<in> set (map fst TERMINAL_MARKERS)"
    by (simp add: TERMINAL_MARKERS_def)
  have "contains ''is outside this buyer's explicit geographic boundary (''
      '') is outside this buyer's explicit geographic boundary (''" by code_simp
  from contains_suffixI [OF contains_suffixI [OF contains_prefixI [OF this]]]
  show "contains ''is outside this buyer's explicit geographic boundary ('' (txt_geography_exclusion k ks)"
    unfolding txt_geography_exclusion_def by blast
qed

lemma marker_minimum: "matched_code (txt_scale_hard_minimum n noun lo) \<noteq> None"
proof (rule marker_matches)
  show "''below this buyer's minimum requirement of'' \<in> set (map fst TERMINAL_MARKERS)"
    by (simp add: TERMINAL_MARKERS_def)
  have "contains ''below this buyer's minimum requirement of'' '', below this buyer's minimum requirement of ''" by code_simp
  from contains_suffixI [OF contains_suffixI [OF contains_suffixI [OF contains_suffixI [OF contains_prefixI [OF this]]]]]
  show "contains ''below this buyer's minimum requirement of'' (txt_scale_hard_minimum n noun lo)"
    unfolding txt_scale_hard_minimum_def by blast
qed

lemma marker_acquisition: "matched_code txt_acq_underway_hard \<noteq> None" "matched_code txt_acq_zero_affordable \<noteq> None"
  by code_simp+

lemma no_marker: "matched_code txt_scale_hard_minimum_uncertain = None"
  by code_simp

definition terminal_text :: "str \<Rightarrow> bool" where
  "terminal_text t = (matched_code t \<noteq> None \<or> t = txt_scale_hard_minimum_uncertain)"

lemma terminal_texts [simp]: "terminal_text (txt_specialist_exclusion u)" "terminal_text (txt_affordable_wholly_exclusion d)"
  "terminal_text (txt_geography_exclusion k ks)" "terminal_text (txt_scale_hard_minimum n noun lo)" "terminal_text txt_acq_underway_hard"
  "terminal_text txt_acq_zero_affordable" "terminal_text txt_scale_hard_minimum_uncertain"
  using marker_specialist marker_wholly marker_geography marker_minimum marker_acquisition by (simp_all add: terminal_text_def)

definition all_terminal :: "fit \<Rightarrow> bool" where
  "all_terminal s = list_all terminal_text (ft_against s)"

lemma core_terminal: "all_terminal (core_blocks m f c)"
proof -
  have "all_terminal (specialist_block m f empty_fit)"
    by (simp add: specialist_block_def all_terminal_def split: option.split bool.split)
  then have "all_terminal (affordable_block m f (specialist_block m f empty_fit))"
    by (simp add: affordable_block_def all_terminal_def)
  then have s: "all_terminal (no_activity_block m f (proposal_block f (planning_block m f (affordable_block m f (specialist_block m f empty_fit)))))"
    by (simp add: all_terminal_def)
  have known: "all_terminal s \<Longrightarrow> all_terminal (known_block m f c n s)" for n s
    by (simp add: known_block_def all_terminal_def Let_def)
  have uncertain: "all_terminal s \<Longrightarrow> all_terminal (uncertain_block m f c a s)" for a s
    by (simp add: uncertain_block_def uncertain_verdict_def all_terminal_def Let_def)
  have "all_terminal s \<Longrightarrow> all_terminal (scale_block m f c s)" for s
    unfolding scale_block_def using known uncertain
    by (auto simp: strategic_range_block_def split: option.split) (simp_all add: all_terminal_def)
  with s show ?thesis by (simp add: core_blocks_def) (simp add: all_terminal_def)
qed

lemma acquisition_texts: "set (ac_hard (fst (legs m f c s))) \<subseteq> {txt_acq_underway_hard, txt_acq_zero_affordable}"
  by (simp add: legs_def homes_leg_facts(2)) (auto simp: strategic_leg_def affordable_leg_def split: if_splits)

lemma acquisition_terminal: "all_terminal s \<Longrightarrow> all_terminal (acquisition_block m f c s)"
proof -
  assume s: "all_terminal s"
  have "list_all terminal_text (ac_hard (fst (legs m f c s)))"
    using acquisition_texts [of m f c s] by (auto simp: list_all_iff)
  with s show ?thesis
    by (simp add: acquisition_block_legs Let_def all_terminal_def legs_facts(3))
qed

lemma fit_terminal: "all_terminal (fit_of m f ctx)"
proof (cases ctx)
  case None
  then show ?thesis by (simp add: fit_of_def core_terminal)
next
  case (Some c)
  have "all_terminal (geography_block m c (core_blocks m f c))"
    using core_terminal [of m f c] by (simp add: geography_block_def all_terminal_def split: option.split)
  then show ?thesis
    using acquisition_terminal by (simp add: fit_of_def Some) (simp add: all_terminal_def)
qed

text \<open>
  C7. Every exclusion reason the matcher gives for any mandate, facts and context is recognised by the terminal allowlist, except the
  reason for an uncertain scale below a hard minimum, which the allowlist never recognises: an assessment with any other
  reason is terminal, and the split loses no reason.
\<close>

theorem only_uncertain_minimum_escapes:
  "let ts = as_does_not_match (assess_buyer_fit m f ctx); r = classify_terminal_exclusion ts in
     set (tr_non_terminal r) \<subseteq> {txt_scale_hard_minimum_uncertain} \<and> txt_scale_hard_minimum_uncertain \<notin> set (tr_texts r) \<and>
     set ts = set (tr_texts r) \<union> set (tr_non_terminal r) \<and> length (tr_reasons r) = length (tr_texts r) \<and>
     tr_is_terminal r = (set ts - {txt_scale_hard_minimum_uncertain} \<noteq> {})"
proof -
  define ts where "ts = ft_against (fit_of m f ctx)"
  have t: "\<forall>t\<in>set ts. terminal_text t" using fit_terminal [of m f ctx] by (simp add: ts_def all_terminal_def list_all_iff)
  have len: "length (List.map_filter matched_code ts) = length (filter (\<lambda>t. matched_code t \<noteq> None) ts)"
    by (simp add: List.map_filter_def)
  have ne: "(List.map_filter matched_code ts \<noteq> []) = (set ts - {txt_scale_hard_minimum_uncertain} \<noteq> {})"
  proof -
    have "(List.map_filter matched_code ts \<noteq> []) = (\<exists>t\<in>set ts. matched_code t \<noteq> None)"
      by (auto simp: List.map_filter_def filter_empty_conv)
    also have "\<dots> = (set ts - {txt_scale_hard_minimum_uncertain} \<noteq> {})"
      using t no_marker by (auto simp: terminal_text_def)
    finally show ?thesis .
  qed
  show ?thesis
    using t no_marker len ne
    by (auto simp: assess_buyer_fit_def Let_def classify_terminal_exclusion_def scan_reasons_filter ts_def [symmetric] terminal_text_def)
qed

text \<open>The gap is real: a mandate with a hard minimum in total homes is excluded by a range below it, and the exclusion is not terminal.\<close>

definition hard_minimum_mandate :: mandate where
  "hard_minimum_mandate = NESTEN_HOMES\<lparr>m_below_minimum_scale_is_exclusion := True\<rparr>"

definition small_range_facts :: matching_facts where
  "small_range_facts = (delivery_facts PERMISSION_GRANTED)\<lparr>mf_is_specialist := Some False, mf_count_assessment := Some
     ((base_assessment ''phase'' ''Phase 1'' ''S1'' total_residential [] None [])\<lparr>ca_precision := RANGE, ca_lower := Some 10, ca_upper := Some 20\<rparr>)\<rparr>"

text \<open>
  An excluded opportunity can escape the allowlist: for a mandate with a hard minimum of 50 homes and evidence of 10 to 20, the
  fit is not suitable while the allowlist finds nothing terminal.
\<close>

theorem exclusion_not_always_terminal:
  "as_classification (assess_buyer_fit hard_minimum_mandate small_range_facts None) = NOT_SUITABLE \<and>
   \<not> tr_is_terminal (classify_terminal_exclusion (as_does_not_match (assess_buyer_fit hard_minimum_mandate small_range_facts None)))"
  by code_simp

end
