(* ===== verification/MandateInterpretation.thy ===== *)
theory MandateInterpretation
  imports BuyerFitProperties
begin

text \<open>
  Mandate interpretation: app/policy/mandate_interpretation.py, a reading of each dimension of a mandate as a hard
  constraint, target, preference, tolerance, exclusion or investigation condition. The theorem compares the reading with what
  \<open>assess_buyer_fit\<close> does. The category check of \<open>__post_init__\<close> is the type \<open>category\<close>.
\<close>

datatype category = HARD_CONSTRAINT | TARGET | PREFERENCE | TOLERANCE | EXCLUSION | INVESTIGATION_CONDITION

record dimension =
  md_dimension :: str
  md_category :: category
  md_active :: bool
  md_explanation :: str

definition MANDATE_INTERPRETATION_POLICY_VERSION :: int where
  "MANDATE_INTERPRETATION_POLICY_VERSION = 1"

section \<open>The dimensions\<close>

definition mk_dimension :: "str \<Rightarrow> category \<Rightarrow> bool \<Rightarrow> str \<Rightarrow> dimension" where
  "mk_dimension d c a e = \<lparr>md_dimension = d, md_category = c, md_active = a, md_explanation = e\<rparr>"

definition classify_scale :: "mandate \<Rightarrow> dimension \<times> dimension" where
  "classify_scale m = (let metric = (if m_scale_metric m = AFFORDABLE_UNITS then ''affordable homes'' else ''total homes'');
     hard = m_below_minimum_scale_is_exclusion m in
    (mk_dimension ''target_unit_min'' (if hard then HARD_CONSTRAINT else TARGET) hard
       (if hard then ''A scheme below '' @ int_str (m_target_unit_min m) @ '' '' @ metric @ '' is a genuine hard exclusion for this buyer.''
        else ''A scheme below '' @ int_str (m_target_unit_min m) @ '' '' @ metric @ '' is a soft/contextual signal for this buyer, never a disqualifying fact on its own.''),
     mk_dimension ''target_unit_max'' TARGET False
       (''A scheme above '' @ int_str (m_target_unit_max m) @ '' '' @ metric @ '' is a soft/contextual signal, worth investigating (e.g. for a suitable phase/parcel), never a disqualifying fact on its own - no current mandate has a hard maximum, and this module does not add one.'')))"

definition classify_accepted_planning_states :: "mandate \<Rightarrow> dimension" where
  "classify_accepted_planning_states m = mk_dimension ''accepted_planning_states'' PREFERENCE (m_accepted_planning_states m \<noteq> {})
     ''A planning state outside this set is a soft signal (unknown/context), never a disqualifying fact on its own.''"

definition classify_specialist_development_exclusion :: "mandate \<Rightarrow> dimension" where
  "classify_specialist_development_exclusion m = mk_dimension ''specialist_development_is_exclusion'' EXCLUSION (m_specialist_development_is_exclusion m)
     (if m_specialist_development_is_exclusion m then ''A confirmed specialist development is a hard exclusion for this buyer.''
      else ''Specialist development status is not configured as an exclusion for this buyer.'')"

definition classify_wholly_affordable_exclusion :: "mandate \<Rightarrow> dimension" where
  "classify_wholly_affordable_exclusion m = mk_dimension ''wholly_affordable_is_exclusion'' EXCLUSION (m_wholly_affordable_is_exclusion m)
     (if m_wholly_affordable_is_exclusion m then ''A confirmed wholly-affordable scheme is a hard exclusion for this buyer.''
      else ''Wholly-affordable status is not configured as an exclusion for this buyer.'')"

definition classify_treats_no_activity_as_positive :: "mandate \<Rightarrow> dimension" where
  "classify_treats_no_activity_as_positive m = mk_dimension ''treats_no_activity_as_positive'' PREFERENCE (m_treats_no_activity_as_positive m)
     (if m_treats_no_activity_as_positive m then ''No identified planning activity on a strategic land allocation reads as a positive signal for this buyer.''
      else ''This buyer has not stated a preference for early-stage, activity-free allocations.'')"

definition classify_large_allocation_self_qualifying :: "mandate \<Rightarrow> dimension" where
  "classify_large_allocation_self_qualifying m = mk_dimension ''large_allocation_is_self_qualifying'' TOLERANCE (m_large_allocation_is_self_qualifying m)
     (if m_large_allocation_is_self_qualifying m then ''An oversized strategic land allocation is read as a meaningful position in its own right for this buyer, independent of a confirmed smaller parcel.''
      else ''An oversized strategic land allocation is read the same as any other oversized opportunity for this buyer (see target_unit_max).'')"

definition classify_geography :: "mandate \<Rightarrow> dimension" where
  "classify_geography m = (let active = m_geography_scope m = GEOGRAPHY_COUNCILS in
     mk_dimension ''geography_scope'' HARD_CONSTRAINT active
       (if active then ''A council outside '' @ list_repr (sorted_list_of_set (m_geography_councils m)) @ '' is a hard exclusion for this buyer.''
        else ''This buyer has not stated a geographic boundary that excludes anything.''))"

definition classify_development_state_appetite :: "mandate \<Rightarrow> dimension" where
  "classify_development_state_appetite m = mk_dimension ''development_state_appetite'' PREFERENCE
     (m_development_state_appetite m \<noteq> DEVELOPMENT_STATE_UNSPECIFIED)
     (''This buyer's stated development-state appetite is '' @ py_repr (m_development_state_appetite m) @ '' - a leaning, never an exclusion.'')"

definition classify_control_appetite :: "mandate \<Rightarrow> dimension" where
  "classify_control_appetite m = mk_dimension ''control_appetite'' INVESTIGATION_CONDITION (m_control_appetite m \<noteq> {})
     (''This buyer is willing to investigate: '' @
      (if m_control_appetite m = {} then ''(none stated)'' else list_repr (sorted_list_of_set (m_control_appetite m))) @
      '' rather than treating unresolved ownership/control as a rejection reason.'')"

record interpretation_v1 =
  mi_policy_version :: int
  mi_scale_minimum :: dimension
  mi_scale_maximum :: dimension
  mi_accepted_planning_states :: dimension
  mi_specialist_development_exclusion :: dimension
  mi_wholly_affordable_exclusion :: dimension
  mi_treats_no_activity_as_positive :: dimension
  mi_large_allocation_self_qualifying :: dimension
  mi_geography :: dimension
  mi_development_state_appetite :: dimension
  mi_control_appetite :: dimension

definition classify_mandate :: "mandate \<Rightarrow> interpretation_v1" where
  "classify_mandate m =
    \<lparr>mi_policy_version = MANDATE_INTERPRETATION_POLICY_VERSION,
     mi_scale_minimum = fst (classify_scale m),
     mi_scale_maximum = snd (classify_scale m),
     mi_accepted_planning_states = classify_accepted_planning_states m,
     mi_specialist_development_exclusion = classify_specialist_development_exclusion m,
     mi_wholly_affordable_exclusion = classify_wholly_affordable_exclusion m,
     mi_treats_no_activity_as_positive = classify_treats_no_activity_as_positive m,
     mi_large_allocation_self_qualifying = classify_large_allocation_self_qualifying m,
     mi_geography = classify_geography m,
     mi_development_state_appetite = classify_development_state_appetite m,
     mi_control_appetite = classify_control_appetite m\<rparr>"

definition resolve_acquisition_types :: "mandate \<Rightarrow> str set" where
  "resolve_acquisition_types m = m_acquisition_types m"

section \<open>The reading against the classifier\<close>

text \<open>A dimension that may exclude: of an excluding category, and active.\<close>

definition excludes :: "dimension \<Rightarrow> bool" where
  "excludes d = (md_active d \<and> (md_category d = HARD_CONSTRAINT \<or> md_category d = EXCLUSION))"

definition soft_dimensions :: "interpretation_v1 \<Rightarrow> dimension list" where
  "soft_dimensions i = [mi_scale_maximum i, mi_accepted_planning_states i, mi_treats_no_activity_as_positive i,
     mi_large_allocation_self_qualifying i, mi_development_state_appetite i, mi_control_appetite i]"

definition below_minimum :: "mandate \<Rightarrow> matching_facts \<Rightarrow> bool" where
  "below_minimum m f = (case scale_value m f of
      Some n \<Rightarrow> n < m_target_unit_min m
    | None \<Rightarrow> (case uncertain_scale m f of None \<Rightarrow> False
        | Some a \<Rightarrow> \<not> strategic_range m f a \<and> within_hard_bounds (Some (m_target_unit_min m)) None a = Some False))"

definition outside_councils :: "mandate \<Rightarrow> b2_context option \<Rightarrow> bool" where
  "outside_councils m ctx = (case ctx of None \<Rightarrow> False | Some c \<Rightarrow>
     (case bc_council_code c of None \<Rightarrow> False | Some k \<Rightarrow> k \<notin> m_geography_councils m))"

definition acquisition_contradicted :: "mandate \<Rightarrow> matching_facts \<Rightarrow> b2_context option \<Rightarrow> bool" where
  "acquisition_contradicted m f ctx = (case ctx of None \<Rightarrow> False | Some c \<Rightarrow> acquisition_hard m f c)"

lemma excludes_dimensions [simp]:
  "excludes (mi_scale_minimum (classify_mandate m)) = m_below_minimum_scale_is_exclusion m"
  "excludes (mi_specialist_development_exclusion (classify_mandate m)) = m_specialist_development_is_exclusion m"
  "excludes (mi_wholly_affordable_exclusion (classify_mandate m)) = m_wholly_affordable_is_exclusion m"
  "excludes (mi_geography (classify_mandate m)) = (m_geography_scope m = GEOGRAPHY_COUNCILS)"
  by (simp_all add: excludes_def classify_mandate_def classify_scale_def mk_dimension_def Let_def
      classify_specialist_development_exclusion_def classify_wholly_affordable_exclusion_def classify_geography_def)

lemma soft_never_excludes: "filter excludes (soft_dimensions (classify_mandate m)) = []"
  by (simp add: soft_dimensions_def excludes_def classify_mandate_def classify_scale_def mk_dimension_def Let_def
      classify_accepted_planning_states_def classify_treats_no_activity_as_positive_def classify_large_allocation_self_qualifying_def
      classify_development_state_appetite_def classify_control_appetite_def)

text \<open>
  The interpretation of a mandate governs its exclusions: a buyer is excluded exactly through a dimension read as an active constraint or exclusion
  (specialist use, wholly affordable, below the minimum, outside the councils) or through the two rules the reading leaves out, a
  specialist or non-residential use of a strategic allocation, excluded for every mandate, and a contradicted acquisition type. The other six dimensions never exclude.
\<close>

theorem interpretation_governs_exclusion:
  "(as_classification (assess_buyer_fit m f ctx) = NOT_SUITABLE) =
    (excludes (mi_specialist_development_exclusion (classify_mandate m)) \<and> mf_is_specialist f = Some True \<or>
     excludes (mi_wholly_affordable_exclusion (classify_mandate m)) \<and> wholly_affordable f \<or>
     excludes (mi_scale_minimum (classify_mandate m)) \<and> below_minimum m f \<or>
     excludes (mi_geography (classify_mandate m)) \<and> outside_councils m ctx \<or>
     mf_opportunity_type f = STRATEGIC_LAND \<and> mf_is_specialist f = Some True \<or> acquisition_contradicted m f ctx) \<and>
   filter excludes (soft_dimensions (classify_mandate m)) = []"
  unfolding exclusion_iff soft_never_excludes excludes_dimensions
  by (cases ctx) (auto simp: specialist_hard_def affordable_hard_def scale_hard_def geography_hard_def below_minimum_def outside_councils_def
      acquisition_contradicted_def)

definition demo_employment :: matching_facts where
  "demo_employment = (delivery_facts ADOPTED_ALLOCATION)\<lparr>mf_opportunity_type := STRATEGIC_LAND, mf_is_specialist := Some True\<rparr>"

text \<open>The reading calls the specialist exclusion inactive for this mandate, and the mandate is excluded by it.\<close>

lemma inactive_exclusion_excludes:
  "\<not> md_active (mi_specialist_development_exclusion (classify_mandate HOUSING_ASSOCIATION)) \<and>
   as_classification (assess_buyer_fit HOUSING_ASSOCIATION demo_employment None) = NOT_SUITABLE"
  by code_simp

end

