(* ===== verification/OpportunityMonitoring.thy ===== *)
theory OpportunityMonitoring
  imports Json SubjectIdentity
begin

text \<open>
  The monitoring of opportunities (app/reporting/opportunity_change.py) over the universe of current ones (app/reporting/opportunity_universe.py): fingerprints, the
  classification of every opportunity against what was last seen, the sync that persists it and the preview that only reports it. The table is a list of rows keyed by id; SHA-256
  is the parameter \<open>sha\<close>, the clock the argument \<open>now\<close>. The universe is an argument; the paging that reads its strategic part is \<open>strategic_pages\<close>.
\<close>

section \<open>Fingerprints\<close>

text \<open>\<open>json.dumps(v, sort_keys=True)\<close>, with the default separators.\<close>

primrec dumps_default :: "json \<Rightarrow> str" where
  "dumps_default JNull = ''null''"
| "dumps_default (JBool b) = (if b then ''true'' else ''false'')"
| "dumps_default (JInt i) = int_str i"
| "dumps_default (JFloat t q) = t"
| "dumps_default (JStr s) = json_str s"
| "dumps_default (JArr vs) = ''['' @ join '', '' (map dumps_default vs) @ '']''"
| "dumps_default (JObj fs) = CHR ''{'' #
     join '', '' (map (\<lambda>(k, t). json_str k @ '': '' @ t) (sort_key fst (map (map_prod id dumps_default) fs))) @ ''}''"

text \<open>A field of a fingerprint: a value JSON has, or a date, which \<open>default=str\<close> writes as its text.\<close>

datatype field_value = FJson json | FDate str

type_synonym fact_fields = "(str \<times> field_value) list"

fun as_json :: "field_value \<Rightarrow> json" where
  "as_json (FJson v) = v"
| "as_json (FDate t) = JStr t"

definition json_fields :: "fact_fields \<Rightarrow> (str \<times> json) list" where
  "json_fields fs = map (map_prod id as_json) fs"

definition compute_opportunity_fingerprint :: "(str \<Rightarrow> str) \<Rightarrow> fact_fields \<Rightarrow> str" where
  "compute_opportunity_fingerprint sha fs = sha (dumps_default (JObj (json_fields fs)))"

text \<open>Python's equality of two JSON values: numbers and truth values by value, objects whatever the order of their fields.\<close>

primrec py_norm :: "json \<Rightarrow> json" where
  "py_norm JNull = JNull"
| "py_norm (JBool b) = JFloat [] (if b then 1 else 0)"
| "py_norm (JInt i) = JFloat [] (of_int i)"
| "py_norm (JFloat t q) = JFloat [] q"
| "py_norm (JStr s) = JStr s"
| "py_norm (JArr vs) = JArr (map py_norm vs)"
| "py_norm (JObj fs) = JObj (sort_key fst (map (map_prod id py_norm) fs))"

text \<open>A date read into Python is not equal to the text it was stored as.\<close>

fun same_value :: "json \<Rightarrow> field_value \<Rightarrow> bool" where
  "same_value old (FJson v) = (py_norm old = py_norm v)"
| "same_value old (FDate t) = False"

section \<open>Reasons\<close>

datatype change_code = UNIT_COUNT_CHANGED | AFFORDABLE_UNIT_COUNT_CHANGED | DEVELOPMENT_TYPE_CHANGED | PLANNING_STATUS_CHANGED | DECISION_CHANGED
  | PLANNING_ACTIVITY_CHANGED | PHASING_EVIDENCE_CHANGED | ALLOCATION_STATUS_CHANGED | LAPSE_STATUS_CHANGED | BUILD_STATUS_CHANGED
  | OWNERSHIP_EVIDENCE_CHANGED | GREEN_BELT_STATUS_CHANGED | SITE_AREA_CHANGED | OTHER_FACT_CHANGED

definition REASON_BY_FIELD :: "(str \<times> change_code) list" where
  "REASON_BY_FIELD = [(''unit_count'', UNIT_COUNT_CHANGED), (''affordable_unit_count'', AFFORDABLE_UNIT_COUNT_CHANGED),
     (''development_type_raw'', DEVELOPMENT_TYPE_CHANGED), (''is_specialist_development'', DEVELOPMENT_TYPE_CHANGED),
     (''planning_state'', PLANNING_STATUS_CHANGED), (''plan_status_bucket'', ALLOCATION_STATUS_CHANGED),
     (''has_identified_planning_activity'', PLANNING_ACTIVITY_CHANGED), (''has_phasing_evidence'', PHASING_EVIDENCE_CHANGED), (''decision'', DECISION_CHANGED),
     (''status'', PLANNING_STATUS_CHANGED), (''lapse_status'', LAPSE_STATUS_CHANGED), (''deadline'', LAPSE_STATUS_CHANGED),
     (''build_status'', BUILD_STATUS_CHANGED), (''ownership_evidence_count'', OWNERSHIP_EVIDENCE_CHANGED), (''green_belt_status'', GREEN_BELT_STATUS_CHANGED),
     (''site_area_hectares'', SITE_AREA_CHANGED), (''matched_to_site'', OWNERSHIP_EVIDENCE_CHANGED)]"

definition reason_of :: "str \<Rightarrow> change_code" where
  "reason_of key = opt_or (map_of REASON_BY_FIELD key) OTHER_FACT_CHANGED"

definition differs :: "(str \<times> json) list \<Rightarrow> fact_fields \<Rightarrow> str \<Rightarrow> bool" where
  "differs old new key = (\<not> same_value (opt_or (map_of old key) JNull) (opt_or (map_of new key) (FJson JNull)))"

definition diff_reasons :: "(str \<times> json) list \<Rightarrow> fact_fields \<Rightarrow> change_code list" where
  "diff_reasons old new = foldl (\<lambda>rs key. if differs old new key \<and> reason_of key \<notin> set rs then rs @ [reason_of key] else rs) []
     (sorted_set (map fst old @ map fst new))"

section \<open>Classification\<close>

datatype change_class = BASELINE_EXISTING | NEW | MATERIALLY_CHANGED | UNCHANGED

record opportunity =
  op_id :: str
  op_type :: str
  op_fields :: fact_fields

text \<open>A row: \<open>mo_fields\<close> is what its stored text reads back as, \<open>None\<close> where there is none.\<close>

record monitoring_row =
  mo_id :: str
  mo_type :: str
  mo_fingerprint :: str
  mo_fields :: "(str \<times> json) list option"
  mo_change_at :: "int option"
  mo_class :: change_class
  mo_reasons :: "change_code list option"

record change_result =
  cr_class :: change_class
  cr_reasons :: "change_code list"
  cr_fingerprint :: str

definition classify_opportunity_change :: "(str \<Rightarrow> str) \<Rightarrow> opportunity \<Rightarrow> monitoring_row option \<Rightarrow> bool \<Rightarrow> change_result" where
  "classify_opportunity_change sha r prev baseline =
    (let fp = compute_opportunity_fingerprint sha (op_fields r); result = (\<lambda>c rs. \<lparr>cr_class = c, cr_reasons = rs, cr_fingerprint = fp\<rparr>) in
     case prev of None \<Rightarrow> result (if baseline then BASELINE_EXISTING else NEW) []
     | Some p \<Rightarrow> if mo_fingerprint p = fp then result UNCHANGED []
         else (let rs = diff_reasons (opt_or (mo_fields p) []) (op_fields r) in result MATERIALLY_CHANGED (if rs = [] then [OTHER_FACT_CHANGED] else rs)))"

section \<open>Detectors\<close>

datatype monitoring_error = UnparseableOpportunityId | DuplicateRow

definition monitored_shape :: "str list \<Rightarrow> bool" where
  "monitored_shape parts =
    (let domain = parts ! 0; kind = parts ! 1 in
     if domain = STRATEGIC_LAND_ID then kind = ''allocation'' \<and> length parts = 3
     else if domain = PLANNING_DELIVERY_ID then
       (if kind \<in> set LIFECYCLE_KINDS then length parts = 3
        else if kind = ''phase'' \<or> kind \<in> set (map fst NEW_KINDS) then 4 \<le> length parts \<and> join '':'' (drop 3 parts) \<noteq> []
        else False)
     else False)"

definition opportunity_detector_identity :: "str \<Rightarrow> monitoring_error + str" where
  "opportunity_detector_identity oid =
    (let parts = split_on CHR '':'' oid in
     if oid = [] \<or> length parts < 3 \<or> parts ! 2 = [] \<or> \<not> list_all is_digit (parts ! 2) then Inl UnparseableOpportunityId
     else if \<not> monitored_shape parts then Inl UnparseableOpportunityId
     else Inr (parts ! 0 @ '':'' @ parts ! 1))"

text \<open>\<open>s.rsplit(":", 1)[0]\<close>\<close>

definition legacy_kind_prefix :: "str \<Rightarrow> str" where
  "legacy_kind_prefix oid = (if CHR '':'' \<in> set oid then rev (tl (dropWhile (\<lambda>c. c \<noteq> CHR '':'') (rev oid))) else oid)"

definition tracked_detector_identities :: "str list \<Rightarrow> str list" where
  "tracked_detector_identities ids = map (\<lambda>i. case opportunity_detector_identity i of Inr d \<Rightarrow> d | Inl _ \<Rightarrow> legacy_kind_prefix i) ids"

fun all_identities :: "opportunity list \<Rightarrow> monitoring_error + str list" where
  "all_identities [] = Inr []"
| "all_identities (r # rs) = (case opportunity_detector_identity (op_id r) of Inl e \<Rightarrow> Inl e
     | Inr d \<Rightarrow> (case all_identities rs of Inl e \<Rightarrow> Inl e | Inr ds \<Rightarrow> Inr (d # ds)))"

type_synonym table = "(str \<times> monitoring_row) list"

type_synonym plan_entry = "opportunity \<times> monitoring_row option \<times> change_result"

definition plan_opportunity_changes :: "(str \<Rightarrow> str) \<Rightarrow> opportunity list \<Rightarrow> table \<Rightarrow> str list \<Rightarrow> monitoring_error + plan_entry list" where
  "plan_opportunity_changes sha universe existing tracked =
    (case all_identities universe of Inl e \<Rightarrow> Inl e
     | Inr ds \<Rightarrow> Inr (map (\<lambda>(r, d). let prev = map_of existing (op_id r) in (r, prev, classify_opportunity_change sha r prev (d \<notin> set tracked))) (zip universe ds)))"

section \<open>The sync\<close>

definition build_sync_plan :: "(str \<Rightarrow> str) \<Rightarrow> opportunity list \<Rightarrow> table \<Rightarrow> monitoring_error + plan_entry list" where
  "build_sync_plan sha universe t =
     plan_opportunity_changes sha universe (filter (\<lambda>(i, row). i \<in> set (map op_id universe)) t) (tracked_detector_identities (map fst t))"

definition stored_fields :: "fact_fields \<Rightarrow> (str \<times> json) list option" where
  "stored_fields fs = (case canon (JObj (json_fields fs)) of JObj gs \<Rightarrow> Some gs | _ \<Rightarrow> None)"

definition new_row :: "opportunity \<Rightarrow> change_result \<Rightarrow> monitoring_row" where
  "new_row r c = \<lparr>mo_id = op_id r, mo_type = op_type r, mo_fingerprint = cr_fingerprint c, mo_fields = stored_fields (op_fields r),
     mo_change_at = None, mo_class = cr_class c, mo_reasons = None\<rparr>"

definition updated_row :: "int \<Rightarrow> opportunity \<Rightarrow> change_result \<Rightarrow> monitoring_row \<Rightarrow> monitoring_row" where
  "updated_row now r c row =
    (let kept = row\<lparr>mo_fingerprint := cr_fingerprint c, mo_fields := stored_fields (op_fields r), mo_class := cr_class c\<rparr> in
     if cr_class c = MATERIALLY_CHANGED then kept\<lparr>mo_change_at := Some now, mo_reasons := Some (cr_reasons c)\<rparr> else kept)"

fun update_row :: "str \<Rightarrow> (monitoring_row \<Rightarrow> monitoring_row) \<Rightarrow> table \<Rightarrow> table" where
  "update_row i f [] = []"
| "update_row i f ((j, row) # t) = (if i = j then (j, f row) # t else (j, row) # update_row i f t)"

text \<open>Ids are unique in the table: a second new row for one id fails the commit.\<close>

fun apply_plan :: "int \<Rightarrow> plan_entry list \<Rightarrow> table \<Rightarrow> monitoring_error + table" where
  "apply_plan now [] t = Inr t"
| "apply_plan now ((r, prev, c) # ps) t =
    (if prev = None then (if op_id r \<in> set (map fst t) then Inl DuplicateRow else apply_plan now ps (t @ [(op_id r, new_row r c)]))
     else apply_plan now ps (update_row (op_id r) (updated_row now r c) t))"

record sync_counts =
  sy_considered :: nat
  sy_baseline :: nat
  sy_new :: nat
  sy_changed :: nat
  sy_unchanged :: nat

definition count_class :: "change_class \<Rightarrow> plan_entry list \<Rightarrow> nat" where
  "count_class c plan = length (filter (\<lambda>(r, prev, x). cr_class x = c) plan)"

definition sync_opportunity_monitoring_state :: "(str \<Rightarrow> str) \<Rightarrow> int \<Rightarrow> opportunity list \<Rightarrow> table \<Rightarrow> monitoring_error + table \<times> sync_counts" where
  "sync_opportunity_monitoring_state sha now universe t =
    (case build_sync_plan sha universe t of Inl e \<Rightarrow> Inl e
     | Inr plan \<Rightarrow> (case apply_plan now plan t of Inl e \<Rightarrow> Inl e
       | Inr t' \<Rightarrow> Inr (t', \<lparr>sy_considered = length universe, sy_baseline = count_class BASELINE_EXISTING plan, sy_new = count_class NEW plan,
           sy_changed = count_class MATERIALLY_CHANGED plan, sy_unchanged = count_class UNCHANGED plan\<rparr>)))"

section \<open>The preview\<close>

text \<open>\<open>json.loads(json.dumps(fields, sort_keys=True, default=str))\<close> on both sides: here a date is compared as its text.\<close>

definition preview_fields :: "monitoring_row \<Rightarrow> opportunity \<Rightarrow> (str \<times> json \<times> json) list" where
  "preview_fields p r = (let old = opt_or (mo_fields p) []; new = opt_or (stored_fields (op_fields r)) []; get = (\<lambda>fs k. opt_or (map_of fs k) JNull) in
     map (\<lambda>k. (k, get old k, get new k)) (filter (\<lambda>k. py_norm (get old k) \<noteq> py_norm (get new k)) (sorted_set (map fst old @ map fst new))))"

record previewed_change =
  pc_id :: str
  pc_detector :: str
  pc_class :: change_class
  pc_reasons :: "change_code list"
  pc_previous :: "str option"
  pc_fingerprint :: str
  pc_fields :: "(str \<times> json \<times> json) list"

record detector_bucket =
  db_current :: nat
  db_tracked :: bool
  db_classes :: "(change_class \<times> nat) list"

record sync_preview =
  pv_current :: nat
  pv_tracked :: nat
  pv_predicted :: "(change_class \<times> nat) list"
  pv_detectors :: "str list"
  pv_by_detector :: "(str \<times> detector_bucket) list"
  pv_baseline_detectors :: "str list"
  pv_partial :: "(str \<times> str list) list"
  pv_reasons :: "change_code \<Rightarrow> nat"
  pv_untracked :: "str list"
  pv_retired :: "str list"
  pv_changes :: "previewed_change list"

definition CLASSIFICATIONS :: "change_class list" where
  "CLASSIFICATIONS = [BASELINE_EXISTING, NEW, UNCHANGED, MATERIALLY_CHANGED]"

definition detector_of :: "plan_entry \<Rightarrow> str" where
  "detector_of e = (case opportunity_detector_identity (op_id (fst e)) of Inr d \<Rightarrow> d | Inl _ \<Rightarrow> [])"

definition bucket_of :: "str list \<Rightarrow> plan_entry list \<Rightarrow> str \<Rightarrow> detector_bucket" where
  "bucket_of tracked plan d = (let mine = filter (\<lambda>e. detector_of e = d) plan in
     \<lparr>db_current = length mine, db_tracked = (d \<in> set tracked), db_classes = map (\<lambda>c. (c, count_class c mine)) CLASSIFICATIONS\<rparr>)"

definition previewed :: "plan_entry \<Rightarrow> previewed_change" where
  "previewed e = (case e of (r, prev, c) \<Rightarrow> \<lparr>pc_id = op_id r, pc_detector = detector_of e, pc_class = cr_class c, pc_reasons = cr_reasons c,
     pc_previous = map_option mo_fingerprint prev, pc_fingerprint = cr_fingerprint c, pc_fields = (case prev of None \<Rightarrow> [] | Some p \<Rightarrow> preview_fields p r)\<rparr>)"

definition preview_ordinary_sync :: "(str \<Rightarrow> str) \<Rightarrow> opportunity list \<Rightarrow> table \<Rightarrow> monitoring_error + sync_preview" where
  "preview_ordinary_sync sha universe t =
    (case build_sync_plan sha universe t of Inl e \<Rightarrow> Inl e
     | Inr plan \<Rightarrow>
       let tracked = tracked_detector_identities (map fst t); detectors = sorted_set (map detector_of plan);
           untracked = filter (\<lambda>(r, prev, c). prev = None) plan; current = map (\<lambda>e. op_id (fst e)) plan in
       Inr \<lparr>pv_current = length plan, pv_tracked = length t, pv_predicted = map (\<lambda>c. (c, count_class c plan)) CLASSIFICATIONS,
         pv_detectors = sorted_set tracked, pv_by_detector = map (\<lambda>d. (d, bucket_of tracked plan d)) detectors,
         pv_baseline_detectors = filter (\<lambda>d. d \<notin> set tracked) detectors,
         pv_partial = map (\<lambda>d. (d, sort (map (\<lambda>e. op_id (fst e)) (filter (\<lambda>e. detector_of e = d) untracked))))
           (filter (\<lambda>d. d \<in> set tracked) (sorted_set (map detector_of untracked))),
         pv_reasons = (\<lambda>rs. length (filter (\<lambda>x. x = rs) (concat (map (\<lambda>(r, prev, c). cr_reasons c) plan)))),
         pv_untracked = sort (map (\<lambda>e. op_id (fst e)) untracked), pv_retired = sorted_set (filter (\<lambda>i. i \<notin> set current) (map fst t)),
         pv_changes = sort_key pc_id (map previewed (filter (\<lambda>(r, prev, c). cr_class c \<noteq> UNCHANGED) plan))\<rparr>)"

section \<open>Paging\<close>

text \<open>The pages of eligible allocations by id, until one is short; \<open>None\<close> would be a loop that never ends.\<close>

definition page_after :: "nat \<Rightarrow> int list \<Rightarrow> int \<Rightarrow> int list" where
  "page_after page_size ids last_id = take page_size (filter (\<lambda>i. last_id < i) (sorted_list_of_set (set ids)))"

partial_function (option) strategic_pages :: "nat \<Rightarrow> int list \<Rightarrow> int \<Rightarrow> int list option" where
  "strategic_pages page_size ids last_id =
    (let page = page_after page_size ids last_id in
     if page = [] then Some []
     else if length page < page_size then Some page
     else Option.bind (strategic_pages page_size ids (last page)) (\<lambda>rest. Some (page @ rest)))"

end
