(* ===== verification/AgentEvaluation.thy ===== *)
theory AgentEvaluation
  imports AgentContext
begin

text \<open>
  The evaluation of one opportunity for one mandate and acquisition type (app/policy/acquisition_evaluate.py): the deterministic answers first, otherwise a model call, the
  validator, and one repair. The model is the parameter \<open>respond\<close>: for the number of calls made before and the input, either the type and message of the exception that the call or
  \<open>json.loads\<close> of its answer raises, or the JSON. The limits of a paid action (app/security/commands.py) stand in front of it; \<open>overhead\<close> is the size of what a call sends beside its
  input. The authority of the caller is not modelled.
\<close>

section \<open>The result of an execution\<close>

datatype failure_reason = UNSUPPORTED_POLICY_VERSION | ACQUISITION_TYPE_NOT_IN_MANDATE | CORRUPT_OR_MISSING_ACQUISITION_SUBJECT | INVALID_PACKET_CONTRACT
  | CONTRADICTORY_LOAD_BEARING_FACTS | INVALID_EVIDENCE_REFERENCES | MALFORMED_LLM_OUTPUT | UNSUPPORTED_LANGUAGE_DETECTED

text \<open>Success has an evaluation and a failure a reason, as the constructor checks; both carry the number of repairs, a failure its diagnostic.\<close>

datatype execution = Succeeded agent_result nat | Failed failure_reason nat "str option"

section \<open>Paid calls\<close>

type_synonym reply = "str \<times> str + json"

definition PAID_CALLS :: nat where "PAID_CALLS = 2"
definition PAID_SIZE :: nat where "PAID_SIZE = 300000"

text \<open>\<open>_Provider.create\<close>: the inputs sent so far are the budget used.\<close>

definition create_response :: "nat \<Rightarrow> (nat \<Rightarrow> str \<Rightarrow> reply) \<Rightarrow> str list \<Rightarrow> str \<Rightarrow> reply \<times> str list" where
  "create_response overhead respond sent input =
    (if PAID_CALLS \<le> length sent \<or> PAID_SIZE < overhead + length input then (Inl (''AccessDenied'', ''Paid action limit exceeded.''), sent)
     else (respond (length sent) input, sent @ [input]))"

section \<open>The repair loop\<close>

definition MAX_REPAIR_ATTEMPTS :: nat where "MAX_REPAIR_ATTEMPTS = 1"

definition newline :: str where "newline = [CHR 0x0A]"

definition reparse_input :: "str \<Rightarrow> str \<Rightarrow> str" where
  "reparse_input prompt message = prompt @ newline @ newline @ ''Your previous response could not be parsed ('' @ message @
     ''). Return ONLY valid JSON matching the required schema.''"

definition corrected_input :: "str \<Rightarrow> str list \<Rightarrow> str" where
  "corrected_input prompt errors = prompt @ newline @ newline @
     ''Your previous response was INVALID for these specific reasons - correct them and return a new, fully valid response '' @
     ''(cite ONLY reference tokens from the table above; every rule in the governing policy still applies):'' @ newline @ ''- '' @ join (newline @ ''- '') errors"

definition rejection_reason :: "str list \<Rightarrow> failure_reason" where
  "rejection_reason errors = (if list_ex (contains ''unsupported language'') errors then UNSUPPORTED_LANGUAGE_DETECTED else MALFORMED_LLM_OUTPUT)"

function run_attempts :: "nat \<Rightarrow> (nat \<Rightarrow> str \<Rightarrow> reply) \<Rightarrow> (json \<Rightarrow> crash + validation_outcome) \<Rightarrow> str \<Rightarrow> nat \<Rightarrow> str \<Rightarrow> str list \<Rightarrow> (crash + execution) \<times> str list" where
  "run_attempts overhead respond check prompt retry input sent =
    (case create_response overhead respond sent input of (reply, sent') \<Rightarrow>
      (case reply of
         Inl (exception, message) \<Rightarrow>
           if MAX_REPAIR_ATTEMPTS \<le> retry then (Inr (Failed MALFORMED_LLM_OUTPUT retry (Some (exception @ '': '' @ message))), sent')
           else run_attempts overhead respond check prompt (Suc retry) (reparse_input prompt message) sent'
       | Inr raw \<Rightarrow> (case check raw of
           Inl c \<Rightarrow> (Inl c, sent')
         | Inr (Accepted r) \<Rightarrow> (Inr (Succeeded r retry), sent')
         | Inr (Rejected errors) \<Rightarrow>
             if MAX_REPAIR_ATTEMPTS \<le> retry then (Inr (Failed (rejection_reason errors) retry (Some (join ''; '' errors))), sent')
             else run_attempts overhead respond check prompt (Suc retry) (corrected_input prompt errors) sent')))"
  by pat_completeness auto
termination by (relation "measure (\<lambda>(overhead, respond, check, prompt, retry, input, sent). MAX_REPAIR_ATTEMPTS - retry)") auto

declare run_attempts.simps [simp del]

section \<open>Evaluating\<close>

definition AGENT_EVALUATION_POLICY_VERSION :: int where "AGENT_EVALUATION_POLICY_VERSION = 2"

definition evaluation_policy_version :: str where
  "evaluation_policy_version = ''mandate_interpretation='' @ int_str MANDATE_INTERPRETATION_POLICY_VERSION @
     '';acquisition_type_interpretation='' @ int_str ACQUISITION_TYPE_INTERPRETATION_POLICY_VERSION @
     '';transaction_signal='' @ int_str TRANSACTION_SIGNAL_POLICY_VERSION @ '';terminal_hard_exclusion='' @ int_str TERMINAL_HARD_EXCLUSION_POLICY_VERSION @
     '';agent_evaluation='' @ int_str AGENT_EVALUATION_POLICY_VERSION"

record evaluation_request =
  eq_mandate :: mandate
  eq_mandate_key :: str
  eq_mandate_fingerprint :: str
  eq_acquisition_type :: str
  eq_opportunity_id :: str
  eq_opportunity_type :: opportunity_type
  eq_opportunity_fingerprint :: str
  eq_packet :: packet
  eq_assessment :: assessment

definition request_identity :: "evaluation_request \<Rightarrow> evaluation_identity" where
  "request_identity q = \<lparr>ei_key = \<lparr>rk_buyer = eq_mandate_key q, rk_opportunity = eq_opportunity_id q, rk_acquisition_type = eq_acquisition_type q\<rparr>,
     ei_mandate_fingerprint = eq_mandate_fingerprint q, ei_opportunity_fingerprint = eq_opportunity_fingerprint q, ei_policy_version = evaluation_policy_version\<rparr>"

definition deterministic_terminal_result :: "evaluation_request \<Rightarrow> terminal_result \<Rightarrow> agent_result" where
  "deterministic_terminal_result q t =
    \<lparr>ar_key = ei_key (request_identity q), ar_recommendation = NOT_RELEVANT, ar_confidence = ''HIGH'', ar_basis = map JStr (tr_texts t),
     ar_subject = \<lparr>as_level = (if pk_type (eq_packet q) = STRATEGIC_LAND then WHOLE_ALLOCATION else DEVELOPMENT_SITE), as_reference = JNull,
       as_note = JStr ''Terminal hard exclusion - acquisition subject is the opportunity as evaluated.''\<rparr>,
     ar_positive = [], ar_negative = [], ar_unknowns = [],
     ar_summary = ''A confirmed, deterministic hard exclusion applies: '' @ join '' '' (tr_texts t),
     ar_next_action = ''NO_ACTION'', ar_next_detail = ''No acquisition effort warranted - a trusted hard exclusion applies.'', ar_trigger = None,
     ar_evidence = map JStr (tr_texts t), ar_mandate_fingerprint = eq_mandate_fingerprint q, ar_opportunity_fingerprint = eq_opportunity_fingerprint q,
     ar_policy_version = evaluation_policy_version\<rparr>"

definition request_context :: "evaluation_request \<Rightarrow> prompt_context" where
  "request_context q = build_prompt_context (eq_mandate_key q) (eq_mandate q) (eq_acquisition_type q) (eq_opportunity_id q) (eq_opportunity_type q) (eq_assessment q)
     (tr_non_terminal (classify_terminal_exclusion (as_does_not_match (eq_assessment q)))) (eq_packet q)"

definition run_llm_and_validate :: "nat \<Rightarrow> (nat \<Rightarrow> str \<Rightarrow> reply) \<Rightarrow> prompt_context \<Rightarrow> evaluation_identity \<Rightarrow> (crash + execution) \<times> str list" where
  "run_llm_and_validate overhead respond c i =
     run_attempts overhead respond (validate_and_build_result (pc_tokens c) i) (render_prompt c) 0 (render_prompt c) []"

definition evaluate :: "nat \<Rightarrow> (nat \<Rightarrow> str \<Rightarrow> reply) \<Rightarrow> evaluation_request \<Rightarrow> (crash + execution) \<times> str list" where
  "evaluate overhead respond q =
    (if eq_acquisition_type q \<notin> m_acquisition_types (eq_mandate q) then (Inr (Failed ACQUISITION_TYPE_NOT_IN_MANDATE 0 None), [])
     else let t = classify_terminal_exclusion (as_does_not_match (eq_assessment q)) in
     if tr_is_terminal t then
       (case checked_result (deterministic_terminal_result q t) of Inr r \<Rightarrow> (Inr (Succeeded r 0), []) | Inl message \<Rightarrow> (Inl (Value_Error message), []))
     else run_llm_and_validate overhead respond (request_context q) (request_identity q))"

end
