(* ===== verification/MandateStore.thy ===== *)
theory MandateStore
  imports AgentContext BuyerFit
begin

text \<open>
  Buyers and their mandates as rows (app/policy/buyer_profile_store.py): reading a row as the policy the matcher takes, the fingerprint of a policy, the default buyers a workspace is
  seeded with, the fill-in of the columns a later phase added, the migration of the rows an earlier phase left, and the onboarding baseline. A set is stored as its members joined with
  commas. A policy read from a row holds what the row holds, so its planning states and scale metric are strings; \<open>matching_view\<close> is what the matcher can tell of it. SHA-256 is the
  parameter \<open>sha\<close>, the clock the argument \<open>now\<close>, the universe of opportunities with their contexts an argument. The caller's admission and role are not modelled, the buyers it may
  reach are; the workspace row exists.
\<close>

section \<open>Searching\<close>

lemma find_append: "find P (xs @ ys) = (case find P xs of None \<Rightarrow> find P ys | Some x \<Rightarrow> Some x)"
  by (induction xs) auto

lemma find_prefix: "prefix xs ys \<Longrightarrow> find P xs = Some x \<Longrightarrow> find P ys = Some x"
  by (auto simp: prefix_def find_append)

lemma find_map_id:
  assumes "\<And>x. x \<in> set xs \<Longrightarrow> P (f x) = P x"
  shows "find P (map f xs) = map_option f (find P xs)"
  using assms by (induction xs) auto

section \<open>Policies\<close>

record policy =
  po_key :: str
  po_display_name :: str
  po_buyer_type :: str
  po_primary_requirement :: str
  po_min :: int
  po_max :: int
  po_metric :: str
  po_states :: "str set"
  po_no_activity_positive :: bool
  po_large_self_qualifying :: bool
  po_specialist_exclusion :: bool
  po_wholly_exclusion :: bool
  po_below_exclusion :: bool
  po_notes :: str
  po_scope :: str
  po_councils :: "str set"
  po_types :: "str set"
  po_appetite :: str
  po_control :: "str set"

fun planning_state_str :: "planning_state \<Rightarrow> str" where
  "planning_state_str PERMISSION_GRANTED = ''permission_granted''"
| "planning_state_str ADOPTED_ALLOCATION = ''adopted_allocation''"
| "planning_state_str EMERGING_ALLOCATION = ''emerging_allocation''"
| "planning_state_str OTHER_OR_UNKNOWN = ''other_or_unknown''"
| "planning_state_str PLANNING_ACTIVE_PROPOSAL = ''planning_active_proposal''"

fun scale_metric_str :: "scale_metric \<Rightarrow> str" where
  "scale_metric_str TOTAL_UNITS = ''total_units''"
| "scale_metric_str AFFORDABLE_UNITS = ''affordable_units''"

definition policy_of :: "mandate \<Rightarrow> policy" where
  "policy_of m = \<lparr>po_key = m_key m, po_display_name = m_display_name m, po_buyer_type = m_buyer_type m, po_primary_requirement = m_primary_requirement m,
     po_min = m_target_unit_min m, po_max = m_target_unit_max m, po_metric = scale_metric_str (m_scale_metric m),
     po_states = planning_state_str ` m_accepted_planning_states m, po_no_activity_positive = m_treats_no_activity_as_positive m,
     po_large_self_qualifying = m_large_allocation_is_self_qualifying m, po_specialist_exclusion = m_specialist_development_is_exclusion m,
     po_wholly_exclusion = m_wholly_affordable_is_exclusion m, po_below_exclusion = m_below_minimum_scale_is_exclusion m, po_notes = m_notes m,
     po_scope = m_geography_scope m, po_councils = m_geography_councils m, po_types = m_acquisition_types m, po_appetite = m_development_state_appetite m,
     po_control = m_control_appetite m\<rparr>"

definition PLANNING_STATES :: "planning_state list" where
  "PLANNING_STATES = [PERMISSION_GRANTED, ADOPTED_ALLOCATION, EMERGING_ALLOCATION, OTHER_OR_UNKNOWN, PLANNING_ACTIVE_PROPOSAL]"

text \<open>The matcher asks of the metric only whether it is the affordable one, of the states only whether one of its own is among them.\<close>

definition matching_view :: "policy \<Rightarrow> mandate" where
  "matching_view p = \<lparr>m_key = po_key p, m_display_name = po_display_name p, m_buyer_type = po_buyer_type p, m_primary_requirement = po_primary_requirement p,
     m_target_unit_min = po_min p, m_target_unit_max = po_max p, m_scale_metric = (if po_metric p = ''affordable_units'' then AFFORDABLE_UNITS else TOTAL_UNITS),
     m_accepted_planning_states = set (filter (\<lambda>s. planning_state_str s \<in> po_states p) PLANNING_STATES),
     m_treats_no_activity_as_positive = po_no_activity_positive p, m_large_allocation_is_self_qualifying = po_large_self_qualifying p,
     m_specialist_development_is_exclusion = po_specialist_exclusion p, m_wholly_affordable_is_exclusion = po_wholly_exclusion p,
     m_below_minimum_scale_is_exclusion = po_below_exclusion p, m_notes = po_notes p, m_geography_scope = po_scope p, m_geography_councils = po_councils p,
     m_acquisition_types = po_types p, m_development_state_appetite = po_appetite p, m_control_appetite = po_control p\<rparr>"

definition checked_policy :: "policy \<Rightarrow> pyexc + policy" where
  "checked_policy p = (case checked_mandate (matching_view p) of Inl x \<Rightarrow> Inl x | Inr _ \<Rightarrow> Inr p)"

section \<open>Fingerprints\<close>

definition set_json :: "str set \<Rightarrow> json" where
  "set_json S = JArr (map JStr (sorted_list_of_set S))"

definition phase_a_fields :: "policy \<Rightarrow> (str \<times> json) list" where
  "phase_a_fields p =
    [(''target_unit_min'', JInt (po_min p)), (''target_unit_max'', JInt (po_max p)), (''scale_metric'', JStr (po_metric p)),
     (''accepted_planning_states'', set_json (po_states p)), (''treats_no_activity_as_positive'', JBool (po_no_activity_positive p)),
     (''large_allocation_is_self_qualifying'', JBool (po_large_self_qualifying p)), (''specialist_development_is_exclusion'', JBool (po_specialist_exclusion p)),
     (''wholly_affordable_is_exclusion'', JBool (po_wholly_exclusion p)), (''below_minimum_scale_is_exclusion'', JBool (po_below_exclusion p))]"

definition fingerprint_source :: "policy \<Rightarrow> json" where
  "fingerprint_source p = JObj ((''matching_policy_version'', JInt BUYER_MATCHING_POLICY_VERSION) # phase_a_fields p @
    [(''geography_scope'', JStr (po_scope p)), (''geography_councils'', set_json (po_councils p)), (''acquisition_types'', set_json (po_types p)),
     (''development_state_appetite'', JStr (po_appetite p)), (''control_appetite'', set_json (po_control p))])"

definition compute_buyer_mandate_fingerprint :: "(str \<Rightarrow> str) \<Rightarrow> policy \<Rightarrow> str" where
  "compute_buyer_mandate_fingerprint sha p = sha (dumps_default (fingerprint_source p))"

definition phase_a_only_fingerprint :: "(str \<Rightarrow> str) \<Rightarrow> policy \<Rightarrow> str" where
  "phase_a_only_fingerprint sha p = sha (dumps_default (JObj (phase_a_fields p)))"

section \<open>Rows\<close>

record buyer_row =
  br_id :: int
  br_workspace :: int
  br_key :: str
  br_display_name :: str
  br_type :: str
  br_status :: str

record mandate_row =
  mr_id :: int
  mr_buyer :: int
  mr_key :: str
  mr_display_name :: str
  mr_primary_requirement :: str
  mr_min :: int
  mr_max :: int
  mr_metric :: str
  mr_states :: str
  mr_no_activity_positive :: bool
  mr_large_self_qualifying :: bool
  mr_specialist_exclusion :: bool
  mr_wholly_exclusion :: bool
  mr_below_exclusion :: bool
  mr_notes :: "str option"
  mr_status :: str
  mr_source :: "str option"
  mr_fingerprint :: "str option"
  mr_onboarded_at :: "int option"
  mr_summary :: "str option"
  mr_scope :: "str option"
  mr_councils :: "str option"
  mr_types :: "str option"
  mr_appetite :: "str option"
  mr_control :: "str option"

definition comma_set :: "str \<Rightarrow> str set" where
  "comma_set s = set (filter (\<lambda>x. x \<noteq> []) (split_on CHR '','' s))"

definition joined :: "str set \<Rightarrow> str" where
  "joined S = join '','' (sorted_list_of_set S)"

definition policy_of_row :: "buyer_row \<Rightarrow> mandate_row \<Rightarrow> policy" where
  "policy_of_row b r = \<lparr>po_key = br_key b, po_display_name = br_display_name b, po_buyer_type = br_type b, po_primary_requirement = mr_primary_requirement r,
     po_min = mr_min r, po_max = mr_max r, po_metric = mr_metric r, po_states = comma_set (mr_states r), po_no_activity_positive = mr_no_activity_positive r,
     po_large_self_qualifying = mr_large_self_qualifying r, po_specialist_exclusion = mr_specialist_exclusion r, po_wholly_exclusion = mr_wholly_exclusion r,
     po_below_exclusion = mr_below_exclusion r, po_notes = opt_or (mr_notes r) [], po_scope = str_or (mr_scope r) GEOGRAPHY_UNSPECIFIED,
     po_councils = comma_set (opt_or (mr_councils r) []), po_types = comma_set (opt_or (mr_types r) []),
     po_appetite = str_or (mr_appetite r) DEVELOPMENT_STATE_UNSPECIFIED, po_control = comma_set (opt_or (mr_control r) [])\<rparr>"

definition mandate_to_policy :: "buyer_row \<Rightarrow> mandate_row \<Rightarrow> pyexc + policy" where
  "mandate_to_policy b r = checked_policy (policy_of_row b r)"

definition DEFAULT_MANDATE_KEY :: str where "DEFAULT_MANDATE_KEY = ''default''"

definition template_buyer :: "int \<Rightarrow> int \<Rightarrow> policy \<Rightarrow> buyer_row" where
  "template_buyer i ws t = \<lparr>br_id = i, br_workspace = ws, br_key = po_key t, br_display_name = po_display_name t, br_type = po_buyer_type t, br_status = ''active''\<rparr>"

definition b1_fields :: "policy \<Rightarrow> mandate_row \<Rightarrow> mandate_row" where
  "b1_fields t r = r\<lparr>mr_scope := Some (po_scope t), mr_councils := Some (joined (po_councils t)), mr_types := Some (joined (po_types t)),
     mr_appetite := Some (po_appetite t), mr_control := Some (joined (po_control t))\<rparr>"

definition template_mandate :: "int \<Rightarrow> int \<Rightarrow> policy \<Rightarrow> mandate_row" where
  "template_mandate i buyer t = b1_fields t \<lparr>mr_id = i, mr_buyer = buyer, mr_key = DEFAULT_MANDATE_KEY, mr_display_name = po_display_name t,
     mr_primary_requirement = po_primary_requirement t, mr_min = po_min t, mr_max = po_max t, mr_metric = po_metric t, mr_states = joined (po_states t),
     mr_no_activity_positive = po_no_activity_positive t, mr_large_self_qualifying = po_large_self_qualifying t, mr_specialist_exclusion = po_specialist_exclusion t,
     mr_wholly_exclusion = po_wholly_exclusion t, mr_below_exclusion = po_below_exclusion t, mr_notes = Some (po_notes t), mr_status = ''active'',
     mr_source = Some (po_key t), mr_fingerprint = None, mr_onboarded_at = None, mr_summary = None,
     mr_scope = None, mr_councils = None, mr_types = None, mr_appetite = None, mr_control = None\<rparr>"

definition apply_b1_defaults_if_missing :: "policy \<Rightarrow> mandate_row \<Rightarrow> mandate_row \<times> bool" where
  "apply_b1_defaults_if_missing t r = (if mr_scope r \<noteq> None then (r, False) else (b1_fields t r, True))"

section \<open>The directory\<close>

record directory =
  di_buyers :: "buyer_row list"
  di_mandates :: "mandate_row list"
  di_councils :: "str list"

record reach =
  re_workspace :: int
  re_buyers :: "int list"
  re_machine :: bool

definition access_denied :: pyexc where
  "access_denied = Denied ''Access denied.''"

definition require_workspace_write :: "reach \<Rightarrow> directory \<Rightarrow> int \<Rightarrow> nat \<Rightarrow> pyexc + int list" where
  "require_workspace_write a d ws new_buyers =
    (let existing = map br_id (filter (\<lambda>b. br_workspace b = ws) (di_buyers d));
         used = map br_id (filter (\<lambda>b. br_id b \<in> set (re_buyers a)) (di_buyers d));
         available = sorted_set (filter (\<lambda>i. i \<notin> set used) (re_buyers a)) in
     if ws \<noteq> re_workspace a then Inl access_denied
     else if \<not> set existing \<subseteq> set (re_buyers a) then Inl access_denied
     else if length available < new_buyers then Inl (Denied ''Explicit buyer IDs required before creation.'')
     else Inr available)"

definition buyer_with_key :: "directory \<Rightarrow> int \<Rightarrow> str \<Rightarrow> buyer_row option" where
  "buyer_with_key d ws k = find (\<lambda>b. br_workspace b = ws \<and> br_key b = k) (di_buyers d)"

definition buyer_with_id :: "directory \<Rightarrow> int \<Rightarrow> buyer_row option" where
  "buyer_with_id d i = find (\<lambda>b. br_id b = i) (di_buyers d)"

definition default_mandate :: "directory \<Rightarrow> int \<Rightarrow> mandate_row option" where
  "default_mandate d buyer = find (\<lambda>r. mr_buyer r = buyer \<and> mr_key r = DEFAULT_MANDATE_KEY) (di_mandates d)"

definition put_mandate :: "mandate_row \<Rightarrow> directory \<Rightarrow> directory" where
  "put_mandate r d = d\<lparr>di_mandates := map (\<lambda>x. if mr_id x = mr_id r then r else x) (di_mandates d)\<rparr>"

definition next_mandate_id :: "directory \<Rightarrow> int" where
  "next_mandate_id d = Max (set (0 # map mr_id (di_mandates d))) + 1"

definition validate_geography_councils :: "directory \<Rightarrow> str set \<Rightarrow> pyexc + unit" where
  "validate_geography_councils d codes = (if codes \<subseteq> set (di_councils d) then Inr () else Inl (ValueError ''Unknown council code(s)''))"

section \<open>Seeding\<close>

text \<open>One key of the order: the directory, the ids still assigned, the mandates so far and whether anything was created.\<close>

type_synonym seeding = "directory \<times> int list \<times> mandate_row list \<times> bool"

definition seed_mandate :: "(str \<Rightarrow> str) \<Rightarrow> policy \<Rightarrow> buyer_row \<Rightarrow> int list \<Rightarrow> mandate_row list \<Rightarrow> bool \<Rightarrow> directory \<Rightarrow> pyexc + seeding" where
  "seed_mandate sha t b ids seeded created d = (case default_mandate d (br_id b) of
     None \<Rightarrow> (let r = template_mandate (next_mandate_id d) (br_id b) t in Inr (d\<lparr>di_mandates := di_mandates d @ [r]\<rparr>, ids, seeded @ [r], True))
   | Some r \<Rightarrow> (case apply_b1_defaults_if_missing t r of (r', changed) \<Rightarrow>
       if \<not> changed then Inr (d, ids, seeded @ [r], created)
       else if mr_fingerprint r = None then Inr (put_mandate r' d, ids, seeded @ [r'], True)
       else (case mandate_to_policy b r' of Inl x \<Rightarrow> Inl x
         | Inr p \<Rightarrow> (let r'' = r'\<lparr>mr_fingerprint := Some (compute_buyer_mandate_fingerprint sha p)\<rparr> in
             Inr (put_mandate r'' d, ids, seeded @ [r''], True)))))"

definition seed_template :: "(str \<Rightarrow> str) \<Rightarrow> int \<Rightarrow> policy \<Rightarrow> seeding \<Rightarrow> pyexc + seeding" where
  "seed_template sha ws t st = (case st of (d, ids, seeded, created) \<Rightarrow>
    (case validate_geography_councils d (po_councils t) of Inl x \<Rightarrow> Inl x
     | Inr _ \<Rightarrow> (case buyer_with_key d ws (po_key t) of
         Some b \<Rightarrow> seed_mandate sha t b ids seeded created d
       | None \<Rightarrow> (let b = template_buyer (hd ids) ws t in
           seed_mandate sha t b (tl ids) seeded True (d\<lparr>di_buyers := di_buyers d @ [b]\<rparr>)))))"

fun seed_templates :: "(str \<Rightarrow> str) \<Rightarrow> int \<Rightarrow> policy list \<Rightarrow> seeding \<Rightarrow> pyexc + seeding" where
  "seed_templates sha ws [] st = Inr st"
| "seed_templates sha ws (t # ts) st = (case seed_template sha ws t st of Inl x \<Rightarrow> Inl x | Inr st' \<Rightarrow> seed_templates sha ws ts st')"

definition TEMPLATES :: "policy list" where
  "TEMPLATES = map (\<lambda>k. policy_of (the (map_of BUYER_PROFILES k))) BUYER_PROFILE_ORDER"

definition missing_buyers :: "directory \<Rightarrow> int \<Rightarrow> nat" where
  "missing_buyers d ws = length (filter (\<lambda>t. buyer_with_key d ws (po_key t) = None) TEMPLATES)"

text \<open>Nothing is committed where nothing was created, and an exception leaves nothing committed.\<close>

definition seed_default_buyer_profiles :: "(str \<Rightarrow> str) \<Rightarrow> reach \<Rightarrow> int \<Rightarrow> directory \<Rightarrow> pyexc + directory \<times> mandate_row list" where
  "seed_default_buyer_profiles sha a ws d = (case require_workspace_write a d ws (missing_buyers d ws) of Inl x \<Rightarrow> Inl x
     | Inr ids \<Rightarrow> (case seed_templates sha ws TEMPLATES (d, ids, [], False) of Inl x \<Rightarrow> Inl x
         | Inr (d', _, seeded, _) \<Rightarrow> Inr (d', seeded)))"

section \<open>Reading\<close>

definition active_mandates :: "directory \<Rightarrow> int \<Rightarrow> mandate_row list" where
  "active_mandates d buyer = filter (\<lambda>r. mr_buyer r = buyer \<and> mr_status r = ''active'') (di_mandates d)"

definition reachable_buyers :: "reach \<Rightarrow> directory \<Rightarrow> buyer_row list" where
  "reachable_buyers a d = filter (\<lambda>b. br_workspace b = re_workspace a \<and> br_id b \<in> set (re_buyers a) \<and> br_status b = ''active'') (di_buyers d)"

definition order_position :: "str \<Rightarrow> nat" where
  "order_position k = length (takeWhile (\<lambda>x. x \<noteq> k) BUYER_PROFILE_ORDER)"

definition list_active_buyer_options :: "reach \<Rightarrow> directory \<Rightarrow> (str \<times> str) list" where
  "list_active_buyer_options a d = map (\<lambda>b. (br_key b, br_display_name b))
     (sort_key (\<lambda>b. order_position (br_key b)) (sort_key br_id (filter (\<lambda>b. active_mandates d (br_id b) \<noteq> []) (reachable_buyers a d))))"

definition resolve_default_mandate_for_buyer :: "directory \<Rightarrow> buyer_row \<Rightarrow> mandate_row option" where
  "resolve_default_mandate_for_buyer d b = (case sort_key mr_id (active_mandates d (br_id b)) of [] \<Rightarrow> None | r # _ \<Rightarrow> Some r)"

definition get_buyer_profile_dataclass :: "reach \<Rightarrow> directory \<Rightarrow> str \<Rightarrow> pyexc + policy option" where
  "get_buyer_profile_dataclass a d k = (case find (\<lambda>b. br_key b = k) (reachable_buyers a d) of None \<Rightarrow> Inl access_denied
     | Some b \<Rightarrow> (case resolve_default_mandate_for_buyer d b of None \<Rightarrow> Inr None
         | Some r \<Rightarrow> (case mandate_to_policy b r of Inl x \<Rightarrow> Inl x | Inr p \<Rightarrow> Inr (Some p))))"

definition mandate_by_id :: "reach \<Rightarrow> directory \<Rightarrow> int \<Rightarrow> pyexc + buyer_row \<times> mandate_row" where
  "mandate_by_id a d i = (case find (\<lambda>r. mr_id r = i) (di_mandates d) of None \<Rightarrow> Inl access_denied
     | Some r \<Rightarrow> (case buyer_with_id d (mr_buyer r) of None \<Rightarrow> Inl access_denied
         | Some b \<Rightarrow> if br_workspace b = re_workspace a \<and> br_id b \<in> set (re_buyers a) then Inr (b, r) else Inl access_denied))"

section \<open>The onboarding baseline\<close>

type_synonym universe = "(str \<times> matching_facts \<times> b2_context) list"

definition evaluate_policy_over_universe :: "policy \<Rightarrow> universe \<Rightarrow> (str \<times> assessment) list" where
  "evaluate_policy_over_universe p u = map (\<lambda>(i, f, c). (i, assess_buyer_fit (matching_view p) f (Some c))) u"

record baseline =
  bl_reviewed :: nat
  bl_strong :: nat
  bl_possible :: nat
  bl_not_suitable :: nat
  bl_insufficient :: nat
  bl_exceptions :: nat
  bl_line :: str

definition count_assessments :: "(assessment \<Rightarrow> bool) \<Rightarrow> (str \<times> assessment) list \<Rightarrow> nat" where
  "count_assessments P xs = length (filter (\<lambda>(i, a). P a) xs)"

definition summarise_onboarding_assessments :: "(str \<times> assessment) list \<Rightarrow> baseline" where
  "summarise_onboarding_assessments xs =
    (let n = (\<lambda>cl. count_assessments (\<lambda>a. as_classification a = cl) xs); e = count_assessments as_exception xs; shown = (\<lambda>k. int_str (int k)) in
     \<lparr>bl_reviewed = length xs, bl_strong = n STRONG_FIT, bl_possible = n POSSIBLE_FIT, bl_not_suitable = n NOT_SUITABLE, bl_insufficient = n INSUFFICIENT_EVIDENCE,
      bl_exceptions = e,
      bl_line = ''reviewed='' @ shown (length xs) @ '' strong_fit='' @ shown (n STRONG_FIT) @ '' possible_fit='' @ shown (n POSSIBLE_FIT) @
        '' not_suitable='' @ shown (n NOT_SUITABLE) @ '' insufficient_evidence='' @ shown (n INSUFFICIENT_EVIDENCE) @
        '' investigative_exceptions='' @ shown e\<rparr>)"

definition run_buyer_onboarding_baseline :: "(str \<Rightarrow> str) \<Rightarrow> reach \<Rightarrow> int \<Rightarrow> universe \<Rightarrow> int \<Rightarrow> directory \<Rightarrow> pyexc + directory \<times> baseline" where
  "run_buyer_onboarding_baseline sha a now u i d = (case mandate_by_id a d i of Inl x \<Rightarrow> Inl x
     | Inr (b, r) \<Rightarrow> (case mandate_to_policy b r of Inl x \<Rightarrow> Inl x
         | Inr p \<Rightarrow> (let result = summarise_onboarding_assessments (evaluate_policy_over_universe p u) in
             Inr (put_mandate (r\<lparr>mr_fingerprint := Some (compute_buyer_mandate_fingerprint sha p), mr_onboarded_at := Some now, mr_summary := Some (bl_line result)\<rparr>) d, result))))"

definition is_buyer_mandate_baseline_stale :: "(str \<Rightarrow> str) \<Rightarrow> buyer_row \<Rightarrow> mandate_row \<Rightarrow> pyexc + bool" where
  "is_buyer_mandate_baseline_stale sha b r =
    (if mr_onboarded_at r = None \<or> mr_fingerprint r = None then Inr True
     else (case mandate_to_policy b r of Inl x \<Rightarrow> Inl x | Inr p \<Rightarrow> Inr (Some (compute_buyer_mandate_fingerprint sha p) \<noteq> mr_fingerprint r)))"

section \<open>The bootstrap\<close>

fun stale_among :: "(str \<Rightarrow> str) \<Rightarrow> (buyer_row \<times> mandate_row) list \<Rightarrow> pyexc + (buyer_row \<times> mandate_row) list" where
  "stale_among sha [] = Inr []"
| "stale_among sha ((b, r) # xs) = (case is_buyer_mandate_baseline_stale sha b r of Inl x \<Rightarrow> Inl x
     | Inr stale \<Rightarrow> (case stale_among sha xs of Inl x \<Rightarrow> Inl x | Inr ys \<Rightarrow> Inr (if stale then (b, r) # ys else ys)))"

definition workspace_mandates :: "directory \<Rightarrow> int \<Rightarrow> (buyer_row \<times> mandate_row) list" where
  "workspace_mandates d ws = concat (map (\<lambda>b. map (Pair b) (active_mandates d (br_id b)))
     (filter (\<lambda>b. br_workspace b = ws \<and> br_status b = ''active'') (di_buyers d)))"

type_synonym results = "(str \<times> baseline) list"

text \<open>Each baseline is committed by itself: what was done before an exception stays.\<close>

fun onboard_all :: "(str \<Rightarrow> str) \<Rightarrow> reach \<Rightarrow> int \<Rightarrow> universe \<Rightarrow> (buyer_row \<times> mandate_row) list \<Rightarrow> results \<Rightarrow> directory \<Rightarrow> directory \<times> (pyexc + results)" where
  "onboard_all sha a now u [] rs d = (d, Inr rs)"
| "onboard_all sha a now u ((b, r) # xs) rs d = (case run_buyer_onboarding_baseline sha a now u (mr_id r) d of Inl x \<Rightarrow> (d, Inl x)
     | Inr (d', result) \<Rightarrow> onboard_all sha a now u xs (AList.update (br_key b) result rs) d')"

record bootstrap_report =
  rp_mandates :: nat
  rp_results :: results

text \<open>The sync of the global monitoring that runs first keeps its own tables.\<close>

definition bootstrap_acquisition_monitoring :: "(str \<Rightarrow> str) \<Rightarrow> reach \<Rightarrow> int \<Rightarrow> universe \<Rightarrow> directory \<Rightarrow> directory \<times> (pyexc + bootstrap_report)" where
  "bootstrap_acquisition_monitoring sha a now u d =
    (let ws = re_workspace a in
     case require_workspace_write a d ws 0 of Inl x \<Rightarrow> (d, Inl x) | Inr _ \<Rightarrow>
     case seed_default_buyer_profiles sha a ws d of Inl x \<Rightarrow> (d, Inl x) | Inr (d', _) \<Rightarrow>
     case stale_among sha (workspace_mandates d' ws) of Inl x \<Rightarrow> (d', Inl x) | Inr stale \<Rightarrow>
     (case onboard_all sha a now u stale [] d' of
        (d'', Inl x) \<Rightarrow> (d'', Inl x)
      | (d'', Inr rs) \<Rightarrow> (d'', Inr \<lparr>rp_mandates = length (workspace_mandates d' ws), rp_results = rs\<rparr>)))"

section \<open>The fill-in\<close>

definition b1_values :: "policy \<Rightarrow> (str \<times> str) list" where
  "b1_values t = [(''geography_scope'', po_scope t), (''geography_councils'', joined (po_councils t)), (''acquisition_types'', joined (po_types t)),
     (''development_state_appetite'', po_appetite t), (''control_appetite'', joined (po_control t))]"

record backfill_entry =
  be_needed :: bool
  be_before :: "str option"
  be_proposed :: "(str \<times> str) list option"
  be_applied :: "(str \<times> str) list option"
  be_after :: "str option"

definition backfill_entry_of :: "bool \<Rightarrow> directory \<Rightarrow> policy \<Rightarrow> mandate_row \<Rightarrow> backfill_entry" where
  "backfill_entry_of dry_run d' t r =
    (let needed = (mr_scope r = None);
         any_workspace = find (\<lambda>x. (case buyer_with_id d' (mr_buyer x) of None \<Rightarrow> False | Some b \<Rightarrow> br_key b = po_key t)) (di_mandates d') in
     \<lparr>be_needed = needed, be_before = mr_fingerprint r, be_proposed = (if needed then Some (b1_values t) else None),
      be_applied = (if needed \<and> \<not> dry_run then Some (b1_values t) else None),
      be_after = (if needed \<and> \<not> dry_run then Option.bind any_workspace mr_fingerprint else None)\<rparr>)"

definition backfill_subjects :: "directory \<Rightarrow> int \<Rightarrow> (policy \<times> mandate_row) list" where
  "backfill_subjects d ws = List.map_filter (\<lambda>t. case buyer_with_key d ws (po_key t) of None \<Rightarrow> None
     | Some b \<Rightarrow> map_option (Pair t) (default_mandate d (br_id b))) TEMPLATES"

definition backfill_buyer_mandate_b1_defaults :: "(str \<Rightarrow> str) \<Rightarrow> reach \<Rightarrow> bool \<Rightarrow> directory \<Rightarrow> pyexc + directory \<times> (str \<times> backfill_entry) list" where
  "backfill_buyer_mandate_b1_defaults sha a dry_run d =
    (let ws = re_workspace a; report = (\<lambda>d'. map (\<lambda>(t, r). (po_key t, backfill_entry_of dry_run d' t r)) (backfill_subjects d ws)) in
     case require_workspace_write a d ws 0 of Inl x \<Rightarrow> Inl x | Inr _ \<Rightarrow>
     if dry_run then Inr (d, report d)
     else (case seed_default_buyer_profiles sha a ws d of Inl x \<Rightarrow> Inl x | Inr (d', _) \<Rightarrow> Inr (d', report d')))"

section \<open>The migration\<close>

record legacy_profile =
  lp_id :: int
  lp_workspace :: int
  lp_key :: str
  lp_display_name :: str
  lp_buyer_type :: str
  lp_primary_requirement :: str
  lp_min :: int
  lp_max :: int
  lp_metric :: str
  lp_states :: str
  lp_no_activity_positive :: bool
  lp_large_self_qualifying :: bool
  lp_specialist_exclusion :: bool
  lp_wholly_exclusion :: bool
  lp_below_exclusion :: bool
  lp_notes :: "str option"
  lp_status :: str
  lp_source :: "str option"
  lp_fingerprint :: "str option"
  lp_onboarded_at :: "int option"
  lp_summary :: "str option"

record migration =
  mg_buyers :: nat
  mg_buyers_present :: nat
  mg_mandates :: nat
  mg_mandates_present :: nat
  mg_mismatches :: "str list"

definition legacy_buyer :: "int \<Rightarrow> legacy_profile \<Rightarrow> buyer_row" where
  "legacy_buyer i l = \<lparr>br_id = i, br_workspace = lp_workspace l, br_key = lp_key l, br_display_name = lp_display_name l, br_type = lp_buyer_type l, br_status = lp_status l\<rparr>"

definition legacy_mandate :: "int \<Rightarrow> int \<Rightarrow> legacy_profile \<Rightarrow> mandate_row" where
  "legacy_mandate i buyer l =
    (let r = \<lparr>mr_id = i, mr_buyer = buyer, mr_key = DEFAULT_MANDATE_KEY, mr_display_name = lp_display_name l, mr_primary_requirement = lp_primary_requirement l,
       mr_min = lp_min l, mr_max = lp_max l, mr_metric = lp_metric l, mr_states = lp_states l, mr_no_activity_positive = lp_no_activity_positive l,
       mr_large_self_qualifying = lp_large_self_qualifying l, mr_specialist_exclusion = lp_specialist_exclusion l, mr_wholly_exclusion = lp_wholly_exclusion l,
       mr_below_exclusion = lp_below_exclusion l, mr_notes = lp_notes l, mr_status = lp_status l, mr_source = lp_source l, mr_fingerprint = None,
       mr_onboarded_at = lp_onboarded_at l, mr_summary = lp_summary l, mr_scope = None, mr_councils = None, mr_types = None, mr_appetite = None, mr_control = None\<rparr> in
     case map_of BUYER_PROFILES (lp_key l) of None \<Rightarrow> r | Some t \<Rightarrow> b1_fields (policy_of t) r)"

text \<open>One legacy row: the directory, the ids still assigned and the counts.\<close>

definition migrate_mandate :: "(str \<Rightarrow> str) \<Rightarrow> legacy_profile \<Rightarrow> buyer_row \<Rightarrow> int list \<Rightarrow> migration \<Rightarrow> directory \<Rightarrow> pyexc + directory \<times> int list \<times> migration" where
  "migrate_mandate sha l b ids g d = (if default_mandate d (br_id b) \<noteq> None then Inr (d, ids, g\<lparr>mg_mandates_present := Suc (mg_mandates_present g)\<rparr>)
     else (let r = legacy_mandate (next_mandate_id d) (br_id b) l in
       case mandate_to_policy b r of Inl x \<Rightarrow> Inl x | Inr p \<Rightarrow>
       let mismatch = (lp_fingerprint l \<noteq> None \<and> Some (phase_a_only_fingerprint sha p) \<noteq> lp_fingerprint l);
           r' = r\<lparr>mr_fingerprint := Some (compute_buyer_mandate_fingerprint sha p)\<rparr> in
       Inr (d\<lparr>di_mandates := di_mandates d @ [r']\<rparr>, ids,
         g\<lparr>mg_mandates := Suc (mg_mandates g), mg_mismatches := mg_mismatches g @ (if mismatch then [lp_key l] else [])\<rparr>)))"

fun migrate_rows :: "(str \<Rightarrow> str) \<Rightarrow> legacy_profile list \<Rightarrow> int list \<Rightarrow> migration \<Rightarrow> directory \<Rightarrow> pyexc + directory \<times> migration" where
  "migrate_rows sha [] ids g d = Inr (d, g)"
| "migrate_rows sha (l # ls) ids g d =
    (case (case buyer_with_key d (lp_workspace l) (lp_key l) of
        Some b \<Rightarrow> migrate_mandate sha l b ids (g\<lparr>mg_buyers_present := Suc (mg_buyers_present g)\<rparr>) d
      | None \<Rightarrow> (let b = legacy_buyer (hd ids) l in
          migrate_mandate sha l b (tl ids) (g\<lparr>mg_buyers := Suc (mg_buyers g)\<rparr>) (d\<lparr>di_buyers := di_buyers d @ [b]\<rparr>))) of
       Inl x \<Rightarrow> Inl x
     | Inr (d', ids', g') \<Rightarrow> migrate_rows sha ls ids' g' d')"

definition migrate_buyer_profiles_to_mandates :: "(str \<Rightarrow> str) \<Rightarrow> reach \<Rightarrow> bool \<Rightarrow> legacy_profile list \<Rightarrow> directory \<Rightarrow> pyexc + directory \<times> migration" where
  "migrate_buyer_profiles_to_mandates sha a dry_run legacy d =
    (let ws = re_workspace a; rows = sort_key lp_id (filter (\<lambda>l. lp_workspace l = ws) legacy);
         missing = length (filter (\<lambda>l. buyer_with_key d ws (lp_key l) = None) rows) in
     if \<not> re_machine a then Inl (Denied ''Explicit migration command authority required.'')
     else case require_workspace_write a d ws 0 of Inl x \<Rightarrow> Inl x | Inr _ \<Rightarrow>
     case require_workspace_write a d ws missing of Inl x \<Rightarrow> Inl x | Inr ids \<Rightarrow>
     (case migrate_rows sha rows ids \<lparr>mg_buyers = 0, mg_buyers_present = 0, mg_mandates = 0, mg_mandates_present = 0, mg_mismatches = []\<rparr> d of
        Inl x \<Rightarrow> Inl x
      | Inr (d', g) \<Rightarrow> Inr (if dry_run then d else d', g)))"

end
