(* ===== verification/AgentClaims.thy ===== *)
theory AgentClaims
  imports AgentEvaluation MandateStore
begin

text \<open>
  Evaluations that are kept (app/policy/agent_evaluation_persistence.py): the anchor of a subject, the claim a worker takes before it pays for an evaluation, the history row an attempt
  leaves, the current state of a mandate and subject, and the run that composes them. Moments are seconds. A worker's view of a claim row may be old when it acts on it, so what it saw is
  an argument of the act. Ids are given out in order, rows are never deleted. Column widths and what the database driver makes of a value that is not text are not modelled.
\<close>

section \<open>Rows\<close>

type_synonym anchor_key = "str \<times> int \<times> str"

record subject_anchor =
  an_id :: int
  an_key :: anchor_key

record claim_key =
  ck_mandate :: int
  ck_anchor :: int
  ck_type :: str
  ck_fingerprint :: str

datatype claim_status = CLAIM_CLAIMED | CLAIM_COMPLETED | CLAIM_FAILED

record claim_row =
  cl_id :: int
  cl_key :: claim_key
  cl_status :: claim_status
  cl_claimed_at :: int
  cl_completed_at :: "int option"
  cl_history :: "int option"

text \<open>The columns of a recommendation; lists are stored as their JSON text.\<close>

record stored_evaluation =
  se_recommendation :: str
  se_confidence :: str
  se_basis :: str
  se_level :: str
  se_reference :: json
  se_note :: json
  se_supporting :: str
  se_countervailing :: str
  se_unknowns :: str
  se_summary :: str
  se_next_action :: str
  se_next_detail :: str
  se_trigger :: "str option"
  se_references :: str

record evaluation_row =
  hi_id :: int
  hi_key :: claim_key
  hi_opportunity :: str
  hi_kind :: str
  hi_mandate_fingerprint :: str
  hi_policy_version :: str
  hi_prompt_version :: int
  hi_schema_version :: int
  hi_provider :: str
  hi_model :: str
  hi_success :: bool
  hi_failure :: "failure_reason option"
  hi_retries :: nat
  hi_diagnostic :: "str option"
  hi_evaluation :: "stored_evaluation option"

record current_row =
  cs_mandate :: int
  cs_anchor :: int
  cs_type :: str
  cs_history :: "int option"
  cs_fingerprint :: "str option"
  cs_opportunity :: str
  cs_kind :: str
  cs_evaluated_at :: int
  cs_success :: bool
  cs_candidate :: bool

record evaluation_store =
  es_anchors :: "subject_anchor list"
  es_claims :: "claim_row list"
  es_histories :: "evaluation_row list"
  es_current :: "current_row list"

definition empty_store :: evaluation_store where
  "empty_store = \<lparr>es_anchors = [], es_claims = [], es_histories = [], es_current = []\<rparr>"

definition next_id :: "int list \<Rightarrow> int" where
  "next_id xs = Max (set (0 # xs)) + 1"

section \<open>Subjects\<close>

text \<open>Access refused, a stale baseline, a policy or a subject that does not parse, a row the database refuses, or the validator's own exception.\<close>

datatype evaluation_error = Access_Denied | Stale_Mandate_Baseline | Policy_Error pyexc | Subject_Error subject_error | Integrity_Error | Crashed crash

definition resolve_acquisition_subject_key :: "str \<Rightarrow> str \<Rightarrow> subject_error + str \<times> int \<times> str option" where
  "resolve_acquisition_subject_key oid ty = (case parse_opportunity_id oid of Inl e \<Rightarrow> Inl e | Inr p \<Rightarrow> resolve_anchor_key p ty)"

text \<open>The scope key is never null in the table: no row has a null one and none can be inserted.\<close>

definition get_or_create_subject_anchor :: "str \<times> int \<times> str option \<Rightarrow> evaluation_store \<Rightarrow> evaluation_error + int \<times> evaluation_store" where
  "get_or_create_subject_anchor k s = (case k of (ty, n, None) \<Rightarrow> Inl Integrity_Error
     | (ty, n, Some scope) \<Rightarrow> (case find (\<lambda>x. an_key x = (ty, n, scope)) (es_anchors s) of Some x \<Rightarrow> Inr (an_id x, s)
         | None \<Rightarrow> (let i = next_id (map an_id (es_anchors s)) in Inr (i, s\<lparr>es_anchors := es_anchors s @ [\<lparr>an_id = i, an_key = (ty, n, scope)\<rparr>]\<rparr>))))"

definition opportunity_kind :: "str \<Rightarrow> subject_error + str" where
  "opportunity_kind oid = map_sum id pi_kind (parse_opportunity_id oid)"

section \<open>Claims\<close>

definition CLAIM_EXPIRY_MINUTES :: int where "CLAIM_EXPIRY_MINUTES = 30"

definition claim_cutoff :: "int \<Rightarrow> int" where
  "claim_cutoff now = now - 60 * CLAIM_EXPIRY_MINUTES"

datatype claim_outcome = Claimed int | Already_In_Progress | Already_Completed "int option" | Previously_Failed "int option"

definition find_claim :: "claim_key \<Rightarrow> evaluation_store \<Rightarrow> claim_row option" where
  "find_claim k s = find (\<lambda>c. cl_key c = k) (es_claims s)"

definition reclaimed :: "int \<Rightarrow> claim_row \<Rightarrow> claim_row" where
  "reclaimed now c = c\<lparr>cl_status := CLAIM_CLAIMED, cl_claimed_at := now, cl_completed_at := None, cl_history := None\<rparr>"

text \<open>The conditional update and its row count.\<close>

definition reclaim :: "int \<Rightarrow> (claim_row \<Rightarrow> bool) \<Rightarrow> int \<Rightarrow> evaluation_store \<Rightarrow> claim_outcome \<times> evaluation_store" where
  "reclaim i guard now s =
    (let s' = s\<lparr>es_claims := map (\<lambda>c. if cl_id c = i \<and> guard c then reclaimed now c else c) (es_claims s)\<rparr> in
     (if length (filter (\<lambda>c. cl_id c = i \<and> guard c) (es_claims s)) = 1 then Claimed i else Already_In_Progress, s'))"

definition insert_claim :: "claim_key \<Rightarrow> int \<Rightarrow> evaluation_store \<Rightarrow> claim_outcome \<times> evaluation_store" where
  "insert_claim k now s =
    (if find_claim k s \<noteq> None then (Already_In_Progress, s)
     else let i = next_id (map cl_id (es_claims s)) in
       (Claimed i, s\<lparr>es_claims := es_claims s @ [\<lparr>cl_id = i, cl_key = k, cl_status = CLAIM_CLAIMED, cl_claimed_at = now, cl_completed_at = None, cl_history = None\<rparr>]\<rparr>))"

text \<open>What \<open>try_claim_evaluation\<close> does with the row it read.\<close>

definition act_on_claim :: "bool \<Rightarrow> claim_key \<Rightarrow> claim_row option \<Rightarrow> int \<Rightarrow> evaluation_store \<Rightarrow> claim_outcome \<times> evaluation_store" where
  "act_on_claim force k seen now s = (case seen of None \<Rightarrow> insert_claim k now s
     | Some c \<Rightarrow>
         if cl_status c = CLAIM_COMPLETED \<and> \<not> force then (Already_Completed (cl_history c), s)
         else if cl_status c = CLAIM_FAILED \<and> \<not> force then (Previously_Failed (cl_history c), s)
         else if cl_status c = CLAIM_CLAIMED then
           (if claim_cutoff now \<le> cl_claimed_at c then (Already_In_Progress, s)
            else reclaim (cl_id c) (\<lambda>x. cl_status x = CLAIM_CLAIMED \<and> cl_claimed_at x < claim_cutoff now) now s)
         else reclaim (cl_id c) (\<lambda>x. cl_status x = cl_status c) now s)"

definition try_claim_evaluation :: "reach \<Rightarrow> directory \<Rightarrow> bool \<Rightarrow> claim_key \<Rightarrow> int \<Rightarrow> evaluation_store \<Rightarrow> evaluation_error + claim_outcome \<times> evaluation_store" where
  "try_claim_evaluation a d force k now s = (case mandate_by_id a d (ck_mandate k) of Inl _ \<Rightarrow> Inl Access_Denied
     | Inr _ \<Rightarrow> Inr (act_on_claim force k (find_claim k s) now s))"

section \<open>Outcomes\<close>

text \<open>\<open>json.dumps\<close> without sorting.\<close>

primrec dumps_ordered :: "json \<Rightarrow> str" where
  "dumps_ordered JNull = ''null''"
| "dumps_ordered (JBool b) = (if b then ''true'' else ''false'')"
| "dumps_ordered (JInt i) = int_str i"
| "dumps_ordered (JFloat t q) = t"
| "dumps_ordered (JStr s) = json_str s"
| "dumps_ordered (JArr vs) = ''['' @ join '', '' (map dumps_ordered vs) @ '']''"
| "dumps_ordered (JObj fs) = CHR ''{'' # join '', '' (map (\<lambda>(k, t). json_str k @ '': '' @ t) (map (map_prod id dumps_ordered) fs)) @ ''}''"

definition json_signals :: "material_signal list \<Rightarrow> str" where
  "json_signals xs = dumps_ordered (JArr (map (\<lambda>x. JObj [(''label'', ms_label x), (''source_reference'', JStr (ms_reference x))]) xs))"

definition json_unknowns :: "material_unknown list \<Rightarrow> str" where
  "json_unknowns xs = dumps_ordered (JArr (map (\<lambda>u. JObj [(''fact_or_question'', mu_question u), (''material'', JBool (mu_material u)),
     (''resolvable'', JBool (mu_resolvable u)), (''blocking'', JBool (mu_blocking u)), (''why_it_matters'', mu_why u)]) xs))"

definition stored :: "agent_result \<Rightarrow> stored_evaluation" where
  "stored r = \<lparr>se_recommendation = ar_recommendation r, se_confidence = ar_confidence r, se_basis = dumps_ordered (JArr (ar_basis r)), se_level = as_level (ar_subject r),
     se_reference = as_reference (ar_subject r), se_note = as_note (ar_subject r), se_supporting = json_signals (ar_positive r),
     se_countervailing = json_signals (ar_negative r), se_unknowns = json_unknowns (ar_unknowns r), se_summary = ar_summary r, se_next_action = ar_next_action r,
     se_next_detail = ar_next_detail r, se_trigger = ar_trigger r, se_references = dumps_ordered (JArr (ar_evidence r))\<rparr>"

fun succeeded :: "execution \<Rightarrow> bool" where
  "succeeded (Succeeded r n) = True"
| "succeeded (Failed x n t) = False"

definition GOVERNING_POLICY_PROMPT_VERSION :: int where "GOVERNING_POLICY_PROMPT_VERSION = 2"
definition AGENT_EVALUATION_OUTPUT_SCHEMA_VERSION :: int where "AGENT_EVALUATION_OUTPUT_SCHEMA_VERSION = 2"
definition MODEL :: str where "MODEL = ''gpt-4o-mini''"
definition MODEL_PROVIDER_OPENAI :: str where "MODEL_PROVIDER_OPENAI = ''openai''"

record evaluation_attempt =
  at_key :: claim_key
  at_opportunity :: str
  at_kind :: str
  at_mandate_fingerprint :: str
  at_model :: str
  at_schema_version :: int

definition history_row :: "int \<Rightarrow> evaluation_attempt \<Rightarrow> execution \<Rightarrow> evaluation_row" where
  "history_row i t e = \<lparr>hi_id = i, hi_key = at_key t, hi_opportunity = at_opportunity t, hi_kind = at_kind t, hi_mandate_fingerprint = at_mandate_fingerprint t,
     hi_policy_version = (case e of Succeeded r _ \<Rightarrow> ar_policy_version r | Failed _ _ _ \<Rightarrow> []), hi_prompt_version = GOVERNING_POLICY_PROMPT_VERSION,
     hi_schema_version = at_schema_version t, hi_provider = MODEL_PROVIDER_OPENAI, hi_model = at_model t, hi_success = succeeded e,
     hi_failure = (case e of Succeeded _ _ \<Rightarrow> None | Failed x _ _ \<Rightarrow> Some x), hi_retries = (case e of Succeeded _ n \<Rightarrow> n | Failed _ n _ \<Rightarrow> n),
     hi_diagnostic = (case e of Succeeded _ _ \<Rightarrow> None | Failed _ _ m \<Rightarrow> m), hi_evaluation = (case e of Succeeded r _ \<Rightarrow> Some (stored r) | Failed _ _ _ \<Rightarrow> None)\<rparr>"

definition finished :: "int \<Rightarrow> int \<Rightarrow> execution \<Rightarrow> claim_row \<Rightarrow> claim_row" where
  "finished now h e c = c\<lparr>cl_status := if succeeded e then CLAIM_COMPLETED else CLAIM_FAILED, cl_completed_at := Some now, cl_history := Some h\<rparr>"

definition is_current_of :: "claim_key \<Rightarrow> current_row \<Rightarrow> bool" where
  "is_current_of k c = (cs_mandate c = ck_mandate k \<and> cs_anchor c = ck_anchor k \<and> cs_type c = ck_type k)"

definition new_current :: "evaluation_attempt \<Rightarrow> current_row" where
  "new_current t = \<lparr>cs_mandate = ck_mandate (at_key t), cs_anchor = ck_anchor (at_key t), cs_type = ck_type (at_key t), cs_history = None, cs_fingerprint = None,
     cs_opportunity = at_opportunity t, cs_kind = at_kind t, cs_evaluated_at = 0, cs_success = False, cs_candidate = True\<rparr>"

definition refreshed :: "int \<Rightarrow> int \<Rightarrow> evaluation_attempt \<Rightarrow> execution \<Rightarrow> current_row \<Rightarrow> current_row" where
  "refreshed now h t e c =
    (let c' = c\<lparr>cs_opportunity := at_opportunity t, cs_kind := at_kind t, cs_evaluated_at := now, cs_success := succeeded e, cs_candidate := True\<rparr> in
     if succeeded e then c'\<lparr>cs_history := Some h, cs_fingerprint := Some (ck_fingerprint (at_key t))\<rparr> else c')"

definition upsert_current :: "int \<Rightarrow> int \<Rightarrow> evaluation_attempt \<Rightarrow> execution \<Rightarrow> current_row list \<Rightarrow> current_row list" where
  "upsert_current now h t e cs =
    (if list_ex (is_current_of (at_key t)) cs then map (\<lambda>c. if is_current_of (at_key t) c then refreshed now h t e c else c) cs
     else cs @ [refreshed now h t e (new_current t)])"

text \<open>The three writes, committed together.\<close>

definition write_outcome :: "int \<Rightarrow> int \<Rightarrow> evaluation_attempt \<Rightarrow> execution \<Rightarrow> evaluation_store \<Rightarrow> evaluation_row \<times> evaluation_store" where
  "write_outcome now i t e s =
    (let h = history_row (next_id (map hi_id (es_histories s))) t e in
     (h, s\<lparr>es_histories := es_histories s @ [h], es_claims := map (\<lambda>c. if cl_id c = i then finished now (hi_id h) e c else c) (es_claims s),
       es_current := upsert_current now (hi_id h) t e (es_current s)\<rparr>))"

text \<open>The claim is looked up by its id, mandate, anchor and type.\<close>

definition owned_claim :: "int \<Rightarrow> claim_key \<Rightarrow> evaluation_store \<Rightarrow> bool" where
  "owned_claim i k s = list_ex (\<lambda>c. cl_id c = i \<and> ck_mandate (cl_key c) = ck_mandate k \<and> ck_anchor (cl_key c) = ck_anchor k \<and> ck_type (cl_key c) = ck_type k) (es_claims s)"

definition record_evaluation_outcome :: "reach \<Rightarrow> directory \<Rightarrow> int \<Rightarrow> int \<Rightarrow> claim_key \<Rightarrow> str \<Rightarrow> str \<Rightarrow> str \<Rightarrow> int \<Rightarrow> execution \<Rightarrow> evaluation_store \<Rightarrow> evaluation_error + evaluation_row \<times> evaluation_store" where
  "record_evaluation_outcome a d now i k opportunity mandate_fingerprint model schema_version e s =
    (case mandate_by_id a d (ck_mandate k) of Inl _ \<Rightarrow> Inl Access_Denied | Inr _ \<Rightarrow>
     if \<not> owned_claim i k s then Inl Access_Denied
     else (case opportunity_kind opportunity of Inl x \<Rightarrow> Inl (Subject_Error x)
       | Inr kind \<Rightarrow> Inr (write_outcome now i \<lparr>at_key = k, at_opportunity = opportunity, at_kind = kind, at_mandate_fingerprint = mandate_fingerprint,
           at_model = model, at_schema_version = schema_version\<rparr> e s)))"

section \<open>The run\<close>

datatype persisted = Evaluated evaluation_row "current_row option" | Skipped_In_Progress | Skipped_Already_Evaluated "evaluation_row option" | Skipped_Previously_Failed

definition history_with_id :: "int option \<Rightarrow> evaluation_store \<Rightarrow> evaluation_row option" where
  "history_with_id i s = (case i of None \<Rightarrow> None | Some h \<Rightarrow> find (\<lambda>x. hi_id x = h) (es_histories s))"

text \<open>The clock read when claiming and when recording; with each outcome, the store as it is committed and what was sent to the model.\<close>

definition type_id :: "opportunity_type \<Rightarrow> str" where
  "type_id ty = (if ty = STRATEGIC_LAND then STRATEGIC_LAND_ID else PLANNING_DELIVERY_ID)"

type_synonym run_result = "(evaluation_error + persisted) \<times> evaluation_store \<times> str list"

definition evaluate_claimed :: "nat \<Rightarrow> (nat \<Rightarrow> str \<Rightarrow> reply) \<Rightarrow> reach \<Rightarrow> directory \<Rightarrow> int \<Rightarrow> evaluation_request \<Rightarrow> int \<Rightarrow> claim_key \<Rightarrow> evaluation_store \<Rightarrow> run_result" where
  "evaluate_claimed overhead respond a d recorded_at q i k s = (case evaluate overhead respond q of
     (Inl c, sent) \<Rightarrow> (Inl (Crashed c), s, sent)
   | (Inr e, sent) \<Rightarrow> (case record_evaluation_outcome a d recorded_at i k (eq_opportunity_id q) (eq_mandate_fingerprint q) MODEL AGENT_EVALUATION_OUTPUT_SCHEMA_VERSION e s of
       Inl x \<Rightarrow> (Inl x, s, sent)
     | Inr (h, s') \<Rightarrow> (Inr (Evaluated h (find (is_current_of k) (es_current s'))), s', sent)))"

definition run_persisted_evaluation :: "(str \<Rightarrow> str) \<Rightarrow> nat \<Rightarrow> (nat \<Rightarrow> str \<Rightarrow> reply) \<Rightarrow> reach \<Rightarrow> directory \<Rightarrow> int \<Rightarrow> int \<Rightarrow> int \<Rightarrow> evaluation_request \<Rightarrow> evaluation_store \<Rightarrow> run_result" where
  "run_persisted_evaluation sha overhead respond a d mandate claimed_at recorded_at q s =
    (case mandate_by_id a d mandate of Inl _ \<Rightarrow> (Inl Access_Denied, s, []) | Inr (b, r) \<Rightarrow>
     (case is_buyer_mandate_baseline_stale sha b r of Inl x \<Rightarrow> (Inl (Policy_Error x), s, []) | Inr True \<Rightarrow> (Inl Stale_Mandate_Baseline, s, []) | Inr False \<Rightarrow>
     (case resolve_acquisition_subject_key (eq_opportunity_id q) (type_id (eq_opportunity_type q)) of Inl x \<Rightarrow> (Inl (Subject_Error x), s, []) | Inr key \<Rightarrow>
     (case get_or_create_subject_anchor key s of Inl x \<Rightarrow> (Inl x, s, []) | Inr (anchor, s1) \<Rightarrow>
     let k = \<lparr>ck_mandate = mandate, ck_anchor = anchor, ck_type = eq_acquisition_type q, ck_fingerprint =
           compute_agent_evaluation_input_fingerprint sha (eq_mandate_fingerprint q) (eq_acquisition_type q) (eq_assessment q) (eq_packet q)\<rparr> in
     (case try_claim_evaluation a d False k claimed_at s1 of Inl x \<Rightarrow> (Inl x, s, []) | Inr (outcome, s2) \<Rightarrow>
     (case outcome of
        Already_In_Progress \<Rightarrow> (Inr Skipped_In_Progress, s2, [])
      | Already_Completed h \<Rightarrow> (Inr (Skipped_Already_Evaluated (history_with_id h s2)), s2, [])
      | Previously_Failed h \<Rightarrow> (Inr Skipped_Previously_Failed, s2, [])
      | Claimed i \<Rightarrow> evaluate_claimed overhead respond a d recorded_at q i k s2))))))"

section \<open>Workers\<close>

text \<open>
  Workers share the table: each looks at the claim of a key, acts on what it saw, evaluates what it was granted and records the outcome, in any order with the others, and may stop at
  any point. \<open>forced\<close> says whether a worker may force, \<open>late\<close> whether one may record after its claim has expired.
\<close>

datatype worker_phase = Idle | Looked bool claim_key "claim_row option" | Evaluating int int

record workshop =
  ws_store :: evaluation_store
  ws_now :: int
  ws_workers :: "nat \<Rightarrow> worker_phase"

datatype work = Wait nat | Look nat bool claim_key | Act nat | Finish nat evaluation_attempt execution | Stop nat

definition look :: "bool \<Rightarrow> nat \<Rightarrow> bool \<Rightarrow> claim_key \<Rightarrow> workshop \<Rightarrow> workshop" where
  "look forced w force k x = (if ws_workers x w = Idle \<and> (\<not> force \<or> forced)
     then x\<lparr>ws_workers := (ws_workers x)(w := Looked force k (find_claim k (ws_store x)))\<rparr> else x)"

definition act :: "nat \<Rightarrow> workshop \<Rightarrow> workshop" where
  "act w x = (case ws_workers x w of Looked force k seen \<Rightarrow>
       (case act_on_claim force k seen (ws_now x) (ws_store x) of (outcome, s) \<Rightarrow>
          x\<lparr>ws_store := s, ws_workers := (ws_workers x)(w := (case outcome of Claimed i \<Rightarrow> Evaluating i (ws_now x) | _ \<Rightarrow> Idle))\<rparr>)
     | _ \<Rightarrow> x)"

definition finish :: "bool \<Rightarrow> nat \<Rightarrow> evaluation_attempt \<Rightarrow> execution \<Rightarrow> workshop \<Rightarrow> workshop" where
  "finish late w t e x = (case ws_workers x w of Evaluating i since \<Rightarrow>
       if late \<or> claim_cutoff (ws_now x) \<le> since
       then x\<lparr>ws_store := snd (write_outcome (ws_now x) i t e (ws_store x)), ws_workers := (ws_workers x)(w := Idle)\<rparr> else x
     | _ \<Rightarrow> x)"

fun work_step :: "bool \<Rightarrow> bool \<Rightarrow> workshop \<Rightarrow> work \<Rightarrow> workshop" where
  "work_step forced late x (Wait n) = x\<lparr>ws_now := ws_now x + int n\<rparr>"
| "work_step forced late x (Look w force k) = look forced w force k x"
| "work_step forced late x (Act w) = act w x"
| "work_step forced late x (Finish w t e) = finish late w t e x"
| "work_step forced late x (Stop w) = x\<lparr>ws_workers := (ws_workers x)(w := Idle)\<rparr>"

definition opened :: "int \<Rightarrow> workshop" where
  "opened now = \<lparr>ws_store = empty_store, ws_now = now, ws_workers = (\<lambda>w. Idle)\<rparr>"

end
