(* ===== verification/MandateStoreProperties.thy ===== *)
theory MandateStoreProperties
  imports MandateStore
begin

text \<open>
  What the rows of mandates guarantee: the fingerprint covers everything the matcher reads, a seeded mandate reads back as its template, seeding writes nothing twice and nothing over,
  and a bootstrap leaves nothing for the next one.
\<close>

section \<open>What the matcher reads\<close>

definition anonymous :: "mandate \<Rightarrow> mandate" where
  "anonymous m = m\<lparr>m_key := [], m_display_name := [], m_buyer_type := [], m_primary_requirement := [], m_notes := []\<rparr>"

lemma anonymous_simps [simp]:
  "m_target_unit_min (anonymous m) = m_target_unit_min m" "m_target_unit_max (anonymous m) = m_target_unit_max m"
  "m_scale_metric (anonymous m) = m_scale_metric m" "m_accepted_planning_states (anonymous m) = m_accepted_planning_states m"
  "m_treats_no_activity_as_positive (anonymous m) = m_treats_no_activity_as_positive m"
  "m_large_allocation_is_self_qualifying (anonymous m) = m_large_allocation_is_self_qualifying m"
  "m_specialist_development_is_exclusion (anonymous m) = m_specialist_development_is_exclusion m"
  "m_wholly_affordable_is_exclusion (anonymous m) = m_wholly_affordable_is_exclusion m"
  "m_below_minimum_scale_is_exclusion (anonymous m) = m_below_minimum_scale_is_exclusion m"
  "m_geography_scope (anonymous m) = m_geography_scope m" "m_geography_councils (anonymous m) = m_geography_councils m"
  "m_acquisition_types (anonymous m) = m_acquisition_types m" "m_development_state_appetite (anonymous m) = m_development_state_appetite m"
  "m_control_appetite (anonymous m) = m_control_appetite m"
  by (simp_all add: anonymous_def)

lemma anonymous_scale [simp]:
  "discovery_min (anonymous m) = discovery_min m" "discovery_max (anonymous m) = discovery_max m" "unit_noun (anonymous m) = unit_noun m"
  "scale_assessment (anonymous m) = scale_assessment m" "planning_total_units (anonymous m) = planning_total_units m"
  by (simp_all add: discovery_min_def discovery_max_def unit_noun_def scale_assessment_def planning_total_units_def fun_eq_iff)

lemma anonymous_bounds [simp]:
  "scale_value (anonymous m) = scale_value m" "uncertain_scale (anonymous m) = uncertain_scale m"
  "preferred_text (anonymous m) = preferred_text m" "discovery_text (anonymous m) = discovery_text m"
  "discovery_fit (anonymous m) = discovery_fit m" "hard_minimum_fit (anonymous m) = hard_minimum_fit m"
  by (simp_all add: scale_value_def uncertain_scale_def preferred_text_def discovery_text_def discovery_fit_def hard_minimum_fit_def fun_eq_iff)

lemma anonymous_outside [simp]: "outside_reason (anonymous m) = outside_reason m"
  by (simp add: outside_reason_def fun_eq_iff)

lemma anonymous_verdicts [simp]:
  "uncertain_verdict (anonymous m) = uncertain_verdict m" "known_block (anonymous m) = known_block m"
  by (simp_all add: uncertain_verdict_def known_block_def Let_def fun_eq_iff)

lemma anonymous_uncertain [simp]: "uncertain_block (anonymous m) = uncertain_block m"
  by (simp add: uncertain_block_def fun_eq_iff)

lemma anonymous_blocks [simp]:
  "scale_block (anonymous m) = scale_block m" "specialist_block (anonymous m) = specialist_block m" "affordable_block (anonymous m) = affordable_block m"
  "planning_block (anonymous m) = planning_block m" "no_activity_block (anonymous m) = no_activity_block m"
  "geography_block (anonymous m) = geography_block m" "development_block (anonymous m) = development_block m" "control_block (anonymous m) = control_block m"
  by (simp_all add: scale_block_def specialist_block_def affordable_block_def planning_block_def no_activity_block_def geography_block_def development_block_def
      control_block_def fun_eq_iff cong: option.case_cong if_cong)

lemma anonymous_legs [simp]:
  "strategic_leg (anonymous m) = strategic_leg m" "affordable_leg (anonymous m) = affordable_leg m" "homes_leg (anonymous m) = homes_leg m"
  by (simp_all add: strategic_leg_def affordable_leg_def homes_leg_def fun_eq_iff)

lemma anonymous_composed [simp]:
  "core_blocks (anonymous m) = core_blocks m" "acquisition_block (anonymous m) = acquisition_block m"
  by (simp_all add: core_blocks_def acquisition_block_def fun_eq_iff)

lemma anonymous_fit [simp]: "fit_of (anonymous m) = fit_of m"
  by (simp add: fit_of_def fun_eq_iff cong: option.case_cong if_cong)

lemma assess_anonymous: "assess_buyer_fit (anonymous m) = assess_buyer_fit m"
  by (simp add: assess_buyer_fit_def fun_eq_iff)

lemma set_json_eq [simp]: "finite S \<Longrightarrow> finite T \<Longrightarrow> (set_json S = set_json T) = (S = T)"
  by (simp add: set_json_def inj_map_eq_map inj_def) (metis set_sorted_list_of_set)

lemma comma_set_finite [simp]: "finite (comma_set s)"
  by (simp add: comma_set_def)

lemma row_sets_finite [simp]:
  "finite (po_states (policy_of_row b r))" "finite (po_councils (policy_of_row b r))" "finite (po_types (policy_of_row b r))" "finite (po_control (policy_of_row b r))"
  by (simp_all add: policy_of_row_def)

text \<open>
  C17. Two stored mandates with the same fingerprint source are assessed alike, whatever the opportunity and its context: nothing the matcher reads is outside the fingerprint.
\<close>

theorem fingerprint_covers_matching:
  assumes "fingerprint_source (policy_of_row b r) = fingerprint_source (policy_of_row b' r')"
  shows "assess_buyer_fit (matching_view (policy_of_row b r)) f c = assess_buyer_fit (matching_view (policy_of_row b' r')) f c"
proof -
  have "anonymous (matching_view (policy_of_row b r)) = anonymous (matching_view (policy_of_row b' r'))"
    using assms by (simp add: fingerprint_source_def phase_a_fields_def matching_view_def anonymous_def)
  then show ?thesis by (metis assess_anonymous)
qed

theorem fingerprint_covers_matching_witness:
  "assess_buyer_fit (matching_view (policy_of_row (template_buyer 1 1 (policy_of NESTEN_HOMES)) (template_mandate 1 1 (policy_of NESTEN_HOMES)))) =
   assess_buyer_fit (matching_view (policy_of_row (template_buyer 2 1 (policy_of (NESTEN_HOMES\<lparr>m_key := ''other'', m_notes := []\<rparr>)))
     (template_mandate 2 2 (policy_of (NESTEN_HOMES\<lparr>m_key := ''other'', m_notes := []\<rparr>)))))"
  by (intro ext, rule fingerprint_covers_matching)
    (simp add: fingerprint_source_def phase_a_fields_def policy_of_row_def template_mandate_def b1_fields_def policy_of_def)

section \<open>A stored mandate reads back\<close>

lemma split_join:
  assumes "xs \<noteq> []" and "\<forall>x\<in>set xs. c \<notin> set x"
  shows "split_on c (join [c] xs) = xs"
  using assms by (induction "[c]" xs rule: join.induct) auto

lemma comma_joined:
  assumes "finite S" and "\<forall>x\<in>S. x \<noteq> [] \<and> CHR '','' \<notin> set x"
  shows "comma_set (joined S) = S"
proof (cases "S = {}")
  case True
  then show ?thesis by (simp add: comma_set_def joined_def)
next
  case False
  then have "split_on CHR '','' (joined S) = sorted_list_of_set S"
    using assms by (simp add: joined_def split_join)
  then show ?thesis using assms by (auto simp: comma_set_def)
qed

lemma types_plain: "S \<subseteq> ACQUISITION_TYPES \<Longrightarrow> finite S \<and> (\<forall>x\<in>S. x \<noteq> [] \<and> CHR '','' \<notin> set x)"
  by (rule conjI, rule finite_subset) (auto simp: ACQUISITION_TYPES_def vocabulary_defs)

lemma control_plain: "S \<subseteq> CONTROL_APPETITES \<Longrightarrow> finite S \<and> (\<forall>x\<in>S. x \<noteq> [] \<and> CHR '','' \<notin> set x)"
  by (rule conjI, rule finite_subset) (auto simp: CONTROL_APPETITES_def vocabulary_defs)

lemma states_plain: "finite (planning_state_str ` S) \<and> (\<forall>x\<in>planning_state_str ` S. x \<noteq> [] \<and> CHR '','' \<notin> set x)"
proof -
  have "finite (UNIV :: planning_state set)"
  proof (rule finite_subset)
    show "UNIV \<subseteq> set PLANNING_STATES" by (rule subsetI) (case_tac x, simp_all add: PLANNING_STATES_def)
  qed simp
  moreover have "planning_state_str x \<noteq> [] \<and> CHR '','' \<notin> set (planning_state_str x)" for x by (cases x) simp_all
  ultimately show ?thesis by (auto intro: finite_subset [OF subset_UNIV])
qed

lemma planning_state_str_inj [simp]: "(planning_state_str x = planning_state_str y) = (x = y)"
  by (cases x; cases y) simp_all

lemma matching_view_policy_of [simp]: "matching_view (policy_of m) = m"
proof -
  have "{s \<in> set PLANNING_STATES. planning_state_str s \<in> planning_state_str ` S} = S" for S
    unfolding PLANNING_STATES_def by (auto simp: image_iff) (case_tac x, simp_all)
  then show ?thesis by (cases "m_scale_metric m") (simp_all add: matching_view_def policy_of_def)
qed

lemma scope_truthy: "s \<in> GEOGRAPHY_SCOPES \<Longrightarrow> str_or (Some s) d = s" "s \<in> DEVELOPMENT_STATE_APPETITES \<Longrightarrow> str_or (Some s) d = s"
  by (auto simp: str_or_def GEOGRAPHY_SCOPES_def DEVELOPMENT_STATE_APPETITES_def vocabulary_defs)

lemma str_or_default: "str_or v d = d \<or> str_or v d = the v"
  by (auto simp: str_or_def split: option.split)

text \<open>
  C19. A mandate its constructor accepts, with council codes that are not empty and have no comma, is read back from the rows it is seeded as exactly as it was.
\<close>

theorem seeded_mandate_reads_back:
  assumes "checked_mandate m = Inr m" and "finite (m_geography_councils m)" and "\<forall>k\<in>m_geography_councils m. k \<noteq> [] \<and> CHR '','' \<notin> set k"
  shows "mandate_to_policy (template_buyer i ws (policy_of m)) (template_mandate j i (policy_of m)) = Inr (policy_of m)"
proof -
  note plain = types_plain [of "m_acquisition_types m"] control_plain [of "m_control_appetite m"] states_plain [of "m_accepted_planning_states m"]
  have "policy_of_row (template_buyer i ws (policy_of m)) (template_mandate j i (policy_of m)) = policy_of m"
    using assms(1) plain assms(2,3) unfolding checked_mandate_Inr
    by (simp add: policy_of_row_def template_buyer_def template_mandate_def b1_fields_def policy_of_def comma_joined scope_truthy opt_or_def)
  then show ?thesis using assms(1) by (simp add: mandate_to_policy_def checked_policy_def)
qed

theorem seeded_mandate_reads_back_witness:
  "mandate_to_policy (template_buyer 1 1 (policy_of (NESTEN_HOMES\<lparr>m_geography_scope := GEOGRAPHY_COUNCILS, m_geography_councils := {''TRA'', ''STO''}\<rparr>)))
     (template_mandate 5 1 (policy_of (NESTEN_HOMES\<lparr>m_geography_scope := GEOGRAPHY_COUNCILS, m_geography_councils := {''TRA'', ''STO''}\<rparr>))) =
   Inr (policy_of (NESTEN_HOMES\<lparr>m_geography_scope := GEOGRAPHY_COUNCILS, m_geography_councils := {''TRA'', ''STO''}\<rparr>))"
  by (rule seeded_mandate_reads_back)
    (simp_all add: checked_mandate_Inr NESTEN_HOMES_def GEOGRAPHY_SCOPES_def ACQUISITION_TYPES_def DEVELOPMENT_STATE_APPETITES_def CONTROL_APPETITES_def vocabulary_defs)

section \<open>Seeding settles\<close>

definition distinct_rows :: "directory \<Rightarrow> bool" where
  "distinct_rows d = (distinct (map br_id (di_buyers d)) \<and> distinct (map mr_id (di_mandates d)))"

definition filled :: "mandate_row \<Rightarrow> bool" where
  "filled r = (mr_scope r \<noteq> None)"

text \<open>What a step leaves: buyers, and every row that has its later columns.\<close>

definition keeps :: "directory \<Rightarrow> directory \<Rightarrow> bool" where
  "keeps d d' = (prefix (di_buyers d) (di_buyers d') \<and> di_councils d' = di_councils d \<and>
     (\<forall>x r. default_mandate d x = Some r \<and> filled r \<longrightarrow> default_mandate d' x = Some r) \<and> (\<forall>r\<in>set (di_mandates d). filled r \<longrightarrow> r \<in> set (di_mandates d')))"

lemma keeps_refl [simp]: "keeps d d"
  by (simp add: keeps_def)

lemma keeps_trans: "keeps d e \<Longrightarrow> keeps e f \<Longrightarrow> keeps d f"
  unfolding keeps_def by (auto intro: prefix_order.trans)

lemma keeps_buyer: "keeps d d' \<Longrightarrow> buyer_with_key d ws k = Some b \<Longrightarrow> buyer_with_key d' ws k = Some b"
  by (auto simp: keeps_def buyer_with_key_def dest: find_prefix)

lemma next_mandate_id_fresh [simp]: "next_mandate_id d \<notin> mr_id ` set (di_mandates d)"
proof
  assume "next_mandate_id d \<in> mr_id ` set (di_mandates d)"
  then have "next_mandate_id d \<le> Max (set (0 # map mr_id (di_mandates d)))" by (intro Max_ge) auto
  then show False by (simp add: next_mandate_id_def)
qed

lemma put_buyers [simp]: "di_buyers (put_mandate r d) = di_buyers d" "di_councils (put_mandate r d) = di_councils d"
  by (simp_all add: put_mandate_def)

lemma put_ids [simp]: "map mr_id (di_mandates (put_mandate r d)) = map mr_id (di_mandates d)"
  by (auto simp: put_mandate_def)

lemma put_distinct [simp]: "distinct_rows (put_mandate r d) = distinct_rows d"
  unfolding distinct_rows_def put_ids by simp

lemma distinct_row: "distinct_rows d \<Longrightarrow> x \<in> set (di_mandates d) \<Longrightarrow> y \<in> set (di_mandates d) \<Longrightarrow> mr_id x = mr_id y \<Longrightarrow> x = y"
  by (auto simp: distinct_rows_def distinct_map inj_on_def)

lemma put_default:
  assumes "distinct_rows d" and "r \<in> set (di_mandates d)" and "mr_id r' = mr_id r" and "mr_buyer r' = mr_buyer r" and "mr_key r' = mr_key r"
  shows "default_mandate (put_mandate r' d) x = map_option (\<lambda>y. if y = r then r' else y) (default_mandate d x)"
proof -
  have "mr_id y = mr_id r \<longleftrightarrow> y = r" if "y \<in> set (di_mandates d)" for y using that assms(1,2) distinct_row by metis
  then show ?thesis unfolding default_mandate_def put_mandate_def
    using assms by (auto simp: find_map_id intro!: option.map_cong dest: find_SomeD)
qed

lemma put_keeps:
  assumes "distinct_rows d" and "r \<in> set (di_mandates d)" and "\<not> filled r" and "mr_id r' = mr_id r" and "mr_buyer r' = mr_buyer r" and "mr_key r' = mr_key r"
  shows "keeps d (put_mandate r' d)"
proof -
  have "\<forall>y\<in>set (di_mandates d). filled y \<longrightarrow> y \<in> set (di_mandates (put_mandate r' d))"
    using assms distinct_row by (fastforce simp: put_mandate_def image_iff)
  then show ?thesis using assms by (auto simp: keeps_def put_default)
qed

lemma b1_fields_simps [simp]: "filled (b1_fields t r)" "mr_id (b1_fields t r) = mr_id r" "mr_buyer (b1_fields t r) = mr_buyer r" "mr_key (b1_fields t r) = mr_key r"
  by (simp_all add: b1_fields_def filled_def)

lemma template_mandate_simps [simp]: "filled (template_mandate i j t)" "mr_id (template_mandate i j t) = i" "mr_buyer (template_mandate i j t) = j"
    "mr_key (template_mandate i j t) = DEFAULT_MANDATE_KEY"
  by (simp_all add: template_mandate_def)

lemma default_mandate_row: "default_mandate d x = Some r \<Longrightarrow> r \<in> set (di_mandates d) \<and> mr_buyer r = x \<and> mr_key r = DEFAULT_MANDATE_KEY"
  unfolding default_mandate_def by (drule find_SomeD) simp

lemma append_mandate:
  assumes "distinct_rows d" and "default_mandate d x = None" and "mr_id r = next_mandate_id d" and "mr_buyer r = x" and "mr_key r = DEFAULT_MANDATE_KEY"
  shows "keeps d (d\<lparr>di_mandates := di_mandates d @ [r]\<rparr>) \<and> distinct_rows (d\<lparr>di_mandates := di_mandates d @ [r]\<rparr>) \<and>
    default_mandate (d\<lparr>di_mandates := di_mandates d @ [r]\<rparr>) x = Some r"
  using assms by (auto simp: keeps_def distinct_rows_def default_mandate_def find_append image_iff dest: next_mandate_id_fresh [of d, unfolded image_iff, simplified, rule_format])

lemma seed_mandate_settles:
  assumes "seed_mandate sha t b ids seeded created d = Inr (d', ids', seeded', created')" and "distinct_rows d"
  shows "keeps d d' \<and> distinct_rows d' \<and> di_buyers d' = di_buyers d \<and> ids' = ids \<and> (\<exists>r. default_mandate d' (br_id b) = Some r \<and> filled r \<and> seeded' = seeded @ [r])"
proof (cases "default_mandate d (br_id b)")
  case None
  then show ?thesis using assms append_mandate [OF assms(2) None, of "template_mandate (next_mandate_id d) (br_id b) t"]
    by (auto simp: seed_mandate_def Let_def)
next
  case (Some r)
  have r: "r \<in> set (di_mandates d)" using default_mandate_row [OF Some] by simp
  show ?thesis
  proof (cases "filled r")
    case True
    then show ?thesis using assms Some by (auto simp: seed_mandate_def apply_b1_defaults_if_missing_def filled_def)
  next
    case False
    then obtain r' where r': "d' = put_mandate r' d" "ids' = ids" "seeded' = seeded @ [r']" "mr_id r' = mr_id r" "mr_buyer r' = mr_buyer r" "mr_key r' = mr_key r" "filled r'"
      using assms(1) Some by (auto simp: seed_mandate_def apply_b1_defaults_if_missing_def filled_def Let_def b1_fields_def split: if_splits sum.splits)
    then show ?thesis using put_keeps [OF assms(2) r False r'(4-6)] put_default [OF assms(2) r r'(4-6)] Some assms(2) by simp
  qed
qed

definition seeded_as :: "directory \<Rightarrow> int \<Rightarrow> policy \<Rightarrow> mandate_row \<Rightarrow> bool" where
  "seeded_as d ws t r = (po_councils t \<subseteq> set (di_councils d) \<and>
     (\<exists>b. buyer_with_key d ws (po_key t) = Some b \<and> default_mandate d (br_id b) = Some r \<and> filled r))"

lemma keeps_settled: "keeps d d' \<Longrightarrow> seeded_as d ws t r \<Longrightarrow> seeded_as d' ws t r"
  using keeps_buyer unfolding seeded_as_def keeps_def by fastforce

definition free_ids :: "reach \<Rightarrow> directory \<Rightarrow> int list \<Rightarrow> bool" where
  "free_ids a d ids = (distinct ids \<and> set ids \<subseteq> set (re_buyers a) \<and> set ids \<inter> br_id ` set (di_buyers d) = {})"

definition lacking :: "directory \<Rightarrow> int \<Rightarrow> policy list \<Rightarrow> nat" where
  "lacking d ws ts = length (filter (\<lambda>t. buyer_with_key d ws (po_key t) = None) ts)"

definition within_reach :: "reach \<Rightarrow> directory \<Rightarrow> int \<Rightarrow> bool" where
  "within_reach a d ws = (\<forall>b\<in>set (di_buyers d). br_workspace b = ws \<longrightarrow> br_id b \<in> set (re_buyers a))"

lemma template_buyer_simps [simp]: "br_id (template_buyer i ws t) = i" "br_workspace (template_buyer i ws t) = ws" "br_key (template_buyer i ws t) = po_key t"
  by (simp_all add: template_buyer_def)

lemma append_buyer_keeps [simp]: "keeps d (d\<lparr>di_buyers := di_buyers d @ [b]\<rparr>)"
  by (simp add: keeps_def default_mandate_def)

lemma append_buyer_lookup: "buyer_with_key (d\<lparr>di_buyers := di_buyers d @ [template_buyer i ws t]\<rparr>) ws k =
    (case buyer_with_key d ws k of Some b \<Rightarrow> Some b | None \<Rightarrow> if k = po_key t then Some (template_buyer i ws t) else None)"
  by (auto simp: buyer_with_key_def find_append split: option.split)

lemma buyer_with_key_cong: "di_buyers d' = di_buyers d \<Longrightarrow> buyer_with_key d' = buyer_with_key d"
  by (simp add: buyer_with_key_def fun_eq_iff)

lemma seed_template_settles:
  assumes "seed_template sha ws t (d, ids, seeded, created) = Inr (d', ids', seeded', created')" and "distinct_rows d" and "free_ids a d ids"
    and "within_reach a d ws" and "lacking d ws (t # ts) \<le> length ids" and "po_key t \<notin> po_key ` set ts"
  shows "keeps d d' \<and> distinct_rows d' \<and> free_ids a d' ids' \<and> within_reach a d' ws \<and> lacking d' ws ts \<le> length ids' \<and> (\<exists>r. seeded_as d' ws t r \<and> seeded' = seeded @ [r])"
proof (cases "buyer_with_key d ws (po_key t)")
  case (Some b)
  have councils: "po_councils t \<subseteq> set (di_councils d)"
    and step: "seed_mandate sha t b ids seeded created d = Inr (d', ids', seeded', created')"
    using assms(1) Some by (simp_all add: seed_template_def validate_geography_councils_def split: if_splits)
  note m = seed_mandate_settles [OF step assms(2)]
  then have "buyer_with_key d' = buyer_with_key d" and "di_buyers d' = di_buyers d" "ids' = ids" by (auto intro: buyer_with_key_cong)
  moreover have "di_councils d' = di_councils d" using m by (simp add: keeps_def)
  ultimately show ?thesis using m assms(3-5) councils Some
    by (auto simp: seeded_as_def free_ids_def within_reach_def lacking_def)
next
  case None
  define b where "b = template_buyer (hd ids) ws t"
  define e where "e = d\<lparr>di_buyers := di_buyers d @ [b]\<rparr>"
  have councils: "po_councils t \<subseteq> set (di_councils d)"
    and step: "seed_mandate sha t b (tl ids) seeded True e = Inr (d', ids', seeded', created')"
    using assms(1) None by (simp_all add: seed_template_def validate_geography_councils_def e_def b_def Let_def split: if_splits)
  obtain i js where ids: "ids = i # js" using assms(5) None by (cases ids) (auto simp: lacking_def)
  have rows: "distinct_rows e" using assms(2,3) by (auto simp: distinct_rows_def free_ids_def e_def b_def ids)
  note m = seed_mandate_settles [OF step rows]
  then have same: "buyer_with_key d' = buyer_with_key e" "di_buyers d' = di_buyers e" "ids' = js" "di_councils d' = di_councils d"
    by (auto intro: buyer_with_key_cong simp: ids keeps_def e_def)
  have "keeps d d'" using m append_buyer_keeps [of d b] keeps_trans unfolding e_def by blast
  moreover have "lacking d' ws ts \<le> length ids'"
  proof -
    have "filter (\<lambda>t. buyer_with_key e ws (po_key t) = None) ts = filter (\<lambda>t. buyer_with_key d ws (po_key t) = None) ts"
      using assms(6) by (auto simp: e_def b_def append_buyer_lookup image_iff intro!: filter_cong split: option.split)
    then show ?thesis using assms(5) None by (simp add: lacking_def same ids)
  qed
  moreover have "free_ids a d' ids'" "within_reach a d' ws"
    using assms(3,4) by (auto simp: free_ids_def within_reach_def same e_def b_def ids)
  moreover have "buyer_with_key d' ws (po_key t) = Some b" using None by (simp add: same e_def b_def append_buyer_lookup)
  ultimately show ?thesis using m councils by (auto simp: seeded_as_def same)
qed

lemma seed_templates_settle:
  assumes "seed_templates sha ws ts (d, ids, seeded, created) = Inr (d', ids', seeded', created')" and "distinct_rows d" and "free_ids a d ids"
    and "within_reach a d ws" and "lacking d ws ts \<le> length ids" and "distinct (map po_key ts)"
  shows "keeps d d' \<and> distinct_rows d' \<and> within_reach a d' ws \<and> (\<exists>rs. list_all2 (seeded_as d' ws) ts rs \<and> seeded' = seeded @ rs)"
  using assms
proof (induction ts arbitrary: d ids seeded created)
  case Nil
  then show ?case by simp
next
  case (Cons t ts)
  obtain d1 ids1 seeded1 created1 where step: "seed_template sha ws t (d, ids, seeded, created) = Inr (d1, ids1, seeded1, created1)"
    and rest: "seed_templates sha ws ts (d1, ids1, seeded1, created1) = Inr (d', ids', seeded', created')"
    using Cons.prems(1) by (auto split: sum.splits)
  note s = seed_template_settles [OF step Cons.prems(2-5)]
  obtain r where r: "seeded_as d1 ws t r" "seeded1 = seeded @ [r]" using s Cons.prems(6) by auto
  have "keeps d1 d' \<and> distinct_rows d' \<and> within_reach a d' ws \<and> (\<exists>rs. list_all2 (seeded_as d' ws) ts rs \<and> seeded' = seeded1 @ rs)"
    using s Cons.prems(6) by (intro Cons.IH [OF rest]) auto
  then obtain rs where rs: "keeps d1 d'" "distinct_rows d'" "within_reach a d' ws" "list_all2 (seeded_as d' ws) ts rs" "seeded' = seeded1 @ rs" by blast
  then have "list_all2 (seeded_as d' ws) (t # ts) (r # rs)" using r keeps_settled by simp
  then show ?case using s rs r Cons.prems(6) keeps_trans by (metis append_Cons append_Nil append_assoc distinct.simps(2) list.simps(9) list.set_map)
qed

lemma seed_template_settled: "seeded_as d ws t r \<Longrightarrow> seed_template sha ws t (d, ids, seeded, created) = Inr (d, ids, seeded @ [r], created)"
  by (auto simp: seeded_as_def seed_template_def seed_mandate_def validate_geography_councils_def apply_b1_defaults_if_missing_def filled_def)

lemma seed_templates_settled:
  "list_all2 (seeded_as d ws) ts rs \<Longrightarrow> seed_templates sha ws ts (d, ids, seeded, created) = Inr (d, ids, seeded @ rs, created)"
  by (induction ts rs arbitrary: seeded rule: list_all2_induct) (simp_all add: seed_template_settled)

lemma settled_lacking: "list_all2 (seeded_as d ws) ts rs \<Longrightarrow> lacking d ws ts = 0"
  by (induction ts rs rule: list_all2_induct) (auto simp: lacking_def seeded_as_def)

lemma shipped_keys: "m_key NESTEN_HOMES = ''nesten_homes''" "m_key STRATEGIC_LAND_BUYER = ''strategic_land_buyer''"
    "m_key NATIONAL_HOUSEBUILDER = ''national_housebuilder''" "m_key HOUSING_ASSOCIATION = ''housing_association''"
  by (simp_all only: profile_defs mandate.select_convs)

lemma template_keys: "distinct (map po_key TEMPLATES)" "map po_key TEMPLATES = BUYER_PROFILE_ORDER"
  by (simp_all add: TEMPLATES_def BUYER_PROFILE_ORDER_def BUYER_PROFILES_def policy_of_def shipped_keys)

lemma write_granted: "(require_workspace_write a d ws n = Inr ids) = (ws = re_workspace a \<and> within_reach a d ws \<and>
    ids = sorted_set (filter (\<lambda>i. i \<notin> br_id ` set (di_buyers d)) (re_buyers a)) \<and> n \<le> length ids)"
proof -
  have "filter (\<lambda>i. i \<notin> br_id ` {b \<in> set (di_buyers d). br_id b \<in> set (re_buyers a)}) (re_buyers a) = filter (\<lambda>i. i \<notin> br_id ` set (di_buyers d)) (re_buyers a)"
    by (rule filter_cong) auto
  then show ?thesis by (auto simp: require_workspace_write_def within_reach_def Let_def ok_simps)
qed

definition provisioned :: "directory \<Rightarrow> int \<Rightarrow> bool" where
  "provisioned d ws = (\<forall>t\<in>set TEMPLATES. \<exists>r. seeded_as d ws t r)"

lemma list_all2_ex: "(\<exists>rs. list_all2 P ts rs) = (\<forall>t\<in>set ts. \<exists>r. P t r)"
  by (induction ts) (auto simp: list_all2_Cons1)

lemma settled_seed:
  assumes "list_all2 (seeded_as d ws) TEMPLATES rs" and "within_reach a d ws" and "ws = re_workspace a"
  shows "seed_default_buyer_profiles sha a ws d = Inr (d, rs)"
proof -
  have "missing_buyers d ws = 0"
    using settled_lacking [OF assms(1)] by (simp add: missing_buyers_def lacking_def)
  then have "require_workspace_write a d ws (missing_buyers d ws) = Inr (sorted_set (filter (\<lambda>i. i \<notin> br_id ` set (di_buyers d)) (re_buyers a)))"
    using assms(2,3) by (simp add: write_granted)
  then show ?thesis using seed_templates_settled [OF assms(1)] by (simp add: seed_default_buyer_profiles_def)
qed

lemma provisioned_seed: "provisioned d ws \<Longrightarrow> within_reach a d ws \<Longrightarrow> ws = re_workspace a \<Longrightarrow> \<exists>rs. seed_default_buyer_profiles sha a ws d = Inr (d, rs)"
  using settled_seed unfolding provisioned_def list_all2_ex [symmetric] by blast

lemma seed_settles:
  assumes "seed_default_buyer_profiles sha a ws d = Inr (d', seeded)" and "distinct_rows d"
  shows "keeps d d' \<and> distinct_rows d' \<and> within_reach a d' ws \<and> ws = re_workspace a \<and> provisioned d' ws \<and> seed_default_buyer_profiles sha a ws d' = Inr (d', seeded)"
proof -
  obtain ids ids' created where grant: "require_workspace_write a d ws (missing_buyers d ws) = Inr ids"
    and run: "seed_templates sha ws TEMPLATES (d, ids, [], False) = Inr (d', ids', seeded, created)"
    using assms(1) by (auto simp: seed_default_buyer_profiles_def split: sum.splits)
  have "free_ids a d ids" "within_reach a d ws" "lacking d ws TEMPLATES \<le> length ids" "ws = re_workspace a"
    using grant by (auto simp: write_granted free_ids_def lacking_def missing_buyers_def)
  note s = seed_templates_settle [OF run assms(2) this(1-3) template_keys(1)]
  then have all: "list_all2 (seeded_as d' ws) TEMPLATES seeded" by simp
  then have "provisioned d' ws" unfolding provisioned_def list_all2_ex [symmetric] by blast
  with s settled_seed [OF all] \<open>ws = re_workspace a\<close> show ?thesis by blast
qed

text \<open>
  Seeding a workspace again, straight after, writes nothing and gives the same mandates; and it never overwrites: every buyer stays, in place, and so does every mandate that has the
  later columns.
\<close>

theorem seeding_settles:
  assumes "seed_default_buyer_profiles sha a ws d = Inr (d', seeded)" and "distinct_rows d"
  shows "seed_default_buyer_profiles sha a ws d' = Inr (d', seeded) \<and> prefix (di_buyers d) (di_buyers d') \<and>
    set (filter filled (di_mandates d)) \<subseteq> set (di_mandates d')"
  using seed_settles [OF assms] by (auto simp: keeps_def)

definition empty_directory :: directory where
  "empty_directory = \<lparr>di_buyers = [], di_mandates = [], di_councils = []\<rparr>"

definition first_reach :: reach where
  "first_reach = \<lparr>re_workspace = 1, re_buyers = [4, 3, 2, 1], re_machine = False\<rparr>"

lemma shipped_councils: "m_geography_councils NESTEN_HOMES = {}" "m_geography_councils STRATEGIC_LAND_BUYER = {}"
    "m_geography_councils NATIONAL_HOUSEBUILDER = {}" "m_geography_councils HOUSING_ASSOCIATION = {}"
  by (simp_all only: profile_defs mandate.select_convs)

lemma policy_of_simps: "po_key (policy_of m) = m_key m" "po_councils (policy_of m) = m_geography_councils m"
  by (simp_all add: policy_of_def)

lemma templates: "TEMPLATES = map policy_of [NESTEN_HOMES, STRATEGIC_LAND_BUYER, NATIONAL_HOUSEBUILDER, HOUSING_ASSOCIATION]"
  by (simp add: TEMPLATES_def BUYER_PROFILE_ORDER_def BUYER_PROFILES_def shipped_keys)

lemma first_ids: "require_workspace_write first_reach empty_directory 1 (missing_buyers empty_directory 1) = Inr [1, 2, 3, 4]"
  by (simp add: templates write_granted missing_buyers_def buyer_with_key_def within_reach_def first_reach_def empty_directory_def sorted_set_def)

lemma first_seeding: "\<exists>d' seeded. seed_default_buyer_profiles sha first_reach 1 empty_directory = Inr (d', seeded)"
  unfolding seed_default_buyer_profiles_def first_ids templates
  by (simp add: seed_template_def seed_mandate_def validate_geography_councils_def buyer_with_key_def default_mandate_def shipped_keys shipped_councils
      policy_of_simps empty_directory_def Let_def)

theorem seeding_settles_witness:
  "\<exists>d' seeded. seed_default_buyer_profiles (\<lambda>s. s) first_reach 1 empty_directory = Inr (d', seeded) \<and> seed_default_buyer_profiles (\<lambda>s. s) first_reach 1 d' = Inr (d', seeded)"
proof -
  obtain d' seeded where "seed_default_buyer_profiles (\<lambda>s. s) first_reach 1 empty_directory = Inr (d', seeded)" using first_seeding by blast
  moreover have "distinct_rows empty_directory" by (simp add: distinct_rows_def empty_directory_def)
  ultimately show ?thesis using seeding_settles by blast
qed

section \<open>A bootstrap leaves no mandate stale\<close>

definition up_to_date :: "(str \<Rightarrow> str) \<Rightarrow> int \<Rightarrow> directory \<Rightarrow> mandate_row \<Rightarrow> bool" where
  "up_to_date sha ws d r = (\<forall>b\<in>set (di_buyers d). br_workspace b = ws \<and> br_status b = ''active'' \<and> mr_buyer r = br_id b \<and> mr_status r = ''active'' \<longrightarrow>
     is_buyer_mandate_baseline_stale sha b r = Inr False)"

lemma workspace_mandates_set: "set (workspace_mandates d ws) = {(b, r). b \<in> set (di_buyers d) \<and> r \<in> set (di_mandates d) \<and> br_workspace b = ws \<and>
    br_status b = ''active'' \<and> mr_buyer r = br_id b \<and> mr_status r = ''active''}"
  by (auto simp: workspace_mandates_def active_mandates_def)

lemma stale_among_Inr: "stale_among sha xs = Inr ys \<Longrightarrow> set ys \<subseteq> set xs \<and> (\<forall>(b, r)\<in>set xs. (b, r) \<in> set ys \<or> is_buyer_mandate_baseline_stale sha b r = Inr False)"
  by (induction sha xs arbitrary: ys rule: stale_among.induct) (fastforce split: sum.splits if_splits)+

lemma stale_among_none: "\<forall>(b, r)\<in>set xs. is_buyer_mandate_baseline_stale sha b r = Inr False \<Longrightarrow> stale_among sha xs = Inr []"
  by (induction xs) auto

lemma distinct_buyer: "distinct_rows d \<Longrightarrow> b \<in> set (di_buyers d) \<Longrightarrow> b' \<in> set (di_buyers d) \<Longrightarrow> br_id b = br_id b' \<Longrightarrow> b = b'"
  by (auto simp: distinct_rows_def distinct_map inj_on_def)

lemma onboarded_policy: "policy_of_row b (r\<lparr>mr_fingerprint := f, mr_onboarded_at := o', mr_summary := s\<rparr>) = policy_of_row b r"
  by (simp add: policy_of_row_def)

lemma filter_length_cong: "map g xs = map g ys \<Longrightarrow> length (filter (\<lambda>x. P (g x)) xs) = length (filter (\<lambda>x. P (g x)) ys)"
  using filter_map [of P g xs] filter_map [of P g ys] by (metis comp_def length_map filter_cong)

lemma workspace_mandates_length:
  assumes "di_buyers d' = di_buyers d" and "map (\<lambda>r. (mr_buyer r, mr_status r)) (di_mandates d') = map (\<lambda>r. (mr_buyer r, mr_status r)) (di_mandates d)"
  shows "length (workspace_mandates d' ws) = length (workspace_mandates d ws)"
proof -
  have "length (active_mandates d' i) = length (active_mandates d i)" for i
    unfolding active_mandates_def using filter_length_cong [OF assms(2), of "\<lambda>(x, y). x = i \<and> y = ''active''"] by simp
  then show ?thesis by (simp add: workspace_mandates_def length_concat comp_def assms(1))
qed

lemma baseline_step:
  assumes "run_buyer_onboarding_baseline sha a now u i d = Inr (d', result)" and "distinct_rows d"
  shows "distinct_rows d' \<and> di_buyers d' = di_buyers d \<and> length (workspace_mandates d' ws) = length (workspace_mandates d ws) \<and>
    (provisioned d ws \<longrightarrow> provisioned d' ws) \<and> (\<forall>r\<in>set (di_mandates d'). r \<in> set (di_mandates d) \<and> mr_id r \<noteq> i \<or> up_to_date sha ws d' r)"
proof -
  obtain b r p where found: "mandate_by_id a d i = Inr (b, r)" and p: "mandate_to_policy b r = Inr p"
    and put: "d' = put_mandate (r\<lparr>mr_fingerprint := Some (compute_buyer_mandate_fingerprint sha p), mr_onboarded_at := Some now, mr_summary := Some (bl_line result)\<rparr>) d"
    using assms(1) by (auto simp: run_buyer_onboarding_baseline_def Let_def split: sum.splits)
  define r' where "r' = r\<lparr>mr_fingerprint := Some (compute_buyer_mandate_fingerprint sha p), mr_onboarded_at := Some now, mr_summary := Some (bl_line result)\<rparr>"
  have d': "d' = put_mandate r' d" unfolding put r'_def ..
  have r: "r \<in> set (di_mandates d)" "mr_id r = i" and b: "b \<in> set (di_buyers d)" "br_id b = mr_buyer r"
    using found unfolding mandate_by_id_def buyer_with_id_def by (auto split: option.splits if_splits dest!: find_SomeD)
  have status: "mr_status r' = mr_status r" by (simp add: r'_def)
  have same: "mr_id r' = mr_id r" "mr_buyer r' = mr_buyer r" "mr_key r' = mr_key r" "filled r' = filled r" by (simp_all add: r'_def filled_def)
  have fresh: "up_to_date sha ws d' r'"
    using distinct_buyer [OF assms(2) b(1)] b(2) p
    by (auto simp: up_to_date_def d' r'_def is_buyer_mandate_baseline_stale_def mandate_to_policy_def onboarded_policy checked_policy_def split: sum.splits)
  have "map (\<lambda>x. (mr_buyer x, mr_status x)) (di_mandates d') = map (\<lambda>x. (mr_buyer x, mr_status x)) (di_mandates d)"
  proof -
    have "(if mr_id x = mr_id r' then r' else x) = (if x = r then r' else x)" if "x \<in> set (di_mandates d)" for x
      using distinct_row [OF assms(2) that r(1)] same(1) by metis
    then have "di_mandates d' = map (\<lambda>x. if x = r then r' else x) (di_mandates d)" by (simp add: d' put_mandate_def)
    then show ?thesis by (simp add: same(2) status)
  qed
  then have "length (workspace_mandates d' ws) = length (workspace_mandates d ws)" using workspace_mandates_length [of d' d] d' by simp
  moreover have "seeded_as d' ws t (if x = r then r' else x)" if "seeded_as d ws t x" for t x
    using that buyer_with_key_cong [of d' d] put_default [OF assms(2) r(1) same(1-3)] same(4) by (auto simp: seeded_as_def d')
  moreover have "\<forall>x\<in>set (di_mandates d'). x \<in> set (di_mandates d) \<and> mr_id x \<noteq> i \<or> x = r'"
    by (auto simp: d' put_mandate_def same r(2))
  moreover have "provisioned d' ws" if "provisioned d ws"
    using that calculation(2) unfolding provisioned_def by blast
  ultimately show ?thesis using fresh assms(2) by (auto simp: d')
qed

lemma onboard_all_current:
  assumes "onboard_all sha a now u xs rs d = (d', Inr rs')" and "distinct_rows d" and "provisioned d ws"
    and "\<forall>r\<in>set (di_mandates d). up_to_date sha ws d r \<or> mr_id r \<in> mr_id ` snd ` set xs"
  shows "distinct_rows d' \<and> di_buyers d' = di_buyers d \<and> length (workspace_mandates d' ws) = length (workspace_mandates d ws) \<and> provisioned d' ws \<and>
    (\<forall>r\<in>set (di_mandates d'). up_to_date sha ws d' r)"
  using assms
proof (induction sha a now u xs rs d rule: onboard_all.induct)
  case (1 sha a now u rs d)
  then show ?case by auto
next
  case (2 sha a now u b r xs rs d)
  obtain d1 result where step: "run_buyer_onboarding_baseline sha a now u (mr_id r) d = Inr (d1, result)"
    and rest: "onboard_all sha a now u xs (AList.update (br_key b) result rs) d1 = (d', Inr rs')"
    using 2(2) by (auto split: sum.splits)
  note s = baseline_step [OF step 2(3), of ws]
  then have buyers: "up_to_date sha ws d1 = up_to_date sha ws d" by (simp add: up_to_date_def fun_eq_iff)
  have "\<forall>x\<in>set (di_mandates d1). up_to_date sha ws d1 x \<or> mr_id x \<in> mr_id ` snd ` set xs"
    using s 2(5) buyers by fastforce
  then have "distinct_rows d' \<and> di_buyers d' = di_buyers d1 \<and> length (workspace_mandates d' ws) = length (workspace_mandates d1 ws) \<and> provisioned d' ws \<and>
    (\<forall>r\<in>set (di_mandates d'). up_to_date sha ws d' r)" using s 2(4) by (intro 2(1) [OF step refl rest]) auto
  then show ?case using s by simp
qed

text \<open>
  C18. After a bootstrap no active mandate of the workspace is stale, so a second one, straight after, seeds nothing, onboards nobody and leaves every row as it is.
\<close>

theorem bootstrap_settles:
  assumes "bootstrap_acquisition_monitoring sha a now u d = (d', Inr rep)" and "distinct_rows d"
  shows "bootstrap_acquisition_monitoring sha a now' u' d' = (d', Inr (rep\<lparr>rp_results := []\<rparr>))"
proof -
  define ws where "ws = re_workspace a"
  obtain d1 seeded stale rs where seed: "seed_default_buyer_profiles sha a ws d = Inr (d1, seeded)"
    and stale: "stale_among sha (workspace_mandates d1 ws) = Inr stale" and run: "onboard_all sha a now u stale [] d1 = (d', Inr rs)"
    and rep: "rep = \<lparr>rp_mandates = length (workspace_mandates d1 ws), rp_results = rs\<rparr>"
    using assms(1) unfolding ws_def by (auto simp: bootstrap_acquisition_monitoring_def Let_def split: sum.splits prod.splits)
  note s = seed_settles [OF seed assms(2)]
  then have provisioned: "provisioned d1 ws" by blast
  have "\<forall>r\<in>set (di_mandates d1). up_to_date sha ws d1 r \<or> mr_id r \<in> mr_id ` snd ` set stale"
    using stale_among_Inr [OF stale] by (force simp: up_to_date_def workspace_mandates_set)
  note o = onboard_all_current [OF run _ provisioned this]
  have fresh: "stale_among sha (workspace_mandates d' ws) = Inr []"
    using o s by (intro stale_among_none) (auto simp: workspace_mandates_set up_to_date_def)
  have reach: "within_reach a d' ws" using o s by (simp add: within_reach_def)
  then have "require_workspace_write a d' ws 0 = Inr (sorted_set (filter (\<lambda>i. i \<notin> br_id ` set (di_buyers d')) (re_buyers a)))"
    by (simp add: write_granted ws_def)
  moreover obtain rs2 where "seed_default_buyer_profiles sha a ws d' = Inr (d', rs2)" using provisioned_seed [of d' ws a sha] o s reach by blast
  moreover have "length (workspace_mandates d' ws) = length (workspace_mandates d1 ws)" using o s by blast
  ultimately show ?thesis using fresh by (simp add: bootstrap_acquisition_monitoring_def ws_def [symmetric] rep)
qed

definition sample_buyer :: "int \<Rightarrow> str \<Rightarrow> buyer_row" where
  "sample_buyer i k = \<lparr>br_id = i, br_workspace = 1, br_key = k, br_display_name = k, br_type = [], br_status = ''active''\<rparr>"

definition sample_mandate :: "int \<Rightarrow> int \<Rightarrow> str \<Rightarrow> str \<Rightarrow> mandate_row" where
  "sample_mandate i buyer k status = \<lparr>mr_id = i, mr_buyer = buyer, mr_key = k, mr_display_name = [], mr_primary_requirement = [], mr_min = 10, mr_max = 50, mr_metric = ''total_units'',
     mr_states = ''permission_granted'', mr_no_activity_positive = False, mr_large_self_qualifying = False, mr_specialist_exclusion = True, mr_wholly_exclusion = True,
     mr_below_exclusion = False, mr_notes = None, mr_status = status, mr_source = None, mr_fingerprint = Some ''before'', mr_onboarded_at = Some 0, mr_summary = None,
     mr_scope = Some ''UNSPECIFIED'', mr_councils = Some [], mr_types = Some [], mr_appetite = Some ''UNSPECIFIED'', mr_control = Some []\<rparr>"

definition sample_directory :: directory where
  "sample_directory = \<lparr>di_buyers = [sample_buyer 1 ''nesten_homes'', sample_buyer 2 ''strategic_land_buyer'', sample_buyer 3 ''national_housebuilder'', sample_buyer 4 ''housing_association''],
     di_mandates = [sample_mandate 1 1 ''default'' ''archived'', sample_mandate 2 2 ''default'' ''archived'', sample_mandate 3 3 ''default'' ''archived'', sample_mandate 4 4 ''default'' ''archived'',
       sample_mandate 5 1 ''other'' ''active''], di_councils = []\<rparr>"

lemma sample_settled: "list_all2 (seeded_as sample_directory 1) TEMPLATES [sample_mandate 1 1 ''default'' ''archived'', sample_mandate 2 2 ''default'' ''archived'',
    sample_mandate 3 3 ''default'' ''archived'', sample_mandate 4 4 ''default'' ''archived'']"
  by (simp add: templates seeded_as_def policy_of_simps shipped_keys shipped_councils buyer_with_key_def default_mandate_def sample_directory_def sample_buyer_def
      sample_mandate_def DEFAULT_MANDATE_KEY_def filled_def)

lemma sample_policy: "\<exists>p. mandate_to_policy (sample_buyer 1 ''nesten_homes'') (sample_mandate 5 1 ''other'' ''active'') = Inr p"
  by (simp add: mandate_to_policy_def checked_policy_def checked_mandate_def require_membership_def policy_of_row_def matching_view_def sample_mandate_def
      str_or_def opt_or_def comma_set_def GEOGRAPHY_SCOPES_def DEVELOPMENT_STATE_APPETITES_def vocabulary_defs)

lemma sample_pairs: "workspace_mandates sample_directory 1 = [(sample_buyer 1 ''nesten_homes'', sample_mandate 5 1 ''other'' ''active'')]"
  by (simp add: workspace_mandates_def active_mandates_def sample_directory_def sample_buyer_def sample_mandate_def)

lemma sample_found: "mandate_by_id first_reach sample_directory 5 = Inr (sample_buyer 1 ''nesten_homes'', sample_mandate 5 1 ''other'' ''active'')"
  by (simp add: mandate_by_id_def buyer_with_id_def sample_directory_def sample_buyer_def sample_mandate_def first_reach_def)

text \<open>With a fingerprint that hashes everything to one text, the mandate above is stale and gets onboarded.\<close>

lemma sample_bootstrap: "\<exists>d' rep. bootstrap_acquisition_monitoring (\<lambda>s. ''now'') first_reach 7 [] sample_directory = (d', Inr rep) \<and> map fst (rp_results rep) = [''nesten_homes'']"
proof -
  have reach: "within_reach first_reach sample_directory 1" "re_workspace first_reach = 1"
    by (simp_all add: within_reach_def sample_directory_def sample_buyer_def first_reach_def)
  then have grant: "require_workspace_write first_reach sample_directory 1 0 = Inr (sorted_set (filter (\<lambda>i. i \<notin> br_id ` set (di_buyers sample_directory)) (re_buyers first_reach)))"
    by (simp add: write_granted)
  obtain p where "mandate_to_policy (sample_buyer 1 ''nesten_homes'') (sample_mandate 5 1 ''other'' ''active'') = Inr p" using sample_policy by blast
  moreover have "mr_id (sample_mandate 5 1 ''other'' ''active'') = 5" "br_key (sample_buyer 1 ''nesten_homes'') = ''nesten_homes''"
    "mr_fingerprint (sample_mandate 5 1 ''other'' ''active'') = Some ''before''" "mr_onboarded_at (sample_mandate 5 1 ''other'' ''active'') = Some 0"
    by (simp_all add: sample_mandate_def sample_buyer_def)
  ultimately show ?thesis using settled_seed [OF sample_settled reach(1)] reach(2) grant
    by (simp add: bootstrap_acquisition_monitoring_def sample_pairs is_buyer_mandate_baseline_stale_def compute_buyer_mandate_fingerprint_def
        run_buyer_onboarding_baseline_def sample_found Let_def)
qed

theorem bootstrap_settles_witness:
  "\<exists>d' rep. bootstrap_acquisition_monitoring (\<lambda>s. ''now'') first_reach 7 [] sample_directory = (d', Inr rep) \<and> map fst (rp_results rep) = [''nesten_homes''] \<and>
    bootstrap_acquisition_monitoring (\<lambda>s. ''now'') first_reach 9 [] d' = (d', Inr (rep\<lparr>rp_results := []\<rparr>))"
proof -
  obtain d' rep where run: "bootstrap_acquisition_monitoring (\<lambda>s. ''now'') first_reach 7 [] sample_directory = (d', Inr rep)" "map fst (rp_results rep) = [''nesten_homes'']"
    using sample_bootstrap by (elim exE conjE)
  have rows: "distinct_rows sample_directory" by (simp add: distinct_rows_def sample_directory_def sample_buyer_def sample_mandate_def)
  show ?thesis by (intro exI conjI) (rule run, rule run, rule bootstrap_settles [OF run(1) rows])
qed

section \<open>The fill-in and reviews\<close>

text \<open>
  A mandate that was onboarded under an earlier matching policy, and has no geography yet, is stale; seeding gives it the current fingerprint without assessing anything, and from
  then on it counts as reviewed.
\<close>

lemma fill_in_passes_unreviewed:
  assumes "mr_scope r = None" and "mr_onboarded_at r \<noteq> None" and "mr_fingerprint r = Some old" and "default_mandate d (br_id b) = Some r"
    and "seed_mandate sha t b ids seeded created d = Inr (d', ids', seeded', created')"
  shows "\<exists>r'. seeded' = seeded @ [r'] \<and> mr_onboarded_at r' = mr_onboarded_at r \<and> mr_summary r' = mr_summary r \<and> is_buyer_mandate_baseline_stale sha b r' = Inr False"
proof -
  obtain p where p: "mandate_to_policy b (b1_fields t r) = Inr p"
    and seeded': "seeded' = seeded @ [(b1_fields t r)\<lparr>mr_fingerprint := Some (compute_buyer_mandate_fingerprint sha p)\<rparr>]"
    using assms by (auto simp: seed_mandate_def apply_b1_defaults_if_missing_def b1_fields_def Let_def split: sum.splits)
  have "mandate_to_policy b (b1_fields t r\<lparr>mr_fingerprint := f\<rparr>) = Inr p" for f
    using p by (simp add: mandate_to_policy_def policy_of_row_def)
  with assms(2) show ?thesis by (auto simp: seeded' is_buyer_mandate_baseline_stale_def b1_fields_def)
qed

end
