(* ===== verification/AgentClaimsProperties.thy ===== *)
theory AgentClaimsProperties
  imports AgentClaims MandateStoreProperties
begin

text \<open>
  What the claims guarantee. Workers in any order: a claim has one live owner unless forcing and late recording meet. A run that evaluated is not repeated. An outcome never loses
  what was kept, and a failed one never replaces a successful evaluation.
\<close>

section \<open>One alive owner\<close>

definition alive :: "workshop \<Rightarrow> nat \<Rightarrow> int \<Rightarrow> int \<Rightarrow> bool" where
  "alive x w i since = (ws_workers x w = Evaluating i since \<and> claim_cutoff (ws_now x) \<le> since)"

definition one_live_owner :: "workshop \<Rightarrow> bool" where
  "one_live_owner x = (\<forall>v w i s t. alive x v i s \<and> alive x w i t \<longrightarrow> v = w)"

definition held :: "bool \<Rightarrow> evaluation_store \<Rightarrow> int \<Rightarrow> int \<Rightarrow> bool" where
  "held late s i since = (\<exists>c\<in>set (es_claims s). cl_id c = i \<and> cl_claimed_at c = since \<and> (late \<or> cl_status c = CLAIM_CLAIMED))"

text \<open>Claim ids are distinct, a live worker's claim shows when it was taken, only those who may force do, and there is one live owner.\<close>

definition claims_sound :: "bool \<Rightarrow> bool \<Rightarrow> workshop \<Rightarrow> bool" where
  "claims_sound forced late x = (distinct (map cl_id (es_claims (ws_store x))) \<and> (\<forall>w i since. alive x w i since \<longrightarrow> held late (ws_store x) i since) \<and>
     (\<forall>w k seen. ws_workers x w = Looked True k seen \<longrightarrow> forced) \<and> one_live_owner x)"

lemma next_id_fresh [simp]: "next_id xs \<notin> set xs"
proof
  assume "next_id xs \<in> set xs"
  then have "next_id xs \<le> Max (set (0 # xs))" by (intro Max_ge) auto
  then show False by (simp add: next_id_def)
qed

lemma distinct_mapI: "distinct (map f xs) \<Longrightarrow> distinct xs"
  by (simp add: distinct_map)

lemma distinct_claim: "distinct (map cl_id cs) \<Longrightarrow> x \<in> set cs \<Longrightarrow> y \<in> set cs \<Longrightarrow> cl_id x = cl_id y \<Longrightarrow> x = y"
  by (auto simp: distinct_map inj_on_def)

lemma reclaimed_simps [simp]: "cl_id (reclaimed now c) = cl_id c" "cl_claimed_at (reclaimed now c) = now" "cl_status (reclaimed now c) = CLAIM_CLAIMED"
    "cl_key (reclaimed now c) = cl_key c"
  by (simp_all add: reclaimed_def)

lemma cutoff_before [simp]: "claim_cutoff now \<le> now"
  by (simp add: claim_cutoff_def CLAIM_EXPIRY_MINUTES_def)

lemma held_map:
  assumes "held late s j u" and "es_claims s' = map f (es_claims s)"
    and "\<And>c. cl_id c = j \<Longrightarrow> cl_id (f c) = j \<and> cl_claimed_at (f c) = cl_claimed_at c \<and> (late \<or> cl_status (f c) = cl_status c)"
  shows "held late s' j u"
proof -
  obtain c where c: "c \<in> set (es_claims s)" "cl_id c = j" "cl_claimed_at c = u" "late \<or> cl_status c = CLAIM_CLAIMED" using assms(1) by (auto simp: held_def)
  show ?thesis unfolding held_def assms(2) by (rule bexI [of _ "f c"]) (use c assms(3) [OF c(2)] in auto)
qed

text \<open>What an act may do: nothing, or grant a claim that nobody live holds.\<close>

definition granted :: "bool \<Rightarrow> workshop \<Rightarrow> int \<Rightarrow> evaluation_store \<Rightarrow> bool" where
  "granted late x i s = (distinct (map cl_id (es_claims s)) \<and> held late s i (ws_now x) \<and> (\<forall>w since. \<not> alive x w i since) \<and>
     (\<forall>w j since. alive x w j since \<longrightarrow> held late s j since))"

lemma insert_grants:
  assumes "claims_sound forced late x" and "insert_claim k (ws_now x) (ws_store x) = (outcome, s)"
  shows "(case outcome of Claimed i \<Rightarrow> granted late x i s | _ \<Rightarrow> s = ws_store x)"
proof (cases "find_claim k (ws_store x)")
  case None
  define i where "i = next_id (map cl_id (es_claims (ws_store x)))"
  have fresh: "i \<notin> cl_id ` set (es_claims (ws_store x))" using next_id_fresh [of "map cl_id (es_claims (ws_store x))"] unfolding i_def by simp
  have out: "outcome = Claimed i" "es_claims s = es_claims (ws_store x) @ [\<lparr>cl_id = i, cl_key = k, cl_status = CLAIM_CLAIMED, cl_claimed_at = ws_now x, cl_completed_at = None, cl_history = None\<rparr>]"
    using assms(2) None unfolding insert_claim_def i_def by (auto simp: Let_def)
  have "held late s j since" if "alive x w j since" for w j since
    using assms(1) that unfolding claims_sound_def held_def out by auto
  moreover have "\<not> alive x w i since" for w since
    using assms(1) fresh unfolding claims_sound_def held_def by blast
  ultimately show ?thesis using assms(1) fresh unfolding claims_sound_def granted_def by (simp add: out(1)) (auto simp: out(2) held_def)
next
  case (Some c)
  then show ?thesis using assms(2) by (auto simp: insert_claim_def)
qed

lemma reclaim_grants:
  assumes "claims_sound forced late x" and "reclaim i guard (ws_now x) (ws_store x) = (outcome, s)"
    and "\<And>c w since. c \<in> set (es_claims (ws_store x)) \<Longrightarrow> cl_id c = i \<Longrightarrow> guard c \<Longrightarrow> \<not> alive x w i since"
  shows "(case outcome of Claimed i \<Rightarrow> granted late x i s | _ \<Rightarrow> s = ws_store x)"
proof -
  define hit where "hit = (\<lambda>c. cl_id c = i \<and> guard c)"
  define f where "f = (\<lambda>c. if hit c then reclaimed (ws_now x) c else c)"
  have s: "s = (ws_store x)\<lparr>es_claims := map f (es_claims (ws_store x))\<rparr>"
    and outcome: "outcome = (if length (filter hit (es_claims (ws_store x))) = 1 then Claimed i else Already_In_Progress)"
    using assms(2) by (auto simp: reclaim_def Let_def f_def hit_def)
  have distinct: "distinct (map cl_id (es_claims (ws_store x)))" using assms(1) by (simp add: claims_sound_def)
  have ids: "map cl_id (map f (es_claims (ws_store x))) = map cl_id (es_claims (ws_store x))" by (simp add: f_def)
  show ?thesis
  proof (cases "\<exists>c\<in>set (es_claims (ws_store x)). hit c")
    case True
    then obtain c where c: "c \<in> set (es_claims (ws_store x))" "cl_id c = i" "guard c" by (auto simp: hit_def)
    have "{y. hit y} \<inter> set (es_claims (ws_store x)) = {c}"
    proof (rule equalityI)
      show "{y. hit y} \<inter> set (es_claims (ws_store x)) \<subseteq> {c}"
      proof
        fix y assume "y \<in> {y. hit y} \<inter> set (es_claims (ws_store x))"
        then have "y \<in> set (es_claims (ws_store x))" "cl_id y = cl_id c" using c(2) by (simp_all add: hit_def)
        then show "y \<in> {c}" using distinct_claim [OF distinct _ c(1)] by blast
      qed
    qed (use c in \<open>simp add: hit_def\<close>)
    then have "length (filter hit (es_claims (ws_store x))) = 1"
      using distinct_length_filter [OF distinct_mapI [OF distinct], of hit] by simp
    moreover have free: "\<not> alive x w i since" for w since using assms(3) [OF c] .
    moreover have "held late s j since" if "alive x w j since" for w j since
    proof -
      have "j \<noteq> i" using that free by auto
      moreover have "held late (ws_store x) j since" using assms(1) that by (simp add: claims_sound_def)
      ultimately show ?thesis by (rule_tac held_map [of _ "ws_store x" _ _ _ f]) (auto simp: s f_def hit_def)
    qed
    moreover have "held late s i (ws_now x)" unfolding held_def s by (rule bexI [of _ "f c"]) (use c in \<open>auto simp: f_def hit_def\<close>)
    moreover have "distinct (map cl_id (es_claims s))"
    proof -
      have "es_claims s = map f (es_claims (ws_store x))" by (simp add: s)
      then show ?thesis using distinct ids by (simp only:)
    qed
    ultimately show ?thesis by (simp add: outcome granted_def)
  next
    case False
    then have "map f (es_claims (ws_store x)) = es_claims (ws_store x)" by (auto simp: f_def intro!: map_idI)
    moreover have "filter hit (es_claims (ws_store x)) = []" using False by (simp add: filter_empty_conv)
    ultimately show ?thesis by (simp add: outcome s)
  qed
qed

lemma act_grants:
  assumes "claims_sound forced late x" and "\<not> (forced \<and> late)" and "ws_workers x w = Looked force k seen"
    and "act_on_claim force k seen (ws_now x) (ws_store x) = (outcome, s)"
  shows "(case outcome of Claimed i \<Rightarrow> granted late x i s | _ \<Rightarrow> s = ws_store x)"
proof (cases seen)
  case None
  then show ?thesis using insert_grants [OF assms(1)] assms(4) by (simp add: act_on_claim_def)
next
  case (Some c)
  have held: "held late (ws_store x) i since" if "alive x v i since" for v i since using assms(1) that by (simp add: claims_sound_def)
  have row: "y = z" if "y \<in> set (es_claims (ws_store x))" "z \<in> set (es_claims (ws_store x))" "cl_id y = cl_id z" for y z
    using assms(1) that distinct_claim by (auto simp: claims_sound_def)
  have expired: "\<not> alive x v (cl_id y) since" if "y \<in> set (es_claims (ws_store x))" "cl_claimed_at y < claim_cutoff (ws_now x)" for y v since
    using that held row unfolding held_def alive_def by (metis leD)
  have ended: "\<not> alive x v (cl_id y) since" if "y \<in> set (es_claims (ws_store x))" "cl_status y \<noteq> CLAIM_CLAIMED" "\<not> late" for y v since
    using that held row unfolding held_def by metis
  have "forced" if force
  proof -
    have "ws_workers x w = Looked True k seen" using assms(3) that by simp
    then show ?thesis using assms(1) unfolding claims_sound_def by blast
  qed
  then have force: "\<not> force \<or> \<not> late" using assms(2) by blast
  consider "outcome = Already_Completed (cl_history c) \<or> outcome = Previously_Failed (cl_history c) \<or> outcome = Already_In_Progress" "s = ws_store x"
    | "reclaim (cl_id c) (\<lambda>y. cl_status y = CLAIM_CLAIMED \<and> cl_claimed_at y < claim_cutoff (ws_now x)) (ws_now x) (ws_store x) = (outcome, s)"
    | "\<not> late" "cl_status c \<noteq> CLAIM_CLAIMED" "reclaim (cl_id c) (\<lambda>y. cl_status y = cl_status c) (ws_now x) (ws_store x) = (outcome, s)"
    using assms(4) force by (cases "cl_status c") (auto simp: act_on_claim_def Some split: if_splits)
  then show ?thesis
  proof cases
    case 1
    then show ?thesis by auto
  next
    case 2
    show ?thesis by (rule reclaim_grants [OF assms(1) 2]) (metis expired)
  next
    case 3
    show ?thesis by (rule reclaim_grants [OF assms(1) 3(3)]) (metis ended 3(1,2))
  qed
qed

lemma finished_simps [simp]: "cl_id (finished now h e c) = cl_id c" "cl_claimed_at (finished now h e c) = cl_claimed_at c" "cl_key (finished now h e c) = cl_key c"
  by (simp_all add: finished_def)

lemma written_claims: "es_claims (snd (write_outcome now i t e s)) =
    map (\<lambda>c. if cl_id c = i then finished now (next_id (map hi_id (es_histories s))) e c else c) (es_claims s)"
  by (simp add: write_outcome_def Let_def history_row_def)

lemma finish_sound:
  assumes "claims_sound forced late x"
  shows "claims_sound forced late (finish late w t e x)"
proof (cases "\<exists>i since. ws_workers x w = Evaluating i since \<and> (late \<or> claim_cutoff (ws_now x) \<le> since)")
  case True
  then obtain i since where w: "ws_workers x w = Evaluating i since" and timely: "late \<or> claim_cutoff (ws_now x) \<le> since" by blast
  define s where "s = snd (write_outcome (ws_now x) i t e (ws_store x))"
  define x' where "x' = x\<lparr>ws_store := s, ws_workers := (ws_workers x)(w := Idle)\<rparr>"
  have step: "finish late w t e x = x'" using w timely by (simp add: finish_def x'_def s_def)
  have was: "alive x v j u \<and> v \<noteq> w" if "alive x' v j u" for v j u using that by (auto simp: alive_def x'_def split: if_splits)
  have "held late s j u" if "alive x' v j u" for v j u
  proof -
    have "late \<or> j \<noteq> i"
    proof (cases late)
      case False
      then have "alive x w i since" using timely w by (simp add: alive_def)
      then show ?thesis using was [OF that] assms unfolding claims_sound_def one_live_owner_def by blast
    qed simp
    moreover have "held late (ws_store x) j u" using was [OF that] assms unfolding claims_sound_def by blast
    ultimately show ?thesis unfolding s_def by (rule_tac held_map [OF _ written_claims]) auto
  qed
  moreover have "one_live_owner x'" using was assms unfolding claims_sound_def one_live_owner_def by blast
  moreover have "distinct (map cl_id (es_claims s))"
  proof -
    have "map cl_id (es_claims s) = map cl_id (es_claims (ws_store x))" by (simp add: s_def written_claims)
    then show ?thesis using assms by (simp add: claims_sound_def)
  qed
  moreover have "forced" if "ws_workers x' v = Looked True k seen" for v k seen
    using that assms unfolding claims_sound_def x'_def by (auto split: if_splits)
  ultimately show ?thesis unfolding step claims_sound_def by (simp add: x'_def)
next
  case False
  then have "finish late w t e x = x" by (auto simp: finish_def split: worker_phase.split)
  then show ?thesis using assms by simp
qed

lemma act_sound:
  assumes "claims_sound forced late x" and "\<not> (forced \<and> late)"
  shows "claims_sound forced late (act w x)"
proof (cases "\<exists>force k seen. ws_workers x w = Looked force k seen")
  case True
  then obtain force k seen where w: "ws_workers x w = Looked force k seen" by blast
  obtain outcome s where act: "act_on_claim force k seen (ws_now x) (ws_store x) = (outcome, s)" by fastforce
  define x' where "x' = x\<lparr>ws_store := s, ws_workers := (ws_workers x)(w := (case outcome of Claimed i \<Rightarrow> Evaluating i (ws_now x) | _ \<Rightarrow> Idle))\<rparr>"
  have step: "act w x = x'" using w act by (simp add: act_def x'_def)
  have looks: "forced" if "ws_workers x' v = Looked True k seen" for v k seen
    using that assms(1) unfolding claims_sound_def x'_def by (auto split: if_splits claim_outcome.splits)
  note g = act_grants [OF assms w act]
  show ?thesis
  proof (cases "\<exists>i. outcome = Claimed i")
    case True
    then obtain i where i: "outcome = Claimed i" by blast
    then have g: "granted late x i s" using g by simp
    have was: "v = w \<and> j = i \<and> u = ws_now x \<or> v \<noteq> w \<and> alive x v j u" if "alive x' v j u" for v j u
      using that by (auto simp: alive_def x'_def i split: if_splits)
    have "held late s j u" if "alive x' v j u" for v j u using was [OF that] g unfolding granted_def by blast
    moreover have "one_live_owner x'"
    proof -
      have free: "\<not> alive x v i u" for v u using g by (simp add: granted_def)
      have "v1 = v2" if "alive x v1 j u1" "alive x v2 j u2" for v1 v2 j u1 u2
        using assms(1) that unfolding claims_sound_def one_live_owner_def by blast
      then show ?thesis unfolding one_live_owner_def using was free by metis
    qed
    moreover have "distinct (map cl_id (es_claims s))" using g by (simp add: granted_def)
    ultimately show ?thesis using looks unfolding step claims_sound_def by (simp add: x'_def)
  next
    case False
    then have s: "s = ws_store x" using g by (cases outcome) auto
    have was: "alive x v j u" if "alive x' v j u" for v j u
      using that False by (cases outcome) (auto simp: alive_def x'_def split: if_splits)
    then have "one_live_owner x'" using assms(1) unfolding claims_sound_def one_live_owner_def by blast
    moreover have "ws_store x' = ws_store x" by (simp add: x'_def s)
    ultimately show ?thesis using looks was assms(1) unfolding step claims_sound_def by metis
  qed
next
  case False
  then have "act w x = x" by (auto simp: act_def split: worker_phase.split)
  then show ?thesis using assms by simp
qed

lemma sound_weaken:
  assumes "claims_sound forced late x" and "ws_store x' = ws_store x" and "\<And>v i u. alive x' v i u \<Longrightarrow> alive x v i u"
    and "\<And>v k seen. ws_workers x' v = Looked True k seen \<Longrightarrow> forced"
  shows "claims_sound forced late x'"
  using assms unfolding claims_sound_def one_live_owner_def by metis

lemma work_sound:
  assumes "claims_sound forced late x" and "\<not> (forced \<and> late)"
  shows "claims_sound forced late (work_step forced late x e)"
proof (cases e)
  case (Wait n)
  show ?thesis unfolding Wait work_step.simps
    by (rule sound_weaken [OF assms(1)]) (use assms(1) in \<open>auto simp: alive_def claim_cutoff_def claims_sound_def\<close>)
next
  case (Look w force k)
  show ?thesis unfolding Look work_step.simps
    by (rule sound_weaken [OF assms(1)]) (use assms(1) in \<open>auto simp: look_def alive_def claims_sound_def split: if_splits\<close>)
next
  case (Stop w)
  show ?thesis unfolding Stop work_step.simps
    by (rule sound_weaken [OF assms(1)]) (use assms(1) in \<open>auto simp: alive_def claims_sound_def split: if_splits\<close>)
qed (use act_sound [OF assms] finish_sound [OF assms(1)] in simp_all)

interpretation claim_work: machine "work_step forced late" "\<lambda>x. forced \<and> late \<or> claims_sound forced late x" for forced late
  by unfold_locales (use work_sound in blast)

definition sample_key :: claim_key where
  "sample_key = \<lparr>ck_mandate = 1, ck_anchor = 1, ck_type = LAND_SITE_ACQUISITION, ck_fingerprint = ''f''\<rparr>"

definition sample_attempt :: evaluation_attempt where
  "sample_attempt = \<lparr>at_key = sample_key, at_opportunity = ''planning_delivery:site:7'', at_kind = ''site'', at_mandate_fingerprint = ''m'', at_model = MODEL, at_schema_version = 2\<rparr>"

text \<open>Worker 0 stalls past its claim, worker 1 takes it over, worker 0 records after all, and worker 2 forces.\<close>

definition overlapping :: "work list" where
  "overlapping = [Look 0 False sample_key, Act 0, Wait 1801, Look 1 False sample_key, Act 1, Finish 0 sample_attempt (Failed MALFORMED_LLM_OUTPUT 1 None),
     Look 2 True sample_key, Act 2]"

lemma overlap_shared: "\<not> one_live_owner (run (work_step True True) (opened now) overlapping)"
proof -
  have "alive (run (work_step True True) (opened now) overlapping) 1 1 (now + 1801)" "alive (run (work_step True True) (opened now) overlapping) 2 1 (now + 1801)"
    by (simp_all add: overlapping_def opened_def empty_store_def look_def act_def finish_def act_on_claim_def insert_claim_def find_claim_def reclaim_def reclaimed_def
        write_outcome_def finished_def next_id_def alive_def claim_cutoff_def CLAIM_EXPIRY_MINUTES_def Let_def)
  then show ?thesis unfolding one_live_owner_def by fastforce
qed

lemma opened_sound: "claims_sound forced late (opened now)"
  by (simp add: claims_sound_def opened_def empty_store_def alive_def one_live_owner_def)

text \<open>
  C12. However workers interleave, wait and stop, no two of them hold the same claim alive, exactly when a worker may not both force a claim that has ended and record an outcome after
  its own claim has expired.
\<close>

theorem claims_exclude_exactly:
  "(\<forall>es. one_live_owner (run (work_step forced late) (opened now) es)) = (\<not> (forced \<and> late))"
proof
  assume all: "\<forall>es. one_live_owner (run (work_step forced late) (opened now) es)"
  show "\<not> (forced \<and> late)"
  proof
    assume "forced \<and> late"
    then have yes: "forced = True" "late = True" by simp_all
    have "one_live_owner (run (work_step forced late) (opened now) overlapping)" using all by (rule spec)
    then show False using overlap_shared [of now] unfolding yes by contradiction
  qed
next
  assume timely: "\<not> (forced \<and> late)"
  have "forced \<and> late \<or> claims_sound forced late (run (work_step forced late) (opened now) es)" for es
    by (rule claim_work.run_inv) (simp add: opened_sound)
  with timely have "claims_sound forced late (run (work_step forced late) (opened now) es)" for es by blast
  then show "\<forall>es. one_live_owner (run (work_step forced late) (opened now) es)" by (simp add: claims_sound_def)
qed

section \<open>A run that evaluated is not repeated\<close>

lemma act_claims_own_row:
  assumes "act_on_claim False k (find_claim k s) now s = (Claimed i, s')"
  shows "(\<exists>c. find_claim k s' = Some c \<and> cl_id c = i) \<and> es_anchors s' = es_anchors s \<and> es_histories s' = es_histories s"
proof (cases "find_claim k s")
  case None
  then show ?thesis using assms by (auto simp: act_on_claim_def insert_claim_def Let_def find_claim_def find_append)
next
  case (Some c)
  have key: "find_claim k (s\<lparr>es_claims := map f (es_claims s)\<rparr>) = map_option f (find_claim k s)" if "\<And>x. cl_key (f x) = cl_key x" for f
    using that by (simp add: find_claim_def find_map_id)
  have "reclaim (cl_id c) (\<lambda>x. cl_status x = CLAIM_CLAIMED \<and> cl_claimed_at x < claim_cutoff now) now s = (Claimed i, s')"
    using assms Some by (cases "cl_status c") (auto simp: act_on_claim_def split: if_splits)
  then have "i = cl_id c" "s' = s\<lparr>es_claims := map (\<lambda>x. if cl_id x = cl_id c \<and> cl_status x = CLAIM_CLAIMED \<and> cl_claimed_at x < claim_cutoff now then reclaimed now x else x) (es_claims s)\<rparr>"
    by (auto simp: reclaim_def Let_def split: if_splits)
  then show ?thesis using Some key by simp
qed

lemma written_found:
  assumes "find_claim k s = Some c" and "cl_id c = i" and "write_outcome now i t e s = (h, s')"
  shows "find_claim k s' = Some (finished now (hi_id h) e c) \<and> es_anchors s' = es_anchors s \<and> history_with_id (Some (hi_id h)) s' = Some h \<and> hi_success h = succeeded e"
proof -
  have fresh: "find (\<lambda>x. hi_id x = next_id (map hi_id (es_histories s))) (es_histories s) = None"
    using next_id_fresh [of "map hi_id (es_histories s)"] unfolding find_None_iff set_map by (metis image_eqI)
  have h: "hi_id h = next_id (map hi_id (es_histories s))" "hi_success h = succeeded e" and s': "s' = s\<lparr>es_histories := es_histories s @ [h],
      es_claims := map (\<lambda>c. if cl_id c = i then finished now (hi_id h) e c else c) (es_claims s), es_current := upsert_current now (hi_id h) t e (es_current s)\<rparr>"
    using assms(3) by (auto simp: write_outcome_def Let_def history_row_def)
  have "find (\<lambda>c. cl_key c = k) (map (\<lambda>c. if cl_id c = i then finished now (hi_id h) e c else c) (es_claims s)) =
      map_option (\<lambda>c. if cl_id c = i then finished now (hi_id h) e c else c) (find (\<lambda>c. cl_key c = k) (es_claims s))"
    by (rule find_map_id) simp
  then show ?thesis using assms(1,2) fresh h by (simp add: find_claim_def s' history_with_id_def find_append)
qed

lemma anchor_found: "get_or_create_subject_anchor key s = Inr (i, s1) \<Longrightarrow> es_anchors s2 = es_anchors s1 \<Longrightarrow> get_or_create_subject_anchor key s2 = Inr (i, s2)"
  by (auto simp: get_or_create_subject_anchor_def find_append Let_def split: prod.splits option.splits)

text \<open>
  C13. Once a run has evaluated, the same run at any later time sends nothing to the model, changes nothing, and answers with the kept row or, after a failure, that it failed before.
\<close>

theorem evaluated_not_repeated:
  assumes "run_persisted_evaluation sha overhead respond a d mandate claimed_at recorded_at q s = (Inr (Evaluated h current), s', sent)"
  shows "run_persisted_evaluation sha overhead respond' a d mandate claimed_at' recorded_at' q s' =
    (Inr (if hi_success h then Skipped_Already_Evaluated (Some h) else Skipped_Previously_Failed), s', [])"
proof -
  define k where "k = (\<lambda>anchor. \<lparr>ck_mandate = mandate, ck_anchor = anchor, ck_type = eq_acquisition_type q, ck_fingerprint =
      compute_agent_evaluation_input_fingerprint sha (eq_mandate_fingerprint q) (eq_acquisition_type q) (eq_assessment q) (eq_packet q)\<rparr>)"
  obtain b r key anchor s1 i s2 where access: "mandate_by_id a d mandate = Inr (b, r)" "is_buyer_mandate_baseline_stale sha b r = Inr False"
      "resolve_acquisition_subject_key (eq_opportunity_id q) (type_id (eq_opportunity_type q)) = Inr key"
    and anchor: "get_or_create_subject_anchor key s = Inr (anchor, s1)"
    and claim: "act_on_claim False (k anchor) (find_claim (k anchor) s1) claimed_at s1 = (Claimed i, s2)"
    and evaluated: "evaluate_claimed overhead respond a d recorded_at q i (k anchor) s2 = (Inr (Evaluated h current), s', sent)"
    using assms unfolding run_persisted_evaluation_def Let_def k_def try_claim_evaluation_def
    by (auto split: sum.splits prod.splits bool.splits claim_outcome.splits)
  obtain e t where e: "write_outcome recorded_at i t e s2 = (h, s')"
    using evaluated by (auto simp: evaluate_claimed_def record_evaluation_outcome_def split: sum.splits prod.splits if_splits)
  obtain c where c: "find_claim (k anchor) s2 = Some c" "cl_id c = i" and same: "es_anchors s2 = es_anchors s1" using act_claims_own_row [OF claim] by blast
  note w = written_found [OF c e]
  have again: "act_on_claim False (k anchor) (find_claim (k anchor) s') claimed_at' s' =
      (if hi_success h then Already_Completed (Some (hi_id h)) else Previously_Failed (Some (hi_id h)), s')"
    using w by (simp add: act_on_claim_def finished_def)
  have "get_or_create_subject_anchor key s' = Inr (anchor, s')" using anchor_found [OF anchor] w same by simp
  then show ?thesis using access again w
    unfolding run_persisted_evaluation_def try_claim_evaluation_def k_def by (simp add: Let_def)
qed

definition no_fact :: packet_fact where
  "no_fact = \<lparr>fv_state = ''UNKNOWN'', fv_value = JNull\<rparr>"

definition no_signal :: signal_value where
  "no_signal = \<lparr>sv_state = ''UNKNOWN'', sv_detail = None\<rparr>"

definition bare_packet :: packet where
  "bare_packet = \<lparr>pk_type = PLANNING_DELIVERY, pk_scope_verified = False, pk_total_units = no_fact, pk_affordable_units = no_fact, pk_affordable_percentage = no_fact,
     pk_planning_state = no_fact, pk_direction = no_fact, pk_plan_status = no_fact, pk_allocation_status = no_fact, pk_progression = no_fact, pk_has_activity = no_fact,
     pk_development_state = no_fact, pk_affordable_status = no_fact,
     pk_actors = \<lparr>ac_developers = [], ac_coverage = None, ac_conflicts = [], ac_has_ownership = False\<rparr>, pk_linked_id = None, pk_linked_name = None,
     pk_signals = \<lparr>ts_recent_permission = no_signal, ts_approaching_deadline = no_signal, ts_implementation_activity = no_signal, ts_wider_activity = no_signal,
       ts_no_progress = no_signal, ts_ownership_changed = no_signal, ts_coverage_checked_at = None, ts_scope_verified = False\<rparr>,
     pk_phasing_state = None, pk_phasing_self_scope = False\<rparr>"

text \<open>The type asked for is not one of the mandate's: the evaluation fails without a call, and the failure is kept.\<close>

definition bare_request :: evaluation_request where
  "bare_request = \<lparr>eq_mandate = NESTEN_HOMES, eq_mandate_key = ''nesten_homes'', eq_mandate_fingerprint = ''m'', eq_acquisition_type = ''OTHER'',
     eq_opportunity_id = ''planning_delivery:site:7'', eq_opportunity_type = PLANNING_DELIVERY, eq_opportunity_fingerprint = ''o'', eq_packet = bare_packet,
     eq_assessment = \<lparr>as_classification = STRONG_FIT, as_exception = False, as_matches = [], as_does_not_match = [], as_unknown = [], as_investigate = [], as_trace = []\<rparr>\<rparr>"

lemma site_key: "resolve_acquisition_subject_key ''planning_delivery:site:7'' PLANNING_DELIVERY_ID = Inr (PLANNING_DELIVERY_ID, 7, Some ''WHOLE_SITE'')"
  by code_simp

lemma site_kind: "opportunity_kind ''planning_delivery:site:7'' = Inr ''site''"
  by code_simp

lemma sample_fresh: "is_buyer_mandate_baseline_stale (\<lambda>s. ''before'') (sample_buyer 1 ''nesten_homes'') (sample_mandate 5 1 ''other'' ''active'') = Inr False"
proof -
  obtain p where "mandate_to_policy (sample_buyer 1 ''nesten_homes'') (sample_mandate 5 1 ''other'' ''active'') = Inr p" using sample_policy by blast
  moreover have "mr_fingerprint (sample_mandate 5 1 ''other'' ''active'') = Some ''before''" "mr_onboarded_at (sample_mandate 5 1 ''other'' ''active'') = Some 0"
    by (simp_all add: sample_mandate_def)
  ultimately show ?thesis by (simp add: is_buyer_mandate_baseline_stale_def compute_buyer_mandate_fingerprint_def)
qed

lemma bare_evaluation: "evaluate 0 respond bare_request = (Inr (Failed ACQUISITION_TYPE_NOT_IN_MANDATE 0 None), [])"
  by (simp add: evaluate_def bare_request_def NESTEN_HOMES_def vocabulary_defs)

lemma bare_run: "\<exists>h c s'. run_persisted_evaluation (\<lambda>s. ''before'') 0 (\<lambda>n s. Inr JNull) first_reach sample_directory 5 0 60 bare_request empty_store = (Inr (Evaluated h c), s', []) \<and>
    \<not> hi_success h"
proof -
  have q: "eq_opportunity_id bare_request = ''planning_delivery:site:7''" "type_id (eq_opportunity_type bare_request) = PLANNING_DELIVERY_ID"
    by (simp_all add: bare_request_def type_id_def)
  show ?thesis
    by (simp add: run_persisted_evaluation_def sample_found sample_fresh q site_key get_or_create_subject_anchor_def empty_store_def try_claim_evaluation_def find_claim_def
        act_on_claim_def insert_claim_def next_id_def evaluate_claimed_def bare_evaluation record_evaluation_outcome_def owned_claim_def site_kind write_outcome_def
        history_row_def Let_def)
qed

theorem evaluated_not_repeated_witness:
  "\<exists>h c s'. run_persisted_evaluation (\<lambda>s. ''before'') 0 (\<lambda>n s. Inr JNull) first_reach sample_directory 5 0 60 bare_request empty_store = (Inr (Evaluated h c), s', []) \<and>
    run_persisted_evaluation (\<lambda>s. ''before'') 0 (\<lambda>n s. Inr JNull) first_reach sample_directory 5 7200 7260 bare_request s' = (Inr Skipped_Previously_Failed, s', [])"
proof -
  obtain h c s' where r: "run_persisted_evaluation (\<lambda>s. ''before'') 0 (\<lambda>n s. Inr JNull) first_reach sample_directory 5 0 60 bare_request empty_store = (Inr (Evaluated h c), s', [])"
    and failed: "\<not> hi_success h" using bare_run by (elim exE conjE)
  from evaluated_not_repeated [OF r, of "\<lambda>n s. Inr JNull" 7200 7260] failed show ?thesis by (intro exI conjI) (rule r, simp)
qed

section \<open>Outcomes are kept\<close>

text \<open>A current state that names an evaluation names a successful one of its own mandate, subject and type, with the fingerprint it was made for.\<close>

definition names_success :: "evaluation_row list \<Rightarrow> current_row \<Rightarrow> bool" where
  "names_success hs c = (case cs_history c of None \<Rightarrow> cs_fingerprint c = None
     | Some h \<Rightarrow> list_ex (\<lambda>x. hi_id x = h \<and> hi_success x \<and> is_current_of (hi_key x) c \<and> cs_fingerprint c = Some (ck_fingerprint (hi_key x))) hs)"

definition current_sound :: "evaluation_store \<Rightarrow> bool" where
  "current_sound s = list_all (names_success (es_histories s)) (es_current s)"

definition evaluated_states :: "evaluation_store \<Rightarrow> (int \<times> int \<times> str \<times> int option \<times> str option) set" where
  "evaluated_states s = (\<lambda>c. (cs_mandate c, cs_anchor c, cs_type c, cs_history c, cs_fingerprint c)) ` set (filter (\<lambda>c. cs_history c \<noteq> None) (es_current s))"

lemma refreshed_simps [simp]: "cs_mandate (refreshed now h t e c) = cs_mandate c" "cs_anchor (refreshed now h t e c) = cs_anchor c" "cs_type (refreshed now h t e c) = cs_type c"
    "cs_history (refreshed now h t e c) = (if succeeded e then Some h else cs_history c)"
    "cs_fingerprint (refreshed now h t e c) = (if succeeded e then Some (ck_fingerprint (at_key t)) else cs_fingerprint c)"
  by (simp_all add: refreshed_def Let_def)

lemma is_current_of_refreshed [simp]: "is_current_of k (refreshed now h t e c) = is_current_of k c"
  by (simp add: is_current_of_def)

lemma new_current_simps [simp]: "is_current_of (at_key t) (new_current t)" "cs_history (new_current t) = None" "cs_fingerprint (new_current t) = None"
  by (simp_all add: new_current_def is_current_of_def)

lemma write_outcome_parts:
  assumes "write_outcome now i t e s = (h, s')"
  shows "hi_key h = at_key t \<and> hi_success h = succeeded e \<and> hi_id h \<notin> hi_id ` set (es_histories s) \<and> es_histories s' = es_histories s @ [h] \<and>
    es_current s' = upsert_current now (hi_id h) t e (es_current s)"
  using assms next_id_fresh [of "map hi_id (es_histories s)"] by (auto simp: write_outcome_def Let_def history_row_def)

lemma map_same_image: "(\<And>c. g (f c) = g c) \<Longrightarrow> (\<And>c. P (f c) = P c) \<Longrightarrow> g ` set (filter P (map f cs)) = g ` set (filter P cs)"
  by (induction cs) auto

lemma upsert_failed:
  assumes "\<not> succeeded e"
  shows "(\<lambda>c. (cs_mandate c, cs_anchor c, cs_type c, cs_history c, cs_fingerprint c)) ` set (filter (\<lambda>c. cs_history c \<noteq> None) (upsert_current now h t e cs)) =
    (\<lambda>c. (cs_mandate c, cs_anchor c, cs_type c, cs_history c, cs_fingerprint c)) ` set (filter (\<lambda>c. cs_history c \<noteq> None) cs)"
proof (cases "list_ex (is_current_of (at_key t)) cs")
  case True
  then have "upsert_current now h t e cs = map (\<lambda>c. if is_current_of (at_key t) c then refreshed now h t e c else c) cs" by (simp add: upsert_current_def)
  then show ?thesis using assms by (simp only:) (rule map_same_image, simp_all)
qed (use assms in \<open>simp add: upsert_current_def\<close>)

lemma write_keeps_sound:
  assumes "write_outcome now i t e s = (h, s')" and "current_sound s"
  shows "current_sound s'"
proof -
  note w = write_outcome_parts [OF assms(1)]
  have old: "names_success (es_histories s') c" if "c \<in> set (es_current s) \<or> c = new_current t" for c
    using assms(2) that w by (auto simp: current_sound_def list_all_iff names_success_def split: option.splits)
  have new: "names_success (es_histories s') (refreshed now (hi_id h) t e c)" if "is_current_of (at_key t) c" "c \<in> set (es_current s) \<or> c = new_current t" for c
    using old [OF that(2)] that(1) w by (auto simp: names_success_def split: option.splits)
  show ?thesis
    using old new w by (auto simp: current_sound_def [of s'] upsert_current_def list_all_iff split: if_splits)
qed

text \<open>
  C14. Recording appends one history row with an id of its own and leaves every earlier row; current states still name only successful evaluations of their own subject, and a failed
  attempt changes no evaluation that any of them names.
\<close>

theorem outcomes_kept:
  assumes "record_evaluation_outcome a d now i k opportunity fp model version e s = Inr (h, s')" and "current_sound s"
  shows "es_histories s' = es_histories s @ [h] \<and> hi_id h \<notin> hi_id ` set (es_histories s) \<and> current_sound s' \<and>
    (if succeeded e then list_ex (\<lambda>c. is_current_of k c \<and> cs_history c = Some (hi_id h) \<and> cs_fingerprint c = Some (ck_fingerprint k)) (es_current s')
     else evaluated_states s' = evaluated_states s)"
proof -
  obtain t where t: "write_outcome now i t e s = (h, s')" "at_key t = k"
    using assms(1) by (auto simp: record_evaluation_outcome_def split: sum.splits if_splits)
  note w = write_outcome_parts [OF t(1)]
  have "list_ex (\<lambda>c. is_current_of k c \<and> cs_history c = Some (hi_id h) \<and> cs_fingerprint c = Some (ck_fingerprint k)) (es_current s')" if "succeeded e"
  proof (cases "list_ex (is_current_of k) (es_current s)")
    case True
    then obtain c where "c \<in> set (es_current s)" "is_current_of k c" by (auto simp: list_ex_iff)
    then show ?thesis using True that w t(2) unfolding list_ex_iff
      by (intro bexI [of _ "refreshed now (hi_id h) t e c"]) (auto simp: upsert_current_def list_ex_iff)
  next
    case False
    then show ?thesis using that w t(2) new_current_simps(1) [of t] by (simp add: upsert_current_def)
  qed
  moreover have "evaluated_states s' = evaluated_states s" if "\<not> succeeded e"
    using w upsert_failed [OF that] by (simp add: evaluated_states_def)
  ultimately show ?thesis using w write_keeps_sound [OF t(1) assms(2)] by simp
qed

definition kept_key :: claim_key where
  "kept_key = sample_key\<lparr>ck_mandate := 5\<rparr>"

definition kept_store :: evaluation_store where
  "kept_store = snd (insert_claim kept_key 0 empty_store)"

lemma kept_recorded: "\<exists>h s'. record_evaluation_outcome first_reach sample_directory 60 1 kept_key ''planning_delivery:site:7'' ''m'' MODEL 2
    (Failed MALFORMED_LLM_OUTPUT 1 None) kept_store = Inr (h, s')"
  by (simp add: record_evaluation_outcome_def site_kind kept_key_def sample_key_def sample_found kept_store_def insert_claim_def find_claim_def empty_store_def next_id_def
      owned_claim_def Let_def write_outcome_def)

theorem outcomes_kept_witness:
  "\<exists>h s'. record_evaluation_outcome first_reach sample_directory 60 1 kept_key ''planning_delivery:site:7'' ''m'' MODEL 2 (Failed MALFORMED_LLM_OUTPUT 1 None) kept_store = Inr (h, s') \<and>
    es_histories s' = es_histories kept_store @ [h] \<and> evaluated_states s' = evaluated_states kept_store"
proof -
  obtain h s' where r: "record_evaluation_outcome first_reach sample_directory 60 1 kept_key ''planning_delivery:site:7'' ''m'' MODEL 2
      (Failed MALFORMED_LLM_OUTPUT 1 None) kept_store = Inr (h, s')" using kept_recorded by (elim exE)
  have "current_sound kept_store" by (simp add: current_sound_def kept_store_def insert_claim_def find_claim_def empty_store_def Let_def)
  from outcomes_kept [OF r this] show ?thesis by (intro exI conjI) (rule r, simp_all)
qed

text \<open>So it is in every interleaving of the workers, forced or late.\<close>

lemma act_current: "act_on_claim force k seen now s = (outcome, s') \<Longrightarrow> es_current s' = es_current s \<and> es_histories s' = es_histories s"
  by (auto simp: act_on_claim_def insert_claim_def reclaim_def Let_def split: option.splits if_splits)

lemma work_current_sound:
  assumes "current_sound (ws_store x)"
  shows "current_sound (ws_store (work_step forced late x e))"
proof (cases e)
  case (Act w)
  have "es_current (ws_store (act w x)) = es_current (ws_store x) \<and> es_histories (ws_store (act w x)) = es_histories (ws_store x)"
    by (auto simp: act_def dest: act_current split: worker_phase.splits prod.splits)
  then show ?thesis using assms by (simp add: Act current_sound_def)
next
  case (Finish w t e)
  have "current_sound (snd (write_outcome (ws_now x) i t e (ws_store x)))" for i
    by (rule write_keeps_sound [OF _ assms]) (simp add: prod_eq_iff)
  then show ?thesis using assms by (auto simp: Finish finish_def split: worker_phase.split)
qed (use assms in \<open>simp_all add: look_def\<close>)

interpretation current_work: machine "work_step forced late" "\<lambda>x. current_sound (ws_store x)" for forced late
  by unfold_locales (rule work_current_sound)

end
