(* ===== verification/AgentProperties.thy ===== *)
theory AgentProperties
  imports AgentEvaluation
begin

text \<open>
  What the validator of an agent evaluation guarantees, and what an evaluation does: which answers are accepted, exactly; how often the model is asked; that a terminal exclusion
  is never put to it. And where the code falls short of its words: a question a buyer is shown is not checked for unsupported language, and a malformed item raises.
\<close>

section \<open>Discipline\<close>

definition cited :: "tokens \<Rightarrow> json \<Rightarrow> bool" where
  "cited tokens v = (case v of JStr s \<Rightarrow> s \<in> set (map fst tokens) | _ \<Rightarrow> False)"

definition clean_text :: "json \<Rightarrow> bool" where
  "clean_text v = (find_unsupported_language v = Inr None)"

definition in_vocabulary :: "agent_result \<Rightarrow> bool" where
  "in_vocabulary r = (ar_recommendation r \<in> set RECOMMENDATION_VALUES \<and> ar_confidence r \<in> set CONFIDENCE_VALUES \<and> ar_next_action r \<in> set NEXT_ACTION_VALUES \<and>
     (case ar_trigger r of None \<Rightarrow> ar_recommendation r \<noteq> MONITOR | Some t \<Rightarrow> t \<in> set MONITORING_TRIGGER_VALUES) \<and>
     as_level (ar_subject r) \<in> set ACQUISITION_SUBJECT_LEVELS \<and> (as_level (ar_subject r) = PARCEL_TBD \<longrightarrow> \<not> json_truthy (as_reference (ar_subject r))) \<and>
     (ar_next_action r = IDENTIFY_PHASE_OR_PARCEL \<longrightarrow> as_level (ar_subject r) \<in> {PARCEL_TBD, SUBJECT_PHASE}))"

definition evidence_cited :: "tokens \<Rightarrow> agent_result \<Rightarrow> bool" where
  "evidence_cited tokens r = (list_all (cited tokens) (ar_basis r) \<and> list_all (cited tokens) (ar_evidence r) \<and>
     list_all (\<lambda>s. ms_reference s \<in> set (map fst tokens)) (ar_positive r @ ar_negative r))"

definition judgement_sound :: "tokens \<Rightarrow> agent_result \<Rightarrow> bool" where
  "judgement_sound tokens r =
    ((ar_recommendation r = AgentResult.INVESTIGATE \<longrightarrow> list_ex decisive (ar_unknowns r)) \<and> (ar_recommendation r = MONITOR \<longrightarrow> \<not> list_ex decisive (ar_unknowns r)) \<and>
     (ar_recommendation r = NOT_RELEVANT \<longrightarrow> list_ex (\<lambda>s. incompatibility tokens (ms_reference s)) (ar_negative r)) \<and>
     (ar_recommendation r \<in> {MONITOR, NOT_RELEVANT} \<longrightarrow> ar_positive r = [] \<or> list_ex (\<lambda>s. confirmed tokens (ms_reference s)) (ar_negative r) \<or>
        ar_unknowns r = [] \<or> list_ex mu_blocking (ar_unknowns r)))"

definition language_clean :: "agent_result \<Rightarrow> bool" where
  "language_clean r = (clean_text (JStr (ar_summary r)) \<and> clean_text (JStr (ar_next_detail r)) \<and> list_all (clean_text \<circ> ms_label) (ar_positive r @ ar_negative r) \<and>
     list_all (clean_text \<circ> mu_why) (ar_unknowns r) \<and> clean_text (as_note (ar_subject r)))"

definition disciplined :: "tokens \<Rightarrow> agent_result \<Rightarrow> bool" where
  "disciplined tokens r = (in_vocabulary r \<and> evidence_cited tokens r \<and> judgement_sound tokens r \<and> language_clean r)"

section \<open>Reading the validator\<close>

lemma andthen_Inr: "(andthen m f = Inr y) = (\<exists>x. m = Inr x \<and> f x = Inr y)"
  by (cases m) auto

lemma gather_Inr: "(gather f xs = Inr ys) = list_all2 (\<lambda>x y. f x = Inr y) xs ys"
proof (induction xs arbitrary: ys)
  case (Cons x xs)
  show ?case by (cases ys) (auto simp: Cons.IH [symmetric] split: sum.split)
qed auto

lemma set_member_Inr: "(set_member xs v = Inr b) = ((case v of JArr _ \<Rightarrow> False | JObj _ \<Rightarrow> False | _ \<Rightarrow> True) \<and> b = (case v of JStr s \<Rightarrow> s \<in> set xs | _ \<Rightarrow> False))"
  by (cases v) auto

lemma lefts_simps [simp]: "lefts [] = []" "lefts (Inl a # xs) = a # lefts xs" "lefts (Inr b # xs) = lefts xs"
  by (simp_all add: lefts_def List.map_filter_def)

lemma rights_simps [simp]: "rights [] = []" "rights (Inl a # xs) = rights xs" "rights (Inr b # xs) = b # rights xs"
  by (simp_all add: rights_def List.map_filter_def)

lemma lefts_Nil: "lefts xs = [] \<Longrightarrow> xs = map Inr (rights xs)"
proof (induction xs)
  case (Cons x xs)
  then show ?case by (cases x) auto
qed simp

lemma lefts_map_Inr [simp]: "lefts (map Inr ys) = []" "rights (map Inr ys) = ys"
  by (induction ys) auto

lemma checked_result_Inr: "(checked_result r = Inr r') = (r' = r \<and> ar_recommendation r \<in> set RECOMMENDATION_VALUES \<and> ar_confidence r \<in> set CONFIDENCE_VALUES \<and>
    \<not> (ar_recommendation r = MONITOR \<and> \<not> truthy (ar_trigger r)) \<and> (case ar_trigger r of None \<Rightarrow> True | Some t \<Rightarrow> t \<in> set MONITORING_TRIGGER_VALUES) \<and>
    ar_next_action r \<in> set NEXT_ACTION_VALUES)"
  by (auto simp: checked_result_def split: option.splits)

lemma checked_result_id: "checked_result r = Inr r' \<Longrightarrow> r' = r"
  by (simp add: checked_result_Inr)

lemma conclude_Accepted: "(conclude i fs subject pos neg us errors = Accepted r) =
    (errors = [] \<and> (\<exists>s. subject = Inr s \<and> checked_result (build_result i fs s pos neg us) = Inr r \<and> r = build_result i fs s pos neg us))"
  by (auto simp: conclude_def checked_result_id split: sum.split)

text \<open>An accepted answer came through every check without a message.\<close>

lemma accepted_fields:
  assumes "validate_and_build_result tokens i raw = Inr (Accepted r)"
  obtains fs subject where "raw = JObj fs" "r = build_result i fs subject (ar_positive r) (ar_negative r) (ar_unknowns r)"
    "vocabulary_error ''recommendation'' (ar_recommendation r) RECOMMENDATION_VALUES = []" "vocabulary_error ''confidence'' (ar_confidence r) CONFIDENCE_VALUES = []"
    "vocabulary_error ''next_action'' (ar_next_action r) NEXT_ACTION_VALUES = []"
    "trigger_errors (ar_recommendation r) (get_field fs ''monitoring_trigger'') = Inr []"
    "checked_subject (ar_next_action r) (object_field fs ''acquisition_subject'') = Inr (Inr subject, [])"
    "list_all (\<lambda>v. ref_error tokens ''confidence_basis'' v = Inr []) (ar_basis r)" "list_all (\<lambda>v. ref_error tokens ''evidence_references'' v = Inr []) (ar_evidence r)"
    "list_all2 (\<lambda>v s. signal_of tokens ''supporting_reasons'' v = Inr (Inr s)) (list_field fs ''supporting_reasons'') (ar_positive r)"
    "list_all2 (\<lambda>v s. signal_of tokens ''countervailing_reasons'' v = Inr (Inr s)) (list_field fs ''countervailing_reasons'') (ar_negative r)"
    "map unknown_of (list_field fs ''material_unknowns'') = map Inr (ar_unknowns r)"
    "investigate_error (ar_recommendation r) (ar_unknowns r) = []" "monitor_error (ar_recommendation r) (ar_unknowns r) = []"
    "contradiction_error tokens (ar_recommendation r) (ar_positive r) (ar_negative r) (ar_unknowns r) = []" "relevance_error tokens (ar_recommendation r) (ar_negative r) = []"
    "\<exists>texts. free_texts fs = Inr texts \<and> list_all (\<lambda>f. language_error f = Inr []) texts"
proof -
  have concat: "list_all2 (\<lambda>x y. f x = Inr y) xs ys \<Longrightarrow> concat ys = [] \<Longrightarrow> list_all (\<lambda>x. f x = Inr []) xs" for f :: "'a \<Rightarrow> crash + str list" and xs ys
    by (induction rule: list_all2_induct) auto
  have signals: "list_all2 (\<lambda>x y. f x = Inr y) xs ys \<Longrightarrow> lefts ys = [] \<Longrightarrow> list_all2 (\<lambda>x s. f x = Inr (Inr s)) xs (rights ys)" for f :: "json \<Rightarrow> crash + str + material_signal" and xs ys
  proof (induction rule: list_all2_induct)
    case (Cons x xs y ys)
    then show ?case by (cases y) auto
  qed simp
  from assms obtain fs where raw: "raw = JObj fs" and fields: "validate_fields tokens i fs = Inr (Accepted r)"
    by (cases raw) (auto simp: validate_and_build_result_def Let_def split: if_split_asm)
  from fields obtain trigger subject subject_errors basis evidence supporting countervailing texts languages where *:
    "trigger_errors (text_field fs ''recommendation'') (get_field fs ''monitoring_trigger'') = Inr trigger"
    "checked_subject (text_field fs ''next_action'') (object_field fs ''acquisition_subject'') = Inr (subject, subject_errors)"
    "list_all2 (\<lambda>x y. ref_error tokens ''confidence_basis'' x = Inr y) (list_field fs ''confidence_basis'') basis"
    "list_all2 (\<lambda>x y. ref_error tokens ''evidence_references'' x = Inr y) (list_field fs ''evidence_references'') evidence"
    "list_all2 (\<lambda>x y. signal_of tokens ''supporting_reasons'' x = Inr y) (list_field fs ''supporting_reasons'') supporting"
    "list_all2 (\<lambda>x y. signal_of tokens ''countervailing_reasons'' x = Inr y) (list_field fs ''countervailing_reasons'') countervailing"
    "free_texts fs = Inr texts" "list_all2 (\<lambda>x y. language_error x = Inr y) texts languages"
    and concluded: "conclude i fs subject (rights supporting) (rights countervailing) (rights (map unknown_of (list_field fs ''material_unknowns'')))
       ((vocabulary_error ''recommendation'' (text_field fs ''recommendation'') RECOMMENDATION_VALUES @
         vocabulary_error ''confidence'' (text_field fs ''confidence'') CONFIDENCE_VALUES @ vocabulary_error ''next_action'' (text_field fs ''next_action'') NEXT_ACTION_VALUES) @
        trigger @ subject_errors @ concat basis @ concat evidence @ lefts supporting @ lefts countervailing @ lefts (map unknown_of (list_field fs ''material_unknowns'')) @
        investigate_error (text_field fs ''recommendation'') (rights (map unknown_of (list_field fs ''material_unknowns''))) @
        monitor_error (text_field fs ''recommendation'') (rights (map unknown_of (list_field fs ''material_unknowns''))) @
        contradiction_error tokens (text_field fs ''recommendation'') (rights supporting) (rights countervailing) (rights (map unknown_of (list_field fs ''material_unknowns''))) @
        relevance_error tokens (text_field fs ''recommendation'') (rights countervailing) @ concat languages) = Accepted r"
    unfolding validate_fields_def Let_def andthen_Inr gather_Inr split_paired_Ex prod.case by (elim exE conjE) (rule that; assumption?; simp)
  obtain s where subject: "subject = Inr s" and r: "r = build_result i fs s (rights supporting) (rights countervailing) (rights (map unknown_of (list_field fs ''material_unknowns'')))"
    using concluded by (auto simp: conclude_Accepted)
  have r_fields: "ar_recommendation r = text_field fs ''recommendation''" "ar_confidence r = text_field fs ''confidence''" "ar_next_action r = text_field fs ''next_action''"
    "ar_basis r = list_field fs ''confidence_basis''" "ar_evidence r = list_field fs ''evidence_references''" "ar_positive r = rights supporting" "ar_negative r = rights countervailing"
    "ar_unknowns r = rights (map unknown_of (list_field fs ''material_unknowns''))"
    by (simp_all add: r build_result_def)
  have nil: "vocabulary_error ''recommendation'' (ar_recommendation r) RECOMMENDATION_VALUES = []" "vocabulary_error ''confidence'' (ar_confidence r) CONFIDENCE_VALUES = []"
    "vocabulary_error ''next_action'' (ar_next_action r) NEXT_ACTION_VALUES = []" "trigger = []" "subject_errors = []" "concat basis = []" "concat evidence = []"
    "lefts supporting = []" "lefts countervailing = []" "lefts (map unknown_of (list_field fs ''material_unknowns'')) = []"
    "investigate_error (ar_recommendation r) (ar_unknowns r) = []" "monitor_error (ar_recommendation r) (ar_unknowns r) = []"
    "contradiction_error tokens (ar_recommendation r) (ar_positive r) (ar_negative r) (ar_unknowns r) = []" "relevance_error tokens (ar_recommendation r) (ar_negative r) = []"
    "concat languages = []"
    using concluded unfolding r_fields conclude_Accepted append_is_Nil_conv by blast+
  show thesis
  proof (rule that [OF raw, of s])
    show "r = build_result i fs s (ar_positive r) (ar_negative r) (ar_unknowns r)" unfolding r_fields(6-8) by (rule r)
    show "trigger_errors (ar_recommendation r) (get_field fs ''monitoring_trigger'') = Inr []" using *(1) nil(4) by (simp only: r_fields)
    show "checked_subject (ar_next_action r) (object_field fs ''acquisition_subject'') = Inr (Inr s, [])" using *(2) nil(5) subject by (simp only: r_fields)
    show "list_all (\<lambda>v. ref_error tokens ''confidence_basis'' v = Inr []) (ar_basis r)" unfolding r_fields by (rule concat [OF *(3) nil(6)])
    show "list_all (\<lambda>v. ref_error tokens ''evidence_references'' v = Inr []) (ar_evidence r)" unfolding r_fields by (rule concat [OF *(4) nil(7)])
    show "list_all2 (\<lambda>v s. signal_of tokens ''supporting_reasons'' v = Inr (Inr s)) (list_field fs ''supporting_reasons'') (ar_positive r)"
      unfolding r_fields by (rule signals [OF *(5) nil(8)])
    show "list_all2 (\<lambda>v s. signal_of tokens ''countervailing_reasons'' v = Inr (Inr s)) (list_field fs ''countervailing_reasons'') (ar_negative r)"
      unfolding r_fields by (rule signals [OF *(6) nil(9)])
    show "map unknown_of (list_field fs ''material_unknowns'') = map Inr (ar_unknowns r)" unfolding r_fields by (rule lefts_Nil [OF nil(10)])
    show "\<exists>texts. free_texts fs = Inr texts \<and> list_all (\<lambda>f. language_error f = Inr []) texts" using *(7) concat [OF *(8) nil(15)] by blast
  qed (rule nil)+
qed

section \<open>Every accepted answer is disciplined\<close>

lemma ref_error_Nil: "(ref_error tokens name v = Inr []) = cited tokens v"
  by (cases v) (auto simp: ref_error_def cited_def)

lemma signal_of_Inr: "(signal_of tokens name v = Inr (Inr s)) = (\<exists>fs. v = JObj fs \<and> get_field fs ''evidence_reference'' = JStr (ms_reference s) \<and>
    ms_reference s \<in> set (map fst tokens) \<and> ms_label s = opt_or (map_of fs ''label'') (JStr []))"
proof (cases v)
  case (JObj fs)
  show ?thesis
    by (cases "get_field fs ''evidence_reference''"; cases s) (auto simp: signal_of_def JObj Let_def)
qed (simp_all add: signal_of_def)

lemma trigger_errors_Nil: "(trigger_errors rec v = Inr []) = ((v = JNull \<and> rec \<noteq> MONITOR) \<or> (\<exists>t. v = JStr t \<and> t \<in> set MONITORING_TRIGGER_VALUES))"
  by (cases v) (auto simp: trigger_errors_def MONITORING_TRIGGER_VALUES_def)

lemma checked_subject_Inr: "(checked_subject action fs = Inr (Inr s, [])) = (get_field fs ''level'' = JStr (as_level s) \<and> as_reference s = get_field fs ''reference'' \<and>
    as_note s = get_field fs ''note'' \<and> as_level s \<in> set ACQUISITION_SUBJECT_LEVELS \<and> parcel_error (as_level s) (as_reference s) = [] \<and> identify_error action (as_level s) = [])"
  by (cases s; cases "get_field fs ''level''") (auto simp: checked_subject_def Let_def)

lemma errors_Nil:
  "(vocabulary_error name v xs = []) = (v \<in> set xs)"
  "(parcel_error level reference = []) = (level = PARCEL_TBD \<longrightarrow> \<not> json_truthy reference)"
  "(identify_error action level = []) = (action = IDENTIFY_PHASE_OR_PARCEL \<longrightarrow> level \<in> {PARCEL_TBD, SUBJECT_PHASE})"
  "(investigate_error rec us = []) = (rec = AgentResult.INVESTIGATE \<longrightarrow> list_ex decisive us)"
  "(monitor_error rec us = []) = (rec = MONITOR \<longrightarrow> \<not> list_ex decisive us)"
  "(relevance_error tokens rec neg = []) = (rec = NOT_RELEVANT \<longrightarrow> list_ex (\<lambda>s. incompatibility tokens (ms_reference s)) neg)"
  "(contradiction_error tokens rec pos neg us = []) =
     (rec \<in> {MONITOR, NOT_RELEVANT} \<longrightarrow> pos = [] \<or> list_ex (\<lambda>s. confirmed tokens (ms_reference s)) neg \<or> us = [] \<or> list_ex mu_blocking us)"
  by (auto simp: vocabulary_error_def parcel_error_def identify_error_def investigate_error_def monitor_error_def relevance_error_def contradiction_error_def
      filter_empty_conv list_ex_iff list_all_iff)

lemma language_error_Nil: "(language_error (name, v) = Inr []) = clean_text v"
  by (cases "find_unsupported_language v") (auto simp: language_error_def clean_text_def split: option.split)

lemma json_empty_clean [simp]: "clean_text (JStr [])" "clean_text JNull"
  by (simp_all add: clean_text_def find_unsupported_language_def)

text \<open>A reason's missing label reads as the empty text in a result and as none in the scan; both are clean.\<close>

lemma text_of_JObj [simp]: "text_of k (JObj fs) = Inr (get_field fs k)"
  by (simp add: text_of_def)

lemma scanned_labels:
  "list_all2 (\<lambda>v s. signal_of tokens name v = Inr (Inr s)) vs ss \<Longrightarrow> gather (text_of ''label'') vs = Inr ts \<Longrightarrow> list_all clean_text ts = list_all (clean_text \<circ> ms_label) ss"
proof (induction arbitrary: ts rule: list_all2_induct)
  case (Cons v vs s ss)
  obtain fs where v: "v = JObj fs" and label: "ms_label s = opt_or (map_of fs ''label'') (JStr [])" using Cons.hyps by (auto simp: signal_of_Inr)
  then obtain ts' where "gather (text_of ''label'') vs = Inr ts'" "ts = get_field fs ''label'' # ts'" using Cons.prems by (auto split: sum.split_asm)
  with Cons.IH label show ?case by (cases "map_of fs ''label''") (auto simp: get_field_def opt_or_def)
qed simp

lemma scanned_whys:
  "map unknown_of vs = map Inr us \<Longrightarrow> gather (text_of ''why_it_matters'') vs = Inr ts \<Longrightarrow> list_all clean_text ts = list_all (clean_text \<circ> mu_why) us"
proof (induction vs arbitrary: us ts)
  case (Cons v vs)
  then obtain u us' where us: "us = u # us'" "unknown_of v = Inr u" "map unknown_of vs = map Inr us'" by (cases us) auto
  then obtain fs where v: "v = JObj fs" and why: "mu_why u = opt_or (map_of fs ''why_it_matters'') (JStr [])"
    by (cases v) (auto simp: unknown_of_def split: option.split_asm)
  then obtain ts' where "gather (text_of ''why_it_matters'') vs = Inr ts'" "ts = get_field fs ''why_it_matters'' # ts'"
    using Cons.prems by (auto split: sum.split_asm)
  with Cons.IH [OF us(3)] why us show ?case by (cases "map_of fs ''why_it_matters''") (auto simp: get_field_def opt_or_def)
qed simp

lemma scanned_texts:
  assumes "free_texts fs = Inr texts" "list_all (\<lambda>f. language_error f = Inr []) texts"
    "list_all2 (\<lambda>v s. signal_of tokens ''supporting_reasons'' v = Inr (Inr s)) (list_field fs ''supporting_reasons'') pos"
    "list_all2 (\<lambda>v s. signal_of tokens ''countervailing_reasons'' v = Inr (Inr s)) (list_field fs ''countervailing_reasons'') neg"
    "map unknown_of (list_field fs ''material_unknowns'') = map Inr us"
  shows "clean_text (JStr (text_field fs ''reasoning_summary'')) \<and> clean_text (JStr (text_field fs ''next_action_detail'')) \<and> list_all (clean_text \<circ> ms_label) (pos @ neg) \<and>
    list_all (clean_text \<circ> mu_why) us \<and> clean_text (get_field (object_field fs ''acquisition_subject'') ''note'')"
proof -
  from assms(1) obtain ps ns ws where scans: "gather (text_of ''label'') (list_field fs ''supporting_reasons'') = Inr ps"
    "gather (text_of ''label'') (list_field fs ''countervailing_reasons'') = Inr ns" "gather (text_of ''why_it_matters'') (list_field fs ''material_unknowns'') = Inr ws"
    and texts: "texts = [(''reasoning_summary'', JStr (text_field fs ''reasoning_summary'')), (''next_action_detail'', JStr (text_field fs ''next_action_detail''))] @
       map (Pair ''supporting_reasons.label'') ps @ map (Pair ''countervailing_reasons.label'') ns @ map (Pair ''material_unknowns.why_it_matters'') ws @
       [(''acquisition_subject.note'', get_field (object_field fs ''acquisition_subject'') ''note'')]"
    by (auto simp: free_texts_def andthen_Inr)
  have "list_all clean_text ps" "list_all clean_text ns" "list_all clean_text ws"
    using assms(2) unfolding texts by (simp_all add: list.pred_map comp_def language_error_Nil)
  with scanned_labels [OF assms(3) scans(1)] scanned_labels [OF assms(4) scans(2)] scanned_whys [OF assms(5) scans(3)] assms(2) show ?thesis
    unfolding texts by (simp add: language_error_Nil)
qed

text \<open>
  Whatever a model answers, an accepted result is disciplined: every value is in its vocabulary, every cited reference is a token the model was given, the recommendation
  agrees with the result's own unknowns and confirmed facts, and no summary, reason or note uses unsupported language.
\<close>
lemma accepted_disciplined:
  assumes "validate_and_build_result tokens i raw = Inr (Accepted r)"
  shows "disciplined tokens r"
proof (rule accepted_fields [OF assms], goal_cases)
  case (1 fs subject)
  note * = 1(2,6,7,10,11,12)
  have vocabulary: "ar_recommendation r \<in> set RECOMMENDATION_VALUES" "ar_confidence r \<in> set CONFIDENCE_VALUES" "ar_next_action r \<in> set NEXT_ACTION_VALUES"
    using 1(3,4,5) by (simp_all only: errors_Nil)
  have refs: "list_all (cited tokens) (ar_basis r)" "list_all (cited tokens) (ar_evidence r)" using 1(8,9) by (simp_all only: ref_error_Nil)
  have sound: "judgement_sound tokens r" using 1(13-16) unfolding judgement_sound_def errors_Nil by blast
  have fields: "ar_subject r = subject" "ar_trigger r = jstr (Some (get_field fs ''monitoring_trigger''))" "ar_summary r = text_field fs ''reasoning_summary''"
    "ar_next_detail r = text_field fs ''next_action_detail''"
    by (subst *(1), simp add: build_result_def)+
  have "list_all2 (\<lambda>v s. ms_reference s \<in> set (map fst tokens)) (list_field fs ''supporting_reasons'' @ list_field fs ''countervailing_reasons'') (ar_positive r @ ar_negative r)"
    using *(4,5) by (intro list_all2_appendI) (auto simp: signal_of_Inr elim!: list_all2_mono)
  then have "list_all (\<lambda>s. ms_reference s \<in> set (map fst tokens)) (ar_positive r @ ar_negative r)" by (auto simp: list_all_length list_all2_conv_all_nth)
  then have "evidence_cited tokens r" using refs by (simp add: evidence_cited_def)
  moreover have "in_vocabulary r"
    using vocabulary *(2,3) by (auto simp: in_vocabulary_def fields trigger_errors_Nil checked_subject_Inr errors_Nil)
  moreover have "language_clean r"
    using 1(17) scanned_texts [OF _ _ *(4,5,6)] *(3) by (auto simp: language_clean_def fields checked_subject_Inr)
  ultimately show ?thesis using sound by (simp add: disciplined_def)
qed

text \<open>
  C20. Whatever JSON a model answers, an accepted result is disciplined: every value is in its vocabulary, every cited reference is a token the model was given, the
  recommendation agrees with the result's own unknowns and confirmed facts, and the texts the guard reads (the summary, the detail of the next action, the labels of reasons, why an
  unknown matters, the subject's note) use no unsupported language. The question of an unknown is not among them: it may use any language, although the validator is documented to
  guard every free-text field (\<open>unguarded_question\<close> below).
\<close>
theorem accepted_is_disciplined:
  "case validate_and_build_result tokens i raw of Inl c \<Rightarrow> True | Inr (Rejected errors) \<Rightarrow> True | Inr (Accepted r) \<Rightarrow> disciplined tokens r"
  by (auto split: sum.split validation_outcome.split dest: accepted_disciplined)

section \<open>Every disciplined result is accepted\<close>

text \<open>A result as the JSON a model would give for it.\<close>

definition raw_signal :: "material_signal \<Rightarrow> json" where
  "raw_signal s = JObj [(''label'', ms_label s), (''evidence_reference'', JStr (ms_reference s))]"

definition raw_unknown :: "material_unknown \<Rightarrow> json" where
  "raw_unknown u = JObj [(''fact_or_question'', mu_question u), (''material'', JBool (mu_material u)), (''resolvable'', JBool (mu_resolvable u)),
     (''blocking'', JBool (mu_blocking u)), (''why_it_matters'', mu_why u)]"

definition raw_subject :: "acquisition_subject \<Rightarrow> (str \<times> json) list" where
  "raw_subject s = [(''level'', JStr (as_level s)), (''reference'', as_reference s), (''note'', as_note s)]"

definition raw_fields :: "agent_result \<Rightarrow> (str \<times> json) list" where
  "raw_fields r = [(''recommendation'', JStr (ar_recommendation r)), (''confidence'', JStr (ar_confidence r)), (''confidence_basis'', JArr (ar_basis r)),
     (''acquisition_subject'', JObj (raw_subject (ar_subject r))), (''supporting_reasons'', JArr (map raw_signal (ar_positive r))),
     (''countervailing_reasons'', JArr (map raw_signal (ar_negative r))), (''material_unknowns'', JArr (map raw_unknown (ar_unknowns r))),
     (''reasoning_summary'', JStr (ar_summary r)), (''next_action'', JStr (ar_next_action r)), (''next_action_detail'', JStr (ar_next_detail r)),
     (''monitoring_trigger'', case ar_trigger r of None \<Rightarrow> JNull | Some t \<Rightarrow> JStr t), (''evidence_references'', JArr (ar_evidence r))]"

definition identity_of :: "agent_result \<Rightarrow> evaluation_identity" where
  "identity_of r = \<lparr>ei_key = ar_key r, ei_mandate_fingerprint = ar_mandate_fingerprint r, ei_opportunity_fingerprint = ar_opportunity_fingerprint r,
     ei_policy_version = ar_policy_version r\<rparr>"

lemma raw_fields_simps [simp]:
  "text_field (raw_fields r) ''recommendation'' = ar_recommendation r" "text_field (raw_fields r) ''confidence'' = ar_confidence r"
  "list_field (raw_fields r) ''confidence_basis'' = ar_basis r" "object_field (raw_fields r) ''acquisition_subject'' = raw_subject (ar_subject r)"
  "list_field (raw_fields r) ''supporting_reasons'' = map raw_signal (ar_positive r)" "list_field (raw_fields r) ''countervailing_reasons'' = map raw_signal (ar_negative r)"
  "list_field (raw_fields r) ''material_unknowns'' = map raw_unknown (ar_unknowns r)" "text_field (raw_fields r) ''reasoning_summary'' = ar_summary r"
  "text_field (raw_fields r) ''next_action'' = ar_next_action r" "text_field (raw_fields r) ''next_action_detail'' = ar_next_detail r"
  "get_field (raw_fields r) ''monitoring_trigger'' = (case ar_trigger r of None \<Rightarrow> JNull | Some t \<Rightarrow> JStr t)"
  "list_field (raw_fields r) ''evidence_references'' = ar_evidence r"
  by (simp_all add: raw_fields_def text_field_def list_field_def object_field_def get_field_def opt_or_def)

lemma raw_subject_simps [simp]:
  "get_field (raw_subject s) ''level'' = JStr (as_level s)" "get_field (raw_subject s) ''reference'' = as_reference s" "get_field (raw_subject s) ''note'' = as_note s"
  by (simp_all add: raw_subject_def get_field_def opt_or_def)

lemma raw_well_typed: "concat (map (field_error (raw_fields r)) REQUIRED_FIELDS) = []"
  by (simp add: REQUIRED_FIELDS_def field_error_def raw_fields_def)

lemma raw_unknown_back [simp]: "unknown_of (raw_unknown u) = Inr u"
  by (cases u) (simp add: unknown_of_def raw_unknown_def get_field_def opt_or_def)

lemma raw_signal_back: "ms_reference s \<in> set (map fst tokens) \<Longrightarrow> signal_of tokens name (raw_signal s) = Inr (Inr s)"
  by (simp add: signal_of_Inr raw_signal_def get_field_def opt_or_def)

lemma raw_built [simp]: "build_result (identity_of r) (raw_fields r) (ar_subject r) (ar_positive r) (ar_negative r) (ar_unknowns r) = r"
  by (cases r) (simp add: build_result_def identity_of_def split: option.split)

lemma gather_map: "(\<And>x. x \<in> set xs \<Longrightarrow> f x = Inr (g x)) \<Longrightarrow> gather f xs = Inr (map g xs)"
  by (induction xs) auto

lemma gather_Nil: "list_all (\<lambda>x. f x = Inr []) xs \<Longrightarrow> \<exists>ys. gather f xs = Inr ys \<and> concat ys = []"
  by (induction xs) auto

lemma disciplined_checks:
  assumes "disciplined tokens r"
  shows "trigger_errors (ar_recommendation r) (case ar_trigger r of None \<Rightarrow> JNull | Some t \<Rightarrow> JStr t) = Inr []"
    "checked_subject (ar_next_action r) (raw_subject (ar_subject r)) = Inr (Inr (ar_subject r), [])"
    "gather (signal_of tokens name) (map raw_signal (ar_positive r)) = Inr (map Inr (ar_positive r))"
    "gather (signal_of tokens name) (map raw_signal (ar_negative r)) = Inr (map Inr (ar_negative r))"
    "checked_result r = Inr r"
    "\<exists>texts ys. free_texts (raw_fields r) = Inr texts \<and> gather language_error texts = Inr ys \<and> concat ys = []"
proof -
  note v = assms [unfolded disciplined_def in_vocabulary_def]
  show "trigger_errors (ar_recommendation r) (case ar_trigger r of None \<Rightarrow> JNull | Some t \<Rightarrow> JStr t) = Inr []"
    using v by (auto simp: trigger_errors_Nil split: option.split_asm option.split)
  show "checked_subject (ar_next_action r) (raw_subject (ar_subject r)) = Inr (Inr (ar_subject r), [])"
    using v by (simp add: checked_subject_Inr errors_Nil)
  have refs: "list_all (\<lambda>s. ms_reference s \<in> set (map fst tokens)) (ar_positive r @ ar_negative r)" using v by (simp add: evidence_cited_def)
  have readback: "gather (signal_of tokens name) (map raw_signal ss) = Inr (map Inr ss)" if "list_all (\<lambda>s. ms_reference s \<in> set (map fst tokens)) ss" for ss
    using that by (induction ss) (simp_all add: raw_signal_back)
  show "gather (signal_of tokens name) (map raw_signal (ar_positive r)) = Inr (map Inr (ar_positive r))"
    "gather (signal_of tokens name) (map raw_signal (ar_negative r)) = Inr (map Inr (ar_negative r))"
    using refs by (simp_all only: readback list_all_append)
  have "truthy (ar_trigger r)" if "ar_recommendation r = MONITOR"
    using v that by (auto simp: truthy_def MONITORING_TRIGGER_VALUES_def split: option.split_asm)
  then show "checked_result r = Inr r" using v by (auto simp: checked_result_Inr split: option.split_asm)
  have labels: "gather (text_of ''label'') (map raw_signal ss) = Inr (map ms_label ss)" for ss
    by (induction ss) (simp_all add: raw_signal_def get_field_def opt_or_def)
  have whys: "gather (text_of ''why_it_matters'') (map raw_unknown us) = Inr (map mu_why us)" for us
    by (induction us) (simp_all add: raw_unknown_def get_field_def opt_or_def)
  obtain texts where texts: "free_texts (raw_fields r) = Inr texts" and clean: "list_all (\<lambda>f. language_error f = Inr []) texts"
    using v by (simp add: free_texts_def labels whys language_clean_def language_error_Nil list.pred_map comp_def)
  with gather_Nil [OF clean] show "\<exists>texts ys. free_texts (raw_fields r) = Inr texts \<and> gather language_error texts = Inr ys \<and> concat ys = []" by blast
qed

lemma disciplined_accepted:
  assumes "disciplined tokens r"
  shows "validate_and_build_result tokens (identity_of r) (JObj (raw_fields r)) = Inr (Accepted r)"
proof -
  note d = disciplined_checks [OF assms]
  note v = assms [unfolded disciplined_def in_vocabulary_def evidence_cited_def]
  obtain texts languages where texts: "free_texts (raw_fields r) = Inr texts" "gather language_error texts = Inr languages" "concat languages = []"
    using d(6) by blast
  have "list_all (\<lambda>v. ref_error tokens name v = Inr []) (ar_basis r)" "list_all (\<lambda>v. ref_error tokens name v = Inr []) (ar_evidence r)" for name
    using v by (simp_all add: ref_error_Nil)
  then obtain basis evidence where refs: "gather (ref_error tokens ''confidence_basis'') (ar_basis r) = Inr basis" "concat basis = []"
    "gather (ref_error tokens ''evidence_references'') (ar_evidence r) = Inr evidence" "concat evidence = []"
    by (metis gather_Nil)
  have us: "map unknown_of (map raw_unknown (ar_unknowns r)) = map Inr (ar_unknowns r)" by simp
  have "judgement_sound tokens r" using v by simp
  then have judgement: "investigate_error (ar_recommendation r) (ar_unknowns r) = []" "monitor_error (ar_recommendation r) (ar_unknowns r) = []"
    "relevance_error tokens (ar_recommendation r) (ar_negative r) = []"
    "contradiction_error tokens (ar_recommendation r) (ar_positive r) (ar_negative r) (ar_unknowns r) = []"
    unfolding judgement_sound_def errors_Nil by blast+
  have vocabulary: "vocabulary_error ''recommendation'' (ar_recommendation r) RECOMMENDATION_VALUES = []"
    "vocabulary_error ''confidence'' (ar_confidence r) CONFIDENCE_VALUES = []" "vocabulary_error ''next_action'' (ar_next_action r) NEXT_ACTION_VALUES = []"
    using v by (simp_all add: errors_Nil)
  have "validate_fields tokens (identity_of r) (raw_fields r) = Inr (Accepted r)"
    unfolding validate_fields_def Let_def
    by (simp only: conclude_def raw_fields_simps d(1-5) refs texts us lefts_map_Inr judgement vocabulary andthen_simps prod.case append.simps raw_built sum.case simp_thms if_False append_Nil2)
  then show ?thesis by (simp add: validate_and_build_result_def raw_well_typed)
qed

text \<open>
  C21. The validator accepts exactly the disciplined results: the JSON of a result is accepted, and reads back as that result, exactly where the result is disciplined.
\<close>
theorem accepts_exactly_disciplined:
  "(validate_and_build_result tokens (identity_of r) (JObj (raw_fields r)) = Inr (Accepted r)) = disciplined tokens r"
proof
  assume "validate_and_build_result tokens (identity_of r) (JObj (raw_fields r)) = Inr (Accepted r)"
  then show "disciplined tokens r" by (rule accepted_disciplined)
qed (rule disciplined_accepted)

section \<open>Evaluating\<close>

lemma run_attempts_bounded:
  "retry \<le> MAX_REPAIR_ATTEMPTS \<Longrightarrow> list_all (prefix prompt) (input # sent) \<Longrightarrow> run_attempts overhead respond check prompt retry input sent = (result, sent') \<Longrightarrow>
    length sent' \<le> length sent + (Suc MAX_REPAIR_ATTEMPTS - retry) \<and> list_all (prefix prompt) sent' \<and>
    (case result of Inl c \<Rightarrow> \<exists>raw. check raw = Inl c
     | Inr (Succeeded r n) \<Rightarrow> n \<le> MAX_REPAIR_ATTEMPTS \<and> (\<exists>raw. check raw = Inr (Accepted r))
     | Inr (Failed f n d) \<Rightarrow> n = MAX_REPAIR_ATTEMPTS \<and> f \<in> {MALFORMED_LLM_OUTPUT, UNSUPPORTED_LANGUAGE_DETECTED})"
proof (induction overhead respond check prompt retry input sent rule: run_attempts.induct)
  case (1 overhead respond check prompt retry input sent)
  obtain reply sent1 where created: "create_response overhead respond sent input = (reply, sent1)" by fastforce
  then have sent1: "length sent1 \<le> Suc (length sent)" "list_all (prefix prompt) sent1"
    using "1.prems"(2) by (auto simp: create_response_def split: if_split_asm)
  have next_input: "list_all (prefix prompt) (reparse_input prompt message # sent1)" "list_all (prefix prompt) (corrected_input prompt errors # sent1)" for message errors
    using sent1 by (simp_all add: reparse_input_def corrected_input_def)
  note step = "1.prems"(3) [unfolded run_attempts.simps [of overhead respond check prompt retry input sent] created prod.case]
  show ?case
  proof (cases reply)
    case (Inl x)
    obtain exception message where x: "x = (exception, message)" by fastforce
    show ?thesis
    proof (cases "MAX_REPAIR_ATTEMPTS \<le> retry")
      case True
      with step Inl x "1.prems"(1) sent1 show ?thesis by auto
    next
      case False
      with step Inl x have "run_attempts overhead respond check prompt (Suc retry) (reparse_input prompt message) sent1 = (result, sent')" by simp
      with "1.IH"(1) [OF created [symmetric] _ _ False _ next_input(1)] Inl x False sent1 show ?thesis by fastforce
    qed
  next
    case (Inr raw)
    show ?thesis
    proof (cases "check raw")
      case (Inl c)
      with step Inr sent1 "1.prems"(1) show ?thesis by auto
    next
      case (Inr verdict)
      show ?thesis
      proof (cases verdict)
        case (Accepted r)
        with step \<open>reply = Inr raw\<close> Inr sent1 "1.prems"(1) show ?thesis by auto
      next
        case (Rejected errors)
        show ?thesis
        proof (cases "MAX_REPAIR_ATTEMPTS \<le> retry")
          case True
          with step \<open>reply = Inr raw\<close> Inr Rejected "1.prems"(1) sent1 show ?thesis by (auto simp: rejection_reason_def)
        next
          case False
          with step \<open>reply = Inr raw\<close> Inr Rejected
          have "run_attempts overhead respond check prompt (Suc retry) (corrected_input prompt errors) sent1 = (result, sent')" by simp
          with "1.IH"(2) [OF created [symmetric] \<open>reply = Inr raw\<close> Inr Rejected False _ next_input(2)] False sent1 show ?thesis by fastforce
        qed
      qed
    qed
  qed
qed

lemma run_sends:
  "fst (run_attempts overhead respond check prompt retry input sent) = Inr (Succeeded r n) \<or> fst (run_attempts overhead respond check prompt retry input sent) = Inl c \<Longrightarrow>
    snd (run_attempts overhead respond check prompt retry input sent) \<noteq> []"
proof (induction overhead respond check prompt retry input sent rule: run_attempts.induct)
  case (1 overhead respond check prompt retry input sent)
  obtain reply sent1 where created: "create_response overhead respond sent input = (reply, sent1)" by fastforce
  then have some: "\<exists>raw. reply = Inr raw \<Longrightarrow> sent1 \<noteq> []" by (auto simp: create_response_def split: if_split_asm)
  show ?case
    using "1.prems" "1.IH" [OF created [symmetric]] some
    unfolding run_attempts.simps [of overhead respond check prompt retry input sent] created prod.case
    by (auto split: sum.splits prod.splits validation_outcome.splits if_splits)
qed

definition evaluation_sound :: "evaluation_request \<Rightarrow> (crash + execution) \<times> str list \<Rightarrow> bool" where
  "evaluation_sound q x = (case fst x of
     Inl c \<Rightarrow> snd x \<noteq> []
   | Inr (Succeeded r n) \<Rightarrow> snd x \<noteq> [] \<and> n \<le> 1 \<and> disciplined (pc_tokens (request_context q)) r
   | Inr (Failed f n d) \<Rightarrow> n = 1 \<and> f \<in> {MALFORMED_LLM_OUTPUT, UNSUPPORTED_LANGUAGE_DETECTED})"

lemma terminal_checked: "checked_result (deterministic_terminal_result q t) = Inr (deterministic_terminal_result q t)"
  by (simp add: checked_result_def deterministic_terminal_result_def RECOMMENDATION_VALUES_def CONFIDENCE_VALUES_def NEXT_ACTION_VALUES_def NOT_RELEVANT_def MONITOR_def)

lemma evaluate_llm:
  assumes "eq_acquisition_type q \<in> m_acquisition_types (eq_mandate q)" "\<not> tr_is_terminal (classify_terminal_exclusion (as_does_not_match (eq_assessment q)))"
  shows "evaluate overhead respond q = run_attempts overhead respond (validate_and_build_result (pc_tokens (request_context q)) (request_identity q))
    (render_prompt (request_context q)) 0 (render_prompt (request_context q)) []"
  using assms by (simp add: evaluate_def Let_def run_llm_and_validate_def)

lemma attempts_sound:
  assumes "run_attempts overhead respond (validate_and_build_result (pc_tokens (request_context q)) i) prompt 0 prompt [] = x"
  shows "evaluation_sound q x \<and> length (snd x) \<le> 2 \<and> list_all (prefix prompt) (snd x)"
proof -
  obtain result sent where x: "x = (result, sent)" by fastforce
  have "length sent \<le> 2 \<and> list_all (prefix prompt) sent \<and> (case result of Inl c \<Rightarrow> True
     | Inr (Succeeded r n) \<Rightarrow> n \<le> 1 \<and> disciplined (pc_tokens (request_context q)) r
     | Inr (Failed f n d) \<Rightarrow> n = 1 \<and> f \<in> {MALFORMED_LLM_OUTPUT, UNSUPPORTED_LANGUAGE_DETECTED})"
    using run_attempts_bounded [OF _ _ assms [unfolded x]]
    by (auto simp: MAX_REPAIR_ATTEMPTS_def dest!: accepted_disciplined split: sum.split_asm execution.split_asm sum.split execution.split)
  moreover have "(\<exists>c. result = Inl c) \<or> (\<exists>r n. result = Inr (Succeeded r n)) \<Longrightarrow> sent \<noteq> []"
    using run_sends [of overhead respond "validate_and_build_result (pc_tokens (request_context q)) i" prompt 0 prompt "[]"] assms by (auto simp: x)
  ultimately show ?thesis by (auto simp: evaluation_sound_def x split: sum.split execution.split)
qed

text \<open>
  C22. An evaluation puts at most two paid calls, each of them the prompt of its own request, possibly with a correction after it, and ends in one of four ways: an acquisition
  type outside the mandate and a terminal exclusion are answered without a call; otherwise it succeeds with a disciplined result, fails after exactly one repair, or an exception of
  the validator escapes.
\<close>
theorem evaluation_bounded_sound:
  "let x = evaluate overhead respond q; t = classify_terminal_exclusion (as_does_not_match (eq_assessment q)) in
   length (snd x) \<le> 2 \<and> list_all (prefix (render_prompt (request_context q))) (snd x) \<and>
   (if eq_acquisition_type q \<notin> m_acquisition_types (eq_mandate q) then x = (Inr (Failed ACQUISITION_TYPE_NOT_IN_MANDATE 0 None), [])
    else if tr_is_terminal t then x = (Inr (Succeeded (deterministic_terminal_result q t) 0), [])
    else evaluation_sound q x)"
proof (cases "eq_acquisition_type q \<in> m_acquisition_types (eq_mandate q) \<and> \<not> tr_is_terminal (classify_terminal_exclusion (as_does_not_match (eq_assessment q)))")
  case True
  then show ?thesis using attempts_sound [OF evaluate_llm [symmetric], of q overhead respond] by (simp add: Let_def)
next
  case False
  then show ?thesis by (auto simp: evaluate_def Let_def terminal_checked)
qed

section \<open>Exclusions are not put to the model\<close>

lemma terminal_iff: "tr_is_terminal (classify_terminal_exclusion ts) = list_ex (\<lambda>t. matched_code t \<noteq> None) ts"
  by (auto simp: classify_terminal_exclusion_def scan_reasons_filter Let_def List.map_filter_def filter_empty_conv list_ex_iff)

text \<open>
  C23. What the buyer fit excludes is not put to the model: for an assessment by the matcher, every request the model sees is of an opportunity without an exclusion, or with the
  one exclusion the allowlist cannot recognise (an uncertain scale below a hard minimum).
\<close>
theorem excluded_never_sent:
  "let q' = q\<lparr>eq_assessment := assess_buyer_fit m f ctx\<rparr> in
   if snd (evaluate overhead respond q') = [] then True else list_all (\<lambda>t. t = txt_scale_hard_minimum_uncertain) (as_does_not_match (assess_buyer_fit m f ctx))"
proof -
  define ts where "ts = as_does_not_match (assess_buyer_fit m f ctx)"
  have "list_all terminal_text ts" using fit_terminal [of m f ctx] by (simp add: ts_def assess_buyer_fit_def Let_def all_terminal_def)
  then have "tr_is_terminal (classify_terminal_exclusion ts) \<or> list_all (\<lambda>t. t = txt_scale_hard_minimum_uncertain) ts"
    by (auto simp: terminal_iff list_ex_iff list_all_iff terminal_text_def)
  then show ?thesis
    by (auto simp: Let_def evaluate_def terminal_checked ts_def)
qed

section \<open>Where the guard has gaps\<close>

definition sample_answer :: "(str \<times> json) list" where
  "sample_answer = [(''recommendation'', JStr ''INVESTIGATE''), (''confidence'', JStr ''LOW''), (''confidence_basis'', JArr []),
     (''acquisition_subject'', JObj [(''level'', JStr ''DEVELOPMENT_SITE''), (''reference'', JNull), (''note'', JNull)]), (''supporting_reasons'', JArr []),
     (''countervailing_reasons'', JArr []),
     (''material_unknowns'', JArr [JObj [(''fact_or_question'', JStr ''The owner is a motivated seller''), (''material'', JBool True), (''resolvable'', JBool True),
        (''blocking'', JBool True), (''why_it_matters'', JStr [])]]),
     (''reasoning_summary'', JStr ''One question is open.''), (''next_action'', JStr ''VERIFY_OWNERSHIP''), (''next_action_detail'', JStr []),
     (''monitoring_trigger'', JNull), (''evidence_references'', JArr [])]"

definition sample_identity :: evaluation_identity where
  "sample_identity = \<lparr>ei_key = \<lparr>rk_buyer = ''b'', rk_opportunity = ''planning_delivery:site:1'', rk_acquisition_type = LAND_SITE_ACQUISITION\<rparr>, ei_mandate_fingerprint = ''m'',
     ei_opportunity_fingerprint = ''o'', ei_policy_version = evaluation_policy_version\<rparr>"

text \<open>The question of an unknown is free text the guard does not read: a result with forbidden language in it is accepted.\<close>

lemma unguarded_question:
  "case validate_and_build_result [] sample_identity (JObj sample_answer) of
     Inr (Accepted r) \<Rightarrow> map mu_question (ar_unknowns r) = [JStr ''The owner is a motivated seller''] \<and> forbidden_phrase ''The owner is a motivated seller'' = Some ''motivated seller''
   | _ \<Rightarrow> False"
  by code_simp

text \<open>A reason that is a text and not an object is not rejected: the validator raises, and so does the evaluation.\<close>

lemma malformed_item_raises:
  "validate_and_build_result tokens sample_identity (JObj (AList.update ''supporting_reasons'' (JArr [JStr ''x'']) sample_answer)) = Inl Attribute_Error"
proof -
  have "checked_subject ''VERIFY_OWNERSHIP'' [(''level'', JStr ''DEVELOPMENT_SITE''), (''reference'', JNull), (''note'', JNull)] =
     Inr (Inr \<lparr>as_level = ''DEVELOPMENT_SITE'', as_reference = JNull, as_note = JNull\<rparr>, [])" by code_simp
  moreover have "trigger_errors ''INVESTIGATE'' JNull = Inr []" by code_simp
  ultimately show ?thesis
    by (simp add: validate_and_build_result_def sample_answer_def REQUIRED_FIELDS_def field_error_def validate_fields_def Let_def text_field_def list_field_def object_field_def
        get_field_def opt_or_def signal_of_def)
qed

end
