(* ===== verification/MonitoringProperties.thy ===== *)
theory MonitoringProperties
  imports OpportunityMonitoring
begin

text \<open>
  What monitoring guarantees: the preview and the sync agree, a second sync finds nothing, rows are never lost, a detector's first opportunities are never news, ids are read
  as the id grammar reads them, and the pages of a read cover every allocation. And what it does not: a stored date always counts as changed.
\<close>

section \<open>Paging\<close>

lemma after_last:
  assumes "sorted_wrt (<) (ys @ ws)" "ys \<noteq> []"
  shows "filter (\<lambda>i. last ys < i) (ys @ ws) = (ws :: int list)"
proof -
  obtain us u where ys: "ys = us @ [u]" using assms(2) by (cases ys rule: rev_cases) auto
  then have "\<forall>i\<in>set us. i < u" "\<forall>i\<in>set ws. u < i" using assms(1) by (auto simp: sorted_wrt_append)
  then show ?thesis by (auto simp: ys filter_empty_conv intro: filter_True)
qed

lemma pages_from:
  assumes "0 < n"
  shows "strategic_pages n ids l = Some (filter (\<lambda>i. l < i) (sorted_list_of_set (set ids)))"
proof (induction "length (filter (\<lambda>i. l < i) (sorted_list_of_set (set ids)))" arbitrary: l rule: less_induct)
  case less
  define L where "L = sorted_list_of_set (set ids)"
  define zs where "zs = filter (\<lambda>i. l < i) L"
  define page where "page = take n zs"
  have zs: "sorted_wrt (<) zs" by (simp add: zs_def L_def sorted_wrt_filter strict_sorted_iff)
  have step: "strategic_pages n ids l = (if page = [] then Some [] else if length page < n then Some page
     else Option.bind (strategic_pages n ids (last page)) (\<lambda>rest. Some (page @ rest)))"
    by (subst strategic_pages.simps) (simp add: page_after_def page_def zs_def L_def Let_def)
  show ?case
  proof (cases "page = [] \<or> length page < n")
    case True
    then have "page = zs" using assms by (auto simp: page_def)
    then show ?thesis using True step by (auto simp: zs_def L_def)
  next
    case False
    have split: "zs = page @ drop n zs" by (simp add: page_def)
    have "l < last page" 
    proof -
      have "last page \<in> set page" using False by (intro last_in_set) simp
      also have "set page \<subseteq> set zs" by (simp add: page_def set_take_subset)
      finally show ?thesis by (simp add: zs_def)
    qed
    then have "filter (\<lambda>i. last page < i) L = filter (\<lambda>i. last page < i) zs" by (auto simp: zs_def intro!: filter_cong)
    also have "\<dots> = drop n zs" using after_last [of page "drop n zs"] zs False split by simp
    finally have rest: "filter (\<lambda>i. last page < i) L = drop n zs" .
    have "length (drop n zs) < length zs" using False assms by (simp add: page_def)
    then have "strategic_pages n ids (last page) = Some (drop n zs)"
      using less [of "last page"] rest by (simp add: zs_def L_def)
    then show ?thesis using step False split by (simp add: zs_def L_def)
  qed
qed

text \<open>
  C26. Reading the allocations page by page ends, whatever the size of a page, and reads every one with a positive id once and in order of id; only a page size of zero reads
  none.
\<close>
theorem paging_ends_complete:
  "strategic_pages page_size ids 0 = Some (if page_size = 0 then [] else filter (\<lambda>i. 0 < i) (sorted_list_of_set (set ids)))"
proof (cases "page_size = 0")
  case True
  then show ?thesis by (subst strategic_pages.simps) (simp add: page_after_def)
next
  case False
  then show ?thesis by (simp add: pages_from)
qed

section \<open>Preview and sync\<close>

text \<open>
  The preview predicts the sync: it fails exactly where the sync cannot plan, and otherwise the counts of every classification are those of the sync.
\<close>
theorem preview_predicts_sync:
  "case preview_ordinary_sync sha universe t of
     Inl e \<Rightarrow> sync_opportunity_monitoring_state sha now universe t = Inl e
   | Inr pv \<Rightarrow> (case sync_opportunity_monitoring_state sha now universe t of Inl e \<Rightarrow> e = DuplicateRow
      | Inr (t', c) \<Rightarrow> pv_predicted pv = [(BASELINE_EXISTING, sy_baseline c), (NEW, sy_new c), (UNCHANGED, sy_unchanged c), (MATERIALLY_CHANGED, sy_changed c)] \<and>
          pv_current pv = sy_considered c)"
proof (cases "build_sync_plan sha universe t")
  case (Inr plan)
  have "length ds = length rs" if "all_identities rs = Inr ds" for rs ds
    using that by (induction rs arbitrary: ds) (auto split: sum.split_asm)
  then have "length plan = length universe"
    using Inr by (auto simp: build_sync_plan_def plan_opportunity_changes_def split: sum.split_asm)
  moreover have "e = DuplicateRow" if "apply_plan now ps u = Inl e" for ps u e
    using that by (induction now ps u rule: apply_plan.induct) (auto split: if_split_asm)
  ultimately show ?thesis
    by (auto simp: preview_ordinary_sync_def sync_opportunity_monitoring_state_def Inr Let_def CLASSIFICATIONS_def split: sum.split)
qed (simp add: preview_ordinary_sync_def sync_opportunity_monitoring_state_def)

section \<open>Syncing\<close>

definition planned :: "(str \<Rightarrow> str) \<Rightarrow> str set \<Rightarrow> plan_entry \<Rightarrow> bool" where
  "planned sha ids e = (case e of (r, prev, c) \<Rightarrow> cr_fingerprint c = compute_opportunity_fingerprint sha (op_fields r) \<and> (prev \<noteq> None \<longrightarrow> op_id r \<in> ids))"

lemma map_of_update: "map_of (update_row i f t) j = (if i = j then map_option f (map_of t j) else map_of t j)"
  by (induction i f t rule: update_row.induct) auto

lemma keys_update [simp]: "map fst (update_row i f t) = map fst t"
  by (induction i f t rule: update_row.induct) auto

lemma ids_update [simp]: "fst ` set (update_row i f t) = fst ` set t"
  using keys_update [of i f t] by (metis list.set_map)

lemma updated_fingerprint [simp]: "mo_fingerprint (updated_row now r c row) = cr_fingerprint c"
  by (simp add: updated_row_def Let_def)

lemma updated_fields [simp]: "mo_fields (updated_row now r c row) = stored_fields (op_fields r)"
  by (simp add: updated_row_def Let_def)

lemma applied:
  assumes "apply_plan now ps t = Inr t'" "list_all (planned sha (set (map fst t))) ps"
  shows "set (map fst t') = set (map fst t) \<union> (\<lambda>e. op_id (fst e)) ` set ps \<and>
    (\<forall>i. i \<notin> (\<lambda>e. op_id (fst e)) ` set ps \<longrightarrow> map_of t' i = map_of t i)"
  using assms
proof (induction now ps t rule: apply_plan.induct)
  case (2 now r prev c ps t)
  show ?case
  proof (cases "prev = None")
    case True
    with "2.prems" have new: "op_id r \<notin> set (map fst t)" and rest: "apply_plan now ps (t @ [(op_id r, new_row r c)]) = Inr t'" by (auto split: if_split_asm)
    have "list_all (planned sha (set (map fst (t @ [(op_id r, new_row r c)])))) ps"
      using "2.prems"(2) by (auto simp: list_all_iff planned_def)
    with "2.IH"(1) [OF True new rest] show ?thesis by (auto simp: map_add_def split: option.split)
  next
    case False
    with "2.prems" have rest: "apply_plan now ps (update_row (op_id r) (updated_row now r c) t) = Inr t'" and i: "op_id r \<in> set (map fst t)"
      by (auto simp: planned_def)
    have "list_all (planned sha (set (map fst (update_row (op_id r) (updated_row now r c) t)))) ps" using "2.prems"(2) by simp
    with "2.IH"(2) [OF False rest] i show ?thesis by (auto simp: map_of_update)
  qed
qed simp

lemma applied_tracked:
  assumes "apply_plan now ps t = Inr t'" "list_all (planned sha (set (map fst t))) ps" "distinct (map (\<lambda>e. op_id (fst e)) ps)" "e \<in> set ps"
  shows "\<exists>row. map_of t' (op_id (fst e)) = Some row \<and> mo_fingerprint row = compute_opportunity_fingerprint sha (op_fields (fst e)) \<and>
    mo_fields row = stored_fields (op_fields (fst e))"
  using assms
proof (induction now ps t rule: apply_plan.induct)
  case (2 now r prev c ps t)
  define u where "u = (if prev = None then t @ [(op_id r, new_row r c)] else update_row (op_id r) (updated_row now r c) t)"
  from "2.prems"(1) have rest: "apply_plan now ps u = Inr t'" by (auto simp: u_def split: if_split_asm)
  have plan: "list_all (planned sha (set (map fst u))) ps" using "2.prems"(2) by (auto simp: u_def list_all_iff planned_def)
  have here: "\<exists>row. map_of u (op_id r) = Some row \<and> mo_fingerprint row = compute_opportunity_fingerprint sha (op_fields r) \<and> mo_fields row = stored_fields (op_fields r)"
  proof (cases "prev = None")
    case True
    with "2.prems"(1) have "op_id r \<notin> set (map fst t)" by (auto split: if_split_asm)
    then have "map_of t (op_id r) = None" by (simp add: map_of_eq_None_iff)
    with True "2.prems"(2) show ?thesis by (simp add: u_def new_row_def planned_def map_add_def)
  next
    case False
    with "2.prems"(2) have "op_id r \<in> set (map fst t)" by (auto simp: planned_def)
    then obtain row where "map_of t (op_id r) = Some row" by (metis map_of_eq_None_iff not_None_eq set_map)
    with False "2.prems"(2) show ?thesis by (auto simp: u_def map_of_update planned_def)
  qed
  have "op_id r \<notin> (\<lambda>e. op_id (fst e)) ` set ps" using "2.prems"(3) by auto
  then have stays: "map_of t' (op_id r) = map_of u (op_id r)" using applied [OF rest plan] by blast
  show ?case
  proof (cases "e = (r, prev, c)")
    case True
    with here stays show ?thesis by simp
  next
    case False
    then have "e \<in> set ps" "distinct (map (\<lambda>e. op_id (fst e)) ps)" using "2.prems"(3,4) by auto
    then show ?thesis using "2.IH" "2.prems"(1) rest plan by (cases "prev = None") (auto simp: u_def split: if_split_asm)
  qed
qed simp

lemma plan_shape:
  assumes "build_sync_plan sha universe t = Inr plan"
  shows "map fst plan = universe \<and> list_all (planned sha (set (map fst t))) plan \<and>
    list_all (\<lambda>(r, prev, c). prev = map_of t (op_id r) \<and> (\<exists>b. c = classify_opportunity_change sha r prev b)) plan"
proof -
  obtain ds where ds: "all_identities universe = Inr ds"
    and plan: "plan = map (\<lambda>(r, d). let prev = map_of (filter (\<lambda>(i, row). i \<in> set (map op_id universe)) t) (op_id r) in
      (r, prev, classify_opportunity_change sha r prev (d \<notin> set (tracked_detector_identities (map fst t))))) (zip universe ds)"
    using assms by (auto simp: build_sync_plan_def plan_opportunity_changes_def split: sum.split_asm)
  have len: "length ds = length universe" using ds by (induction universe arbitrary: ds) (auto split: sum.split_asm)
  have found: "map_of (filter (\<lambda>(i, row). i \<in> set (map op_id universe)) t) (op_id r) = map_of t (op_id r)" if "r \<in> set universe" for r
    using that by (induction t) auto
  have entries: "e \<in> set plan \<Longrightarrow> fst e \<in> set universe \<and> (\<exists>b. e = (fst e, map_of t (op_id (fst e)), classify_opportunity_change sha (fst e) (map_of t (op_id (fst e))) b))" for e
    using found unfolding plan by (auto simp: Let_def dest!: set_zip_leftD)
  have "map fst plan = universe" unfolding plan using len by (simp add: comp_def case_prod_beta Let_def map_fst_zip)
  moreover have fp: "cr_fingerprint (classify_opportunity_change sha r prev b) = compute_opportunity_fingerprint sha (op_fields r)" for r prev b
    by (simp add: classify_opportunity_change_def Let_def split: option.split)
  have "planned sha (set (map fst t)) e" if "e \<in> set plan" for e
    using entries [OF that] fp map_of_eq_None_iff [of t "op_id (fst e)"] by (cases e) (auto simp: planned_def)
  moreover have "(case e of (r, prev, c) \<Rightarrow> prev = map_of t (op_id r) \<and> (\<exists>b. c = classify_opportunity_change sha r prev b))" if "e \<in> set plan" for e
    using entries [OF that] by (cases e) auto
  ultimately show ?thesis unfolding list_all_iff by blast
qed

text \<open>
  A sync never loses or touches a row of an opportunity that is not in the universe, and tracks every one that is.
\<close>
theorem sync_keeps_rows:
  "case sync_opportunity_monitoring_state sha now universe t of Inl _ \<Rightarrow> True
   | Inr (t', c) \<Rightarrow> set (map fst t') = set (map fst t) \<union> set (map op_id universe) \<and> map_of t' |` (- set (map op_id universe)) = map_of t |` (- set (map op_id universe))"
proof (cases "sync_opportunity_monitoring_state sha now universe t")
  case (Inr x)
  then obtain plan t' c where x: "x = (t', c)" and plan: "build_sync_plan sha universe t = Inr plan" and t': "apply_plan now plan t = Inr t'"
    by (auto simp: sync_opportunity_monitoring_state_def split: sum.split_asm)
  note shape = plan_shape [OF plan]
  have "(\<lambda>e. op_id (fst e)) ` set plan = set (map op_id (map fst plan))" by auto
  then have ids: "(\<lambda>e. op_id (fst e)) ` set plan = set (map op_id universe)" using shape by simp
  from applied [OF t' conjunct1 [OF conjunct2 [OF shape]]] show ?thesis unfolding ids by (auto simp: Inr x restrict_map_def)
qed simp

section \<open>A second sync\<close>

definition in_step :: "(str \<Rightarrow> str) \<Rightarrow> table \<Rightarrow> opportunity \<Rightarrow> bool" where
  "in_step sha t r = (case map_of t (op_id r) of None \<Rightarrow> False
     | Some row \<Rightarrow> mo_fingerprint row = compute_opportunity_fingerprint sha (op_fields r) \<and> mo_fields row = stored_fields (op_fields r))"

lemma update_as_map:
  "distinct (map fst t) \<Longrightarrow> update_row i f t = map (\<lambda>(j, row). (j, if j = i then f row else row)) t"
proof (induction i f t rule: update_row.induct)
  case (2 i f j row t)
  have "map (\<lambda>(k, row). (k, if k = i then f row else row)) t = t" if "i = j"
    using "2.prems" that by (intro map_idI) force
  with 2 show ?case by auto
qed simp

lemma updated_unchanged:
  assumes "cr_class c = UNCHANGED" "mo_fingerprint row = cr_fingerprint c" "mo_fields row = stored_fields (op_fields r)"
  shows "updated_row now r c row = row\<lparr>mo_class := UNCHANGED\<rparr>"
  using assms by (cases row) (simp add: updated_row_def)

lemma keep_distinct:
  "apply_plan now ps t = Inr t' \<Longrightarrow> distinct (map fst t) \<Longrightarrow> distinct (map fst t')"
  by (induction now ps t rule: apply_plan.induct) (auto split: if_split_asm)

lemma applied_unchanged:
  assumes "distinct (map fst t)"
    "list_all (\<lambda>(r, prev, c). prev \<noteq> None \<and> cr_class c = UNCHANGED \<and> cr_fingerprint c = compute_opportunity_fingerprint sha (op_fields r) \<and> in_step sha t r) ps"
  shows "apply_plan now ps t = Inr (map (\<lambda>(i, row). (i, if i \<in> set (map (\<lambda>e. op_id (fst e)) ps) then row\<lparr>mo_class := UNCHANGED\<rparr> else row)) t)"
  using assms
proof (induction now ps t rule: apply_plan.induct)
  case (2 now r prev c ps t)
  let ?u = "map (\<lambda>(j, row). (j, if j = op_id r then row\<lparr>mo_class := UNCHANGED\<rparr> else row)) t"
  have prev: "prev \<noteq> None" and c: "cr_class c = UNCHANGED" "cr_fingerprint c = compute_opportunity_fingerprint sha (op_fields r)" and r: "in_step sha t r"
    using "2.prems"(2) by auto
  have u: "update_row (op_id r) (updated_row now r c) t = ?u"
    unfolding update_as_map [OF "2.prems"(1)]
  proof (rule map_cong [OF refl], clarsimp)
    fix row assume "(op_id r, row) \<in> set t"
    then have "map_of t (op_id r) = Some row" using "2.prems"(1) by simp
    then show "updated_row now r c row = row\<lparr>mo_class := UNCHANGED\<rparr>" using r c by (intro updated_unchanged) (auto simp: in_step_def)
  qed
  have found: "map_of ?u i = map_option (\<lambda>row. if i = op_id r then row\<lparr>mo_class := UNCHANGED\<rparr> else row) (map_of t i)" for i
    by (induction t) auto
  have "in_step sha ?u q = in_step sha t q" for q
    by (simp only: in_step_def found) (auto split: option.split)
  then have "list_all (\<lambda>(r, prev, c). prev \<noteq> None \<and> cr_class c = UNCHANGED \<and> cr_fingerprint c = compute_opportunity_fingerprint sha (op_fields r) \<and> in_step sha ?u r) ps"
    using "2.prems"(2) by simp
  moreover have "distinct (map fst ?u)" using "2.prems"(1) by (simp add: comp_def case_prod_beta)
  ultimately have "apply_plan now ps ?u = Inr (map (\<lambda>(i, row). (i, if i \<in> set (map (\<lambda>e. op_id (fst e)) ps) then row\<lparr>mo_class := UNCHANGED\<rparr> else row)) ?u)"
    using "2.IH"(2) [OF prev] u by simp
  then show ?case using prev u by (auto simp: comp_def)
qed (simp add: case_prod_beta)

text \<open>
  C24. Monitoring is idempotent: right after a sync, syncing the same universe again finds every opportunity unchanged and reports no news; no fingerprint, snapshot, reason or
  date of change moves, only the class of the rows of the universe becomes UNCHANGED.
\<close>
theorem second_sync_finds_nothing:
  assumes "distinct (map op_id universe)" "distinct (map fst t)" "sync_opportunity_monitoring_state sha now universe t = Inr (t', c)"
  shows "sync_opportunity_monitoring_state sha later universe t' =
    Inr (map (\<lambda>(i, row). (i, if i \<in> set (map op_id universe) then row\<lparr>mo_class := UNCHANGED\<rparr> else row)) t',
      \<lparr>sy_considered = length universe, sy_baseline = 0, sy_new = 0, sy_changed = 0, sy_unchanged = length universe\<rparr>)"
proof -
  obtain plan where plan: "build_sync_plan sha universe t = Inr plan" and t': "apply_plan now plan t = Inr t'"
    using assms(3) by (auto simp: sync_opportunity_monitoring_state_def split: sum.split_asm)
  note shape = plan_shape [OF plan]
  have "map (\<lambda>e. op_id (fst e)) plan = map op_id (map fst plan)" by simp
  also have "\<dots> = map op_id universe" using shape by simp
  finally have once: "distinct (map (\<lambda>e. op_id (fst e)) plan)" using assms(1) by simp
  have tracked: "in_step sha t' r" if "r \<in> set universe" for r
  proof -
    have "r \<in> fst ` set plan" using that shape by (metis list.set_map)
    then obtain e where "e \<in> set plan" "r = fst e" by auto
    with applied_tracked [OF t' conjunct1 [OF conjunct2 [OF shape]] once] obtain row where "map_of t' (op_id r) = Some row"
      "mo_fingerprint row = compute_opportunity_fingerprint sha (op_fields r)" "mo_fields row = stored_fields (op_fields r)" by blast
    then show ?thesis by (simp add: in_step_def)
  qed
  obtain again where again: "build_sync_plan sha universe t' = Inr again"
    using plan by (auto simp: build_sync_plan_def plan_opportunity_changes_def split: sum.split_asm)
  note shape' = plan_shape [OF again]
  have all: "list_all (\<lambda>(r, prev, c). prev \<noteq> None \<and> cr_class c = UNCHANGED \<and> cr_fingerprint c = compute_opportunity_fingerprint sha (op_fields r) \<and> in_step sha t' r) again"
    unfolding list_all_iff
  proof clarify
    fix r prev c assume e: "(r, prev, c) \<in> set again"
    then have "r \<in> set universe" using shape' by force
    from tracked [OF this] e shape' show "prev \<noteq> None \<and> cr_class c = UNCHANGED \<and> cr_fingerprint c = compute_opportunity_fingerprint sha (op_fields r) \<and> in_step sha t' r"
      by (auto simp: list_all_iff in_step_def classify_opportunity_change_def Let_def split: option.split_asm)
  qed
  have "map (\<lambda>e. op_id (fst e)) again = map op_id (map fst again)" by simp
  then have ids: "map (\<lambda>e. op_id (fst e)) again = map op_id universe" using shape' by simp
  have "filter (\<lambda>(r, prev, x). cr_class x = k) again = (if k = UNCHANGED then again else [])" for k
    using all by (induction again) auto
  then have "count_class k again = (if k = UNCHANGED then length universe else 0)" for k
    using shape' by (auto simp: count_class_def)
  moreover have "distinct (map fst t')" using keep_distinct [OF t' assms(2)] .
  ultimately show ?thesis
    using applied_unchanged [OF _ all, of later] by (simp add: sync_opportunity_monitoring_state_def again ids)
qed

definition sample_opportunity :: opportunity where
  "sample_opportunity = \<lparr>op_id = ''strategic_land:allocation:57'', op_type = ''strategic_land'', op_fields = [(''plan_status_bucket'', FJson (JStr ''adopted''))]\<rparr>"

theorem second_sync_finds_nothing_witness:
  "case sync_opportunity_monitoring_state id 5 [sample_opportunity] [] of Inl _ \<Rightarrow> False
   | Inr (t', c) \<Rightarrow> map_of t' (op_id sample_opportunity) \<noteq> None \<and> sync_opportunity_monitoring_state id 9 [sample_opportunity] t' =
      Inr (map (\<lambda>(i, row). (i, if i \<in> set (map op_id [sample_opportunity]) then row\<lparr>mo_class := UNCHANGED\<rparr> else row)) t',
        \<lparr>sy_considered = 1, sy_baseline = 0, sy_new = 0, sy_changed = 0, sy_unchanged = 1\<rparr>)"
proof -
  have "case sync_opportunity_monitoring_state id 5 [sample_opportunity] [] of Inl _ \<Rightarrow> False | Inr (t', c) \<Rightarrow> map_of t' (op_id sample_opportunity) \<noteq> None"
    by code_simp
  then obtain t' c where s: "sync_opportunity_monitoring_state id 5 [sample_opportunity] [] = Inr (t', c)" and "map_of t' (op_id sample_opportunity) \<noteq> None"
    by (auto split: sum.split_asm)
  moreover have "distinct (map op_id [sample_opportunity])" "distinct (map fst ([] :: table))" by simp_all
  ultimately show ?thesis using second_sync_finds_nothing [OF _ _ s, of 9] by simp
qed

section \<open>What counts as news\<close>

lemma identities_each:
  "all_identities rs = Inr ds \<Longrightarrow> ds = map (\<lambda>r. case opportunity_detector_identity (op_id r) of Inr d \<Rightarrow> d | Inl _ \<Rightarrow> []) rs"
  by (induction rs arbitrary: ds) (auto split: sum.split_asm)

lemma identities_error: "all_identities rs = Inl e \<Longrightarrow> list_ex (\<lambda>r. opportunity_detector_identity (op_id r) = Inl e) rs"
  by (induction rs) (auto split: sum.split_asm)

text \<open>
  C25. An opportunity is news only where its own detector was already tracked: one never seen is NEW exactly where some row of the table has its detector, and part of the baseline
  otherwise; one seen before is unchanged exactly where its fingerprint is. An id outside the grammar stops the sync before any of this.
\<close>
theorem baseline_never_news:
  "case build_sync_plan sha universe t of
     Inl e \<Rightarrow> list_ex (\<lambda>r. opportunity_detector_identity (op_id r) = Inl e) universe
   | Inr plan \<Rightarrow> map (\<lambda>(r, prev, c). (r, prev, cr_class c)) plan = map (\<lambda>r. (r, map_of t (op_id r), case map_of t (op_id r) of
       None \<Rightarrow> if list_ex (\<lambda>d. opportunity_detector_identity (op_id r) = Inr d) (tracked_detector_identities (map fst t)) then NEW else BASELINE_EXISTING
     | Some row \<Rightarrow> if mo_fingerprint row = compute_opportunity_fingerprint sha (op_fields r) then UNCHANGED else MATERIALLY_CHANGED)) universe"
proof (cases "all_identities universe")
  case (Inl e)
  then show ?thesis by (simp add: build_sync_plan_def plan_opportunity_changes_def identities_error)
next
  case (Inr ds)
  have found: "map_of (filter (\<lambda>(i, row). i \<in> set (map op_id universe)) t) (op_id r) = map_of t (op_id r)" if "r \<in> set universe" for r
    using that by (induction t) auto
  have known: "\<exists>d. opportunity_detector_identity (op_id r) = Inr d" if "r \<in> set universe" for r
    using Inr that by (induction universe arbitrary: ds) (auto split: sum.split_asm)
  have any: "list_ex (\<lambda>d. opportunity_detector_identity (op_id r) = Inr d) ks =
      ((case opportunity_detector_identity (op_id r) of Inr d \<Rightarrow> d | Inl _ \<Rightarrow> []) \<in> set ks)" if "r \<in> set universe" for r ks
    using known [OF that] by (auto simp: list_ex_iff)
  show ?thesis
    using Inr found any
    by (auto simp: build_sync_plan_def plan_opportunity_changes_def identities_each [OF Inr] zip_map2 comp_def Let_def classify_opportunity_change_def
        zip_same_conv_map split: option.split)
qed

section \<open>Dates\<close>

lemma reasons_set:
  "set (foldl (\<lambda>rs key. if differs old new key \<and> reason_of key \<notin> set rs then rs @ [reason_of key] else rs) acc ks) =
    set acc \<union> reason_of ` {k \<in> set ks. differs old new k}"
  by (induction ks arbitrary: acc) auto

text \<open>
  A fact that is a date counts as changed at every material change, whether it moved or not: it is stored as text and compared with a date. Where the deadline is one, the reasons
  name the lapse status.
\<close>
theorem date_always_changed:
  assumes "map_of (op_fields r) k = Some (FDate d)" "mo_fingerprint p \<noteq> compute_opportunity_fingerprint sha (op_fields r)"
  shows "reason_of k \<in> set (cr_reasons (classify_opportunity_change sha r (Some p) baseline))"
proof -
  have "k \<in> set (sorted_set (map fst (opt_or (mo_fields p) []) @ map fst (op_fields r)))"
    using map_of_SomeD [OF assms(1)] by (force simp: sorted_set_def)
  moreover have "differs (opt_or (mo_fields p) []) (op_fields r) k" using assms(1) by (simp add: differs_def opt_or_def)
  ultimately have "reason_of k \<in> set (diff_reasons (opt_or (mo_fields p) []) (op_fields r))" by (auto simp: diff_reasons_def reasons_set)
  then show ?thesis using assms(2) by (auto simp: classify_opportunity_change_def Let_def)
qed

end
