(* ===== verification/Regex.thy ===== *)
theory Regex
  imports Prelude
begin

text \<open>
  Python's \<open>re\<close>: patterns with greedy and lazy repetition, ordered choice, one capturing group, \<open>\b\<close>, \<open>$\<close>, negative lookahead and a negative lookbehind of one character.
  \<open>runs\<close> lists, in the order in which Python's backtracking tries them, the positions a match can end at with what the group captured; its head is the match Python
  reports. \<open>denotes\<close> is what a pattern means as a relation on positions. With \<open>re.I\<close> the text is lowered first.
\<close>

type_synonym capture = "(nat \<times> nat) option"

datatype rx =
    Lit str
  | Cls "char \<Rightarrow> bool"
  | Seq rx rx
  | Alt rx rx
  | Star bool rx
  | Group rx
  | Edge
  | Bol
  | Eol
  | NotAhead rx
  | NotBehind "char \<Rightarrow> bool"

definition is_word :: "char \<Rightarrow> bool" where
  "is_word c = (CHR ''0'' \<le> c \<and> c \<le> CHR ''9'' \<or> CHR ''A'' \<le> c \<and> c \<le> CHR ''Z'' \<or> CHR ''a'' \<le> c \<and> c \<le> CHR ''z'' \<or> c = CHR ''_'')"

definition word_at :: "str \<Rightarrow> nat \<Rightarrow> bool" where
  "word_at s i = (i < length s \<and> is_word (s ! i))"

text \<open>\<open>\b\<close>: a word character on exactly one side.\<close>

definition edge_at :: "str \<Rightarrow> nat \<Rightarrow> bool" where
  "edge_at s i = ((0 < i \<and> word_at s (i - 1)) \<noteq> word_at s i)"

text \<open>\<open>$\<close>: the end, or before a final newline.\<close>

definition eol_at :: "str \<Rightarrow> nat \<Rightarrow> bool" where
  "eol_at s i = (i = length s \<or> i + 1 = length s \<and> s ! i = CHR 0x0A)"

definition behind_free :: "str \<Rightarrow> (char \<Rightarrow> bool) \<Rightarrow> nat \<Rightarrow> bool" where
  "behind_free s p i = (i = 0 \<or> \<not> p (s ! (i - 1)))"

section \<open>Meaning\<close>

text \<open>Between which positions of the text a pattern matches.\<close>

primrec denotes :: "str \<Rightarrow> rx \<Rightarrow> (nat \<times> nat) set" where
  "denotes s (Lit w) = {(i, j). i \<le> length s \<and> prefix w (drop i s) \<and> j = i + length w}"
| "denotes s (Cls p) = {(i, j). i < length s \<and> p (s ! i) \<and> j = Suc i}"
| "denotes s (Seq a b) = denotes s a O denotes s b"
| "denotes s (Alt a b) = denotes s a \<union> denotes s b"
| "denotes s (Star g a) = {(i, j). i \<le> length s \<and> (i, j) \<in> (denotes s a)\<^sup>*}"
| "denotes s (Group a) = denotes s a"
| "denotes s Edge = {(i, j). i \<le> length s \<and> edge_at s i \<and> j = i}"
| "denotes s Bol = {(0, 0)}"
| "denotes s Eol = {(i, j). i \<le> length s \<and> eol_at s i \<and> j = i}"
| "denotes s (NotAhead a) = {(i, j). i \<le> length s \<and> i \<notin> Domain (denotes s a) \<and> j = i}"
| "denotes s (NotBehind p) = {(i, j). i \<le> length s \<and> behind_free s p i \<and> j = i}"

section \<open>The matcher\<close>

text \<open>Rounds of a repetition that do not advance are not taken, so as many rounds as there are characters left suffice.\<close>

fun star_runs :: "nat \<Rightarrow> bool \<Rightarrow> (nat \<times> capture \<Rightarrow> (nat \<times> capture) list) \<Rightarrow> nat \<times> capture \<Rightarrow> (nat \<times> capture) list" where
  "star_runs 0 greedy step st = [st]"
| "star_runs (Suc n) greedy step st =
    (let more = concat (map (star_runs n greedy step) (filter (\<lambda>st'. fst st < fst st') (step st))) in if greedy then more @ [st] else st # more)"

primrec runs :: "str \<Rightarrow> rx \<Rightarrow> nat \<times> capture \<Rightarrow> (nat \<times> capture) list" where
  "runs s (Lit w) st = (if fst st \<le> length s \<and> prefix w (drop (fst st) s) then [(fst st + length w, snd st)] else [])"
| "runs s (Cls p) st = (if fst st < length s \<and> p (s ! fst st) then [(Suc (fst st), snd st)] else [])"
| "runs s (Seq a b) st = concat (map (runs s b) (runs s a st))"
| "runs s (Alt a b) st = runs s a st @ runs s b st"
| "runs s (Star g a) st = (if fst st \<le> length s then star_runs (length s - fst st) g (runs s a) st else [])"
| "runs s (Group a) st = map (\<lambda>st'. (fst st', Some (fst st, fst st'))) (runs s a st)"
| "runs s Edge st = (if fst st \<le> length s \<and> edge_at s (fst st) then [st] else [])"
| "runs s Bol st = (if fst st = 0 then [st] else [])"
| "runs s Eol st = (if fst st \<le> length s \<and> eol_at s (fst st) then [st] else [])"
| "runs s (NotAhead a) st = (if fst st \<le> length s \<and> runs s a st = [] then [st] else [])"
| "runs s (NotBehind p) st = (if fst st \<le> length s \<and> behind_free s p (fst st) then [st] else [])"

text \<open>A match object: where it starts and ends, and its group.\<close>

record rx_match =
  mt_start :: nat
  mt_end :: nat
  mt_group :: capture

definition match_at :: "rx \<Rightarrow> str \<Rightarrow> nat \<Rightarrow> rx_match option" where
  "match_at r s i = (case runs s r (i, None) of [] \<Rightarrow> None | (j, c) # _ \<Rightarrow> Some \<lparr>mt_start = i, mt_end = j, mt_group = c\<rparr>)"

fun first_match :: "rx \<Rightarrow> str \<Rightarrow> nat list \<Rightarrow> rx_match option" where
  "first_match r s [] = None"
| "first_match r s (i # is) = (case match_at r s i of None \<Rightarrow> first_match r s is | Some m \<Rightarrow> Some m)"

definition match_from :: "rx \<Rightarrow> str \<Rightarrow> nat \<Rightarrow> rx_match option" where
  "match_from r s i = first_match r s [i..<Suc (length s)]"

definition match_at_start :: "rx \<Rightarrow> str \<Rightarrow> bool" where
  "match_at_start r s = (match_at r s 0 \<noteq> None)"

definition search_rx :: "rx \<Rightarrow> str \<Rightarrow> bool" where
  "search_rx r s = (match_from r s 0 \<noteq> None)"

text \<open>\<open>re.finditer\<close>: matches that do not overlap, each beginning where the one before ended, or one further where that was empty.\<close>

fun find_all :: "nat \<Rightarrow> rx \<Rightarrow> str \<Rightarrow> nat \<Rightarrow> rx_match list" where
  "find_all 0 r s i = []"
| "find_all (Suc n) r s i = (case match_from r s i of None \<Rightarrow> []
     | Some m \<Rightarrow> m # find_all n r s (if mt_end m = mt_start m then Suc (mt_end m) else mt_end m))"

definition finditer :: "rx \<Rightarrow> str \<Rightarrow> rx_match list" where
  "finditer r s = find_all (Suc (length s)) r s 0"

text \<open>\<open>re.split\<close>: what lies between the matches.\<close>

fun pieces :: "str \<Rightarrow> nat \<Rightarrow> rx_match list \<Rightarrow> str list" where
  "pieces s i [] = [drop i s]"
| "pieces s i (m # ms) = take (mt_start m - i) (drop i s) # pieces s (mt_end m) ms"

definition split_rx :: "rx \<Rightarrow> str \<Rightarrow> str list" where
  "split_rx r s = pieces s 0 (finditer r s)"

definition fullmatch :: "rx \<Rightarrow> str \<Rightarrow> bool" where
  "fullmatch r s = list_ex (\<lambda>st. fst st = length s) (runs s r (0, None))"

definition group_text :: "str \<Rightarrow> rx_match \<Rightarrow> str option" where
  "group_text s m = map_option (\<lambda>(i, j). take (j - i) (drop i s)) (mt_group m)"

section \<open>The matcher computes the meaning\<close>

lemma denotes_bounds: "(i, j) \<in> denotes s r \<Longrightarrow> i \<le> j \<and> j \<le> length s"
proof (induction r arbitrary: i j)
  case (Lit w)
  then have "length w \<le> length (drop i s)" using prefix_length_le by fastforce
  with Lit show ?case by auto
next
  case (Seq a b)
  then obtain m where "(i, m) \<in> denotes s a" "(m, j) \<in> denotes s b" by auto
  then show ?case using Seq.IH order_trans by blast
next
  case (Star g a)
  then have "(i, j) \<in> (denotes s a)\<^sup>*" "i \<le> length s" by auto
  then show ?case by (induction rule: rtrancl_induct) (use Star.IH in fastforce)+
qed auto

lemma star_runs_sound:
  assumes step: "\<And>st st'. st' \<in> set (step st) \<Longrightarrow> (fst st, fst st') \<in> R" and "st' \<in> set (star_runs n g step st)"
  shows "(fst st, fst st') \<in> R\<^sup>*"
  using assms(2)
proof (induction n arbitrary: st)
  case (Suc n)
  then consider "st' = st" | x where "x \<in> set (step st)" "st' \<in> set (star_runs n g step x)" by (auto simp: Let_def split: if_splits)
  then show ?case
  proof cases
    case 2
    then show ?thesis using Suc.IH [of x] step [of x st] by (simp add: converse_rtrancl_into_rtrancl)
  qed simp
qed simp

lemma star_runs_complete:
  assumes step: "\<And>st j. (fst st, j) \<in> R \<Longrightarrow> j \<in> fst ` set (step st)" and R: "\<And>i j. (i, j) \<in> R \<Longrightarrow> i \<le> j \<and> j \<le> l"
    and "(fst st, k) \<in> R\<^sup>*" "l - fst st \<le> n"
  shows "k \<in> fst ` set (star_runs n g step st)"
proof -
  have "\<forall>st n. fst st = i \<longrightarrow> l - i \<le> n \<longrightarrow> k \<in> fst ` set (star_runs n g step st)" if "(i, k) \<in> R\<^sup>*" for i
    using that
  proof (induction rule: converse_rtrancl_induct)
    case base
    have "st \<in> set (star_runs n g step st)" for n st by (cases n) (simp_all add: Let_def)
    then show ?case by force
  next
    case (step i j)
    show ?case
    proof (intro allI impI)
      fix st :: "nat \<times> capture" and n assume st: "fst st = i" "l - i \<le> n"
      show "k \<in> fst ` set (star_runs n g step st)"
      proof (cases "i = j")
        case True
        then show ?thesis using step.IH st by blast
      next
        case False
        then have j: "i < j" "j \<le> l" using R [OF step.hyps(1)] by auto
        then obtain m where m: "n = Suc m" "l - j \<le> m" using st(2) by (cases n) auto
        obtain x where x: "x \<in> set (step st)" "fst x = j" using assms(1) [of st j] step.hyps(1) st(1) by auto
        then have "k \<in> fst ` set (star_runs m g step x)" using step.IH m(2) by blast
        moreover have "set (star_runs m g step x) \<subseteq> set (star_runs n g step st)"
          using x j(1) st(1) m(1) by (auto simp: Let_def)
        ultimately show ?thesis by blast
      qed
    qed
  qed
  then show ?thesis using assms(3,4) by blast
qed

lemma runs_denote: "fst ` set (runs s r st) = {j. (fst st, j) \<in> denotes s r}"
proof (induction r arbitrary: st)
  case (Seq a b)
  have "fst ` set (runs s (Seq a b) st) = (\<Union>x \<in> set (runs s a st). fst ` set (runs s b x))" by auto
  also have "\<dots> = (\<Union>i \<in> fst ` set (runs s a st). {j. (i, j) \<in> denotes s b})" by (simp add: Seq(2))
  finally show ?case by (auto simp: Seq(1))
next
  case (Star g a)
  show ?case
  proof (intro set_eqI iffI)
    fix k assume "k \<in> fst ` set (runs s (Star g a) st)"
    then obtain st' where "fst st \<le> length s" "st' \<in> set (star_runs (length s - fst st) g (runs s a) st)" "k = fst st'" by (auto split: if_splits)
    moreover have "(fst x, fst y) \<in> denotes s a" if "y \<in> set (runs s a x)" for x y using Star that by blast
    ultimately show "k \<in> {j. (fst st, j) \<in> denotes s (Star g a)}" using star_runs_sound [of "runs s a" "denotes s a"] by auto
  next
    fix k assume "k \<in> {j. (fst st, j) \<in> denotes s (Star g a)}"
    then have k: "fst st \<le> length s" "(fst st, k) \<in> (denotes s a)\<^sup>*" by auto
    have "k \<in> fst ` set (star_runs (length s - fst st) g (runs s a) st)"
      by (rule star_runs_complete [OF _ _ k(2)]) (use Star denotes_bounds in blast)+
    with k(1) show "k \<in> fst ` set (runs s (Star g a) st)" by simp
  qed
next
  case (NotAhead a)
  have "(runs s a st = []) = (fst ` set (runs s a st) = {})" by simp
  also have "\<dots> = (fst st \<notin> Domain (denotes s a))" unfolding NotAhead by (simp add: Domain_iff)
  finally have "(runs s a st = []) = (fst st \<notin> Domain (denotes s a))" .
  then show ?case by auto
next
  case (Alt a b)
  then show ?case by (simp add: image_Un Collect_disj_eq)
next
  case (Group a)
  then show ?case by (simp add: image_image)
qed auto

lemma match_at_iff: "(match_at r s i = None) = (i \<notin> Domain (denotes s r))"
proof -
  have "(match_at r s i = None) = (set (runs s r (i, None)) = {})" by (auto simp: match_at_def split: list.splits)
  also have "\<dots> = ({j. (i, j) \<in> denotes s r} = {})" using runs_denote [of s r "(i, None)"] by (metis fst_conv image_is_empty)
  finally show ?thesis by (auto simp: Domain_iff)
qed

lemma match_at_span: "match_at r s i = Some m \<Longrightarrow> mt_start m = i \<and> (i, mt_end m) \<in> denotes s r"
  using runs_denote [of s r "(i, None)"] by (auto simp: match_at_def split: list.splits)

lemma first_match_None: "(first_match r s is = None) = list_all (\<lambda>i. match_at r s i = None) is"
  by (induction "is") (auto split: option.splits)

text \<open>A search succeeds exactly where the pattern matches between some two positions.\<close>

lemma search_rx_iff: "search_rx r s = (denotes s r \<noteq> {})"
proof -
  have "search_rx r s = (\<exists>i \<le> length s. i \<in> Domain (denotes s r))"
    by (auto simp: search_rx_def match_from_def first_match_None list_all_iff match_at_iff less_Suc_eq_le simp del: upt_Suc)
  moreover have "i \<le> length s" if "i \<in> Domain (denotes s r)" for i using that denotes_bounds by fastforce
  ultimately show ?thesis by auto
qed

lemma fullmatch_iff: "fullmatch r s = ((0, length s) \<in> denotes s r)"
proof -
  have "fullmatch r s = (length s \<in> fst ` set (runs s r (0, None)))" by (force simp: fullmatch_def list_ex_iff image_iff)
  then show ?thesis by (simp add: runs_denote)
qed

lemma match_at_start_iff: "match_at_start r s = (0 \<in> Domain (denotes s r))"
  by (simp add: match_at_start_def match_at_iff)

section \<open>Groups\<close>

primrec groupless :: "rx \<Rightarrow> bool" where
  "groupless (Lit w) = True"
| "groupless (Cls p) = True"
| "groupless (Seq a b) = (groupless a \<and> groupless b)"
| "groupless (Alt a b) = (groupless a \<and> groupless b)"
| "groupless (Star g a) = groupless a"
| "groupless (Group a) = False"
| "groupless Edge = True"
| "groupless Bol = True"
| "groupless Eol = True"
| "groupless (NotAhead a) = True"
| "groupless (NotBehind p) = True"

lemma star_runs_capture:
  assumes "\<And>st st'. st' \<in> set (step st) \<Longrightarrow> snd st' = snd st" and "st' \<in> set (star_runs n g step st)"
  shows "snd st' = snd st"
  using assms(2)
proof (induction n arbitrary: st)
  case (Suc n)
  then consider "st' = st" | x where "x \<in> set (step st)" "st' \<in> set (star_runs n g step x)" by (auto simp: Let_def split: if_splits)
  then show ?case by cases (use Suc.IH assms(1) in auto)
qed simp

lemma groupless_capture: "groupless r \<Longrightarrow> list_all (\<lambda>st'. snd st' = snd st) (runs s r st)"
proof (induction r arbitrary: st)
  case (Seq a b)
  then show ?case by (fastforce simp: list_all_iff)
next
  case (Star g a)
  have "snd st' = snd st" if "st' \<in> set (star_runs (length s - fst st) g (runs s a) st)" for st'
    by (rule star_runs_capture [OF _ that]) (use Star in \<open>simp add: list_all_iff\<close>)
  then show ?case by (simp add: list_all_iff)
qed simp_all

lemma match_at_head: "match_at r s i = Some m \<Longrightarrow> \<exists>st'\<in>set (runs s r (i, None)). mt_group m = snd st'"
  by (cases "runs s r (i, None)") (auto simp: match_at_def)

text \<open>What a group in front of a pattern without groups has captured.\<close>

lemma captured:
  assumes "match_at (Seq a (Seq (Group w) r)) s i = Some m" and "groupless r"
  shows "\<exists>j k. mt_group m = Some (j, k) \<and> (j, k) \<in> denotes s w"
proof -
  obtain st' where st: "st' \<in> set (runs s (Seq a (Seq (Group w) r)) (i, None))" "mt_group m = snd st'"
    using match_at_head [OF assms(1)] by blast
  then obtain x y where x: "y \<in> set (runs s w x)" "st' \<in> set (runs s r (fst y, Some (fst x, fst y)))" by auto
  then have "mt_group m = Some (fst x, fst y)" using groupless_capture [OF assms(2), of "(fst y, Some (fst x, fst y))" s] st(2) by (auto simp: list_all_iff)
  moreover have "(fst x, fst y) \<in> denotes s w" using runs_denote [of s w x] x(1) by blast
  ultimately show ?thesis by blast
qed

lemma first_match_Some: "first_match r s is = Some m \<Longrightarrow> match_at r s (mt_start m) = Some m"
  by (induction "is") (auto split: option.splits dest: match_at_span)

lemma find_all_match: "m \<in> set (find_all n r s i) \<Longrightarrow> match_at r s (mt_start m) = Some m"
proof (induction n r s i rule: find_all.induct)
  case (2 n r s i)
  then show ?case by (cases "match_from r s i") (auto simp: match_from_def simp del: upt_Suc dest: first_match_Some)
qed simp

lemma finditer_match: "m \<in> set (finditer r s) \<Longrightarrow> match_at r s (mt_start m) = Some m"
  unfolding finditer_def by (rule find_all_match)

section \<open>Derived patterns\<close>

definition Eps :: rx where "Eps = Lit []"
definition Opt :: "rx \<Rightarrow> rx" where "Opt r = Alt r Eps"
definition Many :: "rx \<Rightarrow> rx" where "Many r = Star True r"
definition Plus :: "rx \<Rightarrow> rx" where "Plus r = Seq r (Star True r)"
definition Space :: rx where "Space = Cls is_space"
definition Spaces :: rx where "Spaces = Plus Space"
definition Gap :: rx where "Gap = Many Space"
definition Digit :: rx where "Digit = Cls (\<lambda>c. CHR ''0'' \<le> c \<and> c \<le> CHR ''9'')"

fun Seqs :: "rx list \<Rightarrow> rx" where
  "Seqs [] = Eps"
| "Seqs [r] = r"
| "Seqs (r # rs) = Seq r (Seqs rs)"

fun Alts :: "rx list \<Rightarrow> rx" where
  "Alts [] = Cls (\<lambda>c. False)"
| "Alts [r] = r"
| "Alts (r # rs) = Alt r (Alts rs)"

text \<open>\<open>r{0,n}\<close>, greedy and lazy.\<close>

fun UpTo :: "nat \<Rightarrow> rx \<Rightarrow> rx" where
  "UpTo 0 r = Eps"
| "UpTo (Suc n) r = Alt (Seq r (UpTo n r)) Eps"

fun LazyUpTo :: "nat \<Rightarrow> rx \<Rightarrow> rx" where
  "LazyUpTo 0 r = Eps"
| "LazyUpTo (Suc n) r = Alt Eps (Seq r (LazyUpTo n r))"

definition Words :: "str list \<Rightarrow> rx" where
  "Words ws = Alts (map Lit ws)"

definition plural :: "str \<Rightarrow> rx" where
  "plural w = Seq (Lit w) (Opt (Lit ''s''))"

lemma denotes_Alts: "denotes s (Alts rs) = (\<Union>r\<in>set rs. denotes s r)"
  by (induction rs rule: Alts.induct) auto

lemma denotes_Words: "(i, j) \<in> denotes s (Words ws) \<Longrightarrow> take (j - i) (drop i s) \<in> set ws"
  by (auto simp: Words_def denotes_Alts prefix_def)

end
