(* ===== verification/UnitFilter.thy ===== *)
theory UnitFilter
  imports Regex
begin

text \<open>
  The qualifying-scheme filter (app/scrapers/unit_filter.py): from the text of a proposal, before anything is downloaded, the counts of homes it states, the category of
  the application, and whether it is worth pursuing. Every pattern is the source's, as a value of \<open>rx\<close>.
\<close>

section \<open>Text\<close>

text \<open>\<open>s.replace(old, new)\<close>, for a non-empty \<open>old\<close>.\<close>

function replace_all :: "str \<Rightarrow> str \<Rightarrow> str \<Rightarrow> str" where
  "replace_all old new s = (case s of [] \<Rightarrow> [] | c # cs \<Rightarrow>
     if old \<noteq> [] \<and> prefix old s then new @ replace_all old new (drop (length old) s) else c # replace_all old new cs)"
  by pat_completeness auto
termination by (relation "measure (\<lambda>(old, new, s). length s)") auto

declare replace_all.simps [simp del]

definition ascii_digit :: "char \<Rightarrow> bool" where
  "ascii_digit c = (CHR ''0'' \<le> c \<and> c \<le> CHR ''9'')"

text \<open>A comma between two digits goes.\<close>

fun strip_commas :: "bool \<Rightarrow> str \<Rightarrow> str" where
  "strip_commas after_digit [] = []"
| "strip_commas after_digit (c # cs) = (if c = CHR '','' \<and> after_digit \<and> cs \<noteq> [] \<and> ascii_digit (hd cs) then strip_commas False cs
     else c # strip_commas (ascii_digit c) cs)"

definition normalise_text :: "str option \<Rightarrow> str" where
  "normalise_text text = strip_commas False (replace_all ''no '' '' '' (replace_all ''no.'' ''no'' (replace_all ''no. of'' ''number of'' (lower (str_or text [])))))"

section \<open>Counts\<close>

definition Dot :: rx where "Dot = Cls (\<lambda>c. c \<noteq> CHR 0x0A)"
definition Word :: rx where "Word = Cls is_word"
definition Hyphens :: rx where "Hyphens = Plus (Cls (\<lambda>c. is_space c \<or> c = CHR ''-''))"
definition Num :: rx where "Num = Seq (NotBehind ascii_digit) (Group (Plus Digit))"

text \<open>Words with optional white space between them.\<close>

fun gapped :: "str list \<Rightarrow> rx" where
  "gapped [] = Eps"
| "gapped [w] = Lit w"
| "gapped (w # ws) = Seq (Lit w) (Seq Gap (gapped ws))"

definition dwelling_nouns :: rx where
  "dwelling_nouns = Alts (map plural [''apartment'', ''flat'', ''dwelling'', ''dwellinghouse'', ''house'', ''home'', ''unit''])"

definition some_words :: "rx \<Rightarrow> rx" where
  "some_words w = UpTo 3 (Seq w Hyphens)"

definition AREA_UNITS :: rx where
  "AREA_UNITS = Seqs [Gap, Alts [Seq (Lit ''sq'') (Opt (Lit ''.'')), Lit ''square'', Lit ''m2'', plural ''metre'', plural ''meter'', plural ''hectare'', Lit ''ha''], Edge]"

definition UNIT_COUNT_PATTERNS :: "rx list" where
  "UNIT_COUNT_PATTERNS =
    [Seqs [Num, Gap, Words [''apartments'', ''flats'', ''dwellings'', ''dwellinghouses'', ''houses'', ''homes'', ''new homes'', ''units'', ''residential units'']],
     Seqs [Num, Gap, some_words (Seq Word (UpTo 39 Word)), dwelling_nouns, Edge, NotAhead AREA_UNITS],
     Seqs [Num, Gap, Lit ''self-contained'', Gap, Words [''apartments'', ''flats'', ''dwellings'', ''units'']],
     Seqs [Num, Gap, Lit ''residential'', Gap, Words [''apartments'', ''flats'', ''dwellings'', ''units'']],
     Seqs [Words [''apartments'', ''flats'', ''dwellings'', ''houses'', ''homes'', ''units''], Gap, Opt (Seq (Words [''comprising'', ''of'', ''for'']) Gap), Num],
     Seqs [Words [''erection'', ''construction'', ''development'', ''conversion''], Star False Dot, Num, Gap,
       Words [''apartments'', ''flats'', ''dwellings'', ''houses'', ''homes'', ''units'']],
     Seqs [Lit ''build to rent'', Star False Dot, Num, Gap, Words [''apartments'', ''flats'', ''homes'', ''units'']],
     Seqs [Lit ''btr'', Star False Dot, Num, Gap, Words [''apartments'', ''flats'', ''homes'', ''units'']],
     Seqs [Num, Gap, Alts [plural ''adult'', plural ''resident'', Lit ''people'', plural ''person'', plural ''service user'', plural ''bedspace''], Edge],
     Seqs [Lit ''number'', Gap, Lit ''of'', Gap, Opt (Seq (Lit ''residential'') Gap), Words [''units'', ''dwellings'', ''houses'', ''flats'', ''apartments''],
       LazyUpTo 40 (Cls (\<lambda>c. \<not> ascii_digit c \<and> c \<noteq> CHR 0x0A)), Num],
     Seqs [Opt (Seq (Lit ''total'') Gap), Words [''units'', ''dwellings''], Gap, Lit ''proposed'', LazyUpTo 20 (Cls (\<lambda>c. \<not> ascii_digit c \<and> c \<noteq> CHR 0x0A)), Num],
     Seqs [dwelling_nouns, Gap, Opt (Seq (Lit ''('') Gap), Lit ''up'', Gap, Lit ''to'', Gap, Num, Opt (Lit '')'')]]"

definition MAX_PLAUSIBLE_UNITS :: int where "MAX_PLAUSIBLE_UNITS = 5000"

definition year_like :: "int \<Rightarrow> bool" where
  "year_like n = (1990 \<le> n \<and> n < 2036)"

definition POLICY_TARGET_CONTEXT_RE :: rx where
  "POLICY_TARGET_CONTEXT_RE = Alts
    [Seqs [Lit ''per'', Gap, Words [''year'', ''annum'']], gapped [''objectively'', ''assessed'', ''need''], gapped [''housing'', ''requirement''],
     gapped [''requirement'', ''of''], gapped [''over'', ''the'', ''plan'', ''period''], gapped [''local'', ''plan'', ''period''], gapped [''housing'', ''target''],
     gapped [''housing'', ''need''], gapped [''delivery'', ''target''], Seqs [Lit ''annual'', Gap, Opt (Seq (Lit ''housing'') Gap), Lit ''requirement''],
     gapped [''deliverable'', ''supply''], gapped [''housing'', ''land'', ''supply''], Seqs [plural ''year'', UpTo 3 (Cls (\<lambda>c. \<not> is_word c)), Lit ''supply''],
     gapped [''more'', ''extensive'', ''site''], gapped [''wider'', ''allocation''], gapped [''wider'', ''site''], gapped [''part'', ''of'', ''a'', ''wider''],
     gapped [''pursuant'', ''to'', ''outline''], gapped [''allocation'', ''is'', ''for''], gapped [''identified'', ''to'', ''deliver''],
     gapped [''make'', ''provision'', ''for''], gapped [''delivery'', ''framework''], gapped [''could'', ''accommodate''], Lit ''windfall'',
     gapped [''assessed'', ''as'', ''suitable'', ''for''], gapped [''identified'', ''as'', ''brownfield'']]"

definition POLICY_TARGET_CONTEXT_WINDOW :: nat where "POLICY_TARGET_CONTEXT_WINDOW = 90"

definition WORD_TO_NUMBER :: "(str \<times> int) list" where
  "WORD_TO_NUMBER = [(''one'', 1), (''two'', 2), (''three'', 3), (''four'', 4), (''five'', 5), (''six'', 6), (''seven'', 7), (''eight'', 8), (''nine'', 9), (''ten'', 10),
     (''eleven'', 11), (''twelve'', 12), (''thirteen'', 13), (''fourteen'', 14), (''fifteen'', 15), (''sixteen'', 16), (''seventeen'', 17), (''eighteen'', 18),
     (''nineteen'', 19), (''twenty'', 20), (''thirty'', 30), (''forty'', 40), (''fifty'', 50), (''sixty'', 60), (''seventy'', 70), (''eighty'', 80), (''ninety'', 90)]"

definition WORD_UNIT_COUNT_RE :: rx where
  "WORD_UNIT_COUNT_RE = Seqs [Edge, Group (Words (map fst WORD_TO_NUMBER)), Edge, Gap, some_words (Plus Word), dwelling_nouns, Edge]"

definition structured_nouns :: rx where
  "structured_nouns = Words [''units'', ''dwellings'', ''apartments'', ''houses'', ''homes'']"

definition structured_end :: rx where
  "structured_end = Seqs [Gap, Opt (Words ['':'', ''-'']), Gap, Group (Plus Digit)]"

definition STRUCTURED_TOTAL_RE :: rx where
  "STRUCTURED_TOTAL_RE = Alt
     (Seqs [Lit ''total'', Gap, Opt (Seqs [Lit ''number'', Gap, Lit ''of'', Gap]), Lit ''proposed'', Gap, Opt (Seq (Lit ''residential'') Gap), structured_nouns, structured_end])
     (Seqs [Lit ''total'', Gap, Opt (Seq (Lit ''residential'') Gap), structured_nouns, Gap, Lit ''proposed'', structured_end])"

definition digits_value :: "str \<Rightarrow> int" where
  "digits_value s = foldl (\<lambda>n c. 10 * n + (of_char c - 48)) 0 s"

definition group_value :: "str \<Rightarrow> rx_match \<Rightarrow> int option" where
  "group_value s m = map_option digits_value (group_text s m)"

definition plausible :: "int \<Rightarrow> bool" where
  "plausible n = (0 < n \<and> n \<le> MAX_PLAUSIBLE_UNITS)"

definition extract_structured_total :: "str option \<Rightarrow> int option" where
  "extract_structured_total text = (let s = normalise_text text in
     case Option.bind (match_from STRUCTURED_TOTAL_RE s 0) (group_value s) of None \<Rightarrow> None | Some n \<Rightarrow> if plausible n then Some n else None)"

definition is_policy_target_context :: "str \<Rightarrow> rx_match \<Rightarrow> bool" where
  "is_policy_target_context s m = (let a = mt_start m - POLICY_TARGET_CONTEXT_WINDOW; b = min (length s) (mt_end m + POLICY_TARGET_CONTEXT_WINDOW) in
     search_rx POLICY_TARGET_CONTEXT_RE (take (b - a) (drop a s)))"

definition is_reference_code :: "str \<Rightarrow> rx_match \<Rightarrow> bool" where
  "is_reference_code s m = (0 < mt_start m \<and> s ! (mt_start m - 1) = CHR ''-'')"

definition counted_value :: "str \<Rightarrow> rx_match \<Rightarrow> int list" where
  "counted_value s m = (if is_policy_target_context s m \<or> is_reference_code s m then []
     else (case group_value s m of None \<Rightarrow> [] | Some n \<Rightarrow> if year_like n \<or> \<not> plausible n then [] else [n]))"

definition worded_value :: "str \<Rightarrow> rx_match \<Rightarrow> int list" where
  "worded_value s m = (if is_policy_target_context s m then []
     else (case Option.bind (group_text s m) (map_of WORD_TO_NUMBER) of None \<Rightarrow> [] | Some n \<Rightarrow> [n]))"

definition extract_unit_counts :: "str option \<Rightarrow> int list" where
  "extract_unit_counts text = (let s = normalise_text text in
     concat (map (\<lambda>p. concat (map (counted_value s) (finditer p s))) UNIT_COUNT_PATTERNS) @
     concat (map (worded_value s) (finditer WORD_UNIT_COUNT_RE s)))"

definition extract_unit_count :: "str option \<Rightarrow> int option" where
  "extract_unit_count text = (case extract_unit_counts text of [] \<Rightarrow> None | n # ns \<Rightarrow> Some (foldl max n ns))"

section \<open>Categories\<close>

definition EXCLUDE_CATEGORIES :: "str list" where
  "EXCLUDE_CATEGORIES = [''variation_or_amendment'', ''condition_discharge_or_details'', ''non_target_admin_or_minor'', ''external_consultation'',
     ''screening_or_scoping_opinion'']"

definition NON_RESIDENTIAL_KEYWORDS :: "str list" where
  "NON_RESIDENTIAL_KEYWORDS = [''self storage'', ''self-storage'', ''storage facility'', ''hotel accommodation'', ''hotel development'', ''erection of a hotel'',
     ''erection of hotel'', ''industrial units'', ''industrial development'', ''warehouse'', ''distribution centre'', ''distribution warehouse'',
     ''storage and distribution'', ''retail units'', ''retail development'', ''supermarket'', ''office development'', ''office accommodation'', ''power station'',
     ''energy centre'', ''energy generation'', ''solar farm'', ''battery storage'', ''mid-tech'']"

definition MEGAWATT_RE :: rx where
  "MEGAWATT_RE = Seqs [Edge, Plus Digit, Gap, Lit ''mw'', Edge]"

definition RESIDENTIAL_SIGNAL_RE :: rx where
  "RESIDENTIAL_SIGNAL_RE = Seqs [Edge, Alts [plural ''dwelling'', plural ''house'', plural ''flat'', plural ''apartment'', Lit ''residential'', plural ''home'', Lit ''housing''], Edge]"

definition has_residential_signal :: "str \<Rightarrow> bool" where
  "has_residential_signal s = search_rx RESIDENTIAL_SIGNAL_RE s"

definition mentions_any :: "str list \<Rightarrow> str \<Rightarrow> bool" where
  "mentions_any kws s = list_ex (\<lambda>kw. contains kw s) kws"

definition is_non_residential :: "str \<Rightarrow> bool" where
  "is_non_residential s = ((mentions_any NON_RESIDENTIAL_KEYWORDS s \<or> search_rx MEGAWATT_RE s) \<and> \<not> has_residential_signal s)"

definition REVIEW_KEYWORDS :: "str list" where
  "REVIEW_KEYWORDS = [''residential development'', ''major residential'', ''housing development'', ''outline application'', ''outline planning'', ''reserved matters'',
     ''comprehensive redevelopment'', ''regeneration'', ''masterplan'', ''build to rent'', ''btr'', ''mixed use'', ''mixed-use'', ''section 106'', ''s106'',
     ''affordable housing'', ''supported living'', ''extra care'']"

definition AMBIGUOUS_REVIEW_KEYWORDS :: "str list" where
  "AMBIGUOUS_REVIEW_KEYWORDS = [''comprehensive redevelopment'', ''regeneration'', ''masterplan'', ''mixed use'', ''mixed-use'', ''section 106'', ''s106'']"

definition SINGLE_UNIT_MIXED_USE_RE :: rx where
  "SINGLE_UNIT_MIXED_USE_RE = Seqs [Lit ''mixed use as a'', Opt (Lit ''n''), Spaces, Opt (Seq (Lit ''domestic'') Spaces),
     Alt (Seq (Lit ''dwelling'') (Opt (Seq (Opt Space) (Lit ''house'')))) (Lit ''flat''), Edge]"

definition SINGLE_RESIDENTIAL_UNIT_ADDITION_RE :: rx where
  "SINGLE_RESIDENTIAL_UNIT_ADDITION_RE = Seqs [Lit ''additional'', Spaces, Lit ''self'', Words ['' '', ''-''], Lit ''contained'', Spaces, Lit ''residential'', Spaces, Lit ''unit'', Edge]"

definition VARIATION_OF_OBLIGATION_RE :: rx where
  "VARIATION_OF_OBLIGATION_RE = Seqs [Words [''variation'', ''modification'', ''removal''], Spaces, Lit ''of'', Spaces, LazyUpTo 60 Dot,
     Alt (plural ''obligation'') (Seqs [Alt (Seqs [Lit ''section'', Gap, Lit ''106'']) (Seqs [Lit ''s'', Opt (Lit ''.''), Gap, Lit ''106'']), Gap,
       Opt (Seq (Lit ''planning'') Gap), Lit ''agreement'']), Edge]"

text \<open>The pattern has two groups; \<open>council\<close> and \<open>reference\<close> say which is captured.\<close>

definition EXTERNAL_CONSULTATION_RE :: "(rx \<Rightarrow> rx) \<Rightarrow> (rx \<Rightarrow> rx) \<Rightarrow> rx" where
  "EXTERNAL_CONSULTATION_RE council reference = (let letter = Cls (\<lambda>c. CHR ''a'' \<le> c \<and> c \<le> CHR ''z''); letters = Cls (\<lambda>c. CHR ''a'' \<le> c \<and> c \<le> CHR ''z'' \<or> is_space c) in
     Seqs [Alt (Seqs [Alts [Seqs [Lit ''article'', Gap, Lit ''18''], Seqs [Lit ''s'', Opt (Lit ''.''), Opt Space, Lit ''100''], Seqs [Lit ''section'', Gap, Lit ''100'']],
                Gap, Lit ''consultation'', Gap, Lit ''from'']) (Seqs [Lit ''consultation'', Gap, Lit ''request'', Gap, Lit ''from'']), Gap,
       council (Seqs [letter, Star False letters,
         Alts [Seqs [Opt (Alts [Lit ''borough'', Lit ''city'', gapped [''metropolitan'', ''borough''], Lit ''district'']), Gap, Lit ''council''],
           Seq (Opt (Lit ''m'')) (Lit ''bc''), Lit ''cc'']]), Gap,
       Alt (Seqs [Opt (Lit ''(''), Lit ''ref'', Opt (Lit ''.''), Opt (Lit '':''), Gap])
           (Seqs [Lit ''for'', Spaces, Lit ''application'', Gap, Alt (Seq (Lit ''no'') (Opt (Lit ''.''))) (Lit ''number''), Gap, Opt (Lit '':''), Gap]),
       reference (Plus (Cls (\<lambda>c. is_word c \<or> c \<in> set ''/.-''))), Opt (Lit '')'')])"

definition is_external_consultation :: "str option \<Rightarrow> bool" where
  "is_external_consultation proposal = search_rx (EXTERNAL_CONSULTATION_RE id id) (lower (str_or proposal []))"

definition SINGLE_DWELLING_CONTINUED_USE_RE :: rx where
  "SINGLE_DWELLING_CONTINUED_USE_RE = Seqs [Lit ''continued use of '', Words [''the'', ''this'', ''a'', ''an''], Lit '' '',
     Words [''property'', ''dwelling'', ''dwellinghouse'', ''premises'', ''house'', ''flat'', ''building''], Edge]"

definition SCREENING_OR_SCOPING_OPINION_RE :: rx where
  "SCREENING_OR_SCOPING_OPINION_RE = Seqs [Edge, Opt (Seq (Lit ''eia'') Gap), Words [''screening'', ''scoping''], Gap, Lit ''opinion'', Edge]"

text \<open>\<open>text.rfind("(", 0, start)\<close> cuts the text before the match in two; \<open>text.find(")", end)\<close> the text after it.\<close>

definition is_trailing_parenthetical_mention :: "str \<Rightarrow> rx_match \<Rightarrow> bool" where
  "is_trailing_parenthetical_mention text m =
    (let front = take (mt_start m) text; rest = drop (mt_end m) text; between = rev (takeWhile (\<lambda>c. c \<noteq> CHR ''('') (rev front));
         trailing = strip (tl (dropWhile (\<lambda>c. c \<noteq> CHR '')'') rest)) in
     if CHR ''('' \<notin> set front then False
     else if CHR '')'' \<notin> set rest then False
     else if CHR '')'' \<in> set between \<or> CHR ''('' \<in> set between then False
     else length trailing < 20)"

definition upper_char :: "char \<Rightarrow> char" where
  "upper_char c = (if CHR ''a'' \<le> c \<and> c \<le> CHR ''z'' then char_of (of_char c - 32 :: nat) else c)"

definition ascii_letter :: "char \<Rightarrow> bool" where
  "ascii_letter c = (CHR ''A'' \<le> c \<and> c \<le> CHR ''Z'' \<or> CHR ''a'' \<le> c \<and> c \<le> CHR ''z'')"

text \<open>\<open>s.title()\<close>\<close>

fun title_from :: "bool \<Rightarrow> str \<Rightarrow> str" where
  "title_from in_word [] = []"
| "title_from in_word (c # cs) = (if in_word then lower_char c else upper_char c) # title_from (ascii_letter c) cs"

definition extract_external_consultation :: "str option \<Rightarrow> (str \<times> str) option" where
  "extract_external_consultation proposal = (let text = str_or proposal []; s = lower text in
     case (Option.bind (match_from (EXTERNAL_CONSULTATION_RE Group id) s 0) (group_text text), Option.bind (match_from (EXTERNAL_CONSULTATION_RE id Group) s 0) (group_text text)) of
       (Some council, Some reference) \<Rightarrow> Some (title_from False (strip council), strip reference)
     | _ \<Rightarrow> None)"

definition is_opinion_request :: "str option \<Rightarrow> bool" where
  "is_opinion_request proposal = (let text = str_or proposal [] in
     case match_from SCREENING_OR_SCOPING_OPINION_RE (lower text) 0 of None \<Rightarrow> False | Some m \<Rightarrow> \<not> is_trailing_parenthetical_mention text m)"

definition VARIATION_PHRASES :: "str list" where
  "VARIATION_PHRASES = [''variation of condition'', ''vary condition'', ''minor material amendment'', ''non-material amendment'', ''non material amendment'',
     ''working amendment'', ''deed of variation'']"

definition CONDITION_PHRASES :: "str list" where
  "CONDITION_PHRASES = [''discharge of condition'', ''approval of details'', ''pursuant to condition'', ''condition attached'', ''condition discharge'', ''discharge condition'']"

definition RESERVED_MATTERS_RE :: rx where
  "RESERVED_MATTERS_RE = Seqs [Lit ''application for '', Opt (Lit ''the ''), Lit ''approval of reserved matters'']"

definition classify_application_category :: "str option \<Rightarrow> str" where
  "classify_application_category proposal =
    (let s = normalise_text proposal; text = lower (str_or proposal []) in
     if is_external_consultation proposal then ''external_consultation''
     else if is_opinion_request proposal then ''screening_or_scoping_opinion''
     else if search_rx SINGLE_DWELLING_CONTINUED_USE_RE text then ''non_target_admin_or_minor''
     else if contains ''lawful development certificate'' s then ''non_target_admin_or_minor''
     else if mentions_any VARIATION_PHRASES s then ''variation_or_amendment''
     else if search_rx VARIATION_OF_OBLIGATION_RE s then ''variation_or_amendment''
     else if search_rx RESERVED_MATTERS_RE s \<and> extract_unit_count proposal \<noteq> None then ''reserved_matters''
     else if mentions_any CONDITION_PHRASES s then ''condition_discharge_or_details''
     else if contains ''reserved matters'' s then ''reserved_matters''
     else if mentions_any [''outline application'', ''outline planning'', ''outline permission''] s then ''outline_application''
     else if mentions_any [''build to rent'', ''btr''] s then ''build_to_rent''
     else if mentions_any [''affordable housing'', ''social housing'', ''extra care'', ''supported living''] s then ''affordable_or_specialist_housing''
     else if mentions_any [''mixed use'', ''mixed-use'', ''commercial and residential''] s then ''mixed_use''
     else if mentions_any [''residential development'', ''erection'', ''construction'', ''dwellings'', ''apartments'', ''flats'', ''homes'', ''houses''] s then ''primary_residential''
     else if mentions_any [''lawful development certificate'', ''prior approval'', ''advertisement consent'', ''tree works'', ''telecommunications'', ''fire station'',
       ''mosque'', ''islamic centre''] s then ''non_target_admin_or_minor''
     else ''unknown'')"

section \<open>Qualification\<close>

record qualification_result =
  ql_unit_count :: "int option"
  ql_category :: str
  ql_classification :: str
  ql_qualifies :: bool

definition single_unit_wording :: "str \<Rightarrow> bool" where
  "single_unit_wording s = (search_rx SINGLE_UNIT_MIXED_USE_RE s \<or> search_rx SINGLE_RESIDENTIAL_UNIT_ADDITION_RE s)"

definition qualify :: "str option \<Rightarrow> int \<Rightarrow> qualification_result" where
  "qualify proposal threshold =
    (let s = normalise_text proposal; n = extract_unit_count proposal; category = classify_application_category proposal;
         result = (\<lambda>c q. \<lparr>ql_unit_count = n, ql_category = category, ql_classification = c, ql_qualifies = q\<rparr>);
         matched = filter (\<lambda>kw. contains kw s) REVIEW_KEYWORDS in
     if category \<in> set EXCLUDE_CATEGORIES then result ''Excluded - secondary/admin'' False
     else if is_non_residential s then result ''Excluded - non-residential'' False
     else (case n of
         Some m \<Rightarrow> if m < threshold then result (''Ignore - under '' @ int_str threshold @ '' units'') False
           else result (''Confirmed - '' @ int_str threshold @ ''+ units'') True
       | None \<Rightarrow>
           if matched \<noteq> [] \<and> (list_ex (\<lambda>kw. kw \<notin> set AMBIGUOUS_REVIEW_KEYWORDS) matched \<or> has_residential_signal s) then
             (if single_unit_wording s then result ''Excluded - likely single-unit change of use'' False
              else result (''Review - possible '' @ int_str threshold @ ''+ housing'') True)
           else result ''Ignore'' False))"

end
