(* ===== verification/ResidualCapacity.thy ===== *)
theory ResidualCapacity
  imports CountEvidence SubjectIdentity
begin

text \<open>
  Residual planning capacity: app/reporting/residual_capacity.py. A parent count minus the counts of its child subjects,
  stated only behind a ladder of gates; every gate that fails withholds the figure with its reason and explanation.

  \<open>residual_supported\<close> says in sets, without the ladder, when the subtraction is supported; the theorem is that the code resolves exactly then, to
  the parent's count minus the sum over the distinct child subjects.
\<close>

datatype residual_status = RESOLVED | UNVERIFIED | MATERIAL_CONFLICT

datatype residual_reason =
    REASON_RESOLVED | REASON_PARENT_IDENTITY_MISSING | REASON_PARENT_NOT_OPERATIVE | REASON_CHILD_IDENTITY_MISSING
  | REASON_CHILD_IS_PARENT | REASON_UNRESOLVED_CHILD | REASON_NO_OPERATIVE_CHILD | REASON_COUNT_MATERIAL_CONFLICT
  | REASON_SCOPE_INCOMPATIBLE | REASON_METRIC_MISMATCH | REASON_UNKNOWN_COUNT | REASON_COUNT_NOT_EXACT
  | REASON_CONFLICTING_DUPLICATE_CHILD | REASON_CONTAINMENT_NOT_ESTABLISHED | REASON_CHILD_OVERLAP_NOT_EXCLUDED
  | REASON_CHILDREN_EXCEED_PARENT | REASON_CHILD_SET_NOT_ESTABLISHED | REASON_CHILD_SET_MISMATCH | REASON_CHILD_SET_CONFLICT

fun reason_str :: "residual_reason \<Rightarrow> str" where
  "reason_str REASON_RESOLVED = ''resolved''"
| "reason_str REASON_PARENT_IDENTITY_MISSING = ''parent_identity_missing''"
| "reason_str REASON_PARENT_NOT_OPERATIVE = ''parent_not_operative_approved''"
| "reason_str REASON_CHILD_IDENTITY_MISSING = ''child_identity_missing''"
| "reason_str REASON_CHILD_IS_PARENT = ''child_is_parent''"
| "reason_str REASON_UNRESOLVED_CHILD = ''unresolved_child_eligibility''"
| "reason_str REASON_NO_OPERATIVE_CHILD = ''no_operative_child''"
| "reason_str REASON_COUNT_MATERIAL_CONFLICT = ''count_material_conflict''"
| "reason_str REASON_SCOPE_INCOMPATIBLE = ''site_or_scope_incompatible''"
| "reason_str REASON_METRIC_MISMATCH = ''metric_mismatch''"
| "reason_str REASON_UNKNOWN_COUNT = ''unknown_count''"
| "reason_str REASON_COUNT_NOT_EXACT = ''count_not_exact''"
| "reason_str REASON_CONFLICTING_DUPLICATE_CHILD = ''conflicting_duplicate_child''"
| "reason_str REASON_CONTAINMENT_NOT_ESTABLISHED = ''containment_not_established''"
| "reason_str REASON_CHILD_OVERLAP_NOT_EXCLUDED = ''child_overlap_not_excluded''"
| "reason_str REASON_CHILDREN_EXCEED_PARENT = ''children_exceed_parent''"
| "reason_str REASON_CHILD_SET_NOT_ESTABLISHED = ''child_set_completeness_not_established''"
| "reason_str REASON_CHILD_SET_MISMATCH = ''child_set_mismatch''"
| "reason_str REASON_CHILD_SET_CONFLICT = ''child_set_evidence_conflict''"

definition OPERATIVE_APPROVED_BASIS :: str where
  "OPERATIVE_APPROVED_BASIS = ''consented''"

definition KNOWN_INELIGIBLE_BASES :: "str list" where
  "KNOWN_INELIGIBLE_BASES = [''active'', ''superseded'', ''refused'', ''withdrawn'', ''undetermined'', ''recommendation_only'']"

definition CONTAINING_SCOPES :: "str list" where
  "CONTAINING_SCOPES = [''whole_site'', ''phase'']"

definition CONTAINABLE_SCOPES :: "str list" where
  "CONTAINABLE_SCOPES = [''phase'', ''plot'']"

record excluded_child =
  xc_child :: count_assessment
  xc_reason :: str

text \<open>\<open>ra_established\<close> is \<open>child_set_completeness == COMPLETENESS_ESTABLISHED\<close>; the constant claim text is left out.\<close>

record residual_assessment =
  ra_status :: residual_status
  ra_reason :: residual_reason
  ra_explanation :: str
  ra_parent :: count_assessment
  ra_metric :: "str option"
  ra_subtracted :: "count_assessment list"
  ra_excluded :: "excluded_child list"
  ra_unresolved :: "count_assessment list"
  ra_residual :: "int option"
  ra_containment :: "(str \<times> str) list"
  ra_non_overlap :: "(str \<times> str) list"
  ra_established :: bool
  ra_provenance :: "str option"

definition resolved :: "residual_assessment \<Rightarrow> bool" where
  "resolved r = (ra_status r = RESOLVED \<and> ra_residual r \<noteq> None \<and> ra_established r)"

definition residual_label :: "residual_assessment \<Rightarrow> str" where
  "residual_label r = (if \<not> resolved r then ''Residual planning capacity not established''
     else commas (ra_residual r) @ '' '' @
       (if ra_metric r = Some ''total_residential'' then ''homes'' else underscores_to_spaces (str_or (ra_metric r) ''units'')) @
       '' of residual planning capacity (planning capacity only)'')"

definition residual_result :: "residual_status \<Rightarrow> residual_reason \<Rightarrow> str \<Rightarrow> count_assessment \<Rightarrow> residual_assessment" where
  "residual_result st re ex parent = \<lparr>ra_status = st, ra_reason = re, ra_explanation = ex, ra_parent = parent, ra_metric = None, ra_subtracted = [],
     ra_excluded = [], ra_unresolved = [], ra_residual = None, ra_containment = [], ra_non_overlap = [], ra_established = False, ra_provenance = None\<rparr>"

section \<open>Scope compatibility\<close>

definition parse_subject :: "str \<Rightarrow> (str \<times> str \<times> str) option" where
  "parse_subject s = (case split_max CHR '':'' 3 s of
     [a, site, ty, lbl] \<Rightarrow> if a = ''site'' \<and> site \<noteq> [] \<and> list_all is_digit site \<and> ty \<noteq> [] \<and> lbl \<noteq> [] then Some (site, ty, lbl) else None
   | _ \<Rightarrow> None)"

definition scope_incompatibility :: "count_assessment \<Rightarrow> count_assessment \<Rightarrow> str option" where
  "scope_incompatibility parent child =
    (case (parse_subject (ca_subject_id parent), parse_subject (ca_subject_id child)) of
      (Some (ps, pt, _), Some (cs, ct, _)) \<Rightarrow>
        if ps \<noteq> cs then Some (ca_subject_id child @ '': belongs to site '' @ cs @ '', not the parent's site '' @ ps)
        else if pt \<noteq> ca_scope_type parent \<or> ct \<noteq> ca_scope_type child then Some (ca_subject_id child @ '': subject identity and scope type disagree'')
        else if pt \<notin> set CONTAINING_SCOPES then Some (ca_subject_id child @ '': a '' @ pt @ '' scope cannot contain other scopes'')
        else if ct \<notin> set CONTAINABLE_SCOPES then Some (ca_subject_id child @ '': a '' @ ct @ '' scope cannot be contained in the parent'')
        else None
    | _ \<Rightarrow> Some (ca_subject_id child @ '': subject identity is not a parseable site/scope identity''))"

section \<open>Child-set evidence\<close>

text \<open>The ids a piece of child-set evidence names: a tuple, list or set of them, or something else.\<close>

datatype id_set = Ids "str list" | NotIds

type_synonym link_evidence = "str \<times> str \<times> str option"
type_synonym child_set_evidence = "str \<times> id_set \<times> str option"

datatype set_state = Established str | NotEstablished | Mismatch str | Conflict

fun named_set :: "count_assessment \<Rightarrow> child_set_evidence \<Rightarrow> (str list \<times> str) option" where
  "named_set parent (pid, Ids ids, Some prov) =
     (if pid = ca_subject_id parent \<and> is_meaningful_provenance (Some prov) then Some (ids, strip prov) else None)"
| "named_set parent _ = None"

definition mismatch_detail :: "str list \<Rightarrow> str list \<Rightarrow> str" where
  "mismatch_detail ids supplied =
    (let missing = sorted_set (filter (\<lambda>i. i \<notin> set supplied) ids); extra = sorted_set (filter (\<lambda>i. i \<notin> set ids) supplied) in
     join ''; '' ((if missing = [] then [] else [''named by the child-set evidence but not supplied: '' @ join '', '' missing]) @
       (if extra = [] then [] else [''supplied but not in the child-set evidence: '' @ join '', '' extra])))"

definition child_set_state :: "count_assessment \<Rightarrow> str list \<Rightarrow> child_set_evidence list \<Rightarrow> set_state" where
  "child_set_state parent supplied evidence =
    (case List.map_filter (named_set parent) evidence of
      [] \<Rightarrow> NotEstablished
    | (ids, prov) # rest \<Rightarrow>
        if list_ex (\<lambda>m. set (fst m) \<noteq> set ids) rest then Conflict
        else if set ids \<noteq> set supplied then Mismatch (mismatch_detail ids supplied)
        else Established prov)"

section \<open>The ladder\<close>

fun classify_children :: "count_assessment \<Rightarrow> count_assessment list \<Rightarrow> count_assessment list \<Rightarrow> excluded_child list \<Rightarrow> count_assessment list
    \<Rightarrow> residual_assessment + (count_assessment list \<times> excluded_child list \<times> count_assessment list)" where
  "classify_children parent [] el ex un = Inr (el, ex, un)"
| "classify_children parent (c # cs) el ex un =
    (if ca_basis c = Some OPERATIVE_APPROVED_BASIS then
       (if ca_subject_id c = [] then Inl ((residual_result UNVERIFIED REASON_CHILD_IDENTITY_MISSING
            ''An operative child has no subject identity, so containment cannot be established.'' parent)\<lparr>ra_excluded := ex\<rparr>)
        else if ca_subject_id c = ca_subject_id parent then Inl ((residual_result UNVERIFIED REASON_CHILD_IS_PARENT
            ''A subject cannot be its own child.'' parent)\<lparr>ra_excluded := ex\<rparr>)
        else classify_children parent cs (el @ [c]) ex un)
     else if (case ca_basis c of None \<Rightarrow> False | Some b \<Rightarrow> b \<in> set KNOWN_INELIGIBLE_BASES)
       then classify_children parent cs el (ex @ [\<lparr>xc_child = c, xc_reason = ''not_operative_approved''\<rparr>]) un
     else classify_children parent cs el ex (un @ [c]))"

text \<open>One subject supplied twice is one subject; \<open>None\<close> where its values differ.\<close>

fun distinct_children :: "count_assessment list \<Rightarrow> (str \<times> count_assessment) list \<Rightarrow> (str \<times> count_assessment) list option" where
  "distinct_children [] seen = Some seen"
| "distinct_children (c # cs) seen = (case map_of seen (ca_subject_id c) of
      None \<Rightarrow> distinct_children cs (seen @ [(ca_subject_id c, c)])
    | Some s \<Rightarrow> if exact_value s \<noteq> exact_value c then None else distinct_children cs seen)"

fun pairs_of :: "'a list \<Rightarrow> ('a \<times> 'a) list" where
  "pairs_of [] = []"
| "pairs_of (x # xs) = map (Pair x) xs @ pairs_of xs"

definition contained_in :: "link_evidence list \<Rightarrow> str \<Rightarrow> str \<Rightarrow> bool" where
  "contained_in evidence child parent = list_ex (\<lambda>(c, p, s). c = child \<and> p = parent \<and> is_meaningful_provenance s) evidence"

text \<open>Read only where every count is known to be exact.\<close>

definition count_of :: "count_assessment \<Rightarrow> int" where
  "count_of c = (case exact_value c of None \<Rightarrow> 0 | Some n \<Rightarrow> n)"

definition pair_texts :: "(str \<times> str) list \<Rightarrow> str" where
  "pair_texts ps = join '', '' (map (\<lambda>(a, b). a @ '' / '' @ b) ps)"

definition close_ladder :: "count_assessment \<Rightarrow> count_assessment list \<Rightarrow> str list \<Rightarrow> link_evidence list \<Rightarrow> link_evidence list \<Rightarrow> child_set_evidence list
    \<Rightarrow> residual_assessment \<Rightarrow> residual_assessment" where
  "close_ladder parent subtracted supplied containment non_overlap child_sets base =
    (let m = base\<lparr>ra_metric := Some (ca_metric parent)\<rparr>;
         withheld = (\<lambda>st re tx. m\<lparr>ra_status := st, ra_reason := re, ra_explanation := tx\<rparr>);
         ids = map ca_subject_id subtracted;
         uncontained = filter (\<lambda>i. \<not> contained_in containment i (ca_subject_id parent)) ids;
         overlapping = filter (\<lambda>(a, b). {a, b} \<notin> evidenced_pairs non_overlap) (pairs_of ids);
         consumed = sum_list (map count_of subtracted) in
     if uncontained \<noteq> [] then withheld UNVERIFIED REASON_CONTAINMENT_NOT_ESTABLISHED
         (''Containment within the parent is not established by explicit evidence for: '' @ join '', '' uncontained @ ''.'')
     else if overlapping \<noteq> [] then withheld UNVERIFIED REASON_CHILD_OVERLAP_NOT_EXCLUDED
         (''Explicit non-overlap evidence is missing for child pair(s): '' @ pair_texts overlapping @ ''.'')
     else if consumed > count_of parent then withheld MATERIAL_CONFLICT REASON_CHILDREN_EXCEED_PARENT
         (''The contained child counts ('' @ int_commas consumed @ '') exceed the parent ('' @ int_commas (count_of parent) @
          ''); no negative residual is produced.'')
     else (case child_set_state parent supplied child_sets of
         NotEstablished \<Rightarrow> (withheld UNVERIFIED REASON_CHILD_SET_NOT_ESTABLISHED
           ''Completeness of the relevant child set is not established by explicit sourced evidence, so no complete residual is stated.'')
           \<lparr>ra_subtracted := subtracted\<rparr>
       | Conflict \<Rightarrow> (withheld UNVERIFIED REASON_CHILD_SET_CONFLICT
           ''Child-set evidence for this parent names different sets of child subjects.'')\<lparr>ra_subtracted := subtracted\<rparr>
       | Mismatch d \<Rightarrow> (withheld UNVERIFIED REASON_CHILD_SET_MISMATCH
           (''The supplied children do not match the evidenced child set: '' @ d @ ''.''))\<lparr>ra_subtracted := subtracted\<rparr>
       | Established prov \<Rightarrow> (withheld RESOLVED REASON_RESOLVED
           (int_commas (count_of parent) @ '' minus '' @ int_commas consumed @
            '' contained, non-overlapping operative child subject(s) from an evidenced-complete child set.''))
           \<lparr>ra_subtracted := subtracted, ra_unresolved := [], ra_residual := Some (count_of parent - consumed),
            ra_containment := sort (map (\<lambda>i. (i, ca_subject_id parent)) ids), ra_non_overlap := sort (pairs_of ids),
            ra_established := True, ra_provenance := Some prov\<rparr>))"

definition assess_residual_planning_capacity :: "count_assessment \<Rightarrow> count_assessment list \<Rightarrow> link_evidence list \<Rightarrow> link_evidence list
    \<Rightarrow> child_set_evidence list \<Rightarrow> residual_assessment" where
  "assess_residual_planning_capacity parent children containment non_overlap child_sets =
    (if ca_subject_id parent = [] then residual_result UNVERIFIED REASON_PARENT_IDENTITY_MISSING
        ''The parent has no subject identity, so containment cannot be established.'' parent
     else if ca_basis parent \<noteq> Some OPERATIVE_APPROVED_BASIS then residual_result UNVERIFIED REASON_PARENT_NOT_OPERATIVE
        ''The parent count is not an operative approved position, so it cannot supply capacity.'' parent
     else (case classify_children parent children [] [] [] of Inl r \<Rightarrow> r | Inr (eligible, excluded, unresolved) \<Rightarrow>
     let withheld = (\<lambda>st re tx. (residual_result st re tx parent)\<lparr>ra_excluded := excluded, ra_unresolved := unresolved\<rparr>);
         incompatible = List.map_filter (scope_incompatibility parent) eligible;
         metrics = sorted_set (ca_metric parent # map ca_metric eligible);
         counted = parent # eligible in
     if ca_resolution parent = ''material_conflict'' \<or> list_ex (\<lambda>c. ca_resolution c = ''material_conflict'') eligible
       then withheld MATERIAL_CONFLICT REASON_COUNT_MATERIAL_CONFLICT
         ''A parent or child count is an unresolved material conflict; no residual is calculated.''
     else if unresolved \<noteq> [] then withheld UNVERIFIED REASON_UNRESOLVED_CHILD
         (''A supplied child's planning eligibility cannot be established, so it may consume parent capacity; no residual is calculated for: '' @
          join '', '' (sort (map (\<lambda>c. if ca_subject_id c = [] then ''(no identity)'' else ca_subject_id c) unresolved)) @ ''.'')
     else if eligible = [] then withheld UNVERIFIED REASON_NO_OPERATIVE_CHILD
         ''No operative approved child subject was supplied, so no residual is derived.''
     else if incompatible \<noteq> [] then withheld UNVERIFIED REASON_SCOPE_INCOMPATIBLE
         (''Site or scope compatibility with the parent is not established: '' @ join ''; '' (sort incompatible) @ ''.'')
     else if length metrics > 1 then withheld UNVERIFIED REASON_METRIC_MISMATCH
         (''Parent and child counts use different metrics and are never converted: '' @ join '', '' metrics @ ''.'')
     else if list_ex (\<lambda>c. ca_precision c = UNKNOWN \<or> ca_precision c = EXACT \<and> exact_value c = None) counted
       then (withheld UNVERIFIED REASON_UNKNOWN_COUNT ''A parent or child count is unknown; unknown is never treated as zero.'')
         \<lparr>ra_metric := Some (ca_metric parent)\<rparr>
     else if list_ex (\<lambda>c. ca_precision c \<noteq> EXACT \<or> exact_value c = None) counted
       then (withheld UNVERIFIED REASON_COUNT_NOT_EXACT ''A parent or child count is approximate or a range; no exact residual is invented.'')
         \<lparr>ra_metric := Some (ca_metric parent)\<rparr>
     else (case distinct_children eligible [] of
         None \<Rightarrow> (withheld MATERIAL_CONFLICT REASON_CONFLICTING_DUPLICATE_CHILD ''The same child subject was supplied with different counts.'')
           \<lparr>ra_metric := Some (ca_metric parent)\<rparr>
       | Some ds \<Rightarrow> close_ladder parent (map snd (sort_key fst ds))
           (filter (\<lambda>i. i \<noteq> []) (map ca_subject_id (eligible @ map xc_child excluded))) containment non_overlap child_sets
           (withheld UNVERIFIED REASON_RESOLVED []))))"

section \<open>When the subtraction is supported\<close>

definition operative :: "count_assessment list \<Rightarrow> count_assessment set" where
  "operative children = {c \<in> set children. ca_basis c = Some OPERATIVE_APPROVED_BASIS}"

definition known_ineligible :: "count_assessment \<Rightarrow> bool" where
  "known_ineligible c = (case ca_basis c of None \<Rightarrow> False | Some b \<Rightarrow> b \<in> set KNOWN_INELIGIBLE_BASES)"

text \<open>Each distinct child subject counts once.\<close>

definition child_total :: "count_assessment set \<Rightarrow> int" where
  "child_total cs = (\<Sum>(i, n)\<in>(\<lambda>c. (ca_subject_id c, count_of c)) ` cs. n)"

definition named_sets :: "count_assessment \<Rightarrow> child_set_evidence list \<Rightarrow> str set set" where
  "named_sets parent evidence = {set ids |ids prov. (ca_subject_id parent, Ids ids, Some prov) \<in> set evidence \<and> is_meaningful_provenance (Some prov)}"

definition residual_supported :: "count_assessment \<Rightarrow> count_assessment list \<Rightarrow> link_evidence list \<Rightarrow> link_evidence list \<Rightarrow> child_set_evidence list \<Rightarrow> bool" where
  "residual_supported parent children containment non_overlap child_sets =
    (let op = operative children; pid = ca_subject_id parent in
     pid \<noteq> [] \<and> ca_basis parent = Some OPERATIVE_APPROVED_BASIS \<and> op \<noteq> {} \<and>
     (\<forall>c\<in>set children. c \<in> op \<or> known_ineligible c) \<and>
     (\<forall>c\<in>insert parent op. ca_resolution c \<noteq> ''material_conflict'') \<and>
     (\<forall>c\<in>insert parent op. exact_value c \<noteq> None) \<and>
     (\<forall>c\<in>insert parent op. ca_metric c = ca_metric parent) \<and>
     (\<forall>c\<in>op. ca_subject_id c \<noteq> [] \<and> ca_subject_id c \<noteq> pid) \<and>
     (\<forall>c\<in>op. scope_incompatibility parent c = None) \<and>
     (\<forall>c\<in>op. contained_in containment (ca_subject_id c) pid) \<and>
     (\<forall>c\<in>op. \<forall>d\<in>op. ca_subject_id c = ca_subject_id d \<longrightarrow> exact_value c = exact_value d) \<and>
     (\<forall>c\<in>op. \<forall>d\<in>op. ca_subject_id c \<noteq> ca_subject_id d \<longrightarrow> {ca_subject_id c, ca_subject_id d} \<in> evidenced_pairs non_overlap) \<and>
     child_total op \<le> count_of parent \<and>
     named_sets parent child_sets = {ca_subject_id ` set children - {[]}})"

lemma known_ineligible_not_operative: "known_ineligible c \<Longrightarrow> ca_basis c \<noteq> Some OPERATIVE_APPROVED_BASIS"
  by (auto simp: known_ineligible_def KNOWN_INELIGIBLE_BASES_def OPERATIVE_APPROVED_BASIS_def)

definition blank :: "residual_assessment \<Rightarrow> bool" where
  "blank r = (ra_status r \<noteq> RESOLVED \<and> ra_residual r = None \<and> \<not> ra_established r)"

lemma blank_result [simp]: "blank (residual_result st re tx p) = (st \<noteq> RESOLVED)"
  by (simp add: blank_def residual_result_def)

lemma blank_update [simp]: "blank (r\<lparr>ra_metric := m\<rparr>) = blank r" "blank (r\<lparr>ra_excluded := ex\<rparr>) = blank r" "blank (r\<lparr>ra_unresolved := un\<rparr>) = blank r"
  "blank (r\<lparr>ra_subtracted := su\<rparr>) = blank r"
  by (simp_all add: blank_def)

lemma classify_children_cases:
  "case classify_children parent cs el ex un of
     Inl r \<Rightarrow> blank r \<and> (\<exists>c\<in>operative cs. ca_subject_id c = [] \<or> ca_subject_id c = ca_subject_id parent)
   | Inr (el', ex', un') \<Rightarrow> (\<forall>c\<in>operative cs. ca_subject_id c \<noteq> [] \<and> ca_subject_id c \<noteq> ca_subject_id parent) \<and>
       set el' = set el \<union> operative cs \<and> xc_child ` set ex' = xc_child ` set ex \<union> {c \<in> set cs. known_ineligible c} \<and>
       set un' = set un \<union> {c \<in> set cs. c \<notin> operative cs \<and> \<not> known_ineligible c}"
proof (induction cs arbitrary: el ex un)
  case Nil
  show ?case by (simp add: operative_def)
next
  case (Cons c cs)
  have op: "operative (c # cs) = (if ca_basis c = Some OPERATIVE_APPROVED_BASIS then insert c (operative cs) else operative cs)"
    by (auto simp: operative_def)
  consider "ca_basis c = Some OPERATIVE_APPROVED_BASIS" "ca_subject_id c = [] \<or> ca_subject_id c = ca_subject_id parent"
    | "ca_basis c = Some OPERATIVE_APPROVED_BASIS" "ca_subject_id c \<noteq> []" "ca_subject_id c \<noteq> ca_subject_id parent" "\<not> known_ineligible c"
    | "ca_basis c \<noteq> Some OPERATIVE_APPROVED_BASIS" "known_ineligible c"
    | "ca_basis c \<noteq> Some OPERATIVE_APPROVED_BASIS" "\<not> known_ineligible c"
    using known_ineligible_not_operative by blast
  then show ?case
  proof cases
    case 1
    then show ?thesis by (auto simp: op)
  next
    case 2
    then have "classify_children parent (c # cs) el ex un = classify_children parent cs (el @ [c]) ex un" by simp
    with 2 Cons.IH [of "el @ [c]" ex un] show ?thesis by (auto simp: op operative_def split: sum.splits)
  next
    case 3
    then have "classify_children parent (c # cs) el ex un = classify_children parent cs el (ex @ [\<lparr>xc_child = c, xc_reason = ''not_operative_approved''\<rparr>]) un"
      by (simp add: known_ineligible_def)
    with 3 Cons.IH [of el "ex @ [\<lparr>xc_child = c, xc_reason = ''not_operative_approved''\<rparr>]" un] show ?thesis by (auto simp: op split: sum.splits)
  next
    case 4
    then have "classify_children parent (c # cs) el ex un = classify_children parent cs el ex (un @ [c])"
      by (simp add: known_ineligible_def)
    with 4 Cons.IH [of el ex "un @ [c]"] show ?thesis by (auto simp: op operative_def split: sum.splits)
  qed
qed

definition consistent :: "count_assessment set \<Rightarrow> bool" where
  "consistent cs = (\<forall>c\<in>cs. \<forall>d\<in>cs. ca_subject_id c = ca_subject_id d \<longrightarrow> exact_value c = exact_value d)"

definition counted_ids :: "count_assessment set \<Rightarrow> (str \<times> int option) set" where
  "counted_ids cs = (\<lambda>c. (ca_subject_id c, exact_value c)) ` cs"

lemma consistent_iff: "consistent cs = (\<forall>i m n. (i, m) \<in> counted_ids cs \<longrightarrow> (i, n) \<in> counted_ids cs \<longrightarrow> m = n)"
  unfolding consistent_def counted_ids_def by (auto simp: image_iff)

text \<open>\<open>seen\<close> is keyed by the subjects' own ids.\<close>

definition keyed :: "(str \<times> count_assessment) list \<Rightarrow> bool" where
  "keyed seen = (distinct (map fst seen) \<and> list_all (\<lambda>(i, c). i = ca_subject_id c) seen)"

lemma keyed_consistent: "keyed seen \<Longrightarrow> consistent (snd ` set seen)"
proof -
  assume k: "keyed seen"
  have "c = d" if c: "c \<in> snd ` set seen" and d: "d \<in> snd ` set seen" and i: "ca_subject_id c = ca_subject_id d" for c d
  proof -
    from c d obtain a b where ab: "(a, c) \<in> set seen" "(b, d) \<in> set seen" by auto
    have "j = ca_subject_id x" if "(j, x) \<in> set seen" for j x
      using k that unfolding keyed_def list_all_iff by fastforce
    from this [OF ab(1)] this [OF ab(2)] have "a = b" using i by simp
    then have "(a, d) \<in> set seen" using ab(2) by (simp only:)
    moreover have "distinct (map fst seen)" using k unfolding keyed_def by blast
    ultimately show ?thesis using ab(1) by (intro eq_key_imp_eq_value [of seen a c d])
  qed
  then show ?thesis unfolding consistent_def by (intro ballI impI arg_cong [of _ _ exact_value])
qed

lemma distinct_children_cases:
  assumes "keyed seen"
  shows "case distinct_children cs seen of
      None \<Rightarrow> \<not> consistent (snd ` set seen \<union> set cs)
    | Some ds \<Rightarrow> keyed ds \<and> consistent (snd ` set seen \<union> set cs) \<and> counted_ids (snd ` set ds) = counted_ids (snd ` set seen \<union> set cs)"
  using assms
proof (induction cs arbitrary: seen)
  case Nil
  then show ?case using keyed_consistent by simp
next
  case (Cons c cs)
  show ?case
  proof (cases "map_of seen (ca_subject_id c)")
    case None
    then have "ca_subject_id c \<notin> fst ` set seen" by (simp add: map_of_eq_None_iff)
    with Cons.prems have "keyed (seen @ [(ca_subject_id c, c)])" by (simp add: keyed_def)
    from Cons.IH [OF this] None show ?thesis by (simp add: Un_commute insert_commute Un_assoc split: option.splits)
  next
    case (Some s)
    then have mem: "(ca_subject_id c, s) \<in> set seen" by (rule map_of_SomeD)
    with Cons.prems have sid: "ca_subject_id s = ca_subject_id c" unfolding keyed_def list_all_iff by fastforce
    from mem have s: "s \<in> snd ` set seen" by (rule image_eqI [rotated]) simp
    show ?thesis
    proof (cases "exact_value s = exact_value c")
      case False
      with s sid have "\<not> consistent (snd ` set seen \<union> set (c # cs))" unfolding consistent_def by auto
      with Some False show ?thesis by simp
    next
      case True
      have "counted_ids (snd ` set seen \<union> set (c # cs)) = counted_ids (snd ` set seen \<union> set cs)"
      proof -
        have "(ca_subject_id c, exact_value c) \<in> counted_ids (snd ` set seen \<union> set cs)"
          unfolding counted_ids_def using s sid True by (intro image_eqI [of _ _ s]) simp_all
        then show ?thesis unfolding counted_ids_def by auto
      qed
      moreover from this have "consistent (snd ` set seen \<union> set (c # cs)) = consistent (snd ` set seen \<union> set cs)"
        by (simp add: consistent_iff)
      ultimately show ?thesis using Cons.IH [OF Cons.prems] Some True by (simp split: option.splits)
    qed
  qed
qed

lemma pairs_of_distinct: "distinct xs \<Longrightarrow> (\<exists>(a, b)\<in>set (pairs_of xs). P {a, b}) = (\<exists>a\<in>set xs. \<exists>b\<in>set xs. a \<noteq> b \<and> P {a, b})"
proof (induction xs)
  case (Cons x xs)
  have "(\<exists>(a, b)\<in>set (pairs_of (x # xs)). P {a, b}) = ((\<exists>b\<in>set xs. P {x, b}) \<or> (\<exists>(a, b)\<in>set (pairs_of xs). P {a, b}))"
    by (simp add: bex_Un)
  also have "\<dots> = (\<exists>a\<in>set (x # xs). \<exists>b\<in>set (x # xs). a \<noteq> b \<and> P {a, b})"
    using Cons by (auto simp: insert_commute)
  finally show ?case .
qed simp

lemma named_set_Some: "(named_set parent e = Some (ids, prov)) =
    (\<exists>p. e = (ca_subject_id parent, Ids ids, Some p) \<and> is_meaningful_provenance (Some p) \<and> prov = strip p)"
  by (cases "(parent, e)" rule: named_set.cases) auto

lemma set_named_sets: "(\<lambda>m. set (fst m)) ` set (List.map_filter (named_set parent) evidence) = named_sets parent evidence"
proof -
  have "set (List.map_filter (named_set parent) evidence) = {m. \<exists>e\<in>set evidence. named_set parent e = Some m}"
    by (auto simp: map_filter_def image_iff) (metis option.sel)+
  then show ?thesis unfolding named_sets_def by (auto simp: named_set_Some image_iff) (metis fst_conv)+
qed

lemma child_set_state_Established: "(\<exists>prov. child_set_state parent supplied evidence = Established prov) = (named_sets parent evidence = {set supplied})"
proof (cases "List.map_filter (named_set parent) evidence")
  case Nil
  with set_named_sets [of parent evidence] show ?thesis by (simp add: child_set_state_def)
next
  case (Cons m ms)
  obtain ids prov where m: "m = (ids, prov)" by (cases m)
  have "named_sets parent evidence = insert (set ids) ((\<lambda>m. set (fst m)) ` set ms)"
    using set_named_sets [of parent evidence] Cons m by simp
  with Cons m show ?thesis by (auto simp: child_set_state_def list_ex_iff)
qed

lemma ids_counted: "ca_subject_id ` cs = fst ` counted_ids cs"
  by (simp add: counted_ids_def image_image)

lemma child_total_counted: "child_total cs = (\<Sum>(i, n)\<in>(\<lambda>(i, v). (i, case v of None \<Rightarrow> 0 | Some n \<Rightarrow> n)) ` counted_ids cs. n)"
  by (simp add: child_total_def counted_ids_def image_image count_of_def)

lemma child_total_list: "distinct (map ca_subject_id xs) \<Longrightarrow> child_total (set xs) = sum_list (map count_of xs)"
proof (induction xs)
  case Nil
  show ?case by (simp add: child_total_def)
next
  case (Cons x xs)
  then have "(ca_subject_id x, count_of x) \<notin> (\<lambda>c. (ca_subject_id c, count_of c)) ` set xs" by auto
  with Cons show ?case by (simp add: child_total_def)
qed

definition ladder_holds :: "count_assessment \<Rightarrow> count_assessment set \<Rightarrow> str list \<Rightarrow> link_evidence list \<Rightarrow> link_evidence list \<Rightarrow> child_set_evidence list \<Rightarrow> bool" where
  "ladder_holds parent cs supplied containment non_overlap child_sets =
    ((\<forall>i\<in>ca_subject_id ` cs. contained_in containment i (ca_subject_id parent)) \<and>
     (\<forall>i\<in>ca_subject_id ` cs. \<forall>j\<in>ca_subject_id ` cs. i \<noteq> j \<longrightarrow> {i, j} \<in> evidenced_pairs non_overlap) \<and>
     child_total cs \<le> count_of parent \<and> named_sets parent child_sets = {set supplied})"

lemma ladder_holds_counted: "counted_ids cs = counted_ids ds \<Longrightarrow> ladder_holds p cs su con non sets = ladder_holds p ds su con non sets"
  by (simp add: ladder_holds_def ids_counted child_total_counted)

lemma close_ladder_cases:
  fixes parent xs supplied containment non_overlap child_sets base
  assumes "distinct (map ca_subject_id xs)" and "blank base"
  defines "r \<equiv> close_ladder parent xs supplied containment non_overlap child_sets base"
  shows "if ladder_holds parent (set xs) supplied containment non_overlap child_sets
    then ra_status r = RESOLVED \<and> ra_residual r = Some (count_of parent - child_total (set xs)) \<and> ra_established r
    else blank r"
proof -
  define ids where "ids = map ca_subject_id xs"
  have set_ids: "set ids = ca_subject_id ` set xs" by (simp add: ids_def)
  have total: "sum_list (map count_of xs) = child_total (set xs)" by (rule child_total_list [symmetric, OF assms(1)])
  have u: "(filter (\<lambda>i. \<not> contained_in containment i (ca_subject_id parent)) ids \<noteq> []) =
      (\<not> (\<forall>i\<in>ca_subject_id ` set xs. contained_in containment i (ca_subject_id parent)))"
    by (auto simp: filter_empty_conv set_ids [symmetric])
  have "(filter (\<lambda>(a, b). {a, b} \<notin> evidenced_pairs non_overlap) (pairs_of ids) \<noteq> []) =
      (\<exists>(a, b)\<in>set (pairs_of ids). {a, b} \<notin> evidenced_pairs non_overlap)"
    by (auto simp: filter_empty_conv)
  also have "\<dots> = (\<exists>a\<in>set ids. \<exists>b\<in>set ids. a \<noteq> b \<and> {a, b} \<notin> evidenced_pairs non_overlap)"
    using pairs_of_distinct [of ids "\<lambda>p. p \<notin> evidenced_pairs non_overlap"] assms(1) by (simp add: ids_def)
  finally have o: "(filter (\<lambda>(a, b). {a, b} \<notin> evidenced_pairs non_overlap) (pairs_of ids) \<noteq> []) =
      (\<not> (\<forall>i\<in>ca_subject_id ` set xs. \<forall>j\<in>ca_subject_id ` set xs. i \<noteq> j \<longrightarrow> {i, j} \<in> evidenced_pairs non_overlap))"
    unfolding set_ids [symmetric] by blast
  note e = child_set_state_Established [of parent supplied child_sets]
  show ?thesis
  proof (cases "ladder_holds parent (set xs) supplied containment non_overlap child_sets")
    case True
    then obtain prov where "child_set_state parent supplied child_sets = Established prov" using e by (auto simp: ladder_holds_def)
    with True show ?thesis
      unfolding r_def close_ladder_def Let_def ids_def [symmetric] u o total by (simp add: ladder_holds_def)
  next
    case False
    then show ?thesis unfolding r_def close_ladder_def Let_def ids_def [symmetric] u o total ladder_holds_def
      using assms(2) e by (auto simp: blank_def split: set_state.split)
  qed
qed

lemma map_filter_Nil: "(List.map_filter f xs = []) = (\<forall>x\<in>set xs. f x = None)"
  by (auto simp: map_filter_def filter_empty_conv)

lemma several_metrics: "(1 < length (sorted_set (m # ms))) = (\<exists>x\<in>set ms. x \<noteq> m)"
proof -
  have "length (sorted_set (m # ms)) = card (set (m # ms))" by (metis distinct_card distinct_sorted_set set_sorted_set)
  also have "\<dots> = Suc (card (set ms - {m}))" by (simp add: card.insert_remove)
  finally have "(1 < length (sorted_set (m # ms))) = (0 < card (set ms - {m}))" by simp
  also have "\<dots> = (\<exists>x\<in>set ms. x \<noteq> m)" by (auto simp: card_gt_0_iff)
  finally show ?thesis .
qed

lemma exact_precision: "exact_value c \<noteq> None \<Longrightarrow> ca_precision c = EXACT"
  by (simp add: exact_value_def split: if_splits)

lemma count_gates:
  "(\<not> list_ex (\<lambda>c. ca_precision c = UNKNOWN \<or> ca_precision c = EXACT \<and> exact_value c = None) cs \<and>
    \<not> list_ex (\<lambda>c. ca_precision c \<noteq> EXACT \<or> exact_value c = None) cs) = (\<forall>c\<in>set cs. exact_value c \<noteq> None)"
  using exact_precision by (fastforce simp: list_ex_iff)

lemma sorted_keyed:
  assumes "keyed ds"
  shows "distinct (map ca_subject_id (map snd (sort_key fst ds))) \<and> set (map snd (sort_key fst ds)) = snd ` set ds"
proof -
  have "\<forall>(i, c)\<in>set (sort_key fst ds). i = ca_subject_id c" using assms by (simp add: keyed_def list_all_iff)
  then have e: "map ca_subject_id (map snd (sort_key fst ds)) = map fst (sort_key fst ds)" by auto
  have "distinct (map fst (sort_key fst ds))" using assms by (simp add: keyed_def distinct_map)
  then show ?thesis unfolding e by simp
qed

lemma residual_cases:
  fixes parent children containment non_overlap child_sets
  defines "r \<equiv> assess_residual_planning_capacity parent children containment non_overlap child_sets"
  shows "if residual_supported parent children containment non_overlap child_sets
    then ra_status r = RESOLVED \<and> ra_residual r = Some (count_of parent - child_total (operative children)) \<and> ra_established r
    else blank r"
proof (cases "ca_subject_id parent = [] \<or> ca_basis parent \<noteq> Some OPERATIVE_APPROVED_BASIS")
  case True
  then have "blank r" by (auto simp: r_def assess_residual_planning_capacity_def)
  moreover have "\<not> residual_supported parent children containment non_overlap child_sets" using True by (auto simp: residual_supported_def Let_def)
  ultimately show ?thesis by simp
next
  case parent_ok: False
  note cc = classify_children_cases [where parent = parent and cs = children and el = "[]" and ex = "[]" and un = "[]"]
  show ?thesis
  proof (cases "classify_children parent children [] [] []")
    case (Inl r')
    with cc have "blank r'" "\<exists>c\<in>operative children. ca_subject_id c = [] \<or> ca_subject_id c = ca_subject_id parent" by simp_all
    then have "\<not> (\<forall>c\<in>operative children. ca_subject_id c \<noteq> [] \<and> ca_subject_id c \<noteq> ca_subject_id parent)" by blast
    then have "\<not> residual_supported parent children containment non_overlap child_sets"
      unfolding residual_supported_def Let_def by (elim contrapos_nn conjE)
    with \<open>blank r'\<close> show ?thesis using parent_ok Inl by (simp add: r_def assess_residual_planning_capacity_def)
  next
    case (Inr t)
    obtain el ex un where t: "t = (el, ex, un)" by (cases t)
    define base where "base = (\<lambda>st re tx. (residual_result st re tx parent)\<lparr>ra_excluded := ex, ra_unresolved := un\<rparr>)"
    define supplied where "supplied = filter (\<lambda>i. i \<noteq> []) (map ca_subject_id (el @ map xc_child ex))"
    from cc Inr t have ids: "\<forall>c\<in>operative children. ca_subject_id c \<noteq> [] \<and> ca_subject_id c \<noteq> ca_subject_id parent"
      and el: "set el = operative children" and ex: "xc_child ` set ex = {c \<in> set children. known_ineligible c}"
      and un: "set un = {c \<in> set children. c \<notin> operative children \<and> \<not> known_ineligible c}" by simp_all
    define conf where "conf = (ca_resolution parent = ''material_conflict'' \<or> list_ex (\<lambda>c. ca_resolution c = ''material_conflict'') el)"
    define inc where "inc = List.map_filter (scope_incompatibility parent) el"
    define mets where "mets = sorted_set (ca_metric parent # map ca_metric el)"
    define unk where "unk = list_ex (\<lambda>c. ca_precision c = UNKNOWN \<or> ca_precision c = EXACT \<and> exact_value c = None) (parent # el)"
    define inex where "inex = list_ex (\<lambda>c. ca_precision c \<noteq> EXACT \<or> exact_value c = None) (parent # el)"
    define rest where "rest = (case distinct_children el [] of None \<Rightarrow> None | Some ds \<Rightarrow> Some (map snd (sort_key fst ds)))"
    define ladder where "ladder = ladder_holds parent (operative children) supplied containment non_overlap child_sets"
    have r: "if \<not> conf \<and> un = [] \<and> el \<noteq> [] \<and> inc = [] \<and> \<not> 1 < length mets \<and> \<not> unk \<and> \<not> inex
      then (case rest of None \<Rightarrow> blank r | Some xs \<Rightarrow> r = close_ladder parent xs supplied containment non_overlap child_sets (base UNVERIFIED REASON_RESOLVED []))
      else blank r"
      using parent_ok Inr unfolding r_def assess_residual_planning_capacity_def Let_def t conf_def inc_def mets_def unk_def inex_def rest_def
      by (simp add: base_def supplied_def split: option.split)
    have dist: "case rest of None \<Rightarrow> \<not> consistent (operative children)
        | Some xs \<Rightarrow> consistent (operative children) \<and> distinct (map ca_subject_id xs) \<and> counted_ids (set xs) = counted_ids (operative children)"
      using distinct_children_cases [of "[]" el] sorted_keyed unfolding rest_def el [symmetric] by (simp add: keyed_def split: option.splits)
    have gates: "residual_supported parent children containment non_overlap child_sets =
      (\<not> conf \<and> un = [] \<and> el \<noteq> [] \<and> inc = [] \<and> \<not> 1 < length mets \<and> (\<not> unk \<and> \<not> inex) \<and> consistent (operative children) \<and> ladder)"
    proof -
      have sup: "set supplied = ca_subject_id ` set children - {[]}" if "un = []"
      proof -
        have "set children = operative children \<union> xc_child ` set ex" using un that unfolding ex by (auto simp: operative_def)
        then show ?thesis unfolding supplied_def using el by (auto simp: image_Un)
      qed
      have f_un: "(un = []) = (\<forall>c\<in>set children. c \<in> operative children \<or> known_ineligible c)" using un by (cases un) auto
      have f_el: "(el \<noteq> []) = (operative children \<noteq> {})" using el by auto
      have f_conf: "(\<not> conf) = (\<forall>c\<in>insert parent (operative children). ca_resolution c \<noteq> ''material_conflict'')"
        unfolding conf_def el [symmetric] by (auto simp: list_ex_iff)
      have f_inc: "(inc = []) = (\<forall>c\<in>operative children. scope_incompatibility parent c = None)"
        unfolding inc_def map_filter_Nil el ..
      have f_mets: "(\<not> 1 < length mets) = (\<forall>c\<in>insert parent (operative children). ca_metric c = ca_metric parent)"
        unfolding mets_def several_metrics el [symmetric] by auto
      have f_prec: "(\<not> unk \<and> \<not> inex) = (\<forall>c\<in>insert parent (operative children). exact_value c \<noteq> None)"
        unfolding unk_def inex_def count_gates el [symmetric] by simp
      have f_ladder: "ladder = ((\<forall>c\<in>operative children. contained_in containment (ca_subject_id c) (ca_subject_id parent)) \<and>
          (\<forall>c\<in>operative children. \<forall>d\<in>operative children. ca_subject_id c \<noteq> ca_subject_id d \<longrightarrow>
             {ca_subject_id c, ca_subject_id d} \<in> evidenced_pairs non_overlap) \<and>
          child_total (operative children) \<le> count_of parent \<and> named_sets parent child_sets = {ca_subject_id ` set children - {[]}})" if "un = []"
        unfolding ladder_def ladder_holds_def sup [OF that] by simp
      have p_ok: "ca_subject_id parent \<noteq> []" "ca_basis parent = Some OPERATIVE_APPROVED_BASIS" using parent_ok by simp_all
      show ?thesis
      proof (cases "un = []")
        case True
        show ?thesis unfolding f_un f_el f_conf f_inc f_mets f_prec f_ladder [OF True] residual_supported_def Let_def consistent_def
          by (intro iffI; elim conjE; intro conjI; (assumption | rule p_ok ids))
      next
        case False
        then have "\<not> residual_supported parent children containment non_overlap child_sets"
          unfolding f_un residual_supported_def Let_def by (elim contrapos_nn conjE)
        with False show ?thesis by simp
      qed
    qed
    show ?thesis
    proof (cases rest)
      case None
      with dist gates r show ?thesis by (auto split: if_split_asm)
    next
      case (Some xs)
      with dist have d: "consistent (operative children)" "distinct (map ca_subject_id xs)" "counted_ids (set xs) = counted_ids (operative children)" by simp_all
      have b: "blank (base UNVERIFIED REASON_RESOLVED [])" by (simp add: base_def)
      have "ladder_holds parent (set xs) supplied containment non_overlap child_sets = ladder" "child_total (set xs) = child_total (operative children)"
        unfolding ladder_def using ladder_holds_counted [OF d(3)] d(3) by (simp_all add: child_total_counted)
      with close_ladder_cases [OF d(2) b, of parent supplied containment non_overlap child_sets] r Some gates d(1)
      show ?thesis by (auto split: if_split_asm)
    qed
  qed
qed

text \<open>
  C38. A residual is resolved exactly where it is supported: an approved, identified parent and at least one approved child, every child's eligibility
  known, exact conflict-free counts in one metric, compatible scopes, containment for each child and non-overlap for each two, child
  evidence naming exactly the supplied subjects, and children within the parent. Its figure is the parent's count less each distinct child's, once; otherwise there is no figure.
\<close>

theorem residual_exactly_when_supported:
  "if residual_supported parent children containment non_overlap child_sets
   then ra_status (assess_residual_planning_capacity parent children containment non_overlap child_sets) = RESOLVED \<and>
     ra_residual (assess_residual_planning_capacity parent children containment non_overlap child_sets)
       = Some (count_of parent - child_total (operative children))
   else ra_status (assess_residual_planning_capacity parent children containment non_overlap child_sets) \<noteq> RESOLVED \<and>
     ra_residual (assess_residual_planning_capacity parent children containment non_overlap child_sets) = None"
  using residual_cases [of parent children containment non_overlap child_sets] by (simp add: blank_def split: if_split_asm)

end
