(* ===== verification/ResidualOpportunity.thy ===== *)
theory ResidualOpportunity
  imports ResidualCapacity StrategicCapacity Json
begin

text \<open>
  Residual-opportunity qualification: app/reporting/residual_opportunity.py. The ladder R1 / R2 / R3 over the safety
  primitive of ResidualCapacity, its seven three-valued predicates, the identity and fingerprint of an R1 subject, and the number-free
  context of a strategic allocation. SHA-256 is the parameter \<open>sha\<close>; it maps the canonical JSON text to a hex digest.

  A raise is a value: \<open>SubjectIdentity\<close> for the errors of SubjectIdentity, \<open>EvidenceTypeError\<close> where the fingerprint sorts child-set
  evidence whose ids cannot be iterated (which the capacity gate has skipped).
\<close>

datatype level = R1 | R2 | R3

datatype tri = PTrue | PFalse | PUnknown

datatype predicate_name = PARENT_SCOPE_QUALIFIED | CHILD_RELATIONSHIP_QUALIFIED | COUNT_METRICS_COMPATIBLE | COUNT_PRECISION_COMPATIBLE
  | NO_SUPERSESSION_CONFLICT | SIBLING_NON_OVERLAP_ESTABLISHED | CHILD_SET_COMPLETE

record predicate_result =
  pr_name :: predicate_name
  pr_state :: tri
  pr_basis :: str

record residual_evidence =
  re_containment :: "link_evidence list"
  re_non_overlap :: "link_evidence list"
  re_child_set :: "child_set_evidence list"

definition NO_EVIDENCE :: residual_evidence where
  "NO_EVIDENCE = \<lparr>re_containment = [], re_non_overlap = [], re_child_set = []\<rparr>"

definition production_residual_evidence :: "link_evidence list \<Rightarrow> residual_evidence" where
  "production_residual_evidence pairs = NO_EVIDENCE\<lparr>re_containment := pairs\<rparr>"

definition PLANNING_R2_TEXT :: str where
  "PLANNING_R2_TEXT = ''Potential residual scope '' @ EM_DASH @ '' investigate. A wider permission and subordinate planning activity are identified, but a distinct residual acquisition scope and its capacity are not yet established.''"

definition ALLOCATION_R2_TEXT :: str where
  "ALLOCATION_R2_TEXT = ''Potential residual scope '' @ EM_DASH @ '' investigate. Planning evidence indicates partial development coverage, but a distinct residual acquisition scope and its capacity are not yet established.''"

definition R1_CAVEAT :: str where
  "R1_CAVEAT = ''Derived (apparent) residual planning capacity: the parent permission count less the contained subordinate count. Availability, ownership, parcel geometry and independent deliverability are unverified.''"

definition R2_REASONS :: "residual_reason list" where
  "R2_REASONS = [REASON_CHILD_OVERLAP_NOT_EXCLUDED, REASON_CHILD_SET_NOT_ESTABLISHED, REASON_CHILD_SET_MISMATCH, REASON_CHILD_SET_CONFLICT]"

record qualification =
  rq_level :: level
  rq_reason :: residual_reason
  rq_site_id :: "int option"
  rq_parent :: "str option"
  rq_children :: "str list"
  rq_predicates :: "predicate_result list"
  rq_explanation :: str
  rq_value :: "int option"
  rq_assessment :: "count_assessment option"
  rq_subject_id :: "str option"
  rq_fingerprint :: "str option"

definition is_subject :: "qualification \<Rightarrow> bool" where
  "is_subject q = (rq_level q = R1)"

definition context_text :: "qualification \<Rightarrow> str option" where
  "context_text q = (if rq_level q = R2 then Some PLANNING_R2_TEXT else None)"

datatype residual_error = SubjectIdentity subject_error | EvidenceTypeError

definition site_of :: "str \<Rightarrow> int option" where
  "site_of s = (if s = [] then None else map_option (\<lambda>(site, _, _). num_of site) (parse_subject s))"

definition prov :: "str list \<Rightarrow> str" where
  "prov items = (let t = join ''; '' (sort items) in if t = [] then ''none supplied'' else t)"

definition opt_str :: "str option \<Rightarrow> str" where
  "opt_str v = (case v of None \<Rightarrow> ''None'' | Some t \<Rightarrow> t)"

section \<open>Identity and fingerprint\<close>

definition residual_subject_identity :: "(str \<Rightarrow> str) \<Rightarrow> int option \<Rightarrow> str \<Rightarrow> str list \<Rightarrow> subject_error + str" where
  "residual_subject_identity sha site parent children =
    (let dg = take 20 (digest sha (JObj [(''v'', JInt 1), (''parent'', JStr parent), (''children'', JArr (map JStr (sorted_set children)))])) in
     (case site of None \<Rightarrow> Inl MalformedOpportunityId | Some n \<Rightarrow> build_new_kind_opportunity_id ''residual'' n dg))"

definition source_refs :: "count_assessment \<Rightarrow> str list" where
  "source_refs c = sorted_set (filter (\<lambda>r. r \<noteq> []) (map cs_application_reference (ca_sources c)))"

definition json_int :: "int option \<Rightarrow> json" where
  "json_int v = (case v of None \<Rightarrow> JNull | Some n \<Rightarrow> JInt n)"

definition json_strs :: "str list \<Rightarrow> json" where
  "json_strs xs = JArr (map JStr xs)"

definition relevant_sets :: "count_assessment \<Rightarrow> child_set_evidence list \<Rightarrow> child_set_evidence list" where
  "relevant_sets parent evidence = filter (\<lambda>(p, ids, s). p = ca_subject_id parent \<and> is_meaningful_provenance s) evidence"

definition set_entry :: "child_set_evidence \<Rightarrow> (str \<times> str list \<times> str) option" where
  "set_entry e = (case e of (p, Ids ids, s) \<Rightarrow> Some (p, sort ids, strip (opt_str s)) | _ \<Rightarrow> None)"

definition child_entry :: "count_assessment \<Rightarrow> json" where
  "child_entry c = JObj [(''id'', JStr (ca_subject_id c)), (''value'', json_int (exact_value c)), (''refs'', json_strs (source_refs c))]"

definition residual_evidence_fingerprint :: "(str \<Rightarrow> str) \<Rightarrow> count_assessment \<Rightarrow> count_assessment list \<Rightarrow> residual_evidence \<Rightarrow> int \<Rightarrow> residual_error + str" where
  "residual_evidence_fingerprint sha parent subtracted evidence value =
    (let child_ids = map ca_subject_id subtracted;
         containment = sort (map (\<lambda>(c, p, s). [c, p, strip (opt_str s)])
           (filter (\<lambda>(c, p, s). p = ca_subject_id parent \<and> c \<in> set child_ids \<and> is_meaningful_provenance s) (re_containment evidence)));
         non_overlap = sort (map (\<lambda>(a, b, s). sort [a, b] @ [strip (opt_str s)])
           (filter (\<lambda>(a, b, s). a \<in> set child_ids \<and> b \<in> set child_ids \<and> is_meaningful_provenance s) (re_non_overlap evidence)));
         sets = map set_entry (relevant_sets parent (re_child_set evidence)) in
     if None \<in> set sets then Inl EvidenceTypeError
     else Inr (digest sha (JObj
      [(''v'', JInt 1), (''level'', JStr ''R1_QUALIFIED_RESIDUAL''),
       (''parent'', JObj [(''id'', JStr (ca_subject_id parent)), (''metric'', JStr (ca_metric parent)), (''value'', json_int (exact_value parent)),
                         (''refs'', json_strs (source_refs parent))]),
       (''children'', JArr (map child_entry (sort_key ca_subject_id subtracted))),
       (''containment'', JArr (map json_strs containment)),
       (''non_overlap'', JArr (map json_strs non_overlap)),
       (''child_set'', JArr (map (\<lambda>(p, ids, s). JArr [JStr p, json_strs ids, JStr s]) (sort (map the sets)))),
       (''residual'', JInt value)])))"

section \<open>Predicates\<close>

definition eligible_ids :: "count_assessment \<Rightarrow> count_assessment list \<Rightarrow> count_assessment list" where
  "eligible_ids parent children = filter (\<lambda>c. ca_basis c = Some OPERATIVE_APPROVED_BASIS \<and> ca_subject_id c \<noteq> [] \<and> ca_subject_id c \<noteq> ca_subject_id parent) children"

definition parent_predicate :: "count_assessment \<Rightarrow> residual_reason \<Rightarrow> predicate_result" where
  "parent_predicate parent reason =
    (let ok = ca_subject_id parent \<noteq> [] \<and> ca_basis parent = Some OPERATIVE_APPROVED_BASIS \<and> site_of (ca_subject_id parent) \<noteq> None \<and>
         reason \<notin> {REASON_PARENT_IDENTITY_MISSING, REASON_PARENT_NOT_OPERATIVE, REASON_SCOPE_INCOMPATIBLE} in
     \<lparr>pr_name = PARENT_SCOPE_QUALIFIED, pr_state = (if ok then PTrue else PFalse),
      pr_basis = (if ok then ''operative approved whole-site/phase parent '' @ (if ca_subject_id parent = [] then ''(no identity)'' else ca_subject_id parent)
        else ''parent not qualified ('' @ reason_str reason @ '')'')\<rparr>)"

definition relationship_predicate :: "count_assessment \<Rightarrow> str list \<Rightarrow> link_evidence list \<Rightarrow> predicate_result" where
  "relationship_predicate parent ids containment =
    (let all = ids \<noteq> [] \<and> list_all (\<lambda>i. contained_in containment i (ca_subject_id parent)) ids in
     \<lparr>pr_name = CHILD_RELATIONSHIP_QUALIFIED, pr_state = (if all then PTrue else PUnknown),
      pr_basis = (if all then prov (map (\<lambda>(c, p, s). c @ ''->'' @ p @ '': '' @ opt_str s)
          (filter (\<lambda>(c, p, s). c \<in> set ids \<and> p = ca_subject_id parent) containment))
        else ''explicit containment evidence is not supplied for every contributing child'')\<rparr>)"

definition metrics_predicate :: "count_assessment \<Rightarrow> count_assessment list \<Rightarrow> predicate_result" where
  "metrics_predicate parent eligible = (let metrics = sorted_set (ca_metric parent # map ca_metric eligible) in
     \<lparr>pr_name = COUNT_METRICS_COMPATIBLE, pr_state = (if length metrics = 1 then PTrue else PFalse), pr_basis = ''metric '' @ prov metrics\<rparr>)"

definition precision_predicate :: "count_assessment list \<Rightarrow> predicate_result" where
  "precision_predicate counted =
    (if list_ex (\<lambda>c. ca_precision c = UNKNOWN) counted
       then \<lparr>pr_name = COUNT_PRECISION_COMPATIBLE, pr_state = PUnknown, pr_basis = ''a count is unknown''\<rparr>
     else if list_all (\<lambda>c. ca_precision c = EXACT \<and> exact_value c \<noteq> None) counted
       then \<lparr>pr_name = COUNT_PRECISION_COMPATIBLE, pr_state = PTrue, pr_basis = ''parent and every contributing child count is exact''\<rparr>
     else \<lparr>pr_name = COUNT_PRECISION_COMPATIBLE, pr_state = PFalse, pr_basis = ''a count is approximate or a range; an exact residual is never invented''\<rparr>)"

definition conflict_predicate :: "residual_reason \<Rightarrow> predicate_result" where
  "conflict_predicate reason =
    (if reason \<in> {REASON_COUNT_MATERIAL_CONFLICT, REASON_CONFLICTING_DUPLICATE_CHILD, REASON_CHILDREN_EXCEED_PARENT}
       then \<lparr>pr_name = NO_SUPERSESSION_CONFLICT, pr_state = PFalse, pr_basis = ''conflict ('' @ reason_str reason @ '')''\<rparr>
     else if reason = REASON_UNRESOLVED_CHILD
       then \<lparr>pr_name = NO_SUPERSESSION_CONFLICT, pr_state = PUnknown, pr_basis = ''a child's eligibility is unresolved''\<rparr>
     else \<lparr>pr_name = NO_SUPERSESSION_CONFLICT, pr_state = PTrue, pr_basis = ''no unresolved conflict or supersession among the supplied counts''\<rparr>)"

definition sibling_predicate :: "str list \<Rightarrow> link_evidence list \<Rightarrow> predicate_result" where
  "sibling_predicate ids non_overlap =
    (let unproven = filter (\<lambda>(a, b). {a, b} \<notin> evidenced_pairs non_overlap) (pairs_of ids) in
     if length ids \<le> 1 then \<lparr>pr_name = SIBLING_NON_OVERLAP_ESTABLISHED, pr_state = (if ids \<noteq> [] then PTrue else PUnknown),
         pr_basis = (if ids \<noteq> [] then ''a single contributing child has no sibling'' else ''no contributing child'')\<rparr>
     else if unproven = [] then \<lparr>pr_name = SIBLING_NON_OVERLAP_ESTABLISHED, pr_state = PTrue, pr_basis = ''explicit non-overlap evidence for every child pair''\<rparr>
     else \<lparr>pr_name = SIBLING_NON_OVERLAP_ESTABLISHED, pr_state = PUnknown,
         pr_basis = ''explicit non-overlap evidence is missing for: '' @ join '', '' (map (\<lambda>(a, b). a @ ''/'' @ b) unproven)\<rparr>)"

definition child_set_predicate :: "residual_assessment \<Rightarrow> predicate_result" where
  "child_set_predicate r =
    (if ra_established r then \<lparr>pr_name = CHILD_SET_COMPLETE, pr_state = PTrue, pr_basis = ''sourced child-set evidence: '' @ opt_str (ra_provenance r)\<rparr>
     else if ra_reason r \<in> {REASON_CHILD_SET_MISMATCH, REASON_CHILD_SET_CONFLICT}
       then \<lparr>pr_name = CHILD_SET_COMPLETE, pr_state = PFalse, pr_basis = ''child-set evidence disagrees with the supplied children ('' @ reason_str (ra_reason r) @ '')''\<rparr>
     else \<lparr>pr_name = CHILD_SET_COMPLETE, pr_state = PUnknown, pr_basis = ''no sourced evidence names the complete relevant child set''\<rparr>)"

definition predicates :: "count_assessment \<Rightarrow> count_assessment list \<Rightarrow> residual_evidence \<Rightarrow> residual_assessment \<Rightarrow> predicate_result list" where
  "predicates parent children evidence r =
    (let eligible = eligible_ids parent children; ids = sorted_set (map ca_subject_id eligible) in
     [parent_predicate parent (ra_reason r), relationship_predicate parent ids (re_containment evidence), metrics_predicate parent eligible,
      precision_predicate (parent # eligible), conflict_predicate (ra_reason r), sibling_predicate ids (re_non_overlap evidence), child_set_predicate r])"

section \<open>The ladder\<close>

definition last_segment :: "str \<Rightarrow> str" where
  "last_segment s = last (split_on CHR '':'' s)"

definition derived_assessment :: "str \<Rightarrow> str \<Rightarrow> int \<Rightarrow> count_assessment" where
  "derived_assessment subject metric value =
    (base_assessment ''residual'' (last_segment subject) subject metric [] (Some ''derived_residual'') [])
     \<lparr>ca_precision := EXACT, ca_value := Some value, ca_resolution := ''derived_residual'', ca_confidence := ''derived''\<rparr>"

definition qualify_residual :: "(str \<Rightarrow> str) \<Rightarrow> count_assessment \<Rightarrow> count_assessment list \<Rightarrow> residual_evidence \<Rightarrow> residual_error + qualification" where
  "qualify_residual sha parent children evidence =
    (let r = assess_residual_planning_capacity parent children (re_containment evidence) (re_non_overlap evidence) (re_child_set evidence);
         ps = predicates parent children evidence r;
         site = site_of (ca_subject_id parent);
         outcome = (\<lambda>lv tx. \<lparr>rq_level = lv, rq_reason = ra_reason r, rq_site_id = site,
           rq_parent = (if ca_subject_id parent = [] then None else Some (ca_subject_id parent)),
           rq_children = sorted_set (map ca_subject_id (filter (\<lambda>c. ca_basis c = Some OPERATIVE_APPROVED_BASIS \<and> ca_subject_id c \<noteq> []) children)),
           rq_predicates = ps, rq_explanation = tx, rq_value = None, rq_assessment = None, rq_subject_id = None, rq_fingerprint = None\<rparr>);
         contained = list_ex (\<lambda>p. pr_name p = CHILD_RELATIONSHIP_QUALIFIED \<and> pr_state p = PTrue) ps in
     if resolved r then
       (case ra_residual r of None \<Rightarrow> Inr (outcome R3 ''The qualified parent is fully accounted for by the qualified child set; no residual subject exists.'')
        | Some v \<Rightarrow>
          if v \<le> 0 then Inr (outcome R3 ''The qualified parent is fully accounted for by the qualified child set; no residual subject exists.'')
          else (case residual_subject_identity sha site (ca_subject_id parent) (map ca_subject_id (ra_subtracted r)) of Inl e \<Rightarrow> Inl (SubjectIdentity e)
          | Inr sid \<Rightarrow> (case residual_evidence_fingerprint sha parent (ra_subtracted r) evidence v of Inl e \<Rightarrow> Inl e
          | Inr fp \<Rightarrow> Inr ((outcome R1 (ra_explanation r))\<lparr>rq_value := Some v,
              rq_assessment := Some (derived_assessment sid (str_or (ra_metric r) []) v), rq_subject_id := Some sid, rq_fingerprint := Some fp\<rparr>))))
     else if ra_reason r \<in> set R2_REASONS \<or> ra_reason r = REASON_COUNT_NOT_EXACT \<and> contained then
       Inr (outcome R2 ''A wider permission and contained subordinate planning activity are evidenced, but the remaining scope cannot be quantified safely.'')
     else Inr (outcome R3 (''No residual proposition is established ('' @ reason_str (ra_reason r) @ '').'')))"

section \<open>Strategic allocations and prompts\<close>

definition PARTIAL_COVERAGE :: str where
  "PARTIAL_COVERAGE = ''PARTIAL_COVERAGE''"

text \<open>A Python boolean is an \<open>int\<close>: \<open>True\<close> counts as one.\<close>

definition positive_activity :: "pyval \<Rightarrow> bool" where
  "positive_activity v = (case v of PyInt n \<Rightarrow> 0 < n | PyBool b \<Rightarrow> b | _ \<Rightarrow> False)"

definition is_potential_residual_scope :: "str option \<Rightarrow> str option \<Rightarrow> pyval \<Rightarrow> pyval \<Rightarrow> bool" where
  "is_potential_residual_scope classification status residual activity =
    (status = Some ''ok'' \<and> classification = Some PARTIAL_COVERAGE \<and> (case residual of PyInt n \<Rightarrow> 0 < n | _ \<Rightarrow> False) \<and> positive_activity activity)"

record coverage =
  cv_classification :: "str option"
  cv_status :: "str option"
  cv_residual :: pyval
  cv_activity :: pyval

definition allocation_residual_context :: "coverage option \<Rightarrow> (level \<times> str) option" where
  "allocation_residual_context cov = (case cov of None \<Rightarrow> None
     | Some c \<Rightarrow> if is_potential_residual_scope (cv_classification c) (cv_status c) (cv_residual c) (cv_activity c) then Some (R2, ALLOCATION_R2_TEXT) else None)"

definition potential_residual_label :: "str option \<Rightarrow> str option \<Rightarrow> pyval \<Rightarrow> pyval \<Rightarrow> str" where
  "potential_residual_label classification status residual activity =
    (if is_potential_residual_scope classification status residual activity then ''Potential residual scope '' @ EM_DASH @ '' investigate'' else ''Not indicated'')"

definition r1_prompt_fact :: "qualification \<Rightarrow> pyexc + str" where
  "r1_prompt_fact q = (case rq_value q of
     Some v \<Rightarrow> if rq_level q \<noteq> R1 then Inl (ValueError ''only an R1 qualification has a residual quantity that may be supplied to a model'')
       else Inr (''Derived (apparent) residual planning capacity: '' @ int_commas v @ '' homes, computed deterministically as the qualified parent permission count less the qualified contained subordinate count. ''
         @ R1_CAVEAT @ '' Do not recompute it and do not treat it as available land.'')
   | None \<Rightarrow> Inl (ValueError ''only an R1 qualification has a residual quantity that may be supplied to a model''))"

end
