(* ===== verification/PlanningState.thy ===== *)
theory PlanningState
  imports SubjectIdentity
begin

text \<open>
  Planning states, deadlines and material change: app/pipeline/lapse_tracking.py, material_change.py and
  lifecycle_events.py. Portal text is classified into a planning state; two snapshots of an application are compared; and what
  changed is appended to a lifecycle log. The operative grant that starts the lapse clock (\<open>resolve_operative_lapse_anchor\<close> of
  app/reporting/scheme_reconciliation.py) is an argument of \<open>compute_lapse_status\<close>, as are today's date and the site's stored build status.

  \<open>strptime\<close> is written out for the three portal formats in the C locale, over ASCII; the weekday name is read but, as in Python, not compared with the date.
\<close>

section \<open>Portal dates\<close>

fun split_words_acc :: "str \<Rightarrow> str \<Rightarrow> str list" where
  "split_words_acc w [] = (if w = [] then [] else [w])"
| "split_words_acc w (c # s) = (if is_space c then (if w = [] then split_words_acc [] s else w # split_words_acc [] s)
     else split_words_acc (w @ [c]) s)"

text \<open>\<open>s.split()\<close>.\<close>

definition split_words :: "str \<Rightarrow> str list" where
  "split_words s = split_words_acc [] s"

definition DAY_NAMES :: "str list" where
  "DAY_NAMES = [''mon'', ''tue'', ''wed'', ''thu'', ''fri'', ''sat'', ''sun'']"

definition MONTH_NAMES :: "str list" where
  "MONTH_NAMES = [''jan'', ''feb'', ''mar'', ''apr'', ''may'', ''jun'', ''jul'', ''aug'', ''sep'', ''oct'', ''nov'', ''dec'']"

text \<open>\<open>%d\<close>, \<open>%m\<close>, \<open>%b\<close> and \<open>%Y\<close> on one field.\<close>

definition num_field :: "int \<Rightarrow> str \<Rightarrow> int option" where
  "num_field hi s = (if s \<noteq> [] \<and> length s \<le> 2 \<and> list_all is_digit s \<and> 1 \<le> num_of s \<and> num_of s \<le> hi then Some (num_of s) else None)"

definition day_field :: "str \<Rightarrow> int option" where
  "day_field s = (case s of [CHR '' '', c] \<Rightarrow> num_field 9 [c] | _ \<Rightarrow> num_field 31 s)"

fun index_of :: "'a \<Rightarrow> 'a list \<Rightarrow> nat option" where
  "index_of x [] = None"
| "index_of x (y # ys) = (if x = y then Some 0 else map_option Suc (index_of x ys))"

definition month_name :: "str \<Rightarrow> int option" where
  "month_name s = map_option (\<lambda>i. int i + 1) (index_of (lower s) MONTH_NAMES)"

definition build_date :: "int option \<Rightarrow> int option \<Rightarrow> int option \<Rightarrow> date option" where
  "build_date y m d = (case (y, m, d) of (Some y, Some m, Some d) \<Rightarrow>
      (let dt = \<lparr>d_year = y, d_month = m, d_day = d\<rparr> in if valid_date dt then Some dt else None) | _ \<Rightarrow> None)"

definition parse_idox :: "str \<Rightarrow> date option" where
  "parse_idox s = (case split_words s of
      [a, d, b, y] \<Rightarrow> if lower a \<in> set DAY_NAMES then build_date (fixed_num 4 y) (month_name b) (num_field 31 d) else None
    | _ \<Rightarrow> None)"

definition parse_iso :: "str \<Rightarrow> date option" where
  "parse_iso s = (case split_on CHR ''-'' s of [y, m, d] \<Rightarrow> build_date (fixed_num 4 y) (num_field 12 m) (day_field d) | _ \<Rightarrow> None)"

definition parse_slash :: "str \<Rightarrow> date option" where
  "parse_slash s = (case split_on CHR ''/'' s of [d, m, y] \<Rightarrow> build_date (fixed_num 4 y) (num_field 12 m) (day_field d) | _ \<Rightarrow> None)"

definition parse_portal_date :: "str option \<Rightarrow> date" where
  "parse_portal_date v = (case v of None \<Rightarrow> date_min | Some t \<Rightarrow> if t = [] then date_min else
     (let s = strip t in case parse_idox s of Some d \<Rightarrow> d | None \<Rightarrow>
       (case parse_iso s of Some d \<Rightarrow> d | None \<Rightarrow> (case parse_slash s of Some d \<Rightarrow> d | None \<Rightarrow> date_min))))"

section \<open>Decision text\<close>

definition GRANTED_KEYWORDS :: "str list" where
  "GRANTED_KEYWORDS = [''approve'', ''grant'']"

definition COMMENCEMENT_YEARS :: int where "COMMENCEMENT_YEARS = 3"
definition LAPSE_WARNING_DAYS :: int where "LAPSE_WARNING_DAYS = 180"
definition STATUTORY_MAJOR_DECISION_WEEKS :: int where "STATUTORY_MAJOR_DECISION_WEEKS = 13"

definition is_granted_decision :: "str option \<Rightarrow> bool" where
  "is_granted_decision decision = (let d = lower (str_or decision []) in list_ex (\<lambda>kw. contains kw d) GRANTED_KEYWORDS)"

datatype decision_status = DS_GRANTED | DS_REFUSED | DS_WITHDRAWN | DS_NOT_YET_DECIDED

definition classify_decision_status :: "str option \<Rightarrow> str option \<Rightarrow> decision_status" where
  "classify_decision_status decision status =
    (let d = lower (str_or decision []); s = lower (str_or status []) in
     if is_granted_decision decision then DS_GRANTED
     else if contains ''refuse'' d then DS_REFUSED
     else if contains ''withdraw'' d \<or> contains ''withdraw'' s then DS_WITHDRAWN
     else DS_NOT_YET_DECIDED)"

datatype plan_state = STATE_NOT_YET_DECIDED | STATE_RECOMMENDATION_MADE | STATE_RECOMMENDED_FOR_APPROVAL | STATE_RECOMMENDED_FOR_REFUSAL
  | STATE_DECISION_OUTCOME_UNKNOWN | STATE_GRANTED | STATE_REFUSED | STATE_WITHDRAWN

definition TERMINAL_STATES :: "plan_state list" where
  "TERMINAL_STATES = [STATE_GRANTED, STATE_REFUSED, STATE_WITHDRAWN]"

definition classify_planning_state :: "str option \<Rightarrow> str option \<Rightarrow> plan_state" where
  "classify_planning_state decision status =
    (let d = lower (str_or decision []); s = lower (str_or status []); both = d @ '' '' @ s in
     if contains ''withdraw'' d \<or> contains ''withdraw'' s then STATE_WITHDRAWN
     else if contains ''recommend'' both then
       (if contains ''refus'' both then STATE_RECOMMENDED_FOR_REFUSAL
        else if contains ''approv'' both \<or> contains ''grant'' both then STATE_RECOMMENDED_FOR_APPROVAL
        else STATE_RECOMMENDATION_MADE)
     else if is_granted_decision decision then STATE_GRANTED
     else if contains ''refuse'' d then STATE_REFUSED
     else if contains ''decided'' s \<or> contains ''decision made'' s then STATE_DECISION_OUTCOME_UNKNOWN
     else STATE_NOT_YET_DECIDED)"

datatype decided = DECIDED_GRANTED | DECIDED_REFUSED | DECIDED_WITHDRAWN | DECIDED_RECOMMENDATION_ONLY | DECIDED_UNDETERMINED

fun decided_by_state :: "plan_state \<Rightarrow> decided" where
  "decided_by_state STATE_GRANTED = DECIDED_GRANTED"
| "decided_by_state STATE_REFUSED = DECIDED_REFUSED"
| "decided_by_state STATE_WITHDRAWN = DECIDED_WITHDRAWN"
| "decided_by_state STATE_RECOMMENDATION_MADE = DECIDED_RECOMMENDATION_ONLY"
| "decided_by_state STATE_RECOMMENDED_FOR_APPROVAL = DECIDED_RECOMMENDATION_ONLY"
| "decided_by_state STATE_RECOMMENDED_FOR_REFUSAL = DECIDED_RECOMMENDATION_ONLY"
| "decided_by_state _ = DECIDED_UNDETERMINED"

definition resolve_decided_state :: "str option \<Rightarrow> str option \<Rightarrow> decided" where
  "resolve_decided_state decision status = decided_by_state (classify_planning_state decision status)"

section \<open>Deadlines\<close>

record portal_application =
  pa_id :: int
  pa_status :: "str option"
  pa_decision :: "str option"
  pa_category :: "str option"
  pa_received :: "str option"
  pa_validated :: "str option"
  pa_expected_decision :: "str option"

datatype date_error = DateValueError | DateOverflowError

definition MAX_ORDINAL :: int where "MAX_ORDINAL = 3652059"

text \<open>A date as its ordinal; Python refuses one after year 9999.\<close>

definition add_days :: "date \<Rightarrow> int \<Rightarrow> date_error + int" where
  "add_days d n = (let o' = toordinal d + n in if o' < 1 \<or> MAX_ORDINAL < o' then Inl DateOverflowError else Inr o')"

definition estimate_statutory_decision_date :: "str option \<Rightarrow> date_error + int option" where
  "estimate_statutory_decision_date v = (let d = parse_portal_date v in
     if d = date_min then Inr None
     else (case add_days d (7 * STATUTORY_MAJOR_DECISION_WEEKS) of Inl e \<Rightarrow> Inl e | Inr n \<Rightarrow> Inr (Some n)))"

datatype date_source = Scraped | Estimated

definition get_expected_decision :: "portal_application \<Rightarrow> date_error + (int \<times> date_source) option" where
  "get_expected_decision a =
    (let expected = parse_portal_date (pa_expected_decision a) in
     if truthy (pa_decision a) then Inr None
     else if truthy (pa_expected_decision a) \<and> expected \<noteq> date_min then Inr (Some (toordinal expected, Scraped))
     else (case estimate_statutory_decision_date (if truthy (pa_validated a) then pa_validated a else pa_received a) of
         Inl e \<Rightarrow> Inl e
       | Inr None \<Rightarrow> Inr None
       | Inr (Some n) \<Rightarrow> Inr (Some (n, Estimated))))"

definition PROGRESS_SIGNAL_CATEGORIES :: "str list" where
  "PROGRESS_SIGNAL_CATEGORIES = [''condition_discharge_or_details'', ''variation_or_amendment'']"

text \<open>\<open>max(xs, key=...)\<close>: the first of the largest.\<close>

fun max_by :: "('a \<Rightarrow> 'b::linorder) \<Rightarrow> 'a list \<Rightarrow> 'a option" where
  "max_by f [] = None"
| "max_by f (x # xs) = (case max_by f xs of None \<Rightarrow> Some x | Some y \<Rightarrow> Some (if f x \<ge> f y then x else y))"

definition progress_filing :: "int \<Rightarrow> int option \<Rightarrow> portal_application \<Rightarrow> bool" where
  "progress_filing since exclude a = ((case pa_category a of None \<Rightarrow> False | Some c \<Rightarrow> c \<in> set PROGRESS_SIGNAL_CATEGORIES) \<and>
     exclude \<noteq> Some (pa_id a) \<and> toordinal (parse_portal_date (pa_received a)) > since)"

definition find_progress_signal_filing :: "portal_application list \<Rightarrow> int \<Rightarrow> int option \<Rightarrow> portal_application option" where
  "find_progress_signal_filing applications since exclude =
    max_by (\<lambda>a. toordinal (parse_portal_date (pa_received a))) (filter (progress_filing since exclude) applications)"

definition classify_build_status :: str where
  "classify_build_status = ''unknown''"

definition replace_year :: "date \<Rightarrow> int \<Rightarrow> date_error + date" where
  "replace_year d y = (let d' = d\<lparr>d_year := y\<rparr> in if valid_date d' then Inr d' else Inl DateValueError)"

definition resolve_lapse_deadline :: "date \<Rightarrow> date_error + date" where
  "resolve_lapse_deadline d = (case replace_year d (d_year d + COMMENCEMENT_YEARS) of
      Inr d' \<Rightarrow> Inr d'
    | Inl _ \<Rightarrow> replace_year (d\<lparr>d_day := 28\<rparr>) (d_year d + COMMENCEMENT_YEARS))"

record lapse_anchor =
  la_resolved :: bool
  la_any_granted :: bool
  la_application :: "int option"
  la_decision_date :: "date option"

datatype lapse_state = LAPSED | APPROACHING | SAFE | UNDERWAY | NOT_GRANTED | LAPSE_UNKNOWN | LAPSE_NOT_DETERMINED

record lapse_status =
  ls_deadline_basis :: str
  ls_deadline_note :: str
  ls_availability :: str
  ls_raw_build_status :: "str option"
  ls_status :: lapse_state
  ls_deadline :: "date option"
  ls_granted :: "int option"
  ls_build_status :: str

definition undated :: "str \<Rightarrow> str option \<Rightarrow> lapse_state \<Rightarrow> int option \<Rightarrow> lapse_status" where
  "undated explanation raw st granted = \<lparr>ls_deadline_basis = ''unknown'', ls_deadline_note = explanation, ls_availability = ''unknown'',
     ls_raw_build_status = raw, ls_status = st, ls_deadline = None, ls_granted = granted, ls_build_status = ''unknown''\<rparr>"

definition dated :: "str option \<Rightarrow> lapse_state \<Rightarrow> date \<Rightarrow> int option \<Rightarrow> str \<Rightarrow> lapse_status" where
  "dated raw st deadline granted build = \<lparr>ls_deadline_basis = ''assumed'',
     ls_deadline_note = ''Assumes three years from the operative decision; permission conditions and lawful implementation are unverified.'',
     ls_availability = ''unknown'', ls_raw_build_status = raw, ls_status = st, ls_deadline = Some deadline, ls_granted = granted, ls_build_status = build\<rparr>"

definition compute_lapse_status :: "int \<Rightarrow> lapse_anchor \<Rightarrow> str option \<Rightarrow> date_error + lapse_status" where
  "compute_lapse_status today a raw =
    (if \<not> la_resolved a
     then Inr (undated ''No dated operative permission is established.'' raw (if la_any_granted a then LAPSE_NOT_DETERMINED else NOT_GRANTED) None)
     else if la_decision_date a = None \<or> la_decision_date a = Some date_min
     then Inr (undated ''The operative decision date is unknown.'' raw LAPSE_UNKNOWN (la_application a))
     else (case resolve_lapse_deadline (the (la_decision_date a)) of Inl e \<Rightarrow> Inl e
       | Inr deadline \<Rightarrow> let build = classify_build_status in
          if build \<in> set [''underway'', ''partially_complete'', ''complete''] then Inr (dated raw UNDERWAY deadline (la_application a) build)
          else let days_left = toordinal deadline - today in
            Inr (dated raw (if days_left < 0 then LAPSED else if days_left \<le> LAPSE_WARNING_DAYS then APPROACHING else SAFE) deadline (la_application a) build)))"

section \<open>Material change\<close>

datatype change_reason = REASON_DECISION_GRANTED | REASON_DECISION_REFUSED | REASON_DECISION_WITHDRAWN | REASON_RECOMMENDED_FOR_APPROVAL
  | REASON_RECOMMENDED_FOR_REFUSAL | REASON_RECOMMENDATION_MADE | REASON_DECISION_OUTCOME_UNKNOWN | REASON_STATUS_TRANSITION | REASON_UNIT_COUNT_CHANGED

fun reason_by_new_state :: "plan_state \<Rightarrow> change_reason" where
  "reason_by_new_state STATE_GRANTED = REASON_DECISION_GRANTED"
| "reason_by_new_state STATE_REFUSED = REASON_DECISION_REFUSED"
| "reason_by_new_state STATE_WITHDRAWN = REASON_DECISION_WITHDRAWN"
| "reason_by_new_state STATE_RECOMMENDED_FOR_APPROVAL = REASON_RECOMMENDED_FOR_APPROVAL"
| "reason_by_new_state STATE_RECOMMENDED_FOR_REFUSAL = REASON_RECOMMENDED_FOR_REFUSAL"
| "reason_by_new_state STATE_RECOMMENDATION_MADE = REASON_RECOMMENDATION_MADE"
| "reason_by_new_state STATE_DECISION_OUTCOME_UNKNOWN = REASON_DECISION_OUTCOME_UNKNOWN"
| "reason_by_new_state STATE_NOT_YET_DECIDED = REASON_STATUS_TRANSITION"

record application_state =
  st_status :: "str option"
  st_decision :: "str option"
  st_units :: "int option"

record material_change =
  mc_changed :: bool
  mc_reasons :: "change_reason list"
  mc_old :: application_state
  mc_new :: application_state
  mc_old_state :: plan_state
  mc_new_state :: plan_state

definition state_of :: "application_state \<Rightarrow> plan_state" where
  "state_of a = classify_planning_state (st_decision a) (st_status a)"

definition state_reason :: "plan_state \<Rightarrow> plan_state \<Rightarrow> change_reason list" where
  "state_reason old new = (if old \<noteq> new then (if old \<in> set TERMINAL_STATES \<and> new = STATE_NOT_YET_DECIDED then [] else [reason_by_new_state new]) else [])"

definition unit_reason :: "application_state \<Rightarrow> application_state \<Rightarrow> change_reason list" where
  "unit_reason old new = (if st_units old \<noteq> None \<and> st_units new \<noteq> None \<and> st_units old \<noteq> st_units new then [REASON_UNIT_COUNT_CHANGED] else [])"

definition detect_material_application_change :: "application_state \<Rightarrow> application_state \<Rightarrow> material_change" where
  "detect_material_application_change old new = (let os = state_of old; ns = state_of new; rs = state_reason os ns @ unit_reason old new in
     \<lparr>mc_changed = (rs \<noteq> []), mc_reasons = rs, mc_old = old, mc_new = new, mc_old_state = os, mc_new_state = ns\<rparr>)"

record change_stats =
  cs_compared :: nat
  cs_material :: nat
  cs_reason_counts :: "(change_reason \<times> nat) list"

definition empty_stats :: change_stats where
  "empty_stats = \<lparr>cs_compared = 0, cs_material = 0, cs_reason_counts = []\<rparr>"

definition count_reason :: "(change_reason \<times> nat) list \<Rightarrow> change_reason \<Rightarrow> (change_reason \<times> nat) list" where
  "count_reason m r = AList.update r (opt_or (map_of m r) 0 + 1) m"

definition record_change :: "change_stats \<Rightarrow> material_change \<Rightarrow> change_stats" where
  "record_change s c = (let s' = s\<lparr>cs_compared := cs_compared s + 1\<rparr> in
     if \<not> mc_changed c then s'
     else s'\<lparr>cs_material := cs_material s + 1, cs_reason_counts := foldl count_reason (cs_reason_counts s) (mc_reasons c)\<rparr>)"

section \<open>The lifecycle log\<close>

datatype event_type = EVENT_STATUS_CHANGED | EVENT_DECISION_GRANTED | EVENT_DECISION_REFUSED | EVENT_DECISION_WITHDRAWN | EVENT_UNITS_CHANGED
  | EVENT_NEW_RELATED_APPLICATION | EVENT_RESERVED_MATTERS_FOUND | EVENT_CONDITION_DISCHARGE_FOUND

record lifecycle_event =
  ev_application :: int
  ev_type :: event_type
  ev_field :: "str option"
  ev_old :: "str option"
  ev_new :: "str option"
  ev_source :: str

fun event_of_reason :: "change_reason \<Rightarrow> event_type" where
  "event_of_reason REASON_DECISION_GRANTED = EVENT_DECISION_GRANTED"
| "event_of_reason REASON_DECISION_REFUSED = EVENT_DECISION_REFUSED"
| "event_of_reason REASON_DECISION_WITHDRAWN = EVENT_DECISION_WITHDRAWN"
| "event_of_reason _ = EVENT_STATUS_CHANGED"

definition change_event :: "int \<Rightarrow> str \<Rightarrow> material_change \<Rightarrow> change_reason \<Rightarrow> lifecycle_event" where
  "change_event app source c r =
    (if r = REASON_UNIT_COUNT_CHANGED then
       \<lparr>ev_application = app, ev_type = EVENT_UNITS_CHANGED, ev_field = Some ''estimated_unit_count'',
        ev_old = map_option int_str (st_units (mc_old c)), ev_new = map_option int_str (st_units (mc_new c)), ev_source = source\<rparr>
     else if st_decision (mc_old c) \<noteq> st_decision (mc_new c) then
       \<lparr>ev_application = app, ev_type = event_of_reason r, ev_field = Some ''decision'', ev_old = st_decision (mc_old c),
        ev_new = st_decision (mc_new c), ev_source = source\<rparr>
     else
       \<lparr>ev_application = app, ev_type = event_of_reason r, ev_field = Some ''status'', ev_old = st_status (mc_old c),
        ev_new = st_status (mc_new c), ev_source = source\<rparr>)"

text \<open>The session is the list of events added to it; the statistics are the number written.\<close>

type_synonym event_log = "lifecycle_event list"

definition record_material_change_events :: "int \<Rightarrow> material_change \<Rightarrow> str \<Rightarrow> nat \<Rightarrow> event_log \<Rightarrow> nat \<times> nat \<times> event_log" where
  "record_material_change_events app c source stats logged =
    (if \<not> mc_changed c then (0, stats, logged)
     else let evs = map (change_event app source c) (mc_reasons c) in (length evs, stats + length evs, logged @ evs))"

definition SOURCE_RELATED_APPLICATION_DISCOVERY :: str where
  "SOURCE_RELATED_APPLICATION_DISCOVERY = ''related_application_discovery''"

definition category_event :: "int \<Rightarrow> str \<Rightarrow> event_type \<Rightarrow> lifecycle_event" where
  "category_event app cat ty = \<lparr>ev_application = app, ev_type = ty, ev_field = Some ''application_category'', ev_old = None, ev_new = Some cat,
     ev_source = SOURCE_RELATED_APPLICATION_DISCOVERY\<rparr>"

definition CATEGORY_TO_SPECIFIC_EVENT :: "(str \<times> event_type) list" where
  "CATEGORY_TO_SPECIFIC_EVENT = [(''reserved_matters'', EVENT_RESERVED_MATTERS_FOUND), (''condition_discharge_or_details'', EVENT_CONDITION_DISCHARGE_FOUND)]"

definition record_related_application_discovery_event :: "int \<Rightarrow> str \<Rightarrow> nat \<Rightarrow> event_log \<Rightarrow> nat \<times> nat \<times> event_log" where
  "record_related_application_discovery_event app cat stats logged =
    (let evs = category_event app cat EVENT_NEW_RELATED_APPLICATION #
       (case map_of CATEGORY_TO_SPECIFIC_EVENT cat of None \<Rightarrow> [] | Some ty \<Rightarrow> [category_event app cat ty]) in
     (length evs, stats + length evs, logged @ evs))"

definition record_decision_date_correction :: "int \<Rightarrow> str option \<Rightarrow> str option \<Rightarrow> str \<Rightarrow> nat \<Rightarrow> event_log \<Rightarrow> nat \<times> event_log" where
  "record_decision_date_correction app old new source stats logged =
    (stats + 1, logged @ [\<lparr>ev_application = app, ev_type = EVENT_STATUS_CHANGED, ev_field = Some ''decision_issued_date'', ev_old = old, ev_new = new, ev_source = source\<rparr>])"

definition any_written :: "nat \<Rightarrow> bool" where
  "any_written stats = (stats > 0)"

section \<open>Recommendations\<close>

definition mentions :: "str \<Rightarrow> str option \<Rightarrow> bool" where
  "mentions w v = contains w (lower (str_or v []))"

lemma prefix_before_space: "CHR '' '' \<notin> set w \<Longrightarrow> prefix w (a @ CHR '' '' # b) = prefix w a"
proof (induction a arbitrary: w)
  case Nil
  then show ?case by (cases w) auto
next
  case (Cons c a)
  then show ?case by (cases w) auto
qed

lemma contains_space: "CHR '' '' \<notin> set w \<Longrightarrow> w \<noteq> [] \<Longrightarrow> contains w (a @ CHR '' '' # b) = (contains w a \<or> contains w b)"
proof (induction a)
  case Nil
  then have "\<not> prefix w (CHR '' '' # b)" by (cases w) auto
  with Nil show ?case by (cases w) auto
next
  case (Cons c a)
  have "prefix w (c # a @ CHR '' '' # b) = prefix w (c # a)"
    using Cons.prems(1) prefix_before_space [of w "c # a" b] by simp
  with Cons show ?case by simp
qed

lemma decided_granted_iff:
  "resolve_decided_state decision status = DECIDED_GRANTED \<longleftrightarrow>
     \<not> mentions ''withdraw'' decision \<and> \<not> mentions ''withdraw'' status \<and> \<not> mentions ''recommend'' decision \<and> \<not> mentions ''recommend'' status \<and>
      (mentions ''approve'' decision \<or> mentions ''grant'' decision)"
  by (auto simp: resolve_decided_state_def classify_planning_state_def Let_def mentions_def contains_space [of "''recommend''"]
      is_granted_decision_def GRANTED_KEYWORDS_def)

lemma recommendation_only_iff:
  "resolve_decided_state decision status = DECIDED_RECOMMENDATION_ONLY \<longleftrightarrow>
     \<not> mentions ''withdraw'' decision \<and> \<not> mentions ''withdraw'' status \<and> (mentions ''recommend'' decision \<or> mentions ''recommend'' status)"
  by (auto simp: resolve_decided_state_def classify_planning_state_def Let_def mentions_def contains_space [of "''recommend''"]
      is_granted_decision_def GRANTED_KEYWORDS_def)

text \<open>
  A recommendation is never a decision: an application is decided granted exactly when nothing says withdrawn or recommended and the decision text says so;
  it is recommendation-only exactly when a recommendation is mentioned and no withdrawal, whatever the wording around it.
\<close>

theorem recommendation_never_decides:
  "(resolve_decided_state decision status = DECIDED_GRANTED) =
     (\<not> mentions ''withdraw'' decision \<and> \<not> mentions ''withdraw'' status \<and> \<not> mentions ''recommend'' decision \<and> \<not> mentions ''recommend'' status \<and>
      (mentions ''approve'' decision \<or> mentions ''grant'' decision)) \<and>
   (resolve_decided_state decision status = DECIDED_RECOMMENDATION_ONLY) =
     (\<not> mentions ''withdraw'' decision \<and> \<not> mentions ''withdraw'' status \<and> (mentions ''recommend'' decision \<or> mentions ''recommend'' status))"
  by (intro conjI decided_granted_iff recommendation_only_iff)

section \<open>What the log records\<close>

lemma int_str_inj: "int_str i = int_str j \<Longrightarrow> i = j"
proof -
  have dig: "nat_str m = nat_str n \<Longrightarrow> m = n" for m n using nat_str_digits by (metis of_nat_eq_iff)
  have no: "CHR ''-'' # s \<noteq> nat_str n" for s n
  proof
    assume "CHR ''-'' # s = nat_str n"
    with nat_str_digits [of n] have "list_all is_digit (CHR ''-'' # s)" by (simp only:)
    then show False by (simp add: is_digit_def less_eq_char_def)
  qed
  assume "int_str i = int_str j"
  then show "i = j" using dig [of "nat i" "nat j"] dig [of "nat (- i)" "nat (- j)"] no no [symmetric]
    by (auto simp: int_str_def split: if_split_asm)
qed

lemma reasons_distinct: "r \<in> set (state_reason a b) \<Longrightarrow> r \<noteq> REASON_UNIT_COUNT_CHANGED \<and> a \<noteq> b"
  by (cases b) (auto simp: state_reason_def split: if_split_asm)

lemma change_event_differs:
  assumes "r \<in> set (mc_reasons (detect_material_application_change old new))"
  shows "ev_old (change_event app src (detect_material_application_change old new) r) \<noteq> ev_new (change_event app src (detect_material_application_change old new) r)"
proof -
  let ?c = "detect_material_application_change old new"
  have c: "mc_old ?c = old" "mc_new ?c = new" by (simp_all add: detect_material_application_change_def Let_def)
  from assms consider "r \<in> set (state_reason (state_of old) (state_of new))" | "r \<in> set (unit_reason old new)"
    by (auto simp: detect_material_application_change_def Let_def)
  then show ?thesis
  proof cases
    case 1
    then have r: "r \<noteq> REASON_UNIT_COUNT_CHANGED" and d: "state_of old \<noteq> state_of new" using reasons_distinct by blast+
    from d have "st_decision old = st_decision new \<Longrightarrow> st_status old \<noteq> st_status new" by (auto simp: state_of_def)
    with r c show ?thesis by (auto simp: change_event_def)
  next
    case 2
    then have "r = REASON_UNIT_COUNT_CHANGED" "st_units old \<noteq> None" "st_units new \<noteq> None" "st_units old \<noteq> st_units new"
      by (auto simp: unit_reason_def split: if_split_asm)
    with c show ?thesis by (auto simp: change_event_def dest: int_str_inj)
  qed
qed

definition material :: "application_state \<Rightarrow> application_state \<Rightarrow> bool" where
  "material old new = (state_of old \<noteq> state_of new \<and> \<not> (state_of old \<in> set TERMINAL_STATES \<and> state_of new = STATE_NOT_YET_DECIDED) \<or>
     (\<exists>m n. st_units old = Some m \<and> st_units new = Some n \<and> m \<noteq> n))"

text \<open>
  The lifecycle log grows by events of this application exactly for a material change: a new planning state that is not a formal outcome lapsing to
  undecided, or two known unit counts that differ. There are then one or two events, at most one for the units and one for the state, and each records two values that differ.
\<close>

theorem log_records_material_changes:
  "\<exists>evs. record_material_change_events app (detect_material_application_change old new) src stats logged = (length evs, stats + length evs, logged @ evs) \<and>
     length evs \<le> 2 \<and> (evs = []) = (\<not> material old new) \<and>
     list_all (\<lambda>e. ev_application e = app \<and> ev_old e \<noteq> ev_new e) evs \<and> distinct (map ev_field evs)"
proof -
  let ?c = "detect_material_application_change old new"
  define evs where "evs = map (change_event app src ?c) (mc_reasons ?c)"
  have rs: "mc_reasons ?c = state_reason (state_of old) (state_of new) @ unit_reason old new" "mc_changed ?c = (mc_reasons ?c \<noteq> [])"
    by (simp_all add: detect_material_application_change_def Let_def)
  have "record_material_change_events app ?c src stats logged = (length evs, stats + length evs, logged @ evs)"
    by (simp add: record_material_change_events_def rs(2) evs_def)
  moreover have "length evs \<le> 2" by (simp add: evs_def rs(1) state_reason_def unit_reason_def)
  moreover have "(evs = []) = (\<not> material old new)"
    by (auto simp: evs_def rs(1) material_def state_reason_def unit_reason_def split: if_split_asm)
  moreover have "list_all (\<lambda>e. ev_application e = app \<and> ev_old e \<noteq> ev_new e) evs"
    using change_event_differs [of _ old new app src] by (auto simp: evs_def list_all_iff) (simp add: change_event_def)
  moreover have "distinct (map ev_field evs)"
  proof -
    have "ev_field (change_event app src ?c r) \<noteq> Some ''estimated_unit_count''" if "r \<in> set (state_reason (state_of old) (state_of new))" for r
      using reasons_distinct [OF that] by (simp add: change_event_def)
    then show ?thesis by (auto simp: evs_def rs(1) state_reason_def unit_reason_def change_event_def)
  qed
  ultimately show ?thesis by blast
qed

section \<open>The lapse clock\<close>

lemma leap_apart: "leap y \<Longrightarrow> \<not> leap (y + 1) \<and> \<not> leap (y + 2) \<and> \<not> leap (y + 3)"
  unfolding leap_def by presburger

lemma three_years: "days_before_year (y + 3) - days_before_year y = 1095 + of_bool (leap y) + of_bool (leap (y + 1)) + of_bool (leap (y + 2))"
proof -
  have "y + 1 + 1 = y + 2" "y + 2 + 1 = y + 3" by simp_all
  then show ?thesis using leap_year_length [of y] leap_year_length [of "y + 1"] leap_year_length [of "y + 2"]
    by (simp only:) (cases "leap y"; cases "leap (y + 1)"; cases "leap (y + 2)"; simp; linarith)
qed

lemma days_before_month_leap: "days_before_month y m = month_offset m + of_bool (2 < m \<and> leap y)"
  by (simp add: days_before_month_def)

lemma lapse_deadline_exists:
  assumes "valid_date d" and "d_year d \<le> 9996"
  shows "\<exists>e. resolve_lapse_deadline d = Inr e \<and> valid_date e \<and> d_year e = d_year d + 3 \<and> d_month e = d_month d \<and>
    (d_day e = d_day d \<or> d_month d = 2 \<and> d_day d = 29 \<and> d_day e = 28 \<and> leap (d_year d))"
proof (cases "d_day d \<le> days_in_month (d_year d + 3) (d_month d)")
  case True
  with assms have "valid_date (d\<lparr>d_year := d_year d + 3\<rparr>)" by (simp add: valid_date_def)
  then show ?thesis by (simp add: resolve_lapse_deadline_def replace_year_def COMMENCEMENT_YEARS_def)
next
  case False
  with assms(1) have m: "d_month d = 2" "leap (d_year d)" "d_day d = 29" "\<not> leap (d_year d + 3)"
    by (auto simp: valid_date_def days_in_month_def split: if_split_asm)
  with assms have "\<not> valid_date (d\<lparr>d_year := d_year d + 3\<rparr>)" "valid_date (d\<lparr>d_day := 28, d_year := d_year d + 3\<rparr>)"
    by (auto simp: valid_date_def days_in_month_def)
  with m show ?thesis by (simp add: resolve_lapse_deadline_def replace_year_def COMMENCEMENT_YEARS_def)
qed

lemma lapse_deadline_days:
  assumes "valid_date d" and "d_year e = d_year d + 3" and "d_month e = d_month d"
    and "d_day e = d_day d \<or> d_month d = 2 \<and> d_day d = 29 \<and> d_day e = 28 \<and> leap (d_year d)"
  shows "toordinal e - toordinal d \<in> {1095, 1096}"
proof -
  define y m where "y = d_year d" and "m = d_month d"
  have "toordinal e - toordinal d = (days_before_year (y + 3) - days_before_year y) + (of_bool (2 < m \<and> leap (y + 3)) - of_bool (2 < m \<and> leap y)) + (d_day e - d_day d)"
    by (simp add: toordinal_def days_before_month_leap assms(2,3) y_def m_def)
  also have "\<dots> = 1095 + of_bool (leap y) + of_bool (leap (y + 1)) + of_bool (leap (y + 2)) + of_bool (2 < m \<and> leap (y + 3)) - of_bool (2 < m \<and> leap y) + (d_day e - d_day d)"
    by (simp add: three_years)
  finally have t: "toordinal e - toordinal d = \<dots>" .
  have "leap y \<Longrightarrow> \<not> leap (y + 1) \<and> \<not> leap (y + 2) \<and> \<not> leap (y + 3)" "leap (y + 1) \<Longrightarrow> \<not> leap (y + 2) \<and> \<not> leap (y + 3)" "leap (y + 2) \<Longrightarrow> \<not> leap (y + 3)"
    using leap_apart [of y] leap_apart [of "y + 1"] leap_apart [of "y + 2"] by (simp_all add: add.assoc)
  with t assms(4) show ?thesis
    by (cases "leap y"; cases "leap (y + 1)"; cases "leap (y + 2)"; cases "leap (y + 3)"; cases "2 < m") (auto simp: y_def m_def)
qed

text \<open>
  For every real decision date up to year 9996 the review deadline exists: a valid date of the same month, three years on, the same day but for 29
  February (the 28th), 1095 or 1096 days later. The status splits at the deadline: lapsed after it, approaching on it and for 180 days before, safe earlier.
\<close>

theorem lapse_deadline_three_years:
  assumes "la_resolved a" and "la_decision_date a = Some d" and "valid_date d" and "d \<noteq> date_min" and "d_year d \<le> 9996"
  shows "\<exists>e l. compute_lapse_status today a raw = Inr l \<and> ls_deadline l = Some e \<and> valid_date e \<and> d_month e = d_month d \<and> d_year e = d_year d + 3 \<and>
    (d_day e = d_day d \<or> d_month d = 2 \<and> d_day d = 29 \<and> d_day e = 28) \<and> toordinal e - toordinal d \<in> {1095, 1096} \<and>
    ls_status l = (if toordinal e < today then LAPSED else if toordinal e - 180 \<le> today then APPROACHING else SAFE)"
proof -
  from lapse_deadline_exists [OF assms(3,5)] obtain e where e: "resolve_lapse_deadline d = Inr e" "valid_date e" "d_year e = d_year d + 3"
    "d_month e = d_month d" "d_day e = d_day d \<or> d_month d = 2 \<and> d_day d = 29 \<and> d_day e = 28 \<and> leap (d_year d)" by blast
  have "toordinal e - toordinal d \<in> {1095, 1096}" by (rule lapse_deadline_days [OF assms(3) e(3-5)])
  with e assms show ?thesis by (auto simp: compute_lapse_status_def Let_def LAPSE_WARNING_DAYS_def dated_def classify_build_status_def)
qed

theorem lapse_deadline_three_years_witness:
  "\<exists>e l. compute_lapse_status (toordinal \<lparr>d_year = 2027, d_month = 2, d_day = 28\<rparr>)
     \<lparr>la_resolved = True, la_any_granted = True, la_application = Some 1, la_decision_date = Some \<lparr>d_year = 2024, d_month = 2, d_day = 29\<rparr>\<rparr> None = Inr l \<and>
     ls_deadline l = Some e \<and> d_year e = 2027"
proof -
  have "valid_date \<lparr>d_year = 2024, d_month = 2, d_day = 29\<rparr>" by code_simp
  from lapse_deadline_three_years [where a = "\<lparr>la_resolved = True, la_any_granted = True, la_application = Some 1,
        la_decision_date = Some \<lparr>d_year = 2024, d_month = 2, d_day = 29\<rparr>\<rparr>"
      and raw = None and today = "toordinal \<lparr>d_year = 2027, d_month = 2, d_day = 28\<rparr>", OF _ _ this]
  show ?thesis by (auto simp: date_min_def)
qed

section \<open>Reading dates back\<close>

definition pad :: "nat \<Rightarrow> int \<Rightarrow> str" where
  "pad k n = (let s = int_str n in replicate (k - length s) CHR ''0'' @ s)"

definition iso_text :: "date \<Rightarrow> str" where
  "iso_text d = pad 4 (d_year d) @ ''-'' @ pad 2 (d_month d) @ ''-'' @ pad 2 (d_day d)"

definition slash_text :: "date \<Rightarrow> str" where
  "slash_text d = int_str (d_day d) @ ''/'' @ int_str (d_month d) @ ''/'' @ pad 4 (d_year d)"

lemma num_of_zeros: "num_of (replicate k CHR ''0'' @ s) = num_of s"
  by (induction k) (simp_all add: num_of_Cons)

lemma pad_digits: "1 \<le> n \<Longrightarrow> list_all is_digit (pad k n) \<and> num_of (pad k n) = n \<and> pad k n \<noteq> []"
proof -
  assume n: "1 \<le> n"
  have "is_digit CHR ''0''" by (simp add: is_digit_def)
  then have "list_all is_digit (replicate j CHR ''0'')" for j by (induction j) simp_all
  with canonical_int_str [OF n] show ?thesis by (simp add: pad_def Let_def num_of_zeros)
qed

lemma pad_length: "1 \<le> n \<Longrightarrow> n < 10 ^ k \<Longrightarrow> 0 < k \<Longrightarrow> length (pad k n) = k"
proof -
  assume "1 \<le> n" "n < 10 ^ k" "0 < k"
  then have "length (int_str n) \<le> k" using nat_str_length [of "nat n" k] by (simp add: int_str_def nat_less_iff)
  then show "length (pad k n) = k" by (simp add: pad_def Let_def)
qed

lemma year_field: "1 \<le> y \<Longrightarrow> y \<le> 9999 \<Longrightarrow> fixed_num 4 (pad 4 y) = Some y"
  using pad_digits [of y 4] pad_length [of y 4] by (simp add: fixed_num_def)

lemma short_fields:
  assumes "1 \<le> n" and "n \<le> hi" and "hi < 100"
  shows "num_field hi (int_str n) = Some n" and "num_field hi (pad 2 n) = Some n"
proof -
  have "length (int_str n) \<le> 2" using nat_str_length [of "nat n" 2] assms by (simp add: int_str_def nat_less_iff)
  with canonical_int_str [OF assms(1)] assms show "num_field hi (int_str n) = Some n" by (simp add: num_field_def)
  have "length (pad 2 n) = 2" using assms by (intro pad_length) simp_all
  with pad_digits [OF assms(1), of 2] assms show "num_field hi (pad 2 n) = Some n" by (simp add: num_field_def)
qed

lemma day_field_digits: "list_all is_digit s \<Longrightarrow> day_field s = num_field 31 s"
proof -
  assume "list_all is_digit s"
  then have "hd s \<noteq> CHR '' ''" if "s \<noteq> []" using that by (cases s) (auto simp: is_digit_def less_eq_char_def)
  then show ?thesis by (auto simp: day_field_def split: list.splits char.splits bool.splits)
qed

lemma digits_plain: "list_all is_digit s \<Longrightarrow> c \<in> set ''-/ '' \<Longrightarrow> c \<notin> set s"
  by (auto simp: list_all_iff is_digit_def less_eq_char_def)

lemma no_words: "list_all (\<lambda>c. \<not> is_space c) s \<Longrightarrow> parse_idox s = None \<and> strip s = s"
proof -
  assume s: "list_all (\<lambda>c. \<not> is_space c) s"
  have "split_words_acc w s = (if w @ s = [] then [] else [w @ s])" for w
    using s by (induction s arbitrary: w) simp_all
  from this [of "[]"] have "split_words s = (if s = [] then [] else [s])" by (simp add: split_words_def)
  moreover have "strip s = s" using s by (intro strip_plain) (auto simp: list_all_iff)
  ultimately show ?thesis by (simp add: parse_idox_def)
qed

lemma dated_text_plain: "list_all (\<lambda>c. is_digit c \<or> c = CHR ''-'' \<or> c = CHR ''/'') s \<Longrightarrow> list_all (\<lambda>c. \<not> is_space c) s"
  using digit_not_space by (fastforce simp: list_all_iff is_space_def)

text \<open>
  Every valid date survives the portal formats: written day/month/year without padding, or year-month-day with it, it is read back as itself.
\<close>

theorem portal_dates_round_trip:
  assumes "valid_date d"
  shows "parse_portal_date (Some (slash_text d)) = d \<and> parse_portal_date (Some (iso_text d)) = d"
proof -
  have y: "1 \<le> d_year d" "d_year d \<le> 9999" and m: "1 \<le> d_month d" "d_month d \<le> 12" and dd: "1 \<le> d_day d" "d_day d \<le> 31"
    using assms days_in_month_le [of "d_year d" "d_month d"] by (auto simp: valid_date_def)
  note num = year_field [OF y] short_fields [OF m] short_fields [OF dd]
  note dig = pad_digits [OF y(1), of 4] pad_digits [OF m(1), of 2] pad_digits [OF dd(1), of 2] canonical_int_str(3,4) [OF m(1)] canonical_int_str(3,4) [OF dd(1)]
  have plain: "CHR ''/'' \<notin> set s \<and> CHR ''-'' \<notin> set s" if "list_all is_digit s" for s using digits_plain [OF that] by simp
  have b: "build_date (Some (d_year d)) (Some (d_month d)) (Some (d_day d)) = Some d" using assms by (cases d) (simp add: build_date_def)
  have "list_all (\<lambda>c. is_digit c \<or> c = CHR ''-'' \<or> c = CHR ''/'') (slash_text d)" "list_all (\<lambda>c. is_digit c \<or> c = CHR ''-'' \<or> c = CHR ''/'') (iso_text d)"
    using dig by (auto simp: slash_text_def iso_text_def list_all_iff)
  note w = no_words [OF dated_text_plain [OF this(1)]] no_words [OF dated_text_plain [OF this(2)]]
  have s: "split_on CHR ''/'' (slash_text d) = [int_str (d_day d), int_str (d_month d), pad 4 (d_year d)]" "split_on CHR ''-'' (slash_text d) = [slash_text d]"
    using dig plain by (simp_all add: slash_text_def)
  have i: "split_on CHR ''-'' (iso_text d) = [pad 4 (d_year d), pad 2 (d_month d), pad 2 (d_day d)]"
    using dig plain by (simp add: iso_text_def)
  have ne: "slash_text d \<noteq> []" "iso_text d \<noteq> []" by (simp_all add: slash_text_def iso_text_def)
  have "parse_slash (slash_text d) = Some d" "parse_iso (slash_text d) = None" "parse_iso (iso_text d) = Some d"
    using dig num b by (simp_all add: parse_slash_def parse_iso_def s i day_field_digits)
  with w ne show ?thesis
    by (simp add: parse_portal_date_def Let_def)
qed

theorem portal_dates_round_trip_witness:
  "parse_portal_date (Some ''16/8/2024'') = \<lparr>d_year = 2024, d_month = 8, d_day = 16\<rparr>"
proof -
  have v: "valid_date \<lparr>d_year = 2024, d_month = 8, d_day = 16\<rparr>" by code_simp
  have "slash_text \<lparr>d_year = 2024, d_month = 8, d_day = 16\<rparr> = ''16/8/2024''" by code_simp
  with portal_dates_round_trip [OF v] show ?thesis by simp
qed

end
