(* ===== verification/Reconciliation.thy ===== *)
theory Reconciliation
  imports PlanningState MatchingFacts
begin

text \<open>
  Scheme reconciliation: app/reporting/scheme_reconciliation.py. The applications linked to a site become the
  consented position, the active positions and the anchor of the lapse clock. This theory holds the roles, the ranking and the resolvers of one list of rows;
  how rows are given their scopes is in \<open>PhaseTracking\<close>.

  The classifiers of proposal text built on regular expressions (app/scrapers/unit_filter.py, app/reporting/residential_count_eligibility.py and
  \<open>extract_phase_labels\<close> of app/pipeline/phase_tracking.py) are the fields of \<open>text_rules\<close>. A position is the \<open>count_source\<close> of its row: the
  freshness and relationship fields, copied from the row for display, are not carried. The affordable-housing summary is in \<open>AffordableScope\<close>.
\<close>

section \<open>Rows\<close>

record scheme_row =
  sr_total_units :: pyval
  sr_housing_typology :: "str option"
  sr_specialist_type :: "str option"
  sr_development_type :: "str option"
  sr_affordable_percentage :: "rat option"
  sr_affordable_units :: "int option"
  sr_affordable_tenure :: "str option"
  sr_affordable_status :: "str option"
  sr_affordable_notes :: "str option"
  sr_affordable_status_note :: "str option"
  sr_affordable_evidence :: "str option"
  sr_core_complete :: bool

record portal_row =
  rw_id :: int
  rw_reference :: str
  rw_site_id :: "int option"
  rw_council :: str
  rw_address :: "str option"
  rw_proposal :: "str option"
  rw_application_type :: "str option"
  rw_status :: "str option"
  rw_decision :: "str option"
  rw_decision_issued :: "str option"
  rw_received :: "str option"
  rw_category :: "str option"
  rw_estimated_units :: pyval
  rw_link_method :: "str option"
  rw_link_confidence :: "rat option"
  rw_scheme :: "scheme_row option"

record text_rules =
  rule_category :: "str option \<Rightarrow> str"
  rule_ineligible :: "portal_row \<Rightarrow> pyval \<Rightarrow> str option"
  rule_unit_counts :: "str option \<Rightarrow> int list"
  rule_labels :: "portal_row \<Rightarrow> (str \<times> str) list"

datatype relationship = RELATIONSHIP_HIGH | RELATIONSHIP_REVIEW_REQUIRED | RELATIONSHIP_UNKNOWN

definition resolve_relationship_confidence :: "portal_row \<Rightarrow> relationship \<times> str option \<times> rat option" where
  "resolve_relationship_confidence a = (let m = rw_link_method a in
     if m \<in> {Some ''exact_address'', Some ''parent_reference'', Some ''created''} then (RELATIONSHIP_HIGH, m, None)
     else if m = Some ''suggested_fuzzy'' then (RELATIONSHIP_REVIEW_REQUIRED, m, rw_link_confidence a)
     else (RELATIONSHIP_UNKNOWN, m, None))"

section \<open>Planning roles\<close>

datatype planning_role = ROLE_OUTLINE | ROLE_HYBRID | ROLE_FULL | ROLE_RESERVED_MATTERS | ROLE_S73_VARIATION | ROLE_NMC_AMENDMENT
  | ROLE_CONDITION_DISCHARGE | ROLE_EIA_SCREENING | ROLE_EIA_SCOPING | ROLE_PRIOR_APPROVAL | ROLE_CERTIFICATE
  | ROLE_LISTED_BUILDING_OR_ANCILLARY | ROLE_EXTERNAL_CONSULTATION | ROLE_OTHER_SUBSTANTIVE | ROLE_UNKNOWN

fun role_str :: "planning_role \<Rightarrow> str" where
  "role_str ROLE_OUTLINE = ''outline''"
| "role_str ROLE_HYBRID = ''hybrid''"
| "role_str ROLE_FULL = ''full''"
| "role_str ROLE_RESERVED_MATTERS = ''reserved_matters''"
| "role_str ROLE_S73_VARIATION = ''s73_variation''"
| "role_str ROLE_NMC_AMENDMENT = ''nmc_amendment''"
| "role_str ROLE_CONDITION_DISCHARGE = ''condition_discharge''"
| "role_str ROLE_EIA_SCREENING = ''eia_screening''"
| "role_str ROLE_EIA_SCOPING = ''eia_scoping''"
| "role_str ROLE_PRIOR_APPROVAL = ''prior_approval''"
| "role_str ROLE_CERTIFICATE = ''certificate_of_lawfulness''"
| "role_str ROLE_LISTED_BUILDING_OR_ANCILLARY = ''listed_building_or_ancillary''"
| "role_str ROLE_EXTERNAL_CONSULTATION = ''external_consultation''"
| "role_str ROLE_OTHER_SUBSTANTIVE = ''other_substantive''"
| "role_str ROLE_UNKNOWN = ''unknown''"

definition SUBSTANTIVE_ROLES :: "planning_role list" where
  "SUBSTANTIVE_ROLES = [ROLE_OUTLINE, ROLE_HYBRID, ROLE_FULL, ROLE_RESERVED_MATTERS, ROLE_OTHER_SUBSTANTIVE]"

definition NON_SUBSTANTIVE_ROLES :: "planning_role list" where
  "NON_SUBSTANTIVE_ROLES = [ROLE_NMC_AMENDMENT, ROLE_CONDITION_DISCHARGE, ROLE_EIA_SCREENING, ROLE_EIA_SCOPING, ROLE_PRIOR_APPROVAL,
     ROLE_CERTIFICATE, ROLE_LISTED_BUILDING_OR_ANCILLARY, ROLE_EXTERNAL_CONSULTATION, ROLE_UNKNOWN]"

definition any_in :: "str list \<Rightarrow> str \<Rightarrow> bool" where
  "any_in ws t = list_ex (\<lambda>w. contains w t) ws"

definition proposal_norm :: "portal_row \<Rightarrow> str" where
  "proposal_norm a = lower (str_or (rw_proposal a) [] @ '' '' @ str_or (rw_application_type a) [])"

definition EIA_SCOPING_WORDING :: "str list" where
  "EIA_SCOPING_WORDING = [''scoping opinion'', ''scoping request'', ''eia scoping'', ''environmental impact assessment scoping'',
     ''request for a scoping opinion'', ''request for scoping opinion'', ''request for a scoping'']"

definition EIA_SCREENING_WORDING :: "str list" where
  "EIA_SCREENING_WORDING = [''screening opinion'', ''screening request'', ''eia screening'', ''environmental impact assessment screening'',
     ''request for a screening opinion'', ''request for screening opinion'', ''request for a screening'']"

definition EIA_SCOPING_DECISIONS :: "str list" where
  "EIA_SCOPING_DECISIONS = [''scoping opinion issued'', ''scoping opinion'']"

definition EIA_SCREENING_DECISIONS :: "str list" where
  "EIA_SCREENING_DECISIONS = [''eia not required'', ''eia required'', ''environmental impact assessment not required'',
     ''environmental impact assessment required'', ''screening opinion issued'', ''environmental statement not required'',
     ''environmental assessment not required'']"

definition eia_role :: "portal_row \<Rightarrow> planning_role option" where
  "eia_role a = (let t = proposal_norm a; d = lower (strip (str_or (rw_decision a) [])) in
     if any_in EIA_SCOPING_WORDING t \<or> d \<in> set EIA_SCOPING_DECISIONS then Some ROLE_EIA_SCOPING
     else if any_in EIA_SCREENING_WORDING t \<or> d \<in> set EIA_SCREENING_DECISIONS then Some ROLE_EIA_SCREENING
     else None)"

definition ADMINISTRATIVE_APPLICATION_TYPES :: "str list" where
  "ADMINISTRATIVE_APPLICATION_TYPES = [''modification of obligation'', ''variation of obligation'', ''deed of variation'', ''discharge of condition'',
     ''variation of condition'', ''removal of condition'', ''non-material amendment'', ''non material amendment'', ''confirmation of compliance'',
     ''certificate of lawfulness'', ''approval of details'', ''section 73'', ''s73'', ''adjoining authority consultation'', ''screening opinion'',
     ''scoping opinion'']"

definition is_administrative_application_type :: "str option \<Rightarrow> bool" where
  "is_administrative_application_type ty = any_in ADMINISTRATIVE_APPLICATION_TYPES (lower (str_or ty []))"

definition variation_role :: "str \<Rightarrow> str \<Rightarrow> planning_role" where
  "variation_role t ty =
    (if any_in [''non-material amendment'', ''non material amendment'', ''nmc'', ''nma '', ''working amendment''] t \<or> contains ''non-material'' ty
       then ROLE_NMC_AMENDMENT
     else if contains ''deed of variation'' t then ROLE_LISTED_BUILDING_OR_ANCILLARY else ROLE_S73_VARIATION)"

definition resolve_planning_role :: "text_rules \<Rightarrow> portal_row \<Rightarrow> planning_role" where
  "resolve_planning_role rules a =
    (let t = proposal_norm a; ty = lower (str_or (rw_application_type a) []); category = rule_category rules (rw_proposal a) in
     if contains ''article 18 consultation'' t then ROLE_EXTERNAL_CONSULTATION
     else (case eia_role a of Some r \<Rightarrow> r | None \<Rightarrow>
     if category = ''screening_or_scoping_opinion'' \<or> contains ''screening opinion'' ty \<or> contains ''scoping opinion'' ty
       then (if contains ''scoping'' t then ROLE_EIA_SCOPING else ROLE_EIA_SCREENING)
     else if category = ''external_consultation'' \<or> contains ''adjoining authority consultation'' ty then ROLE_EXTERNAL_CONSULTATION
     else if category = ''condition_discharge_or_details'' \<or> any_in [''discharge of condition'', ''approval of details''] ty then ROLE_CONDITION_DISCHARGE
     else if category = ''variation_or_amendment'' \<or> contains ''section 73'' t \<or> prefix ''s73 '' t \<or>
       any_in [''non-material amendment'', ''non material amendment'', ''section 73'', ''s73'', ''variation of condition'', ''removal of condition'',
               ''minor material amendment''] ty then variation_role t ty
     else if contains ''certificate of lawful'' t \<or> contains ''lawful development certificate'' t \<or> contains ''certificate of lawful'' ty then ROLE_CERTIFICATE
     else if contains ''prior approval'' t \<or> contains ''prior approval'' ty then ROLE_PRIOR_APPROVAL
     else if contains ''listed building'' t \<or> contains ''listed building'' ty \<or> contains ''advertisement consent'' t then ROLE_LISTED_BUILDING_OR_ANCILLARY
     else if category = ''reserved_matters'' \<or> contains ''reserved matters'' ty then ROLE_RESERVED_MATTERS
     else if any_in [''hybrid'', ''part outline part full'', ''part full part outline'', ''outline and full'', ''full and outline''] t then ROLE_HYBRID
     else if category = ''outline_application'' \<or> contains ''outline'' ty \<or> any_in [''outline application'', ''outline planning'', ''outline permission''] t
       then ROLE_OUTLINE
     else if category \<in> {''primary_residential'', ''affordable_or_specialist_housing'', ''mixed_use'', ''build_to_rent''} then ROLE_FULL
     else if is_administrative_application_type (rw_application_type a) then ROLE_LISTED_BUILDING_OR_ANCILLARY
     else if category = ''non_target_admin_or_minor'' then ROLE_LISTED_BUILDING_OR_ANCILLARY
     else if category = ''unknown'' then ROLE_UNKNOWN
     else ROLE_OTHER_SUBSTANTIVE))"

section \<open>Resolved rows\<close>

record resolved_row =
  rr_row :: portal_row
  rr_role :: planning_role
  rr_decided :: decided
  rr_scope_type :: str
  rr_scope_label :: str

definition SCOPE_WHOLE_SITE :: str where "SCOPE_WHOLE_SITE = ''whole_site''"
definition SCOPE_UNCLEAR :: str where "SCOPE_UNCLEAR = ''unclear''"
definition SCOPE_PHASE :: str where "SCOPE_PHASE = ''phase''"
definition SCOPE_PLOT :: str where "SCOPE_PLOT = ''plot''"

definition decided_state :: "portal_row \<Rightarrow> decided" where
  "decided_state a = resolve_decided_state (rw_decision a) (rw_status a)"

definition resolve_row :: "text_rules \<Rightarrow> str \<Rightarrow> str \<Rightarrow> portal_row \<Rightarrow> resolved_row" where
  "resolve_row rules ty lbl a = \<lparr>rr_row = a, rr_role = resolve_planning_role rules a, rr_decided = decided_state a, rr_scope_type = ty, rr_scope_label = lbl\<rparr>"

definition rr_id :: "resolved_row \<Rightarrow> int" where
  "rr_id r = rw_id (rr_row r)"

definition received :: "resolved_row \<Rightarrow> date" where
  "received r = parse_portal_date (rw_received (rr_row r))"

definition decision_date :: "resolved_row \<Rightarrow> date option" where
  "decision_date r = (let d = rw_decision_issued (rr_row r) in if truthy d then Some (parse_portal_date d) else None)"

definition is_substantive :: "resolved_row \<Rightarrow> bool" where
  "is_substantive r = (rr_role r \<in> set SUBSTANTIVE_ROLES)"

definition scope_of_row :: "resolved_row \<Rightarrow> str \<times> str" where
  "scope_of_row r = (rr_scope_type r, rr_scope_label r)"

text \<open>Dates are compared as their ordinals; \<open>False < True\<close>.\<close>

definition by_grant_then_recency :: "resolved_row \<Rightarrow> bool \<times> int \<times> int \<times> int" where
  "by_grant_then_recency r = (rr_decided r = DECIDED_GRANTED, toordinal (opt_or (decision_date r) date_min), toordinal (received r), rr_id r)"

definition position :: "resolved_row \<Rightarrow> pyval \<Rightarrow> count_source" where
  "position r v = \<lparr>cs_application_id = rr_id r, cs_application_reference = rw_reference (rr_row r), cs_value = v, cs_scope_type = rr_scope_type r,
     cs_scope_label = rr_scope_label r, cs_decision_date = map_option toordinal (decision_date r), cs_planning_role = Some (role_str (rr_role r)),
     cs_qualified = False, cs_qualifier = None, cs_subject_id = [], cs_metric = [], cs_evidence_date = None, cs_version = None,
     cs_source_reference = None, cs_lower = None, cs_upper = None\<rparr>"

section \<open>Facts\<close>

datatype fact_value = NoValue | TextValue str | CountValue int

record operative_fact =
  of_fact :: str
  of_state :: fact_state
  of_value :: fact_value
  of_source :: "count_source option"
  of_confidence :: str
  of_reason :: str
  of_conflicts :: "count_source list"
  of_count :: "count_assessment option"

definition undetermined :: "str \<Rightarrow> str \<Rightarrow> operative_fact" where
  "undetermined name reason = \<lparr>of_fact = name, of_state = FACT_NOT_DETERMINED, of_value = NoValue, of_source = None, of_confidence = ''none'',
     of_reason = reason, of_conflicts = [], of_count = None\<rparr>"

definition resolved_fact :: "str \<Rightarrow> fact_value \<Rightarrow> count_source option \<Rightarrow> str \<Rightarrow> str \<Rightarrow> operative_fact" where
  "resolved_fact name v src confidence reason = \<lparr>of_fact = name, of_state = FACT_RESOLVED, of_value = v, of_source = src, of_confidence = confidence,
     of_reason = reason, of_conflicts = [], of_count = None\<rparr>"

text \<open>Positions of reference and status facts carry the text in \<open>of_value\<close>; their \<open>cs_value\<close> is not read.\<close>

definition text_fact :: "str \<Rightarrow> str \<Rightarrow> resolved_row \<Rightarrow> str \<Rightarrow> str \<Rightarrow> operative_fact" where
  "text_fact name v lead confidence reason = resolved_fact name (TextValue v) (Some (position lead PyUnparsable)) confidence reason"

definition first_seen :: "'a list \<Rightarrow> 'a list" where
  "first_seen xs = rev (remdups (rev xs))"

definition granted_rows :: "resolved_row list \<Rightarrow> resolved_row list" where
  "granted_rows rs = filter (\<lambda>r. is_substantive r \<and> rr_decided r = DECIDED_GRANTED) rs"

definition live :: "resolved_row \<Rightarrow> bool" where
  "live r = (rr_decided r \<in> {DECIDED_RECOMMENDATION_ONLY, DECIDED_UNDETERMINED})"

definition terminal_key :: "resolved_row \<Rightarrow> int \<times> int \<times> int" where
  "terminal_key r = (toordinal (opt_or (decision_date r) date_min), toordinal (received r), rr_id r)"

definition granted_facts :: "resolved_row list \<Rightarrow> resolved_row \<Rightarrow> operative_fact \<times> operative_fact" where
  "granted_facts granted lead =
    (let others = filter (\<lambda>g. rr_id g \<noteq> rr_id lead) granted; ref = rw_reference (rr_row lead) in
     (text_fact ''consented_reference'' ref lead ''high''
        (''latest granted substantive application ('' @ role_str (rr_role lead) @ '')'' @
         (if others = [] then [] else ''; other granted applications retained: '' @ join '', '' (map (\<lambda>g. rw_reference (rr_row g)) others))),
      text_fact ''consented_planning_status'' ''Permission granted'' lead ''high''
        (''granted substantive application '' @ ref @ '' ('' @ role_str (rr_role lead) @ '')'' @
         (if truthy (rw_decision_issued (rr_row lead)) then '', decision '' @ str_or (rw_decision_issued (rr_row lead)) [] else []))))"

definition terminal_facts :: "resolved_row \<Rightarrow> operative_fact \<times> operative_fact" where
  "terminal_facts lead =
    (let lbl = (if rr_decided lead = DECIDED_REFUSED then ''Refused'' else ''Withdrawn''); ref = rw_reference (rr_row lead) in
     (undetermined ''consented_reference'' (''no permission was ever granted - the last substantive application ('' @ ref @ '') was '' @ lower lbl),
      text_fact ''consented_planning_status'' lbl lead ''medium'' (''all substantive applications refused/withdrawn; latest is '' @ ref)))"

definition resolve_reference_and_status :: "resolved_row list \<Rightarrow> operative_fact \<times> operative_fact" where
  "resolve_reference_and_status rs =
    (let substantive = filter is_substantive rs; granted = granted_rows rs; lv = filter live substantive;
         reason = (if lv \<noteq> [] then ''a substantive application is live but not yet granted - see the active planning position(s)''
           else ''no substantive planning application (outline/full/hybrid/reserved-matters) linked to this site'') in
     (case max_by by_grant_then_recency granted of Some lead \<Rightarrow> granted_facts granted lead
      | None \<Rightarrow> (case (lv, max_by terminal_key substantive) of ([], Some lead) \<Rightarrow> terminal_facts lead
          | _ \<Rightarrow> (undetermined ''consented_reference'' reason, undetermined ''consented_planning_status'' reason))))"

section \<open>The lapse anchor\<close>

record operative_anchor =
  an_state :: fact_state
  an_application :: "portal_row option"
  an_role :: "planning_role option"
  an_decision_date :: "date option"
  an_reason :: str
  an_any_granted :: bool

definition resolve_operative_lapse_anchor :: "text_rules \<Rightarrow> portal_row list \<Rightarrow> operative_anchor" where
  "resolve_operative_lapse_anchor rules rows =
    (let candidates = map (resolve_row rules SCOPE_UNCLEAR []) rows; any_granted = list_ex (\<lambda>r. rr_decided r = DECIDED_GRANTED) candidates in
     (case max_by by_grant_then_recency (granted_rows candidates) of
        None \<Rightarrow> \<lparr>an_state = FACT_NOT_DETERMINED, an_application = None, an_role = None, an_decision_date = None,
          an_reason = (if \<not> any_granted then ''no granted application exists in this scope''
            else ''a granted application exists in this scope but none is substantive-role-eligible (see SUBSTANTIVE_ROLES) - the operative permission cannot safely be determined''),
          an_any_granted = any_granted\<rparr>
      | Some lead \<Rightarrow> \<lparr>an_state = FACT_RESOLVED, an_application = Some (rr_row lead), an_role = Some (rr_role lead), an_decision_date = decision_date lead,
          an_reason = ''latest granted substantive application ('' @ role_str (rr_role lead) @ '')'', an_any_granted = True\<rparr>))"

text \<open>The anchor as \<open>compute_lapse_status\<close> reads it.\<close>

definition anchor_of :: "operative_anchor \<Rightarrow> lapse_anchor" where
  "anchor_of a = \<lparr>la_resolved = (an_state a = FACT_RESOLVED), la_any_granted = an_any_granted a, la_application = map_option rw_id (an_application a),
     la_decision_date = an_decision_date a\<rparr>"

section \<open>Unit counts\<close>

definition eligible_residential_scalar :: "text_rules \<Rightarrow> portal_row \<Rightarrow> pyval \<Rightarrow> pyval" where
  "eligible_residential_scalar rules a v = (if rule_ineligible rules a v = None then v else PyNone)"

definition scheme_total :: "portal_row \<Rightarrow> pyval" where
  "scheme_total a = (case rw_scheme a of None \<Rightarrow> PyNone | Some s \<Rightarrow> sr_total_units s)"

definition scheme_total_units :: "text_rules \<Rightarrow> resolved_row \<Rightarrow> int option" where
  "scheme_total_units rules r = (let v = scheme_total (rr_row r) in
     if v = PyNone then None else known_unit_count (eligible_residential_scalar rules (rr_row r) v))"

definition portal_estimated_units :: "text_rules \<Rightarrow> resolved_row \<Rightarrow> int option" where
  "portal_estimated_units rules r = (let a = rr_row r in
     if rule_ineligible rules a (scheme_total a) \<noteq> None then None
     else if rw_estimated_units a \<noteq> PyNone then known_unit_count (eligible_residential_scalar rules a (rw_estimated_units a))
     else (case remdups (map (\<lambda>n. known_unit_count (PyInt n)) (rule_unit_counts rules (rw_proposal a))) of
         [Some n] \<Rightarrow> if rule_ineligible rules a (PyInt n) = None then Some n else None
       | _ \<Rightarrow> None))"

definition s73_addresses_units :: "text_rules \<Rightarrow> resolved_row \<Rightarrow> bool" where
  "s73_addresses_units rules r = (rr_role r = ROLE_S73_VARIATION \<and> scheme_total_units rules r \<noteq> None)"

text \<open>\<open>(?<![A-Za-z0-9/])ref(?![A-Za-z0-9/])\<close>, ignoring case: \<open>prev\<close> says whether such a character precedes.\<close>

definition ref_char :: "char \<Rightarrow> bool" where
  "ref_char c = (is_alnum c \<or> c = CHR ''/'')"

fun names_reference :: "bool \<Rightarrow> str \<Rightarrow> str \<Rightarrow> bool" where
  "names_reference prev ref s =
    ((\<not> prev \<and> prefix (lower ref) (lower s) \<and> (case drop (length ref) s of [] \<Rightarrow> True | c # _ \<Rightarrow> \<not> ref_char c)) \<or>
     (case s of [] \<Rightarrow> False | c # r \<Rightarrow> names_reference (ref_char c) ref r))"

declare names_reference.simps [simp del]

definition varies :: "resolved_row \<Rightarrow> resolved_row \<Rightarrow> bool" where
  "varies v b = (rr_role v = ROLE_S73_VARIATION \<and> rr_id b \<noteq> rr_id v \<and> scope_of_row b = scope_of_row v \<and>
     names_reference False (rw_reference (rr_row b)) (str_or (rw_proposal (rr_row v)) []) \<and>
     (case (decision_date v, decision_date b) of (Some dv, Some db) \<Rightarrow> toordinal dv > toordinal db | _ \<Rightarrow> False))"

definition SPECIALIST_TERMS :: "str list" where
  "SPECIALIST_TERMS = [''care home'', ''extra care'', ''extra-care'', ''nursing home'', ''supported living'', ''assisted living'', ''retirement living'',
     ''close care'', ''care beds'', ''care apartments'', ''residential institution'', ''c2 use'', ''use class c2'']"

definition has_specialist_component :: "resolved_row list \<Rightarrow> int option \<Rightarrow> bool" where
  "has_specialist_component rs source = list_ex (\<lambda>r. (source = None \<or> source = Some (rr_id r)) \<and>
     ((case rw_scheme (rr_row r) of None \<Rightarrow> False | Some s \<Rightarrow> truthy (sr_specialist_type s)) \<or>
      any_in SPECIALIST_TERMS (lower (str_or (rw_proposal (rr_row r)) [])))) rs"

definition count_fact :: "str \<Rightarrow> count_assessment \<Rightarrow> operative_fact" where
  "count_fact name a =
    (let v = exact_value a; conflict = ca_resolution a \<in> {''material_conflict'', ''immaterial_variance'', ''malformed_evidence''} in
     \<lparr>of_fact = name, of_state = (if v \<noteq> None then FACT_RESOLVED else if conflict then FACT_CONFLICT else FACT_NOT_DETERMINED),
      of_value = (case v of None \<Rightarrow> NoValue | Some n \<Rightarrow> CountValue n),
      of_source = (if v \<noteq> None \<and> ca_sources a \<noteq> [] then Some (hd (ca_sources a)) else None), of_confidence = ca_confidence a,
      of_reason = (if count_note a \<noteq> [] then count_note a else ca_resolution a), of_conflicts = (if conflict then ca_sources a else []), of_count = Some a\<rparr>)"

definition contain_count_assessment :: "text_rules \<Rightarrow> count_assessment \<Rightarrow> resolved_row list \<Rightarrow> count_assessment" where
  "contain_count_assessment rules a rows =
    (let rejected = List.map_filter (\<lambda>r. rule_ineligible rules (rr_row r) (scheme_total (rr_row r))) rows in
     if rejected \<noteq> [] \<and> (ca_sources a = [] \<or> ''qualified_quantity_withheld'' \<in> set rejected)
     then a\<lparr>ca_precision := UNKNOWN, ca_value := None, ca_lower := None, ca_upper := None,
       ca_resolution := (if set rejected = {''qualified_quantity_withheld''} then ''qualified_quantity_withheld'' else ''material_conflict''),
       ca_confidence := ''none''\<rparr>
     else a)"

definition extracted :: "text_rules \<Rightarrow> resolved_row list \<Rightarrow> resolved_row list" where
  "extracted rules rs = filter (\<lambda>r. scheme_total (rr_row r) \<noteq> PyNone \<and> rule_ineligible rules (rr_row r) (scheme_total (rr_row r)) = None) rs"

definition estimates :: "text_rules \<Rightarrow> resolved_row list \<Rightarrow> count_source list" where
  "estimates rules rs = List.map_filter (\<lambda>r. map_option (\<lambda>n. position r (PyInt n)) (portal_estimated_units rules r)) rs"

definition subject_id :: "resolved_row list \<Rightarrow> str \<Rightarrow> str \<Rightarrow> str" where
  "subject_id rs ty lbl = (case rs of [] \<Rightarrow> [] | r # _ \<Rightarrow> ''site:'' @ opt_int_str (rw_site_id (rr_row r)) @ '':'' @ ty @ '':'' @ lbl)"

definition count_metric :: "resolved_row list \<Rightarrow> str" where
  "count_metric rs = (if has_specialist_component rs None then ''all_use_units'' else total_residential)"

definition approved_scope :: "resolved_row list \<Rightarrow> str \<times> str" where
  "approved_scope rs = (case remdups (map scope_of_row rs) of [s] \<Rightarrow> s | _ \<Rightarrow> (SCOPE_UNCLEAR, ''Whole site''))"

definition count_eligible :: "text_rules \<Rightarrow> resolved_row list \<Rightarrow> resolved_row list" where
  "count_eligible rules rs = filter (\<lambda>r. rr_decided r = DECIDED_GRANTED \<and> (is_substantive r \<or> s73_addresses_units rules r)) rs"

definition superseded_in :: "resolved_row list \<Rightarrow> resolved_row \<Rightarrow> bool" where
  "superseded_in eligible b = list_ex (\<lambda>v. list_ex (\<lambda>w. varies v w \<and> rr_id w = rr_id b) eligible) eligible"

definition current_rows :: "resolved_row list \<Rightarrow> resolved_row list" where
  "current_rows eligible = filter (\<lambda>b. \<not> superseded_in eligible b) eligible"

definition approved_assessment :: "text_rules \<Rightarrow> resolved_row list \<Rightarrow> count_source list \<Rightarrow> count_assessment" where
  "approved_assessment rules rs superseded =
    (let (ty, lbl) = approved_scope rs; current = current_rows (count_eligible rules rs);
         ps = map (\<lambda>r. position r (scheme_total (rr_row r))) (extracted rules current);
         used = (if ps = [] then estimates rules (filter is_substantive current) else ps);
         a = assess_positions ty lbl (subject_id rs ty lbl) (count_metric current) (Some ''consented'') ''high'' superseded used;
         a1 = (if ps = [] \<and> ca_precision a \<in> {EXACT, APPROXIMATE}
           then a\<lparr>ca_precision := APPROXIMATE, ca_lower := None, ca_upper := None, ca_resolution := ''portal_estimate'', ca_confidence := ''low''\<rparr> else a) in
     contain_count_assessment rules a1 current)"

definition superseded_positions :: "text_rules \<Rightarrow> resolved_row list \<Rightarrow> count_source list" where
  "superseded_positions rules rs = (let eligible = count_eligible rules rs in
     List.map_filter (\<lambda>r. if superseded_in eligible r then map_option (\<lambda>n. position r (PyInt n)) (scheme_total_units rules r) else None) eligible)"

definition resolve_approved_units :: "text_rules \<Rightarrow> resolved_row list \<Rightarrow> operative_fact \<times> count_source list" where
  "resolve_approved_units rules rs = (let superseded = superseded_positions rules rs in
     (count_fact ''approved_residential_units'' (approved_assessment rules rs superseded), superseded))"

section \<open>Positions\<close>

definition resolve_residential_only :: "resolved_row list \<Rightarrow> operative_fact \<Rightarrow> operative_fact" where
  "resolve_residential_only rs f =
    (if of_state f \<noteq> FACT_RESOLVED then undetermined ''residential_only_units'' ''no operative total to assess''
     else if has_specialist_component rs (map_option cs_application_id (of_source f)) then undetermined ''residential_only_units''
       ''the operative scheme includes specialist accommodation (care / extra-care / supported living) and the existing evidence does not deterministically separate general residential dwellings from it - the wider all-use figure is preserved instead; no residential-only value is inferred''
     else resolved_fact ''residential_only_units'' (of_value f) (of_source f) (of_confidence f)
       ''no specialist-accommodation component evidenced for the operative scheme - the operative total is entirely general residential'')"

definition value_text :: "fact_value \<Rightarrow> str" where
  "value_text v = (case v of NoValue \<Rightarrow> ''None'' | TextValue t \<Rightarrow> t | CountValue n \<Rightarrow> int_str n)"

definition mix_parts :: "scheme_row \<Rightarrow> str list" where
  "mix_parts s = filter (\<lambda>t. t \<noteq> [])
     [str_or (sr_housing_typology s) [], if truthy (sr_specialist_type s) then ''specialist: '' @ str_or (sr_specialist_type s) [] else [],
      str_or (sr_development_type s) []]"

definition resolve_unit_mix :: "resolved_row list \<Rightarrow> operative_fact \<Rightarrow> operative_fact" where
  "resolve_unit_mix rs lead =
    (if of_state lead \<noteq> FACT_RESOLVED \<or> of_source lead = None then undetermined ''unit_mix'' ''no operative application''
     else (case find (\<lambda>r. Some (rr_id r) = map_option cs_application_id (of_source lead)) rs of
         None \<Rightarrow> undetermined ''unit_mix'' (''operative application '' @ value_text (of_value lead) @ '' has no extracted scheme intelligence'')
       | Some r \<Rightarrow> (case rw_scheme (rr_row r) of
           None \<Rightarrow> undetermined ''unit_mix'' (''operative application '' @ value_text (of_value lead) @ '' has no extracted scheme intelligence'')
         | Some s \<Rightarrow> if mix_parts s = [] then undetermined ''unit_mix''
               (''no housing typology / specialist type extracted for operative application '' @ value_text (of_value lead))
             else text_fact ''unit_mix'' (join ''; '' (mix_parts s)) r ''medium''
               (''read as one coherent record from operative application '' @ value_text (of_value lead)))))"

definition resolve_all_use_total :: "operative_fact \<Rightarrow> str \<Rightarrow> operative_fact" where
  "resolve_all_use_total f basis =
    (if of_state f \<noteq> FACT_RESOLVED then undetermined ''all_use_total_units'' (''no operative '' @ basis @ '' total to report'')
     else resolved_fact ''all_use_total_units'' (of_value f) (of_source f) (of_confidence f)
       (''operative '' @ basis @ '' total (all uses, before any residential-only split)''))"

record consented_position =
  cp_reference :: operative_fact
  cp_planning_status :: operative_fact
  cp_approved_units :: operative_fact
  cp_residential_only :: operative_fact
  cp_all_use_total :: operative_fact
  cp_unit_mix :: operative_fact
  cp_superseded :: "count_source list"

definition site_scope_rows :: "resolved_row list \<Rightarrow> resolved_row list" where
  "site_scope_rows rs = filter (\<lambda>r. rr_scope_type r \<in> {SCOPE_WHOLE_SITE, SCOPE_UNCLEAR}) rs"

definition resolve_consented_position :: "text_rules \<Rightarrow> bool \<Rightarrow> resolved_row list \<Rightarrow> consented_position" where
  "resolve_consented_position rules scoped resolved =
    (let rs = (if scoped then resolved else site_scope_rows resolved); (ref, status) = resolve_reference_and_status rs;
         (approved, superseded) = resolve_approved_units rules rs in
     \<lparr>cp_reference = ref, cp_planning_status = status, cp_approved_units = approved, cp_residential_only = resolve_residential_only rs approved,
      cp_all_use_total = resolve_all_use_total approved ''approved'', cp_unit_mix = resolve_unit_mix rs ref, cp_superseded = superseded\<rparr>)"

record live_position =
  lp_scope_type :: str
  lp_scope_label :: str
  lp_reference :: operative_fact
  lp_planning_status :: operative_fact
  lp_proposed_units :: operative_fact
  lp_residential_only :: operative_fact
  lp_all_use_total :: operative_fact
  lp_unit_mix :: operative_fact

definition proposed_assessment :: "text_rules \<Rightarrow> resolved_row list \<Rightarrow> resolved_row \<Rightarrow> str \<Rightarrow> str \<Rightarrow> count_assessment" where
  "proposed_assessment rules grp lead ty lbl =
    (let ex = extracted rules grp; ps = map (\<lambda>r. position r (scheme_total (rr_row r))) ex; used = (if ps = [] then estimates rules grp else ps);
         a = assess_positions ty lbl (subject_id [lead] ty lbl) (count_metric grp) (Some ''active'') (if ex \<noteq> [] then ''high'' else ''low'') [] used;
         a1 = (if ex = [] \<and> ca_precision a = EXACT
           then a\<lparr>ca_precision := APPROXIMATE, ca_lower := None, ca_upper := None, ca_resolution := ''portal_estimate''\<rparr> else a) in
     contain_count_assessment rules a1 grp)"

definition recency_key :: "resolved_row \<Rightarrow> int \<times> int" where
  "recency_key r = (toordinal (received r), rr_id r)"

definition active_status :: "resolved_row \<Rightarrow> str \<Rightarrow> operative_fact" where
  "active_status lead lbl =
    (let rec = rr_decided lead = DECIDED_RECOMMENDATION_ONLY in
     text_fact ''active_planning_status'' (if rec then ''Awaiting decision (officer recommendation made)'' else ''Awaiting decision'') lead ''medium''
       (''substantive application '' @ rw_reference (rr_row lead) @ '' pending in scope '' @ lbl @
        (if rec then '' - recommendation is never treated as permission'' else [])))"

text \<open>\<open>grp\<close> is never empty.\<close>

definition build_active_position :: "text_rules \<Rightarrow> resolved_row list \<Rightarrow> str \<Rightarrow> str \<Rightarrow> live_position" where
  "build_active_position rules grp ty lbl =
    (let with_fig = filter (\<lambda>r. scheme_total_units rules r \<noteq> None \<or> portal_estimated_units rules r \<noteq> None) grp;
         lead = the (max_by recency_key (if with_fig = [] then grp else with_fig));
         ref = text_fact ''active_reference'' (rw_reference (rr_row lead)) lead ''high'' (''live substantive application in scope '' @ lbl);
         proposed = count_fact ''proposed_residential_units'' (proposed_assessment rules grp lead ty lbl) in
     \<lparr>lp_scope_type = ty, lp_scope_label = lbl, lp_reference = ref, lp_planning_status = active_status lead lbl, lp_proposed_units = proposed,
      lp_residential_only = resolve_residential_only [lead] proposed, lp_all_use_total = resolve_all_use_total proposed ''proposed'',
      lp_unit_mix = resolve_unit_mix [lead] ref\<rparr>)"

definition live_rows :: "resolved_row list \<Rightarrow> resolved_row list" where
  "live_rows rs = filter (\<lambda>r. (is_substantive r \<or> rr_role r = ROLE_S73_VARIATION) \<and> live r) rs"

definition resolve_active_positions :: "text_rules \<Rightarrow> resolved_row list \<Rightarrow> live_position list" where
  "resolve_active_positions rules rs = (let lv = live_rows rs in
     map (\<lambda>(ty, lbl). build_active_position rules (filter (\<lambda>r. scope_of_row r = (ty, lbl)) lv) ty lbl)
       (sort_key snd (first_seen (map scope_of_row lv))))"

section \<open>Planning facts\<close>

record planning_facts =
  pf_resolved :: "resolved_row list"
  pf_consented :: consented_position
  pf_active :: "live_position list"
  pf_scope_note :: str
  pf_selected_scope :: "(str \<times> str) option"

definition scope_note :: "resolved_row list \<Rightarrow> str" where
  "scope_note rs = (let named = sorted_set (map rr_scope_label (filter (\<lambda>r. rr_scope_type r \<in> {SCOPE_PHASE, SCOPE_PLOT}) rs)) in
     if named = [] then ''single-scope scheme (no distinct phases/material development parcels evidenced)''
     else ''multi-scope scheme; distinct scopes: '' @ join '', '' named)"

definition facts_of_rows :: "text_rules \<Rightarrow> resolved_row list \<Rightarrow> planning_facts" where
  "facts_of_rows rules rs = \<lparr>pf_resolved = rs, pf_consented = resolve_consented_position rules False rs, pf_active = resolve_active_positions rules rs,
     pf_scope_note = scope_note rs, pf_selected_scope = None\<rparr>"

definition unknown_count :: count_assessment where
  "unknown_count = base_assessment SCOPE_UNCLEAR ''Whole site'' [] total_residential [] None []"

definition consent_exists :: "resolved_row list \<Rightarrow> bool" where
  "consent_exists rs = list_ex (\<lambda>r. rr_decided r = DECIDED_GRANTED \<and> (is_substantive r \<or> rr_role r = ROLE_S73_VARIATION)) rs"

definition count_assessment_for_facts :: "planning_facts \<Rightarrow> count_assessment" where
  "count_assessment_for_facts f =
    (let selected = pf_selected_scope f \<noteq> None; rs = (if selected then pf_resolved f else site_scope_rows (pf_resolved f));
         approved = opt_or (of_count (cp_approved_units (pf_consented f))) unknown_count;
         active = filter (\<lambda>p. selected \<or> lp_scope_type p \<in> {SCOPE_WHOLE_SITE, SCOPE_UNCLEAR}) (pf_active f) in
     if consent_exists rs then approved
     else (case active of [p] \<Rightarrow> opt_or (of_count (lp_proposed_units p)) approved | _ \<Rightarrow> approved))"

definition planning_facts_for_scope :: "text_rules \<Rightarrow> planning_facts \<Rightarrow> str \<Rightarrow> str \<Rightarrow> planning_facts" where
  "planning_facts_for_scope rules f ty lbl = (let rs = filter (\<lambda>r. scope_of_row r = (ty, lbl)) (pf_resolved f) in
     f\<lparr>pf_resolved := rs, pf_selected_scope := Some (ty, lbl), pf_consented := resolve_consented_position rules True rs,
       pf_active := resolve_active_positions rules rs\<rparr>)"

definition scoped_count_assessment :: "text_rules \<Rightarrow> portal_row list \<Rightarrow> str \<Rightarrow> str \<Rightarrow> count_assessment" where
  "scoped_count_assessment rules apps ty lbl =
    (let rs = map (resolve_row rules ty lbl) apps; approved = opt_or (of_count (fst (resolve_approved_units rules rs))) unknown_count; lv = live_rows rs in
     if consent_exists rs then approved
     else if lv \<noteq> [] then opt_or (of_count (lp_proposed_units (build_active_position rules lv ty lbl))) approved
     else approved)"

section \<open>As buyer matching reads them\<close>

definition plain_fact :: "operative_fact \<Rightarrow> fact" where
  "plain_fact f = \<lparr>fa_state = of_state f, fa_value = (case of_value f of TextValue t \<Rightarrow> Some t | _ \<Rightarrow> None),
     fa_source = map_option cs_application_id (of_source f), fa_count = of_count f\<rparr>"

definition decided_str :: "decided \<Rightarrow> str" where
  "decided_str d = (case d of DECIDED_GRANTED \<Rightarrow> ''granted'' | DECIDED_REFUSED \<Rightarrow> ''refused'' | DECIDED_WITHDRAWN \<Rightarrow> ''withdrawn''
     | DECIDED_RECOMMENDATION_ONLY \<Rightarrow> ''recommendation_only'' | DECIDED_UNDETERMINED \<Rightarrow> ''undetermined'')"

definition operative_view :: "planning_facts \<Rightarrow> operative_facts" where
  "operative_view f = \<lparr>op_planning_status = plain_fact (cp_planning_status (pf_consented f)), op_reference = plain_fact (cp_reference (pf_consented f)),
     op_approved_units = plain_fact (cp_approved_units (pf_consented f)),
     op_active_positions = map (\<lambda>p. \<lparr>po_reference = plain_fact (lp_reference p), po_proposed_units = plain_fact (lp_proposed_units p)\<rparr>) (pf_active f),
     op_resolved_applications = map (\<lambda>r. (rw_reference (rr_row r), decided_str (rr_decided r))) (pf_resolved f)\<rparr>"

end
