(* ===== verification/SubjectRelationships.thy ===== *)
theory SubjectRelationships
  imports UnitFilter ResidualOpportunity Reconciliation
begin

text \<open>
  Which phase is pursued under which permission: app/reporting/subject_relationships.py. The only relationship is containment, derived from the one reference that a reserved
  matters proposal cites. References are compared exactly; the patterns ignore case, so they run over the lowered text and captures are read from the text itself.
\<close>

section \<open>Citations\<close>

definition ref_part :: rx where
  "ref_part = Plus (Cls (\<lambda>c. is_alnum c))"

definition ref_join :: rx where
  "ref_join = Cls (\<lambda>c. c = CHR ''/'' \<or> c = CHR ''-'')"

text \<open>Two to five parts; a longer candidate does not match at all.\<close>

definition REF_RE :: rx where
  "REF_RE = Seq (Group (Seqs [ref_part, Seq ref_join ref_part, UpTo 3 (Seq ref_join ref_part)])) (NotAhead (Alt (Cls is_alnum) (Seq ref_join (Cls is_alnum))))"

definition number_word :: rx where
  "number_word = Seqs [Gap, Opt (Alts [Seq (Lit ''ref'') (Opt (Lit ''.'')), Lit ''reference'', Seq (Lit ''no'') (Opt (Lit ''.''))]), Gap, Opt (Lit '':''), Gap, Opt (Lit ''('')]"

definition reserved_matters_words :: rx where
  "reserved_matters_words = Seqs [Lit ''reserved'', Spaces, Lit ''matters'']"

definition word_then_space :: "str list \<Rightarrow> rx" where
  "word_then_space ws = Seq (Words ws) Spaces"

definition QUALIFYING_PATTERNS :: "rx list" where
  "QUALIFYING_PATTERNS =
    [Seqs [Lit ''pursuant'', Spaces, Lit ''to'', Spaces, Opt (word_then_space [''the'']), Opt (word_then_space [''outline'', ''hybrid'', ''full'', ''detailed'']),
       Opt (word_then_space [''planning'']), Words [''permission'', ''approval''], number_word, REF_RE],
     Seqs [Lit ''pursuant'', Spaces, Lit ''to'', Spaces, Opt (word_then_space [''the'']), Words [''outline'', ''hybrid''], Spaces, Opt (word_then_space [''planning'']),
       Lit ''application'', number_word, REF_RE],
     Seqs [Lit ''following'', Spaces, Opt (Seq (Alts [Lit ''outline'', Lit ''hybrid'', Lit ''full'', reserved_matters_words]) Spaces), Opt (word_then_space [''planning'']),
       Lit ''approval'', number_word, REF_RE]]"

definition four_to_six_digits :: rx where
  "four_to_six_digits = Seqs [Digit, Digit, Digit, Digit, UpTo 2 Digit]"

definition BARE_DIGIT_PATTERNS :: "rx list" where
  "BARE_DIGIT_PATTERNS =
    [Seqs [Alt (Seqs [Lit ''pursuant'', Spaces, Lit ''to'']) (Lit ''following''), Spaces, Opt (word_then_space [''the'']),
       Many (Seq (Alts [Lit ''outline'', Lit ''hybrid'', Lit ''full'', Lit ''detailed'', reserved_matters_words, Lit ''planning'']) Spaces),
       Words [''permission'', ''approval'', ''application''], number_word, four_to_six_digits, Edge],
     Seqs [reserved_matters_words, LazyUpTo 60 Dot, Lit ''('', four_to_six_digits, Lit '')'']]"

definition UNSPECIFIED_PATTERNS :: "rx list" where
  "UNSPECIFIED_PATTERNS =
    [Seqs [Lit ''relating'', Spaces, Lit ''to'', Spaces, Opt (word_then_space [''approved'']), Lit ''app'', Opt (Lit ''lication''), Gap,
       Opt (Seq (Lit ''no'') (Opt (Lit ''.''))), Gap, Opt (Lit ''(''), REF_RE],
     Seqs [Lit ''in'', Spaces, Lit ''association'', Spaces, Lit ''with'', Spaces, Opt (Seq (Lit ''application'') Gap), Opt (Lit ''(''), REF_RE]]"

definition TRAILING :: str where
  "TRAILING = [CHR '' '', CHR 0x09, CHR 0x0D, CHR 0x0A, CHR ''.'', CHR '','', CHR '';'', CHR '':'', CHR '')'', CHR 0x27, CHR 0x22, CHR '']'']"

definition normalise_reference :: "str \<Rightarrow> str" where
  "normalise_reference raw = strip (dropWhile (\<lambda>c. c = CHR ''('') (rev (dropWhile (\<lambda>c. c \<in> set TRAILING) (rev (strip raw)))))"

text \<open>\<open>s.split()\<close>\<close>

fun split_space :: "str \<Rightarrow> str \<Rightarrow> str list" where
  "split_space w [] = (if w = [] then [] else [w])"
| "split_space w (c # cs) = (if is_space c then (if w = [] then split_space [] cs else w # split_space [] cs) else split_space (w @ [c]) cs)"

definition normalise_phrase :: "str \<Rightarrow> str" where
  "normalise_phrase phrase = join '' '' (split_space [] phrase)"

definition match_text :: "str \<Rightarrow> rx_match \<Rightarrow> str" where
  "match_text s m = take (mt_end m - mt_start m) (drop (mt_start m) s)"

record citation_scan =
  sc_qualifying :: "(str \<times> str) list"
  sc_bare_digit :: bool
  sc_unspecified :: bool

definition all_matches :: "rx list \<Rightarrow> str \<Rightarrow> rx_match list" where
  "all_matches rs s = concat (map (\<lambda>r. finditer r s) rs)"

definition overlaps :: "rx_match list \<Rightarrow> rx_match \<Rightarrow> bool" where
  "overlaps ms m = list_ex (\<lambda>q. mt_start m < mt_end q \<and> mt_start q < mt_end m) ms"

text \<open>A citation is a reference and the text it was found in; of several texts the first, and the references in order.\<close>

definition citations :: "str \<Rightarrow> rx_match list \<Rightarrow> (str \<times> str) list" where
  "citations text ms = filter (\<lambda>c. fst c \<noteq> []) (map (\<lambda>m. (normalise_reference (str_or (group_text text m) []), normalise_phrase (match_text text m))) ms)"

definition scan_parent_citations :: "str option \<Rightarrow> citation_scan" where
  "scan_parent_citations t =
    (let text = str_or t []; s = lower text; ms = all_matches QUALIFYING_PATTERNS s; found = citations text ms in
     \<lparr>sc_qualifying = map (\<lambda>r. (r, str_or (map_of found r) [])) (sorted_set (map fst found)),
      sc_bare_digit = list_ex (\<lambda>m. \<not> overlaps ms m) (all_matches BARE_DIGIT_PATTERNS s),
      sc_unspecified = (all_matches UNSPECIFIED_PATTERNS s \<noteq> [])\<rparr>)"

section \<open>Containment\<close>

datatype containment_reason = QUALIFIED | NO_CITATION | BARE_DIGIT_CITATION | UNSPECIFIED_RELATION | NOT_RESERVED_MATTERS | AMBIGUOUS_CITATIONS
  | CITED_APPLICATION_NOT_FOUND | CITED_NOT_PARENT_COUNT_SOURCE | PARENT_SCOPE_NOT_WHOLE_SITE | PARENT_NOT_EXACT_OPERATIVE | MULTIPLE_PARENT_ASSESSMENTS
  | CHILD_NOT_PHASE_SCOPE | NO_CHILD_SOURCE | METRIC_NOT_COMPATIBLE | PARENT_SITE_MISMATCH | SUBJECT_IDENTITY_UNAVAILABLE

record relationship_evidence =
  re_child :: str
  re_parent :: str
  re_child_application :: str
  re_parent_application :: str
  re_provenance :: str

definition SITE_ID_RE :: rx where
  "SITE_ID_RE = Seqs [Lit ''site:'', Group (Seq (Cls (\<lambda>c. CHR ''1'' \<le> c \<and> c \<le> CHR ''9'')) (Many Digit)), Lit '':'']"

definition site_id_of :: "str \<Rightarrow> int option" where
  "site_id_of subject = (case match_at SITE_ID_RE subject 0 of None \<Rightarrow> None | Some m \<Rightarrow> group_value subject m)"

definition source_references :: "count_assessment \<Rightarrow> str set" where
  "source_references a = cs_application_reference ` set (ca_sources a)"

text \<open>The reserved matters applications behind the child's count, by reference.\<close>

definition child_sources :: "count_assessment \<Rightarrow> int \<Rightarrow> resolved_row list \<Rightarrow> resolved_row list" where
  "child_sources child site rows = filter (\<lambda>r. rw_reference (rr_row r) \<in> source_references child \<and> rw_site_id (rr_row r) = Some site) rows"

definition reserved_matters_rows :: "resolved_row list \<Rightarrow> resolved_row list" where
  "reserved_matters_rows rows = sort_key (\<lambda>r. rw_reference (rr_row r)) (filter (\<lambda>r. rr_role r = ROLE_RESERVED_MATTERS) rows)"

text \<open>What the rows cite, each reference with the first row citing it.\<close>

definition row_citations :: "resolved_row list \<Rightarrow> (str \<times> resolved_row \<times> str) list" where
  "row_citations rows = concat (map (\<lambda>r. map (\<lambda>c. (fst c, r, snd c)) (sc_qualifying (scan_parent_citations (rw_proposal (rr_row r))))) rows)"

fun keep_first :: "('a \<times> 'b) list \<Rightarrow> ('a \<times> 'b) list" where
  "keep_first [] = []"
| "keep_first (x # xs) = x # filter (\<lambda>y. fst y \<noteq> fst x) (keep_first xs)"

definition no_citation_reason :: "resolved_row list \<Rightarrow> containment_reason" where
  "no_citation_reason rows = (let scans = map (\<lambda>r. scan_parent_citations (rw_proposal (rr_row r))) rows in
     if list_ex sc_bare_digit scans then BARE_DIGIT_CITATION else if list_ex sc_unspecified scans then UNSPECIFIED_RELATION else NO_CITATION)"

text \<open>The parents the cited application supports, gate after gate.\<close>

definition parent_gates :: "str \<Rightarrow> int \<Rightarrow> count_assessment list \<Rightarrow> containment_reason + str" where
  "parent_gates cited site parents =
    (let a = filter (\<lambda>p. cited \<in> source_references p) parents;
         b = filter (\<lambda>p. site_id_of (ca_subject_id p) = Some site) a;
         c = filter (\<lambda>p. ca_scope_type p = SCOPE_WHOLE_SITE) b;
         d = filter (\<lambda>p. ca_metric p = total_residential) c;
         e = filter (\<lambda>p. ca_precision p = EXACT \<and> ca_basis p = Some ''consented'') d in
     if a = [] then Inl CITED_NOT_PARENT_COUNT_SOURCE
     else if b = [] then Inl PARENT_SITE_MISMATCH
     else if c = [] then Inl PARENT_SCOPE_NOT_WHOLE_SITE
     else if d = [] then Inl METRIC_NOT_COMPATIBLE
     else if e = [] then Inl PARENT_NOT_EXACT_OPERATIVE
     else (case sorted_set (map ca_subject_id e) of [p] \<Rightarrow> Inr p | _ \<Rightarrow> Inl MULTIPLE_PARENT_ASSESSMENTS))"

text \<open>\<open>Inl\<close> is no relationship, with the reason; \<open>Inr\<close> is the relationship, whose reason is \<open>QUALIFIED\<close>.\<close>

definition derive_containment :: "count_assessment \<Rightarrow> count_assessment list \<Rightarrow> resolved_row list \<Rightarrow> containment_reason + relationship_evidence" where
  "derive_containment child parents rows =
    (if ca_scope_type child \<noteq> SCOPE_PHASE then Inl CHILD_NOT_PHASE_SCOPE
     else (case site_id_of (ca_subject_id child) of None \<Rightarrow> Inl SUBJECT_IDENTITY_UNAVAILABLE
     | Some site \<Rightarrow>
       let sources = child_sources child site rows; rm = reserved_matters_rows sources in
       if ca_metric child \<noteq> total_residential then Inl METRIC_NOT_COMPATIBLE
       else if sources = [] then Inl NO_CHILD_SOURCE
       else if rm = [] then Inl NOT_RESERVED_MATTERS
       else (case keep_first (row_citations rm) of
           [] \<Rightarrow> Inl (no_citation_reason rm)
         | [(cited, r, phrase)] \<Rightarrow>
             if \<not> list_ex (\<lambda>a. rw_reference (rr_row a) = cited \<and> rw_council (rr_row a) = rw_council (rr_row r) \<and> rw_site_id (rr_row a) = Some site) rows
             then Inl CITED_APPLICATION_NOT_FOUND
             else (case parent_gates cited site parents of Inl e \<Rightarrow> Inl e
               | Inr p \<Rightarrow> Inr \<lparr>re_child = ca_subject_id child, re_parent = p, re_child_application = rw_reference (rr_row r), re_parent_application = cited,
                   re_provenance = phrase\<rparr>)
         | _ \<Rightarrow> Inl AMBIGUOUS_CITATIONS)))"

end
