(* ===== verification/PhaseTracking.thy ===== *)
theory PhaseTracking
  imports Reconciliation ResidualCapacity
begin

text \<open>
  Phases and scopes: app/pipeline/phase_tracking.py, and the scope resolution and entry points of
  app/reporting/scheme_reconciliation.py that rest on it. The phase and plot labels of a row (\<open>extract_phase_labels\<close> on its proposal, then its
  address) are the field \<open>rule_labels\<close>. A group is keyed by code and kind; Python's dictionaries are association lists in insertion order.
\<close>

section \<open>Groups\<close>

definition UNPHASED_LABEL :: str where
  "UNPHASED_LABEL = ''Whole site / unphased''"

definition unphased_key :: "str \<times> str" where
  "unphased_key = (UNPHASED_LABEL, ''phase'')"

type_synonym groups = "((str \<times> str) \<times> portal_row list) list"

fun add_to_group :: "str \<times> str \<Rightarrow> portal_row list \<Rightarrow> groups \<Rightarrow> groups" where
  "add_to_group k as [] = [(k, as)]"
| "add_to_group k as ((k', bs) # gs) = (if k = k' then (k', bs @ as) # gs else (k', bs) # add_to_group k as gs)"

definition group_applications_by_phase :: "text_rules \<Rightarrow> portal_row list \<Rightarrow> groups" where
  "group_applications_by_phase rules apps = foldl (\<lambda>gs a.
     if rule_labels rules a = [] then add_to_group unphased_key [a] gs
     else foldl (\<lambda>gs k. add_to_group k [a] gs) gs (rule_labels rules a)) [] apps"

definition eligible_rows :: "text_rules \<Rightarrow> portal_row list \<Rightarrow> portal_row list" where
  "eligible_rows rules apps = filter (\<lambda>a. length (rule_labels rules a) = 1) apps"

definition title :: "str \<Rightarrow> str" where
  "title kind = (if kind = ''phase'' then ''Phase'' else ''Plot'')"

definition phase_assessment :: "text_rules \<Rightarrow> portal_row list \<Rightarrow> count_assessment" where
  "phase_assessment rules apps = (let el = eligible_rows rules apps in
     case remdups (map (\<lambda>a. hd (rule_labels rules a)) el) of
       [(code, kind)] \<Rightarrow> scoped_count_assessment rules el kind (title kind @ '' '' @ code)
     | _ \<Rightarrow> base_assessment ''unclear'' ''Unresolved phase scope'' [] total_residential [] None [])"

record phase_units =
  pu_unit_count :: "int option"
  pu_source :: "str option"
  pu_application :: "portal_row option"
  pu_assessment :: count_assessment
  pu_display :: str
  pu_note :: str

definition phase_unit_count :: "text_rules \<Rightarrow> portal_row list \<Rightarrow> phase_units" where
  "phase_unit_count rules apps =
    (let a = phase_assessment rules apps;
         src = find (\<lambda>r. rw_id r \<in> set (map cs_application_id (ca_sources a))) (eligible_rows rules apps) in
     \<lparr>pu_unit_count = exact_value a,
      pu_source = (if src = None then None else Some (if ca_resolution a = ''portal_estimate'' then ''portal_text'' else ''documents'')),
      pu_application = src, pu_assessment = a, pu_display = label a, pu_note = count_note a\<rparr>)"

definition MATERIAL_PARCEL_UNIT_THRESHOLD :: int where
  "MATERIAL_PARCEL_UNIT_THRESHOLD = 10"

definition is_material_development_parcel :: "text_rules \<Rightarrow> portal_row list \<Rightarrow> int \<Rightarrow> bool" where
  "is_material_development_parcel rules apps threshold = (case pu_unit_count (phase_unit_count rules apps) of
      Some n \<Rightarrow> n \<ge> threshold
    | None \<Rightarrow> (case remdups (concat (map (\<lambda>a. rule_unit_counts rules (rw_proposal a))
          (filter (\<lambda>a. resolve_planning_role rules a \<in> set SUBSTANTIVE_ROLES) (eligible_rows rules apps)))) of
        [n] \<Rightarrow> n \<ge> threshold | _ \<Rightarrow> False))"

definition not_yet_in :: "groups \<Rightarrow> str \<times> str \<Rightarrow> portal_row list \<Rightarrow> portal_row list" where
  "not_yet_in gs k as = foldl (\<lambda>new a. if rw_id a \<in> set (map rw_id (opt_or (map_of gs k) [] @ new)) then new else new @ [a]) [] as"

definition operative_key :: "text_rules \<Rightarrow> (str \<times> str) \<times> portal_row list \<Rightarrow> str \<times> str" where
  "operative_key rules g = (case g of ((code, kind), as) \<Rightarrow>
     if kind = ''plot'' \<and> code \<noteq> UNPHASED_LABEL \<and> \<not> is_material_development_parcel rules as MATERIAL_PARCEL_UNIT_THRESHOLD then unphased_key else (code, kind))"

definition group_applications_by_operative_scope :: "text_rules \<Rightarrow> portal_row list \<Rightarrow> groups" where
  "group_applications_by_operative_scope rules apps =
    foldl (\<lambda>gs g. let k = operative_key rules g in add_to_group k (not_yet_in gs k (snd g)) gs) [] (group_applications_by_phase rules apps)"

section \<open>Scopes of a site's rows\<close>

definition WHOLE_SITE_UNCONFIRMED :: "str \<times> str" where
  "WHOLE_SITE_UNCONFIRMED = (SCOPE_UNCLEAR, ''Whole site (scope not confirmed by phase evidence)'')"

definition named_groups :: "text_rules \<Rightarrow> portal_row list \<Rightarrow> groups" where
  "named_groups rules apps = filter (\<lambda>g. fst (fst g) \<noteq> UNPHASED_LABEL) (group_applications_by_operative_scope rules apps)"

definition keys_naming :: "groups \<Rightarrow> int \<Rightarrow> (str \<times> str) list" where
  "keys_naming gs i = map fst (filter (\<lambda>g. i \<in> set (map rw_id (snd g))) gs)"

definition scope_in :: "groups \<Rightarrow> int \<Rightarrow> str \<times> str" where
  "scope_in named i = (case keys_naming named i of
      [(code, kind)] \<Rightarrow> (if kind = ''phase'' then SCOPE_PHASE else SCOPE_PLOT, title kind @ '' '' @ code)
    | [] \<Rightarrow> if named \<noteq> [] then (SCOPE_WHOLE_SITE, ''Whole site'') else WHOLE_SITE_UNCONFIRMED
    | _ \<Rightarrow> (''multiple_scopes'', ''Multiple named scopes (extent unverified)''))"

definition resolve_applications :: "text_rules \<Rightarrow> portal_row list \<Rightarrow> resolved_row list" where
  "resolve_applications rules apps = (let named = named_groups rules apps in
     map (\<lambda>a. case scope_in named (rw_id a) of (ty, lbl) \<Rightarrow> resolve_row rules ty lbl a) apps)"

definition build_operative_planning_facts :: "text_rules \<Rightarrow> portal_row list \<Rightarrow> planning_facts" where
  "build_operative_planning_facts rules apps = facts_of_rows rules (resolve_applications rules apps)"

section \<open>Progress\<close>

datatype phase_status = PLANNING_ACTIVITY | APPROVED_COMMENCEMENT_UNVERIFIED | NOT_YET_APPROVED

record phase_progress =
  pp_status :: phase_status
  pp_latest_grant :: "portal_row option"
  pp_progress_filing :: "int option"

text \<open>Comparing a filing's date with the grant's where the grant has none: Python's \<open>TypeError\<close>.\<close>

datatype progress_error = GrantDateMissing

definition as_portal :: "portal_row \<Rightarrow> portal_application" where
  "as_portal a = \<lparr>pa_id = rw_id a, pa_status = rw_status a, pa_decision = rw_decision a, pa_category = rw_category a, pa_received = rw_received a,
     pa_validated = None, pa_expected_decision = None\<rparr>"

definition signals_progress :: "portal_row \<Rightarrow> bool" where
  "signals_progress a = (case rw_category a of None \<Rightarrow> False | Some c \<Rightarrow> c \<in> set PROGRESS_SIGNAL_CATEGORIES)"

definition granted_progress :: "portal_row list \<Rightarrow> portal_row \<Rightarrow> date option \<Rightarrow> progress_error + phase_progress" where
  "granted_progress apps grant since = (case since of
      None \<Rightarrow> if list_ex (\<lambda>a. signals_progress a \<and> rw_id a \<noteq> rw_id grant) apps then Inl GrantDateMissing
        else Inr \<lparr>pp_status = APPROVED_COMMENCEMENT_UNVERIFIED, pp_latest_grant = Some grant, pp_progress_filing = None\<rparr>
    | Some d \<Rightarrow> (case find_progress_signal_filing (map as_portal apps) (toordinal d) (Some (rw_id grant)) of
        Some f \<Rightarrow> Inr \<lparr>pp_status = PLANNING_ACTIVITY, pp_latest_grant = Some grant, pp_progress_filing = Some (pa_id f)\<rparr>
      | None \<Rightarrow> Inr \<lparr>pp_status = APPROVED_COMMENCEMENT_UNVERIFIED, pp_latest_grant = Some grant, pp_progress_filing = None\<rparr>))"

definition compute_phase_progress :: "text_rules \<Rightarrow> portal_row list \<Rightarrow> progress_error + phase_progress" where
  "compute_phase_progress rules apps = (let anchor = resolve_operative_lapse_anchor rules apps in
     case an_application anchor of
       Some grant \<Rightarrow> granted_progress apps grant (an_decision_date anchor)
     | None \<Rightarrow> (case find signals_progress apps of
         Some _ \<Rightarrow> Inr \<lparr>pp_status = PLANNING_ACTIVITY, pp_latest_grant = None, pp_progress_filing = None\<rparr>
       | None \<Rightarrow> Inr \<lparr>pp_status = NOT_YET_APPROVED, pp_latest_grant = None, pp_progress_filing = None\<rparr>))"

section \<open>Breakdowns\<close>

record phase_row =
  ph_label :: str
  ph_code :: str
  ph_kind :: str
  ph_applications :: "portal_row list"
  ph_progress :: phase_progress
  ph_units :: "phase_units option"

definition breakdown_row :: "text_rules \<Rightarrow> (str \<Rightarrow> str \<Rightarrow> bool) \<Rightarrow> (str \<times> str) \<times> portal_row list \<Rightarrow> progress_error + phase_row" where
  "breakdown_row rules counted g = (case g of ((code, kind), as) \<Rightarrow> (case compute_phase_progress rules as of Inl e \<Rightarrow> Inl e
     | Inr p \<Rightarrow> Inr \<lparr>ph_label = (if code = UNPHASED_LABEL then code else title kind @ '' '' @ code), ph_code = code, ph_kind = kind,
         ph_applications = as, ph_progress = p, ph_units = (if counted code kind then Some (phase_unit_count rules as) else None)\<rparr>))"

fun breakdown_rows :: "text_rules \<Rightarrow> (str \<Rightarrow> str \<Rightarrow> bool) \<Rightarrow> groups \<Rightarrow> progress_error + phase_row list" where
  "breakdown_rows rules counted [] = Inr []"
| "breakdown_rows rules counted (g # gs) = (case breakdown_row rules counted g of Inl e \<Rightarrow> Inl e
     | Inr r \<Rightarrow> (case breakdown_rows rules counted gs of Inl e \<Rightarrow> Inl e | Inr rs \<Rightarrow> Inr (r # rs)))"

definition breakdown_key :: "phase_row \<Rightarrow> bool \<times> bool \<times> str" where
  "breakdown_key r = (ph_code r = UNPHASED_LABEL, ph_kind r \<noteq> ''phase'', ph_code r)"

definition sorted_breakdown :: "text_rules \<Rightarrow> (str \<Rightarrow> str \<Rightarrow> bool) \<Rightarrow> groups \<Rightarrow> progress_error + phase_row list" where
  "sorted_breakdown rules counted gs = (case breakdown_rows rules counted gs of Inl e \<Rightarrow> Inl e | Inr rs \<Rightarrow> Inr (sort_key breakdown_key rs))"

definition no_breakdown :: "groups \<Rightarrow> bool" where
  "no_breakdown gs = (length gs \<le> 1 \<and> list_all (\<lambda>g. fst (fst g) = UNPHASED_LABEL) gs)"

definition build_phase_breakdown :: "text_rules \<Rightarrow> portal_row list \<Rightarrow> progress_error + phase_row list" where
  "build_phase_breakdown rules apps = (let gs = group_applications_by_phase rules apps in
     if no_breakdown gs then Inr [] else sorted_breakdown rules (\<lambda>code kind. kind = ''phase'' \<and> code \<noteq> UNPHASED_LABEL) gs)"

definition build_acquisition_scope_breakdown :: "text_rules \<Rightarrow> portal_row list \<Rightarrow> progress_error + phase_row list" where
  "build_acquisition_scope_breakdown rules apps =
    (if no_breakdown (group_applications_by_phase rules apps) then Inr []
     else sorted_breakdown rules (\<lambda>code kind. code \<noteq> UNPHASED_LABEL) (group_applications_by_operative_scope rules apps))"

definition acquisition_scope_key :: "phase_row \<Rightarrow> str" where
  "acquisition_scope_key r = (if ph_kind r = ''plot'' then ''plot_'' @ ph_code r else ph_code r)"

record bucket =
  bk_phase_count :: nat
  bk_units :: "int option"
  bk_known :: nat
  bk_phases :: "phase_row list"

definition row_units :: "phase_row \<Rightarrow> int option" where
  "row_units r = Option.bind (ph_units r) pu_unit_count"

definition phase_bucket :: "link_evidence list \<Rightarrow> phase_row list \<Rightarrow> phase_status \<Rightarrow> bucket" where
  "phase_bucket evidence phases st =
    (let rows = filter (\<lambda>p. pp_status (ph_progress p) = st) phases; known = List.map_filter row_units rows; codes = map ph_code rows;
         disjoint = distinct codes \<and> list_all (\<lambda>(a, b). {a, b} \<in> evidenced_pairs evidence) (pairs_of codes) in
     \<lparr>bk_phase_count = length rows, bk_units = (if known \<noteq> [] \<and> disjoint \<and> length known = length rows then Some (sum_list known) else None),
      bk_known = length known, bk_phases = rows\<rparr>)"

record phase_summary =
  ps_phase_count :: nat
  ps_planning_activity :: bucket
  ps_approved :: bucket
  ps_not_yet_approved :: bucket

definition summarize_phase_units :: "phase_row list \<Rightarrow> link_evidence list \<Rightarrow> phase_summary" where
  "summarize_phase_units breakdown evidence =
    (let phases = filter (\<lambda>p. ph_kind p = ''phase'' \<and> ph_code p \<noteq> UNPHASED_LABEL) breakdown in
     \<lparr>ps_phase_count = length phases, ps_planning_activity = phase_bucket evidence phases PLANNING_ACTIVITY,
      ps_approved = phase_bucket evidence phases APPROVED_COMMENCEMENT_UNVERIFIED, ps_not_yet_approved = phase_bucket evidence phases NOT_YET_APPROVED\<rparr>)"

end
