(* ===== verification/ResidualFeed.thy ===== *)
theory ResidualFeed
  imports SubjectRelationships PhaseTracking
begin

text \<open>
  The residuals of the buyer feed (app/reporting/residual_feed.py) and the route of an opportunity (app/reporting/opportunity_route.py). The planning facts of the sites are
  those of \<open>PhaseTracking\<close>; SHA-256 is the parameter \<open>sha\<close>, the classifiers of text are \<open>rules\<close>.
\<close>

section \<open>Residuals by site\<close>

definition phase_rows :: "resolved_row list \<Rightarrow> resolved_row list" where
  "phase_rows rows = filter (\<lambda>r. rr_scope_type r = SCOPE_PHASE) rows"

definition children_for :: "text_rules \<Rightarrow> resolved_row list \<Rightarrow> count_assessment list" where
  "children_for rules rows = filter (\<lambda>a. ca_basis a = Some ''consented'')
     (map (\<lambda>l. scoped_count_assessment rules (map rr_row (filter (\<lambda>r. rr_scope_label r = l) (phase_rows rows))) SCOPE_PHASE l)
       (sorted_set (map rr_scope_label (phase_rows rows))))"

type_synonym evidence_provider = "int \<Rightarrow> count_assessment \<Rightarrow> count_assessment list \<Rightarrow> residual_evidence option"

definition containment_pairs :: "count_assessment \<Rightarrow> count_assessment list \<Rightarrow> resolved_row list \<Rightarrow> link_evidence list" where
  "containment_pairs parent children rows = List.map_filter (\<lambda>child. case derive_containment child [parent] rows of Inl _ \<Rightarrow> None
     | Inr rel \<Rightarrow> Some (re_child rel, re_parent rel, Some (''RM_DIRECT_PARENT_CITATION: '' @ re_provenance rel))) children"

definition with_provider :: "evidence_provider option \<Rightarrow> int \<Rightarrow> count_assessment \<Rightarrow> count_assessment list \<Rightarrow> link_evidence list \<Rightarrow> residual_evidence" where
  "with_provider provider site parent children pairs = (case provider of None \<Rightarrow> production_residual_evidence pairs
     | Some f \<Rightarrow> (let extra = opt_or (f site parent children) NO_EVIDENCE in
         \<lparr>re_containment = pairs @ re_containment extra, re_non_overlap = re_non_overlap extra, re_child_set = re_child_set extra\<rparr>))"

definition parent_count :: "planning_facts \<Rightarrow> count_assessment option" where
  "parent_count f = (if of_state (cp_reference (pf_consented f)) = FACT_RESOLVED then of_count (cp_approved_units (pf_consented f)) else None)"

text \<open>\<open>None\<close> is a site that is passed over.\<close>

definition site_residual :: "(str \<Rightarrow> str) \<Rightarrow> text_rules \<Rightarrow> evidence_provider option \<Rightarrow> int \<Rightarrow> planning_facts \<Rightarrow> residual_error + qualification option" where
  "site_residual sha rules provider site f =
    (case parent_count f of None \<Rightarrow> Inr None
     | Some parent \<Rightarrow> let children = children_for rules (pf_resolved f) in
         if ca_subject_id parent = [] \<or> children = [] then Inr None
         else (case qualify_residual sha parent children (with_provider provider site parent children (containment_pairs parent children (pf_resolved f))) of
             Inl e \<Rightarrow> Inl e | Inr q \<Rightarrow> Inr (Some q)))"

fun build_site_residuals :: "(str \<Rightarrow> str) \<Rightarrow> text_rules \<Rightarrow> evidence_provider option \<Rightarrow> (int \<times> planning_facts) list \<Rightarrow> residual_error + (int \<times> qualification) list" where
  "build_site_residuals sha rules provider [] = Inr []"
| "build_site_residuals sha rules provider ((site, f) # sites) =
    (case site_residual sha rules provider site f of Inl e \<Rightarrow> Inl e
     | Inr q \<Rightarrow> (case build_site_residuals sha rules provider sites of Inl e \<Rightarrow> Inl e
       | Inr out \<Rightarrow> Inr (case q of None \<Rightarrow> out | Some q \<Rightarrow> (site, q) # out)))"

definition residual_levels :: "(int \<times> qualification) list \<Rightarrow> nat \<times> nat" where
  "residual_levels out = (length (filter (\<lambda>(i, q). rq_level q = R1) out), length (filter (\<lambda>(i, q). rq_level q = R2) out))"

section \<open>Routes\<close>

datatype route = CONSENTED_SITE | OUTLINE_CONSENTED_SITE | PHASE_OR_PLOT | ROUTE_RESIDUAL | STRATEGIC_ALLOCATION | UNCLASSIFIED_PLANNING_ROUTE

datatype route_subtype = SUBTYPE_PHASE | SUBTYPE_PLOT

definition ALL_ROUTE_KEYS :: "route list" where
  "ALL_ROUTE_KEYS = [CONSENTED_SITE, OUTLINE_CONSENTED_SITE, PHASE_OR_PLOT, ROUTE_RESIDUAL, STRATEGIC_ALLOCATION, UNCLASSIFIED_PLANNING_ROUTE]"

fun ROUTE_LABELS :: "route \<Rightarrow> str" where
  "ROUTE_LABELS CONSENTED_SITE = ''Consented site''"
| "ROUTE_LABELS OUTLINE_CONSENTED_SITE = ''Outline-consented site''"
| "ROUTE_LABELS PHASE_OR_PLOT = ''Phase / plot opportunity''"
| "ROUTE_LABELS ROUTE_RESIDUAL = ''Residual opportunity (derived)''"
| "ROUTE_LABELS STRATEGIC_ALLOCATION = ''Strategic allocation''"
| "ROUTE_LABELS UNCLASSIFIED_PLANNING_ROUTE = ''Planning opportunity (consent not established)''"

fun ROUTE_CAVEATS :: "route \<Rightarrow> str" where
  "ROUTE_CAVEATS CONSENTED_SITE = ''Planning permission is granted; whether development has started is not verified.''"
| "ROUTE_CAVEATS OUTLINE_CONSENTED_SITE = ''Outline permission only: further approvals are required; whether development has started is not verified.''"
| "ROUTE_CAVEATS PHASE_OR_PLOT = ''A specific phase or plot within a wider development; a plot alone does not establish formal phasing, and ownership and sale position are not established.''"
| "ROUTE_CAVEATS STRATEGIC_ALLOCATION = ''Plan-stated capacity, unverified; planning permission, deliverability, ownership and sale position are not established.''"
| "ROUTE_CAVEATS UNCLASSIFIED_PLANNING_ROUTE = ''A consented position has not been established for this opportunity.''"
| "ROUTE_CAVEATS ROUTE_RESIDUAL = ''Derived (apparent) residual planning capacity; availability, ownership, parcel geometry and independent deliverability are unverified.''"

definition FULL_CONSENT_ROLES :: "str list" where
  "FULL_CONSENT_ROLES = [''full'', ''hybrid'', ''reserved_matters'', ''other_substantive'']"

record route_card =
  rc_opportunity_type :: "str option"
  rc_residual_subject_id :: "str option"
  rc_phase_code :: "str option"
  rc_consent_role :: "str option"

record opportunity_route =
  or_route :: route
  or_subtype :: "route_subtype option"
  or_label :: str
  or_caveat :: str

definition make_route :: "route \<Rightarrow> route_subtype option \<Rightarrow> opportunity_route" where
  "make_route r sub = \<lparr>or_route = r, or_subtype = sub,
     or_label = ROUTE_LABELS r @ (case sub of None \<Rightarrow> [] | Some SUBTYPE_PHASE \<Rightarrow> '' (phase)'' | Some SUBTYPE_PLOT \<Rightarrow> '' (plot)''), or_caveat = ROUTE_CAVEATS r\<rparr>"

definition derive_opportunity_route :: "route_card \<Rightarrow> opportunity_route" where
  "derive_opportunity_route c =
    (if rc_opportunity_type c = Some ''strategic_land'' then make_route STRATEGIC_ALLOCATION None
     else if truthy (rc_residual_subject_id c) then make_route ROUTE_RESIDUAL None
     else if truthy (rc_phase_code c) \<and> rc_phase_code c \<noteq> Some UNPHASED_LABEL
       then make_route PHASE_OR_PLOT (Some (if prefix ''plot_'' (str_or (rc_phase_code c) []) then SUBTYPE_PLOT else SUBTYPE_PHASE))
     else if rc_consent_role c = Some ''outline'' then make_route OUTLINE_CONSENTED_SITE None
     else (case rc_consent_role c of
         Some role \<Rightarrow> if role \<in> set FULL_CONSENT_ROLES then make_route CONSENTED_SITE None else make_route UNCLASSIFIED_PLANNING_ROUTE None
       | None \<Rightarrow> make_route UNCLASSIFIED_PLANNING_ROUTE None))"

definition route_counts :: "route list \<Rightarrow> (route \<times> nat) list" where
  "route_counts routes = map (\<lambda>key. (key, length (filter (\<lambda>r. r = key) routes))) ALL_ROUTE_KEYS"

end
