(* ===== verification/ResidualProperties.thy ===== *)
theory ResidualProperties
  imports ResidualOpportunity
begin

text \<open>
  What the residual ladder promises: R1 exactly from seven true predicates and a positive remainder, and never from the evidence
  production supplies.
\<close>

lemma resolved_supported:
  "resolved (assess_residual_planning_capacity parent children con non sets) = residual_supported parent children con non sets"
  using residual_cases [of parent children con non sets] by (auto simp: resolved_def blank_def split: if_split_asm)

lemma established_supported:
  "ra_established (assess_residual_planning_capacity parent children con non sets) = residual_supported parent children con non sets"
  using residual_cases [of parent children con non sets] by (auto simp: blank_def split: if_split_asm)

lemma supported_residual:
  "residual_supported parent children con non sets \<Longrightarrow>
    ra_residual (assess_residual_planning_capacity parent children con non sets) = Some (count_of parent - child_total (operative children))"
  using residual_cases [of parent children con non sets] by simp

definition settled :: "count_assessment \<Rightarrow> residual_assessment \<Rightarrow> bool" where
  "settled p r = (ra_status r = RESOLVED \<longrightarrow> ra_reason r = REASON_RESOLVED \<and> ra_metric r = Some (ca_metric p))"

lemma settled_if: "settled p a \<Longrightarrow> settled p b \<Longrightarrow> settled p (if c then a else b)"
  by simp

lemma settled_close: "settled parent (close_ladder parent xs su con non sets base)"
  unfolding close_ladder_def Let_def
  by (intro settled_if; cases "child_set_state parent su sets") (simp_all add: settled_def)

lemma settled_withheld: "ra_status r = UNVERIFIED \<or> ra_status r = MATERIAL_CONFLICT \<Longrightarrow> settled p r"
  by (auto simp: settled_def)

lemma residual_result_fields [simp]: "ra_status (residual_result st re tx p) = st"
  by (simp add: residual_result_def)

lemma classify_children_Inl: "classify_children parent cs el ex un = Inl r \<Longrightarrow> ra_status r = UNVERIFIED"
  by (induction cs arbitrary: el ex un) (auto split: if_split_asm)

lemma settled_assess: "settled parent (assess_residual_planning_capacity parent children con non sets)"
proof (cases "classify_children parent children [] [] []")
  case (Inl r)
  then have "settled parent r" using classify_children_Inl settled_withheld by blast
  with Inl show ?thesis unfolding assess_residual_planning_capacity_def by (simp add: settled_withheld)
next
  case (Inr t)
  obtain el ex un where t: "t = (el, ex, un)" by (cases t)
  show ?thesis
    unfolding assess_residual_planning_capacity_def Inr t Let_def sum.case prod.case
    by (intro settled_if; cases "distinct_children el []") (simp_all add: settled_withheld settled_close)
qed

lemma resolved_reason:
  assumes "ra_status (assess_residual_planning_capacity parent children con non sets) = RESOLVED"
  shows "ra_reason (assess_residual_planning_capacity parent children con non sets) = REASON_RESOLVED \<and>
    ra_metric (assess_residual_planning_capacity parent children con non sets) = Some (ca_metric parent)"
  using assms settled_assess [of parent children con non sets] by (simp add: settled_def)

definition all_true :: "predicate_result list \<Rightarrow> bool" where
  "all_true ps = list_all (\<lambda>p. pr_state p = PTrue) ps"

lemma eligible_operative:
  assumes "\<forall>c\<in>operative children. ca_subject_id c \<noteq> [] \<and> ca_subject_id c \<noteq> ca_subject_id parent"
  shows "set (eligible_ids parent children) = operative children"
  using assms by (auto simp: eligible_ids_def operative_def)

lemma one_metric: "(length (sorted_set (m # ms)) = Suc 0) = (\<forall>x\<in>set ms. x = m)"
proof -
  have "sorted_set (m # ms) \<noteq> []" by simp
  then have "0 < length (sorted_set (m # ms))" by (simp only: length_greater_0_conv not_False_eq_True)
  then have "(length (sorted_set (m # ms)) = Suc 0) = (\<not> 1 < length (sorted_set (m # ms)))" by linarith
  also have "\<dots> = (\<forall>x\<in>set ms. x = m)" unfolding several_metrics by blast
  finally show ?thesis .
qed

lemma scope_compatible_site: "scope_incompatibility parent child = None \<Longrightarrow> parse_subject (ca_subject_id parent) \<noteq> None"
  by (auto simp: scope_incompatibility_def split: option.splits)

lemma no_pairs: "distinct ids \<Longrightarrow> (filter (\<lambda>(a, b). {a, b} \<notin> P) (pairs_of ids) = []) = (\<forall>a\<in>set ids. \<forall>b\<in>set ids. a \<noteq> b \<longrightarrow> {a, b} \<in> P)"
  using pairs_of_distinct [of ids "\<lambda>p. p \<notin> P"] by (fastforce simp: filter_empty_conv)

lemma supported_predicates:
  assumes "residual_supported parent children (re_containment ev) (re_non_overlap ev) (re_child_set ev)"
  defines "r \<equiv> assess_residual_planning_capacity parent children (re_containment ev) (re_non_overlap ev) (re_child_set ev)"
  shows "all_true (predicates parent children ev r)"
proof -
  note s = assms(1) [unfolded residual_supported_def Let_def]
  define ids where "ids = sorted_set (map ca_subject_id (eligible_ids parent children))"
  have el: "set (eligible_ids parent children) = operative children" using s by (intro eligible_operative) (elim conjE)
  then have set_ids: "set ids = ca_subject_id ` operative children" by (simp add: ids_def)
  have dis: "distinct ids" by (simp add: ids_def)
  have ne: "operative children \<noteq> {}" using s by (elim conjE)
  then obtain c where c: "c \<in> operative children" by blast
  have reason: "ra_reason r = REASON_RESOLVED"
    using residual_cases [of parent children "re_containment ev" "re_non_overlap ev" "re_child_set ev"] assms(1) resolved_reason unfolding r_def by simp
  have "\<forall>c\<in>operative children. scope_incompatibility parent c = None" using s by (elim conjE)
  then have site: "parse_subject (ca_subject_id parent) \<noteq> None" using c scope_compatible_site by blast
  have p1: "pr_state (parent_predicate parent (ra_reason r)) = PTrue"
    using s site unfolding reason by (simp add: parent_predicate_def Let_def site_of_def)
  have "\<forall>c\<in>operative children. contained_in (re_containment ev) (ca_subject_id c) (ca_subject_id parent)" using s by (elim conjE)
  then have p2: "pr_state (relationship_predicate parent ids (re_containment ev)) = PTrue"
    using ne set_ids by (auto simp: relationship_predicate_def Let_def list_all_iff)
  have "\<forall>c\<in>insert parent (operative children). ca_metric c = ca_metric parent" using s by (elim conjE)
  then have p3: "pr_state (metrics_predicate parent (eligible_ids parent children)) = PTrue"
    using one_metric [of "ca_metric parent" "map ca_metric (eligible_ids parent children)"] el by (simp add: metrics_predicate_def Let_def)
  have "\<forall>c\<in>insert parent (operative children). exact_value c \<noteq> None" using s by (elim conjE)
  then have "\<forall>c\<in>set (parent # eligible_ids parent children). exact_value c \<noteq> None \<and> ca_precision c = EXACT"
    using el exact_precision by auto
  then have p4: "pr_state (precision_predicate (parent # eligible_ids parent children)) = PTrue"
    by (auto simp: precision_predicate_def list_ex_iff list_all_iff)
  have p5: "pr_state (conflict_predicate (ra_reason r)) = PTrue" unfolding reason by (simp add: conflict_predicate_def)
  have "\<forall>c\<in>operative children. \<forall>d\<in>operative children. ca_subject_id c \<noteq> ca_subject_id d \<longrightarrow>
      {ca_subject_id c, ca_subject_id d} \<in> evidenced_pairs (re_non_overlap ev)" using s by (elim conjE)
  then have "filter (\<lambda>(a, b). {a, b} \<notin> evidenced_pairs (re_non_overlap ev)) (pairs_of ids) = []" unfolding no_pairs [OF dis] set_ids by blast
  moreover have "ids \<noteq> []" using ne set_ids by auto
  ultimately have p6: "pr_state (sibling_predicate ids (re_non_overlap ev)) = PTrue" by (simp add: sibling_predicate_def Let_def)
  have "ra_established r" using assms(1) established_supported unfolding r_def by blast
  then have p7: "pr_state (child_set_predicate r) = PTrue" by (simp add: child_set_predicate_def)
  from p1 p2 p3 p4 p5 p6 p7 show ?thesis by (simp add: predicates_def Let_def all_true_def ids_def)
qed

lemma all_true_established: "all_true (predicates parent children ev r) \<Longrightarrow> ra_established r"
  by (auto simp: predicates_def Let_def all_true_def child_set_predicate_def split: if_split_asm)

lemma qualify_cases:
  assumes "qualify_residual sha parent children ev = Inr q"
  defines "r \<equiv> assess_residual_planning_capacity parent children (re_containment ev) (re_non_overlap ev) (re_child_set ev)"
  shows "rq_predicates q = predicates parent children ev r \<and>
    (if resolved r \<and> ra_residual r = Some v \<and> 0 < v then rq_level q = R1 \<and> rq_value q = Some v \<and> rq_subject_id q \<noteq> None \<and> rq_fingerprint q \<noteq> None \<and>
        (\<exists>a. rq_assessment q = Some a \<and> exact_value a = Some v)
     else if resolved r \<and> (\<exists>w. ra_residual r = Some w \<and> 0 < w) then rq_level q = R1
     else rq_level q \<noteq> R1 \<and> rq_value q = None \<and> rq_assessment q = None \<and> rq_subject_id q = None \<and> rq_fingerprint q = None)"
proof (cases "\<exists>w. resolved r \<and> ra_residual r = Some w \<and> 0 < w")
  case True
  then obtain w where w: "resolved r" "ra_residual r = Some w" "0 < w" by blast
  from assms(1) w obtain sid fp where sid: "residual_subject_identity sha (site_of (ca_subject_id parent)) (ca_subject_id parent) (map ca_subject_id (ra_subtracted r)) = Inr sid"
    and fp: "residual_evidence_fingerprint sha parent (ra_subtracted r) ev w = Inr fp"
    unfolding qualify_residual_def r_def [symmetric] Let_def by (auto split: sum.split_asm)
  have "rq_predicates q = predicates parent children ev r \<and> rq_level q = R1 \<and> rq_value q = Some w \<and> rq_subject_id q = Some sid \<and> rq_fingerprint q = Some fp \<and>
      rq_assessment q = Some (derived_assessment sid (str_or (ra_metric r) []) w)"
    using assms(1) w sid fp unfolding qualify_residual_def r_def [symmetric] Let_def by auto
  moreover have "exact_value (derived_assessment sid (str_or (ra_metric r) []) w) = Some w"
    using w(3) by (simp add: derived_assessment_def exact_value_def known_py_int)
  ultimately show ?thesis using w by auto
next
  case False
  then have "resolved r \<Longrightarrow> case ra_residual r of None \<Rightarrow> True | Some w \<Rightarrow> w \<le> 0" by (auto split: option.split)
  then show ?thesis
    using assms(1) False unfolding qualify_residual_def r_def [symmetric] Let_def
    by (cases "resolved r"; cases "ra_residual r") (auto split: if_split_asm)
qed

lemma unresolved_returns:
  "\<not> resolved (assess_residual_planning_capacity parent children (re_containment ev) (re_non_overlap ev) (re_child_set ev)) \<Longrightarrow>
    \<exists>q. qualify_residual sha parent children ev = Inr q"
  unfolding qualify_residual_def Let_def by (simp split: if_split)

text \<open>
  A qualification is R1 exactly when all seven predicates are true and the children leave something of the parent. R1 carries the
  derived count, with an exact assessment, an identity and a fingerprint; R2 and R3 carry none of them.
\<close>

theorem r1_exactly_when_qualified:
  assumes "qualify_residual sha parent children ev = Inr q"
  shows "(rq_level q = R1) = (all_true (rq_predicates q) \<and> child_total (operative children) < count_of parent) \<and>
    (if rq_level q = R1 then rq_value q = Some (count_of parent - child_total (operative children)) \<and> rq_subject_id q \<noteq> None \<and> rq_fingerprint q \<noteq> None \<and>
        (\<exists>a. rq_assessment q = Some a \<and> exact_value a = rq_value q)
     else rq_value q = None \<and> rq_assessment q = None \<and> rq_subject_id q = None \<and> rq_fingerprint q = None)"
proof -
  define r where "r = assess_residual_planning_capacity parent children (re_containment ev) (re_non_overlap ev) (re_child_set ev)"
  define v where "v = count_of parent - child_total (operative children)"
  note q = qualify_cases [OF assms, folded r_def, of v]
  have res: "resolved r = residual_supported parent children (re_containment ev) (re_non_overlap ev) (re_child_set ev)"
    unfolding r_def by (rule resolved_supported)
  have est: "ra_established r = resolved r" unfolding res unfolding r_def by (rule established_supported)
  have "resolved r \<Longrightarrow> all_true (predicates parent children ev r)" unfolding res unfolding r_def by (rule supported_predicates)
  moreover have "all_true (predicates parent children ev r) \<Longrightarrow> resolved r" using all_true_established unfolding est [symmetric] .
  moreover have "rq_predicates q = predicates parent children ev r" by (rule conjunct1 [OF q])
  ultimately have all: "all_true (rq_predicates q) = resolved r" by auto
  have val: "resolved r \<Longrightarrow> ra_residual r = Some v" unfolding res unfolding r_def v_def by (rule supported_residual)
  show ?thesis using q val unfolding all by (cases "resolved r") (auto simp: v_def split: if_split_asm)
qed

text \<open>
  Residual subjects are dormant by evidence: with containment pairs alone, which is all that production supplies, qualification never raises and
  never reaches R1, whatever the counts and the pairs, so no residual figure, identity or fingerprint comes out.
\<close>

theorem production_never_r1:
  "\<exists>q. qualify_residual sha parent children (production_residual_evidence pairs) = Inr q \<and> rq_level q \<noteq> R1 \<and> \<not> is_subject q \<and>
     rq_value q = None \<and> rq_assessment q = None \<and> rq_subject_id q = None \<and> rq_fingerprint q = None \<and> r1_prompt_fact q \<notin> range Inr"
proof -
  let ?ev = "production_residual_evidence pairs"
  let ?r = "assess_residual_planning_capacity parent children (re_containment ?ev) (re_non_overlap ?ev) (re_child_set ?ev)"
  have "named_sets parent (re_child_set ?ev) = {}"
    by (simp add: production_residual_evidence_def NO_EVIDENCE_def named_sets_def)
  then have "\<not> residual_supported parent children (re_containment ?ev) (re_non_overlap ?ev) (re_child_set ?ev)"
    unfolding residual_supported_def Let_def by simp
  then have n: "\<not> resolved ?r" unfolding resolved_supported .
  then obtain q where q: "qualify_residual sha parent children ?ev = Inr q" using unresolved_returns by blast
  have "rq_level q \<noteq> R1 \<and> rq_value q = None \<and> rq_assessment q = None \<and> rq_subject_id q = None \<and> rq_fingerprint q = None"
    using qualify_cases [OF q] n by simp
  with q show ?thesis by (auto simp: is_subject_def r1_prompt_fact_def)
qed

section \<open>A qualified residual\<close>

text \<open>A whole-site permission for 120 homes with one phase of 40, containment and a complete child set in evidence.\<close>

definition demo_count :: "str \<Rightarrow> str \<Rightarrow> int \<Rightarrow> count_assessment" where
  "demo_count sid ty n = (base_assessment ty ''A'' sid total_residential [] (Some ''consented'') [])
     \<lparr>ca_precision := EXACT, ca_value := Some n, ca_resolution := ''agreement'', ca_confidence := ''high''\<rparr>"

definition demo_parent :: count_assessment where
  "demo_parent = demo_count ''site:7:whole_site:A'' ''whole_site'' 120"

definition demo_child :: count_assessment where
  "demo_child = demo_count ''site:7:phase:A'' ''phase'' 40"

definition demo_complete :: residual_evidence where
  "demo_complete = \<lparr>re_containment = [(''site:7:phase:A'', ''site:7:whole_site:A'', Some ''G2'')], re_non_overlap = [],
     re_child_set = [(''site:7:whole_site:A'', Ids [''site:7:phase:A''], Some ''phasing plan'')]\<rparr>"

definition demo_sha :: "str \<Rightarrow> str" where
  "demo_sha t = replicate 64 CHR ''a''"

theorem r1_exactly_when_qualified_witness:
  "\<exists>q. qualify_residual demo_sha demo_parent [demo_child] demo_complete = Inr q \<and> rq_level q = R1 \<and> rq_value q = Some 80 \<and>
     child_total (operative [demo_child]) < count_of demo_parent"
proof -
  have "case qualify_residual demo_sha demo_parent [demo_child] demo_complete of Inl _ \<Rightarrow> False | Inr q \<Rightarrow> rq_level q = R1 \<and> rq_value q = Some 80"
    by code_simp
  then obtain q where "qualify_residual demo_sha demo_parent [demo_child] demo_complete = Inr q" "rq_level q = R1" "rq_value q = Some 80"
    by (auto split: sum.split_asm)
  with r1_exactly_when_qualified [OF this(1)] show ?thesis by auto
qed

end
