(* ===== verification/ResidualFeedProperties.thy ===== *)
theory ResidualFeedProperties
  imports ResidualFeed ResidualProperties
begin

text \<open>
  When one scope is contained in another, exactly; and what the residuals of the feed can be on the evidence production has.
\<close>

section \<open>Containment\<close>

lemma keep_first_fst: "fst ` set (keep_first xs) = fst ` set xs"
proof (induction xs)
  case (Cons x xs)
  have "fst ` {y \<in> set (keep_first xs). fst y \<noteq> fst x} = fst ` set (keep_first xs) - {fst x}" by auto
  with Cons show ?case by auto
qed simp

lemma keep_first_one: "keep_first xs = [(c, y)] \<longleftrightarrow> xs \<noteq> [] \<and> fst ` set xs = {c} \<and> hd xs = (c, y)"
proof (cases xs)
  case (Cons x ys)
  have "keep_first (x # ys) = [x] \<longleftrightarrow> fst ` set (keep_first ys) \<subseteq> {fst x}" by (auto simp: filter_empty_conv)
  then show ?thesis by (auto simp: Cons keep_first_fst)
qed simp

lemma keep_first_Nil: "keep_first xs = [] \<longleftrightarrow> xs = []"
  by (cases xs) auto

definition supports_parent :: "str \<Rightarrow> int \<Rightarrow> count_assessment \<Rightarrow> bool" where
  "supports_parent cited site p = (cited \<in> source_references p \<and> site_id_of (ca_subject_id p) = Some site \<and> ca_scope_type p = SCOPE_WHOLE_SITE \<and>
     ca_metric p = total_residential \<and> ca_precision p = EXACT \<and> ca_basis p = Some ''consented'')"

lemma sorted_set_one: "sorted_set xs = [p] \<longleftrightarrow> set xs = {p}"
  using sorted_set_eq_iff [of xs "[p]"] by (simp add: sorted_set_def)

lemma parent_gates_Inr: "parent_gates cited site parents = Inr p \<longleftrightarrow> ca_subject_id ` {q \<in> set parents. supports_parent cited site q} = {p}"
proof -
  define e where "e = filter (supports_parent cited site) parents"
  have e: "filter (\<lambda>p. ca_precision p = EXACT \<and> ca_basis p = Some ''consented'') (filter (\<lambda>p. ca_metric p = total_residential)
      (filter (\<lambda>p. ca_scope_type p = SCOPE_WHOLE_SITE) (filter (\<lambda>p. site_id_of (ca_subject_id p) = Some site) (filter (\<lambda>p. cited \<in> source_references p) parents)))) = e"
    unfolding e_def filter_filter by (rule filter_cong) (auto simp: supports_parent_def)
  have one: "(case xs of [p'] \<Rightarrow> Inr p' | _ \<Rightarrow> Inl MULTIPLE_PARENT_ASSESSMENTS) = Inr p \<longleftrightarrow> xs = [p]" for xs :: "str list"
    by (auto split: list.split)
  have some: "filter P parents \<noteq> []" if "e \<noteq> []" "\<And>q. supports_parent cited site q \<Longrightarrow> P q" for P
    using that by (auto simp: e_def filter_empty_conv)
  have "parent_gates cited site parents = Inr p \<longleftrightarrow> e \<noteq> [] \<and> sorted_set (map ca_subject_id e) = [p]"
  proof (cases "e = []")
    case True
    then show ?thesis unfolding parent_gates_def Let_def e by simp
  next
    case False
    then show ?thesis using some [OF False] unfolding parent_gates_def Let_def e by (simp add: supports_parent_def one)
  qed
  also have "\<dots> \<longleftrightarrow> set (map ca_subject_id e) = {p}" unfolding sorted_set_one by auto
  finally show ?thesis by (simp add: e_def)
qed

text \<open>
  C27. A phase is contained in a permission exactly when the reserved matters applications behind its exact kind of count, on its own site, cite one single reference
  between them, that reference is an application of the same council and site, and it supports exactly one whole-site, exact, consented total of that site; the relationship
  names these and no others.
\<close>
theorem containment_exactly:
  "derive_containment child parents rows = Inr rel \<longleftrightarrow>
    (case site_id_of (ca_subject_id child) of None \<Rightarrow> False | Some site \<Rightarrow>
      let cites = row_citations (reserved_matters_rows (child_sources child site rows)); cited = re_parent_application rel in
      ca_scope_type child = SCOPE_PHASE \<and> ca_metric child = total_residential \<and> fst ` set cites = {cited} \<and>
      (case hd cites of (_, r, phrase) \<Rightarrow> re_child_application rel = rw_reference (rr_row r) \<and> re_provenance rel = phrase \<and>
        list_ex (\<lambda>a. rw_reference (rr_row a) = cited \<and> rw_council (rr_row a) = rw_council (rr_row r) \<and> rw_site_id (rr_row a) = Some site) rows) \<and>
      ca_subject_id ` {p \<in> set parents. supports_parent cited site p} = {re_parent rel} \<and> re_child rel = ca_subject_id child)"
proof (cases "site_id_of (ca_subject_id child)")
  case None
  then show ?thesis by (simp add: derive_containment_def)
next
  case (Some site)
  define rm where "rm = reserved_matters_rows (child_sources child site rows)"
  define cites where "cites = row_citations rm"
  have none: "cites = []" if "child_sources child site rows = [] \<or> rm = []"
  proof -
    have "rm = []" using that by (auto simp: rm_def reserved_matters_rows_def)
    then show ?thesis by (simp add: cites_def row_citations_def)
  qed
  have "derive_containment child parents rows = Inr rel \<longleftrightarrow> ca_scope_type child = SCOPE_PHASE \<and> ca_metric child = total_residential \<and>
    (\<exists>cited r phrase. keep_first cites = [(cited, r, phrase)] \<and>
      list_ex (\<lambda>a. rw_reference (rr_row a) = cited \<and> rw_council (rr_row a) = rw_council (rr_row r) \<and> rw_site_id (rr_row a) = Some site) rows \<and>
      (\<exists>p. parent_gates cited site parents = Inr p \<and> rel = \<lparr>re_child = ca_subject_id child, re_parent = p, re_child_application = rw_reference (rr_row r),
        re_parent_application = cited, re_provenance = phrase\<rparr>))" (is "_ \<longleftrightarrow> ?r")
  proof (cases "child_sources child site rows = [] \<or> rm = []")
    case True
    with none show ?thesis by (auto simp: derive_containment_def Some Let_def rm_def)
  next
    case False
    then show ?thesis
      unfolding derive_containment_def Some Let_def rm_def [symmetric] cites_def [symmetric] option.case
      by (cases "keep_first cites" rule: list.exhaust; cases "tl (keep_first cites)") (auto split: sum.split sum.split_asm if_split_asm)
  qed
  also have "\<dots> \<longleftrightarrow> ca_scope_type child = SCOPE_PHASE \<and> ca_metric child = total_residential \<and> fst ` set cites = {re_parent_application rel} \<and>
      (case hd cites of (_, r, phrase) \<Rightarrow> re_child_application rel = rw_reference (rr_row r) \<and> re_provenance rel = phrase \<and>
        list_ex (\<lambda>a. rw_reference (rr_row a) = re_parent_application rel \<and> rw_council (rr_row a) = rw_council (rr_row r) \<and> rw_site_id (rr_row a) = Some site) rows) \<and>
      ca_subject_id ` {p \<in> set parents. supports_parent (re_parent_application rel) site p} = {re_parent rel} \<and> re_child rel = ca_subject_id child"
    unfolding keep_first_one parent_gates_Inr by (cases cites) (auto intro!: relationship_evidence.equality)
  finally show ?thesis by (simp add: Some Let_def cites_def rm_def)
qed

section \<open>Production residuals\<close>

lemma classify_reason: "classify_children parent cs el ex un = Inl r \<Longrightarrow> ra_reason r \<in> {REASON_CHILD_IDENTITY_MISSING, REASON_CHILD_IS_PARENT}"
  by (induction parent cs el ex un rule: classify_children.induct) (auto simp: residual_result_def split: if_split_asm)

lemma distinct_children_subset: "distinct_children cs seen = Some ds \<Longrightarrow> snd ` set ds \<subseteq> set cs \<union> snd ` set seen \<and> (cs \<noteq> [] \<or> seen \<noteq> [] \<longrightarrow> ds \<noteq> [])"
proof (induction cs arbitrary: seen)
  case (Cons c cs)
  show ?case
  proof (cases "map_of seen (ca_subject_id c)")
    case None
    with Cons.prems have "distinct_children cs (seen @ [(ca_subject_id c, c)]) = Some ds" by simp
    from Cons.IH [OF this] show ?thesis by simp
  next
    case (Some s)
    with Cons.prems have "distinct_children cs seen = Some ds" "seen \<noteq> []" by (auto split: if_split_asm)
    with Cons.IH [OF this(1)] show ?thesis by auto
  qed
qed simp

lemma close_contained:
  assumes "ra_reason (close_ladder parent xs su con non sets base) \<in> set R2_REASONS" and "xs \<noteq> []"
  shows "\<exists>c\<in>set xs. contained_in con (ca_subject_id c) (ca_subject_id parent)"
proof -
  have "filter (\<lambda>i. \<not> contained_in con i (ca_subject_id parent)) (map ca_subject_id xs) = []"
    using assms(1) by (rule contrapos_pp) (simp add: close_ladder_def Let_def R2_REASONS_def)
  with assms(2) show ?thesis by (cases xs) (auto split: if_split_asm)
qed

lemma r2_contained:
  assumes "ra_reason (assess_residual_planning_capacity parent children con non sets) \<in> set R2_REASONS"
  shows "\<exists>c\<in>set children. contained_in con (ca_subject_id c) (ca_subject_id parent)"
proof (cases "classify_children parent children [] [] []")
  case (Inl r)
  with classify_reason [OF this] assms show ?thesis
    by (auto simp: assess_residual_planning_capacity_def residual_result_def R2_REASONS_def split: if_split_asm)
next
  case (Inr t)
  obtain el ex un where t: "t = (el, ex, un)" by (cases t)
  have el: "set el = operative children" using classify_children_cases [where parent = parent and cs = children and el = "[]" and ex = "[]" and un = "[]"] by (simp add: Inr t)
  from assms obtain ds where ds: "distinct_children el [] = Some ds" "el \<noteq> []"
      "ra_reason (close_ladder parent (map snd (sort_key fst ds)) (filter (\<lambda>i. i \<noteq> []) (map ca_subject_id (el @ map xc_child ex))) con non sets
        ((residual_result UNVERIFIED REASON_RESOLVED [] parent)\<lparr>ra_excluded := ex, ra_unresolved := un\<rparr>)) \<in> set R2_REASONS"
    unfolding assess_residual_planning_capacity_def Inr t Let_def
    by (auto simp: residual_result_def R2_REASONS_def split: if_split_asm option.split_asm)
  have "ds \<noteq> []" "snd ` set ds \<subseteq> set el" using distinct_children_subset [OF ds(1)] ds(2) by auto
  then have "map snd (sort_key fst ds) \<noteq> []" "set (map snd (sort_key fst ds)) \<subseteq> set el" by (auto simp flip: length_greater_0_conv)
  with close_contained [OF ds(3)] el show ?thesis by (auto simp: operative_def)
qed

lemma predicate_contained:
  assumes "list_ex (\<lambda>p. pr_name p = CHILD_RELATIONSHIP_QUALIFIED \<and> pr_state p = PTrue) (predicates parent children ev r)"
  shows "\<exists>c\<in>set children. contained_in (re_containment ev) (ca_subject_id c) (ca_subject_id parent)"
proof -
  define ids where "ids = sorted_set (map ca_subject_id (eligible_ids parent children))"
  have "ids \<noteq> [] \<and> list_all (\<lambda>i. contained_in (re_containment ev) i (ca_subject_id parent)) ids"
    using assms by (auto simp: predicates_def Let_def ids_def parent_predicate_def relationship_predicate_def metrics_predicate_def precision_predicate_def
        conflict_predicate_def sibling_predicate_def child_set_predicate_def split: if_split_asm)
  then obtain i where i: "i \<in> set ids" "contained_in (re_containment ev) i (ca_subject_id parent)" by (cases ids) auto
  then obtain c where "c \<in> set (eligible_ids parent children)" "i = ca_subject_id c" by (auto simp: ids_def)
  with i show ?thesis by (auto simp: eligible_ids_def)
qed

lemma r2_means_contained:
  assumes "qualify_residual sha parent children ev = Inr q" and "rq_level q = R2"
  shows "\<exists>c\<in>set children. contained_in (re_containment ev) (ca_subject_id c) (ca_subject_id parent)"
proof -
  define r where "r = assess_residual_planning_capacity parent children (re_containment ev) (re_non_overlap ev) (re_child_set ev)"
  have "ra_reason r \<in> set R2_REASONS \<or> list_ex (\<lambda>p. pr_name p = CHILD_RELATIONSHIP_QUALIFIED \<and> pr_state p = PTrue) (predicates parent children ev r)"
    using assms unfolding qualify_residual_def r_def [symmetric] Let_def by (auto split: if_split_asm option.split_asm sum.split_asm)
  then show ?thesis using r2_contained predicate_contained unfolding r_def by blast
qed

text \<open>A reserved matters application of the site whose proposal cites an application of the same site and council.\<close>

definition cites_parent :: "resolved_row list \<Rightarrow> bool" where
  "cites_parent rows = list_ex (\<lambda>r. rr_role r = ROLE_RESERVED_MATTERS \<and>
     list_ex (\<lambda>a. list_ex (\<lambda>c. fst c = rw_reference (rr_row a)) (sc_qualifying (scan_parent_citations (rw_proposal (rr_row r)))) \<and>
       rw_council (rr_row a) = rw_council (rr_row r) \<and> rw_site_id (rr_row a) = rw_site_id (rr_row r)) rows) rows"

lemma derived_cites:
  assumes "derive_containment child parents rows = Inr rel"
  shows "cites_parent rows"
proof -
  from assms obtain site where site: "site_id_of (ca_subject_id child) = Some site" by (auto simp: derive_containment_def split: if_split_asm option.split_asm)
  define rm where "rm = reserved_matters_rows (child_sources child site rows)"
  obtain cited r phrase where k: "keep_first (row_citations rm) = [(cited, r, phrase)]"
    and a: "list_ex (\<lambda>a. rw_reference (rr_row a) = cited \<and> rw_council (rr_row a) = rw_council (rr_row r) \<and> rw_site_id (rr_row a) = Some site) rows"
    using assms unfolding derive_containment_def site Let_def rm_def [symmetric] option.case
    by (cases "keep_first (row_citations rm)" rule: list.exhaust; cases "tl (keep_first (row_citations rm))") (auto split: if_split_asm)
  from k have "(cited, r, phrase) \<in> set (row_citations rm)" unfolding keep_first_one using list.set_sel(1) by metis
  then have "r \<in> set rm" "(cited, phrase) \<in> set (sc_qualifying (scan_parent_citations (rw_proposal (rr_row r))))" by (auto simp: row_citations_def)
  moreover from this(1) have "r \<in> set rows" "rr_role r = ROLE_RESERVED_MATTERS" "rw_site_id (rr_row r) = Some site"
    by (auto simp: rm_def reserved_matters_rows_def child_sources_def)
  ultimately show ?thesis using a unfolding cites_parent_def list_ex_iff by force
qed

lemma pairs_cite:
  assumes "contained_in (containment_pairs parent children rows) c p"
  shows "cites_parent rows"
proof -
  from assms obtain child rel where "derive_containment child [parent] rows = Inr rel"
    by (cases "\<exists>child rel. derive_containment child [parent] rows = Inr rel")
      (auto simp: contained_in_def list_ex_iff containment_pairs_def map_filter_def split: sum.split_asm, metis sum.exhaust)
  then show ?thesis by (rule derived_cites)
qed

text \<open>
  C28. On the evidence production has, no residual of the feed is ever a subject of its own, computing them never fails, and a potential residual is only shown for a site
  with a reserved matters application whose proposal cites an application of that site and council.
\<close>
theorem production_residuals_investigate_only:
  "case site_residual sha rules None site f of Inl _ \<Rightarrow> False | Inr None \<Rightarrow> True
   | Inr (Some q) \<Rightarrow> rq_value q = None \<and> rq_subject_id q = None \<and> (rq_level q = R3 \<or> rq_level q = R2 \<and> cites_parent (pf_resolved f))"
proof (cases "parent_count f")
  case (Some parent)
  define children where "children = children_for rules (pf_resolved f)"
  define pairs where "pairs = containment_pairs parent children (pf_resolved f)"
  obtain q where q: "qualify_residual sha parent children (production_residual_evidence pairs) = Inr q" "rq_level q \<noteq> R1" "rq_value q = None" "rq_subject_id q = None"
    using production_never_r1 by blast
  have "cites_parent (pf_resolved f)" if "rq_level q = R2"
    using r2_means_contained [OF q(1) that] pairs_cite unfolding pairs_def by (auto simp: production_residual_evidence_def)
  moreover have "rq_level q = R2 \<or> rq_level q = R3" using q(2) by (cases "rq_level q") auto
  ultimately show ?thesis using q by (auto simp: site_residual_def Some Let_def with_provider_def children_def pairs_def)
qed (simp add: site_residual_def)

end
