(* ===== verification/SchemeExtraction.thy ===== *)
theory SchemeExtraction
  imports Regex
begin

text \<open>
  The final figures of a scheme (app/extraction/reconcile.py): a classifier's answer, the figures a pattern pass read, and the portal's estimate become one set of total,
  affordable and private units, with the reconciliation of the units and what is missing. Numbers are rationals, so that integers and floats are one; values that are only
  copied are texts. \<open>extract_external_consultation\<close>, which captures text, is a parameter.
\<close>

section \<open>Names\<close>

definition PERSONAL_TITLE_RE :: rx where
  "PERSONAL_TITLE_RE = Seqs [Bol, Words [''mr'', ''mrs'', ''miss'', ''ms'', ''mx'', ''dr'', ''prof'', ''sir'', ''dame'', ''rev''], Opt (Lit ''.''), Spaces]"

definition COMPANY_INDICATOR_RE :: rx where
  "COMPANY_INDICATOR_RE = Seqs [Edge,
     Alts [Words [''limited'', ''ltd'', ''llp'', ''llc'', ''plc''], plural ''holding'', Words [''group'', ''homes'', ''properties''], plural ''development'',
       plural ''investment'', plural ''estate'', Words [''construction'', ''housing'', ''trust'', ''partnership'', ''inc'', ''corp'', ''company'', ''co.'']], Edge]"

definition PLACEHOLDER_APPLICANT_NAMES :: "str list" where
  "PLACEHOLDER_APPLICANT_NAMES = [''c/o agent'', ''care of agent'', ''n/a'', ''agent'', ''unknown'', ''applicant'']"

definition normalise_name :: "str option \<Rightarrow> str" where
  "normalise_name name = filter (\<lambda>c. is_word c \<or> is_space c) (lower (strip (str_or name [])))"

definition names_match :: "str option \<Rightarrow> str option \<Rightarrow> bool" where
  "names_match a b = (truthy a \<and> truthy b \<and> normalise_name a = normalise_name b)"

definition looks_like_company_name :: "str option \<Rightarrow> bool" where
  "looks_like_company_name name = (truthy name \<and> (let s = lower (strip (the name)) in
     s \<notin> set PLACEHOLDER_APPLICANT_NAMES \<and> \<not> match_at_start PERSONAL_TITLE_RE s \<and> search_rx COMPANY_INDICATOR_RE s))"

section \<open>Qualified quantities\<close>

definition QUALIFIED_RE :: rx where
  "QUALIFIED_RE = Seqs [Edge,
     Alts [Seqs [Lit ''up'', Spaces, Lit ''to''], Seqs [Lit ''not'', Spaces, Lit ''exceeding''], Seqs [Lit ''no'', Spaces, Lit ''more'', Spaces, Lit ''than''],
       Seqs [Lit ''maximum'', Spaces, Lit ''of'']],
     Spaces, Digit, Many (Alt Digit (Lit '','')), Gap, Opt (Seqs [Lit ''no'', Opt (Lit ''.''), Gap]),
     LazyUpTo 4 (Seqs [Plus (Cls (\<lambda>c. CHR ''a'' \<le> c \<and> c \<le> CHR ''z'')), Many (Seq (Lit ''-'') (Plus (Cls (\<lambda>c. CHR ''a'' \<le> c \<and> c \<le> CHR ''z'')))), Spaces]),
     Alts (map plural [''dwelling'', ''home'', ''house'', ''apartment'', ''flat'', ''bungalow''] @ [Seqs [Lit ''residential'', Spaces, plural ''unit'']]), Edge]"

definition qualified_residential_quantity :: "str option \<Rightarrow> bool" where
  "qualified_residential_quantity text = search_rx QUALIFIED_RE (lower (str_or text []))"

section \<open>Units\<close>

definition NO_ONSITE_AFFORDABLE_STATUSES :: "str list" where
  "NO_ONSITE_AFFORDABLE_STATUSES = [''no_affordable_required'', ''offsite_or_commuted_sum'']"

definition UNKNOWN_SPLIT_STATUSES :: "str list" where
  "UNKNOWN_SPLIT_STATUSES = [''not_expected_for_application_type'', ''parent_application_needed'']"

definition RESOLVED_AFFORDABLE_STATUSES :: "str list" where
  "RESOLVED_AFFORDABLE_STATUSES = [''no_affordable_required'', ''offsite_or_commuted_sum'', ''all_units_affordable'', ''not_expected_for_application_type'',
     ''parent_application_needed'']"

fun first_not_none :: "'a option list \<Rightarrow> 'a option" where
  "first_not_none [] = None"
| "first_not_none (v # vs) = (case v of None \<Rightarrow> first_not_none vs | Some _ \<Rightarrow> v)"

record unit_check =
  uc_total :: "rat option"
  uc_difference :: "rat option"
  uc_percentage :: "rat option"
  uc_status :: str

text \<open>\<open>round(q, 2)\<close>, of the exact quotient.\<close>

definition round2 :: "rat \<Rightarrow> rat" where
  "round2 q = of_int (round_half_even (q * 100)) / 100"

definition split_issues :: "rat option \<Rightarrow> rat option \<Rightarrow> rat option \<Rightarrow> str list" where
  "split_issues whole affordable private = (case (affordable, private) of
      (Some a, Some p) \<Rightarrow> (case whole of Some t \<Rightarrow> if 1 < \<bar>t - (a + p)\<bar> then [''Private + affordable does not equal total''] else [] | None \<Rightarrow> [])
    | _ \<Rightarrow> (case whole of Some t \<Rightarrow> if t < 10 then [] else if t < 25 then [''Missing affordable/private split (10-24 unit scheme)'']
          else [''Missing affordable/private split (25+ unit scheme)'']
        | None \<Rightarrow> [''Missing affordable/private split'']))"

definition percentage_check :: "rat option \<Rightarrow> rat option \<Rightarrow> rat option" where
  "percentage_check whole affordable = (case (whole, affordable) of (Some t, Some a) \<Rightarrow> if 0 < t then Some (round2 (a / t * 100)) else None | _ \<Rightarrow> None)"

definition percentage_issues :: "rat option \<Rightarrow> rat option \<Rightarrow> str list" where
  "percentage_issues check pct = (case (check, pct) of (Some c, Some p) \<Rightarrow> if 1 < \<bar>c - p\<bar> then [''Affordable percentage mismatch''] else [] | _ \<Rightarrow> [])"

definition calculate_unit_reconciliation :: "rat option \<Rightarrow> rat option \<Rightarrow> rat option \<Rightarrow> rat option \<Rightarrow> str option \<Rightarrow> unit_check" where
  "calculate_unit_reconciliation whole affordable private pct status =
    (if lower (strip (str_or status [])) \<in> set RESOLVED_AFFORDABLE_STATUSES then \<lparr>uc_total = None, uc_difference = None, uc_percentage = None, uc_status = ''OK''\<rparr>
     else let unit_total = (case (affordable, private) of (Some a, Some p) \<Rightarrow> Some (a + p) | _ \<Rightarrow> None);
              check = percentage_check whole affordable;
              issues = (if whole = None then [''Missing total units''] else []) @ split_issues whole affordable private @ percentage_issues check pct in
       \<lparr>uc_total = unit_total, uc_difference = (case (whole, unit_total) of (Some t, Some u) \<Rightarrow> Some (t - u) | _ \<Rightarrow> None), uc_percentage = check,
        uc_status = (if issues = [] then ''OK'' else ''Needs manual review: '' @ join '' | '' issues)\<rparr>)"

section \<open>The steps of the split\<close>

record housing_mix =
  hm_total :: "rat option"
  hm_affordable :: "rat option"
  hm_private :: "rat option"
  hm_percentage :: "rat option"
  hm_tenure :: "str option"
  hm_confidence :: str

record classification_answer =
  ca_units :: "rat option"
  ca_percentage :: "rat option"
  ca_private_units :: "rat option"
  ca_total_context :: "rat option"
  ca_data_status :: "str option"
  ca_context_status :: "str option"
  ca_reason_text :: "str option"
  ca_evidence_text :: "str option"
  ca_answer_confidence :: "str option"
  ca_tenure :: "str option"

record unit_split =
  sp_total :: "rat option"
  sp_affordable :: "rat option"
  sp_private :: "rat option"
  sp_percentage :: "rat option"

definition data_status :: "classification_answer \<Rightarrow> str" where
  "data_status c = lower (strip (str_or (ca_data_status c) []))"

definition initial_split :: "housing_mix \<Rightarrow> classification_answer \<Rightarrow> rat option \<Rightarrow> unit_split" where
  "initial_split m c portal = \<lparr>sp_total = first_not_none [ca_total_context c, hm_total m, portal], sp_affordable = first_not_none [ca_units c, hm_affordable m],
     sp_private = first_not_none [ca_private_units c, hm_private m], sp_percentage = first_not_none [ca_percentage c, hm_percentage m]\<rparr>"

definition unknown_split :: "unit_split \<Rightarrow> unit_split" where
  "unknown_split s = s\<lparr>sp_affordable := None, sp_private := None, sp_percentage := None\<rparr>"

definition viability_step :: "classification_answer \<Rightarrow> unit_split \<Rightarrow> unit_split" where
  "viability_step c s = (if data_status c \<noteq> ''viability_reduction'' then s
     else (case ca_units c of None \<Rightarrow> unknown_split s
       | Some u \<Rightarrow> s\<lparr>sp_affordable := Some u, sp_percentage := ca_percentage c,
           sp_private := (case sp_total s of Some t \<Rightarrow> Some (t - u) | None \<Rightarrow> sp_private s)\<rparr>))"

definition all_affordable_step :: "classification_answer \<Rightarrow> unit_split \<Rightarrow> unit_split" where
  "all_affordable_step c s = (if data_status c \<noteq> ''all_units_affordable'' then s
     else s\<lparr>sp_affordable := sp_total s, sp_private := Some 0, sp_percentage := Some 100\<rparr>)"

definition status_step :: "classification_answer \<Rightarrow> unit_split \<Rightarrow> unit_split" where
  "status_step c s = (if data_status c \<in> set NO_ONSITE_AFFORDABLE_STATUSES then s\<lparr>sp_affordable := Some 0, sp_private := sp_total s, sp_percentage := Some 0\<rparr>
     else if data_status c \<in> set UNKNOWN_SPLIT_STATUSES then unknown_split s else s)"

text \<open>A status that says there is no affordable data, next to a percentage that was stated.\<close>

definition contradicted :: "housing_mix \<Rightarrow> classification_answer \<Rightarrow> bool" where
  "contradicted m c = (data_status c \<in> set (NO_ONSITE_AFFORDABLE_STATUSES @ UNKNOWN_SPLIT_STATUSES) \<and>
     (case first_not_none [ca_percentage c, hm_percentage m] of None \<Rightarrow> False | Some p \<Rightarrow> p \<noteq> 0))"

definition status_note :: "housing_mix \<Rightarrow> classification_answer \<Rightarrow> str option" where
  "status_note m c = (if contradicted m c then Some (''A minimum of '' @ int_str (round_half_even (the (first_not_none [ca_percentage c, hm_percentage m]))) @
     ''% affordable housing is proposed but not yet confirmed as a specific unit count - flagged for manual review.'') else None)"

definition contradiction_step :: "housing_mix \<Rightarrow> classification_answer \<Rightarrow> unit_split \<Rightarrow> unit_split" where
  "contradiction_step m c s = (if contradicted m c then unknown_split s else s)"

definition external :: "str option \<Rightarrow> bool" where
  "external category = (category = Some ''external_consultation'')"

definition consultation_step :: "str option \<Rightarrow> unit_split \<Rightarrow> unit_split" where
  "consultation_step category s = (if external category then unknown_split s else s)"

definition derive_step :: "classification_answer \<Rightarrow> str option \<Rightarrow> unit_split \<Rightarrow> unit_split" where
  "derive_step c category s = (case (sp_affordable s, sp_percentage s, sp_total s) of
      (None, Some p, Some t) \<Rightarrow> if t \<noteq> 0 \<and> data_status c \<notin> set UNKNOWN_SPLIT_STATUSES \<and> \<not> external category
        then s\<lparr>sp_affordable := Some (of_int (round_half_even (t * p / 100)))\<rparr> else s
    | _ \<Rightarrow> s)"

definition coherence_step :: "unit_split \<Rightarrow> unit_split" where
  "coherence_step s = (case (sp_total s, sp_affordable s) of (Some t, Some a) \<Rightarrow> s\<lparr>sp_private := Some (t - a)\<rparr> | _ \<Rightarrow> s)"

definition reconciled_split :: "housing_mix \<Rightarrow> classification_answer \<Rightarrow> rat option \<Rightarrow> str option \<Rightarrow> unit_split" where
  "reconciled_split m c portal category =
    coherence_step (derive_step c category (consultation_step category (contradiction_step m c (status_step c (all_affordable_step c
      (viability_step c (initial_split m c portal)))))))"

definition withheld_split :: unit_split where
  "withheld_split = \<lparr>sp_total = None, sp_affordable = None, sp_private = None, sp_percentage = None\<rparr>"

section \<open>The scheme\<close>

type_synonym attributes = "(str \<times> str) list"

definition COPIED_SITE_FIELDS :: "(str \<times> str) list" where
  "COPIED_SITE_FIELDS = map (\<lambda>k. (k, k)) [''site_area_ha'', ''density_dph'', ''development_type'', ''housing_typology'', ''specialist_housing_type'', ''allocation_status'',
     ''existing_use'', ''proposed_use''] @ [(''site_evidence'', ''evidence''), (''site_confidence'', ''confidence'')]"

definition COPIED_ENTITY_FIELDS :: "(str \<times> str) list" where
  "COPIED_ENTITY_FIELDS = map (\<lambda>k. (k, k)) [''landowner'', ''site_owner'', ''planning_agent'', ''architect'', ''housing_association'', ''registered_provider'',
     ''registered_provider_status'', ''contractor''] @ [(''entity_source_evidence'', ''source_evidence''), (''entity_relationship_notes'', ''entity_relationship_notes''),
     (''entity_confidence'', ''confidence'')]"

definition copied :: "(str \<times> str) list \<Rightarrow> attributes \<Rightarrow> (str \<times> str option) list" where
  "copied names d = map (\<lambda>(k, source). (k, map_of d source)) names"

record scheme_intelligence =
  si_mix :: housing_mix
  si_answer :: classification_answer
  si_status_note :: "str option"
  si_copied :: "(str \<times> str option) list"
  si_applicant_company :: "str option"
  si_developer :: "str option"
  si_split :: unit_split
  si_tenure :: "str option"
  si_external_source :: "str option"
  si_check :: unit_check
  si_unit_status :: str
  si_large_50 :: bool
  si_major_25 :: bool
  si_major_10 :: bool
  si_affordable_missing :: bool
  si_developer_missing :: bool
  si_missing :: "str list"
  si_quality :: str
  si_complete :: bool
  si_review :: bool

definition developer_final :: "attributes \<Rightarrow> str option" where
  "developer_final entities = (let d = map_of entities ''developer'' in
     if names_match d (map_of entities ''planning_agent'') \<or> names_match d (map_of entities ''planning_consultant'') then None else d)"

definition applicant_company_final :: "attributes \<Rightarrow> str option \<Rightarrow> str option" where
  "applicant_company_final entities raw = first_not_none [map_of entities ''applicant_company'', if looks_like_company_name raw then raw else None]"

definition QUALIFIED_STATUS :: str where
  "QUALIFIED_STATUS = ''Needs manual review: qualified_quantity_withheld; literal evidence retained''"

definition at_least :: "rat option \<Rightarrow> rat \<Rightarrow> bool" where
  "at_least units n = (case units of None \<Rightarrow> False | Some u \<Rightarrow> n \<le> u)"

definition nonzero :: "rat option \<Rightarrow> bool" where
  "nonzero v = (case v of None \<Rightarrow> False | Some q \<Rightarrow> q \<noteq> 0)"

definition affordable_missing :: "classification_answer \<Rightarrow> str option \<Rightarrow> unit_split \<Rightarrow> bool" where
  "affordable_missing c category s = (at_least (sp_total s) 25 \<and> data_status c \<notin> set RESOLVED_AFFORDABLE_STATUSES \<and> \<not> external category \<and> \<not> nonzero (sp_affordable s))"

definition missing_items :: "unit_split \<Rightarrow> bool \<Rightarrow> str option \<Rightarrow> str option \<Rightarrow> str option \<Rightarrow> bool \<Rightarrow> str option \<Rightarrow> str \<Rightarrow> str list" where
  "missing_items s aff_missing note category external_source dev_missing development_type unit_status =
    (if nonzero (sp_total s) then [] else [''total_units_final'']) @
    (if aff_missing then [''affordable_manual_review''] else []) @
    (case note of None \<Rightarrow> [] | Some n \<Rightarrow> [''affordable_status_unconfirmed: '' @ n]) @
    (if external category then [''external_consultation_see_source: '' @ str_or external_source ''unresolved reference''] else []) @
    (if dev_missing then [''developer''] else []) @
    (if truthy development_type then [] else [''development_type'']) @
    (if unit_status \<noteq> ''OK'' then [''unit_reconciliation''] else [])"

definition consultation_source :: "(str option \<Rightarrow> (str \<times> str) option) \<Rightarrow> str option \<Rightarrow> str option \<Rightarrow> str option" where
  "consultation_source consultation category proposal = (if external category then
     map_option (\<lambda>(council, reference). council @ '' (ref '' @ reference @ '')'') (consultation proposal) else None)"

definition reconcile_scheme :: "(str option \<Rightarrow> (str \<times> str) option) \<Rightarrow> housing_mix \<Rightarrow> classification_answer \<Rightarrow> attributes \<Rightarrow> attributes \<Rightarrow> rat option \<Rightarrow>
    str option \<Rightarrow> str option \<Rightarrow> str option \<Rightarrow> str option \<Rightarrow> scheme_intelligence" where
  "reconcile_scheme consultation m c entities site portal category proposal applicant_raw retained =
    (let qualified = qualified_residential_quantity proposal \<or> qualified_residential_quantity retained;
         s = (if qualified then withheld_split else reconciled_split m c portal category);
         note = status_note m c;
         source = consultation_source consultation category proposal;
         check = calculate_unit_reconciliation (sp_total s) (sp_affordable s) (sp_private s) (sp_percentage s) (Some (data_status c));
         status = (if qualified then QUALIFIED_STATUS else if external category then ''OK'' else uc_status check);
         developer = developer_final entities; company = applicant_company_final entities applicant_raw;
         aff_missing = affordable_missing c category s;
         dev_missing = (\<not> (truthy developer \<or> truthy company));
         missing = missing_items s aff_missing note category source dev_missing (map_of site ''development_type'') status in
     \<lparr>si_mix = m, si_answer = c, si_status_note = note, si_copied = copied COPIED_SITE_FIELDS site @ copied COPIED_ENTITY_FIELDS entities,
      si_applicant_company = company, si_developer = developer, si_split = s,
      si_tenure = (if qualified then None else if truthy (ca_tenure c) then ca_tenure c else hm_tenure m), si_external_source = source,
      si_check = check, si_unit_status = status, si_large_50 = at_least (sp_total s) 50, si_major_25 = at_least (sp_total s) 25, si_major_10 = at_least (sp_total s) 10,
      si_affordable_missing = aff_missing, si_developer_missing = dev_missing, si_missing = missing,
      si_quality = (if missing = [] then ''OK'' else ''Missing/review: '' @ join '', '' missing), si_complete = (missing = []), si_review = (missing \<noteq> [])\<rparr>)"

end
