(* ===== verification/CountEligibility.thy ===== *)
theory CountEligibility
  imports SchemeExtraction UnitFilter Reconciliation
begin

text \<open>
  Which stored counts of homes the proposal of an application contradicts: app/reporting/residential_count_eligibility.py. No count is taken from the text; the numbers it
  states only decide whether a stored one is withheld. The proposal is ASCII; the patterns are the source's as values of \<open>rx\<close>.
\<close>

section \<open>Patterns\<close>

definition lower_word :: rx where
  "lower_word = Plus (Cls (\<lambda>c. CHR ''a'' \<le> c \<and> c \<le> CHR ''z''))"

definition hyphenated :: rx where
  "hyphenated = Seq lower_word (Many (Seq (Lit ''-'') lower_word))"

definition home_noun :: rx where
  "home_noun = Seq (Alts (map plural [''dwelling'', ''home'', ''house'', ''apartment'', ''flat'', ''bungalow''])) Edge"

definition quantum :: rx where
  "quantum = Seqs [Group (Plus Digit), Gap, Opt (Seqs [Lit ''no'', Opt (Lit ''.''), Gap]), LazyUpTo 4 (Seq hyphenated Spaces), home_noun]"

definition creation_prefix :: rx where
  "creation_prefix = Seqs [Edge, Words [''erection'', ''construction'', ''provision'', ''development'', ''conversion''], Spaces,
     Opt (Seq (Words [''of'', ''to'', ''into'', ''comprising'']) Spaces), Opt (Seq (Lit ''retirement living community comprising'') Spaces),
     Opt (Alts [Seq (Lit ''up to'') Spaces, Seq (Lit ''approximately'') Spaces, Seqs [Lit ''approx'', Opt (Lit ''.''), Spaces]])]"

definition ANCILLARY_RE :: rx where
  "ANCILLARY_RE = Seqs [Edge, Alts [Seqs [Lit ''reserved matters'', Opt (Lit '' application''), Opt (Lit '' approval''), Opt (Lit '' for'')],
       Lit ''application for reserved matters approval for'', Seq (Words [''approval'', ''provision'', ''construction'', ''erection'']) (Lit '' of'')], Spaces,
     Opt (Seq (Lit ''associated'') Spaces), Alt (Seq (Lit ''landscaping'') (Opt (Lit '' works''))) (Seq (Lit ''infrastructure'') (Opt (Lit '' works''))), Edge]"

definition LANDSCAPING_RE :: rx where
  "LANDSCAPING_RE = Seqs [Gap, Lit ''landscaping'', Opt (Lit '' works''), Edge]"

definition PARENT_RE :: rx where
  "PARENT_RE = Alt (Seqs [Edge, Lit ''pursuant to'', Edge]) (Seqs [Edge, Lit ''of hybrid application'', Edge])"

definition ADJOINING_RE :: rx where
  "ADJOINING_RE = Alt
     (Seqs [Edge, Words [''adjoining'', ''adjacent to'', ''associated with'', ''in connection with''], Spaces, Opt (Seq (Words [''the'', ''a'']) Spaces),
       Words [''erection'', ''construction'', ''development'', ''infrastructure'', ''phase''], Edge])
     (Seqs [Edge, Lit ''for parent scheme'', Edge])"

definition STRUCTURES_RE :: rx where
  "STRUCTURES_RE = Seqs [Edge, Words [''bridges'', ''footbridges'', ''porches'', ''commercial building'', ''acoustics building''], Edge]"

definition clause_char :: rx where
  "clause_char = Cls (\<lambda>c. c \<noteq> CHR ''.'' \<and> c \<noteq> CHR '';'')"

definition CONVERSION_RE :: rx where
  "CONVERSION_RE = Seqs [Edge, Words [''conversion'', ''change of use''], Spaces, LazyUpTo 100 clause_char, Edge, Words [''to'', ''into''], Spaces, quantum]"

definition LAND_RE :: rx where
  "LAND_RE = Seqs [Edge, Lit ''development of land for'', Spaces, quantum]"

definition BUILDING_CREATION_RE :: rx where
  "BUILDING_CREATION_RE = Seqs [Edge, Words [''erection'', ''construction'', ''provision'', ''development''], Spaces, Opt (Seq (Lit ''of'') Spaces),
     Opt (Alt (Seq (Lit ''a'') Spaces) (Seq (Lit ''an'') Spaces)), Opt (Seq (Lit ''new'') Spaces),
     Opt (Seqs [Alt (Plus Digit) lower_word, Cls (\<lambda>c. c = CHR '' '' \<or> c = CHR ''-''), Words [''storey'', ''story''], Spaces]),
     Opt (Seq (Words [''mixed-use'', ''residential'', ''apartment'', ''new'']) Spaces), Words [''development'', ''building'', ''block''], Edge, LazyUpTo 160 clause_char,
     Edge, Words [''with'', ''containing'', ''comprising'', ''providing''], Spaces, quantum]"

definition EXISTING_PARTS_RE :: rx where
  "EXISTING_PARTS_RE = Seqs [Edge, Alts [Lit ''porches'', plural ''roof'', plural ''window'', Lit ''cladding'', Lit ''repairs'', Lit ''refurbishment''], Edge]"

definition EXISTING_STOCK_RE :: rx where
  "EXISTING_STOCK_RE = Seq Edge (Alt (Seq (Lit ''existing'') Edge)
     (Seqs [Lit ''to'', Spaces, Plus Digit, Spaces, Words [''dwellings'', ''homes'', ''houses'']]))"

definition CROSSINGS_RE :: rx where
  "CROSSINGS_RE = Seqs [Edge, Alts [Seqs [Lit ''pedestrian'', Spaces, Words [''crossings'', ''bridges'']], plural ''footbridge'', Lit ''crossings/bridges''], Edge]"

definition COMMERCIAL_RE :: rx where
  "COMMERCIAL_RE = Alts [Seqs [Edge, Lit ''commercial building'', Edge],
     Seqs [Edge, Lit ''use class'', Opt (Lit ''es''), Spaces, Lit ''b'', Words [''2'', ''8''], Edge],
     Seqs [Edge, Lit ''acoustics '', Words [''building'', ''metrology''], Edge]]"

definition JOIN_RE :: rx where
  "JOIN_RE = Seqs [Gap, Alt (Seqs [Opt (Lit '',''), Gap, Lit ''and'']) (Lit ''together with''), Spaces]"

definition CLASS_C3_RE :: rx where
  "CLASS_C3_RE = Lit ''(class c3)''"

definition TOGETHER_RE :: rx where
  "TOGETHER_RE = Seqs [Edge, Lit ''together with'', Spaces, quantum]"

section \<open>The proposal\<close>

definition ancillary_action :: "str \<Rightarrow> bool" where
  "ancillary_action s = (search_rx ANCILLARY_RE s \<or> match_at_start LANDSCAPING_RE s)"

text \<open>The part of the proposal that describes the application itself.\<close>

definition own_scope :: "str \<Rightarrow> str" where
  "own_scope s =
    (let parent = hd (split_rx PARENT_RE s);
         front = (if ancillary_action s then hd (split_rx ADJOINING_RE parent) else parent) in
     if ancillary_action s \<or> search_rx (Seq creation_prefix quantum) front \<or> search_rx STRUCTURES_RE front then front else s)"

fun first_nonempty :: "'a list list \<Rightarrow> 'a list" where
  "first_nonempty [] = []"
| "first_nonempty (xs # xss) = (if xs = [] then first_nonempty xss else xs)"

definition creation_matches :: "str \<Rightarrow> rx_match list" where
  "creation_matches s = first_nonempty (map (\<lambda>r. finditer r s) [Seq creation_prefix quantum, CONVERSION_RE, LAND_RE, BUILDING_CREATION_RE])"

definition stated_number :: "str \<Rightarrow> rx_match \<Rightarrow> int" where
  "stated_number s m = digits_value (str_or (group_text s m) [])"

text \<open>Why a text that creates no homes states none.\<close>

definition works_reason :: "bool \<Rightarrow> str \<Rightarrow> str option" where
  "works_reason ancillary s =
    (if ancillary then Some ''ancillary_works_scope''
     else if search_rx EXISTING_PARTS_RE s \<and> search_rx EXISTING_STOCK_RE s then Some ''existing_stock_works''
     else if search_rx CROSSINGS_RE s then Some ''ancillary_works_scope''
     else if search_rx COMMERCIAL_RE s then Some ''non_residential_scope''
     else None)"

definition additive :: "str \<Rightarrow> rx_match list \<Rightarrow> bool" where
  "additive s ms = (case ms of [m] \<Rightarrow> True
     | [m, m'] \<Rightarrow> fullmatch JOIN_RE (concat (split_rx CLASS_C3_RE (take (mt_start m' - mt_end m) (drop (mt_end m) s))))
     | _ \<Rightarrow> False)"

text \<open>The numbers of the creation clauses, and of a component joined to the last.\<close>

definition component_numbers :: "str \<Rightarrow> rx_match list \<Rightarrow> int list" where
  "component_numbers s ms =
    (let stated = map (stated_number s) ms in
     if ms = [] then stated
     else (let rest = drop (mt_end (last ms)) s;
               joined = stated @ (case match_at (Seq JOIN_RE quantum) rest 0 of None \<Rightarrow> [] | Some m \<Rightarrow> [stated_number rest m]) in
       (case match_from TOGETHER_RE rest 0 of None \<Rightarrow> joined
        | Some m \<Rightarrow> if stated_number rest m \<in> set joined then joined else joined @ [stated_number rest m])))"

definition count_contradiction :: "str \<Rightarrow> rx_match list \<Rightarrow> int option \<Rightarrow> str option" where
  "count_contradiction s ms known =
    (let numbers = component_numbers s ms in
     case known of None \<Rightarrow> None
     | Some n \<Rightarrow>
        if ms \<noteq> [] \<and> additive s ms \<and> length numbers = 2 \<and> n \<in> set numbers \<and> n \<noteq> sum_list numbers then Some ''component_not_whole''
        else if ms \<noteq> [] \<and> length numbers = 1 \<and> length (finditer quantum s) = 1 \<and> n \<noteq> hd numbers then Some ''proposal_count_conflict''
        else None)"

definition residential_count_eligibility :: "str option \<Rightarrow> pyval \<Rightarrow> str option" where
  "residential_count_eligibility proposal v =
    (let s = lower (str_or proposal []) in
     if qualified_residential_quantity (Some s) then Some ''qualified_quantity_withheld''
     else (let t = own_scope s; ms = creation_matches t in
       case (if ms = [] then works_reason (ancillary_action s) t else None) of Some r \<Rightarrow> Some r
       | None \<Rightarrow> count_contradiction t ms (known_unit_count v)))"

end
