(* ===== verification/SourceRules.thy ===== *)
theory SourceRules
  imports CountEligibility PhaseTracking
begin

text \<open>
  The phase and plot labels of a text (\<open>extract_phase_labels\<close> of app/pipeline/phase_tracking.py), and \<open>source_rules\<close>: the classifiers of free text that reconciliation and
  phase tracking are modelled over, all of them the program's own. With it every operation that takes \<open>text_rules\<close> computes what the program computes.
\<close>

section \<open>Labels\<close>

definition ascii_alpha :: rx where
  "ascii_alpha = Cls ascii_letter"

definition PHASE_TOKEN :: rx where
  "PHASE_TOKEN = Seqs [Opt (Seq (Lit ''part'') Spaces), UpTo 4 ascii_alpha, Plus Digit, Opt ascii_alpha]"

text \<open>The pattern has two groups; \<open>kind\<close> and \<open>chunk\<close> say which is captured.\<close>

definition PHASE_LIST_RE :: "(rx \<Rightarrow> rx) \<Rightarrow> (rx \<Rightarrow> rx) \<Rightarrow> rx" where
  "PHASE_LIST_RE kind chunk = Seqs [Edge, kind (Words [''phase'', ''plot'']), Opt (Lit ''s''), Spaces,
     chunk (Plus (Seqs [PHASE_TOKEN, Gap, Opt (Words ['','', ''and'', ''&'']), Gap]))]"

definition LABEL_SEPARATOR :: rx where
  "LABEL_SEPARATOR = Alt (Cls (\<lambda>c. c = CHR '','' \<or> c = CHR ''&'')) (Seqs [Edge, Lit ''and'', Edge])"

definition PART_RE :: rx where
  "PART_RE = Seqs [Edge, Lit ''part'', Edge]"

definition label_tokens :: "str \<Rightarrow> str list" where
  "label_tokens chunk = map (\<lambda>token. map upper_char (strip (concat (split_rx PART_RE token)))) (split_rx LABEL_SEPARATOR chunk)"

definition add_label :: "str \<Rightarrow> (str \<times> str) list \<Rightarrow> str \<Rightarrow> (str \<times> str) list" where
  "add_label kind labels token = (if token \<noteq> [] \<and> token \<notin> set (map fst labels) then labels @ [(token, kind)] else labels)"

definition phase_lists :: "str \<Rightarrow> (str \<times> str) list" where
  "phase_lists s = zip (map (\<lambda>m. str_or (group_text s m) []) (finditer (PHASE_LIST_RE Group id) s))
     (map (\<lambda>m. str_or (group_text s m) []) (finditer (PHASE_LIST_RE id Group) s))"

definition extract_phase_labels :: "str option \<Rightarrow> (str \<times> str) list" where
  "extract_phase_labels text = foldl (\<lambda>labels (kind, chunk). foldl (add_label kind) labels (label_tokens chunk)) [] (phase_lists (lower (str_or text [])))"

text \<open>The proposal's labels, or the address's where it has none.\<close>

definition row_labels :: "portal_row \<Rightarrow> (str \<times> str) list" where
  "row_labels a = (if extract_phase_labels (rw_proposal a) \<noteq> [] then extract_phase_labels (rw_proposal a) else extract_phase_labels (rw_address a))"

section \<open>The rules of the program\<close>

definition source_rules :: text_rules where
  "source_rules = \<lparr>rule_category = classify_application_category, rule_ineligible = (\<lambda>a. residential_count_eligibility (rw_proposal a)),
     rule_unit_counts = extract_unit_counts, rule_labels = row_labels\<rparr>"

end
