(* ===== verification/AcquisitionPhasing.thy ===== *)
theory AcquisitionPhasing
  imports SourceRules SubjectIdentity
begin

text \<open>
  The phasing evidence of a site (app/reporting/acquisition_phasing.py), and which scope a subject of the feed already is. The state is the \<open>phasing_state\<close> the matcher reads.
\<close>

definition proposal_phase_groups :: "portal_row list \<Rightarrow> groups" where
  "proposal_phase_groups apps = foldl (\<lambda>gs a. foldl (\<lambda>gs k. add_to_group k [a] gs) gs (extract_phase_labels (rw_proposal a))) [] apps"

datatype phasing_error = ProgressFails progress_error | LapseFails date_error

text \<open>What one group says of the site, if anything.\<close>

definition phase_vote :: "int \<Rightarrow> str option \<Rightarrow> (str \<times> str) \<times> portal_row list \<Rightarrow> phasing_error + phasing_state option" where
  "phase_vote today raw g = (case g of ((code, kind), apps) \<Rightarrow>
     if kind \<noteq> ''phase'' \<or> code = UNPHASED_LABEL then Inr None
     else (case compute_phase_progress source_rules apps of Inl e \<Rightarrow> Inl (ProgressFails e)
       | Inr p \<Rightarrow> if pp_latest_grant p = None then Inr None
           else (case compute_lapse_status today (anchor_of (resolve_operative_lapse_anchor source_rules apps)) raw of Inl e \<Rightarrow> Inl (LapseFails e)
             | Inr l \<Rightarrow> Inr (Some (if ls_status l = LAPSED then PHASING_HISTORICAL_ONLY
                 else if ls_status l = LAPSE_UNKNOWN then PHASING_CURRENTNESS_UNKNOWN else PHASING_CURRENT_EVIDENCED_PHASE)))))"

fun phase_votes :: "int \<Rightarrow> str option \<Rightarrow> groups \<Rightarrow> phasing_error + phasing_state option list" where
  "phase_votes today raw [] = Inr []"
| "phase_votes today raw (g # gs) = (case phase_vote today raw g of Inl e \<Rightarrow> Inl e
     | Inr v \<Rightarrow> (case phase_votes today raw gs of Inl e \<Rightarrow> Inl e | Inr vs \<Rightarrow> Inr (v # vs)))"

text \<open>The site is given by its stored build status; \<open>None\<close> is a missing row.\<close>

definition derive_acquisition_phasing_evidence :: "int \<Rightarrow> portal_row list \<Rightarrow> str option option \<Rightarrow> phasing_error + phasing_state" where
  "derive_acquisition_phasing_evidence today apps site = (case site of None \<Rightarrow> Inr PHASING_NONE_IDENTIFIED
     | Some raw \<Rightarrow> (case phase_votes today raw (proposal_phase_groups apps) of Inl e \<Rightarrow> Inl e
       | Inr votes \<Rightarrow> Inr (if Some PHASING_CURRENT_EVIDENCED_PHASE \<in> set votes then PHASING_CURRENT_EVIDENCED_PHASE
           else if Some PHASING_CURRENTNESS_UNKNOWN \<in> set votes then PHASING_CURRENTNESS_UNKNOWN
           else if Some PHASING_HISTORICAL_ONLY \<in> set votes then PHASING_HISTORICAL_ONLY
           else PHASING_NONE_IDENTIFIED)))"

definition is_current_evidenced_phase :: "phasing_state option \<Rightarrow> bool" where
  "is_current_evidenced_phase e = (e = Some PHASING_CURRENT_EVIDENCED_PHASE)"

section \<open>The scope a subject already is\<close>

definition phase_scope_key :: "str option \<Rightarrow> str option" where
  "phase_scope_key code = (if code = Some UNPHASED_LABEL then None else code)"

text \<open>A card: its \<open>id\<close> and \<open>phase_code\<close>.\<close>

definition subject_scope_for_feed_card :: "str option \<Rightarrow> str option \<Rightarrow> str option \<times> bool" where
  "subject_scope_for_feed_card card_id code = (let i = str_or card_id [] in
     if prefix ''opp-phase-'' i then (phase_scope_key code, False)
     else (None, prefix ''opp-recent-permission-'' i \<or> prefix ''opp-long-pending-'' i))"

definition subject_scope_for_opportunity_id :: "str \<Rightarrow> str option \<times> bool" where
  "subject_scope_for_opportunity_id i = (let parts = split_max CHR '':'' 3 i; kind = (if 1 < length parts then parts ! 1 else []) in
     if kind = ''phase'' then (phase_scope_key (if 3 < length parts then Some (parts ! 3) else None), False)
     else (None, kind \<in> {''recent_permission'', ''long_pending_application''}))"

end
