(* ===== verification/OperativeProperties.thy ===== *)
theory OperativeProperties
  imports PhaseTracking
begin

text \<open>
  What the reconciliation of a site's applications establishes: which grants a buyer is shown, what starts the lapse clock, what
  an approved count rests on, and that grouping loses no application.
\<close>

section \<open>The ranking\<close>

lemma max_by_None [simp]: "(max_by f xs = None) = (xs = [])"
  by (cases xs) (auto split: option.split)

lemma max_by_SomeD: "max_by f xs = Some x \<Longrightarrow> x \<in> set xs \<and> (\<forall>y\<in>set xs. f y \<le> f x)"
proof (induction xs arbitrary: x)
  case Nil
  then show ?case by simp
next
  case (Cons a xs)
  show ?case
  proof (cases "max_by f xs")
    case None
    with Cons.prems show ?thesis by simp
  next
    case (Some y)
    with Cons.IH [OF Some] Cons.prems show ?thesis
      by (auto split: if_split_asm)
  qed
qed

section \<open>Rows\<close>

lemma resolve_row_simps [simp]:
  "rr_row (resolve_row rules ty lbl a) = a" "rr_role (resolve_row rules ty lbl a) = resolve_planning_role rules a"
  "rr_decided (resolve_row rules ty lbl a) = decided_state a" "scope_of_row (resolve_row rules ty lbl a) = (ty, lbl)"
  "rr_scope_type (resolve_row rules ty lbl a) = ty"
  by (simp_all add: resolve_row_def scope_of_row_def)

definition substantive_grant :: "text_rules \<Rightarrow> portal_row \<Rightarrow> bool" where
  "substantive_grant rules a = (resolve_planning_role rules a \<in> set SUBSTANTIVE_ROLES \<and> decided_state a = DECIDED_GRANTED)"

lemma granted_rows_iff: "r \<in> set (granted_rows rs) \<longleftrightarrow> r \<in> set rs \<and> is_substantive r \<and> rr_decided r = DECIDED_GRANTED"
  by (simp add: granted_rows_def)

text \<open>A row that no phase and no material parcel names.\<close>

definition unnamed :: "text_rules \<Rightarrow> portal_row list \<Rightarrow> portal_row \<Rightarrow> bool" where
  "unnamed rules apps a = (keys_naming (named_groups rules apps) (rw_id a) = [])"

lemma site_scope_iff: "fst (scope_in named i) \<in> {SCOPE_WHOLE_SITE, SCOPE_UNCLEAR} \<longleftrightarrow> keys_naming named i = []"
  by (auto simp: scope_in_def SCOPE_WHOLE_SITE_def SCOPE_UNCLEAR_def SCOPE_PHASE_def SCOPE_PLOT_def WHOLE_SITE_UNCONFIRMED_def split: list.splits prod.splits)

lemma set_site_scope_rows:
  "set (site_scope_rows (resolve_applications rules apps)) =
    (\<lambda>a. case scope_in (named_groups rules apps) (rw_id a) of (ty, lbl) \<Rightarrow> resolve_row rules ty lbl a) ` {a \<in> set apps. unnamed rules apps a}"
  unfolding site_scope_rows_def resolve_applications_def Let_def unnamed_def site_scope_iff [symmetric]
  by (auto simp: case_prod_beta image_iff)

section \<open>The planning state a buyer sees\<close>

lemma status_granted_iff:
  "(let s = snd (resolve_reference_and_status rs) in of_state s = FACT_RESOLVED \<and> of_value s = TextValue ''Permission granted'') \<longleftrightarrow> granted_rows rs \<noteq> []"
  by (auto simp: resolve_reference_and_status_def Let_def granted_facts_def terminal_facts_def text_fact_def resolved_fact_def undetermined_def
      split: option.splits list.splits)

lemma active_iff: "resolve_active_positions rules rs = [] \<longleftrightarrow> live_rows rs = []"
  by (auto simp: resolve_active_positions_def first_seen_def Let_def)
    (metis length_0_conv length_sort map_is_Nil_conv remdups_eq_nil_iff rev_is_Nil_conv)

lemma granted_site_iff:
  "(let st = snd (resolve_reference_and_status (site_scope_rows (resolve_applications rules apps))) in
     of_state st = FACT_RESOLVED \<and> (case of_value st of TextValue t \<Rightarrow> Some t | _ \<Rightarrow> None) = Some ''Permission granted'') \<longleftrightarrow>
   list_ex (\<lambda>a. unnamed rules apps a \<and> substantive_grant rules a) apps"
proof -
  have v: "(case v of TextValue t \<Rightarrow> Some t | _ \<Rightarrow> None) = Some u \<longleftrightarrow> v = TextValue u" for v u by (cases v) auto
  show ?thesis unfolding v status_granted_iff
    by (auto simp: list_ex_iff ex_in_conv [symmetric] set_empty [symmetric] granted_rows_iff set_site_scope_rows substantive_grant_def is_substantive_def
        case_prod_beta simp del: set_empty)
qed

lemma live_site_iff:
  "resolve_active_positions rules (resolve_applications rules apps) = [] \<longleftrightarrow>
   \<not> list_ex (\<lambda>a. resolve_planning_role rules a \<in> set (ROLE_S73_VARIATION # SUBSTANTIVE_ROLES) \<and>
         decided_state a \<in> {DECIDED_UNDETERMINED, DECIDED_RECOMMENDATION_ONLY}) apps"
  unfolding active_iff
  by (auto simp: live_rows_def filter_empty_conv resolve_applications_def Let_def live_def is_substantive_def list_ex_iff case_prod_beta)

lemma substantive_grant_text:
  "substantive_grant rules a \<longleftrightarrow> resolve_planning_role rules a \<in> set SUBSTANTIVE_ROLES \<and>
     (mentions ''approve'' (rw_decision a) \<or> mentions ''grant'' (rw_decision a)) \<and>
     \<not> mentions ''withdraw'' (rw_decision a) \<and> \<not> mentions ''withdraw'' (rw_status a) \<and>
     \<not> mentions ''recommend'' (rw_decision a) \<and> \<not> mentions ''recommend'' (rw_status a)"
  by (auto simp: substantive_grant_def decided_state_def decided_granted_iff)

lemma matched_planning_state:
  "mf_planning_state (build_matching_facts_from_operative (operative_view f) aps ca aa) =
    (if (let st = cp_planning_status (pf_consented f) in
         of_state st = FACT_RESOLVED \<and> (case of_value st of TextValue t \<Rightarrow> Some t | _ \<Rightarrow> None) = Some ''Permission granted'') then PERMISSION_GRANTED
     else if pf_active f = [] then OTHER_OR_UNKNOWN else PLANNING_ACTIVE_PROPOSAL)"
  by (cases "pf_active f") (simp_all add: build_matching_facts_from_operative_def Let_def delivery_facts_def resolve_operative_planning_state_def
      operative_view_def plain_fact_def)

lemma facts_of_site:
  "cp_planning_status (pf_consented (build_operative_planning_facts rules apps)) =
     snd (resolve_reference_and_status (site_scope_rows (resolve_applications rules apps)))"
  "pf_active (build_operative_planning_facts rules apps) = resolve_active_positions rules (resolve_applications rules apps)"
  by (simp_all add: build_operative_planning_facts_def facts_of_rows_def resolve_consented_position_def case_prod_beta Let_def)

text \<open>
  C35. The planning position a buyer is matched on, traced to the portal's own words: permission is granted exactly when some application that no phase or parcel
  claims has a substantive role and its decision text says approved or granted while nothing says withdrawn or recommended; an active proposal is shown exactly where there is no such grant but
  a substantive application or variation is undecided; nothing else is ever shown.
\<close>

theorem buyer_sees_formal_grants_only:
  "mf_planning_state (build_matching_facts_from_operative (operative_view (build_operative_planning_facts rules apps)) aps ca aa) =
    (if list_ex (\<lambda>a. unnamed rules apps a \<and> resolve_planning_role rules a \<in> set SUBSTANTIVE_ROLES \<and>
         (mentions ''approve'' (rw_decision a) \<or> mentions ''grant'' (rw_decision a)) \<and>
         \<not> mentions ''withdraw'' (rw_decision a) \<and> \<not> mentions ''withdraw'' (rw_status a) \<and>
         \<not> mentions ''recommend'' (rw_decision a) \<and> \<not> mentions ''recommend'' (rw_status a)) apps then PERMISSION_GRANTED
     else if list_ex (\<lambda>a. resolve_planning_role rules a \<in> set (ROLE_S73_VARIATION # SUBSTANTIVE_ROLES) \<and>
         decided_state a \<in> {DECIDED_UNDETERMINED, DECIDED_RECOMMENDATION_ONLY}) apps then PLANNING_ACTIVE_PROPOSAL
     else OTHER_OR_UNKNOWN)"
  unfolding matched_planning_state facts_of_site granted_site_iff live_site_iff substantive_grant_text
  by (simp add: conj_ac)

section \<open>What starts the lapse clock\<close>

lemma granted_candidates:
  "granted_rows (map (resolve_row rules ty lbl) apps) = map (resolve_row rules ty lbl) (filter (substantive_grant rules) apps)"
  by (induction apps) (simp_all add: granted_rows_def substantive_grant_def is_substantive_def)

lemma anchor_cases:
  obtains (none) "filter (substantive_grant rules) apps = []" "\<not> la_resolved (anchor_of (resolve_operative_lapse_anchor rules apps))"
  | (lead) a where "a \<in> set apps" "substantive_grant rules a"
      "anchor_of (resolve_operative_lapse_anchor rules apps) = \<lparr>la_resolved = True, la_any_granted = True, la_application = Some (rw_id a),
         la_decision_date = decision_date (resolve_row rules SCOPE_UNCLEAR [] a)\<rparr>"
      "\<And>b. b \<in> set apps \<Longrightarrow> substantive_grant rules b \<Longrightarrow>
         by_grant_then_recency (resolve_row rules SCOPE_UNCLEAR [] b) \<le> by_grant_then_recency (resolve_row rules SCOPE_UNCLEAR [] a)"
proof (cases "max_by by_grant_then_recency (granted_rows (map (resolve_row rules SCOPE_UNCLEAR []) apps))")
  case None
  then show ?thesis using none by (simp add: granted_candidates resolve_operative_lapse_anchor_def anchor_of_def Let_def)
next
  case (Some r)
  from max_by_SomeD [OF Some] obtain a where a: "r = resolve_row rules SCOPE_UNCLEAR [] a" "a \<in> set apps" "substantive_grant rules a"
    and top: "\<forall>y\<in>set (granted_rows (map (resolve_row rules SCOPE_UNCLEAR []) apps)). by_grant_then_recency y \<le> by_grant_then_recency r"
    by (auto simp: granted_candidates)
  show ?thesis
  proof (rule lead [OF a(2,3)])
    show "anchor_of (resolve_operative_lapse_anchor rules apps) = \<lparr>la_resolved = True, la_any_granted = True, la_application = Some (rw_id a),
         la_decision_date = decision_date (resolve_row rules SCOPE_UNCLEAR [] a)\<rparr>"
      using Some a(1) by (simp add: resolve_operative_lapse_anchor_def anchor_of_def Let_def)
  qed (use top a(1) in \<open>simp add: granted_candidates\<close>)
qed

lemma decision_date_row:
  "decision_date (resolve_row rules ty lbl a) = (if truthy (rw_decision_issued a) then Some (parse_portal_date (rw_decision_issued a)) else None)"
  by (simp add: decision_date_def Let_def)

lemma recency_bounds_date:
  assumes "by_grant_then_recency (resolve_row rules ty lbl b) \<le> by_grant_then_recency (resolve_row rules ty lbl a)"
    and "decided_state a = decided_state b" and "truthy (rw_decision_issued b)" and "decision_date (resolve_row rules ty lbl a) = Some d"
  shows "toordinal (parse_portal_date (rw_decision_issued b)) \<le> toordinal d"
  using assms by (auto simp: by_grant_then_recency_def decision_date_row opt_or_def split: if_split_asm)

lemma dated_status:
  assumes "compute_lapse_status today an raw = Inr l" and "ls_deadline l = Some e"
  shows "la_resolved an \<and> ls_granted l = la_application an \<and> (\<exists>d. la_decision_date an = Some d \<and> resolve_lapse_deadline d = Inr e)"
  using assms by (auto simp: compute_lapse_status_def undated_def dated_def Let_def split: if_split_asm sum.split_asm)

text \<open>
  The lapse clock of a list of applications only ever runs from a granted application of a substantive role, dated, and the latest such decision:
  an amendment, a discharge of conditions, a variation or a prior approval never starts or resets it, and leaving all other applications out changes nothing.
\<close>

theorem lapse_clock_from_substantive_grant:
  assumes "compute_lapse_status today (anchor_of (resolve_operative_lapse_anchor rules apps)) raw = Inr l" and "ls_deadline l = Some e"
  shows "(\<exists>a\<in>set apps. substantive_grant rules a \<and> ls_granted l = Some (rw_id a) \<and> truthy (rw_decision_issued a) \<and>
      resolve_lapse_deadline (parse_portal_date (rw_decision_issued a)) = Inr e \<and>
      (\<forall>b\<in>set apps. substantive_grant rules b \<and> truthy (rw_decision_issued b) \<longrightarrow>
         toordinal (parse_portal_date (rw_decision_issued b)) \<le> toordinal (parse_portal_date (rw_decision_issued a)))) \<and>
    compute_lapse_status today (anchor_of (resolve_operative_lapse_anchor rules (filter (substantive_grant rules) apps))) raw = Inr l"
proof (cases rule: anchor_cases [of rules apps])
  case none
  with dated_status [OF assms] show ?thesis by simp
next
  case (lead a)
  let ?r = "resolve_row rules SCOPE_UNCLEAR []"
  have d: "ls_granted l = Some (rw_id a)" "truthy (rw_decision_issued a)" "resolve_lapse_deadline (parse_portal_date (rw_decision_issued a)) = Inr e"
    using dated_status [OF assms] unfolding lead(3) by (auto simp: decision_date_row split: if_split_asm)
  have "toordinal (parse_portal_date (rw_decision_issued b)) \<le> toordinal (parse_portal_date (rw_decision_issued a))"
    if "b \<in> set apps" "substantive_grant rules b" "truthy (rw_decision_issued b)" for b
  proof (rule recency_bounds_date [OF lead(4) [OF that(1,2)]])
    show "decided_state a = decided_state b" using lead(2) that(2) by (simp add: substantive_grant_def)
  qed (use that(3) d(2) in \<open>simp_all add: decision_date_row\<close>)
  moreover have "resolve_operative_lapse_anchor rules (filter (substantive_grant rules) apps) = resolve_operative_lapse_anchor rules apps"
    using lead(3) by (auto simp: resolve_operative_lapse_anchor_def Let_def granted_candidates anchor_of_def split: option.splits)
  ultimately show ?thesis using lead(1,2) d assms(1) by auto
qed

text \<open>Rules for the examples: no labels, everything residential and eligible.\<close>

definition demo_rules :: text_rules where
  "demo_rules = \<lparr>rule_category = (\<lambda>p. ''primary_residential''), rule_ineligible = (\<lambda>a v. None), rule_unit_counts = (\<lambda>p. []), rule_labels = (\<lambda>a. [])\<rparr>"

definition demo_row :: "int \<Rightarrow> str option \<Rightarrow> portal_row" where
  "demo_row i issued = \<lparr>rw_id = i, rw_reference = ''DC/1'', rw_site_id = Some 7, rw_council = ''stockport'', rw_address = None, rw_proposal = Some ''Erection of 12 dwellings'', rw_application_type = None,
     rw_status = Some ''Decided'', rw_decision = Some ''Approved'', rw_decision_issued = issued, rw_received = None, rw_category = None,
     rw_estimated_units = PyNone, rw_link_method = None, rw_link_confidence = None, rw_scheme = None\<rparr>"

theorem lapse_clock_from_substantive_grant_witness:
  "\<exists>l. compute_lapse_status (toordinal \<lparr>d_year = 2027, d_month = 2, d_day = 28\<rparr>)
      (anchor_of (resolve_operative_lapse_anchor demo_rules [demo_row 1 (Some ''2024-02-29''), demo_row 2 None])) None = Inr l \<and>
    ls_granted l = Some 1 \<and> ls_deadline l = Some \<lparr>d_year = 2027, d_month = 2, d_day = 28\<rparr>"
proof -
  let ?an = "anchor_of (resolve_operative_lapse_anchor demo_rules [demo_row 1 (Some ''2024-02-29''), demo_row 2 None])"
  have "case compute_lapse_status (toordinal \<lparr>d_year = 2027, d_month = 2, d_day = 28\<rparr>) ?an None of
      Inr l \<Rightarrow> ls_deadline l = Some \<lparr>d_year = 2027, d_month = 2, d_day = 28\<rparr> \<and> ls_granted l \<noteq> Some 2 | _ \<Rightarrow> False"
    by code_simp
  then obtain l where l: "compute_lapse_status (toordinal \<lparr>d_year = 2027, d_month = 2, d_day = 28\<rparr>) ?an None = Inr l"
    "ls_deadline l = Some \<lparr>d_year = 2027, d_month = 2, d_day = 28\<rparr>" "ls_granted l \<noteq> Some 2" by (auto split: sum.splits)
  with lapse_clock_from_substantive_grant [OF l(1,2)] show ?thesis by (auto simp: demo_row_def)
qed

section \<open>What an approved count rests on\<close>

declare sort_key_Nil_iff [simp]

lemma assess_positions_sources [simp]: "ca_sources (assess_positions ty lbl subj m basis conf spd ps) = sort_key position_key ps"
  by (simp add: assess_positions_def assess_values_def base_assessment_def Let_def)

lemma exact_value_exact: "exact_value a = Some n \<Longrightarrow> ca_precision a = EXACT"
  by (simp add: exact_value_def split: if_split_asm)

lemma exact_value_other [simp]: "ca_precision a \<noteq> EXACT \<Longrightarrow> exact_value a = None"
  by (simp add: exact_value_def)

lemma count_fact_value: "of_value (count_fact name a) = CountValue n \<longleftrightarrow> exact_value a = Some n"
  by (simp add: count_fact_def Let_def split: option.split)

definition withheld :: "text_rules \<Rightarrow> resolved_row list \<Rightarrow> bool" where
  "withheld rules rs = list_ex (\<lambda>r. rule_ineligible rules (rr_row r) (scheme_total (rr_row r)) = Some ''qualified_quantity_withheld'') rs"

lemma contain_exact:
  assumes "ca_sources a \<noteq> []"
  shows "exact_value (contain_count_assessment rules a rows) = Some n \<longleftrightarrow> exact_value a = Some n \<and> \<not> withheld rules rows"
proof -
  have "''qualified_quantity_withheld'' \<in> set (List.map_filter (\<lambda>r. rule_ineligible rules (rr_row r) (scheme_total (rr_row r))) rows) \<longleftrightarrow> withheld rules rows"
    by (force simp: withheld_def list_ex_iff map_filter_def)
  then show ?thesis using assms by (auto simp: contain_count_assessment_def Let_def)
qed

lemma contain_not_exact: "exact_value a = None \<Longrightarrow> exact_value (contain_count_assessment rules a rows) = None"
  by (auto simp: contain_count_assessment_def Let_def)

lemma position_fields [simp]:
  "cs_value (position r v) = v" "cs_scope_type (position r v) = rr_scope_type r" "cs_scope_label (position r v) = rr_scope_label r"
  by (simp_all add: position_def)

lemma remdups_same:
  assumes "xs \<noteq> []" and "\<forall>x\<in>set xs. x = s"
  shows "remdups xs = [s]"
proof -
  have one: "set xs = {s}" using assms by (cases xs) auto
  then have "length (remdups xs) = Suc 0" by (simp add: remdups_one)
  then obtain y where y: "remdups xs = [y]" by (auto simp: length_Suc_conv)
  with one set_remdups [of xs] show ?thesis by simp
qed

lemma approved_assessment_exact:
  assumes one: "\<And>r. r \<in> set rs \<Longrightarrow> scope_of_row r = s"
  shows "exact_value (approved_assessment rules rs spd) = Some n \<longleftrightarrow>
    (let cur = current_rows (count_eligible rules rs) in
     extracted rules cur \<noteq> [] \<and> list_all (\<lambda>r. known_unit_count (scheme_total (rr_row r)) = Some n) (extracted rules cur) \<and> \<not> withheld rules cur)"
proof -
  define cur where "cur = current_rows (count_eligible rules rs)"
  define ps where "ps = map (\<lambda>r. position r (scheme_total (rr_row r))) (extracted rules cur)"
  have sub: "set (extracted rules cur) \<subseteq> set rs"
    by (auto simp: extracted_def cur_def current_rows_def count_eligible_def)
  show ?thesis
  proof (cases "ps = []")
    case True
    then have "extracted rules cur = []" by (simp add: ps_def)
    with True show ?thesis
      by (auto simp: approved_assessment_def Let_def case_prod_beta cur_def [symmetric] ps_def [symmetric] contain_not_exact)
  next
    case False
    then have "rs \<noteq> []" using sub by (auto simp: ps_def)
    then have scope: "approved_scope rs = s"
      using one remdups_same [of "map scope_of_row rs" s] by (simp add: approved_scope_def)
    have "exact_value (assess_positions (fst s) (snd s) u m b c spd ps) = Some n \<longleftrightarrow> (\<forall>r\<in>set (extracted rules cur). known_unit_count (scheme_total (rr_row r)) = Some n)" for u m b c
    proof -
      have "exact_value (assess_positions (fst s) (snd s) u m b c spd ps) = Some n \<longleftrightarrow>
        ps \<noteq> [] \<and> (\<forall>p\<in>set ps. (cs_scope_type p, cs_scope_label p, known_unit_count (cs_value p)) = (fst s, snd s, Some n))"
        using exact_value_exact by (simp only: assess_positions_exact [of "fst s" "snd s" u m b c spd ps n, unfolded set_map_single, symmetric]) blast
      moreover have "rr_scope_type r = fst s \<and> rr_scope_label r = snd s" if "r \<in> set (extracted rules cur)" for r
      proof -
        have "scope_of_row r = s" using one sub that by blast
        then show ?thesis by (auto simp: scope_of_row_def)
      qed
      ultimately show ?thesis using False by (auto simp: ps_def)
    qed
    with False show ?thesis
      by (simp add: approved_assessment_def Let_def case_prod_beta cur_def [symmetric] ps_def [symmetric] scope contain_exact list_all_iff) (simp add: ps_def)
  qed
qed

lemma site_scope_one:
  assumes "r \<in> set (site_scope_rows (resolve_applications rules apps))"
  shows "scope_of_row r = (if named_groups rules apps \<noteq> [] then (SCOPE_WHOLE_SITE, ''Whole site'') else WHOLE_SITE_UNCONFIRMED)"
  using assms unfolding set_site_scope_rows by (auto simp: unnamed_def scope_in_def WHOLE_SITE_UNCONFIRMED_def)

lemma approved_value:
  "of_value (cp_approved_units (pf_consented (build_operative_planning_facts rules apps))) = CountValue n \<longleftrightarrow>
    (let cur = current_rows (count_eligible rules (site_scope_rows (resolve_applications rules apps))) in
     extracted rules cur \<noteq> [] \<and> list_all (\<lambda>r. known_unit_count (scheme_total (rr_row r)) = Some n) (extracted rules cur) \<and> \<not> withheld rules cur)"
  using approved_assessment_exact [OF site_scope_one]
  by (simp add: build_operative_planning_facts_def facts_of_rows_def resolve_consented_position_def resolve_approved_units_def case_prod_beta Let_def
      count_fact_value)

text \<open>
  A site's approved count is stated as a figure exactly when the evidence agrees on it: among the granted applications that may set it and that no later variation naming
  them has replaced, at least one has an extracted total that is eligible, every such total is that same number, and none was withheld as a quantity with an upper limit. A figure
  read from portal text, or one of a named phase or parcel, is never stated as the site's approved count.
\<close>

theorem approved_count_agreed:
  "of_value (cp_approved_units (pf_consented (build_operative_planning_facts rules apps))) = CountValue n \<longleftrightarrow>
    (let cur = current_rows (count_eligible rules (site_scope_rows (resolve_applications rules apps))) in
     extracted rules cur \<noteq> [] \<and> list_all (\<lambda>r. known_unit_count (scheme_total (rr_row r)) = Some n) (extracted rules cur) \<and> \<not> withheld rules cur)"
  by (rule approved_value)

section \<open>Grouping loses nothing\<close>

definition grouped :: "groups \<Rightarrow> int set" where
  "grouped gs = (\<Union>g\<in>set gs. rw_id ` set (snd g))"

lemma grouped_add [simp]: "grouped (add_to_group k as gs) = rw_id ` set as \<union> grouped gs"
  by (induction k as gs rule: add_to_group.induct) (auto simp: grouped_def)

lemma grouped_labels: "grouped (foldl (\<lambda>gs k. add_to_group k [a] gs) gs ks) = (if ks = [] then {} else {rw_id a}) \<union> grouped gs"
  by (induction ks arbitrary: gs) auto

lemma grouped_by_phase: "grouped (group_applications_by_phase rules apps) = rw_id ` set apps"
proof -
  have "grouped (foldl (\<lambda>gs a. if rule_labels rules a = [] then add_to_group unphased_key [a] gs
      else foldl (\<lambda>gs k. add_to_group k [a] gs) gs (rule_labels rules a)) gs apps) = grouped gs \<union> rw_id ` set apps" for gs
    by (induction apps arbitrary: gs) (auto simp: grouped_labels)
  from this [of "[]"] show ?thesis by (simp add: group_applications_by_phase_def grouped_def)
qed

lemma not_yet_in_ids:
  "rw_id ` set (not_yet_in gs k as) \<union> rw_id ` set (opt_or (map_of gs k) []) = rw_id ` set as \<union> rw_id ` set (opt_or (map_of gs k) [])"
proof -
  have "rw_id ` set (foldl (\<lambda>new a. if rw_id a \<in> set (map rw_id (b @ new)) then new else new @ [a]) new as) \<union> rw_id ` set b
      = rw_id ` set as \<union> rw_id ` set new \<union> rw_id ` set b" for b new
    by (induction as arbitrary: new) auto
  from this [of "opt_or (map_of gs k) []" "[]"] show ?thesis by (simp add: not_yet_in_def)
qed

lemma grouped_new: "rw_id ` set (not_yet_in gs k as) \<union> grouped gs = rw_id ` set as \<union> grouped gs"
proof -
  have "rw_id ` set (opt_or (map_of gs k) []) \<subseteq> grouped gs"
  proof (cases "map_of gs k")
    case (Some b)
    then show ?thesis using map_of_SomeD [OF Some] by (force simp: grouped_def opt_or_def)
  qed (simp add: opt_or_def)
  with not_yet_in_ids [of gs k as] show ?thesis by blast
qed

lemma grouped_operative: "grouped (group_applications_by_operative_scope rules apps) = rw_id ` set apps"
proof -
  have "grouped (foldl (\<lambda>gs g. let k = operative_key rules g in add_to_group k (not_yet_in gs k (snd g)) gs) gs hs) = grouped gs \<union> grouped hs" for gs hs
    by (induction hs arbitrary: gs) (simp_all add: Let_def grouped_new, auto simp: grouped_def)
  from this [of "[]"] show ?thesis by (simp add: group_applications_by_operative_scope_def grouped_by_phase) (simp add: grouped_def)
qed

lemma group_keys_add [simp]: "fst ` set (add_to_group k as gs) = insert k (fst ` set gs)"
  by (induction k as gs rule: add_to_group.induct) auto

text \<open>Each key once, and each application once in a group.\<close>

definition well_grouped :: "groups \<Rightarrow> bool" where
  "well_grouped gs = (distinct (map fst gs) \<and> list_all (\<lambda>g. distinct (map rw_id (snd g))) gs)"

lemma well_grouped_add:
  "well_grouped gs \<Longrightarrow> distinct (map rw_id (opt_or (map_of gs k) [] @ as)) \<Longrightarrow> well_grouped (add_to_group k as gs)"
proof (induction k as gs rule: add_to_group.induct)
  case (2 k as k' bs gs)
  show ?case
  proof (cases "k = k'")
    case True
    with 2(2,3) show ?thesis by (simp add: well_grouped_def opt_or_def)
  next
    case False
    with 2 group_keys_add [of k as gs] show ?thesis by (simp add: well_grouped_def)
  qed
qed (simp add: well_grouped_def opt_or_def)

lemma well_grouped_group: "well_grouped gs \<Longrightarrow> distinct (map rw_id (opt_or (map_of gs k) []))"
  by (cases "map_of gs k") (auto simp: well_grouped_def opt_or_def list_all_iff dest: map_of_SomeD)

lemma not_yet_in_distinct:
  assumes "distinct (map rw_id (opt_or (map_of gs k) []))"
  shows "distinct (map rw_id (opt_or (map_of gs k) [] @ not_yet_in gs k as))"
proof -
  have "distinct (map rw_id (b @ new)) \<Longrightarrow>
    distinct (map rw_id (b @ foldl (\<lambda>new a. if rw_id a \<in> set (map rw_id (b @ new)) then new else new @ [a]) new as))" for b new
    by (induction as arbitrary: new) auto
  from this [of "opt_or (map_of gs k) []" "[]"] assms show ?thesis by (simp add: not_yet_in_def)
qed

lemma well_grouped_operative: "well_grouped (group_applications_by_operative_scope rules apps)"
proof -
  have "well_grouped (foldl (\<lambda>gs g. let k = operative_key rules g in add_to_group k (not_yet_in gs k (snd g)) gs) gs hs)" if "well_grouped gs" for gs hs
    using that by (induction hs arbitrary: gs) (simp_all add: Let_def well_grouped_add not_yet_in_distinct [simplified] well_grouped_group [simplified])
  then show ?thesis by (simp add: group_applications_by_operative_scope_def well_grouped_def)
qed

lemma operative_keys:
  "fst ` set (group_applications_by_operative_scope rules apps) = operative_key rules ` set (group_applications_by_phase rules apps)"
proof -
  have "fst ` set (foldl (\<lambda>gs g. let k = operative_key rules g in add_to_group k (not_yet_in gs k (snd g)) gs) gs hs)
      = fst ` set gs \<union> operative_key rules ` set hs" for gs hs
    by (induction hs arbitrary: gs) (auto simp: Let_def)
  from this [of "[]"] show ?thesis by (simp add: group_applications_by_operative_scope_def)
qed

definition named_plot :: "str \<times> str \<Rightarrow> bool" where
  "named_plot k = (snd k = ''plot'' \<and> fst k \<noteq> UNPHASED_LABEL)"

lemma named_plot_unphased [simp]: "\<not> named_plot unphased_key"
  by (simp add: named_plot_def unphased_key_def)

lemma operative_key_if:
  "operative_key rules g =
    (if named_plot (fst g) \<and> \<not> is_material_development_parcel rules (snd g) MATERIAL_PARCEL_UNIT_THRESHOLD then unphased_key else fst g)"
  by (cases g) (simp add: operative_key_def named_plot_def case_prod_beta)

lemma operative_key_plot:
  "named_plot (operative_key rules g) \<longleftrightarrow> named_plot (fst g) \<and> is_material_development_parcel rules (snd g) MATERIAL_PARCEL_UNIT_THRESHOLD"
  "named_plot (fst g) \<and> is_material_development_parcel rules (snd g) MATERIAL_PARCEL_UNIT_THRESHOLD \<Longrightarrow> operative_key rules g = fst g"
  unfolding operative_key_if by auto

text \<open>
  Grouping a site's applications into acquisition scopes loses none and invents none, gives each scope one group and each application at most one place in it,
  and a named plot is a scope of its own exactly when its own applications make it a material development parcel; every other plot is folded into the whole site.
\<close>

theorem scopes_partition_applications:
  "let gs = group_applications_by_operative_scope rules apps in
    (\<Union>g\<in>set gs. rw_id ` set (snd g)) = rw_id ` set apps \<and> distinct (map fst gs) \<and> list_all (\<lambda>g. distinct (map rw_id (snd g))) gs \<and>
    {k \<in> fst ` set gs. named_plot k} =
      {k. \<exists>as. (k, as) \<in> set (group_applications_by_phase rules apps) \<and> named_plot k \<and> is_material_development_parcel rules as MATERIAL_PARCEL_UNIT_THRESHOLD}"
proof -
  have "{k \<in> operative_key rules ` set hs. named_plot k} =
    {k. \<exists>as. (k, as) \<in> set hs \<and> named_plot k \<and> is_material_development_parcel rules as MATERIAL_PARCEL_UNIT_THRESHOLD}" for hs
  proof (rule set_eqI)
    fix k
    show "k \<in> {k \<in> operative_key rules ` set hs. named_plot k} \<longleftrightarrow>
      k \<in> {k. \<exists>as. (k, as) \<in> set hs \<and> named_plot k \<and> is_material_development_parcel rules as MATERIAL_PARCEL_UNIT_THRESHOLD}"
      using operative_key_plot by (simp add: image_iff) (metis fst_conv snd_conv prod.collapse)
  qed
  then show ?thesis
    using grouped_operative [of rules apps] well_grouped_operative [of rules apps] by (simp add: Let_def grouped_def well_grouped_def operative_keys)
qed

section \<open>Progress after a grant\<close>

text \<open>
  The progress of a list of applications cannot be computed where its substantive grants carry no decision date and some other application is a progress filing:
  the comparison of the filing's date with the missing one fails, and with it every breakdown the scope appears in.
\<close>

theorem undated_grant_breaks_progress:
  assumes "list_ex (substantive_grant rules) apps"
    and "list_all (\<lambda>a. substantive_grant rules a \<longrightarrow> \<not> truthy (rw_decision_issued a)) apps"
    and "list_ex (\<lambda>p. signals_progress p \<and> \<not> list_ex (\<lambda>a. substantive_grant rules a \<and> rw_id a = rw_id p) apps) apps"
  shows "compute_phase_progress rules apps = Inl GrantDateMissing \<and> breakdown_row rules counted (k, apps) = Inl GrantDateMissing"
proof -
  obtain r where r: "max_by by_grant_then_recency (granted_rows (map (resolve_row rules SCOPE_UNCLEAR []) apps)) = Some r"
    using assms(1) by (cases "max_by by_grant_then_recency (granted_rows (map (resolve_row rules SCOPE_UNCLEAR []) apps))")
      (auto simp: granted_candidates list_ex_iff filter_empty_conv)
  then obtain a where a: "r = resolve_row rules SCOPE_UNCLEAR [] a" "a \<in> set apps" "substantive_grant rules a"
    by (auto simp: granted_candidates dest!: max_by_SomeD)
  have "decision_date r = None" using assms(2) a by (simp add: decision_date_row list_all_iff)
  moreover have "list_ex (\<lambda>p. signals_progress p \<and> rw_id p \<noteq> rw_id a) apps" using assms(3) a(2,3) by (simp add: list_ex_iff) metis
  ultimately have "compute_phase_progress rules apps = Inl GrantDateMissing"
    using r a(1) by (simp add: compute_phase_progress_def resolve_operative_lapse_anchor_def granted_progress_def Let_def)
  then show ?thesis by (cases k) (simp add: breakdown_row_def)
qed

theorem undated_grant_breaks_progress_witness:
  "\<exists>p. compute_phase_progress demo_rules [demo_row 1 None, p] = Inl GrantDateMissing"
proof -
  let ?p = "(demo_row 2 None)\<lparr>rw_decision := None, rw_category := Some ''condition_discharge_or_details''\<rparr>"
  have "list_ex (substantive_grant demo_rules) [demo_row 1 None, ?p]" by code_simp
  moreover have "list_all (\<lambda>a. substantive_grant demo_rules a \<longrightarrow> \<not> truthy (rw_decision_issued a)) [demo_row 1 None, ?p]" by code_simp
  moreover have "list_ex (\<lambda>p. signals_progress p \<and> \<not> list_ex (\<lambda>a. substantive_grant demo_rules a \<and> rw_id a = rw_id p) [demo_row 1 None, ?p]) [demo_row 1 None, ?p]"
    by code_simp
  ultimately show ?thesis using undated_grant_breaks_progress [of demo_rules "[demo_row 1 None, ?p]" "\<lambda>c k. True" unphased_key] by blast
qed

end
