(* ===== verification/SourceProperties.thy ===== *)
theory SourceProperties
  imports AcquisitionPhasing OperativeProperties
begin

text \<open>
  What the program's own text rules give: the form of phase labels, that a site's approved count is one no proposal contradicts, when phased delivery counts as current, and
  that the guard on a subject's scope reads an id the way the id grammar does.
\<close>

section \<open>Labels\<close>

lemma upper_idem: "upper_char (upper_char c) = upper_char c"
proof -
  have "\<not> (CHR ''a'' \<le> (char_of n :: char))" if "n < 97" for n :: nat
    using that by (simp add: less_eq_char_def)
  then show ?thesis by (auto simp: upper_char_def less_eq_char_def)
qed

lemma space_upper: "is_space (upper_char c) = is_space c"
proof -
  have code: "is_space c = (let n = of_char c :: nat in n = 32 \<or> (9 \<le> n \<and> n \<le> 13) \<or> (28 \<le> n \<and> n \<le> 31))" for c
    using of_char_eq_iff [of c "CHR '' ''", where ?'a = nat] by (simp add: is_space_def Let_def)
  show ?thesis by (auto simp: upper_char_def code less_eq_char_def Let_def)
qed

lemma dropWhile_upper: "dropWhile is_space (map upper_char s) = map upper_char (dropWhile is_space s)"
  by (induction s) (auto simp: space_upper)

lemma strip_upper: "strip (map upper_char s) = map upper_char (strip s)"
  by (simp add: strip_def dropWhile_upper rev_map)

lemma strip_strip: "strip (strip s) = strip s"
proof -
  define t where "t = dropWhile is_space s"
  have t: "t = [] \<or> \<not> is_space (hd t)" by (metis t_def hd_dropWhile)
  define u where "u = rev (dropWhile is_space (rev t))"
  have "dropWhile is_space u = u"
  proof (cases u)
    case (Cons c cs)
    have "prefix u t" unfolding u_def by (metis suffix_dropWhile suffix_to_prefix rev_rev_ident)
    then show ?thesis using Cons t by (auto simp: prefix_def)
  qed simp
  moreover have "dropWhile is_space (rev u) = rev u" unfolding u_def by (simp add: dropWhile_idem)
  ultimately show ?thesis by (simp add: strip_def u_def t_def)
qed

definition well_formed_label :: "str \<times> str \<Rightarrow> bool" where
  "well_formed_label l = (fst l \<noteq> [] \<and> strip (fst l) = fst l \<and> map upper_char (fst l) = fst l \<and> snd l \<in> {''phase'', ''plot''})"

definition well_formed_labels :: "(str \<times> str) list \<Rightarrow> bool" where
  "well_formed_labels ls = (list_all well_formed_label ls \<and> distinct (map fst ls))"

lemma tokens_clean: "t \<in> set (label_tokens chunk) \<Longrightarrow> strip t = t \<and> map upper_char t = t"
  by (auto simp: label_tokens_def strip_upper strip_strip upper_idem)

lemma labels_extended:
  assumes "well_formed_labels ls" and "kind \<in> {''phase'', ''plot''}" and "set ts \<subseteq> set (label_tokens chunk)"
  shows "well_formed_labels (foldl (add_label kind) ls ts)"
  using assms
proof (induction ts arbitrary: ls)
  case (Cons t ts)
  have "well_formed_labels (add_label kind ls t)"
    using Cons.prems tokens_clean [of t chunk] by (auto simp: well_formed_labels_def well_formed_label_def add_label_def)
  then show ?case using Cons by simp
qed simp

lemma all_labels:
  assumes "well_formed_labels ls" and "list_all (\<lambda>p. fst p \<in> {''phase'', ''plot''}) ps"
  shows "well_formed_labels (foldl (\<lambda>labels (kind, chunk). foldl (add_label kind) labels (label_tokens chunk)) ls ps)"
  using assms
proof (induction ps arbitrary: ls)
  case (Cons p ps)
  have "well_formed_labels (foldl (add_label (fst p)) ls (label_tokens (snd p)))"
    by (rule labels_extended [OF Cons.prems(1)]) (use Cons.prems(2) in auto)
  then show ?case using Cons.IH Cons.prems(2) by (simp add: case_prod_beta)
qed simp

lemma list_kinds:
  assumes "(kind, chunk) \<in> set (phase_lists s)"
  shows "kind \<in> {''phase'', ''plot''}"
proof -
  from assms obtain m where m: "m \<in> set (finditer (PHASE_LIST_RE Group id) s)" and kind: "kind = str_or (group_text s m) []"
    unfolding phase_lists_def by (auto dest!: set_zip_leftD)
  let ?rest = "Seqs [Opt (Lit ''s''), Spaces, Plus (Seqs [PHASE_TOKEN, Gap, Opt (Words ['','', ''and'', ''&'']), Gap])]"
  have eq: "PHASE_LIST_RE Group id = Seq Edge (Seq (Group (Words [''phase'', ''plot''])) ?rest)" by (simp add: PHASE_LIST_RE_def)
  have "groupless ?rest" by code_simp
  from captured [OF finditer_match [OF m, unfolded eq] this] obtain j k where
    "mt_group m = Some (j, k)" "(j, k) \<in> denotes s (Words [''phase'', ''plot''])" by blast
  with denotes_Words [OF this(2)] have "group_text s m \<in> {Some ''phase'', Some ''plot''}" by (simp add: group_text_def)
  then show ?thesis by (auto simp: kind str_or_def)
qed

lemma labels_well_formed: "well_formed_labels (extract_phase_labels text)"
proof -
  have "list_all (\<lambda>p. fst p \<in> {''phase'', ''plot''}) (phase_lists s)" for s
    unfolding list_all_iff using list_kinds by (metis prod.collapse)
  then show ?thesis unfolding extract_phase_labels_def by (intro all_labels) (simp_all add: well_formed_labels_def)
qed

text \<open>
  The labels read from a text have distinct codes; every code is not empty, upper case and without white space around it, and every kind is a phase or a plot.
\<close>
theorem phase_labels_well_formed:
  "well_formed_labels (extract_phase_labels text) \<and> well_formed_labels (rule_labels source_rules a)"
  by (simp add: labels_well_formed source_rules_def row_labels_def)

text \<open>A plot with the number of a phase named before it is lost.\<close>

lemma plot_with_phase_code_lost: "extract_phase_labels (Some ''Phase 1 and Plot 1'') = [(''1'', ''phase'')]"
  by code_simp

section \<open>Approved counts\<close>

text \<open>Nothing in a proposal speaks against \<open>n\<close> homes.\<close>

definition uncontradicted :: "str option \<Rightarrow> int \<Rightarrow> bool" where
  "uncontradicted proposal n =
    (let s = lower (str_or proposal []); t = own_scope s; ms = creation_matches t; numbers = component_numbers t ms in
     \<not> qualified_residential_quantity (Some s) \<and>
     (if ms = [] then works_reason (ancillary_action s) t = None
      else \<not> (additive t ms \<and> length numbers = 2 \<and> n \<in> set numbers \<and> n \<noteq> sum_list numbers) \<and>
        \<not> (length numbers = 1 \<and> length (finditer quantum t) = 1 \<and> numbers \<noteq> [n])))"

lemma eligible_uncontradicted:
  assumes "known_unit_count v = Some n"
  shows "(residential_count_eligibility proposal v = None) = uncontradicted proposal n"
proof -
  have one: "(length xs = 1 \<and> n \<noteq> hd xs) = (length xs = 1 \<and> xs \<noteq> [n])" for xs by (cases xs) auto
  show ?thesis
    using one [of "component_numbers (own_scope (lower (str_or proposal []))) (creation_matches (own_scope (lower (str_or proposal []))))"]
    by (auto simp: residential_count_eligibility_def uncontradicted_def count_contradiction_def assms Let_def split: option.split)
qed

lemma extracted_uncontradicted:
  assumes "list_all (\<lambda>r. known_unit_count (scheme_total (rr_row r)) = Some n) (extracted source_rules cur)" and "r \<in> set (extracted source_rules cur)"
  shows "r \<in> set cur \<and> known_unit_count (scheme_total (rr_row r)) = Some n \<and> uncontradicted (rw_proposal (rr_row r)) n"
  using assms eligible_uncontradicted [of "scheme_total (rr_row r)" n "rw_proposal (rr_row r)"]
  by (auto simp: extracted_def source_rules_def list_all_iff)

lemma current_granted:
  assumes "r \<in> set (current_rows (count_eligible rules (site_scope_rows (resolve_applications rules apps))))"
  shows "rr_row r \<in> set apps \<and> decided_state (rr_row r) = DECIDED_GRANTED"
  using assms by (auto simp: current_rows_def count_eligible_def set_site_scope_rows resolve_row_def case_prod_beta)

text \<open>
  C29. A figure shown as a site's approved count is the extracted total of a granted application of the site, and nothing in that application's own proposal speaks against
  it: no upper limit, no works to existing homes, not one of two components given for the whole, and no other sole number of homes.
\<close>
theorem approved_count_uncontradicted:
  "case of_value (cp_approved_units (pf_consented (build_operative_planning_facts source_rules apps))) of
     CountValue n \<Rightarrow> list_ex (\<lambda>a. decided_state a = DECIDED_GRANTED \<and> known_unit_count (scheme_total a) = Some n \<and> uncontradicted (rw_proposal a) n) apps
   | _ \<Rightarrow> True"
proof (cases "of_value (cp_approved_units (pf_consented (build_operative_planning_facts source_rules apps)))")
  case (CountValue n)
  define cur where "cur = current_rows (count_eligible source_rules (site_scope_rows (resolve_applications source_rules apps)))"
  from CountValue obtain r where r: "r \<in> set (extracted source_rules cur)"
    and all: "list_all (\<lambda>r. known_unit_count (scheme_total (rr_row r)) = Some n) (extracted source_rules cur)"
    unfolding approved_value Let_def cur_def [symmetric] by (meson last_in_set)
  from extracted_uncontradicted [OF all r] have "r \<in> set cur" "known_unit_count (scheme_total (rr_row r)) = Some n" "uncontradicted (rw_proposal (rr_row r)) n"
    by blast+
  with current_granted [of r source_rules apps] CountValue show ?thesis by (auto simp: cur_def list_ex_iff)
qed simp_all

section \<open>Phasing evidence\<close>

definition member :: "groups \<Rightarrow> str \<times> str \<Rightarrow> portal_row \<Rightarrow> bool" where
  "member gs k a = list_ex (\<lambda>(k', as). k' = k \<and> a \<in> set as) gs"

lemma member_add: "member (add_to_group k as gs) k' a = (member gs k' a \<or> k = k' \<and> a \<in> set as)"
  by (induction k as gs rule: add_to_group.induct) (auto simp: member_def)

lemma member_add_all: "member (foldl (\<lambda>gs k. add_to_group k [b] gs) gs ks) k a = (member gs k a \<or> k \<in> set ks \<and> a = b)"
  by (induction ks arbitrary: gs) (auto simp: member_add)

lemma member_proposal: "member (proposal_phase_groups apps) k a = (a \<in> set apps \<and> k \<in> set (extract_phase_labels (rw_proposal a)))"
proof -
  have "member (foldl (\<lambda>gs a. foldl (\<lambda>gs k. add_to_group k [a] gs) gs (extract_phase_labels (rw_proposal a))) gs apps) k a =
    (member gs k a \<or> a \<in> set apps \<and> k \<in> set (extract_phase_labels (rw_proposal a)))" for gs
    by (induction apps arbitrary: gs) (auto simp: member_add_all)
  from this [of "[]"] show ?thesis by (simp add: proposal_phase_groups_def member_def)
qed

lemma votes_Inr: "phase_votes today raw gs = Inr vs \<longleftrightarrow> map (phase_vote today raw) gs = map Inr vs"
proof (induction gs arbitrary: vs)
  case (Cons g gs)
  show ?case
  proof (cases "phase_votes today raw gs")
    case (Inl e)
    then have "map (phase_vote today raw) gs \<noteq> map Inr ws" for ws using Cons.IH [of ws] by simp
    with Inl show ?thesis by (auto simp: Cons_eq_map_conv split: sum.splits)
  next
    case (Inr us)
    then have "map (phase_vote today raw) gs = map Inr ws \<longleftrightarrow> us = ws" for ws using Cons.IH [of ws] by simp
    with Inr show ?thesis by (auto simp: Cons_eq_map_conv split: sum.splits)
  qed
qed auto

lemma votes_Inl: "phase_votes today raw gs = Inl e \<Longrightarrow> \<exists>g\<in>set gs. phase_vote today raw g = Inl e"
  by (induction gs) (auto split: sum.splits)

lemma lead_grant:
  obtains (none) "an_application (resolve_operative_lapse_anchor rules apps) = None" "filter (substantive_grant rules) apps = []"
  | (lead) a where "an_application (resolve_operative_lapse_anchor rules apps) = Some a" "a \<in> set apps" "substantive_grant rules a"
      "an_decision_date (resolve_operative_lapse_anchor rules apps) = (if truthy (rw_decision_issued a) then Some (parse_portal_date (rw_decision_issued a)) else None)"
      "an_state (resolve_operative_lapse_anchor rules apps) = FACT_RESOLVED"
proof (cases "max_by by_grant_then_recency (granted_rows (map (resolve_row rules SCOPE_UNCLEAR []) apps))")
  case None
  then show ?thesis using none by (simp add: granted_candidates resolve_operative_lapse_anchor_def Let_def)
next
  case (Some r)
  from max_by_SomeD [OF Some] obtain a where a: "r = resolve_row rules SCOPE_UNCLEAR [] a" "a \<in> set apps" "substantive_grant rules a"
    by (auto simp: granted_candidates)
  show ?thesis
    by (rule lead [OF _ a(2,3)]) (simp_all add: resolve_operative_lapse_anchor_def Some Let_def a(1) decision_date_row)
qed

text \<open>What the date of a grant says.\<close>

definition grant_state :: "int \<Rightarrow> portal_row \<Rightarrow> phasing_state option" where
  "grant_state today a =
    (if \<not> truthy (rw_decision_issued a) \<or> parse_portal_date (rw_decision_issued a) = date_min then Some PHASING_CURRENTNESS_UNKNOWN
     else (case resolve_lapse_deadline (parse_portal_date (rw_decision_issued a)) of Inl _ \<Rightarrow> None
       | Inr e \<Rightarrow> Some (if toordinal e < today then PHASING_HISTORICAL_ONLY else PHASING_CURRENT_EVIDENCED_PHASE)))"

lemma lapse_of_grant:
  assumes "an_application an = Some a" "an_state an = FACT_RESOLVED"
    "an_decision_date an = (if truthy (rw_decision_issued a) then Some (parse_portal_date (rw_decision_issued a)) else None)"
    and "compute_lapse_status today (anchor_of an) raw = Inr l"
  shows "grant_state today a = Some (if ls_status l = LAPSED then PHASING_HISTORICAL_ONLY
    else if ls_status l = LAPSE_UNKNOWN then PHASING_CURRENTNESS_UNKNOWN else PHASING_CURRENT_EVIDENCED_PHASE)"
  using assms(4) by (auto simp: compute_lapse_status_def anchor_of_def assms(1-3) grant_state_def undated_def dated_def classify_build_status_def Let_def
      split: if_split_asm sum.split_asm)

lemma dated_only: "grant_state today a = Some st \<Longrightarrow> st \<in> {PHASING_HISTORICAL_ONLY, PHASING_CURRENTNESS_UNKNOWN, PHASING_CURRENT_EVIDENCED_PHASE}"
  by (auto simp: grant_state_def split: if_split_asm sum.split_asm)

definition is_phase :: "str \<times> str \<Rightarrow> bool" where
  "is_phase k = (snd k = ''phase'' \<and> fst k \<noteq> UNPHASED_LABEL)"

lemma vote_Some:
  assumes "phase_vote today raw (k, as) = Inr (Some st)"
  shows "is_phase k \<and> (\<exists>a\<in>set as. substantive_grant source_rules a \<and> grant_state today a = Some st)"
proof -
  from assms obtain p l where k: "is_phase k" and p: "compute_phase_progress source_rules as = Inr p" "pp_latest_grant p \<noteq> None"
    and l: "compute_lapse_status today (anchor_of (resolve_operative_lapse_anchor source_rules as)) raw = Inr l"
    and st: "st = (if ls_status l = LAPSED then PHASING_HISTORICAL_ONLY
      else if ls_status l = LAPSE_UNKNOWN then PHASING_CURRENTNESS_UNKNOWN else PHASING_CURRENT_EVIDENCED_PHASE)"
    by (auto simp: phase_vote_def is_phase_def case_prod_beta split: if_split_asm sum.split_asm)
  show ?thesis
  proof (cases rule: lead_grant [of source_rules as])
    case none
    with p show ?thesis by (auto simp: compute_phase_progress_def Let_def split: option.splits)
  next
    case (lead a)
    with lapse_of_grant [OF lead(1,5,4) l] k st show ?thesis by auto
  qed
qed

lemma vote_None:
  assumes "phase_vote today raw (k, as) = Inr None" and "is_phase k"
  shows "\<not> list_ex (substantive_grant source_rules) as"
proof (cases rule: lead_grant [of source_rules as])
  case none
  then show ?thesis by (simp add: list_ex_iff filter_empty_conv)
next
  case (lead a)
  with assms show ?thesis
    by (auto simp: phase_vote_def is_phase_def case_prod_beta compute_phase_progress_def granted_progress_def Let_def split: if_split_asm sum.split_asm option.split_asm)
qed

lemma vote_fails:
  assumes "phase_vote today raw (k, as) = Inl (ProgressFails e)"
  shows "is_phase k \<and> (\<exists>a\<in>set as. substantive_grant source_rules a \<and> \<not> truthy (rw_decision_issued a))"
proof -
  from assms have k: "is_phase k" and p: "compute_phase_progress source_rules as = Inl e"
    by (auto simp: phase_vote_def is_phase_def case_prod_beta split: if_split_asm sum.split_asm)
  show ?thesis
  proof (cases rule: lead_grant [of source_rules as])
    case none
    with p show ?thesis by (simp add: compute_phase_progress_def Let_def split: option.splits)
  next
    case (lead a)
    with p have "\<not> truthy (rw_decision_issued a)"
      by (auto simp: compute_phase_progress_def granted_progress_def Let_def split: if_split_asm option.split_asm)
    with lead k show ?thesis by blast
  qed
qed

text \<open>A granted substantive application whose own proposal names a phase.\<close>

definition phased_grant :: "portal_row \<Rightarrow> bool" where
  "phased_grant a = (list_ex (\<lambda>k. snd k = ''phase'') (extract_phase_labels (rw_proposal a)) \<and> substantive_grant source_rules a)"

lemma label_is_phase: "k \<in> set (extract_phase_labels t) \<Longrightarrow> is_phase k = (snd k = ''phase'')"
proof -
  have "map upper_char UNPHASED_LABEL \<noteq> UNPHASED_LABEL" by code_simp
  moreover assume "k \<in> set (extract_phase_labels t)"
  then have "map upper_char (fst k) = fst k" using labels_well_formed [of t] by (auto simp: well_formed_labels_def well_formed_label_def list_all_iff)
  ultimately show ?thesis by (auto simp: is_phase_def)
qed

lemma group_member: "(k, as) \<in> set (proposal_phase_groups apps) \<Longrightarrow> a \<in> set as \<Longrightarrow> a \<in> set apps \<and> k \<in> set (extract_phase_labels (rw_proposal a))"
  using member_proposal [of apps k a] by (auto simp: member_def list_ex_iff)

lemma phased_witness:
  assumes "(k, as) \<in> set (proposal_phase_groups apps)" "is_phase k" "a \<in> set as" "substantive_grant source_rules a"
  shows "a \<in> set apps \<and> phased_grant a"
proof -
  have a: "a \<in> set apps" "k \<in> set (extract_phase_labels (rw_proposal a))" using group_member [OF assms(1,3)] by blast+
  with label_is_phase [OF a(2)] assms(2,4) show ?thesis by (auto simp: phased_grant_def list_ex_iff)
qed

text \<open>
  The phasing evidence of a site comes from granted substantive applications that name a phase in their own proposal, and from nothing else: none is identified only
  where there is no such grant; it is current, historical or unknown as the date of one such grant says; it fails to be computed for want of a date only where such a grant
  has none.
\<close>
theorem phasing_evidence_from_phased_grants:
  "case derive_acquisition_phasing_evidence today apps (Some raw) of
     Inr PHASING_NONE_IDENTIFIED \<Rightarrow> \<not> list_ex phased_grant apps
   | Inr st \<Rightarrow> list_ex (\<lambda>a. phased_grant a \<and> grant_state today a = Some st) apps
   | Inl (ProgressFails e) \<Rightarrow> list_ex (\<lambda>a. phased_grant a \<and> \<not> truthy (rw_decision_issued a)) apps
   | Inl (LapseFails e) \<Rightarrow> True"
proof (cases "phase_votes today raw (proposal_phase_groups apps)")
  case (Inl e)
  from votes_Inl [OF this] obtain k as where g: "(k, as) \<in> set (proposal_phase_groups apps)" "phase_vote today raw (k, as) = Inl e" by auto
  show ?thesis
  proof (cases e)
    case (ProgressFails x)
    then obtain a where "is_phase k" "a \<in> set as" "substantive_grant source_rules a" "\<not> truthy (rw_decision_issued a)"
      using vote_fails g(2) by blast
    with phased_witness [OF g(1)] Inl ProgressFails show ?thesis by (auto simp: derive_acquisition_phasing_evidence_def list_ex_iff)
  qed (simp add: derive_acquisition_phasing_evidence_def Inl)
next
  case (Inr vs)
  then have votes: "map (phase_vote today raw) (proposal_phase_groups apps) = map Inr vs" by (simp add: votes_Inr)
  have vote: "\<exists>v\<in>set vs. phase_vote today raw g = Inr v" if "g \<in> set (proposal_phase_groups apps)" for g
    using arg_cong [OF votes, of set] that by auto
  have stated: "list_ex (\<lambda>a. phased_grant a \<and> grant_state today a = Some st) apps" if "Some st \<in> set vs" for st
  proof -
    have "Inr (Some st) \<in> set (map (phase_vote today raw) (proposal_phase_groups apps))" unfolding votes using that by simp
    then obtain g where "Inr (Some st) = phase_vote today raw g" "g \<in> set (proposal_phase_groups apps)" unfolding set_map by (rule imageE)
    moreover obtain k as where "g = (k, as)" by (rule prod.exhaust)
    ultimately have g: "(k, as) \<in> set (proposal_phase_groups apps)" "phase_vote today raw (k, as) = Inr (Some st)" by simp_all
    then show ?thesis unfolding list_ex_iff using vote_Some [OF g(2)] phased_witness [OF g(1)] by blast
  qed
  have none: "\<not> list_ex phased_grant apps" if "\<And>st. Some st \<notin> set vs"
  proof
    assume "list_ex phased_grant apps"
    then obtain a k where a: "a \<in> set apps" "k \<in> set (extract_phase_labels (rw_proposal a))" "snd k = ''phase''" "substantive_grant source_rules a"
      by (auto simp: list_ex_iff phased_grant_def)
    then obtain as where g: "(k, as) \<in> set (proposal_phase_groups apps)" "a \<in> set as"
      using member_proposal [of apps k a] by (auto simp: member_def list_ex_iff)
    with vote that have "phase_vote today raw (k, as) = Inr None" by (metis not_Some_eq)
    from vote_None [OF this] label_is_phase [OF a(2)] a(3,4) g(2) show False by (auto simp: list_ex_iff)
  qed
  have only: "st \<in> {PHASING_HISTORICAL_ONLY, PHASING_CURRENTNESS_UNKNOWN, PHASING_CURRENT_EVIDENCED_PHASE}" if "Some st \<in> set vs" for st
    using stated [OF that] dated_only unfolding list_ex_iff by blast
  show ?thesis
  proof (cases "\<exists>st. Some st \<in> set vs")
    case True
    then have "Some PHASING_CURRENT_EVIDENCED_PHASE \<in> set vs \<or> Some PHASING_CURRENTNESS_UNKNOWN \<in> set vs \<or> Some PHASING_HISTORICAL_ONLY \<in> set vs"
      using only by blast
    then have "\<exists>st. derive_acquisition_phasing_evidence today apps (Some raw) = Inr st \<and> Some st \<in> set vs"
      by (auto simp: derive_acquisition_phasing_evidence_def Inr)
    then obtain st where "derive_acquisition_phasing_evidence today apps (Some raw) = Inr st" "Some st \<in> set vs" by blast
    with stated [OF this(2)] only [OF this(2)] show ?thesis by auto
  next
    case False
    with none show ?thesis by (simp add: derive_acquisition_phasing_evidence_def Inr)
  qed
qed

section \<open>The scope of a subject\<close>

lemma scope_parts:
  assumes "CHR '':'' \<notin> set d" "CHR '':'' \<notin> set k" "CHR '':'' \<notin> set t"
  shows "subject_scope_for_opportunity_id (id_of [d, k, t]) = (None, k \<in> {''recent_permission'', ''long_pending_application''})"
    and "subject_scope_for_opportunity_id (id_of [d, k, t, code]) =
      (if k = ''phase'' then phase_scope_key (Some code) else None, k \<in> {''recent_permission'', ''long_pending_application''})"
proof -
  have 3: "split_max CHR '':'' 3 (id_of [d, k, t]) = [d, k, t]"
    using assms by (simp add: id_of_def numeral_3_eq_3 split_max_step del: split_max.simps)
  have 4: "split_max CHR '':'' 3 (id_of [d, k, t, code]) = [d, k, t, code]"
    using assms by (simp add: id_of_def numeral_3_eq_3 split_max_step del: split_max.simps) simp
  show "subject_scope_for_opportunity_id (id_of [d, k, t]) = (None, k \<in> {''recent_permission'', ''long_pending_application''})"
    by (simp add: subject_scope_for_opportunity_id_def 3 Let_def phase_scope_key_def)
  show "subject_scope_for_opportunity_id (id_of [d, k, t, code]) =
      (if k = ''phase'' then phase_scope_key (Some code) else None, k \<in> {''recent_permission'', ''long_pending_application''})"
    by (simp add: subject_scope_for_opportunity_id_def 4 Let_def)
qed

text \<open>
  On every id the grammar accepts, the guard on a subject's scope reads the phase the grammar names, whole and with its colons, and is anchored on an application exactly
  for the two lifecycle kinds that are about one.
\<close>
theorem subject_scope_reads_id:
  "case parse_opportunity_id oid of Inl _ \<Rightarrow> True
   | Inr p \<Rightarrow> subject_scope_for_opportunity_id oid =
      (if pi_kind p = ''phase'' then phase_scope_key (pi_scope p) else None, pi_kind p \<in> {''recent_permission'', ''long_pending_application''})"
proof (cases "parse_opportunity_id oid")
  case (Inr p)
  from parse_shapes_only [OF this] obtain t n where t: "canonical_anchor_id t = Inr n" and shape: "id_shape t n oid p" by blast
  have t: "CHR '':'' \<notin> set t" using t anchor_segment_plain unfolding canonical_anchor_Inr by blast
  have plain: "CHR '':'' \<notin> set k" if "k = ''phase'' \<or> k = ''allocation'' \<or> k \<in> set LIFECYCLE_KINDS \<or> k \<in> set (map fst NEW_KINDS)" for k
    using kinds_plain [of k] that by auto
  have "subject_scope_for_opportunity_id oid =
      (if pi_kind p = ''phase'' then phase_scope_key (pi_scope p) else None, pi_kind p \<in> {''recent_permission'', ''long_pending_application''})"
    using shape
  proof cases
    case strategic
    then show ?thesis using scope_parts(1) [of STRATEGIC_LAND_ID "''allocation''" t] plain [of "''allocation''"] t domains_plain(1) by (simp add: subject_of_def)
  next
    case (lifecycle k)
    then have "k \<noteq> ''phase''" using kinds_apart by blast
    with lifecycle scope_parts(1) [of PLANNING_DELIVERY_ID k t] plain [of k] t domains_plain(2) show ?thesis by (simp add: subject_of_def)
  next
    case (phase code)
    then show ?thesis using scope_parts(2) [of PLANNING_DELIVERY_ID "''phase''" t code] plain [of "''phase''"] t domains_plain(2) by (simp add: subject_of_def)
  next
    case (new_kind k key)
    then have "k \<noteq> ''phase''" using kinds_apart(3) by blast
    with new_kind scope_parts(2) [of PLANNING_DELIVERY_ID k t key] plain [of k] t domains_plain(2) show ?thesis by (simp add: subject_of_def)
  qed
  with Inr show ?thesis by simp
qed simp

end
