(* ===== verification/QualificationProperties.thy ===== *)
theory QualificationProperties
  imports UnitFilter
begin

text \<open>
  What the qualifying-scheme filter guarantees: the counts it can read, what decides whether a proposal is pursued, and which filings never are.
\<close>

section \<open>Counts\<close>

definition believable :: "int \<Rightarrow> bool" where
  "believable n = (1 \<le> n \<and> n \<le> 5000 \<and> \<not> year_like n)"

lemma counted_believable: "list_all believable (counted_value s m)"
  by (auto simp: counted_value_def believable_def plausible_def MAX_PLAUSIBLE_UNITS_def split: option.splits)

lemma worded_believable: "list_all believable (worded_value s m)"
proof -
  have "believable n" if "map_of WORD_TO_NUMBER w = Some n" for w n
    using map_of_SomeD [OF that] by (auto simp: WORD_TO_NUMBER_def believable_def year_like_def)
  then show ?thesis by (auto simp: worded_value_def bind_eq_Some_conv split: option.splits)
qed

lemma list_all_concat: "(\<And>x. x \<in> set xs \<Longrightarrow> list_all P (f x)) \<Longrightarrow> list_all P (concat (map f xs))"
  by (auto simp: list_all_iff)

lemma counts_believable: "list_all believable (extract_unit_counts text)"
  unfolding extract_unit_counts_def Let_def list_all_append
  by (intro conjI list_all_concat counted_believable worded_believable)

lemma foldl_max: "foldl max (n::int) ns \<in> set (n # ns) \<and> list_all (\<lambda>k. k \<le> foldl max n ns) (n # ns)"
proof (induction ns arbitrary: n)
  case (Cons m ns)
  from Cons [of "max n m"] show ?case by (auto simp: list_all_iff max_def split: if_splits)
qed simp

lemma unit_count_greatest:
  "extract_unit_count text = Some n \<longleftrightarrow> n \<in> set (extract_unit_counts text) \<and> list_all (\<lambda>k. k \<le> n) (extract_unit_counts text)"
proof (cases "extract_unit_counts text")
  case (Cons m ms)
  have "n \<in> set (m # ms) \<and> list_all (\<lambda>k. k \<le> n) (m # ms) \<longleftrightarrow> n = foldl max m ms"
    using foldl_max [of m ms] by (auto simp: list_all_iff intro: antisym)
  then show ?thesis using Cons by (auto simp: extract_unit_count_def)
qed (simp add: extract_unit_count_def)

text \<open>
  No number outside 1 to 5000 and no calendar year is ever read as a count of homes, from prose or from the form's own total; the count of a proposal is the greatest
  number read, and there is one exactly where any was.
\<close>
theorem counts_are_believable:
  "list_all believable (extract_unit_counts text) \<and>
   (case extract_unit_count text of None \<Rightarrow> extract_unit_counts text = []
    | Some n \<Rightarrow> n \<in> set (extract_unit_counts text) \<and> list_all (\<lambda>k. k \<le> n) (extract_unit_counts text)) \<and>
   (case extract_structured_total text of None \<Rightarrow> True | Some n \<Rightarrow> 1 \<le> n \<and> n \<le> 5000)"
proof -
  have "case extract_unit_count text of None \<Rightarrow> extract_unit_counts text = []
    | Some n \<Rightarrow> n \<in> set (extract_unit_counts text) \<and> list_all (\<lambda>k. k \<le> n) (extract_unit_counts text)"
  proof (cases "extract_unit_count text")
    case None
    then show ?thesis by (cases "extract_unit_counts text") (simp_all add: extract_unit_count_def)
  next
    case (Some n)
    then show ?thesis using unit_count_greatest [of "text" n] by simp
  qed
  moreover have "case extract_structured_total text of None \<Rightarrow> True | Some n \<Rightarrow> 1 \<le> n \<and> n \<le> 5000"
    by (auto simp: extract_structured_total_def Let_def plausible_def MAX_PLAUSIBLE_UNITS_def split: option.splits)
  ultimately show ?thesis using counts_believable by blast
qed

section \<open>Qualification\<close>

text \<open>A review keyword that means housing by itself, or an ambiguous one next to a residential word.\<close>

definition possible_housing :: "str \<Rightarrow> bool" where
  "possible_housing s = (mentions_any (filter (\<lambda>kw. kw \<notin> set AMBIGUOUS_REVIEW_KEYWORDS) REVIEW_KEYWORDS) s \<or>
     mentions_any AMBIGUOUS_REVIEW_KEYWORDS s \<and> has_residential_signal s)"

lemma review_match:
  "(filter (\<lambda>kw. contains kw s) K \<noteq> [] \<and> (list_ex (\<lambda>kw. kw \<notin> A) (filter (\<lambda>kw. contains kw s) K) \<or> r)) =
   (mentions_any (filter (\<lambda>kw. kw \<notin> A) K) s \<or> mentions_any K s \<and> r)"
  by (auto simp: mentions_any_def list_ex_iff filter_empty_conv)

lemma ambiguous_listed: "set AMBIGUOUS_REVIEW_KEYWORDS \<subseteq> set REVIEW_KEYWORDS"
  by (simp add: REVIEW_KEYWORDS_def AMBIGUOUS_REVIEW_KEYWORDS_def)

lemma housing_either_way:
  "(mentions_any (filter (\<lambda>kw. kw \<notin> set AMBIGUOUS_REVIEW_KEYWORDS) REVIEW_KEYWORDS) s \<or> mentions_any REVIEW_KEYWORDS s \<and> has_residential_signal s) =
   possible_housing s"
  using ambiguous_listed unfolding possible_housing_def mentions_any_def list_ex_iff by auto

text \<open>
  A proposal is pursued exactly when its category is not an excluded one, it is not of a wholly non-residential kind, and either the count it states reaches the
  threshold or it states none, its wording may mean housing and does not speak of a single home; a stated count below the threshold is final.
\<close>
theorem qualifies_exactly_when:
  "ql_qualifies (qualify proposal threshold) =
    (classify_application_category proposal \<notin> set EXCLUDE_CATEGORIES \<and> \<not> is_non_residential (normalise_text proposal) \<and>
     (case extract_unit_count proposal of Some n \<Rightarrow> threshold \<le> n
      | None \<Rightarrow> possible_housing (normalise_text proposal) \<and> \<not> single_unit_wording (normalise_text proposal)))"
proof -
  have "ql_qualifies (qualify proposal threshold) =
    (classify_application_category proposal \<notin> set EXCLUDE_CATEGORIES \<and> \<not> is_non_residential (normalise_text proposal) \<and>
     (case extract_unit_count proposal of Some n \<Rightarrow> threshold \<le> n
      | None \<Rightarrow> (filter (\<lambda>kw. contains kw (normalise_text proposal)) REVIEW_KEYWORDS \<noteq> [] \<and>
         (list_ex (\<lambda>kw. kw \<notin> set AMBIGUOUS_REVIEW_KEYWORDS) (filter (\<lambda>kw. contains kw (normalise_text proposal)) REVIEW_KEYWORDS) \<or>
          has_residential_signal (normalise_text proposal))) \<and> \<not> single_unit_wording (normalise_text proposal)))"
    unfolding qualify_def Let_def by (simp split: option.split del: filter.simps)
  then show ?thesis unfolding review_match housing_either_way .
qed

lemma early_exit:
  assumes "a1 \<or> a2 \<or> a3 \<or> a4 \<or> a5 \<or> a6" "x1 \<in> E" "x2 \<in> E" "x3 \<in> E" "x4 \<in> E" "x5 \<in> E" "x6 \<in> E"
  shows "(if a1 then x1 else if a2 then x2 else if a3 then x3 else if a4 then x4 else if a5 then x5 else if a6 then x6 else r) \<in> E"
  using assms by auto

lemma later_exit:
  assumes "a8" "\<not> a7" "x1 \<in> E" "x2 \<in> E" "x3 \<in> E" "x4 \<in> E" "x5 \<in> E" "x6 \<in> E" "x8 \<in> E"
  shows "(if a1 then x1 else if a2 then x2 else if a3 then x3 else if a4 then x4 else if a5 then x5 else if a6 then x6 else if a7 then x7 else if a8 then x8 else r) \<in> E"
  using assms by simp

text \<open>
  Filings that are not proposals are never pursued, whatever count they state: another council's consultation, an opinion request that is more than an aside, a
  question about one dwelling, a certificate of lawfulness, a variation or a deed; and a condition filing only where it is a reserved matters approval that states a count.
\<close>
theorem secondary_filings_never_qualify:
  "list_all (\<lambda>filing. \<not> (filing \<and> ql_qualifies (qualify proposal threshold)))
    [is_external_consultation proposal, is_opinion_request proposal, search_rx SINGLE_DWELLING_CONTINUED_USE_RE (lower (str_or proposal [])),
     contains ''lawful development certificate'' (normalise_text proposal), mentions_any VARIATION_PHRASES (normalise_text proposal),
     search_rx VARIATION_OF_OBLIGATION_RE (normalise_text proposal),
     mentions_any CONDITION_PHRASES (normalise_text proposal) \<and> extract_unit_count proposal = None,
     mentions_any CONDITION_PHRASES (normalise_text proposal) \<and> \<not> search_rx RESERVED_MATTERS_RE (normalise_text proposal)]"
proof -
  let ?c = "classify_application_category proposal"
  have "\<not> ql_qualifies (qualify proposal threshold)" if "?c \<in> set EXCLUDE_CATEGORIES"
    using that by (simp add: qualify_def Let_def)
  moreover have "?c \<in> set EXCLUDE_CATEGORIES" if "is_external_consultation proposal \<or> is_opinion_request proposal \<or>
      search_rx SINGLE_DWELLING_CONTINUED_USE_RE (lower (str_or proposal [])) \<or> contains ''lawful development certificate'' (normalise_text proposal) \<or>
      mentions_any VARIATION_PHRASES (normalise_text proposal) \<or> search_rx VARIATION_OF_OBLIGATION_RE (normalise_text proposal)"
    unfolding classify_application_category_def Let_def by (rule early_exit [OF that]) (simp_all add: EXCLUDE_CATEGORIES_def)
  moreover have "?c \<in> set EXCLUDE_CATEGORIES" if "mentions_any CONDITION_PHRASES (normalise_text proposal)"
      "\<not> (search_rx RESERVED_MATTERS_RE (normalise_text proposal) \<and> extract_unit_count proposal \<noteq> None)"
    unfolding classify_application_category_def Let_def by (rule later_exit [OF that]) (simp_all add: EXCLUDE_CATEGORIES_def)
  ultimately show ?thesis by auto
qed

lemma bedrooms_counted: "extract_unit_count (Some ''1 ten bed house'') = Some 10"
  by code_simp

end
