(* ===== verification/ExtractionProperties.thy ===== *)
theory ExtractionProperties
  imports SchemeExtraction
begin

text \<open>
  What reconciliation of an extracted scheme guarantees: where the affordable figure comes from in every case, that private units are the remainder, and when a scheme
  counts as complete.
\<close>

definition is_qualified :: "str option \<Rightarrow> str option \<Rightarrow> bool" where
  "is_qualified proposal retained = (qualified_residential_quantity proposal \<or> qualified_residential_quantity retained)"

lemma split_of_scheme:
  "si_split (reconcile_scheme consultation m c entities site portal category proposal raw retained) =
    (if is_qualified proposal retained then withheld_split else reconciled_split m c portal category)"
  by (simp add: reconcile_scheme_def is_qualified_def Let_def)

lemma check_of_scheme:
  "si_check (reconcile_scheme consultation m c entities site portal category proposal raw retained) =
    (let s = si_split (reconcile_scheme consultation m c entities site portal category proposal raw retained) in
     calculate_unit_reconciliation (sp_total s) (sp_affordable s) (sp_private s) (sp_percentage s) (Some (data_status c)))"
  by (simp add: reconcile_scheme_def Let_def)

section \<open>Private units\<close>

definition remainder :: "unit_split \<Rightarrow> bool" where
  "remainder s = (case (sp_total s, sp_affordable s) of (Some t, Some a) \<Rightarrow> sp_private s = Some (t - a) | _ \<Rightarrow> True)"

lemma coherent_remainder: "remainder (coherence_step s)"
  by (auto simp: remainder_def coherence_step_def split: option.splits)

lemma remainder_check:
  assumes "remainder s"
  shows "uc_difference (calculate_unit_reconciliation (sp_total s) (sp_affordable s) (sp_private s) p status) \<in> {None, Some 0}"
  using assms by (auto simp: calculate_unit_reconciliation_def remainder_def Let_def split: option.splits)

text \<open>
  Wherever a scheme states both a total and an affordable number, its private number is the remainder, so the published units always add up: the difference its
  own check reports is zero or there is nothing to compare.
\<close>
theorem private_units_are_the_remainder:
  "remainder (si_split (reconcile_scheme consultation m c entities site portal category proposal raw retained)) \<and>
   uc_difference (si_check (reconcile_scheme consultation m c entities site portal category proposal raw retained)) \<in> {None, Some 0}"
proof -
  have "remainder (si_split (reconcile_scheme consultation m c entities site portal category proposal raw retained))"
    unfolding split_of_scheme by (simp add: reconciled_split_def coherent_remainder) (simp add: remainder_def withheld_split_def)
  then show ?thesis unfolding check_of_scheme Let_def by (intro conjI remainder_check)
qed

section \<open>Where the affordable figure comes from\<close>

lemma statuses_apart:
  "set NO_ONSITE_AFFORDABLE_STATUSES \<inter> set UNKNOWN_SPLIT_STATUSES = {}"
  "''all_units_affordable'' \<notin> set NO_ONSITE_AFFORDABLE_STATUSES" "''all_units_affordable'' \<notin> set UNKNOWN_SPLIT_STATUSES"
  "''viability_reduction'' \<notin> set NO_ONSITE_AFFORDABLE_STATUSES" "''viability_reduction'' \<notin> set UNKNOWN_SPLIT_STATUSES"
  by (simp_all add: NO_ONSITE_AFFORDABLE_STATUSES_def UNKNOWN_SPLIT_STATUSES_def)

definition stated_total :: "housing_mix \<Rightarrow> classification_answer \<Rightarrow> rat option \<Rightarrow> rat option" where
  "stated_total m c portal = first_not_none [ca_total_context c, hm_total m, portal]"

definition from_percentage :: "rat option \<Rightarrow> rat option \<Rightarrow> rat option" where
  "from_percentage whole p = (case (whole, p) of (Some t, Some q) \<Rightarrow> if t = 0 then None else Some (of_int (round_half_even (t * q / 100))) | _ \<Rightarrow> None)"

definition affordable_figure :: "housing_mix \<Rightarrow> classification_answer \<Rightarrow> rat option \<Rightarrow> str option \<Rightarrow> rat option" where
  "affordable_figure m c portal category =
    (if external category \<or> contradicted m c \<or> data_status c \<in> set UNKNOWN_SPLIT_STATUSES then None
     else if data_status c \<in> set NO_ONSITE_AFFORDABLE_STATUSES then Some 0
     else if data_status c = ''all_units_affordable'' then stated_total m c portal
     else if data_status c = ''viability_reduction'' then ca_units c
     else first_not_none [ca_units c, hm_affordable m, from_percentage (stated_total m c portal) (first_not_none [ca_percentage c, hm_percentage m])])"

lemma sp_total_steps [simp]:
  "sp_total (unknown_split s) = sp_total s" "sp_total (viability_step c s) = sp_total s" "sp_total (all_affordable_step c s) = sp_total s"
  "sp_total (status_step c s) = sp_total s" "sp_total (contradiction_step m c s) = sp_total s" "sp_total (consultation_step category s) = sp_total s"
  "sp_total (derive_step c category s) = sp_total s" "sp_total (coherence_step s) = sp_total s" "sp_total (initial_split m c portal) = stated_total m c portal"
  by (auto simp: unknown_split_def viability_step_def all_affordable_step_def status_step_def contradiction_step_def consultation_step_def derive_step_def
      coherence_step_def initial_split_def stated_total_def split: option.splits)

lemma sp_affordable_coherence [simp]: "sp_affordable (coherence_step s) = sp_affordable s" "sp_percentage (coherence_step s) = sp_percentage s"
  by (auto simp: coherence_step_def split: option.splits)

lemma derived_figure:
  "sp_affordable (derive_step c category s) = (case sp_affordable s of Some a \<Rightarrow> Some a
     | None \<Rightarrow> if data_status c \<in> set UNKNOWN_SPLIT_STATUSES \<or> external category then None else from_percentage (sp_total s) (sp_percentage s))"
  by (auto simp: derive_step_def from_percentage_def split: option.splits)

lemma first_not_none_last: "first_not_none [a, b, c] = (case first_not_none [a, b] of None \<Rightarrow> c | Some u \<Rightarrow> Some u)"
  by (cases a; cases b; cases c) simp_all

lemma reconciled_affordable: "sp_affordable (reconciled_split m c portal category) = affordable_figure m c portal category"
proof -
  let ?w = "stated_total m c portal"
  consider (out) "external category \<or> contradicted m c \<or> data_status c \<in> set UNKNOWN_SPLIT_STATUSES"
    | (none) "\<not> external category" "\<not> contradicted m c" "data_status c \<in> set NO_ONSITE_AFFORDABLE_STATUSES"
    | (all) "\<not> external category" "\<not> contradicted m c" "data_status c = ''all_units_affordable''"
    | (viability) "\<not> external category" "\<not> contradicted m c" "data_status c = ''viability_reduction''"
    | (plain) "\<not> external category" "\<not> contradicted m c" "data_status c \<notin> set NO_ONSITE_AFFORDABLE_STATUSES" "data_status c \<notin> set UNKNOWN_SPLIT_STATUSES"
        "data_status c \<noteq> ''all_units_affordable''" "data_status c \<noteq> ''viability_reduction''"
    by blast
  then show ?thesis
  proof cases
    case out
    then have "sp_affordable (consultation_step category (contradiction_step m c (status_step c s))) = None \<and>
        sp_percentage (consultation_step category (contradiction_step m c (status_step c s))) = None" for s
      using statuses_apart(1) by (auto simp: consultation_step_def contradiction_step_def status_step_def unknown_split_def)
    then show ?thesis using out by (simp add: reconciled_split_def derive_step_def affordable_figure_def)
  next
    case none
    then show ?thesis using statuses_apart
      by (auto simp: reconciled_split_def derive_step_def affordable_figure_def consultation_step_def contradiction_step_def status_step_def)
  next
    case all
    then show ?thesis using statuses_apart
      by (cases ?w) (auto simp: reconciled_split_def derive_step_def affordable_figure_def consultation_step_def contradiction_step_def status_step_def all_affordable_step_def)
  next
    case viability
    then show ?thesis using statuses_apart
      by (cases "ca_units c") (auto simp: reconciled_split_def derive_step_def affordable_figure_def consultation_step_def contradiction_step_def status_step_def
          all_affordable_step_def viability_step_def unknown_split_def)
  next
    case plain
    then have "reconciled_split m c portal category = coherence_step (derive_step c category (initial_split m c portal))"
      by (simp add: reconciled_split_def consultation_step_def contradiction_step_def status_step_def all_affordable_step_def viability_step_def)
    then show ?thesis using plain
      by (simp add: derived_figure affordable_figure_def first_not_none_last [of "ca_units c" "hm_affordable m"] initial_split_def stated_total_def [symmetric]
          del: first_not_none.simps cong: option.case_cong)
  qed
qed

text \<open>
  C30. The affordable number of a scheme comes from one source: none where a count is only an upper limit, the application is another council's, the stage decides no
  split or the answer contradicts itself; zero where nothing is due on site; the total where all is affordable; the classifier's own number for a viability reduction; and
  otherwise the first of the classifier's number, zero included, the pattern pass's number and the share of the total that a stated percentage gives.
\<close>
theorem affordable_figure_has_one_source:
  "sp_affordable (si_split (reconcile_scheme consultation m c entities site portal category proposal raw retained)) =
    (if is_qualified proposal retained then None else affordable_figure m c portal category)"
  unfolding split_of_scheme by (simp add: reconciled_affordable withheld_split_def)

section \<open>Completeness\<close>

text \<open>
  A scheme is complete exactly when it states a total, its affordable position is settled, a developer or applicant and a development type are known and its units
  reconcile; in particular a scheme with an upper limit for a count, with a contradictory answer or of another council is always reviewed.
\<close>
theorem complete_exactly_when_nothing_missing:
  "si_complete (reconcile_scheme consultation m c entities site portal category proposal raw retained) =
    (\<not> is_qualified proposal retained \<and> \<not> external category \<and> \<not> contradicted m c \<and> nonzero (stated_total m c portal) \<and>
     (if at_least (stated_total m c portal) 25 then data_status c \<in> set RESOLVED_AFFORDABLE_STATUSES \<or> nonzero (affordable_figure m c portal category) else True) \<and>
     (truthy (developer_final entities) \<or> truthy (applicant_company_final entities raw)) \<and> truthy (map_of site ''development_type'') \<and>
     uc_status (si_check (reconcile_scheme consultation m c entities site portal category proposal raw retained)) = ''OK'')"
proof -
  let ?r = "reconcile_scheme consultation m c entities site portal category proposal raw retained"
  have complete: "si_complete ?r = (si_missing ?r = [])"
    and missing: "si_missing ?r = missing_items (si_split ?r) (affordable_missing c category (si_split ?r)) (status_note m c) category
        (consultation_source consultation category proposal) (\<not> (truthy (developer_final entities) \<or> truthy (applicant_company_final entities raw)))
        (map_of site ''development_type'') (si_unit_status ?r)"
    and status: "si_unit_status ?r = (if is_qualified proposal retained then QUALIFIED_STATUS else if external category then ''OK'' else uc_status (si_check ?r))"
    by (simp_all add: reconcile_scheme_def Let_def is_qualified_def)
  have noted: "(status_note m c = None) = (\<not> contradicted m c)" by (simp add: status_note_def)
  show ?thesis
  proof (cases "is_qualified proposal retained")
    case True
    then show ?thesis by (simp add: complete missing split_of_scheme missing_items_def withheld_split_def nonzero_def)
  next
    case False
    then have "si_split ?r = reconciled_split m c portal category" by (simp add: split_of_scheme)
    moreover have "sp_total (reconciled_split m c portal category) = stated_total m c portal" by (simp add: reconciled_split_def)
    ultimately show ?thesis
      using False noted by (auto simp: complete missing status missing_items_def affordable_missing_def reconciled_affordable split: option.splits)
  qed
qed

lemma co_is_no_company: "\<not> looks_like_company_name (Some ''Smith and Co.'')" "looks_like_company_name (Some ''Smith and Company'')"
  by code_simp+

end
