(* ===== verification/Instants.thy ===== *)
theory Instants
  imports Dates
begin

text \<open>
  Python's \<open>datetime.fromisoformat\<close> for the one use the program makes of it: a timestamp that must carry a zone whose offset is zero. \<open>utc_instant\<close> gives
  the microseconds since the day before year 1, so that comparing two instants compares the datetimes. The rules are those of the standard library's own
  implementation (Lib/_pydatetime.py), with digits read as ASCII digits.
\<close>

definition char_is :: "str \<Rightarrow> nat \<Rightarrow> char \<Rightarrow> bool" where
  "char_is s i c = (i < length s \<and> s ! i = c)"

text \<open>Where the date ends and the separator stands.\<close>

definition separator_location :: "str \<Rightarrow> nat option" where
  "separator_location s = (let n = length s in
     if n < 7 then None
     else if n = 7 then Some 7
     else if char_is s 4 CHR ''-'' then
       (if char_is s 5 CHR ''W'' then
          (if char_is s 8 CHR ''-'' then (if n = 9 then None else if 10 < n \<and> is_digit (s ! 10) then Some 8 else Some 10) else Some 8)
        else Some 10)
     else if char_is s 4 CHR ''W'' then
       (let i = 7 + length (takeWhile is_digit (drop 7 s)) in if i < 9 then Some i else if even i then Some 7 else Some 8)
     else Some 8)"

definition fraction_micros :: "str \<Rightarrow> int option" where
  "fraction_micros s = (if s = [] \<or> \<not> list_all is_digit s then None else Some (num_of (take 6 s) * 10 ^ (6 - length s)))"

definition two_digits :: "str \<Rightarrow> int option" where
  "two_digits s = fixed_num 2 (take 2 s)"

text \<open>What may follow the seconds: nothing, or a fraction.\<close>

definition fraction_after :: "str \<Rightarrow> int option" where
  "fraction_after s = (case s of [] \<Rightarrow> Some 0 | c # f \<Rightarrow> if c = CHR ''.'' \<or> c = CHR '','' then fraction_micros f else None)"

definition after_field :: "bool \<Rightarrow> str \<Rightarrow> str option" where
  "after_field sep s = (if sep then (if char_is s 0 CHR '':'' then Some (tl s) else None) else Some s)"

text \<open>Hours, minutes, seconds and microseconds, all with separators or all without.\<close>

definition clock :: "str \<Rightarrow> (int \<times> int \<times> int \<times> int) option" where
  "clock s = Option.bind (two_digits s) (\<lambda>h. let r = drop 2 s; sep = char_is r 0 CHR '':'' in
     if r = [] then Some (h, 0, 0, 0)
     else Option.bind (after_field sep r) (\<lambda>r. Option.bind (two_digits r) (\<lambda>m. let r = drop 2 r in
       if r = [] then Some (h, m, 0, 0)
       else Option.bind (after_field sep r) (\<lambda>r. Option.bind (two_digits r) (\<lambda>sec.
         Option.bind (fraction_after (drop 2 r)) (\<lambda>us. Some (h, m, sec, us)))))))"

definition index_after :: "char \<Rightarrow> str \<Rightarrow> nat" where
  "index_after c s = (if c \<in> set s then length (takeWhile (\<lambda>d. d \<noteq> c) s) + 1 else 0)"

definition zone_position :: "str \<Rightarrow> nat" where
  "zone_position t = (if index_after CHR ''-'' t \<noteq> 0 then index_after CHR ''-'' t
     else if index_after CHR ''+'' t \<noteq> 0 then index_after CHR ''+'' t else index_after CHR ''Z'' t)"

definition zone_is_utc :: "str \<Rightarrow> bool" where
  "zone_is_utc t = (let p = zone_position t; zone = drop p t in
     if p = 0 then False
     else if p = length t \<and> last t = CHR ''Z'' then True
     else length zone \<notin> {0, 1, 3} \<and> clock zone = Some (0, 0, 0, 0))"

definition utc_instant :: "str \<Rightarrow> int option" where
  "utc_instant s = Option.bind (separator_location s) (\<lambda>p. let t = drop (p + 1) s in
     Option.bind (iso_ordinal (take p s)) (\<lambda>day.
       if zone_is_utc t then
         Option.bind (clock (take (zone_position t - 1) t)) (\<lambda>(h, m, sec, us).
           if h < 24 \<and> m < 60 \<and> sec < 60 then Some (((day * 24 + h) * 60 + m) * 60000000 + sec * 1000000 + us) else None)
       else None))"

end
