(* ===== verification/ObservationHistory.thy ===== *)
theory ObservationHistory
  imports Instants Json PlanningState
begin

text \<open>
  The append-only history of applications over listing evidence (app/ingestion/observation_history.py). A history is three lists: applications by the digest of
  council and reference, links to complete captures, and conflicts. \<open>append_evidence\<close> and \<open>link_complete_capture\<close> return a new history or refuse; the check that nothing was
  rewritten is part of both. Evidence comes with the digest of its stored form, a record with its own; SHA-256 is a parameter of the identity digest.
\<close>

section \<open>Evidence\<close>

definition IDENTITY_FIELDS :: "str list" where "IDENTITY_FIELDS = [''received_date'']"
definition DESCRIPTIVE_FIELDS :: "str list" where "DESCRIPTIVE_FIELDS = [''proposal'', ''address'', ''application_type'']"
definition LATER_PUBLISHED_FIELDS :: "str list" where "LATER_PUBLISHED_FIELDS = [''validated_date'']"
definition SOURCE_KINDS :: "str list" where "SOURCE_KINDS = [''LISTING_OBSERVATION_V1'', ''LISTING_RECEIPT_V1'']"

text \<open>A field is its state and its value.\<close>

record evidence_record =
  er_source :: str
  er_reference :: str
  er_fields :: "(str \<times> str \<times> str option) list"
  er_digest :: str

record evidence =
  ev_kind :: "str option"
  ev_council :: str
  ev_observed_at :: "str option"
  ev_records :: "evidence_record list"
  ev_digest :: str
  ev_completeness_basis :: "str option"
  ev_date_semantics :: "str option"
  ev_interval :: "str \<times> str"

definition value_of :: "evidence_record \<Rightarrow> str \<Rightarrow> str option" where
  "value_of r name = (case map_of (er_fields r) name of Some (state, v) \<Rightarrow> if state = ''PRESENT_VALUE'' then v else None | None \<Rightarrow> None)"

datatype change =
    FirstObservation
  | Conflict str "str option"
  | NormalUpdate "str list"
  | Unchanged

definition changed_fields :: "str list \<Rightarrow> evidence_record \<Rightarrow> evidence_record \<Rightarrow> str list" where
  "changed_fields names previous current = filter (\<lambda>n. value_of previous n \<noteq> value_of current n) names"

definition classify_change :: "evidence_record \<Rightarrow> evidence_record \<Rightarrow> change" where
  "classify_change previous current =
    (if er_source previous \<noteq> er_source current then Conflict ''SOURCE_KEY_CHANGED'' None
     else case changed_fields IDENTITY_FIELDS previous current of n # _ \<Rightarrow> Conflict ''IDENTITY_FIELD_CHANGED'' (Some n)
     | [] \<Rightarrow> (case filter (\<lambda>n. value_of previous n \<noteq> None) (changed_fields LATER_PUBLISHED_FIELDS previous current) of
         n # _ \<Rightarrow> Conflict ''PUBLISHED_FIELD_CHANGED_OR_WITHDRAWN'' (Some n)
       | [] \<Rightarrow> let changed = changed_fields (DESCRIPTIVE_FIELDS @ LATER_PUBLISHED_FIELDS) previous current in
           if changed \<noteq> [] then NormalUpdate changed else Unchanged))"

section \<open>Histories\<close>

record observation =
  ob_evidence_digest :: str
  ob_kind :: str
  ob_observed_at :: str
  ob_record_digest :: str
  ob_source :: str
  ob_received :: "str option"
  ob_fields :: "(str \<times> str option) list"
  ob_change :: change

type_synonym identity = "str \<times> str"

record application_history =
  ah_identity :: identity
  ah_observations :: "observation list"
  ah_first_observed_at :: "str option"
  ah_first_observed_in :: "str option"

record conflict =
  cf_identity :: identity
  cf_reason :: str
  cf_field :: "str option"
  cf_evidence_digest :: str
  cf_other_reference :: "str option"

record capture_link =
  lk_identity :: identity
  lk_observation :: str
  lk_receipt :: str
  lk_relation :: str
  lk_linked_at :: str

record history =
  hs_applications :: "(str \<times> application_history) list"
  hs_links :: "capture_link list"
  hs_conflicts :: "conflict list"

definition empty_history :: history where
  "empty_history = \<lparr>hs_applications = [], hs_links = [], hs_conflicts = []\<rparr>"

definition utc :: "str option \<Rightarrow> pyexc + int" where
  "utc stamp = (case Option.bind stamp utc_instant of None \<Rightarrow> Inl (Denied ''OBSERVATION_TIMESTAMP_UTC_REQUIRED'') | Some t \<Rightarrow> Inr t)"

definition identity_key :: "(str \<Rightarrow> str) \<Rightarrow> identity \<Rightarrow> str" where
  "identity_key sha i = digest sha (JObj [(''council'', JStr (fst i)), (''reference'', JStr (snd i))])"

text \<open>The record that the last observation stands for.\<close>

definition observed_record :: "observation \<Rightarrow> evidence_record" where
  "observed_record o' = \<lparr>er_source = ob_source o', er_reference = [],
     er_fields = map (\<lambda>(n, v). (n, if truthy v then ''PRESENT_VALUE'' else ''UNKNOWN'', v)) ((''received_date'', ob_received o') # ob_fields o'), er_digest = []\<rparr>"

definition setdefault :: "'k \<Rightarrow> 'v \<Rightarrow> ('k \<times> 'v) list \<Rightarrow> ('k \<times> 'v) list" where
  "setdefault k v m = (if map_of m k = None then m @ [(k, v)] else m)"

definition source_keys :: "history \<Rightarrow> (str \<times> str) list" where
  "source_keys h = foldl (\<lambda>m (k, a). foldl (\<lambda>m o'. setdefault (ob_source o') (snd (ah_identity a)) m) m (ah_observations a)) [] (hs_applications h)"

definition same_entry :: "observation \<Rightarrow> observation \<Rightarrow> bool" where
  "same_entry a b = (ob_evidence_digest a = ob_evidence_digest b \<and> ob_record_digest a = ob_record_digest b \<and> ob_observed_at a = ob_observed_at b)"

definition new_entry :: "evidence \<Rightarrow> str \<Rightarrow> evidence_record \<Rightarrow> observation" where
  "new_entry e stamp r = \<lparr>ob_evidence_digest = ev_digest e, ob_kind = str_or (ev_kind e) [], ob_observed_at = stamp, ob_record_digest = er_digest r,
     ob_source = er_source r, ob_received = value_of r ''received_date'',
     ob_fields = map (\<lambda>n. (n, value_of r n)) (DESCRIPTIVE_FIELDS @ LATER_PUBLISHED_FIELDS), ob_change = FirstObservation\<rparr>"

definition key_conflict :: "(str \<times> str) list \<Rightarrow> evidence \<Rightarrow> evidence_record \<Rightarrow> conflict list" where
  "key_conflict keys e r = (case map_of keys (er_source r) of None \<Rightarrow> [] | Some other \<Rightarrow>
     if other \<noteq> er_reference r then [\<lparr>cf_identity = (ev_council e, er_reference r), cf_reason = ''SOURCE_KEY_USED_BY_ANOTHER_REFERENCE'', cf_field = None,
        cf_evidence_digest = ev_digest e, cf_other_reference = Some other\<rparr>] else [])"

definition change_conflict :: "change \<Rightarrow> evidence \<Rightarrow> evidence_record \<Rightarrow> conflict list" where
  "change_conflict c e r = (case c of Conflict reason field \<Rightarrow> [\<lparr>cf_identity = (ev_council e, er_reference r), cf_reason = reason, cf_field = field,
      cf_evidence_digest = ev_digest e, cf_other_reference = None\<rparr>] | _ \<Rightarrow> [])"

text \<open>The first observation is moved where the new one is earlier; the comparison parses both timestamps.\<close>

definition first_moved :: "evidence \<Rightarrow> str \<Rightarrow> application_history \<Rightarrow> pyexc + application_history" where
  "first_moved e stamp a = (case ah_first_observed_at a of
       None \<Rightarrow> Inr (a\<lparr>ah_first_observed_at := Some stamp, ah_first_observed_in := Some (ev_digest e)\<rparr>)
     | Some f \<Rightarrow> (case (utc (Some stamp), utc (Some f)) of
          (Inl x, _) \<Rightarrow> Inl x | (_, Inl x) \<Rightarrow> Inl x
        | (Inr t, Inr u) \<Rightarrow> Inr (if t < u then a\<lparr>ah_first_observed_at := Some stamp, ah_first_observed_in := Some (ev_digest e)\<rparr> else a)))"

definition new_application :: "identity \<Rightarrow> application_history" where
  "new_application i = \<lparr>ah_identity = i, ah_observations = [], ah_first_observed_at = None, ah_first_observed_in = None\<rparr>"

definition observed_change :: "application_history \<Rightarrow> evidence_record \<Rightarrow> change" where
  "observed_change a r = (if ah_observations a = [] then FirstObservation else classify_change (observed_record (last (ah_observations a))) r)"

text \<open>One record: the application is found or opened, a repetition adds nothing, anything else is appended with its change and its conflicts.\<close>

definition append_record :: "(str \<Rightarrow> str) \<Rightarrow> evidence \<Rightarrow> str \<Rightarrow> evidence_record \<Rightarrow> history \<times> (str \<times> str) list \<Rightarrow> pyexc + history \<times> (str \<times> str) list" where
  "append_record sha e stamp r st =
    (let (h, keys) = st; k = identity_key sha (ev_council e, er_reference r); entry = new_entry e stamp r;
         apps = setdefault k (new_application (ev_council e, er_reference r)) (hs_applications h); a = the (map_of apps k) in
     if list_ex (\<lambda>o'. same_entry o' entry) (ah_observations a) then Inr (h\<lparr>hs_applications := apps\<rparr>, keys)
     else let c = observed_change a r in
       (case first_moved e stamp (a\<lparr>ah_observations := ah_observations a @ [entry\<lparr>ob_change := c\<rparr>]\<rparr>) of Inl x \<Rightarrow> Inl x
        | Inr a' \<Rightarrow> Inr (h\<lparr>hs_applications := AList.update k a' apps, hs_conflicts := hs_conflicts h @ key_conflict keys e r @ change_conflict c e r\<rparr>,
            setdefault (er_source r) (er_reference r) keys)))"

fun append_records :: "(str \<Rightarrow> str) \<Rightarrow> evidence \<Rightarrow> str \<Rightarrow> evidence_record list \<Rightarrow> history \<times> (str \<times> str) list \<Rightarrow> pyexc + history \<times> (str \<times> str) list" where
  "append_records sha e stamp [] st = Inr st"
| "append_records sha e stamp (r # rs) st = (case append_record sha e stamp r st of Inl x \<Rightarrow> Inl x | Inr st' \<Rightarrow> append_records sha e stamp rs st')"

text \<open>The closing check: every earlier observation in place and unchanged, the conflicts extended, the links untouched.\<close>

definition kept_application :: "history \<Rightarrow> str \<times> application_history \<Rightarrow> bool" where
  "kept_application h ka = (case map_of (hs_applications h) (fst ka) of None \<Rightarrow> False
     | Some a \<Rightarrow> take (length (ah_observations (snd ka))) (ah_observations a) = ah_observations (snd ka))"

definition append_only :: "history \<Rightarrow> history \<Rightarrow> bool" where
  "append_only h h' = (list_all (kept_application h') (hs_applications h) \<and>
     take (length (hs_conflicts h)) (hs_conflicts h') = hs_conflicts h \<and> hs_links h' = hs_links h)"

definition stamp_of :: "evidence \<Rightarrow> str option \<Rightarrow> pyexc + str option" where
  "stamp_of e observed_at = (if ev_kind e = Some ''LISTING_OBSERVATION_V1'' then
      (if observed_at \<noteq> None \<and> observed_at \<noteq> ev_observed_at e then Inl (Denied ''OBSERVATION_TIMESTAMP_IS_THE_EVIDENCES_OWN'') else Inr (ev_observed_at e))
     else Inr observed_at)"

definition append_evidence :: "(str \<Rightarrow> str) \<Rightarrow> history \<Rightarrow> evidence \<Rightarrow> str option \<Rightarrow> pyexc + history" where
  "append_evidence sha h e observed_at =
    (if (case ev_kind e of None \<Rightarrow> True | Some k \<Rightarrow> k \<notin> set SOURCE_KINDS) then Inl (Denied ''UNSUPPORTED_EVIDENCE_KIND'')
     else (case stamp_of e observed_at of Inl x \<Rightarrow> Inl x
     | Inr stamp \<Rightarrow> (case utc stamp of Inl x \<Rightarrow> Inl x
     | Inr _ \<Rightarrow> (case append_records sha e (the stamp) (ev_records e) (h, source_keys h) of Inl x \<Rightarrow> Inl x
     | Inr (h', _) \<Rightarrow> if append_only h h' then Inr h' else Inl (Denied ''HISTORY_NOT_APPEND_ONLY'')))))"

section \<open>Reading\<close>

text \<open>\<open>min(..., key=...)\<close>: the first of the least, where every key can be computed.\<close>

fun earliest :: "observation list \<Rightarrow> pyexc + observation" where
  "earliest [] = Inl (ValueError ''min() arg is an empty sequence'')"
| "earliest [o'] = (case utc (Some (ob_observed_at o')) of Inl x \<Rightarrow> Inl x | Inr _ \<Rightarrow> Inr o')"
| "earliest (o' # p # os) = (case utc (Some (ob_observed_at o')) of Inl x \<Rightarrow> Inl x | Inr t \<Rightarrow>
     (case earliest (p # os) of Inl x \<Rightarrow> Inl x
      | Inr q \<Rightarrow> (case utc (Some (ob_observed_at q)) of Inl x \<Rightarrow> Inl x | Inr u \<Rightarrow> Inr (if u < t then q else o'))))"

record first_observation =
  fo_observed_at :: "str option"
  fo_observed_in :: "str option"
  fo_received :: "str option"

definition first_observed :: "(str \<Rightarrow> str) \<Rightarrow> history \<Rightarrow> str \<Rightarrow> str \<Rightarrow> pyexc + first_observation option" where
  "first_observed sha h council reference = (case map_of (hs_applications h) (identity_key sha (council, reference)) of None \<Rightarrow> Inr None
     | Some a \<Rightarrow> (case earliest (ah_observations a) of Inl x \<Rightarrow> Inl x
        | Inr o' \<Rightarrow> Inr (Some \<lparr>fo_observed_at = ah_first_observed_at a, fo_observed_in = ah_first_observed_in a, fo_received = ob_received o'\<rparr>)))"

section \<open>Linking\<close>

type_synonym link_state = "capture_link list \<times> conflict list \<times> (str \<times> str \<times> str) list"

definition PRESENT_IN_COMPLETE_CAPTURE :: str where
  "PRESENT_IN_COMPLETE_CAPTURE = ''PRESENT_IN_COMPLETE_CAPTURE''"

definition link_relation :: "evidence \<Rightarrow> identity \<Rightarrow> str" where
  "link_relation receipt i = (if snd i \<in> set (map er_reference (ev_records receipt)) then PRESENT_IN_COMPLETE_CAPTURE else ''OBSERVED_BUT_ABSENT_FROM_COMPLETE_CAPTURE'')"

text \<open>Whether an observation falls into the receipt's interval; \<open>strptime\<close> refuses a date it cannot read.\<close>

definition in_interval :: "evidence \<Rightarrow> observation \<Rightarrow> pyexc + bool" where
  "in_interval receipt o' = (if ob_kind o' \<noteq> ''LISTING_OBSERVATION_V1'' \<or> ob_received o' = None then Inr False
     else (case (if strip (the (ob_received o')) = the (ob_received o') then parse_idox (the (ob_received o')) else None) of None \<Rightarrow> Inl (ValueError ''time data does not match format'')
     | Some d \<Rightarrow> Inr (fst (ev_interval receipt) \<le> iso_text d \<and> iso_text d \<le> snd (ev_interval receipt))))"

definition link_observation :: "evidence \<Rightarrow> str \<Rightarrow> identity \<Rightarrow> observation \<Rightarrow> link_state \<Rightarrow> pyexc + link_state" where
  "link_observation receipt linked_at i o' st =
    (case in_interval receipt o' of Inl x \<Rightarrow> Inl x | Inr False \<Rightarrow> Inr st
     | Inr True \<Rightarrow> let (links, conflicts, seen) = st; relation = link_relation receipt i; token = (snd i, ob_evidence_digest o', ev_digest receipt) in
       if token \<in> set seen then Inr st
       else Inr (links @ [\<lparr>lk_identity = i, lk_observation = ob_evidence_digest o', lk_receipt = ev_digest receipt, lk_relation = relation, lk_linked_at = linked_at\<rparr>],
         (if relation \<noteq> PRESENT_IN_COMPLETE_CAPTURE then conflicts @ [\<lparr>cf_identity = i, cf_reason = relation, cf_field = None, cf_evidence_digest = ev_digest receipt,
            cf_other_reference = None\<rparr>] else conflicts), token # seen))"

fun link_all :: "evidence \<Rightarrow> str \<Rightarrow> (identity \<times> observation) list \<Rightarrow> link_state \<Rightarrow> pyexc + link_state" where
  "link_all receipt linked_at [] st = Inr st"
| "link_all receipt linked_at ((i, o') # os) st = (case link_observation receipt linked_at i o' st of Inl x \<Rightarrow> Inl x
     | Inr st' \<Rightarrow> link_all receipt linked_at os st')"

text \<open>The observations of the receipt's council, application by application in the order of the keys.\<close>

definition council_observations :: "history \<Rightarrow> str \<Rightarrow> (identity \<times> observation) list" where
  "council_observations h council = concat (map (\<lambda>(k, a). if fst (ah_identity a) \<noteq> council then [] else map (\<lambda>o'. (ah_identity a, o')) (ah_observations a))
     (sort_key fst (hs_applications h)))"

definition link_token :: "capture_link \<Rightarrow> str \<times> str \<times> str" where
  "link_token l = (snd (lk_identity l), lk_observation l, lk_receipt l)"

definition link_complete_capture :: "history \<Rightarrow> evidence \<Rightarrow> str option \<Rightarrow> pyexc + history" where
  "link_complete_capture h receipt observed_at =
    (if ev_kind receipt \<noteq> Some ''LISTING_RECEIPT_V1'' then Inl (Denied ''COMPLETE_RECEIPT_REQUIRED'')
     else (case utc observed_at of Inl x \<Rightarrow> Inl x
     | Inr _ \<Rightarrow> if ev_completeness_basis receipt \<noteq> None then Inl (Denied ''SOURCE_RECONCILED_RECEIPT_REQUIRED'')
       else if opt_or (ev_date_semantics receipt) ''RECEIVED'' \<noteq> ''RECEIVED'' then Inl (Denied ''RECEIVED_SEMANTICS_REQUIRED'')
       else (case link_all receipt (the observed_at) (council_observations h (ev_council receipt)) (hs_links h, hs_conflicts h, map link_token (hs_links h)) of
          Inl x \<Rightarrow> Inl x
        | Inr (links, conflicts, _) \<Rightarrow> Inr (h\<lparr>hs_links := links, hs_conflicts := conflicts\<rparr>))))"

end
