(* ===== verification/HistoryProperties.thy ===== *)
theory HistoryProperties
  imports ObservationHistory
begin

text \<open>
  What a history guarantees: nothing recorded is altered or lost by any run of operations, evidence is refused only for its kind or its timestamp, repeating an operation
  adds nothing, and the first observation of an application is its earliest.
\<close>

section \<open>Extension\<close>

definition extends_app :: "application_history \<Rightarrow> application_history \<Rightarrow> bool" where
  "extends_app a b = (ah_identity b = ah_identity a \<and> prefix (ah_observations a) (ah_observations b))"

definition extends :: "history \<Rightarrow> history \<Rightarrow> bool" where
  "extends h h' = ((\<forall>k a. map_of (hs_applications h) k = Some a \<longrightarrow> (\<exists>b. map_of (hs_applications h') k = Some b \<and> extends_app a b)) \<and>
     prefix (hs_conflicts h) (hs_conflicts h') \<and> prefix (hs_links h) (hs_links h'))"

lemma extends_app_refl [simp]: "extends_app a a"
  by (simp add: extends_app_def)

lemma extends_app_trans: "extends_app a b \<Longrightarrow> extends_app b c \<Longrightarrow> extends_app a c"
  by (auto simp: extends_app_def)

lemma extends_refl [simp]: "extends h h"
  by (simp add: extends_def)

lemma extends_trans: "extends h g \<Longrightarrow> extends g f \<Longrightarrow> extends h f"
  unfolding extends_def by (meson extends_app_trans prefix_order.trans)

lemma reflp_extends: "reflp extends" and transp_extends: "transp extends"
  by (auto intro: reflpI transpI extends_trans)

section \<open>The invariant\<close>

definition earliest_first :: "application_history \<Rightarrow> bool" where
  "earliest_first a = (\<exists>o'. earliest (ah_observations a) = Inr o' \<and> ah_first_observed_at a = Some (ob_observed_at o') \<and> ah_first_observed_in a = Some (ob_evidence_digest o'))"

definition timed :: "observation \<Rightarrow> bool" where
  "timed o' = (utc_instant (ob_observed_at o') \<noteq> None)"

definition instant_of :: "observation \<Rightarrow> int" where
  "instant_of o' = the (utc_instant (ob_observed_at o'))"

lemma utc_timed [simp]: "timed o' \<Longrightarrow> utc (Some (ob_observed_at o')) = Inr (instant_of o')"
  by (auto simp: utc_def timed_def instant_of_def)

lemma earliest_least:
  assumes "os \<noteq> []" "list_all timed os"
  shows "\<exists>q. earliest os = Inr q \<and> q \<in> set os \<and> list_all (\<lambda>p. instant_of q \<le> instant_of p) os"
  using assms
proof (induction os rule: earliest.induct)
  case (3 o' p os)
  then obtain q where q: "earliest (p # os) = Inr q" "q \<in> set (p # os)" "list_all (\<lambda>x. instant_of q \<le> instant_of x) (p # os)" by auto
  then have "timed q" "timed o'" using 3(3) by (auto simp: list_all_iff)
  then show ?case using q by (auto simp: list_all_iff)
qed simp_all

lemma earliest_snoc:
  assumes "os \<noteq> []" "list_all timed (os @ [p])" "earliest os = Inr q"
  shows "earliest (os @ [p]) = Inr (if instant_of p < instant_of q then p else q)"
  using assms
proof (induction os arbitrary: q rule: earliest.induct)
  case (3 o' x os)
  from 3(3) obtain r where r: "earliest (x # os) = Inr r" "r \<in> set (x # os)"
    using earliest_least [of "x # os"] by auto
  then have t: "timed r" "timed o'" "timed p" using 3(3) by (auto simp: list_all_iff)
  have "earliest (x # os @ [p]) = Inr (if instant_of p < instant_of r then p else r)"
    using 3(1) [OF _ _ _ r(1)] 3(3) t(2) utc_timed by auto
  moreover have "q = (if instant_of r < instant_of o' then r else o')" using 3(4) r(1) t by simp
  ultimately show ?case using t by auto
qed simp_all

definition sound_app :: "(str \<Rightarrow> str) \<Rightarrow> str \<Rightarrow> application_history \<Rightarrow> bool" where
  "sound_app sha k a = (k = identity_key sha (ah_identity a) \<and> list_all timed (ah_observations a) \<and> earliest_first a)"

definition sound_history :: "(str \<Rightarrow> str) \<Rightarrow> history \<Rightarrow> bool" where
  "sound_history sha h = (distinct (map fst (hs_applications h)) \<and> (\<forall>k a. map_of (hs_applications h) k = Some a \<longrightarrow> sound_app sha k a))"

lemma sound_empty: "sound_history sha empty_history"
  by (simp add: sound_history_def empty_history_def)

lemma sound_nonempty: "sound_app sha k a \<Longrightarrow> ah_observations a \<noteq> []"
  by (auto simp: sound_app_def earliest_first_def)

lemma map_of_setdefault: "map_of (setdefault k v m) = (if map_of m k = None then (map_of m)(k \<mapsto> v) else map_of m)"
  by (auto simp: setdefault_def map_add_def fun_eq_iff split: option.splits)

lemma distinct_setdefault: "distinct (map fst m) \<Longrightarrow> distinct (map fst (setdefault k v m))"
  by (auto simp: setdefault_def map_of_eq_None_iff)

lemma first_moved_sound:
  assumes "utc_instant stamp \<noteq> None" "ob_observed_at entry = stamp" "ob_evidence_digest entry = ev_digest e"
    and "ah_observations a = [] \<and> ah_first_observed_at a = None \<and> k = identity_key sha (ah_identity a) \<or> sound_app sha k a"
  shows "\<exists>b. first_moved e stamp (a\<lparr>ah_observations := ah_observations a @ [entry]\<rparr>) = Inr b \<and> sound_app sha k b \<and>
    ah_identity b = ah_identity a \<and> ah_observations b = ah_observations a @ [entry]"
  using assms(4)
proof
  assume "ah_observations a = [] \<and> ah_first_observed_at a = None \<and> k = identity_key sha (ah_identity a)"
  then show ?thesis using assms(1-3) by (auto simp: first_moved_def sound_app_def earliest_first_def timed_def utc_def)
next
  assume a: "sound_app sha k a"
  then obtain q where q: "earliest (ah_observations a) = Inr q" "ah_first_observed_at a = Some (ob_observed_at q)" "ah_first_observed_in a = Some (ob_evidence_digest q)"
      "list_all timed (ah_observations a)" "ah_observations a \<noteq> []"
    using sound_nonempty [of sha k a] unfolding sound_app_def earliest_first_def by blast
  then have t: "timed q" "timed entry" using earliest_least [of "ah_observations a"] assms(1,2) by (auto simp: list_all_iff timed_def)
  have "earliest (ah_observations a @ [entry]) = Inr (if instant_of entry < instant_of q then entry else q)"
    using q t by (intro earliest_snoc) simp_all
  then show ?thesis
    using a q t utc_timed [OF t(1)] utc_timed [OF t(2)] assms(2,3)
    by (auto simp: first_moved_def sound_app_def earliest_first_def)
qed

section \<open>Appending\<close>

definition recorded :: "(str \<Rightarrow> str) \<Rightarrow> evidence \<Rightarrow> str \<Rightarrow> evidence_record \<Rightarrow> history \<Rightarrow> bool" where
  "recorded sha e stamp r h = (case map_of (hs_applications h) (identity_key sha (ev_council e, er_reference r)) of None \<Rightarrow> False
     | Some a \<Rightarrow> list_ex (\<lambda>o'. same_entry o' (new_entry e stamp r)) (ah_observations a))"

lemma recorded_extends: "recorded sha e stamp r h \<Longrightarrow> extends h h' \<Longrightarrow> recorded sha e stamp r h'"
  by (fastforce simp: recorded_def extends_def extends_app_def prefix_def split: option.splits)

lemma append_recorded: "recorded sha e stamp r h \<Longrightarrow> append_record sha e stamp r (h, keys) = Inr (h, keys)"
  by (auto simp: recorded_def append_record_def setdefault_def Let_def split: option.splits)

lemma extends_update:
  assumes "map_of (hs_applications h') = (map_of (hs_applications h))(k \<mapsto> b)" "map_of (hs_applications h) k = None \<or> (\<exists>a. map_of (hs_applications h) k = Some a \<and> extends_app a b)"
    "prefix (hs_conflicts h) (hs_conflicts h')" "prefix (hs_links h) (hs_links h')"
  shows "extends h h'"
  using assms by (auto simp: extends_def)

lemma sound_update:
  assumes "sound_history sha h" "distinct (map fst (hs_applications h'))" "map_of (hs_applications h') = (map_of (hs_applications h))(k \<mapsto> b)" "sound_app sha k b"
  shows "sound_history sha h'"
  using assms by (auto simp: sound_history_def split: if_splits)

lemma append_record_step:
  assumes sound: "sound_history sha h" and stamp: "utc_instant stamp \<noteq> None"
  shows "\<exists>h' keys'. append_record sha e stamp r (h, keys) = Inr (h', keys') \<and> sound_history sha h' \<and> extends h h' \<and> hs_links h' = hs_links h \<and> recorded sha e stamp r h'"
proof (cases "recorded sha e stamp r h")
  case True
  then show ?thesis using sound by (simp add: append_recorded)
next
  case False
  let ?i = "(ev_council e, er_reference r)"
  let ?k = "identity_key sha ?i"
  let ?apps = "setdefault ?k (new_application ?i) (hs_applications h)"
  define a where "a = the (map_of ?apps ?k)"
  define entry where "entry = new_entry e stamp r\<lparr>ob_change := observed_change a r\<rparr>"
  have a: "map_of (hs_applications h) ?k = None \<and> a = new_application ?i \<or> map_of (hs_applications h) ?k = Some a"
    by (auto simp: a_def map_of_setdefault)
  have start: "ah_observations a = [] \<and> ah_first_observed_at a = None \<and> ?k = identity_key sha (ah_identity a) \<or> sound_app sha ?k a"
    using a sound by (auto simp: new_application_def sound_history_def)
  obtain b where b: "first_moved e stamp (a\<lparr>ah_observations := ah_observations a @ [entry]\<rparr>) = Inr b" "sound_app sha ?k b" "ah_identity b = ah_identity a"
      "ah_observations b = ah_observations a @ [entry]"
    using first_moved_sound [OF stamp _ _ start, of entry e] by (auto simp: entry_def new_entry_def)
  have fresh: "\<not> list_ex (\<lambda>o'. same_entry o' (new_entry e stamp r)) (ah_observations a)"
    using False a by (auto simp: recorded_def new_application_def)
  let ?h' = "h\<lparr>hs_applications := AList.update ?k b ?apps, hs_conflicts := hs_conflicts h @ key_conflict keys e r @ change_conflict (observed_change a r) e r\<rparr>"
  have "append_record sha e stamp r (h, keys) = Inr (?h', setdefault (er_source r) (er_reference r) keys)"
    using b(1) fresh by (simp add: append_record_def Let_def a_def [symmetric] entry_def [symmetric])
  moreover have apps: "map_of (hs_applications ?h') = (map_of (hs_applications h))(?k \<mapsto> b)"
    by (simp add: update_conv' map_of_setdefault)
  moreover have "extends h ?h'"
    by (rule extends_update [OF apps]) (use a b(3,4) in \<open>auto simp: extends_app_def\<close>)
  moreover have "sound_history sha ?h'"
    by (rule sound_update [OF sound _ apps b(2)]) (use sound in \<open>simp add: sound_history_def distinct_update distinct_setdefault\<close>)
  moreover have "recorded sha e stamp r ?h'"
    using b(4) unfolding recorded_def apps by (simp add: entry_def same_entry_def)
  ultimately show ?thesis by (intro exI conjI) (assumption | simp)+
qed

lemma append_records_steps:
  assumes "sound_history sha h" "utc_instant stamp \<noteq> None"
  shows "\<exists>h' keys'. append_records sha e stamp rs (h, keys) = Inr (h', keys') \<and> sound_history sha h' \<and> extends h h' \<and> hs_links h' = hs_links h \<and>
    list_all (\<lambda>r. recorded sha e stamp r h') rs"
  using assms(1)
proof (induction rs arbitrary: h keys)
  case (Cons r rs)
  obtain h1 keys1 where 1: "append_record sha e stamp r (h, keys) = Inr (h1, keys1)" "sound_history sha h1" "extends h h1" "hs_links h1 = hs_links h" "recorded sha e stamp r h1"
    using append_record_step [OF Cons.prems assms(2)] by blast
  obtain h2 keys2 where 2: "append_records sha e stamp rs (h1, keys1) = Inr (h2, keys2)" "sound_history sha h2" "extends h1 h2" "hs_links h2 = hs_links h1"
      "list_all (\<lambda>r. recorded sha e stamp r h2) rs"
    using Cons.IH [OF 1(2)] by blast
  have "recorded sha e stamp r h2" using 1(5) 2(3) by (rule recorded_extends)
  moreover have "extends h h2" using 1(3) 2(3) by (rule extends_trans)
  ultimately show ?case using 1(1,4) 2(1,2,4,5) by simp
qed auto

lemma append_records_recorded:
  "list_all (\<lambda>r. recorded sha e stamp r h) rs \<Longrightarrow> append_records sha e stamp rs (h, keys) = Inr (h, keys)"
  by (induction rs) (simp_all add: append_recorded)

lemma extends_append_only:
  assumes "sound_history sha h" "extends h h'" "hs_links h' = hs_links h"
  shows "append_only h h'"
proof -
  have "kept_application h' (k, a)" if "(k, a) \<in> set (hs_applications h)" for k a
  proof -
    have "map_of (hs_applications h) k = Some a" using assms(1) that by (simp add: sound_history_def)
    with assms(2) obtain b where "map_of (hs_applications h') k = Some b" "extends_app a b" by (auto simp: extends_def)
    then show ?thesis by (auto simp: kept_application_def extends_app_def prefix_def)
  qed
  then show ?thesis using assms(2,3) by (auto simp: append_only_def list_all_iff extends_def prefix_def)
qed

definition admissible :: "evidence \<Rightarrow> str option \<Rightarrow> bool" where
  "admissible e observed_at = ((ev_kind e = Some ''LISTING_RECEIPT_V1'' \<and> Option.bind observed_at utc_instant \<noteq> None) \<or>
     (ev_kind e = Some ''LISTING_OBSERVATION_V1'' \<and> (observed_at = None \<or> observed_at = ev_observed_at e) \<and> Option.bind (ev_observed_at e) utc_instant \<noteq> None))"

lemma append_evidence_cases:
  assumes "sound_history sha h"
  shows "(\<exists>stamp h'. append_evidence sha h e observed_at = Inr h' \<and> admissible e observed_at \<and> stamp_of e observed_at = Inr (Some stamp) \<and> utc_instant stamp \<noteq> None \<and>
       sound_history sha h' \<and> extends h h' \<and> hs_links h' = hs_links h \<and> list_all (\<lambda>r. recorded sha e stamp r h') (ev_records e)) \<or>
    (\<not> admissible e observed_at \<and> append_evidence sha h e observed_at \<in> Inl ` Denied ` {''UNSUPPORTED_EVIDENCE_KIND'', ''OBSERVATION_TIMESTAMP_IS_THE_EVIDENCES_OWN'', ''OBSERVATION_TIMESTAMP_UTC_REQUIRED''})"
proof (cases "admissible e observed_at")
  case True
  then obtain stamp where stamp: "stamp_of e observed_at = Inr (Some stamp)" "utc_instant stamp \<noteq> None" and kind: "case ev_kind e of None \<Rightarrow> False | Some k \<Rightarrow> k \<in> set SOURCE_KINDS"
    by (auto simp: admissible_def stamp_of_def SOURCE_KINDS_def bind_eq_Some_conv)
  obtain h' keys' where h': "append_records sha e stamp (ev_records e) (h, source_keys h) = Inr (h', keys')" "sound_history sha h'" "extends h h'" "hs_links h' = hs_links h"
      "list_all (\<lambda>r. recorded sha e stamp r h') (ev_records e)"
    using append_records_steps [OF assms stamp(2)] by blast
  have "append_evidence sha h e observed_at = Inr h'"
    using stamp kind h'(1) extends_append_only [OF assms h'(3,4)] by (auto simp: append_evidence_def utc_def split: option.splits)
  then show ?thesis using True stamp h' by blast
next
  case False
  then show ?thesis
    by (auto simp: append_evidence_def admissible_def stamp_of_def utc_def SOURCE_KINDS_def split: option.splits if_splits bind_splits)
qed

section \<open>Linking\<close>

definition link_conflicts :: "evidence \<Rightarrow> (identity \<times> observation) list \<Rightarrow> conflict list" where
  "link_conflicts receipt os = map (\<lambda>(i, o'). \<lparr>cf_identity = i, cf_reason = link_relation receipt i, cf_field = None, cf_evidence_digest = ev_digest receipt,
     cf_other_reference = None\<rparr>) os"

definition links_in_step :: "evidence \<Rightarrow> link_state \<Rightarrow> bool" where
  "links_in_step receipt st = (case st of (links, conflicts, seen) \<Rightarrow> set seen = link_token ` set links)"

text \<open>An observation the receipt covers is linked, by the relation its reference has to the receipt.\<close>

definition linked :: "evidence \<Rightarrow> capture_link list \<Rightarrow> identity \<Rightarrow> observation \<Rightarrow> bool" where
  "linked receipt links i o' = ((snd i, ob_evidence_digest o', ev_digest receipt) \<in> link_token ` set links)"

lemma link_observation_step:
  assumes "link_observation receipt at' i o' st = Inr st'" "links_in_step receipt st"
  shows "links_in_step receipt st' \<and> prefix (fst st) (fst st') \<and> prefix (fst (snd st)) (fst (snd st')) \<and>
    (\<exists>inside. in_interval receipt o' = Inr inside \<and> (inside \<longrightarrow> linked receipt (fst st') i o'))"
  using assms by (cases st) (auto simp: link_observation_def links_in_step_def Let_def linked_def link_token_def split: sum.splits bool.splits if_splits)

lemma linked_prefix: "linked receipt links i o' \<Longrightarrow> prefix links links' \<Longrightarrow> linked receipt links' i o'"
  by (auto simp: linked_def prefix_def)

definition covered_by :: "evidence \<Rightarrow> capture_link list \<Rightarrow> identity \<times> observation \<Rightarrow> bool" where
  "covered_by receipt links io = (case in_interval receipt (snd io) of Inl _ \<Rightarrow> False | Inr inside \<Rightarrow> inside \<longrightarrow> linked receipt links (fst io) (snd io))"

lemma covered_prefix: "covered_by receipt links io \<Longrightarrow> prefix links links' \<Longrightarrow> covered_by receipt links' io"
  by (auto simp: covered_by_def linked_prefix split: sum.splits)

lemma link_all_steps:
  assumes "link_all receipt at' os st = Inr st'" "links_in_step receipt st"
  shows "links_in_step receipt st' \<and> prefix (fst st) (fst st') \<and> prefix (fst (snd st)) (fst (snd st')) \<and> list_all (covered_by receipt (fst st')) os"
  using assms
proof (induction receipt at' os st rule: link_all.induct)
  case (2 receipt at' i o' os st)
  then obtain st1 where 1: "link_observation receipt at' i o' st = Inr st1" "link_all receipt at' os st1 = Inr st'"
    by (auto split: sum.splits)
  from link_observation_step [OF 1(1) 2(3)] have s1: "links_in_step receipt st1" "prefix (fst st) (fst st1)" "prefix (fst (snd st)) (fst (snd st1))"
      "covered_by receipt (fst st1) (i, o')"
    by (auto simp: covered_by_def)
  from 2(1) [OF 1 s1(1)] have "links_in_step receipt st'" "prefix (fst st1) (fst st')" "prefix (fst (snd st1)) (fst (snd st'))" "list_all (covered_by receipt (fst st')) os"
    by simp_all
  with s1 show ?case by (auto intro: covered_prefix)
qed simp

lemma link_all_covered:
  assumes "list_all (covered_by receipt (fst st)) os" "links_in_step receipt st"
  shows "link_all receipt at' os st = Inr st"
  using assms
proof (induction receipt at' os st rule: link_all.induct)
  case (2 receipt at' i o' os st)
  then have "link_observation receipt at' i o' st = Inr st"
    by (cases st) (auto simp: covered_by_def link_observation_def linked_def links_in_step_def Let_def split: sum.splits bool.splits)
  then show ?case using 2 by simp
qed simp

lemma link_steps:
  assumes "link_complete_capture h receipt at' = Inr h'"
  shows "hs_applications h' = hs_applications h \<and> extends h h' \<and> list_all (covered_by receipt (hs_links h')) (council_observations h (ev_council receipt))"
proof -
  obtain links conflicts seen where l: "link_all receipt (the at') (council_observations h (ev_council receipt)) (hs_links h, hs_conflicts h, map link_token (hs_links h)) =
      Inr (links, conflicts, seen)" "h' = h\<lparr>hs_links := links, hs_conflicts := conflicts\<rparr>"
    using assms by (auto simp: link_complete_capture_def split: sum.splits if_splits)
  have "links_in_step receipt (hs_links h, hs_conflicts h, map link_token (hs_links h))" by (simp add: links_in_step_def)
  from link_all_steps [OF l(1) this] l(2) show ?thesis by (auto simp: extends_def)
qed

section \<open>Runs\<close>

datatype history_event = Append evidence "str option" | Link evidence "str option"

definition history_operation :: "(str \<Rightarrow> str) \<Rightarrow> history \<Rightarrow> history_event \<Rightarrow> pyexc + history" where
  "history_operation sha h ev = (case ev of Append e at' \<Rightarrow> append_evidence sha h e at' | Link receipt at' \<Rightarrow> link_complete_capture h receipt at')"

definition history_step :: "(str \<Rightarrow> str) \<Rightarrow> history \<Rightarrow> history_event \<Rightarrow> history" where
  "history_step sha h ev = (case history_operation sha h ev of Inl _ \<Rightarrow> h | Inr h' \<Rightarrow> h')"

lemma history_step_sound:
  assumes "sound_history sha h"
  shows "sound_history sha (history_step sha h ev) \<and> extends h (history_step sha h ev)"
proof (cases ev)
  case (Append e at')
  then show ?thesis using append_evidence_cases [OF assms, of e at'] assms by (auto simp: history_step_def history_operation_def)
next
  case (Link receipt at')
  show ?thesis
  proof (cases "link_complete_capture h receipt at'")
    case (Inr h')
    then have "sound_history sha h' = sound_history sha h" "extends h h'" using link_steps [OF Inr] by (simp_all add: sound_history_def)
    then show ?thesis using Inr assms by (simp add: Link history_step_def history_operation_def)
  qed (simp add: Link history_step_def history_operation_def assms)
qed

interpretation log_of: machine "history_step sha" "sound_history sha" for sha
  by unfold_locales (simp add: history_step_sound)

lemma run_sound: "sound_history sha (run (history_step sha) empty_history es)"
  by (rule log_of.run_inv) (rule sound_empty)

lemma run_extends: "sound_history sha h \<Longrightarrow> extends h (run (history_step sha) h es)"
  by (rule log_of.run_rel [OF _ reflp_extends transp_extends]) (simp_all add: history_step_sound)

text \<open>
  C31. A history only grows: whatever evidence is appended and whatever captures are linked, in whatever order and whether accepted or refused, every application keeps its
  identity and its observations, unchanged and in place, and every conflict and link stays.
\<close>
theorem history_only_grows:
  "extends (run (history_step sha) empty_history es) (run (history_step sha) empty_history (es @ fs))"
  using run_extends [OF run_sound] by simp

text \<open>
  Evidence is refused for its kind or its timestamp and for nothing else; in particular the closing check never fails on a history that the operations built.
\<close>
theorem evidence_refused_for_kind_or_time:
  "((\<exists>h. append_evidence sha (run (history_step sha) empty_history es) e observed_at = Inr h) = admissible e observed_at) \<and>
   append_evidence sha (run (history_step sha) empty_history es) e observed_at \<noteq> Inl (Denied ''HISTORY_NOT_APPEND_ONLY'')"
  using append_evidence_cases [OF run_sound, of sha es e observed_at] by auto

lemma append_again:
  assumes "sound_history sha h" "append_evidence sha h e at' = Inr h1" "extends h1 h2" "sound_history sha h2"
  shows "append_evidence sha h2 e at' = Inr h2"
proof -
  obtain stamp where stamp: "admissible e at'" "stamp_of e at' = Inr (Some stamp)" "utc_instant stamp \<noteq> None" "list_all (\<lambda>r. recorded sha e stamp r h1) (ev_records e)"
    using append_evidence_cases [OF assms(1), of e at'] assms(2) by auto
  then have "append_records sha e stamp (ev_records e) (h2, source_keys h2) = Inr (h2, source_keys h2)"
    using assms(3) by (intro append_records_recorded) (auto simp: list_all_iff intro: recorded_extends)
  moreover have "case ev_kind e of None \<Rightarrow> False | Some k \<Rightarrow> k \<in> set SOURCE_KINDS"
    using stamp(1) by (auto simp: admissible_def SOURCE_KINDS_def)
  moreover have "append_only h2 h2" by (rule extends_append_only [OF assms(4)]) simp_all
  ultimately show ?thesis
    using stamp(2,3) by (auto simp: append_evidence_def utc_def split: option.splits)
qed

lemma link_again:
  assumes "link_complete_capture h receipt at' = Inr h'"
  shows "link_complete_capture h' receipt at' = Inr h'"
proof -
  have apps: "hs_applications h' = hs_applications h" and all: "list_all (covered_by receipt (hs_links h')) (council_observations h (ev_council receipt))"
    using link_steps [OF assms] by simp_all
  have "link_all receipt (the at') (council_observations h (ev_council receipt)) (hs_links h', hs_conflicts h', map link_token (hs_links h')) =
      Inr (hs_links h', hs_conflicts h', map link_token (hs_links h'))"
    by (rule link_all_covered) (simp_all add: all links_in_step_def)
  moreover have "council_observations h' = council_observations h" by (simp add: council_observations_def apps fun_eq_iff)
  ultimately show ?thesis using assms by (auto simp: link_complete_capture_def split: sum.splits if_splits)
qed

text \<open>
  Operations can be repeated safely: evidence delivered again, however much later, changes nothing, and neither does linking a receipt a second time.
\<close>
theorem redelivery_changes_nothing:
  "run (history_step sha) empty_history (es @ [Append e at'] @ fs @ [Append e at']) = run (history_step sha) empty_history (es @ [Append e at'] @ fs) \<and>
   run (history_step sha) empty_history (es @ [Link receipt at'] @ [Link receipt at']) = run (history_step sha) empty_history (es @ [Link receipt at'])"
proof
  let ?h = "run (history_step sha) empty_history es"
  let ?h2 = "run (history_step sha) empty_history (es @ [Append e at'] @ fs)"
  have "history_step sha ?h2 (Append e at') = ?h2"
  proof (cases "append_evidence sha ?h e at'")
    case (Inl x)
    then have "\<not> admissible e at'" using append_evidence_cases [OF run_sound, of sha es e at'] by auto
    then show ?thesis using append_evidence_cases [OF run_sound, of sha "es @ [Append e at'] @ fs" e at']
      by (auto simp: history_step_def history_operation_def)
  next
    case (Inr h1)
    have "run (history_step sha) empty_history (es @ [Append e at']) = h1" using Inr by (simp add: history_step_def history_operation_def)
    then have "extends h1 ?h2" using run_extends [OF run_sound, of sha "es @ [Append e at']" fs] by simp
    then have "append_evidence sha ?h2 e at' = Inr ?h2" by (rule append_again [OF run_sound Inr _ run_sound])
    then show ?thesis unfolding history_step_def history_operation_def by (simp only: history_event.case sum.case)
  qed
  then show "run (history_step sha) empty_history (es @ [Append e at'] @ fs @ [Append e at']) = ?h2" by simp
  show "run (history_step sha) empty_history (es @ [Link receipt at'] @ [Link receipt at']) = run (history_step sha) empty_history (es @ [Link receipt at'])"
    using link_again [of ?h receipt at'] by (auto simp: history_step_def history_operation_def split: sum.splits)
qed

text \<open>
  When an application was first observed is read as the time, the evidence and the received date of one and the same observation, the earliest of all that were ever
  appended for it, in whatever order they were delivered; an application never observed has no such time.
\<close>
theorem first_observed_is_earliest:
  "case map_of (hs_applications (run (history_step sha) empty_history es)) (identity_key sha (council, reference)) of
     None \<Rightarrow> first_observed sha (run (history_step sha) empty_history es) council reference = Inr None
   | Some a \<Rightarrow> \<exists>o' \<in> set (ah_observations a).
       first_observed sha (run (history_step sha) empty_history es) council reference =
         Inr (Some \<lparr>fo_observed_at = Some (ob_observed_at o'), fo_observed_in = Some (ob_evidence_digest o'), fo_received = ob_received o'\<rparr>) \<and>
       list_all (\<lambda>p. timed p \<and> instant_of o' \<le> instant_of p) (ah_observations a)"
proof (cases "map_of (hs_applications (run (history_step sha) empty_history es)) (identity_key sha (council, reference))")
  case (Some a)
  then have a: "sound_app sha (identity_key sha (council, reference)) a" using run_sound by (simp add: sound_history_def)
  then obtain q where q: "earliest (ah_observations a) = Inr q" "ah_first_observed_at a = Some (ob_observed_at q)" "ah_first_observed_in a = Some (ob_evidence_digest q)"
      "list_all timed (ah_observations a)"
    by (auto simp: sound_app_def earliest_first_def)
  then show ?thesis using Some earliest_least [OF sound_nonempty [OF a] q(4)]
    by (auto simp: first_observed_def list_all_iff intro!: bexI [of _ q])
qed (simp add: first_observed_def)

end
