(* ===== verification/OpportunityFamilies.thy ===== *)
theory OpportunityFamilies
  imports SubjectIdentity BuyerFit
begin

text \<open>
  Opportunity families (app/reporting/opportunity_families.py): which existing subjects belong to one commercial planning context and which of them represents it for a
  buyer. A subject is checked when it is built, from its parts, from an opportunity id or from a feed card; grouping collapses repetitions, refuses contradictory
  input, orders the members of each family and the families. The texts of the errors are left out.
\<close>

section \<open>Subjects\<close>

datatype family_error = ConflictingLifecycleRepresentations | ConflictingSubjectInput | UnsupportedSubject | MixedIdentitySystems | IdentityError subject_error

datatype slot = SLOT_LIFECYCLE | SLOT_PHASE | SLOT_ALLOCATION | SLOT_RESIDUAL

datatype id_system = ID_SYSTEM_OPPORTUNITY | ID_SYSTEM_FEED

text \<open>\<open>source\<close> takes no part in comparisons and is not carried. Fits, slots, precisions and id systems are datatypes, so that the tests of membership are their types.\<close>

record family_subject =
  fs_domain :: str
  fs_anchor :: int
  fs_key :: str
  fs_slot :: slot
  fs_fit :: classification
  fs_investigative :: bool
  fs_precision :: "precision option"
  fs_system :: id_system

definition allowed_slots :: "str \<Rightarrow> slot list" where
  "allowed_slots domain = (if domain = STRATEGIC_LAND_ID then [SLOT_ALLOCATION] else [SLOT_LIFECYCLE, SLOT_PHASE, SLOT_RESIDUAL])"

definition check_family_subject :: "family_subject \<Rightarrow> family_error + family_subject" where
  "check_family_subject s =
    (if fs_domain s \<notin> {PLANNING_DELIVERY_ID, STRATEGIC_LAND_ID} then Inl UnsupportedSubject
     else if \<not> (1 \<le> fs_anchor s \<and> fs_anchor s \<le> MAX_ANCHOR_ID) then Inl UnsupportedSubject
     else if fs_key s = [] \<or> fs_key s \<noteq> strip (fs_key s) then Inl UnsupportedSubject
     else if fs_slot s \<notin> set (allowed_slots (fs_domain s)) then Inl UnsupportedSubject
     else Inr s)"

definition family_key :: "family_subject \<Rightarrow> str \<times> int" where
  "family_key s = (fs_domain s, fs_anchor s)"

section \<open>The order within a family\<close>

fun fit_rank :: "classification \<Rightarrow> bool \<Rightarrow> int" where
  "fit_rank STRONG_FIT invest = 0"
| "fit_rank POSSIBLE_FIT invest = 1"
| "fit_rank INSUFFICIENT_EVIDENCE invest = (if invest then 2 else 3)"
| "fit_rank NOT_SUITABLE invest = 4"

fun evidence_rank :: "precision option \<Rightarrow> int" where
  "evidence_rank (Some EXACT) = 0"
| "evidence_rank (Some APPROXIMATE) = 1"
| "evidence_rank (Some RANGE) = 1"
| "evidence_rank _ = 2"

definition subject_order_key :: "family_subject \<Rightarrow> int \<times> int \<times> str" where
  "subject_order_key s = (fit_rank (fs_fit s) (fs_investigative s), evidence_rank (fs_precision s), fs_key s)"

datatype family_role = ROLE_ALSO_STRONG_FIT | ROLE_ALSO_POSSIBLE_FIT | ROLE_INSUFFICIENT_INVESTIGATIVE | ROLE_INSUFFICIENT | ROLE_NOT_SUITABLE

definition role_of :: "family_subject \<Rightarrow> family_role" where
  "role_of s = (case fs_fit s of STRONG_FIT \<Rightarrow> ROLE_ALSO_STRONG_FIT | POSSIBLE_FIT \<Rightarrow> ROLE_ALSO_POSSIBLE_FIT
    | INSUFFICIENT_EVIDENCE \<Rightarrow> if fs_investigative s then ROLE_INSUFFICIENT_INVESTIGATIVE else ROLE_INSUFFICIENT | NOT_SUITABLE \<Rightarrow> ROLE_NOT_SUITABLE)"

record opportunity_family =
  of_key :: "str \<times> int"
  of_representative :: family_subject
  of_related :: "(family_subject \<times> family_role) list"

definition family_members :: "opportunity_family \<Rightarrow> family_subject list" where
  "family_members f = of_representative f # map fst (of_related f)"

definition family_fit :: "opportunity_family \<Rightarrow> classification" where
  "family_fit f = fs_fit (of_representative f)"

definition family_investigative :: "opportunity_family \<Rightarrow> bool" where
  "family_investigative f = fs_investigative (of_representative f)"

definition family_fit_rank :: "opportunity_family \<Rightarrow> int" where
  "family_fit_rank f = fit_rank (fs_fit (of_representative f)) (fs_investigative (of_representative f))"

definition is_terminally_excluded :: "opportunity_family \<Rightarrow> bool" where
  "is_terminally_excluded f = (fs_fit (of_representative f) = NOT_SUITABLE)"

datatype overlap = OVERLAP_SINGLE_SUBJECT | OVERLAP_MAY_OVERLAP

definition overlap_state :: "opportunity_family \<Rightarrow> overlap" where
  "overlap_state f = (if length (family_members f) = 1 then OVERLAP_SINGLE_SUBJECT else OVERLAP_MAY_OVERLAP)"

section \<open>Grouping\<close>

text \<open>The first loop: one id system, and one subject to a key. \<open>unique\<close> is the dictionary, \<open>system\<close> the set of systems seen, of at most one element.\<close>

fun unique_subjects :: "id_system option \<Rightarrow> (str \<times> family_subject) list \<Rightarrow> family_subject list \<Rightarrow> family_error + (str \<times> family_subject) list" where
  "unique_subjects system unique [] = Inr unique"
| "unique_subjects system unique (s # ss) =
    (if system \<noteq> None \<and> system \<noteq> Some (fs_system s) then Inl MixedIdentitySystems
     else (case map_of unique (fs_key s) of
         None \<Rightarrow> unique_subjects (Some (fs_system s)) (unique @ [(fs_key s, s)]) ss
       | Some e \<Rightarrow> if e \<noteq> s then Inl ConflictingSubjectInput else unique_subjects (Some (fs_system s)) unique ss))"

text \<open>\<open>setdefault(key, []).append(subject)\<close>\<close>

fun add_member :: "family_subject \<Rightarrow> ((str \<times> int) \<times> family_subject list) list \<Rightarrow> ((str \<times> int) \<times> family_subject list) list" where
  "add_member s [] = [(family_key s, [s])]"
| "add_member s ((k, ms) # fs) = (if k = family_key s then (k, ms @ [s]) # fs else (k, ms) # add_member s fs)"

definition by_family :: "family_subject list \<Rightarrow> ((str \<times> int) \<times> family_subject list) list" where
  "by_family subjects = foldl (\<lambda>fs s. add_member s fs) [] subjects"

definition build_family :: "(str \<times> int) \<times> family_subject list \<Rightarrow> family_error + opportunity_family" where
  "build_family g = (let key = fst g; members = snd g in
     if 1 < length (filter (\<lambda>m. fs_slot m = SLOT_LIFECYCLE) members) then Inl ConflictingLifecycleRepresentations
     else if fst key = STRATEGIC_LAND_ID \<and> 1 < length members then Inl ConflictingSubjectInput
     else let ordered = sort_key subject_order_key members in
       Inr \<lparr>of_key = key, of_representative = hd ordered, of_related = map (\<lambda>m. (m, role_of m)) (tl ordered)\<rparr>)"

fun build_families :: "((str \<times> int) \<times> family_subject list) list \<Rightarrow> family_error + opportunity_family list" where
  "build_families [] = Inr []"
| "build_families (g # gs) = (case build_family g of Inl e \<Rightarrow> Inl e
     | Inr f \<Rightarrow> (case build_families gs of Inl e \<Rightarrow> Inl e | Inr fs \<Rightarrow> Inr (f # fs)))"

definition family_order :: "opportunity_family \<Rightarrow> int \<times> str \<times> int" where
  "family_order f = (family_fit_rank f, of_key f)"

definition group_into_families :: "family_subject list \<Rightarrow> family_error + opportunity_family list" where
  "group_into_families subjects = (case unique_subjects None [] subjects of Inl e \<Rightarrow> Inl e
     | Inr unique \<Rightarrow> (case build_families (by_family (map snd unique)) of Inl e \<Rightarrow> Inl e
        | Inr families \<Rightarrow> Inr (sort_key family_order families)))"

section \<open>Adapters\<close>

definition subject_from_opportunity_id :: "str \<Rightarrow> classification \<Rightarrow> bool \<Rightarrow> precision option \<Rightarrow> family_error + family_subject" where
  "subject_from_opportunity_id oid fit investigative precision =
    (case parse_opportunity_id oid of Inl e \<Rightarrow> Inl (IdentityError e)
     | Inr p \<Rightarrow>
       if \<not> pi_is_legacy p then Inl UnsupportedSubject
       else if pi_domain p \<noteq> STRATEGIC_LAND_ID \<and> pi_kind p \<notin> set LIFECYCLE_KINDS \<and> pi_kind p \<noteq> ''phase'' then Inl UnsupportedSubject
       else check_family_subject \<lparr>fs_domain = pi_domain p, fs_anchor = pi_anchor p, fs_key = oid,
         fs_slot = (if pi_domain p = STRATEGIC_LAND_ID then SLOT_ALLOCATION else if pi_kind p \<in> set LIFECYCLE_KINDS then SLOT_LIFECYCLE else SLOT_PHASE),
         fs_fit = fit, fs_investigative = investigative, fs_precision = precision, fs_system = ID_SYSTEM_OPPORTUNITY\<rparr>)"

text \<open>The parts of a feed card that are read. A parameter is an integer, a text or something else (a bool, None).\<close>

datatype param = ParamInt int | ParamText str | ParamOther

record feed_card =
  fc_id :: "str option"
  fc_type :: "str option"
  fc_allocation_id :: param
  fc_site_id :: param
  fc_fit :: "(classification \<times> bool) option"
  fc_phase_code :: "str option"
  fc_residual_subject_id :: "str option"
  fc_precision :: "precision option"

definition after_prefix :: "str \<Rightarrow> str \<Rightarrow> str option" where
  "after_prefix p s = (if prefix p s then Some (drop (length p) s) else None)"

definition id_after :: "str \<Rightarrow> str \<Rightarrow> int option" where
  "id_after p s = (case after_prefix p (line_of s) of None \<Rightarrow> None | Some r \<Rightarrow> if canonical_digits r then Some (num_of r) else None)"

fun first_some :: "'a option list \<Rightarrow> 'a option" where
  "first_some [] = None"
| "first_some (v # vs) = (case v of None \<Rightarrow> first_some vs | Some _ \<Rightarrow> v)"

definition match_allocation :: "str \<Rightarrow> int option" where
  "match_allocation s = id_after ''opp-feed-alloc-'' s"

definition match_lifecycle :: "str \<Rightarrow> int option" where
  "match_lifecycle s = first_some [id_after ''opp-lapse-'' s, id_after ''opp-recent-permission-'' s, id_after ''opp-long-pending-'' s]"

text \<open>A number, a hyphen and the rest of the line.\<close>

definition id_and_rest :: "str \<Rightarrow> str \<Rightarrow> (int \<times> str) option" where
  "id_and_rest p s = (case after_prefix p (line_of s) of None \<Rightarrow> None
     | Some r \<Rightarrow> let n = takeWhile is_digit r; rest = dropWhile is_digit r in
        if canonical_digits n \<and> prefix ''-'' rest then Some (num_of n, tl rest) else None)"

definition match_phase :: "str \<Rightarrow> (int \<times> str) option" where
  "match_phase s = (case id_and_rest ''opp-phase-'' s of None \<Rightarrow> None | Some (n, code) \<Rightarrow> if code \<noteq> [] \<and> CHR 0x0A \<notin> set code then Some (n, code) else None)"

definition match_residual :: "str \<Rightarrow> (int \<times> str) option" where
  "match_residual s = (case id_and_rest ''opp-residual-'' s of None \<Rightarrow> None
     | Some (n, h) \<Rightarrow> if length h = 20 \<and> list_all (\<lambda>c. is_digit c \<or> CHR ''a'' \<le> c \<and> c \<le> CHR ''f'') h then Some (n, h) else None)"

definition as_id :: "param \<Rightarrow> int option" where
  "as_id v = (case v of ParamInt n \<Rightarrow> Some n | ParamText t \<Rightarrow> if canonical_digits (line_of t) then Some (num_of (line_of t)) else None | ParamOther \<Rightarrow> None)"

text \<open>\<open>s.rsplit(":", 1)[-1]\<close>\<close>

definition after_last_colon :: "str \<Rightarrow> str" where
  "after_last_colon s = rev (takeWhile (\<lambda>c. c \<noteq> CHR '':'') (rev s))"

definition card_subject :: "feed_card \<Rightarrow> str \<Rightarrow> str \<Rightarrow> slot \<Rightarrow> int \<Rightarrow> param \<Rightarrow> classification \<times> bool \<Rightarrow> family_error + family_subject" where
  "card_subject c card_id domain slot anchor own_id fit =
    (if as_id own_id \<noteq> Some anchor then Inl UnsupportedSubject
     else if fc_type c \<noteq> Some domain then Inl UnsupportedSubject
     else check_family_subject \<lparr>fs_domain = domain, fs_anchor = anchor, fs_key = card_id, fs_slot = slot, fs_fit = fst fit, fs_investigative = snd fit,
       fs_precision = fc_precision c, fs_system = ID_SYSTEM_FEED\<rparr>)"

definition subject_from_feed_card :: "feed_card \<Rightarrow> family_error + family_subject" where
  "subject_from_feed_card c = (case fc_id c of None \<Rightarrow> Inl UnsupportedSubject | Some card_id \<Rightarrow>
    (case fc_fit c of None \<Rightarrow> Inl UnsupportedSubject | Some fit \<Rightarrow>
    (case match_allocation card_id of
       Some n \<Rightarrow> card_subject c card_id STRATEGIC_LAND_ID SLOT_ALLOCATION n (fc_allocation_id c) fit
     | None \<Rightarrow> (case match_lifecycle card_id of
         Some n \<Rightarrow> card_subject c card_id PLANNING_DELIVERY_ID SLOT_LIFECYCLE n (fc_site_id c) fit
       | None \<Rightarrow> (case match_residual card_id of
           Some (n, h) \<Rightarrow> if after_last_colon (str_or (fc_residual_subject_id c) []) \<noteq> h then Inl UnsupportedSubject
             else card_subject c card_id PLANNING_DELIVERY_ID SLOT_RESIDUAL n (fc_site_id c) fit
         | None \<Rightarrow> (case match_phase card_id of
             Some (n, code) \<Rightarrow> if \<not> truthy (fc_phase_code c) then Inl UnsupportedSubject
               else if the (fc_phase_code c) \<noteq> code then Inl UnsupportedSubject
               else card_subject c card_id PLANNING_DELIVERY_ID SLOT_PHASE n (fc_site_id c) fit
           | None \<Rightarrow> Inl UnsupportedSubject))))))"

end
