(* ===== verification/FamilyProperties.thy ===== *)
theory FamilyProperties
  imports OpportunityFamilies
begin

text \<open>
  What grouping guarantees: which input it accepts, that the order of the input does not matter, and that the families partition the subjects, each represented by its
  best member.
\<close>

section \<open>The dictionary of subjects\<close>

definition keyed_by_key :: "(str \<times> family_subject) list \<Rightarrow> bool" where
  "keyed_by_key u = (map fst u = map (fs_key \<circ> snd) u \<and> distinct (map fst u))"

lemma keyed_snoc: "keyed_by_key u \<Longrightarrow> map_of u (fs_key s) = None \<Longrightarrow> keyed_by_key (u @ [(fs_key s, s)])"
  by (auto simp: keyed_by_key_def map_of_eq_None_iff)

lemma keyed_entry: "keyed_by_key u \<Longrightarrow> (k, s) \<in> set u \<Longrightarrow> k = fs_key s"
  by (auto simp: keyed_by_key_def list_eq_iff_nth_eq in_set_conv_nth)

lemma keyed_lookup: "keyed_by_key u \<Longrightarrow> (map_of u (fs_key s) = Some e) = (e \<in> snd ` set u \<and> fs_key e = fs_key s)"
  by (auto simp: keyed_by_key_def intro: rev_image_eqI dest: map_of_SomeD keyed_entry)

definition one_system :: "id_system option \<Rightarrow> family_subject set \<Rightarrow> bool" where
  "one_system system S = (\<exists>i. (system = None \<or> system = Some i) \<and> (\<forall>s\<in>S. fs_system s = i))"

lemma one_system_step:
  "(system = None \<or> system = Some (fs_system s)) \<and> one_system (Some (fs_system s)) S \<longleftrightarrow> one_system system (insert s S)"
  by (auto simp: one_system_def)

lemma keyed_inj: "keyed_by_key u \<Longrightarrow> inj_on fs_key (snd ` set u)"
  by (auto simp: inj_on_def) (metis keyed_lookup image_eqI option.inject snd_conv)

lemma unique_subjects_keeps:
  assumes "keyed_by_key u" "unique_subjects system u ss = Inr v"
  shows "keyed_by_key v \<and> snd ` set v = snd ` set u \<union> set ss"
  using assms
proof (induction system u ss rule: unique_subjects.induct)
  case (2 system u s ss)
  then show ?case
    by (auto split: if_splits option.splits simp: keyed_snoc keyed_lookup)
qed simp

lemma unique_subjects_iff:
  assumes "keyed_by_key u"
  shows "(\<exists>v. unique_subjects system u ss = Inr v) = (one_system system (set ss) \<and> inj_on fs_key (snd ` set u \<union> set ss))"
  using assms
proof (induction system u ss rule: unique_subjects.induct)
  case (1 system u)
  then show ?case by (auto simp: one_system_def keyed_inj)
next
  case (2 system u s ss)
  show ?case
  proof (cases "system \<noteq> None \<and> system \<noteq> Some (fs_system s)")
    case True
    then show ?thesis by (auto simp: one_system_def)
  next
    case match: False
    then have sys: "one_system (Some (fs_system s)) (set ss) = one_system system (set (s # ss))"
      using one_system_step [of system s "set ss"] by auto
    show ?thesis
    proof (cases "map_of u (fs_key s)")
      case None
      then have "unique_subjects system u (s # ss) = unique_subjects (Some (fs_system s)) (u @ [(fs_key s, s)]) ss"
        using match by auto
      then have "(\<exists>v. unique_subjects system u (s # ss) = Inr v) =
          (one_system (Some (fs_system s)) (set ss) \<and> inj_on fs_key (snd ` set (u @ [(fs_key s, s)]) \<union> set ss))"
        using 2(1) [OF match None] keyed_snoc [OF 2(3) None] by simp
      moreover have "snd ` set (u @ [(fs_key s, s)]) \<union> set ss = snd ` set u \<union> set (s # ss)" by auto
      ultimately show ?thesis using sys by simp
    next
      case (Some e)
      then have e: "e \<in> snd ` set u" "fs_key e = fs_key s" using keyed_lookup [OF 2(3)] by auto
      show ?thesis
      proof (cases "e = s")
        case True
        then have "snd ` set u \<union> set (s # ss) = snd ` set u \<union> set ss" using e by auto
        moreover have "unique_subjects system u (s # ss) = unique_subjects (Some (fs_system s)) u ss" using match Some True by auto
        ultimately show ?thesis using 2(2) [OF match Some] True 2(3) sys by simp
      next
        case False
        then have "\<not> inj_on fs_key (snd ` set u \<union> set (s # ss))" using e by (auto simp: inj_on_def)
        then show ?thesis using match Some False by simp
      qed
    qed
  qed
qed

section \<open>The groups\<close>

lemma add_member_keys: "set (map fst (add_member s gs)) = insert (family_key s) (set (map fst gs))"
  by (induction s gs rule: add_member.induct) auto

lemma add_member_distinct: "distinct (map fst gs) \<Longrightarrow> distinct (map fst (add_member s gs))"
  by (induction s gs rule: add_member.induct) (auto simp del: set_map simp: add_member_keys)

lemma add_member_lookup:
  "map_of (add_member s gs) k = (if k = family_key s then Some (case map_of gs k of None \<Rightarrow> [s] | Some ms \<Rightarrow> ms @ [s]) else map_of gs k)"
  by (induction s gs rule: add_member.induct) auto

lemma by_family_snoc: "by_family (ss @ [s]) = add_member s (by_family ss)"
  by (simp add: by_family_def)

lemma by_family_distinct: "distinct (map fst (by_family ss))"
  by (induction ss rule: rev_induct) (auto simp: by_family_snoc add_member_distinct by_family_def)

lemma by_family_lookup:
  "map_of (by_family ss) k = (if k \<in> family_key ` set ss then Some (filter (\<lambda>s. family_key s = k) ss) else None)"
proof (induction ss rule: rev_induct)
  case (snoc s ss)
  have "filter (\<lambda>s. family_key s = k) ss = []" if "k \<notin> family_key ` set ss"
    using that by (auto simp: filter_empty_conv)
  with snoc show ?case by (auto simp: by_family_snoc add_member_lookup)
qed (simp add: by_family_def)

lemma by_family_member:
  "((k, ms) \<in> set (by_family ss)) = (k \<in> family_key ` set ss \<and> ms = filter (\<lambda>s. family_key s = k) ss)"
  using by_family_distinct [of ss] by_family_lookup [of ss k] by (metis map_of_eq_Some_iff option.distinct(1) option.inject)

lemma set_by_family: "set (by_family ss) = (\<lambda>k. (k, filter (\<lambda>s. family_key s = k) ss)) ` family_key ` set ss"
  using by_family_member [of _ _ ss] by auto

lemma build_families_iff: "(build_families gs = Inr fs) = (list_all2 (\<lambda>g f. build_family g = Inr f) gs fs)"
proof (induction gs arbitrary: fs)
  case (Cons g gs)
  show ?case
  proof (cases "build_family g")
    case (Inr f)
    have "(build_families (g # gs) = Inr fs) = (\<exists>fs'. fs = f # fs' \<and> build_families gs = Inr fs')"
      using Inr by (auto split: sum.splits)
    then show ?thesis using Inr by (auto simp: Cons list_all2_Cons1)
  qed (simp add: list_all2_Cons1)
qed auto

lemma permuted_sort:
  assumes "distinct xs" "distinct ys" "set xs = set ys" "inj_on f (set xs)"
  shows "sort_key f xs = sort_key f ys"
  using assms by (intro sort_key_inj_key_eq) (simp_all add: set_eq_iff_mset_eq_distinct)

definition family_with :: "(str \<times> int) \<times> family_subject list \<Rightarrow> opportunity_family" where
  "family_with g = (let ordered = sort_key subject_order_key (snd g) in
     \<lparr>of_key = fst g, of_representative = hd ordered, of_related = map (\<lambda>m. (m, role_of m)) (tl ordered)\<rparr>)"

definition coherent_group :: "(str \<times> int) \<times> family_subject list \<Rightarrow> bool" where
  "coherent_group g = (length (filter (\<lambda>m. fs_slot m = SLOT_LIFECYCLE) (snd g)) \<le> 1 \<and> (fst (fst g) = STRATEGIC_LAND_ID \<longrightarrow> length (snd g) \<le> 1))"

lemma build_family_iff: "(build_family g = Inr f) = (coherent_group g \<and> f = family_with g)"
  by (auto simp: build_family_def coherent_group_def family_with_def Let_def)

lemma build_families_coherent: "(build_families gs = Inr fs) = (list_all coherent_group gs \<and> fs = map family_with gs)"
  unfolding build_families_iff build_family_iff by (auto simp: list_all2_conv_all_nth list_all_length intro: nth_equalityI)

definition groupable :: "family_subject list \<Rightarrow> bool" where
  "groupable xs = (one_system None (set xs) \<and> inj_on fs_key (set xs) \<and>
     (\<forall>key. card {s \<in> set xs. family_key s = key \<and> fs_slot s = SLOT_LIFECYCLE} \<le> 1) \<and>
     (\<forall>n. card {s \<in> set xs. family_key s = (STRATEGIC_LAND_ID, n)} \<le> 1))"

lemma ball_all: "(\<And>k. k \<notin> K \<Longrightarrow> Q k) \<Longrightarrow> (\<forall>k \<in> K. Q k) = (\<forall>k. Q k)"
  by blast

lemma coherent_groups:
  assumes "distinct us"
  shows "list_all coherent_group (by_family us) = ((\<forall>key. card {s \<in> set us. family_key s = key \<and> fs_slot s = SLOT_LIFECYCLE} \<le> 1) \<and>
     (\<forall>n. card {s \<in> set us. family_key s = (STRATEGIC_LAND_ID, n)} \<le> 1))"
proof -
  have len: "length (filter P us) = card {s \<in> set us. P s}" for P
    using assms distinct_card [of "filter P us"] by simp
  have trivial: "card {s \<in> set us. family_key s = key \<and> P s} \<le> 1" if "key \<notin> family_key ` set us" for key P
  proof -
    have "{s \<in> set us. family_key s = key \<and> P s} = {}" using that by auto
    then show ?thesis by (simp only: card.empty)
  qed
  have "list_all coherent_group (by_family us) = (\<forall>key \<in> family_key ` set us.
      card {s \<in> set us. family_key s = key \<and> fs_slot s = SLOT_LIFECYCLE} \<le> 1 \<and>
      (fst key = STRATEGIC_LAND_ID \<longrightarrow> card {s \<in> set us. family_key s = key} \<le> 1))"
    by (simp add: list_all_iff set_by_family coherent_group_def len conj_commute)
  also have "\<dots> = (\<forall>key. card {s \<in> set us. family_key s = key \<and> fs_slot s = SLOT_LIFECYCLE} \<le> 1 \<and>
      (fst key = STRATEGIC_LAND_ID \<longrightarrow> card {s \<in> set us. family_key s = key} \<le> 1))"
    using trivial [of _ "\<lambda>s. fs_slot s = SLOT_LIFECYCLE"] trivial [of _ "\<lambda>s. True"] by (intro ball_all) simp
  finally show ?thesis by (auto simp: all_conj_distrib)
qed

text \<open>The families depend only on the set of subjects.\<close>

lemma of_key_family_with [simp]: "of_key (family_with g) = fst g"
  by (simp add: family_with_def Let_def)

lemma distinct_family_keys: "distinct (map of_key (map family_with (by_family us)))"
  using by_family_distinct [of us] by (simp add: comp_def)

lemma order_key_inj: "inj_on fs_key S \<Longrightarrow> inj_on subject_order_key S"
  by (auto simp: inj_on_def subject_order_key_def)

lemma family_with_set_only:
  assumes "distinct us" "distinct vs" "set us = set vs" "inj_on fs_key (set us)"
  shows "family_with (k, filter (\<lambda>s. family_key s = k) us) = family_with (k, filter (\<lambda>s. family_key s = k) vs)"
proof -
  have "inj_on subject_order_key (set (filter (\<lambda>s. family_key s = k) us))"
    using assms(4) by (auto intro: order_key_inj inj_on_subset)
  then have "sort_key subject_order_key (filter (\<lambda>s. family_key s = k) us) = sort_key subject_order_key (filter (\<lambda>s. family_key s = k) vs)"
    using assms by (intro permuted_sort) auto
  then show ?thesis by (simp add: family_with_def)
qed

lemma set_families:
  "set (map family_with (by_family us)) = (\<lambda>k. family_with (k, filter (\<lambda>s. family_key s = k) us)) ` family_key ` set us"
  by (simp add: set_by_family image_comp comp_def)

lemma family_order_inj: "inj_on of_key S \<Longrightarrow> inj_on family_order S"
  by (auto simp: inj_on_def family_order_def)

lemma families_set_only:
  assumes "distinct us" "distinct vs" "set us = set vs" "inj_on fs_key (set us)"
  shows "sort_key family_order (map family_with (by_family us)) = sort_key family_order (map family_with (by_family vs))"
proof (rule permuted_sort)
  show "distinct (map family_with (by_family us))" "distinct (map family_with (by_family vs))"
    using distinct_family_keys by (simp_all only: distinct_map)
  show "set (map family_with (by_family us)) = set (map family_with (by_family vs))"
  proof -
    let ?F = "\<lambda>us k. family_with (k, filter (\<lambda>s. family_key s = k) us)"
    have "?F us ` family_key ` set us = ?F vs ` family_key ` set vs"
      by (rule image_cong) (simp_all only: assms(3), rule family_with_set_only [OF assms])
    then show ?thesis by (simp only: set_families)
  qed
  have "inj_on of_key (set (map family_with (by_family us)))"
    using distinct_family_keys [of us] by (simp only: distinct_map)
  then show "inj_on family_order (set (map family_with (by_family us)))"
    by (rule family_order_inj)
qed

lemma grouped_iff:
  "(group_into_families xs = Inr fs) =
    (groupable xs \<and> (\<exists>us. distinct us \<and> set us = set xs \<and> fs = sort_key family_order (map family_with (by_family us))))"
proof (cases "unique_subjects None [] xs")
  case (Inl e)
  then have "\<not> groupable xs"
    using unique_subjects_iff [of "[]" None xs] by (auto simp: keyed_by_key_def groupable_def)
  then show ?thesis using Inl by (simp add: group_into_families_def)
next
  case (Inr u)
  let ?us = "map snd u"
  have u: "keyed_by_key u" "set ?us = set xs" using unique_subjects_keeps [OF _ Inr] by (simp_all add: keyed_by_key_def)
  have ok: "one_system None (set xs)" "inj_on fs_key (set xs)"
    using unique_subjects_iff [of "[]" None xs] Inr by (simp_all add: keyed_by_key_def)
  have "distinct (map fs_key ?us)" using u(1) unfolding keyed_by_key_def by (metis map_map)
  then have us: "distinct ?us" by (simp only: distinct_map)
  have "(group_into_families xs = Inr fs) = (list_all coherent_group (by_family ?us) \<and> fs = sort_key family_order (map family_with (by_family ?us)))"
    using Inr by (auto simp: group_into_families_def build_families_coherent split: sum.splits)
      (metis build_families_coherent sum.distinct(1) sum.inject(2))+
  also have "list_all coherent_group (by_family ?us) = groupable xs"
    using coherent_groups [OF us] ok u(2) by (simp add: groupable_def)
  finally show ?thesis
    using families_set_only [OF us] u(2) ok(2) us by metis
qed

section \<open>The families\<close>

lemma family_with_members [simp]: "ms \<noteq> [] \<Longrightarrow> family_members (family_with (k, ms)) = sort_key subject_order_key ms"
  by (simp add: family_members_def family_with_def Let_def comp_def)
    (metis list.collapse mset_sort set_mset_mset mset_zero_iff)

lemma related_roles: "ms \<noteq> [] \<Longrightarrow> of_related (family_with (k, ms)) = map (\<lambda>m. (m, role_of m)) (tl (family_members (family_with (k, ms))))"
  by (simp add: family_members_def family_with_def Let_def comp_def)

lemma grouped_member:
  assumes "group_into_families xs = Inr fs" "f \<in> set fs"
  obtains us k ms where "distinct us" "set us = set xs" "f = family_with (k, ms)" "ms = filter (\<lambda>s. family_key s = k) us" "ms \<noteq> []"
proof -
  obtain us where us: "distinct us" "set us = set xs" "fs = sort_key family_order (map family_with (by_family us))"
    using assms(1) by (auto simp: grouped_iff)
  with assms(2) obtain k where k: "k \<in> family_key ` set us" "f = family_with (k, filter (\<lambda>s. family_key s = k) us)"
    by (auto simp: set_by_family)
  from k(1) have "filter (\<lambda>s. family_key s = k) us \<noteq> []" by (auto simp: filter_empty_conv)
  with that us k show ?thesis by blast
qed

lemma representative_first: "family_members f \<noteq> []" "of_representative f = hd (family_members f)"
  by (simp_all add: family_members_def)

lemma rank_worst: "fit_rank NOT_SUITABLE i \<le> fit_rank c j \<Longrightarrow> c = NOT_SUITABLE"
  by (cases c) (auto split: if_splits)

lemma order_key_rank: "subject_order_key a \<le> subject_order_key b \<Longrightarrow> fit_rank (fs_fit a) (fs_investigative a) \<le> fit_rank (fs_fit b) (fs_investigative b)"
  by (auto simp: subject_order_key_def less_eq_prod_def)

definition well_led :: "opportunity_family \<Rightarrow> bool" where
  "well_led f = (list_all (\<lambda>m. family_key m = of_key f \<and> subject_order_key (of_representative f) \<le> subject_order_key m) (family_members f) \<and>
     sorted (map subject_order_key (family_members f)) \<and> of_related f = map (\<lambda>m. (m, role_of m)) (tl (family_members f)) \<and>
     is_terminally_excluded f = list_all (\<lambda>m. fs_fit m = NOT_SUITABLE) (family_members f))"

lemma hd_least: "sorted (map g ms) \<Longrightarrow> m \<in> set ms \<Longrightarrow> g (hd ms) \<le> g m"
  by (cases ms) auto

lemma well_led_with:
  assumes "ms \<noteq> []" "list_all (\<lambda>m. family_key m = k) ms"
  shows "well_led (family_with (k, ms))"
proof -
  let ?f = "family_with (k, ms)"
  have members: "family_members ?f = sort_key subject_order_key ms" using assms(1) by simp
  then have least: "subject_order_key (of_representative ?f) \<le> subject_order_key m" if "m \<in> set (family_members ?f)" for m
    unfolding representative_first(2) using that by (intro hd_least) simp_all
  have worst: "fs_fit m = NOT_SUITABLE" if "m \<in> set (family_members ?f)" "is_terminally_excluded ?f" for m
    using order_key_rank [OF least [OF that(1)]] that(2) rank_worst by (auto simp: is_terminally_excluded_def)
  have "of_representative ?f \<in> set (family_members ?f)" by (simp add: family_members_def)
  then have "is_terminally_excluded ?f = list_all (\<lambda>m. fs_fit m = NOT_SUITABLE) (family_members ?f)"
    using worst by (auto simp: list_all_iff is_terminally_excluded_def)
  then show ?thesis
    using least related_roles [OF assms(1)] assms(2) by (simp add: well_led_def list_all_iff members)
qed

lemma grouped_well_led: "group_into_families xs = Inr fs \<Longrightarrow> f \<in> set fs \<Longrightarrow> well_led f"
  by (erule (1) grouped_member) (auto intro!: well_led_with simp: list_all_iff)

lemma grouped_distinct: "group_into_families xs = Inr fs \<Longrightarrow> f \<in> set fs \<Longrightarrow> distinct (family_members f)"
  by (erule (1) grouped_member) auto

lemma grouped_keys:
  assumes "group_into_families xs = Inr fs"
  shows "distinct (map of_key fs)"
proof -
  obtain us where us: "fs = sort_key family_order (map family_with (by_family us))"
    using assms by (auto simp: grouped_iff)
  show ?thesis
    using distinct_family_keys [of us] unfolding us by (simp only: distinct_map distinct_sort set_sort simp_thms)
qed

lemma grouped_members:
  assumes "group_into_families xs = Inr fs"
  shows "set (concat (map family_members fs)) = set xs"
proof -
  obtain us where us: "set us = set xs" "fs = sort_key family_order (map family_with (by_family us))"
    using assms by (auto simp: grouped_iff)
  have ne: "filter (\<lambda>s. family_key s = k) us \<noteq> []" if "k \<in> family_key ` set us" for k
    using that by (auto simp: filter_empty_conv)
  have "set (concat (map family_members fs)) = (\<Union>k \<in> family_key ` set us. set (filter (\<lambda>s. family_key s = k) us))"
    unfolding us(2) using ne by (simp add: set_by_family)
  also have "\<dots> = set us" by auto
  finally show ?thesis by (simp add: us(1))
qed

lemma grouped_partition:
  assumes "group_into_families xs = Inr fs"
  shows "distinct (concat (map family_members fs))"
proof -
  have same: "f = g" if "f \<in> set fs" "g \<in> set fs" "m \<in> set (family_members f)" "m \<in> set (family_members g)" for f g m
  proof -
    have "of_key f = of_key g"
      using grouped_well_led [OF assms that(1)] grouped_well_led [OF assms that(2)] that(3,4) by (auto simp: well_led_def list_all_iff)
    then show ?thesis
      using grouped_keys [OF assms] that(1,2) by (auto simp: distinct_map inj_on_def)
  qed
  have "inj_on family_members (set fs)"
    by (rule inj_onI) (metis same representative_first(1) hd_in_set)
  then have "distinct (map family_members fs)"
    using grouped_keys [OF assms] by (simp add: distinct_map)
  then show ?thesis
    by (rule distinct_concat) (use grouped_distinct [OF assms] same in fastforce)+
qed

section \<open>The properties\<close>

text \<open>
  C32. Grouping accepts exactly the input of one id system in which a key names one subject, a site has one lifecycle representation at most and an allocation one
  subject at most; anything else is refused, never grouped by a guess.
\<close>
theorem grouping_accepts_exactly:
  "(\<exists>fs. group_into_families subjects = Inr fs) = groupable subjects"
proof
  assume "\<exists>fs. group_into_families subjects = Inr fs"
  then show "groupable subjects" by (auto simp: grouped_iff)
next
  assume ok: "groupable subjects"
  obtain us where "set us = set subjects" "distinct us" using finite_distinct_list [of "set subjects"] by auto
  with ok have "group_into_families subjects = Inr (sort_key family_order (map family_with (by_family us)))"
    unfolding grouped_iff by blast
  then show "\<exists>fs. group_into_families subjects = Inr fs" ..
qed

text \<open>
  Families partition the subjects: every subject supplied is in one family, once, and in the family of its site or allocation. Each family is represented by the
  best of its members, keeps the others in order under their roles, and is terminally excluded exactly when every member is not suitable; families come best first.
\<close>
theorem families_partition_subjects:
  assumes "group_into_families subjects = Inr families"
  shows "set (concat (map family_members families)) = set subjects \<and> distinct (concat (map family_members families)) \<and>
    distinct (map of_key families) \<and> sorted (map family_order families) \<and> list_all well_led families"
proof -
  have "sorted (map family_order families)" using assms by (auto simp: grouped_iff)
  then show ?thesis
    using grouped_members [OF assms] grouped_partition [OF assms] grouped_keys [OF assms] grouped_well_led [OF assms]
    by (simp add: list_all_iff)
qed

text \<open>
  The order and the repetition of the input do not matter: the same subjects give the same families, or are refused both times.
\<close>
theorem grouping_ignores_order:
  assumes "set subjects = set others"
  shows "(group_into_families subjects = Inr families) = (group_into_families others = Inr families)"
  using assms by (simp add: grouped_iff groupable_def)

definition site_subject :: "str \<Rightarrow> slot \<Rightarrow> classification \<Rightarrow> family_subject" where
  "site_subject key sl fit = \<lparr>fs_domain = PLANNING_DELIVERY_ID, fs_anchor = 61, fs_key = key, fs_slot = sl, fs_fit = fit, fs_investigative = False,
     fs_precision = Some EXACT, fs_system = ID_SYSTEM_OPPORTUNITY\<rparr>"

definition site_subjects :: "family_subject list" where
  "site_subjects = [site_subject ''planning_delivery:site:61'' SLOT_LIFECYCLE NOT_SUITABLE, site_subject ''planning_delivery:phase:61:A'' SLOT_PHASE STRONG_FIT]"

definition site_family :: opportunity_family where
  "site_family = \<lparr>of_key = (PLANNING_DELIVERY_ID, 61), of_representative = site_subject ''planning_delivery:phase:61:A'' SLOT_PHASE STRONG_FIT,
     of_related = [(site_subject ''planning_delivery:site:61'' SLOT_LIFECYCLE NOT_SUITABLE, ROLE_NOT_SUITABLE)]\<rparr>"

lemma site_grouped: "group_into_families site_subjects = Inr [site_family]"
  by code_simp

theorem families_partition_subjects_witness:
  "set (concat (map family_members [site_family])) = set site_subjects \<and> well_led site_family"
  using families_partition_subjects [OF site_grouped] by simp

theorem grouping_ignores_order_witness:
  "group_into_families (rev site_subjects @ site_subjects) = Inr [site_family]"
  using grouping_ignores_order [of site_subjects "rev site_subjects @ site_subjects" "[site_family]"] site_grouped by simp

section \<open>Adapters\<close>

text \<open>Every subject that an adapter builds has been checked.\<close>

definition valid_subject :: "family_subject \<Rightarrow> bool" where
  "valid_subject s = (check_family_subject s = Inr s)"

lemma checked_valid: "check_family_subject s = Inr t \<Longrightarrow> t = s \<and> valid_subject t"
  by (auto simp: valid_subject_def check_family_subject_def split: if_splits)

lemma subject_from_opportunity_id_valid:
  assumes "subject_from_opportunity_id oid fit inv' p = Inr s"
  shows "valid_subject s" "fs_key s = oid" "fs_fit s = fit" "fs_system s = ID_SYSTEM_OPPORTUNITY"
  using assms by (auto simp: subject_from_opportunity_id_def split: sum.splits if_splits dest!: checked_valid)

lemma card_subject_valid:
  assumes "card_subject c card_id domain sl anchor own fit = Inr s"
  shows "valid_subject s \<and> fs_key s = card_id \<and> family_key s = (domain, anchor) \<and> as_id own = Some anchor \<and> fc_type c = Some domain \<and> fs_system s = ID_SYSTEM_FEED"
  using assms by (auto simp: card_subject_def family_key_def split: if_splits dest!: checked_valid)

lemma trimmed_line:
  assumes "k = strip k"
  shows "line_of k = k"
proof (cases "k = []")
  case False
  let ?r = "dropWhile is_space (rev (dropWhile is_space k))"
  have "?r \<noteq> []" using False assms unfolding strip_def by (metis rev.simps(1))
  then have "\<not> is_space (hd ?r)" by (rule hd_dropWhile)
  moreover have "last k = hd ?r" using assms \<open>?r \<noteq> []\<close> by (metis strip_def last_rev)
  ultimately have "last k \<noteq> CHR 0x0A" by (auto simp: is_space_def)
  then show ?thesis by (simp add: line_of_def)
qed (simp add: line_of_def)

lemma id_after_text: "id_after p k = Some n \<Longrightarrow> line_of k = p @ int_str n"
  by (auto simp: id_after_def after_prefix_def prefix_def int_str_num_of split: option.splits if_splits)

lemma id_and_rest_text:
  assumes "id_and_rest p k = Some (n, r)"
  shows "line_of k = p @ int_str n @ ''-'' @ r"
proof -
  obtain t where t: "line_of k = p @ t" "canonical_digits (takeWhile is_digit t)" "prefix ''-'' (dropWhile is_digit t)"
      "n = num_of (takeWhile is_digit t)" "r = tl (dropWhile is_digit t)"
    using assms by (auto simp: id_and_rest_def after_prefix_def prefix_def Let_def split: option.splits if_splits)
  have "t = takeWhile is_digit t @ dropWhile is_digit t" by simp
  also have "dropWhile is_digit t = ''-'' @ r" using t(3,5) by (auto simp: prefix_def)
  also have "takeWhile is_digit t = int_str n" using t(2,4) by (simp add: int_str_num_of)
  finally show ?thesis using t(1) by simp
qed

definition card_text :: "feed_card \<Rightarrow> family_subject \<Rightarrow> bool" where
  "card_text c s = (case fs_slot s of
      SLOT_ALLOCATION \<Rightarrow> fs_key s = ''opp-feed-alloc-'' @ int_str (fs_anchor s)
    | SLOT_LIFECYCLE \<Rightarrow> list_ex (\<lambda>p. fs_key s = p @ int_str (fs_anchor s)) [''opp-lapse-'', ''opp-recent-permission-'', ''opp-long-pending-'']
    | SLOT_PHASE \<Rightarrow> truthy (fc_phase_code c) \<and> fs_key s = ''opp-phase-'' @ int_str (fs_anchor s) @ ''-'' @ the (fc_phase_code c)
    | SLOT_RESIDUAL \<Rightarrow> fs_key s = ''opp-residual-'' @ int_str (fs_anchor s) @ ''-'' @ after_last_colon (str_or (fc_residual_subject_id c) []))"

definition card_agrees :: "feed_card \<Rightarrow> family_subject \<Rightarrow> bool" where
  "card_agrees c s = (fc_id c = Some (fs_key s) \<and> fc_type c = Some (fs_domain s) \<and> fs_system s = ID_SYSTEM_FEED \<and>
     fc_fit c = Some (fs_fit s, fs_investigative s) \<and> fs_precision s = fc_precision c \<and>
     as_id (if fs_slot s = SLOT_ALLOCATION then fc_allocation_id c else fc_site_id c) = Some (fs_anchor s))"

lemma card_subject_built:
  assumes "card_subject c card_id domain sl anchor own fit = Inr s"
  shows "valid_subject s" "fs_key s = card_id" "fs_domain s = domain" "fs_anchor s = anchor" "fs_slot s = sl" "as_id own = Some anchor"
    "fc_type c = Some domain" "fs_system s = ID_SYSTEM_FEED" "(fs_fit s, fs_investigative s) = fit" "fs_precision s = fc_precision c" "line_of card_id = card_id"
proof -
  have "card_id = strip card_id" using assms by (auto simp: card_subject_def check_family_subject_def split: if_splits)
  then show "line_of card_id = card_id" by (rule trimmed_line)
qed (use assms in \<open>auto simp: card_subject_def split: if_splits dest!: checked_valid\<close>)

lemma match_lifecycle_text: "match_lifecycle k = Some n \<Longrightarrow>
   list_ex (\<lambda>p. line_of k = p @ int_str n) [''opp-lapse-'', ''opp-recent-permission-'', ''opp-long-pending-'']"
  by (auto simp: match_lifecycle_def dest!: id_after_text split: option.splits)

text \<open>
  A feed card becomes a subject only where everything on it agrees: the subject is valid, its key is the card's id, and that id is exactly the text of its slot
  for the site or allocation the card's parameters name, with the phase code or residual identity the card carries.
\<close>
theorem card_subject_agrees:
  assumes "subject_from_feed_card c = Inr s"
  shows "valid_subject s \<and> card_agrees c s \<and> card_text c s"
proof -
  obtain k fit where k: "fc_id c = Some k" "fc_fit c = Some fit"
    using assms by (auto simp: subject_from_feed_card_def split: option.splits)
  consider
      (allocation) n where "match_allocation k = Some n" "card_subject c k STRATEGIC_LAND_ID SLOT_ALLOCATION n (fc_allocation_id c) fit = Inr s"
    | (lifecycle) n where "match_lifecycle k = Some n" "card_subject c k PLANNING_DELIVERY_ID SLOT_LIFECYCLE n (fc_site_id c) fit = Inr s"
    | (residual) n h where "match_residual k = Some (n, h)" "after_last_colon (str_or (fc_residual_subject_id c) []) = h"
        "card_subject c k PLANNING_DELIVERY_ID SLOT_RESIDUAL n (fc_site_id c) fit = Inr s"
    | (phase) n code where "match_phase k = Some (n, code)" "truthy (fc_phase_code c)" "the (fc_phase_code c) = code"
        "card_subject c k PLANNING_DELIVERY_ID SLOT_PHASE n (fc_site_id c) fit = Inr s"
    using assms k by (auto simp: subject_from_feed_card_def split: option.splits if_splits)
  then show ?thesis
  proof cases
    case allocation
    from card_subject_built [OF this(2)] id_after_text [OF this(1) [unfolded match_allocation_def]] k show ?thesis
      by (simp add: card_agrees_def card_text_def)
  next
    case lifecycle
    from card_subject_built [OF this(2)] match_lifecycle_text [OF this(1)] k show ?thesis
      by (simp add: card_agrees_def card_text_def)
  next
    case residual
    then have "id_and_rest ''opp-residual-'' k = Some (n, h)" by (auto simp: match_residual_def split: option.splits if_splits)
    from card_subject_built [OF residual(3)] id_and_rest_text [OF this] residual(2) k show ?thesis
      by (simp add: card_agrees_def card_text_def)
  next
    case phase
    then have "id_and_rest ''opp-phase-'' k = Some (n, code)" by (auto simp: match_phase_def split: option.splits if_splits)
    from card_subject_built [OF phase(4)] id_and_rest_text [OF this] phase(2,3) k show ?thesis
      by (simp add: card_agrees_def card_text_def)
  qed
qed

definition phase_card :: feed_card where
  "phase_card = \<lparr>fc_id = Some ''opp-phase-61-Phase 2'', fc_type = Some ''planning_delivery'', fc_allocation_id = ParamOther, fc_site_id = ParamText ''61'',
     fc_fit = Some (STRONG_FIT, False), fc_phase_code = Some ''Phase 2'', fc_residual_subject_id = None, fc_precision = Some RANGE\<rparr>"

theorem card_subject_agrees_witness:
  "\<exists>s. subject_from_feed_card phase_card = Inr s \<and> valid_subject s \<and> card_text phase_card s"
proof -
  have "\<not> isl (subject_from_feed_card phase_card)" by code_simp
  then obtain s where "subject_from_feed_card phase_card = Inr s" by (metis sum.collapse(2))
  then show ?thesis using card_subject_agrees by blast
qed

end
