(* ===== verification/PlanLifecycle.thy ===== *)
theory PlanLifecycle
  imports PlanningState
begin

text \<open>
  The life of a Local Plan and of its allocations: app/policy/status.py, progression.py, change_detection.py, plan_identity.py and report_cadence.py. A council's
  wording becomes a status, two statuses a progression signal; two versions of a plan become events, of which some may be applied without review; names tell a plan
  from its siblings; and a source is checked again after a number of days.
\<close>

section \<open>Statuses\<close>

definition PLAN_STATUS_KEYWORDS :: "(str \<times> str) list" where
  "PLAN_STATUS_KEYWORDS = [(''withdrawn'', ''withdrawn''), (''superseded'', ''superseded''), (''suspend'', ''paused''), (''paused'', ''paused''),
     (''on hold'', ''paused''), (''adopted'', ''adopted''), (''adoption'', ''adopted''), (''inspector'', ''inspector_report''),
     (''main modification'', ''main_modifications''), (''examination'', ''examination''), (''proposed submission'', ''proposed_submission''),
     (''regulation 19'', ''proposed_submission''), (''reg 19'', ''proposed_submission''), (''publication'', ''proposed_submission''),
     (''submitted'', ''submitted''), (''submission'', ''submitted''), (''preferred option'', ''preferred_options''), (''draft'', ''draft_consultation''),
     (''regulation 18'', ''issues_and_options''), (''reg 18'', ''issues_and_options''), (''issues and options'', ''issues_and_options''),
     (''early consultation'', ''early_consultation''), (''early engagement'', ''early_consultation''), (''scoping'', ''preparation''),
     (''preparation'', ''preparation'')]"

definition ALLOCATION_STATUS_KEYWORDS :: "(str \<times> str) list" where
  "ALLOCATION_STATUS_KEYWORDS = [(''removed'', ''removed''), (''reject'', ''rejected''), (''superseded'', ''superseded''), (''safeguard'', ''safeguarded''),
     (''adopted'', ''adopted_allocation''), (''modification'', ''modification_proposed''), (''proposed submission'', ''proposed_submission_allocation''),
     (''submitted'', ''submitted_allocation''), (''submission'', ''submitted_allocation''), (''draft'', ''draft_allocation''),
     (''preferred option'', ''preferred_option''), (''reasonable alternative'', ''reasonable_alternative''),
     (''under consideration'', ''under_consideration''), (''call for sites'', ''call_for_sites'')]"

definition PLAN_STATUSES :: "str list" where
  "PLAN_STATUSES = [''preparation'', ''early_consultation'', ''issues_and_options'', ''draft_consultation'', ''preferred_options'', ''proposed_submission'',
     ''submitted'', ''examination'', ''main_modifications'', ''inspector_report'', ''adopted'', ''paused'', ''withdrawn'', ''superseded'', ''unknown'']"

definition ALLOCATION_STATUSES :: "str list" where
  "ALLOCATION_STATUSES = [''call_for_sites'', ''under_consideration'', ''reasonable_alternative'', ''preferred_option'', ''draft_allocation'',
     ''proposed_submission_allocation'', ''submitted_allocation'', ''modification_proposed'', ''adopted_allocation'', ''removed'', ''rejected'',
     ''safeguarded'', ''superseded'', ''unknown'']"

fun first_keyword :: "(str \<times> str) list \<Rightarrow> str \<Rightarrow> str option" where
  "first_keyword [] s = None"
| "first_keyword ((k, v) # ks) s = (if contains k s then Some v else first_keyword ks s)"

definition normalise_with :: "(str \<times> str) list \<Rightarrow> str option \<Rightarrow> str" where
  "normalise_with keywords raw = (let t = strip (str_or raw []) in if t = [] then ''unknown'' else opt_or (first_keyword keywords (lower t)) ''unknown'')"

definition normalise_plan_status :: "str option \<Rightarrow> str" where
  "normalise_plan_status raw = normalise_with PLAN_STATUS_KEYWORDS raw"

definition normalise_allocation_status :: "str option \<Rightarrow> str" where
  "normalise_allocation_status raw = normalise_with ALLOCATION_STATUS_KEYWORDS raw"

definition opt_repr :: "str option \<Rightarrow> str" where
  "opt_repr v = (case v of None \<Rightarrow> ''None'' | Some s \<Rightarrow> py_repr s)"

definition derive_allocation_status_from_plan_status :: "str option \<Rightarrow> str \<times> str" where
  "derive_allocation_status_from_plan_status raw =
    (let s = normalise_plan_status raw; derived = ''derived from legacy plan_status='' @ opt_repr raw in
     if s = ''adopted'' then (''submitted_allocation'', derived @ '' (plan adopted, allocation status not independently confirmed)'')
     else if s \<in> {''examination'', ''main_modifications'', ''inspector_report'', ''submitted'', ''proposed_submission''}
       then (''proposed_submission_allocation'', derived)
     else (''draft_allocation'', derived))"

section \<open>Progression\<close>

definition EARLY_PLAN_STAGES :: "str list" where
  "EARLY_PLAN_STAGES = [''preparation'', ''early_consultation'', ''issues_and_options'', ''draft_consultation'', ''preferred_options'']"

definition EARLY_ALLOCATION_STATUSES :: "str list" where
  "EARLY_ALLOCATION_STATUSES = [''call_for_sites'', ''under_consideration'', ''reasonable_alternative'', ''preferred_option'']"

definition PROGRESSING_PLAN_STAGES :: "str list" where
  "PROGRESSING_PLAN_STAGES = [''proposed_submission'', ''submitted'']"

definition PROGRESSING_ALLOCATION_STATUSES :: "str list" where
  "PROGRESSING_ALLOCATION_STATUSES = [''draft_allocation'', ''proposed_submission_allocation'']"

definition ADVANCED_PLAN_STAGES :: "str list" where
  "ADVANCED_PLAN_STAGES = [''examination'', ''main_modifications'', ''inspector_report'']"

definition ADVANCED_ALLOCATION_STATUSES :: "str list" where
  "ADVANCED_ALLOCATION_STATUSES = [''submitted_allocation'', ''modification_proposed'']"

definition stage_reasons :: "str list \<Rightarrow> str list \<Rightarrow> str \<Rightarrow> str \<Rightarrow> str list" where
  "stage_reasons stages statuses p a =
    (if p \<in> set stages then [''Local Plan stage is '' @ [CHR 0x27] @ p @ [CHR 0x27] @ ''.''] else []) @
    (if a \<in> set statuses then [''Allocation status is '' @ [CHR 0x27] @ a @ [CHR 0x27] @ ''.''] else [])"

definition stage_signal :: "str \<Rightarrow> str \<Rightarrow> str \<times> str list" where
  "stage_signal p a =
    (let advanced = stage_reasons ADVANCED_PLAN_STAGES ADVANCED_ALLOCATION_STATUSES p a;
         progressing = stage_reasons PROGRESSING_PLAN_STAGES PROGRESSING_ALLOCATION_STATUSES p a;
         early = stage_reasons EARLY_PLAN_STAGES EARLY_ALLOCATION_STATUSES p a in
     if advanced \<noteq> [] then (''advanced'', advanced)
     else if progressing \<noteq> [] then (''progressing'', progressing)
     else if early \<noteq> [] then (''early_stage'', early)
     else (''unknown'', [''Local Plan stage ('' @ [CHR 0x27] @ p @ [CHR 0x27] @ '') and allocation status ('' @ [CHR 0x27] @ a @ [CHR 0x27] @
       '') don'' @ [CHR 0x27] @ ''t map to a known progression stage - insufficient data to classify.'']))"

definition classify_progression :: "str option \<Rightarrow> str option \<Rightarrow> date option \<Rightarrow> date \<Rightarrow> bool \<Rightarrow> str \<times> str list" where
  "classify_progression plan_status allocation_status expected today present =
    (let p = str_or plan_status ''unknown''; a = str_or allocation_status ''unknown'' in
     if \<not> present then (''removed'', [''Not present in the latest published version of the Local Plan.''])
     else if a \<in> {''removed'', ''rejected''} then (''removed'', [''Allocation status is '' @ [CHR 0x27] @ a @ [CHR 0x27] @ ''.''])
     else if a = ''superseded'' \<or> p = ''superseded'' then (''removed'', [''Superseded by a later Local Plan or allocation.''])
     else if p = ''withdrawn'' then (''stalled'', [''The Local Plan has been withdrawn.''])
     else if p = ''paused'' then (''stalled'', [''The Local Plan has been paused.''])
     else if (case expected of None \<Rightarrow> False | Some e \<Rightarrow> toordinal e < toordinal today) \<and> p \<noteq> ''adopted'' then (''stalled'',
       [''Expected adoption date ('' @ iso_text (the expected) @ '') has passed without the Local Plan being adopted.''])
     else if p = ''adopted'' \<and> a = ''adopted_allocation'' then (''adopted'',
       [''The Local Plan is adopted and this allocation is confirmed adopted within it.''])
     else if p = ''adopted'' then (''unknown'',
       [''The Local Plan is adopted but this allocation'' @ [CHR 0x27] @ ''s own status has not been independently confirmed as adopted - not the same as the allocation itself being adopted.''])
     else stage_signal p a)"

section \<open>Changes\<close>

record policy_change =
  ce_reference :: "str option"
  ce_type :: str
  ce_old :: "str option"
  ce_new :: "str option"
  ce_detail :: str

definition AUTO_APPLY_EVENT_TYPES :: "str list" where
  "AUTO_APPLY_EVENT_TYPES = [''new_allocation'', ''allocation_retained'', ''report_discovered'']"

text \<open>\<open>" ".join(text.split())\<close>, then SHA-256, which is a parameter.\<close>

definition compute_content_hash :: "(str \<Rightarrow> str) \<Rightarrow> str option \<Rightarrow> str" where
  "compute_content_hash sha text = sha (join '' '' (split_words (str_or text [])))"

definition classify_source_check :: "str option \<Rightarrow> str \<Rightarrow> str" where
  "classify_source_check previous new = (case previous of None \<Rightarrow> ''first_check'' | Some p \<Rightarrow> if p \<noteq> new then ''changed'' else ''unchanged'')"

record plan_record =
  pl_version :: "str option"
  pl_status :: "str option"

definition diff_plan :: "plan_record option \<Rightarrow> plan_record \<Rightarrow> policy_change list" where
  "diff_plan old new = (case old of
      None \<Rightarrow> [\<lparr>ce_reference = None, ce_type = ''new_plan_version'', ce_old = None, ce_new = pl_version new,
        ce_detail = ''First time this Local Plan has been recorded.''\<rparr>]
    | Some old \<Rightarrow>
      (if pl_version old \<noteq> pl_version new then [\<lparr>ce_reference = None, ce_type = ''new_plan_version'', ce_old = pl_version old, ce_new = pl_version new,
         ce_detail = ''Plan version changed.''\<rparr>] else []) @
      (if pl_status old \<noteq> pl_status new then
         (let (t, d) = (if pl_status new = Some ''adopted'' then (''adoption'', ''Local Plan adopted.'')
            else if pl_status new = Some ''withdrawn'' then (''withdrawal'', ''Local Plan withdrawn.'')
            else (''stage_change'', ''Local Plan stage changed.'')) in
          [\<lparr>ce_reference = None, ce_type = t, ce_old = pl_status old, ce_new = pl_status new, ce_detail = d\<rparr>]) else []))"

record allocation_row =
  al_reference :: str
  al_minimum :: "int option"
  al_indicative :: "int option"
  al_maximum :: "int option"
  al_status :: "str option"

definition capacities :: "allocation_row \<Rightarrow> (str \<times> int option) list" where
  "capacities r = [(''minimum_dwellings'', al_minimum r), (''indicative_capacity'', al_indicative r), (''maximum_capacity'', al_maximum r)]"

definition capacities_text :: "allocation_row \<Rightarrow> str" where
  "capacities_text r = ''{'' @ join '', '' (map (\<lambda>(f, v). py_repr f @ '': '' @ opt_int_str v) (capacities r)) @ ''}''"

text \<open>A dictionary comprehension: the last row of a reference wins, in the place of the first.\<close>

definition by_reference :: "allocation_row list \<Rightarrow> (str \<times> allocation_row) list" where
  "by_reference rows = foldl (\<lambda>m r. AList.update (al_reference r) r m) [] rows"

definition compare_allocation :: "str \<Rightarrow> allocation_row \<Rightarrow> allocation_row \<Rightarrow> policy_change list" where
  "compare_allocation ref old new =
    (let cap = capacities old \<noteq> capacities new; st = al_status old \<noteq> al_status new in
     (if cap then [\<lparr>ce_reference = Some ref, ce_type = ''capacity_changed'', ce_old = Some (capacities_text old), ce_new = Some (capacities_text new),
        ce_detail = ''Capacity figures for '' @ ref @ '' changed.''\<rparr>] else []) @
     (if st then [\<lparr>ce_reference = Some ref, ce_type = ''allocation_amended'', ce_old = al_status old, ce_new = al_status new,
        ce_detail = ''Allocation status for '' @ ref @ '' changed.''\<rparr>] else []) @
     (if \<not> cap \<and> \<not> st then [\<lparr>ce_reference = Some ref, ce_type = ''allocation_retained'', ce_old = Some ref, ce_new = Some ref,
        ce_detail = ref @ '' unchanged from the previous version.''\<rparr>] else []))"

definition diff_one :: "(str \<times> allocation_row) list \<Rightarrow> str \<times> allocation_row \<Rightarrow> policy_change list" where
  "diff_one old n = (case map_of old (fst n) of
      None \<Rightarrow> [\<lparr>ce_reference = Some (fst n), ce_type = ''new_allocation'', ce_old = None, ce_new = Some (fst n),
        ce_detail = ''New allocation '' @ fst n @ '' in the latest version.''\<rparr>]
    | Some o' \<Rightarrow> compare_allocation (fst n) o' (snd n))"

definition removed_one :: "(str \<times> allocation_row) list \<Rightarrow> str \<times> allocation_row \<Rightarrow> policy_change list" where
  "removed_one new o' = (if map_of new (fst o') = None then [\<lparr>ce_reference = Some (fst o'), ce_type = ''allocation_removed'', ce_old = Some (fst o'), ce_new = None,
     ce_detail = fst o' @ '' is no longer present in the latest version.''\<rparr>] else [])"

definition diff_allocations :: "allocation_row list \<Rightarrow> allocation_row list \<Rightarrow> policy_change list" where
  "diff_allocations old new = (let o' = by_reference old; n = by_reference new in concat (map (diff_one o') n) @ concat (map (removed_one n) o'))"

definition classify_confidence :: "str \<Rightarrow> str" where
  "classify_confidence t = (if t \<in> set AUTO_APPLY_EVENT_TYPES then ''auto_applied'' else ''needs_review'')"

section \<open>Names of plans\<close>

record identity_entry =
  ie_council :: "str option"
  ie_plan_name :: "str option"
  ie_plan_version :: "str option"
  ie_key :: "str option"
  ie_aliases :: "str list"

record local_plan =
  pn_council :: str
  pn_name :: "str option"
  pn_version :: "str option"

definition identities_for_council :: "str \<Rightarrow> identity_entry list \<Rightarrow> identity_entry list" where
  "identities_for_council council config = filter (\<lambda>e. ie_council e = Some council) config"

definition find_identity_entry :: "local_plan \<Rightarrow> identity_entry list \<Rightarrow> identity_entry option" where
  "find_identity_entry p config =
    (case find (\<lambda>e. ie_council e = Some (pn_council p) \<and> ie_plan_name e = pn_name p \<and> ie_plan_version e = pn_version p) config of
       Some e \<Rightarrow> Some e
     | None \<Rightarrow> find (\<lambda>e. ie_council e = Some (pn_council p) \<and> ie_plan_name e = pn_name p) config)"

definition with_name :: "str list \<Rightarrow> str option \<Rightarrow> str list" where
  "with_name aliases name = (if truthy name \<and> the name \<notin> set aliases then aliases @ [the name] else aliases)"

definition aliases_for_plan :: "local_plan \<Rightarrow> identity_entry list \<Rightarrow> str list" where
  "aliases_for_plan p config = with_name (case find_identity_entry p config of None \<Rightarrow> [] | Some e \<Rightarrow> ie_aliases e) (pn_name p)"

fun sibling_groups :: "str option \<Rightarrow> str option list \<Rightarrow> identity_entry list \<Rightarrow> str list list" where
  "sibling_groups own seen [] = []"
| "sibling_groups own seen (e # es) =
    (let aliases = with_name (ie_aliases e) (ie_plan_name e) in
     if ie_key e = own \<or> ie_key e \<in> set seen \<or> aliases = [] then sibling_groups own seen es
     else aliases # sibling_groups own (ie_key e # seen) es)"

definition sibling_alias_groups :: "local_plan \<Rightarrow> identity_entry list \<Rightarrow> str list list" where
  "sibling_alias_groups p config =
    sibling_groups (Option.bind (find_identity_entry p config) ie_key) [] (identities_for_council (pn_council p) config)"

section \<open>When to look again\<close>

definition WEEKLY_DAYS :: int where "WEEKLY_DAYS = 7"
definition MONTHLY_DAYS :: int where "MONTHLY_DAYS = 30"
definition QUARTERLY_DAYS :: int where "QUARTERLY_DAYS = 90"

definition CADENCE_BY_SOURCE_TYPE :: "(str \<times> int) list" where
  "CADENCE_BY_SOURCE_TYPE =
    map (\<lambda>t. (t, WEEKLY_DAYS)) [''timetable'', ''landing_page'', ''webpage'', ''local_development_scheme'', ''consultation_portal'', ''examination_library'',
      ''emerging_plan''] @
    map (\<lambda>t. (t, MONTHLY_DAYS)) [''housing_land_supply_page'', ''amr_page'', ''monitoring_page'', ''policy_document_library'', ''evidence_library'',
      ''authority_monitoring_report'', ''housing_land_supply_statement'', ''five_year_supply_statement'', ''housing_delivery_report'', ''housing_trajectory'',
      ''housing_delivery_test_action_plan'', ''housing_delivery_statement''] @
    map (\<lambda>t. (t, QUARTERLY_DAYS)) [''adopted_plan'', ''policies_map'', ''local_plan'', ''adoption_statement'', ''inspector_report'', ''inspectors_report'',
      ''main_modifications'']"

definition MONTH_FULL_NAMES :: "str list" where
  "MONTH_FULL_NAMES = [''january'', ''february'', ''march'', ''april'', ''may'', ''june'', ''july'', ''august'', ''september'', ''october'', ''november'', ''december'']"

definition in_expected_publication_window :: "str option \<Rightarrow> date \<Rightarrow> bool" where
  "in_expected_publication_window w today = (if \<not> truthy w then False
     else (let window = lower (strip (str_or w [])); m = nat (d_month today - 1) in
       contains (MONTH_FULL_NAMES ! m) window \<or> contains (MONTH_NAMES ! m) window \<or>
       contains (''q'' @ int_str ((d_month today - 1) div 3 + 1)) (filter (\<lambda>c. c \<noteq> CHR '' '') window)))"

definition compute_cadence_days :: "str \<Rightarrow> str option \<Rightarrow> date \<Rightarrow> int" where
  "compute_cadence_days source_type w today = (if in_expected_publication_window w today then WEEKLY_DAYS
     else opt_or (map_of CADENCE_BY_SOURCE_TYPE source_type) MONTHLY_DAYS)"

text \<open>A moment is a date and the microseconds of its day, in UTC; the sum is the ordinal of the day due.\<close>

record moment =
  mo_date :: date
  mo_micros :: int

definition compute_next_check_due :: "str \<Rightarrow> str option \<Rightarrow> moment \<Rightarrow> date_error + int \<times> int" where
  "compute_next_check_due source_type w now = (case add_days (mo_date now) (compute_cadence_days source_type w (mo_date now)) of
     Inl e \<Rightarrow> Inl e | Inr day \<Rightarrow> Inr (day, mo_micros now))"

definition is_due :: "(int \<times> int) option \<Rightarrow> moment \<Rightarrow> bool" where
  "is_due due now = (case due of None \<Rightarrow> True | Some (day, t) \<Rightarrow> day < toordinal (mo_date now) \<or> (day = toordinal (mo_date now) \<and> t \<le> mo_micros now))"

end
