(* ===== verification/PlanProperties.thy ===== *)
theory PlanProperties
  imports PlanLifecycle
begin

text \<open>
  What the life of a plan guarantees: when an allocation is shown as adopted, which changes between two versions are reported and applied without review, and when a
  source is looked at again.
\<close>

section \<open>Statuses\<close>

lemma first_keyword_in: "first_keyword ks s = Some v \<Longrightarrow> v \<in> snd ` set ks"
  by (induction ks s rule: first_keyword.induct) (auto split: if_splits)

lemma normalise_with_in: "''unknown'' \<in> S \<Longrightarrow> snd ` set ks \<subseteq> S \<Longrightarrow> normalise_with ks raw \<in> S"
  using first_keyword_in [of ks "lower (strip (str_or raw []))"]
  by (auto simp: normalise_with_def Let_def opt_or_def split: option.splits)

lemma normalised_statuses [simp]:
  "normalise_plan_status raw \<in> set PLAN_STATUSES"
  "normalise_allocation_status raw \<in> set ALLOCATION_STATUSES"
  unfolding normalise_plan_status_def normalise_allocation_status_def
  by (rule normalise_with_in; simp add: PLAN_STATUS_KEYWORDS_def PLAN_STATUSES_def ALLOCATION_STATUS_KEYWORDS_def ALLOCATION_STATUSES_def)+

lemma normalised_nonempty: "normalise_plan_status raw \<noteq> []" "normalise_allocation_status raw \<noteq> []"
  using normalised_statuses [of raw] by (auto simp: PLAN_STATUSES_def ALLOCATION_STATUSES_def)

text \<open>The first keyword decides: a status is reached where a keyword of it occurs and none listed before it for another status does.\<close>

lemma first_keyword_append: "first_keyword (xs @ ys) s = (case first_keyword xs s of None \<Rightarrow> first_keyword ys s | Some v \<Rightarrow> Some v)"
  by (induction xs s rule: first_keyword.induct) auto

lemma first_keyword_None: "(first_keyword ks s = None) = (\<not> list_ex (\<lambda>k. contains k s) (map fst ks))"
  by (induction ks s rule: first_keyword.induct) auto

definition wording_has :: "str list \<Rightarrow> str option \<Rightarrow> bool" where
  "wording_has ks raw = list_ex (\<lambda>k. contains k (lower (strip (str_or raw [])))) ks"

lemma contains_Nil [simp]: "contains k [] = (k = [])" by simp

lemma normalise_with_decides:
  assumes "v \<notin> snd ` set before" "v \<notin> snd ` set after" "v \<noteq> ''unknown''" "[] \<notin> set (map fst mid)" "snd ` set mid \<subseteq> {v}"
  shows "(normalise_with (before @ mid @ after) raw = v) = (wording_has (map fst mid) raw \<and> \<not> wording_has (map fst before) raw)"
proof -
  let ?t = "lower (strip (str_or raw []))"
  have mid: "(first_keyword mid ?t = Some w) = (w = v \<and> list_ex (\<lambda>k. contains k ?t) (map fst mid))" for w
    using first_keyword_in [of mid ?t] first_keyword_None [of mid ?t] assms(5) by (cases "first_keyword mid ?t") auto
  have before: "first_keyword before ?t \<noteq> Some v" and after: "first_keyword after ?t \<noteq> Some v"
    using assms(1,2) first_keyword_in by metis+
  have empty: "list_ex (\<lambda>k. contains k []) (map fst mid) = False"
    using assms(4) by (auto simp: list_ex_iff)
  show ?thesis
  proof (cases "strip (str_or raw []) = []")
    case True
    then show ?thesis using empty assms(3) by (simp add: normalise_with_def wording_has_def lower_def)
  next
    case False
    have "(normalise_with (before @ mid @ after) raw = v) = (first_keyword (before @ mid @ after) ?t = Some v)"
      using False assms(3) by (auto simp: normalise_with_def Let_def opt_or_def split: option.splits)
    also have "\<dots> = (first_keyword before ?t = None \<and> first_keyword mid ?t = Some v)"
      using before after by (auto simp: first_keyword_append split: option.splits)
    finally show ?thesis by (simp add: mid first_keyword_None wording_has_def conj_commute)
  qed
qed

lemma plan_adopted_iff:
  "(normalise_plan_status raw = ''adopted'') =
    (wording_has [''adopted'', ''adoption''] raw \<and> \<not> wording_has [''withdrawn'', ''superseded'', ''suspend'', ''paused'', ''on hold''] raw)"
  using normalise_with_decides [of "''adopted''" "take 5 PLAN_STATUS_KEYWORDS" "drop 7 PLAN_STATUS_KEYWORDS" "take 2 (drop 5 PLAN_STATUS_KEYWORDS)" raw]
  by (simp add: normalise_plan_status_def PLAN_STATUS_KEYWORDS_def)

lemma allocation_adopted_iff:
  "(normalise_allocation_status raw = ''adopted_allocation'') =
    (wording_has [''adopted''] raw \<and> \<not> wording_has [''removed'', ''reject'', ''superseded'', ''safeguard''] raw)"
  using normalise_with_decides [of "''adopted_allocation''" "take 4 ALLOCATION_STATUS_KEYWORDS" "drop 5 ALLOCATION_STATUS_KEYWORDS"
      "take 1 (drop 4 ALLOCATION_STATUS_KEYWORDS)" raw]
  by (simp add: normalise_allocation_status_def ALLOCATION_STATUS_KEYWORDS_def)

lemma stage_signal_not_adopted: "fst (stage_signal p a) \<noteq> ''adopted''"
  by (simp add: stage_signal_def Let_def)

lemma adopted_signal:
  "(fst (classify_progression p a e today present) = ''adopted'') =
    (present \<and> str_or p ''unknown'' = ''adopted'' \<and> str_or a ''unknown'' = ''adopted_allocation'')"
  by (simp add: classify_progression_def Let_def stage_signal_not_adopted)

text \<open>
  C33. An allocation is signalled as adopted by keyword: exactly where it is still in the latest version, its plan's wording contains \<open>adopted\<close> or
  \<open>adoption\<close> and none of the words for withdrawal, supersession or pause, and its own wording contains \<open>adopted\<close> and no word that outranks it. This is more than the
  module allows itself, which promises never \<open>adopted\<close> unless the text says so: 'Expected adoption 2027' with 'not yet adopted' is signalled as adopted (\<open>future_adoption_signalled\<close>
  below). A status derived from the plan's wording alone never makes an allocation adopted, whatever the dates.
\<close>
theorem adopted_by_keyword:
  "(fst (classify_progression (Some (normalise_plan_status plan)) (Some (normalise_allocation_status allocation)) expected today present) = ''adopted'') =
     (present \<and> wording_has [''adopted'', ''adoption''] plan \<and> \<not> wording_has [''withdrawn'', ''superseded'', ''suspend'', ''paused'', ''on hold''] plan \<and>
      wording_has [''adopted''] allocation \<and> \<not> wording_has [''removed'', ''reject'', ''superseded'', ''safeguard''] allocation) \<and>
   fst (classify_progression (Some (normalise_plan_status plan)) (Some (fst (derive_allocation_status_from_plan_status plan))) expected today present) \<noteq> ''adopted''"
proof
  show "(fst (classify_progression (Some (normalise_plan_status plan)) (Some (normalise_allocation_status allocation)) expected today present) = ''adopted'') =
     (present \<and> wording_has [''adopted'', ''adoption''] plan \<and> \<not> wording_has [''withdrawn'', ''superseded'', ''suspend'', ''paused'', ''on hold''] plan \<and>
      wording_has [''adopted''] allocation \<and> \<not> wording_has [''removed'', ''reject'', ''superseded'', ''safeguard''] allocation)"
    using normalised_nonempty by (simp add: adopted_signal str_or_def plan_adopted_iff allocation_adopted_iff)
  show "fst (classify_progression (Some (normalise_plan_status plan)) (Some (fst (derive_allocation_status_from_plan_status plan))) expected today present) \<noteq> ''adopted''"
    by (simp add: adopted_signal str_or_def derive_allocation_status_from_plan_status_def Let_def)
qed

text \<open>A plan and an allocation that both say they are not adopted yet.\<close>

lemma future_adoption_signalled:
  "fst (classify_progression (Some (normalise_plan_status (Some ''Expected adoption 2027''))) (Some (normalise_allocation_status (Some ''Not yet adopted'')))
     None \<lparr>d_year = 2026, d_month = 1, d_day = 1\<rparr> True) = ''adopted''"
  by code_simp

section \<open>Changes\<close>

lemma by_reference_snoc: "by_reference (rows @ [r]) = AList.update (al_reference r) r (by_reference rows)"
  by (simp add: by_reference_def)

text \<open>The dictionary holds the last row of every reference, under distinct keys.\<close>

lemma map_of_by_reference: "map_of (by_reference rows) ref = find (\<lambda>r. al_reference r = ref) (rev rows)"
  by (induction rows rule: rev_induct) (auto simp: by_reference_snoc update_conv' by_reference_def)

lemma distinct_by_reference: "distinct (map fst (by_reference rows))"
  by (induction rows rule: rev_induct) (auto simp: by_reference_snoc distinct_update by_reference_def)

lemma keys_by_reference: "fst ` set (by_reference rows) = al_reference ` set rows"
  by (induction rows rule: rev_induct) (auto simp: by_reference_snoc dom_update by_reference_def)

definition latest_row :: "allocation_row list \<Rightarrow> str \<Rightarrow> allocation_row option" where
  "latest_row rows ref = find (\<lambda>r. al_reference r = ref) (rev rows)"

lemma map_of_latest [simp]: "map_of (by_reference rows) = latest_row rows"
  by (simp add: fun_eq_iff map_of_by_reference latest_row_def)

lemma latest_row_None: "(latest_row rows ref = None) = (ref \<notin> al_reference ` set rows)"
  by (auto simp: latest_row_def find_None_iff)

lemma by_reference_member: "((ref, r) \<in> set (by_reference rows)) = (latest_row rows ref = Some r)"
  using distinct_by_reference [of rows] by (metis map_of_eq_Some_iff map_of_latest)

definition same_figures :: "allocation_row \<Rightarrow> allocation_row \<Rightarrow> bool" where
  "same_figures a b = (capacities a = capacities b \<and> al_status a = al_status b)"

text \<open>What the events of one reference say.\<close>

definition change_of :: "allocation_row option \<Rightarrow> allocation_row option \<Rightarrow> str set" where
  "change_of old new = (case (old, new) of
      (None, None) \<Rightarrow> {}
    | (None, Some _) \<Rightarrow> {''new_allocation''}
    | (Some _, None) \<Rightarrow> {''allocation_removed''}
    | (Some a, Some b) \<Rightarrow> if same_figures a b then {''allocation_retained''}
        else (if capacities a \<noteq> capacities b then {''capacity_changed''} else {}) \<union> (if al_status a \<noteq> al_status b then {''allocation_amended''} else {}))"

lemma change_of_empty: "(change_of a b = {}) = (a = None \<and> b = None)"
  by (auto simp: change_of_def same_figures_def split: option.splits)

lemma diff_events:
  "set (diff_allocations old new) =
    (\<Union>(ref, n) \<in> set (by_reference new). set (diff_one (by_reference old) (ref, n))) \<union>
    (\<Union>(ref, o') \<in> set (by_reference old). set (removed_one (by_reference new) (ref, o')))"
  by (simp add: diff_allocations_def Let_def case_prod_unfold)

lemma compare_types: "(\<lambda>e. (ce_reference e, ce_type e)) ` set (compare_allocation ref a b) = Pair (Some ref) ` change_of (Some a) (Some b)"
  by (simp add: compare_allocation_def change_of_def same_figures_def Let_def image_Un)

lemma diff_one_types:
  assumes "latest_row new ref = Some n"
  shows "(\<lambda>e. (ce_reference e, ce_type e)) ` set (diff_one (by_reference old) (ref, n)) = Pair (Some ref) ` change_of (latest_row old ref) (Some n)"
  using assms compare_types [of ref _ n] by (cases "latest_row old ref") (auto simp: diff_one_def change_of_def)

lemma removed_one_types:
  assumes "latest_row old ref = Some o'"
  shows "(\<lambda>e. (ce_reference e, ce_type e)) ` set (removed_one (by_reference new) (ref, o')) =
    (if latest_row new ref = None then Pair (Some ref) ` change_of (latest_row old ref) (latest_row new ref) else {})"
  using assms by (simp add: removed_one_def change_of_def)

lemma diff_types:
  "(\<lambda>e. (ce_reference e, ce_type e)) ` set (diff_allocations old new) =
    (\<Union>ref. Pair (Some ref) ` change_of (latest_row old ref) (latest_row new ref))"
  (is "?f ` _ = ?R")
proof -
  have "?f ` set (diff_allocations old new) =
      (\<Union>(ref, n) \<in> {(ref, n). latest_row new ref = Some n}. ?f ` set (diff_one (by_reference old) (ref, n))) \<union>
      (\<Union>(ref, o') \<in> {(ref, o'). latest_row old ref = Some o'}. ?f ` set (removed_one (by_reference new) (ref, o')))"
    unfolding diff_events by_reference_member [symmetric] by (simp add: image_Un image_UN case_prod_unfold)
  also have "\<dots> = (\<Union>ref \<in> {ref. latest_row new ref \<noteq> None}. Pair (Some ref) ` change_of (latest_row old ref) (latest_row new ref)) \<union>
      (\<Union>ref \<in> {ref. latest_row old ref \<noteq> None \<and> latest_row new ref = None}. Pair (Some ref) ` change_of (latest_row old ref) (latest_row new ref))"
    (is "?A \<union> ?B = ?C \<union> ?D")
  proof -
    have "?A = (\<Union>(ref, n) \<in> {(ref, n). latest_row new ref = Some n}. Pair (Some ref) ` change_of (latest_row old ref) (latest_row new ref))"
      by (rule SUP_cong) (clarsimp simp: diff_one_types)+
    then have "?A = ?C" by auto
    moreover have "?B = (\<Union>(ref, o') \<in> {(ref, o'). latest_row old ref = Some o'}. if latest_row new ref = None then Pair (Some ref) ` change_of (latest_row old ref) (latest_row new ref) else {})"
      by (rule SUP_cong) (clarsimp simp: removed_one_types)+
    then have "?B = ?D" by (auto split: if_splits)
    ultimately show ?thesis by simp
  qed
  also have "\<dots> = (\<Union>ref \<in> {ref. change_of (latest_row old ref) (latest_row new ref) \<noteq> {}}. Pair (Some ref) ` change_of (latest_row old ref) (latest_row new ref))"
    unfolding UN_Un [symmetric] by (rule arg_cong [where f = "\<lambda>A. \<Union>ref \<in> A. _ ref"]) (auto simp: change_of_empty)
  also have "\<dots> = ?R" by auto
  finally show ?thesis .
qed

lemma change_of_auto:
  "t \<in> change_of a b \<Longrightarrow> (classify_confidence t = ''auto_applied'') = (case (a, b) of (None, _) \<Rightarrow> True | (Some x, Some y) \<Rightarrow> same_figures x y | _ \<Rightarrow> False)"
  by (auto simp: change_of_def classify_confidence_def AUTO_APPLY_EVENT_TYPES_def split: option.splits if_splits)

text \<open>
  Comparing two versions reports every reference of either and no other, once for each thing that changed: new or removed where one version lacks it, retained where
  its last rows agree in capacities and status, and otherwise a change of capacity, of status or of both. A change is applied without review exactly where it is new or retained.
\<close>
theorem version_changes_complete:
  "(\<lambda>e. (ce_reference e, ce_type e)) ` set (diff_allocations old new) = (\<Union>ref. Pair (Some ref) ` change_of (latest_row old ref) (latest_row new ref)) \<and>
   ce_reference ` set (diff_allocations old new) = Some ` (al_reference ` set old \<union> al_reference ` set new) \<and>
   list_all (\<lambda>e. (classify_confidence (ce_type e) = ''auto_applied'') =
      (case (latest_row old (the (ce_reference e)), latest_row new (the (ce_reference e))) of
        (None, _) \<Rightarrow> True | (Some a, Some b) \<Rightarrow> same_figures a b | _ \<Rightarrow> False)) (diff_allocations old new)"
proof -
  have types: "(\<lambda>e. (ce_reference e, ce_type e)) ` set (diff_allocations old new) = (\<Union>ref. Pair (Some ref) ` change_of (latest_row old ref) (latest_row new ref))"
    by (rule diff_types)
  have "ce_reference ` set (diff_allocations old new) = fst ` (\<lambda>e. (ce_reference e, ce_type e)) ` set (diff_allocations old new)"
    by (simp add: image_comp comp_def)
  also have "\<dots> = Some ` {ref. change_of (latest_row old ref) (latest_row new ref) \<noteq> {}}"
    unfolding types by force
  also have "\<dots> = Some ` (al_reference ` set old \<union> al_reference ` set new)"
    using latest_row_None by (auto simp: change_of_empty image_iff)
  finally have refs: "ce_reference ` set (diff_allocations old new) = Some ` (al_reference ` set old \<union> al_reference ` set new)" .
  have "ce_type e \<in> change_of (latest_row old (the (ce_reference e))) (latest_row new (the (ce_reference e)))" if "e \<in> set (diff_allocations old new)" for e
  proof -
    have "(ce_reference e, ce_type e) \<in> (\<Union>ref. Pair (Some ref) ` change_of (latest_row old ref) (latest_row new ref))"
      using that by (subst types [symmetric]) simp
    then show ?thesis by auto
  qed
  then have "list_all (\<lambda>e. (classify_confidence (ce_type e) = ''auto_applied'') =
      (case (latest_row old (the (ce_reference e)), latest_row new (the (ce_reference e))) of
        (None, _) \<Rightarrow> True | (Some a, Some b) \<Rightarrow> same_figures a b | _ \<Rightarrow> False)) (diff_allocations old new)"
    unfolding list_all_iff by (intro ballI change_of_auto)
  with types refs show ?thesis by blast
qed

section \<open>When to look again\<close>

definition WEEKLY_SOURCES :: "str list" where
  "WEEKLY_SOURCES = [''timetable'', ''landing_page'', ''webpage'', ''local_development_scheme'', ''consultation_portal'', ''examination_library'', ''emerging_plan'']"

definition QUARTERLY_SOURCES :: "str list" where
  "QUARTERLY_SOURCES = [''adopted_plan'', ''policies_map'', ''local_plan'', ''adoption_statement'', ''inspector_report'', ''inspectors_report'', ''main_modifications'']"

text \<open>The window's text names the month of the day by its first three letters, or its quarter as \<open>q1\<close> to \<open>q4\<close>.\<close>

definition names_period :: "str option \<Rightarrow> date \<Rightarrow> bool" where
  "names_period w day = (contains (MONTH_NAMES ! nat (d_month day - 1)) (lower (strip (str_or w []))) \<or>
     contains (''q'' @ int_str ((d_month day - 1) div 3 + 1)) (filter (\<lambda>c. c \<noteq> CHR '' '') (lower (strip (str_or w [])))))"

definition days_between_checks :: "str \<Rightarrow> str option \<Rightarrow> date \<Rightarrow> int" where
  "days_between_checks source_type w day = (if names_period w day \<or> source_type \<in> set WEEKLY_SOURCES then 7 else if source_type \<in> set QUARTERLY_SOURCES then 90 else 30)"

text \<open>Microseconds since the beginning of the calendar.\<close>

definition micros_at :: "moment \<Rightarrow> int" where
  "micros_at t = toordinal (mo_date t) * 86400000000 + mo_micros t"

definition time_of_day :: "moment \<Rightarrow> bool" where
  "time_of_day t = (0 \<le> mo_micros t \<and> mo_micros t < 86400000000)"

lemma contains_prefix: "contains (p @ q) s \<Longrightarrow> contains p s"
  unfolding contains_iff by (metis append.assoc)

lemma month_named:
  assumes "1 \<le> m" and "m \<le> 12" and "contains (MONTH_FULL_NAMES ! nat (m - 1)) s"
  shows "contains (MONTH_NAMES ! nat (m - 1)) s"
proof -
  have "list_all2 (\<lambda>a f. prefix a f) MONTH_NAMES MONTH_FULL_NAMES" by code_simp
  moreover have "nat (m - 1) < length MONTH_NAMES" using assms(1,2) by (simp add: MONTH_NAMES_def nat_less_iff)
  ultimately have "prefix (MONTH_NAMES ! nat (m - 1)) (MONTH_FULL_NAMES ! nat (m - 1))" by (rule list_all2_nthD)
  then show ?thesis using assms(3) by (auto simp: prefix_def intro: contains_prefix)
qed

lemma window_named:
  assumes "1 \<le> d_month day" and "d_month day \<le> 12"
  shows "in_expected_publication_window w day = names_period w day"
proof (cases "truthy w")
  case False
  then have "str_or w [] = []" by (cases w) (auto simp: str_or_def truthy_def)
  moreover have "MONTH_NAMES ! nat (d_month day - 1) \<noteq> []"
  proof -
    have "\<forall>m\<in>set MONTH_NAMES. m \<noteq> []" by code_simp
    moreover have "nat (d_month day - 1) < length MONTH_NAMES" using assms by (simp add: MONTH_NAMES_def nat_less_iff)
    ultimately show ?thesis using nth_mem by blast
  qed
  moreover have "strip [] = []" by code_simp
  ultimately show ?thesis using False by (simp add: in_expected_publication_window_def names_period_def lower_def)
next
  case True
  then show ?thesis using month_named [OF assms] by (auto simp: in_expected_publication_window_def names_period_def Let_def)
qed

lemma map_of_same: "map_of (map (\<lambda>t. (t, c)) ts) t = (if t \<in> set ts then Some c else None)"
  by (induction ts) auto

lemma cadence_days:
  assumes "1 \<le> d_month day" and "d_month day \<le> 12"
  shows "compute_cadence_days source_type w day = days_between_checks source_type w day"
proof -
  have "opt_or (map_of CADENCE_BY_SOURCE_TYPE t) MONTHLY_DAYS = (if t \<in> set WEEKLY_SOURCES then 7 else if t \<in> set QUARTERLY_SOURCES then 90 else 30)" for t
  proof -
    have disjoint: "set WEEKLY_SOURCES \<inter> set QUARTERLY_SOURCES = {}" by code_simp
    obtain monthly where table: "CADENCE_BY_SOURCE_TYPE = map (\<lambda>t. (t, 7)) WEEKLY_SOURCES @ map (\<lambda>t. (t, 30)) monthly @ map (\<lambda>t. (t, 90)) QUARTERLY_SOURCES"
        and monthly: "set monthly \<inter> set QUARTERLY_SOURCES = {}"
    proof
      let ?m = "[''housing_land_supply_page'', ''amr_page'', ''monitoring_page'', ''policy_document_library'', ''evidence_library'',
        ''authority_monitoring_report'', ''housing_land_supply_statement'', ''five_year_supply_statement'', ''housing_delivery_report'', ''housing_trajectory'',
        ''housing_delivery_test_action_plan'', ''housing_delivery_statement'']"
      show "CADENCE_BY_SOURCE_TYPE = map (\<lambda>t. (t, 7)) WEEKLY_SOURCES @ map (\<lambda>t. (t, 30)) ?m @ map (\<lambda>t. (t, 90)) QUARTERLY_SOURCES"
        by (simp add: CADENCE_BY_SOURCE_TYPE_def WEEKLY_SOURCES_def QUARTERLY_SOURCES_def WEEKLY_DAYS_def MONTHLY_DAYS_def QUARTERLY_DAYS_def)
      show "set ?m \<inter> set QUARTERLY_SOURCES = {}" by code_simp
    qed
    show ?thesis using disjoint monthly by (auto simp: table map_add_def map_of_same opt_or_def MONTHLY_DAYS_def)
  qed
  then show ?thesis by (simp add: compute_cadence_days_def days_between_checks_def window_named [OF assms] WEEKLY_DAYS_def)
qed

text \<open>
  C34. A source that was checked comes due again exactly when its days have passed to the microsecond, and is due from then on: 7 days where the text of its
  expected publication window names the month or the quarter of the check, or it is an active plan page; otherwise 90 days for an adopted or permanent document and
  30 days for any other type. The one obstacle is the calendar's range, beyond which the computation overflows instead.
\<close>
theorem source_comes_due:
  assumes "1 \<le> d_month (mo_date now)" and "d_month (mo_date now) \<le> 12" and "time_of_day now" and "time_of_day later"
  shows "let days = days_between_checks source_type window (mo_date now) in
    (case compute_next_check_due source_type window now of Inl e \<Rightarrow> \<not> (1 \<le> toordinal (mo_date now) + days \<and> toordinal (mo_date now) + days \<le> 3652059)
     | Inr due \<Rightarrow> is_due (Some due) later = (micros_at now + days * 86400000000 \<le> micros_at later))"
proof -
  let ?days = "days_between_checks source_type window (mo_date now)"
  show ?thesis
  proof (cases "add_days (mo_date now) ?days")
    case (Inl e)
    then show ?thesis by (auto simp: MAX_ORDINAL_def compute_next_check_due_def cadence_days [OF assms(1,2)] add_days_def Let_def split: if_splits)
  next
    case (Inr day)
    then have "day = toordinal (mo_date now) + ?days" by (auto simp: add_days_def Let_def split: if_splits)
    then show ?thesis
      using Inr assms(3,4) by (auto simp: compute_next_check_due_def cadence_days [OF assms(1,2)] is_due_def micros_at_def time_of_day_def Let_def)
  qed
qed

definition checked_on :: "int \<Rightarrow> int \<Rightarrow> moment" where
  "checked_on month day = \<lparr>mo_date = \<lparr>d_year = 2026, d_month = month, d_day = day\<rparr>, mo_micros = 5\<rparr>"

theorem source_comes_due_witness:
  "\<exists>due. compute_next_check_due ''local_plan'' (Some ''Q2'') (checked_on 1 1) = Inr due \<and> is_due (Some due) (checked_on 4 1) \<and>
    \<not> is_due (Some due) ((checked_on 4 1)\<lparr>mo_micros := 4\<rparr>)"
proof -
  have "\<not> isl (compute_next_check_due ''local_plan'' (Some ''Q2'') (checked_on 1 1))" by code_simp
  then obtain due where due: "compute_next_check_due ''local_plan'' (Some ''Q2'') (checked_on 1 1) = Inr due" by (metis sum.collapse(2))
  have "micros_at (checked_on 1 1) + days_between_checks ''local_plan'' (Some ''Q2'') (mo_date (checked_on 1 1)) * 86400000000 = micros_at (checked_on 4 1)"
    "micros_at ((checked_on 4 1)\<lparr>mo_micros := 4\<rparr>) < micros_at (checked_on 4 1)"
    "1 \<le> d_month (mo_date (checked_on 1 1))" "d_month (mo_date (checked_on 1 1)) \<le> 12"
    "time_of_day (checked_on 1 1)" "time_of_day (checked_on 4 1)" "time_of_day ((checked_on 4 1)\<lparr>mo_micros := 4\<rparr>)" by code_simp+
  then show ?thesis
    using source_comes_due [of "checked_on 1 1" "checked_on 4 1" "''local_plan''" "Some ''Q2''"]
      source_comes_due [of "checked_on 1 1" "(checked_on 4 1)\<lparr>mo_micros := 4\<rparr>" "''local_plan''" "Some ''Q2''"] due by (simp add: Let_def)
qed

end
