(* ===== verification/SourceSafety.thy ===== *)
theory SourceSafety
  imports Json
begin

text \<open>
  The resource and closure checks that stand between a source call and the ledger:
  \<open>validate_outer\<close> and \<open>validate_source_resources\<close> of app/ingestion/coordinator.py,
  \<open>combined_bytes\<close> of resource_accounting.py and the budget registry of source_budget.py. The
  audit of a supervised worker is a JSON object; a check that fails raises \<open>Denied\<close>.
\<close>

section \<open>Limits\<close>

record task_limits =
  lim_requests :: int
  lim_bytes :: int
  lim_worker_seconds :: int
  lim_outer_seconds :: int
  lim_source_rss :: int
  lim_aggregate_rss :: int
  lim_audit_bytes :: int
  lim_rows :: int
  lim_pages :: int

definition MiB :: int where
  "MiB = 1024 ^ 2"

definition DEFAULT_LIMITS :: task_limits where
  "DEFAULT_LIMITS = \<lparr>lim_requests = 80, lim_bytes = 20 * 1024 ^ 2, lim_worker_seconds = 45,
     lim_outer_seconds = 60, lim_source_rss = 1024 ^ 3, lim_aggregate_rss = 1536 * 1024 ^ 2,
     lim_audit_bytes = 2 * 1024 ^ 2, lim_rows = 60, lim_pages = 6\<rparr>"

section \<open>The outer supervisor's receipt\<close>

definition validate_outer :: "json \<Rightarrow> task_limits \<Rightarrow> pyexc + unit" where
  "validate_outer outer lmt =
    (if \<not> (jint (jget ''exit_code'' outer) = Some 0
         \<and> (case jint (jget ''peak_owned_rss'' outer) of Some r \<Rightarrow> 0 \<le> r \<and> r \<le> lim_aggregate_rss lmt | None \<Rightarrow> False)
         \<and> (case jnum (jget ''elapsed_seconds'' outer) of
              Some t \<Rightarrow> 0 \<le> t \<and> t < of_int (lim_outer_seconds lmt) | None \<Rightarrow> False)
         \<and> jget ''cleanup'' outer = Some (JStr ''CLOSED'')
         \<and> jint (jget ''live_owned_survivors'' outer) = Some 0
         \<and> jget ''expired'' outer = Some (JBool False)
         \<and> jget ''limit_hit'' outer \<in> {None, Some JNull})
     then Inl (Denied ''OUTER_SAFETY'') else Inr ())"

definition nat_field :: "json \<Rightarrow> str \<Rightarrow> bool" where
  "nat_field v k = (case jint (jget k v) of Some n \<Rightarrow> 0 \<le> n | None \<Rightarrow> False)"

definition int_field :: "json \<Rightarrow> str \<Rightarrow> int" where
  "int_field v k = (case jint (jget k v) of Some n \<Rightarrow> n | None \<Rightarrow> 0)"

text \<open>Wire and decoded bytes overlap, so the larger counts once; outbound payload is added.\<close>

definition combined_bytes :: "json \<Rightarrow> int" where
  "combined_bytes audit =
     max (int_field audit ''decoded_bytes'') (int_field audit ''encoded_bytes'') + int_field audit ''outbound_payload_bytes''"

definition source_safe :: "json \<Rightarrow> task_limits \<Rightarrow> bool" where
  "source_safe src lmt =
    (int_field src ''requests'' \<le> lim_requests lmt \<and> combined_bytes src \<le> lim_bytes lmt
     \<and> int_field src ''peak_owned_rss'' \<le> lim_source_rss lmt
     \<and> (case jnum (jget ''supervisor_seconds'' src) of
          Some t \<Rightarrow> 0 \<le> t \<and> t \<le> of_int (lim_worker_seconds lmt) | None \<Rightarrow> False)
     \<and> jget ''cleanup'' src = Some (JStr ''CONTEXT_BROWSER_CLOSED'')
     \<and> jget ''process_cleanup'' src = Some (JStr ''CLOSED'')
     \<and> jint (jget ''live_owned_survivors'' src) = Some 0
     \<and> jget ''supervisor_limit_hit'' src = Some (JBool False)
     \<and> jget ''safety_failure'' src = Some (JBool False)
     \<and> jget ''safety_events'' src = Some (JArr []))"

definition accounting_fields :: "str list" where
  "accounting_fields = [''requests'', ''decoded_bytes'', ''encoded_bytes'', ''outbound_payload_bytes'', ''peak_owned_rss'']"

definition validate_source_resources :: "json \<Rightarrow> json \<Rightarrow> task_limits \<Rightarrow> nat option \<Rightarrow> pyexc + unit" where
  "validate_source_resources src outer lmt audit_bytes_limit =
    (case validate_outer outer lmt of Inl x \<Rightarrow> Inl x | Inr _ \<Rightarrow>
      if \<not> list_all (nat_field src) accounting_fields then Inl (Denied ''SOURCE_ACCOUNTING'')
      else if \<not> source_safe src lmt then Inl (Denied ''SOURCE_SAFETY'')
      else (case bounded (case audit_bytes_limit of
                  None \<Rightarrow> min (128 * 1024) (nat (lim_audit_bytes lmt)) | Some n \<Rightarrow> n) src of
              Inl x \<Rightarrow> Inl x | Inr _ \<Rightarrow> Inr ()))"

section \<open>Browser budgets\<close>

record source_budget =
  sb_name :: "str option"
  sb_worker_seconds :: int
  sb_source_outer_seconds :: int
  sb_slot_active_seconds :: int
  sb_source_memory_bytes :: int
  sb_aggregate_memory_bytes :: int
  sb_controller_memory_bytes :: int
  sb_rss_ceiling_bytes :: int
  sb_navigation :: "(int \<times> int \<times> int \<times> int \<times> int \<times> int) option"

text \<open>
  The envelope keys every budget has, and the six that only the browser budget adds
  (navigation, ready, criteria, segment poll, segment click and finalisation reserve seconds).
\<close>

definition HISTORICAL :: source_budget where
  "HISTORICAL = \<lparr>sb_name = None, sb_worker_seconds = 45, sb_source_outer_seconds = 49, sb_slot_active_seconds = 60,
     sb_source_memory_bytes = 1024 ^ 3, sb_aggregate_memory_bytes = 1536 * MiB,
     sb_controller_memory_bytes = 256 * MiB, sb_rss_ceiling_bytes = 1024 ^ 3, sb_navigation = None\<rparr>"

definition BROWSER_SOURCE_V2 :: source_budget where
  "BROWSER_SOURCE_V2 = \<lparr>sb_name = Some ''BROWSER_SOURCE_V2'', sb_worker_seconds = 75,
     sb_source_outer_seconds = 80, sb_slot_active_seconds = 90, sb_source_memory_bytes = 1536 * MiB,
     sb_aggregate_memory_bytes = 2048 * MiB, sb_controller_memory_bytes = 256 * MiB,
     sb_rss_ceiling_bytes = 1536 * MiB, sb_navigation = Some (25, 20, 10, 8, 3, 5)\<rparr>"

definition select_budget :: "str option \<Rightarrow> pyexc + source_budget" where
  "select_budget name = (case name of
     None \<Rightarrow> Inr HISTORICAL
   | Some n \<Rightarrow> if n \<noteq> ''BROWSER_SOURCE_V2'' then Inl (ValueError ''EXECUTION_BUDGET'') else Inr BROWSER_SOURCE_V2)"

section \<open>What an accepted receipt shows\<close>

lemma validate_outer_ok [ok_simps]:
  "(validate_outer outer lmt = Inr u) =
    (jint (jget ''exit_code'' outer) = Some 0
     \<and> (\<exists>r. jint (jget ''peak_owned_rss'' outer) = Some r \<and> 0 \<le> r \<and> r \<le> lim_aggregate_rss lmt)
     \<and> (\<exists>t. jnum (jget ''elapsed_seconds'' outer) = Some t \<and> 0 \<le> t \<and> t < of_int (lim_outer_seconds lmt))
     \<and> jget ''cleanup'' outer = Some (JStr ''CLOSED'') \<and> jint (jget ''live_owned_survivors'' outer) = Some 0
     \<and> jget ''expired'' outer = Some (JBool False) \<and> jget ''limit_hit'' outer \<in> {None, Some JNull})"
  by (auto simp: validate_outer_def split: option.splits)

lemma combined_bytes_bounds:
  assumes "list_all (nat_field src) accounting_fields"
  shows "int_field src ''decoded_bytes'' \<le> combined_bytes src \<and> int_field src ''encoded_bytes'' \<le> combined_bytes src
    \<and> int_field src ''outbound_payload_bytes'' \<le> combined_bytes src"
  using assms by (auto simp: combined_bytes_def accounting_fields_def nat_field_def int_field_def split: option.splits)

lemma validate_source_resources_ok:
  "validate_source_resources src outer lmt n = Inr u \<Longrightarrow>
    validate_outer outer lmt = Inr () \<and> list_all (nat_field src) accounting_fields \<and> source_safe src lmt"
  unfolding validate_source_resources_def by (auto split: sum.splits if_splits)

end
