(* ===== verification/Ledger.thy ===== *)
theory Ledger
  imports SourceSafety Dates "HOL-Library.Product_Lexorder"
begin

text \<open>
  The bounded task ledger, app/ingestion/ledger.py with the tables of schema.py.

  The two tables are association lists: \<open>items\<close> (key to work item, the control row included
  under the all-zero key) and \<open>attempts\<close> (key and fence to attempt). The JSON document in the
  control row's \<open>outcome\<close> column is held in typed form: \<open>global_stop\<close>, \<open>grants\<close> and
  \<open>deferred\<close> (council to the time its scope tasks may run again). Every operation runs in a
  transaction \<open>tx\<close> that holds the control row, so operations are sequential; one that raises
  leaves the ledger as it was. \<open>env\<close> collects what the process takes from outside: the clock
  reading of the call, SHA-256, the float \<open>repr\<close>, the database's size in octets and its dialect.
\<close>

section \<open>State\<close>

datatype wstate =
  QUEUED | DEFERRED | CLAIMED | COMPLETE | UNSUPPORTED_CONTRACT | SAFETY_BLOCKED | PERSISTENCE_UNCERTAIN | CONTROL_STATE

datatype phase = IDLE | PH_CLAIMED | CHECKPOINTED | SOURCE_INTENT | WRITE_INTENT | FINISHED | RECOVERED

datatype task = DISCOVERY | LISTING_METADATA | SCREENING | FACTUAL_REFRESH | CONTROL_TASK

datatype operation = SourceCalls | Writes

record work_item =
  w_subject :: json
  w_task :: task
  w_contract :: str
  w_revision :: str
  w_dependencies :: "str list"
  w_priority :: int
  w_eligible_at :: rat
  w_state :: wstate
  w_reason :: "str option"
  w_next_action :: str
  w_limits :: task_limits
  w_authority :: "str option"
  w_attempt_count :: int
  w_max_attempts :: int
  w_fence :: int
  w_owner :: "str option"
  w_lease_until :: "rat option"
  w_phase :: phase
  w_checkpoint :: "json option"
  w_outcome :: "json option"

record attempt =
  a_owner :: str
  a_started_at :: rat
  a_finished_at :: "rat option"
  a_authority :: str
  a_phase :: phase
  a_outcome :: "json option"
  a_checkpoint :: "json option"

record grant =
  g_keys :: "str list"
  g_contracts :: "str list"
  g_source_calls :: int
  g_writes :: int
  g_expires_at :: rat
  g_detail_source_keys :: "str list"

record ledger =
  items :: "(str \<times> work_item) list"
  attempts :: "((str \<times> int) \<times> attempt) list"
  global_stop :: "json option"
  grants :: "(str \<times> grant) list"
  deferred :: "(str \<times> rat) list"

record claim =
  c_key :: str
  c_fence :: int
  c_owner :: str

record env =
  now :: rat
  sha :: "str \<Rightarrow> str"
  repr :: "rat \<Rightarrow> str"
  octets :: "ledger \<Rightarrow> int"
  sqlite :: bool

definition CONTROL :: str where
  "CONTROL = replicate 64 CHR ''0''"

definition BLOCKED :: "wstate set" where
  "BLOCKED = {UNSUPPORTED_CONTRACT, SAFETY_BLOCKED, PERSISTENCE_UNCERTAIN}"

definition control_row :: work_item where
  "control_row = \<lparr>w_subject = JObj [(''kind'', JStr ''CONTROL'')], w_task = CONTROL_TASK, w_contract = ''v1'',
     w_revision = ''v1'', w_dependencies = [], w_priority = 0, w_eligible_at = 0, w_state = CONTROL_STATE,
     w_reason = None, w_next_action = ''OPERATOR_REVIEW'', w_limits = DEFAULT_LIMITS, w_authority = None,
     w_attempt_count = 0, w_max_attempts = 1, w_fence = 0, w_owner = None, w_lease_until = None, w_phase = IDLE,
     w_checkpoint = None, w_outcome = None\<rparr>"

text \<open>What \<open>schema.install\<close> leaves in an empty database.\<close>

definition installed :: ledger where
  "installed = \<lparr>items = [(CONTROL, control_row)], attempts = [], global_stop = None, grants = [], deferred = []\<rparr>"

section \<open>Rows\<close>

definition row_of :: "ledger \<Rightarrow> str \<Rightarrow> work_item option" where
  "row_of l k = map_of (items l) k"

definition set_row :: "str \<Rightarrow> work_item \<Rightarrow> ledger \<Rightarrow> ledger" where
  "set_row k w l = l\<lparr>items := AList.update k w (items l)\<rparr>"

text \<open>\<open>UPDATE ... WHERE work_key = k AND fence = f\<close>: no effect where there is no such attempt.\<close>

definition upd_attempt :: "str \<Rightarrow> int \<Rightarrow> (attempt \<Rightarrow> attempt) \<Rightarrow> ledger \<Rightarrow> ledger" where
  "upd_attempt k f u l = l\<lparr>attempts := map (\<lambda>(i, a). (i, if i = (k, f) then u a else a)) (attempts l)\<rparr>"

definition add_attempt :: "str \<Rightarrow> int \<Rightarrow> attempt \<Rightarrow> ledger \<Rightarrow> ledger" where
  "add_attempt k f a l = l\<lparr>attempts := attempts l @ [((k, f), a)]\<rparr>"

text \<open>Another row has a write whose outcome nobody has read back.\<close>

definition write_barrier :: "ledger \<Rightarrow> str \<Rightarrow> bool" where
  "write_barrier l k = list_ex (\<lambda>(i, w). i \<noteq> k \<and> w_phase w = WRITE_INTENT) (items l)"

section \<open>The control document\<close>

definition grant_json :: "env \<Rightarrow> grant \<Rightarrow> json" where
  "grant_json e g = JObj [(''keys'', JArr (map JStr (g_keys g))), (''contracts'', JArr (map JStr (g_contracts g))),
     (''source_calls'', JInt (g_source_calls g)), (''writes'', JInt (g_writes g)),
     (''expires_at'', JFloat (repr e (g_expires_at g)) (g_expires_at g)),
     (''detail_source_keys'', JArr (map JStr (g_detail_source_keys g)))]"

definition control_json :: "env \<Rightarrow> ledger \<Rightarrow> json" where
  "control_json e l = JObj ([(''global_stop'', case global_stop l of None \<Rightarrow> JNull | Some v \<Rightarrow> v),
       (''grants'', JObj (map (map_prod id (grant_json e)) (grants l)))] @
     (if deferred l = [] then []
      else [(''council_deferred_until'', JObj (map (map_prod id (\<lambda>t. JFloat (repr e t) t)) (deferred l)))]))"

definition put_control :: "env \<Rightarrow> ledger \<Rightarrow> pyexc + ledger" where
  "put_control e l = (case bounded MAX_PAYLOAD (control_json e l) of Inl x \<Rightarrow> Inl x | Inr _ \<Rightarrow> Inr l)"

section \<open>Transactions\<close>

text \<open>
  SQLite takes its write reservation by bumping the control row's fence; PostgreSQL locks the
  row. After the body the ceilings on rows and storage are checked; an exception rolls back.
\<close>

definition reserve :: "env \<Rightarrow> ledger \<Rightarrow> ledger" where
  "reserve e l = (if sqlite e then (case row_of l CONTROL of None \<Rightarrow> l
       | Some w \<Rightarrow> set_row CONTROL (w\<lparr>w_fence := w_fence w + 1\<rparr>) l) else l)"

definition ceilings :: "env \<Rightarrow> ledger \<Rightarrow> pyexc + unit" where
  "ceilings e l = (if length (items l) > 4096 \<or> length (attempts l) > 12288 then Inl (Denied ''LEDGER_ROW_BOUND'')
     else if octets e l > 32 * 1024 ^ 2 then Inl (Denied ''LEDGER_STORAGE_BOUND'') else Inr ())"

definition tx :: "env \<Rightarrow> (ledger \<Rightarrow> pyexc + 'a \<times> ledger) \<Rightarrow> ledger \<Rightarrow> pyexc + 'a \<times> ledger" where
  "tx e body l = (if row_of l CONTROL = None then Inl NoResultFound else
     (case body (reserve e l) of Inl x \<Rightarrow> Inl x | Inr (a, l') \<Rightarrow>
       (case ceilings e l' of Inl x \<Rightarrow> Inl x | Inr _ \<Rightarrow> Inr (a, l'))))"

section \<open>Registering an allowance\<close>

definition word_char :: "char \<Rightarrow> bool" where
  "word_char c = (CHR ''A'' \<le> c \<and> c \<le> CHR ''Z'' \<or> CHR ''a'' \<le> c \<and> c \<le> CHR ''z'' \<or> is_digit c \<or> c = CHR ''_'' \<or> c = CHR ''-'')"

definition word_ident :: "nat \<Rightarrow> str \<Rightarrow> bool" where
  "word_ident n s = (1 \<le> length s \<and> length s \<le> n \<and> list_all word_char s)"

definition hex64 :: "str \<Rightarrow> bool" where
  "hex64 s = (length s = 64 \<and> list_all (\<lambda>c. is_digit c \<or> CHR ''a'' \<le> c \<and> c \<le> CHR ''f'') s)"

definition test_authority :: "str \<Rightarrow> bool" where
  "test_authority a = (prefix ''INGESTION_TEST_'' a \<and> word_ident 70 (drop 15 a))"

definition grant_tx :: "env \<Rightarrow> str \<Rightarrow> grant \<Rightarrow> ledger \<Rightarrow> pyexc + unit \<times> ledger" where
  "grant_tx e authority g l =
    (if authority \<in> fst ` set (grants l) then Inl (Denied ''AUTHORITY_ALREADY_REGISTERED'')
     else if length (grants l) \<ge> 32 then Inl (Denied ''GRANT_LEDGER_BOUND'')
     else (case put_control e (l\<lparr>grants := grants l @ [(authority, g)]\<rparr>) of Inl x \<Rightarrow> Inl x | Inr l' \<Rightarrow> Inr ((), l')))"

definition grant_op :: "env \<Rightarrow> str \<Rightarrow> str list \<Rightarrow> int \<Rightarrow> int \<Rightarrow> rat \<Rightarrow> str list \<Rightarrow> str list \<Rightarrow> ledger \<Rightarrow> pyexc + unit \<times> ledger" where
  "grant_op e authority keys source_calls writes expires_at contracts detail_source_keys l =
    (let keys = sorted_set keys; contracts = sorted_set contracts;
         g = \<lparr>g_keys = keys, g_contracts = contracts, g_source_calls = source_calls, g_writes = writes,
              g_expires_at = expires_at, g_detail_source_keys = detail_source_keys\<rparr> in
     if \<not> test_authority authority then Inl (Denied ''NO_HISTORICAL_OR_LIVE_AUTHORITY'')
     else if keys = [] \<or> length keys > 1000 \<or> list_ex (\<lambda>k. \<not> hex64 k \<or> k = CONTROL) keys then Inl (Denied ''GRANT_KEYS'')
     else if \<not> (0 \<le> source_calls \<and> source_calls \<le> 1000 \<and> 0 \<le> writes \<and> writes \<le> 1000) \<or> expires_at \<le> now e
       then Inl (Denied ''GRANT_BOUNDS'')
     else if \<not> set detail_source_keys \<subseteq> set keys then Inl (Denied ''DETAIL_SOURCE_KEYS'')
     else (case bounded MAX_PAYLOAD (grant_json e g) of Inl x \<Rightarrow> Inl x | Inr _ \<Rightarrow>
       tx e (grant_tx e authority g) l))"

section \<open>Queueing work\<close>

definition limit_fields :: "(str \<times> (task_limits \<Rightarrow> int)) list" where
  "limit_fields = [(''requests'', lim_requests), (''bytes'', lim_bytes), (''worker_seconds'', lim_worker_seconds),
     (''outer_seconds'', lim_outer_seconds), (''source_rss'', lim_source_rss), (''aggregate_rss'', lim_aggregate_rss),
     (''audit_bytes'', lim_audit_bytes), (''rows'', lim_rows), (''pages'', lim_pages)]"

definition limit_in_bounds :: "str \<times> json \<Rightarrow> bool" where
  "limit_in_bounds f = (case map_of limit_fields (fst f) of None \<Rightarrow> False
     | Some sel \<Rightarrow> (case jint (Some (snd f)) of None \<Rightarrow> False | Some n \<Rightarrow> 0 < n \<and> n \<le> sel DEFAULT_LIMITS))"

definition limits_of :: "(str \<times> json) list \<Rightarrow> task_limits option" where
  "limits_of fs = (let v = int_field (JObj fs) in
     if set (map fst fs) = set (map fst limit_fields) \<and> list_all limit_in_bounds fs
     then Some \<lparr>lim_requests = v ''requests'', lim_bytes = v ''bytes'', lim_worker_seconds = v ''worker_seconds'',
       lim_outer_seconds = v ''outer_seconds'', lim_source_rss = v ''source_rss'', lim_aggregate_rss = v ''aggregate_rss'',
       lim_audit_bytes = v ''audit_bytes'', lim_rows = v ''rows'', lim_pages = v ''pages''\<rparr>
     else None)"

definition council_name :: "str \<Rightarrow> bool" where
  "council_name c = (2 \<le> length c \<and> length c \<le> 30 \<and> list_all (\<lambda>x. CHR ''a'' \<le> x \<and> x \<le> CHR ''z'') c)"

definition subject_kind :: "json \<Rightarrow> str option" where
  "subject_kind s = jstr (jget ''kind'' s)"

definition subject_council :: "json \<Rightarrow> str" where
  "subject_council s = str_or (jstr (jget ''council'' s)) []"

text \<open>\<open>date.fromisoformat(subject[k])\<close>.\<close>

definition subject_date :: "json \<Rightarrow> str \<Rightarrow> pyexc + int" where
  "subject_date s k = (case jget k s of None \<Rightarrow> Inl (KeyError k)
     | Some (JStr d) \<Rightarrow> (case iso_ordinal d of None \<Rightarrow> Inl (ValueError ''isoformat'') | Some n \<Rightarrow> Inr n)
     | Some _ \<Rightarrow> Inl TypeError)"

definition check_scope :: "json \<Rightarrow> task \<Rightarrow> pyexc + unit" where
  "check_scope s t =
    (if jstr (jget ''semantics'' s) \<notin> {Some ''VALIDATED'', Some ''RECEIVED''} then Inl (Denied ''DISCOVERY_SCOPE'')
     else (case subject_date s ''start'' of Inl x \<Rightarrow> Inl x | Inr a \<Rightarrow>
       (case subject_date s ''end'' of Inl x \<Rightarrow> Inl x | Inr b \<Rightarrow>
         if a > b then Inl (Denied ''DISCOVERY_SCOPE'')
         else if t \<notin> {DISCOVERY, LISTING_METADATA} then Inl (Denied ''SCOPE_TASK'') else Inr ())))"

definition check_subject :: "json \<Rightarrow> task \<Rightarrow> pyexc + unit" where
  "check_subject s t =
    (if subject_kind s \<notin> {Some ''DISCOVERY_SCOPE'', Some ''APPLICATION'', Some ''SCHEME''} \<or> t = CONTROL_TASK
       then Inl (Denied ''SUBJECT_OR_TASK'')
     else if (case jstr (jget ''council'' s) of None \<Rightarrow> True | Some c \<Rightarrow> \<not> council_name c) then Inl (Denied ''COUNCIL'')
     else if subject_council s = ''trafford'' then Inl (Denied ''OUT_OF_SCOPE'')
     else if subject_kind s = Some ''DISCOVERY_SCOPE'' then check_scope s t
     else if jstr (jget (if subject_kind s = Some ''APPLICATION'' then ''reference'' else ''scheme_id'') s) = None
       then Inl (Denied ''SUBJECT_IDENTITY'')
     else Inr ())"

fun task_str :: "task \<Rightarrow> str" where
  "task_str DISCOVERY = ''DISCOVERY''"
| "task_str LISTING_METADATA = ''LISTING_METADATA''"
| "task_str SCREENING = ''SCREENING''"
| "task_str FACTUAL_REFRESH = ''FACTUAL_REFRESH''"
| "task_str CONTROL_TASK = ''CONTROL''"

definition work_key :: "env \<Rightarrow> json \<Rightarrow> task \<Rightarrow> str \<Rightarrow> str \<Rightarrow> str" where
  "work_key e subject t contract revision = digest (sha e) (JObj [(''subject'', subject), (''task'', JStr (task_str t)),
     (''contract'', JStr contract), (''revision'', JStr revision)])"

section \<open>Authority and ownership\<close>

definition scope_task :: "work_item \<Rightarrow> bool" where
  "scope_task w = (w_task w \<in> {DISCOVERY, LISTING_METADATA} \<and> subject_kind (w_subject w) = Some ''DISCOVERY_SCOPE'')"

fun allowance :: "operation \<Rightarrow> grant \<Rightarrow> int" where
  "allowance SourceCalls g = g_source_calls g"
| "allowance Writes g = g_writes g"

definition applicable :: "env \<Rightarrow> str \<Rightarrow> work_item \<Rightarrow> grant \<Rightarrow> bool" where
  "applicable e k w g = (k \<in> set (g_keys g) \<and> w_contract w \<in> set (g_contracts g) \<and> now e < g_expires_at g)"

definition find_grant :: "ledger \<Rightarrow> str option \<Rightarrow> grant option" where
  "find_grant l a = (case a of None \<Rightarrow> None | Some n \<Rightarrow> map_of (grants l) n)"

definition permit :: "env \<Rightarrow> ledger \<Rightarrow> str \<Rightarrow> work_item \<Rightarrow> str option \<Rightarrow> operation option \<Rightarrow> pyexc + grant" where
  "permit e l k w authority op =
    (if global_stop l \<noteq> None then Inl (Denied ''GLOBAL_STOP'')
     else if scope_task w \<and> now e < opt_or (map_of (deferred l) (subject_council (w_subject w))) 0
       then Inl (Denied ''COUNCIL_DEFERRED'')
     else if write_barrier l k then Inl (Denied ''UNRESOLVED_WRITE_BARRIER'')
     else (case find_grant l authority of None \<Rightarrow> Inl (Denied ''NO_APPLICABLE_AUTHORITY'')
       | Some g \<Rightarrow> if \<not> applicable e k w g then Inl (Denied ''NO_APPLICABLE_AUTHORITY'')
           else if (case op of None \<Rightarrow> False | Some x \<Rightarrow> allowance x g \<le> 0) then Inl (Denied ''AUTHORITY_EXHAUSTED'')
           else Inr g))"

definition holds :: "env \<Rightarrow> claim \<Rightarrow> work_item \<Rightarrow> bool" where
  "holds e c w = (w_state w = CLAIMED \<and> w_fence w = c_fence c \<and> w_owner w = Some (c_owner c) \<and>
     (case w_lease_until w of None \<Rightarrow> False | Some t \<Rightarrow> now e < t))"

definition owned :: "env \<Rightarrow> ledger \<Rightarrow> claim \<Rightarrow> pyexc + work_item" where
  "owned e l c = (case row_of l (c_key c) of None \<Rightarrow> Inl NoResultFound
     | Some w \<Rightarrow> if \<not> holds e c w then Inl (StaleClaim ''STALE_WORKER'')
         else (case permit e l (c_key c) w (w_authority w) None of Inl x \<Rightarrow> Inl x | Inr _ \<Rightarrow> Inr w))"

section \<open>Operations\<close>

definition enqueue_tx :: "env \<Rightarrow> str \<Rightarrow> json \<Rightarrow> task \<Rightarrow> str \<Rightarrow> str \<Rightarrow> str list \<Rightarrow> int \<Rightarrow> rat \<Rightarrow> wstate \<Rightarrow> str option \<Rightarrow>
    int \<Rightarrow> task_limits \<Rightarrow> claim option \<Rightarrow> ledger \<Rightarrow> pyexc + str \<times> ledger" where
  "enqueue_tx e key subject t contract revision deps priority eligible_at state reason max_attempts lmt parent l =
    (case (case parent of None \<Rightarrow> Inr () | Some c \<Rightarrow>
        (case owned e l c of Inl x \<Rightarrow> Inl x | Inr _ \<Rightarrow>
          if c_key c \<notin> set deps then Inl (Denied ''CHILD_DEPENDENCY'') else Inr ())) of
       Inl x \<Rightarrow> Inl x
     | Inr _ \<Rightarrow>
       (case row_of l key of
          Some old \<Rightarrow>
            if w_limits old \<noteq> lmt \<or> w_max_attempts old \<noteq> max_attempts then Inl (Denied ''CONFLICTING_DUPLICATE_TASK'')
            else if w_dependencies old \<noteq> deps \<and> \<not> (parent \<noteq> None \<and> t = SCREENING) then Inl (Denied ''CONFLICTING_DUPLICATE_TASK'')
            else Inr (key, l)
        | None \<Rightarrow>
            if list_ex (\<lambda>k. k = key \<or> row_of l k = None) deps then Inl (Denied ''DEPENDENCIES_MUST_EXIST'')
            else Inr (key, set_row key \<lparr>w_subject = subject, w_task = t, w_contract = contract, w_revision = revision,
              w_dependencies = deps, w_priority = priority, w_eligible_at = eligible_at, w_state = state, w_reason = reason,
              w_next_action = (if state \<in> BLOCKED then ''REVIEW'' else ''CLAIM_WHEN_AUTHORISED''), w_limits = lmt,
              w_authority = None, w_attempt_count = 0, w_max_attempts = max_attempts, w_fence = 0, w_owner = None,
              w_lease_until = None, w_phase = IDLE, w_checkpoint = None, w_outcome = None\<rparr> l)))"

definition enqueue_op :: "env \<Rightarrow> json \<Rightarrow> task \<Rightarrow> str \<Rightarrow> str \<Rightarrow> str list \<Rightarrow> int \<Rightarrow> rat \<Rightarrow> wstate \<Rightarrow> str option \<Rightarrow> int \<Rightarrow>
    (str \<times> json) list option \<Rightarrow> claim option \<Rightarrow> ledger \<Rightarrow> pyexc + str \<times> ledger" where
  "enqueue_op e subject0 t contract revision dependencies priority eligible_at state reason max_attempts limits0 parent l =
    (case bounded 4096 subject0 of Inl x \<Rightarrow> Inl x | Inr subject \<Rightarrow>
     case check_subject subject t of Inl x \<Rightarrow> Inl x | Inr _ \<Rightarrow>
     if \<not> (1 \<le> length contract \<and> length contract \<le> 100 \<and> 1 \<le> length revision \<and> length revision \<le> 100)
       then Inl (Denied ''VERSION_BOUND'')
     else if state \<notin> {QUEUED, DEFERRED} \<union> BLOCKED then Inl (Denied ''INITIAL_STATE'')
     else if state \<noteq> QUEUED \<and> \<not> truthy reason then Inl (Denied ''BLOCK_REASON_REQUIRED'')
     else if \<not> (0 \<le> priority \<and> priority \<le> 100 \<and> 1 \<le> max_attempts \<and> max_attempts \<le> 3) then Inl (Denied ''TASK_BOUNDS'')
     else (case (case limits0 of None \<Rightarrow> Some DEFAULT_LIMITS | Some fs \<Rightarrow> limits_of fs) of
         None \<Rightarrow> Inl (Denied ''RESOURCE_LIMITS'')
       | Some lmt \<Rightarrow>
         let deps = sorted_set dependencies in
         if length deps > 32 then Inl (Denied ''DEPENDENCY_BOUND'')
         else tx e (enqueue_tx e (work_key e subject t contract revision) subject t contract revision deps priority
                eligible_at state reason max_attempts lmt parent) l))"

fun deps_complete :: "ledger \<Rightarrow> str list \<Rightarrow> pyexc + unit" where
  "deps_complete l [] = Inr ()"
| "deps_complete l (d # ds) = (case row_of l d of None \<Rightarrow> Inl NoResultFound
     | Some w \<Rightarrow> if w_state w \<noteq> COMPLETE then Inl (Denied ''DEPENDENCY_UNFINISHED'') else deps_complete l ds)"

definition eligible :: "env \<Rightarrow> work_item \<Rightarrow> bool" where
  "eligible e w = (w_state w \<in> {QUEUED, DEFERRED} \<and> w_eligible_at w \<le> now e \<and> w_attempt_count w < w_max_attempts w)"

definition claim_tx :: "env \<Rightarrow> str \<Rightarrow> str \<Rightarrow> str \<Rightarrow> rat \<Rightarrow> ledger \<Rightarrow> pyexc + claim \<times> ledger" where
  "claim_tx e key owner authority lease_seconds l =
    (case row_of l key of None \<Rightarrow> Inl NoResultFound | Some w \<Rightarrow>
     (case permit e l key w (Some authority) None of Inl x \<Rightarrow> Inl x | Inr _ \<Rightarrow>
      if \<not> eligible e w then Inl (Denied ''NOT_ELIGIBLE'')
      else (case deps_complete l (w_dependencies w) of Inl x \<Rightarrow> Inl x | Inr _ \<Rightarrow>
        let fence = w_fence w + 1 in
        Inr (\<lparr>c_key = key, c_fence = fence, c_owner = owner\<rparr>,
          add_attempt key fence \<lparr>a_owner = owner, a_started_at = now e, a_finished_at = None, a_authority = authority,
              a_phase = PH_CLAIMED, a_outcome = None, a_checkpoint = w_checkpoint w\<rparr>
            (set_row key (w\<lparr>w_state := CLAIMED, w_owner := Some owner, w_authority := Some authority, w_fence := fence,
              w_lease_until := Some (now e + lease_seconds), w_attempt_count := w_attempt_count w + 1,
              w_phase := PH_CLAIMED, w_reason := None, w_next_action := ''EXECUTE_APPROVED_STAGE''\<rparr>) l)))))"

definition claim_op :: "env \<Rightarrow> str \<Rightarrow> str \<Rightarrow> str \<Rightarrow> rat \<Rightarrow> ledger \<Rightarrow> pyexc + claim \<times> ledger" where
  "claim_op e key owner authority lease_seconds l =
    (if \<not> word_ident 100 owner \<or> \<not> (1 \<le> lease_seconds \<and> lease_seconds \<le> 480) then Inl (Denied ''CLAIM_BOUND'')
     else tx e (claim_tx e key owner authority lease_seconds) l)"

text \<open>
  The finite candidate scan of \<open>claim_next\<close> runs in a transaction of its own; the claims that
  follow are one transaction each, and one that is denied moves on to the next candidate.
\<close>

definition candidate_order :: "str \<times> work_item \<Rightarrow> int \<times> rat \<times> str" where
  "candidate_order c = (- w_priority (snd c), w_eligible_at (snd c), fst c)"

definition candidates :: "env \<Rightarrow> grant \<Rightarrow> ledger \<Rightarrow> str list" where
  "candidates e g l = map fst (take 1000 (sort_key candidate_order
     (filter (\<lambda>(k, w). k \<in> set (g_keys g) \<and> eligible e w) (items l))))"

definition scan_tx :: "env \<Rightarrow> str \<Rightarrow> ledger \<Rightarrow> pyexc + str list \<times> ledger" where
  "scan_tx e authority l = (case map_of (grants l) authority of None \<Rightarrow> Inl (Denied ''NO_APPLICABLE_AUTHORITY'')
     | Some g \<Rightarrow> Inr (candidates e g l, l))"

fun claim_first :: "env \<Rightarrow> str \<Rightarrow> str \<Rightarrow> str list \<Rightarrow> ledger \<Rightarrow> pyexc + claim option \<times> ledger" where
  "claim_first e owner authority [] l = Inr (None, l)"
| "claim_first e owner authority (k # ks) l = (case claim_op e k owner authority 120 l of
     Inr (c, l') \<Rightarrow> Inr (Some c, l')
   | Inl x \<Rightarrow> if is_denied x then claim_first e owner authority ks l else Inl x)"

text \<open>An exception from a later claim leaves the scan's committed transaction in place.\<close>

definition claim_next_op :: "env \<Rightarrow> str \<Rightarrow> str \<Rightarrow> ledger \<Rightarrow> ledger \<times> (pyexc + claim option)" where
  "claim_next_op e owner authority l = (case tx e (scan_tx e authority) l of
     Inl x \<Rightarrow> (l, Inl x)
   | Inr (ks, l1) \<Rightarrow> (case claim_first e owner authority ks l1 of Inl x \<Rightarrow> (l1, Inl x) | Inr (c, l2) \<Rightarrow> (l2, Inr c)))"

definition is_object :: "json \<Rightarrow> bool" where
  "is_object v = (case v of JObj _ \<Rightarrow> True | _ \<Rightarrow> False)"

definition source_closure :: "json \<Rightarrow> task_limits \<Rightarrow> pyexc + unit" where
  "source_closure evidence lmt =
    (if \<not> is_object evidence then Inl AttributeError
     else if jget ''cleanup'' evidence \<noteq> Some (JStr ''CLOSED'') \<or> jget ''accounting_complete'' evidence \<noteq> Some (JBool True)
       then Inl (Denied ''SOURCE_CLOSURE_REQUIRED'')
     else (let outer = opt_or (jget ''outer_supervisor'' evidence) (JObj []) in
       if \<not> is_object outer then Inl AttributeError else validate_outer outer lmt))"

text \<open>A nullable JSON column: \<open>None\<close> is what a stored null reads as.\<close>

definition json_column :: "json \<Rightarrow> json option" where
  "json_column v = (if v = JNull then None else Some v)"

text \<open>What both \<open>checkpoint\<close> and a resolving \<open>finish\<close> ask of evidence, by the phase the row is in.\<close>

definition admit_evidence :: "json \<Rightarrow> work_item \<Rightarrow> pyexc + unit" where
  "admit_evidence evidence w =
    (if w_phase w = WRITE_INTENT then Inl (Denied ''WRITE_READBACK_REQUIRED'')
     else if w_phase w = SOURCE_INTENT then source_closure evidence (w_limits w) else Inr ())"

definition checkpoint_tx :: "env \<Rightarrow> claim \<Rightarrow> json \<Rightarrow> ledger \<Rightarrow> pyexc + unit \<times> ledger" where
  "checkpoint_tx e c evidence l =
    (case owned e l c of Inl x \<Rightarrow> Inl x | Inr w \<Rightarrow>
     case admit_evidence evidence w of Inl x \<Rightarrow> Inl x | Inr _ \<Rightarrow>
       Inr ((), upd_attempt (c_key c) (c_fence c) (\<lambda>a. a\<lparr>a_checkpoint := json_column evidence, a_phase := CHECKPOINTED\<rparr>)
         (set_row (c_key c) (w\<lparr>w_checkpoint := json_column evidence, w_phase := CHECKPOINTED\<rparr>) l)))"

definition checkpoint_op :: "env \<Rightarrow> claim \<Rightarrow> json \<Rightarrow> ledger \<Rightarrow> pyexc + unit \<times> ledger" where
  "checkpoint_op e c evidence0 l = (case bounded MAX_PAYLOAD evidence0 of Inl x \<Rightarrow> Inl x
     | Inr evidence \<Rightarrow> tx e (checkpoint_tx e c evidence) l)"

fun spend :: "operation \<Rightarrow> int \<Rightarrow> grant \<Rightarrow> grant" where
  "spend SourceCalls n g = g\<lparr>g_source_calls := g_source_calls g - n\<rparr>"
| "spend Writes n g = g\<lparr>g_writes := g_writes g - n\<rparr>"

fun intent_phase :: "operation \<Rightarrow> phase" where
  "intent_phase SourceCalls = SOURCE_INTENT"
| "intent_phase Writes = WRITE_INTENT"

definition may_call_source :: "ledger \<Rightarrow> str \<Rightarrow> work_item \<Rightarrow> bool" where
  "may_call_source l k w = (scope_task w \<or>
     (w_task w = FACTUAL_REFRESH \<and> subject_kind (w_subject w) = Some ''APPLICATION'' \<and>
      (case find_grant l (w_authority w) of None \<Rightarrow> False | Some g \<Rightarrow> k \<in> set (g_detail_source_keys g))))"

definition set_grant :: "str option \<Rightarrow> grant \<Rightarrow> ledger \<Rightarrow> ledger" where
  "set_grant a g l = (case a of None \<Rightarrow> l | Some n \<Rightarrow> l\<lparr>grants := AList.update n g (grants l)\<rparr>)"

definition intent_tx :: "env \<Rightarrow> claim \<Rightarrow> operation \<Rightarrow> int \<Rightarrow> ledger \<Rightarrow> pyexc + unit \<times> ledger" where
  "intent_tx e c op cost l =
    (case owned e l c of Inl x \<Rightarrow> Inl x | Inr w \<Rightarrow>
     if w_phase w \<notin> {PH_CLAIMED, CHECKPOINTED} then Inl (Denied ''UNRESOLVED_INTENT'')
     else if op = Writes \<and> w_task w \<noteq> FACTUAL_REFRESH then Inl (Denied ''TASK_OPERATION'')
     else if op = SourceCalls \<and> \<not> may_call_source l (c_key c) w then Inl (Denied ''TASK_OPERATION'')
     else if op = SourceCalls \<and> w_checkpoint w \<noteq> None then Inl (Denied ''SOURCE_REPLAY'')
     else (case permit e l (c_key c) w (w_authority w) (Some op) of Inl x \<Rightarrow> Inl x | Inr g \<Rightarrow>
       if allowance op g < cost then Inl (Denied ''AUTHORITY_EXHAUSTED'')
       else (case put_control e (set_grant (w_authority w) (spend op cost g) l) of Inl x \<Rightarrow> Inl x | Inr l1 \<Rightarrow>
         Inr ((), upd_attempt (c_key c) (c_fence c) (\<lambda>a. a\<lparr>a_phase := intent_phase op\<rparr>)
           (set_row (c_key c) (w\<lparr>w_phase := intent_phase op\<rparr>) l1)))))"

definition intent_op :: "env \<Rightarrow> claim \<Rightarrow> operation \<Rightarrow> int \<Rightarrow> ledger \<Rightarrow> pyexc + unit \<times> ledger" where
  "intent_op e c op cost l =
    (if \<not> (1 \<le> cost \<and> cost \<le> 2) \<or> (cost = 2 \<and> op \<noteq> Writes) then Inl (Denied ''OPERATION'')
     else tx e (intent_tx e c op cost) l)"

text \<open>\<open>deferred[council] = max(deferred.get(council, 0), until)\<close>, then the control row is written.\<close>

definition defer_until :: "env \<Rightarrow> str \<Rightarrow> rat \<Rightarrow> ledger \<Rightarrow> pyexc + ledger" where
  "defer_until e council til l =
     put_control e (l\<lparr>deferred := AList.update council (max (opt_or (map_of (deferred l) council) 0) til) (deferred l)\<rparr>)"

text \<open>A receipt of \<open>None\<close> is no receipt.\<close>

definition resolve_receipt :: "claim \<Rightarrow> json option \<Rightarrow> work_item \<Rightarrow> ledger \<Rightarrow> pyexc + work_item \<times> ledger" where
  "resolve_receipt c receipt w l = (case Option.bind receipt json_column of None \<Rightarrow> Inr (w, l) | Some r \<Rightarrow>
     (case bounded MAX_PAYLOAD r of Inl x \<Rightarrow> Inl x | Inr r' \<Rightarrow>
      case admit_evidence r' w of Inl x \<Rightarrow> Inl x | Inr _ \<Rightarrow>
        let w' = w\<lparr>w_checkpoint := json_column r', w_phase := CHECKPOINTED\<rparr> in
        Inr (w', upd_attempt (c_key c) (c_fence c) (\<lambda>a. a\<lparr>a_checkpoint := json_column r'\<rparr>) l)))"

definition finish_tx :: "env \<Rightarrow> claim \<Rightarrow> json \<Rightarrow> wstate \<Rightarrow> str option \<Rightarrow> rat \<Rightarrow> json option \<Rightarrow> rat \<Rightarrow> ledger \<Rightarrow> pyexc + unit \<times> ledger" where
  "finish_tx e c outcome state reason delay receipt defer_seconds l0 =
    (case owned e l0 c of Inl x \<Rightarrow> Inl x | Inr w0 \<Rightarrow>
     case resolve_receipt c receipt w0 l0 of Inl x \<Rightarrow> Inl x | Inr (w, l) \<Rightarrow>
     if w_phase w \<in> {SOURCE_INTENT, WRITE_INTENT} then Inl (Denied ''UNRESOLVED_INTENT'')
     else (case (if defer_seconds = 0 then Inr l
             else defer_until e (subject_council (w_subject w)) (now e + defer_seconds) l) of Inl x \<Rightarrow> Inl x | Inr l1 \<Rightarrow>
       case (if state = PERSISTENCE_UNCERTAIN
             then put_control e (l1\<lparr>global_stop := Some (JObj [(''reason'', JStr ''UNCERTAIN_PERSISTENCE'')])\<rparr>)
             else Inr l1) of Inl x \<Rightarrow> Inl x | Inr l2 \<Rightarrow>
         Inr ((), upd_attempt (c_key c) (c_fence c)
             (\<lambda>a. a\<lparr>a_finished_at := Some (now e), a_phase := FINISHED, a_outcome := json_column outcome\<rparr>)
           (set_row (c_key c) (w\<lparr>w_state := state, w_reason := reason, w_outcome := json_column outcome,
              w_eligible_at := now e + delay, w_owner := None, w_lease_until := None, w_phase := FINISHED,
              w_next_action := (if state = COMPLETE then ''NONE'' else if state \<in> BLOCKED then ''REVIEW''
                 else ''WAIT_THEN_RECHECK_AUTHORITY'')\<rparr>) l2))))"

definition finish_op :: "env \<Rightarrow> claim \<Rightarrow> json \<Rightarrow> wstate \<Rightarrow> str option \<Rightarrow> rat \<Rightarrow> json option \<Rightarrow> rat \<Rightarrow> ledger \<Rightarrow> pyexc + unit \<times> ledger" where
  "finish_op e c outcome0 state reason delay receipt defer_seconds l =
    (case bounded MAX_PAYLOAD outcome0 of Inl x \<Rightarrow> Inl x | Inr outcome \<Rightarrow>
     if state \<notin> {COMPLETE, DEFERRED} \<union> BLOCKED \<or> \<not> (0 \<le> delay \<and> delay \<le> 86400) \<or> \<not> (0 \<le> defer_seconds \<and> defer_seconds \<le> 86400)
       then Inl (Denied ''OUTCOME_STATE'')
     else if state \<noteq> COMPLETE \<and> \<not> truthy reason then Inl (Denied ''OUTCOME_REASON'')
     else tx e (finish_tx e c outcome state reason delay receipt defer_seconds) l)"

definition defer_tx :: "env \<Rightarrow> str \<Rightarrow> rat \<Rightarrow> ledger \<Rightarrow> pyexc + unit \<times> ledger" where
  "defer_tx e council til l = (case defer_until e council til l of Inl x \<Rightarrow> Inl x | Inr l' \<Rightarrow> Inr ((), l'))"

definition defer_council_op :: "env \<Rightarrow> str \<Rightarrow> rat \<Rightarrow> ledger \<Rightarrow> pyexc + unit \<times> ledger" where
  "defer_council_op e council til l =
    (if \<not> (now e < til \<and> til \<le> now e + 86400) then Inl (Denied ''COUNCIL_DEFER_BOUND'')
     else tx e (defer_tx e council til) l)"

definition stop_claim :: "env \<Rightarrow> str \<Rightarrow> claim option \<Rightarrow> bool \<Rightarrow> ledger \<Rightarrow> pyexc + unit \<times> ledger" where
  "stop_claim e reason c uncertain l = (case c of None \<Rightarrow> Inr ((), l) | Some c \<Rightarrow>
     (case row_of l (c_key c) of None \<Rightarrow> Inl NoResultFound | Some w \<Rightarrow>
       if w_state w = CLAIMED \<and> w_fence w = c_fence c \<and> w_owner w = Some (c_owner c) then
         let state = (if uncertain then PERSISTENCE_UNCERTAIN else SAFETY_BLOCKED);
             outcome = JObj [(''outcome'', JStr (if uncertain then ''PERSISTENCE_UNCERTAIN'' else ''SAFETY_BLOCKED'')),
                             (''reason'', JStr reason)] in
         Inr ((), upd_attempt (c_key c) (c_fence c) (\<lambda>a. a\<lparr>a_finished_at := Some (now e), a_outcome := Some outcome\<rparr>)
           (set_row (c_key c) (w\<lparr>w_state := state, w_reason := Some reason, w_outcome := Some outcome, w_owner := None,
              w_lease_until := None, w_fence := w_fence w + 1, w_next_action := ''RECONCILE''\<rparr>) l))
       else Inr ((), l)))"

definition stop_tx :: "env \<Rightarrow> str \<Rightarrow> claim option \<Rightarrow> bool \<Rightarrow> ledger \<Rightarrow> pyexc + unit \<times> ledger" where
  "stop_tx e reason c uncertain l =
    (case bounded 4096 (JObj [(''reason'', JStr reason)]) of Inl x \<Rightarrow> Inl x | Inr v \<Rightarrow>
     case put_control e (l\<lparr>global_stop := Some v\<rparr>) of Inl x \<Rightarrow> Inl x | Inr l1 \<Rightarrow> stop_claim e reason c uncertain l1)"

definition stop_op :: "env \<Rightarrow> str \<Rightarrow> claim option \<Rightarrow> bool \<Rightarrow> ledger \<Rightarrow> pyexc + unit \<times> ledger" where
  "stop_op e reason c uncertain l = tx e (stop_tx e reason c uncertain) l"

fun phase_str :: "phase \<Rightarrow> str" where
  "phase_str IDLE = ''IDLE''"
| "phase_str PH_CLAIMED = ''CLAIMED''"
| "phase_str CHECKPOINTED = ''CHECKPOINTED''"
| "phase_str SOURCE_INTENT = ''SOURCE_INTENT''"
| "phase_str WRITE_INTENT = ''WRITE_INTENT''"
| "phase_str FINISHED = ''FINISHED''"
| "phase_str RECOVERED = ''RECOVERED''"

definition recovered_state :: "phase \<Rightarrow> bool \<Rightarrow> wstate" where
  "recovered_state ph cleanup_closed = (if ph = WRITE_INTENT then PERSISTENCE_UNCERTAIN
     else if ph = SOURCE_INTENT \<or> \<not> cleanup_closed then SAFETY_BLOCKED else DEFERRED)"

definition abandoned_stop :: "str \<Rightarrow> json" where
  "abandoned_stop key = JObj [(''reason'', JStr ''ABANDONED_EFFECT_OR_UNCERTAIN_ACCOUNTING_CLEANUP''), (''work_key'', JStr key)]"

definition recover_tx :: "env \<Rightarrow> claim \<Rightarrow> bool \<Rightarrow> ledger \<Rightarrow> pyexc + unit \<times> ledger" where
  "recover_tx e c cleanup_closed l =
    (case row_of l (c_key c) of None \<Rightarrow> Inl NoResultFound | Some w \<Rightarrow>
     if \<not> (w_state w = CLAIMED \<and> w_fence w = c_fence c \<and> w_owner w = Some (c_owner c) \<and>
           (case w_lease_until w of None \<Rightarrow> False | Some t \<Rightarrow> t \<le> now e)) then Inl (Denied ''RECOVERY_BOUNDARY'')
     else
       let ph = w_phase w; state = recovered_state ph cleanup_closed; label = ''ABANDONED_'' @ phase_str ph;
           outcome = JObj [(''outcome'', JStr label), (''source_or_write_replay_authorised'', JBool False),
                           (''cleanup_closed'', JBool cleanup_closed)] in
       (case (if state \<in> BLOCKED then put_control e (l\<lparr>global_stop := Some (abandoned_stop (c_key c))\<rparr>) else Inr l) of
          Inl x \<Rightarrow> Inl x | Inr l1 \<Rightarrow>
          Inr ((), upd_attempt (c_key c) (c_fence c)
              (\<lambda>a. a\<lparr>a_finished_at := Some (now e), a_phase := RECOVERED, a_outcome := Some outcome\<rparr>)
            (set_row (c_key c) (w\<lparr>w_state := state, w_reason := Some label, w_owner := None, w_lease_until := None,
               w_fence := w_fence w + 1, w_outcome := Some outcome,
               w_next_action := (if state \<in> BLOCKED then ''RECONCILE'' else ''CLAIM_OFFLINE_CHECKPOINT_ONLY''),
               w_phase := RECOVERED\<rparr>) l1))))"

definition recover_op :: "env \<Rightarrow> claim \<Rightarrow> bool \<Rightarrow> ledger \<Rightarrow> pyexc + unit \<times> ledger" where
  "recover_op e c cleanup_closed l = tx e (recover_tx e c cleanup_closed) l"

text \<open>
  A guarded effect: the shared writer runs inside the transaction, after the durable write
  intent. \<open>commit_ack\<close> is what the caller learns of the commit: acknowledged, lost after it was
  applied, or lost and rolled back. Once the writer was entered, any failure stops the ledger.
\<close>

datatype commit_ack = Acknowledged | LostApplied | LostRolledBack

definition fenced_tx :: "env \<Rightarrow> claim \<Rightarrow> (work_item \<Rightarrow> pyexc + json) \<Rightarrow> ledger \<Rightarrow> pyexc + json \<times> ledger" where
  "fenced_tx e c writer l =
    (case owned e l c of Inl x \<Rightarrow> Inl x | Inr w \<Rightarrow>
     if w_phase w \<noteq> WRITE_INTENT then Inl (Denied ''WRITE_INTENT_REQUIRED'')
     else (case writer w of Inl x \<Rightarrow> Inl x | Inr v0 \<Rightarrow>
       case bounded MAX_PAYLOAD v0 of Inl x \<Rightarrow> Inl x | Inr v \<Rightarrow>
         Inr (v, upd_attempt (c_key c) (c_fence c) (\<lambda>a. a\<lparr>a_checkpoint := json_column v, a_phase := CHECKPOINTED\<rparr>)
           (set_row (c_key c) (w\<lparr>w_checkpoint := json_column v, w_phase := CHECKPOINTED\<rparr>) l))))"

definition entered :: "env \<Rightarrow> claim \<Rightarrow> ledger \<Rightarrow> bool" where
  "entered e c l = (row_of l CONTROL \<noteq> None \<and>
     (case owned e (reserve e l) c of Inl _ \<Rightarrow> False | Inr w \<Rightarrow> w_phase w = WRITE_INTENT))"

definition uncertain_stop :: "env \<Rightarrow> claim \<Rightarrow> ledger \<Rightarrow> ledger \<times> (pyexc + json)" where
  "uncertain_stop e c l = (case stop_op e ''UNCERTAIN_COMMIT_OR_READBACK'' (Some c) True l of
     Inl _ \<Rightarrow> (l, Inl (UncertainPersistence ''RECONCILE_BEFORE_ANY_WRITE''))
   | Inr (_, l') \<Rightarrow> (l', Inl (UncertainPersistence ''RECONCILE_BEFORE_ANY_WRITE'')))"

definition fenced_effect_op :: "env \<Rightarrow> claim \<Rightarrow> (work_item \<Rightarrow> pyexc + json) \<Rightarrow> commit_ack \<Rightarrow> ledger \<Rightarrow> ledger \<times> (pyexc + json)" where
  "fenced_effect_op e c writer ack l =
    (case tx e (fenced_tx e c writer) l of
       Inl x \<Rightarrow> if entered e c l then uncertain_stop e c l else (l, Inl x)
     | Inr (v, l') \<Rightarrow> (case ack of Acknowledged \<Rightarrow> (l', Inr v)
         | LostApplied \<Rightarrow> uncertain_stop e c l'
         | LostRolledBack \<Rightarrow> uncertain_stop e c l))"

section \<open>Reading, removing\<close>

definition get_op :: "str \<Rightarrow> ledger \<Rightarrow> pyexc + work_item" where
  "get_op key l = (case row_of l key of None \<Rightarrow> Inl NoResultFound | Some w \<Rightarrow> Inr w)"

text \<open>\<open>schema.uninstall_empty\<close>: the tables are dropped only while they hold no evidence.\<close>

definition uninstall_empty :: "ledger \<Rightarrow> pyexc + unit" where
  "uninstall_empty l = (if attempts l \<noteq> [] \<or> list_ex (\<lambda>(k, w). k \<noteq> CONTROL) (items l)
     then Inl (ValueError ''PRESERVE_POPULATED_LEDGER'') else Inr ())"

section \<open>The ledger as a state machine\<close>

datatype call =
    Grant str "str list" int int rat "str list" "str list"
  | Enqueue json task str str "str list" int rat wstate "str option" int "(str \<times> json) list option" "claim option"
  | ClaimKey str str str rat
  | ClaimNext str str
  | Checkpoint claim json
  | Intent claim operation int
  | Finish claim json wstate "str option" rat "json option" rat
  | DeferCouncil str rat
  | Stop str "claim option" bool
  | Recover claim bool
  | FencedEffect claim "work_item \<Rightarrow> pyexc + json" commit_ack

text \<open>An operation that raises leaves the ledger it was called on.\<close>

definition after :: "ledger \<Rightarrow> pyexc + 'a \<times> ledger \<Rightarrow> ledger" where
  "after l r = (case r of Inl _ \<Rightarrow> l | Inr (_, l') \<Rightarrow> l')"

fun ledger_step :: "ledger \<Rightarrow> env \<times> call \<Rightarrow> ledger" where
  "ledger_step l (e, Grant a ks sc w x cs ds) = after l (grant_op e a ks sc w x cs ds l)"
| "ledger_step l (e, Enqueue s t c r ds p x st re m lm pc) = after l (enqueue_op e s t c r ds p x st re m lm pc l)"
| "ledger_step l (e, ClaimKey k w a s) = after l (claim_op e k w a s l)"
| "ledger_step l (e, ClaimNext w a) = fst (claim_next_op e w a l)"
| "ledger_step l (e, Checkpoint c v) = after l (checkpoint_op e c v l)"
| "ledger_step l (e, Intent c op n) = after l (intent_op e c op n l)"
| "ledger_step l (e, Finish c out st re d rc ds) = after l (finish_op e c out st re d rc ds l)"
| "ledger_step l (e, DeferCouncil co u) = after l (defer_council_op e co u l)"
| "ledger_step l (e, Stop re c u) = after l (stop_op e re c u l)"
| "ledger_step l (e, Recover c cl) = after l (recover_op e c cl l)"
| "ledger_step l (e, FencedEffect c wr ack) = fst (fenced_effect_op e c wr ack l)"

end
