(* ===== verification/LedgerSafety.thy ===== *)
theory LedgerSafety
  imports Ledger
begin

text \<open>
  What the ledger keeps true. \<open>row_move\<close> is the life of one work item, one rule per kind of
  change; \<open>ledger_step_moves\<close> shows that every operation of the ledger only ever moves rows
  along it (a refinement of the abstract life cycle), so a property of the moves is a property of every run.
\<close>

section \<open>Rows after an update\<close>

lemma row_of_set_row [simp]: "row_of (set_row k w l) = (row_of l)(k \<mapsto> w)"
  by (simp add: row_of_def set_row_def update_conv' fun_eq_iff)

lemma row_of_upd_attempt [simp]: "row_of (upd_attempt k f u l) = row_of l"
  and row_of_add_attempt [simp]: "row_of (add_attempt k f a l) = row_of l"
  and row_of_set_grant [simp]: "row_of (set_grant nm g l) = row_of l"
  by (simp_all add: row_of_def upd_attempt_def add_attempt_def set_grant_def fun_eq_iff split: option.split)

lemma row_of_fields [simp]:
  "row_of (l\<lparr>global_stop := s\<rparr>) = row_of l" "row_of (l\<lparr>grants := g\<rparr>) = row_of l"
  "row_of (l\<lparr>deferred := d\<rparr>) = row_of l"
  by (simp_all add: row_of_def fun_eq_iff)

lemma put_control_Inr [ok_simps]: "(put_control e l = Inr l') = (length (dumps (control_json e l)) \<le> MAX_PAYLOAD \<and> l' = l)"
  by (auto simp: put_control_def bounded_def)

lemma defer_until_Inr:
  "defer_until e co til l = Inr l' \<Longrightarrow> \<exists>d. l' = l\<lparr>deferred := d\<rparr>"
  by (auto simp: defer_until_def ok_simps)

lemma tx_Inr:
  "(tx e body l = Inr (a, l')) = (row_of l CONTROL \<noteq> None \<and> body (reserve e l) = Inr (a, l') \<and> ceilings e l' = Inr ())"
  by (auto simp: tx_def split: sum.splits)

lemma owned_Inr:
  "owned e l c = Inr w \<Longrightarrow>
    row_of l (c_key c) = Some w \<and> holds e c w \<and> global_stop l = None \<and> \<not> write_barrier l (c_key c) \<and>
    (\<exists>g. find_grant l (w_authority w) = Some g \<and> applicable e (c_key c) w g)"
  by (auto simp: owned_def permit_def split: option.splits sum.splits if_splits)

lemma permit_Inr:
  "permit e l k w a op = Inr g \<Longrightarrow> global_stop l = None \<and> \<not> write_barrier l k \<and> find_grant l a = Some g \<and>
    applicable e k w g \<and> (case op of None \<Rightarrow> True | Some x \<Rightarrow> 0 < allowance x g)"
  by (auto simp: permit_def split: option.splits if_splits)

section \<open>The life of a row\<close>

text \<open>\<open>b\<close> marks an \<open>intent\<close> call and \<open>z\<close> that null evidence is stored on the row.\<close>

inductive row_move :: "bool \<Rightarrow> bool \<Rightarrow> work_item option \<Rightarrow> work_item option \<Rightarrow> bool" for b z where
  create: "w_state w \<in> {QUEUED, DEFERRED} \<union> BLOCKED \<Longrightarrow> w_attempt_count w = 0 \<Longrightarrow> w_fence w = 0 \<Longrightarrow>
    1 \<le> w_max_attempts w \<Longrightarrow> w_max_attempts w \<le> 3 \<Longrightarrow> w_phase w = IDLE \<Longrightarrow> w_owner w = None \<Longrightarrow> w_lease_until w = None \<Longrightarrow>
    w_checkpoint w = None \<Longrightarrow> row_move b z None (Some w)"
| take: "w_state w \<in> {QUEUED, DEFERRED} \<Longrightarrow> w_attempt_count w < w_max_attempts w \<Longrightarrow>
    row_move b z (Some w) (Some (w\<lparr>w_state := CLAIMED, w_owner := Some o', w_authority := Some a, w_fence := w_fence w + 1,
      w_lease_until := Some t, w_attempt_count := w_attempt_count w + 1, w_phase := PH_CLAIMED, w_reason := None,
      w_next_action := n\<rparr>))"
| seal: "w_state w = CLAIMED \<Longrightarrow> v \<noteq> None \<or> z \<Longrightarrow>
    row_move b z (Some w) (Some (w\<lparr>w_checkpoint := v, w_phase := CHECKPOINTED\<rparr>))"
| intend: "b \<Longrightarrow> w_state w = CLAIMED \<Longrightarrow> w_phase w \<in> {PH_CLAIMED, CHECKPOINTED} \<Longrightarrow> p \<in> {SOURCE_INTENT, WRITE_INTENT} \<Longrightarrow>
    (p = SOURCE_INTENT \<longrightarrow> w_checkpoint w = None) \<Longrightarrow> row_move b z (Some w) (Some (w\<lparr>w_phase := p\<rparr>))"
| close_out: "w_state w = CLAIMED \<Longrightarrow> w_phase w \<notin> {SOURCE_INTENT, WRITE_INTENT} \<Longrightarrow> s \<in> {COMPLETE, DEFERRED} \<union> BLOCKED \<Longrightarrow>
    row_move b z (Some w) (Some (w\<lparr>w_state := s, w_reason := r, w_outcome := v, w_eligible_at := t, w_owner := None,
      w_lease_until := None, w_phase := FINISHED, w_next_action := n\<rparr>))"
| halt: "w_state w = CLAIMED \<Longrightarrow> s \<in> {SAFETY_BLOCKED, PERSISTENCE_UNCERTAIN} \<Longrightarrow>
    row_move b z (Some w) (Some (w\<lparr>w_state := s, w_reason := r, w_outcome := v, w_owner := None, w_lease_until := None,
      w_fence := w_fence w + 1, w_next_action := n\<rparr>))"
| salvage: "w_state w = CLAIMED \<Longrightarrow> s = recovered_state (w_phase w) cl \<Longrightarrow>
    row_move b z (Some w) (Some (w\<lparr>w_state := s, w_reason := r, w_owner := None, w_lease_until := None,
      w_fence := w_fence w + 1, w_outcome := v, w_next_action := n, w_phase := RECOVERED\<rparr>))"
| bump: "w_state w = CONTROL_STATE \<Longrightarrow> row_move b z (Some w) (Some (w\<lparr>w_fence := w_fence w + 1\<rparr>))"

inductive_cases row_moveE: "row_move b z r r'"

text \<open>
  What one call may do to the ledger; \<open>z\<close> holds of the keys it stores null evidence under. \<open>b\<close> marks an \<open>intent\<close> call: only there a row may
  enter an intent phase or a registered allowance change.
\<close>

definition grants_kept :: "ledger \<Rightarrow> ledger \<Rightarrow> bool" where
  "grants_kept l l' = (\<forall>a. case map_of (grants l) a of Some g \<Rightarrow> map_of (grants l') a = Some g
     | None \<Rightarrow> (\<forall>g. map_of (grants l') a = Some g \<longrightarrow> 0 \<le> g_source_calls g \<and> 0 \<le> g_writes g))"

definition moves :: "bool \<Rightarrow> (str \<Rightarrow> bool) \<Rightarrow> ledger \<Rightarrow> ledger \<Rightarrow> bool" where
  "moves b z l l' = ((\<forall>k. (row_move b (z k))\<^sup>*\<^sup>* (row_of l k) (row_of l' k)) \<and> (global_stop l \<noteq> None \<longrightarrow> global_stop l' \<noteq> None) \<and>
     (\<not> b \<longrightarrow> grants_kept l l'))"

lemma grants_kept_same: "grants l' = grants l \<Longrightarrow> grants_kept l l'"
  by (auto simp: grants_kept_def split: option.split)

lemma grants_kept_trans:
  assumes "grants_kept x y" and "grants_kept y z" shows "grants_kept x z"
  unfolding grants_kept_def
proof
  fix a
  have "case map_of (grants x) a of Some g \<Rightarrow> map_of (grants y) a = Some g
      | None \<Rightarrow> (\<forall>g. map_of (grants y) a = Some g \<longrightarrow> 0 \<le> g_source_calls g \<and> 0 \<le> g_writes g)"
    and "case map_of (grants y) a of Some g \<Rightarrow> map_of (grants z) a = Some g
      | None \<Rightarrow> (\<forall>g. map_of (grants z) a = Some g \<longrightarrow> 0 \<le> g_source_calls g \<and> 0 \<le> g_writes g)"
    using assms unfolding grants_kept_def by blast+
  then show "case map_of (grants x) a of Some g \<Rightarrow> map_of (grants z) a = Some g
      | None \<Rightarrow> (\<forall>g. map_of (grants z) a = Some g \<longrightarrow> 0 \<le> g_source_calls g \<and> 0 \<le> g_writes g)"
    by (cases "map_of (grants x) a"; cases "map_of (grants y) a") auto
qed

lemma moves_trans: "moves b z l m \<Longrightarrow> moves b z m l' \<Longrightarrow> moves b z l l'"
  unfolding moves_def by (meson grants_kept_trans rtranclp_trans)

lemma moves_quiet: "row_of l' = row_of l \<Longrightarrow> (global_stop l \<noteq> None \<Longrightarrow> global_stop l' \<noteq> None) \<Longrightarrow> grants_kept l l' \<Longrightarrow> moves b z l l'"
  by (auto simp: moves_def)

lemma moves_refl [simp]: "moves b z l l"
  by (rule moves_quiet) (auto intro: grants_kept_same)

lemma moves_row:
  assumes "row_of l' = (row_of l)(k := r)" and "(row_move b (z k))\<^sup>*\<^sup>* (row_of l k) r"
    and "global_stop l \<noteq> None \<Longrightarrow> global_stop l' \<noteq> None" and "\<not> b \<Longrightarrow> grants l' = grants l"
  shows "moves b z l l'"
  using assms by (auto simp: moves_def grants_kept_same)

text \<open>The control row stays the control row.\<close>

definition control_ok :: "ledger \<Rightarrow> bool" where
  "control_ok l = (\<exists>w. row_of l CONTROL = Some w \<and> w_state w = CONTROL_STATE)"

lemma row_move_control: "row_move b z r r' \<Longrightarrow> r = Some w \<Longrightarrow> w_state w = CONTROL_STATE \<Longrightarrow> \<exists>w'. r' = Some w' \<and> w_state w' = CONTROL_STATE"
  by (erule row_moveE) auto

lemma moves_control: "moves b z l l' \<Longrightarrow> control_ok l \<Longrightarrow> control_ok l'"
proof -
  have "(row_move b y)\<^sup>*\<^sup>* r r' \<Longrightarrow> (\<exists>w. r = Some w \<and> w_state w = CONTROL_STATE) \<Longrightarrow> \<exists>w. r' = Some w \<and> w_state w = CONTROL_STATE" for r r' y
    by (induction rule: rtranclp_induct) (auto dest: row_move_control)
  then show "moves b z l l' \<Longrightarrow> control_ok l \<Longrightarrow> control_ok l'"
    unfolding moves_def control_ok_def by blast
qed

section \<open>Every operation moves rows along their life cycle\<close>

lemma frame_fields [simp]:
  "global_stop (set_row k w l) = global_stop l" "grants (set_row k w l) = grants l"
  "global_stop (upd_attempt k f u l) = global_stop l" "grants (upd_attempt k f u l) = grants l"
  "global_stop (add_attempt k f a l) = global_stop l" "grants (add_attempt k f a l) = grants l"
  "global_stop (set_grant nm g l) = global_stop l"
  by (simp_all add: set_row_def upd_attempt_def add_attempt_def set_grant_def split: option.split)

lemma reserve_fields [simp]:
  "global_stop (reserve e l) = global_stop l" "grants (reserve e l) = grants l" "deferred (reserve e l) = deferred l"
  "attempts (reserve e l) = attempts l"
  by (simp_all add: reserve_def set_row_def split: option.split)

lemma reserve_moves: "control_ok l \<Longrightarrow> moves b z l (reserve e l)"
  unfolding reserve_def control_ok_def
  by (auto intro!: moves_row [where k = CONTROL] r_into_rtranclp bump)

lemma tx_moves:
  assumes "control_ok l" and "tx e body l = Inr (a, l')"
    and "\<And>m m' a. body m = Inr (a, m') \<Longrightarrow> moves b z m m'"
  shows "moves b z l l'"
  using assms moves_trans reserve_moves unfolding tx_Inr by blast

lemma grant_tx_Inr:
  "grant_tx e a g l = Inr (u, l') \<Longrightarrow> l' = l\<lparr>grants := grants l @ [(a, g)]\<rparr> \<and> a \<notin> fst ` set (grants l)"
  by (auto simp: grant_tx_def ok_simps split: if_splits sum.splits)

lemma grant_tx_moves:
  assumes "grant_tx e a g l = Inr (u, l')" and "0 \<le> g_source_calls g" and "0 \<le> g_writes g"
  shows "moves b z l l'"
  using grant_tx_Inr [OF assms(1)] assms(2,3)
  by (intro moves_quiet)
    (auto simp: grants_kept_def map_add_def split: option.splits if_splits)

lemma grant_op_Inr:
  assumes "grant_op e a ks sc w x cs ds l = Inr (u, l')"
  obtains g where "tx e (grant_tx e a g) l = Inr (u, l')" and "0 \<le> g_source_calls g" and "0 \<le> g_writes g"
  using assms unfolding grant_op_def Let_def by (auto simp: ok_simps split: if_splits sum.splits)

lemma grant_moves: "control_ok l \<Longrightarrow> grant_op e a ks sc w x cs ds l = Inr (u, l') \<Longrightarrow> moves b z l l'"
  by (erule grant_op_Inr) (erule (1) tx_moves, erule (2) grant_tx_moves)

lemma enqueue_tx_moves:
  assumes "enqueue_tx e key s t c r ds p x st re m lm pc l = Inr (k, l')" and "st \<in> {QUEUED, DEFERRED} \<union> BLOCKED"
    and "1 \<le> m" and "m \<le> 3"
  shows "moves b z l l'"
proof (cases "row_of l key")
  case None
  with assms(1) obtain w where "l' = set_row key w l" and "row_move b (z key) None (Some w)"
    using assms(2-4) by (auto simp: enqueue_tx_def row_move.simps split: sum.splits if_splits)
  with None show ?thesis
    by (intro moves_row [where k = key and r = "Some w"]) (auto intro: r_into_rtranclp)
next
  case (Some old)
  with assms(1) have "l' = l"
    by (auto simp: enqueue_tx_def split: sum.splits if_splits)
  then show ?thesis by simp
qed

lemma enqueue_moves:
  assumes "control_ok l" and "enqueue_op e s t c r ds p x st re m lm pc l = Inr (k, l')"
  shows "moves b z l l'"
proof -
  from assms(2) obtain lmt deps s' key where st: "st \<in> {QUEUED, DEFERRED} \<union> BLOCKED" "1 \<le> m" "m \<le> 3"
    and run: "tx e (enqueue_tx e key s' t c r deps p x st re m lmt pc) l = Inr (k, l')"
    unfolding enqueue_op_def Let_def by (auto split: sum.splits if_splits option.splits)
  show ?thesis
    by (rule tx_moves [OF assms(1) run]) (rule enqueue_tx_moves [OF _ st])
qed

lemma claim_tx_Inr:
  assumes "claim_tx e k w a s l = Inr (c, l')"
  obtains r n where "row_of l k = Some r" and "\<exists>g. permit e l k r (Some a) None = Inr g" and "eligible e r"
    and "deps_complete l (w_dependencies r) = Inr ()" and "c = \<lparr>c_key = k, c_fence = w_fence r + 1, c_owner = w\<rparr>"
    and "row_of l' = (row_of l)(k \<mapsto> r\<lparr>w_state := CLAIMED, w_owner := Some w, w_authority := Some a, w_fence := w_fence r + 1,
        w_lease_until := Some (now e + s), w_attempt_count := w_attempt_count r + 1, w_phase := PH_CLAIMED, w_reason := None,
        w_next_action := n\<rparr>)"
    and "grants l' = grants l" and "global_stop l' = global_stop l"
  using assms unfolding claim_tx_def Let_def
  by (auto split: option.splits sum.splits if_splits)

lemma claim_tx_moves: "claim_tx e k w a s l = Inr (c, l') \<Longrightarrow> moves b z l l'"
  by (erule claim_tx_Inr, rule moves_row [where k = k], assumption)
    (auto simp: eligible_def intro!: r_into_rtranclp take)

lemma claim_op_Inr:
  "claim_op e k w a s l = Inr (c, l') \<Longrightarrow> word_ident 100 w \<and> 1 \<le> s \<and> s \<le> 480 \<and> tx e (claim_tx e k w a s) l = Inr (c, l')"
  by (auto simp: claim_op_def split: if_splits)

lemma claim_moves: "control_ok l \<Longrightarrow> claim_op e k w a s l = Inr (c, l') \<Longrightarrow> moves b z l l'"
  using claim_op_Inr tx_moves claim_tx_moves by metis

lemma scan_tx_Inr: "scan_tx e a l = Inr (ks, l') \<Longrightarrow> l' = l"
  by (auto simp: scan_tx_def split: option.splits)

lemma claim_first_moves: "control_ok l \<Longrightarrow> claim_first e w a ks l = Inr (c, l') \<Longrightarrow> moves b z l l'"
  by (induction ks) (auto dest: claim_moves split: sum.splits if_splits)

lemma scan_moves: "control_ok l \<Longrightarrow> tx e (scan_tx e a) l = Inr (ks, m) \<Longrightarrow> moves b z l m"
  by (erule (1) tx_moves) (auto dest: scan_tx_Inr)

lemma claim_next_moves:
  assumes "control_ok l" shows "moves b z l (fst (claim_next_op e w a l))"
proof (cases "tx e (scan_tx e a) l")
  case (Inl x)
  then show ?thesis by (simp add: claim_next_op_def)
next
  case (Inr r)
  then obtain ks m where r: "tx e (scan_tx e a) l = Inr (ks, m)" by (cases r) auto
  then have m: "moves b z l m" "control_ok m"
    using scan_moves moves_control assms by blast+
  show ?thesis
  proof (cases "claim_first e w a ks m")
    case (Inl x)
    with r m show ?thesis by (simp add: claim_next_op_def)
  next
    case (Inr r')
    then obtain c m' where "claim_first e w a ks m = Inr (c, m')" by (cases r') auto
    with r m show ?thesis by (auto simp: claim_next_op_def intro: moves_trans claim_first_moves)
  qed
qed

lemma owned_claimed: "owned e l c = Inr w \<Longrightarrow> w_state w = CLAIMED"
  by (drule owned_Inr) (simp add: holds_def)

lemma owned_move:
  assumes "owned e l c = Inr w" and "row_of l' = (row_of l)(c_key c \<mapsto> w')" and "w_state w = CLAIMED \<Longrightarrow> row_move b (z (c_key c)) (Some w) (Some w')"
    and "\<not> b \<Longrightarrow> grants l' = grants l"
  shows "moves b z l l'"
  using assms owned_Inr [OF assms(1)] owned_claimed [OF assms(1)]
  by (intro moves_row [where k = "c_key c" and r = "Some w'"]) (auto intro: r_into_rtranclp)

lemma checkpoint_tx_Inr:
  assumes "checkpoint_tx e c v l = Inr (u, l')"
  obtains w where "owned e l c = Inr w" and "admit_evidence v w = Inr ()"
    and "row_of l' = (row_of l)(c_key c \<mapsto> w\<lparr>w_checkpoint := json_column v, w_phase := CHECKPOINTED\<rparr>)"
    and "grants l' = grants l" and "global_stop l' = global_stop l"
  using assms by (auto simp: checkpoint_tx_def split: sum.splits)

lemma checkpoint_tx_moves: "checkpoint_tx e c v l = Inr (u, l') \<Longrightarrow> v \<noteq> JNull \<or> z (c_key c) \<Longrightarrow> moves b z l l'"
  by (erule checkpoint_tx_Inr, erule (1) owned_move) (simp_all add: seal json_column_def)

lemma checkpoint_op_Inr: "checkpoint_op e c v l = Inr (u, l') \<Longrightarrow> tx e (checkpoint_tx e c (canon v)) l = Inr (u, l')"
  by (auto simp: checkpoint_op_def bounded_def split: sum.splits if_splits)

lemma checkpoint_moves: "control_ok l \<Longrightarrow> checkpoint_op e c v l = Inr (u, l') \<Longrightarrow> canon v \<noteq> JNull \<or> z (c_key c) \<Longrightarrow> moves b z l l'"
  by (rule tx_moves [OF _ checkpoint_op_Inr]) (auto intro: checkpoint_tx_moves)

lemma intent_phase_cases [simp]: "intent_phase op \<in> {SOURCE_INTENT, WRITE_INTENT}" "(intent_phase op = SOURCE_INTENT) = (op = SourceCalls)"
  "(intent_phase op = WRITE_INTENT) = (op = Writes)"
  by (cases op; simp)+

lemma intent_tx_Inr:
  assumes "intent_tx e c op n l = Inr (u, l')"
  obtains w g nm where "owned e l c = Inr w" and "w_phase w \<in> {PH_CLAIMED, CHECKPOINTED}"
    and "op = SourceCalls \<longrightarrow> w_checkpoint w = None \<and> may_call_source l (c_key c) w"
    and "op = Writes \<longrightarrow> w_task w = FACTUAL_REFRESH"
    and "w_authority w = Some nm" and "map_of (grants l) nm = Some g" and "n \<le> allowance op g"
    and "row_of l' = (row_of l)(c_key c \<mapsto> w\<lparr>w_phase := intent_phase op\<rparr>)"
    and "grants l' = AList.update nm (spend op n g) (grants l)" and "global_stop l' = global_stop l"
proof -
  from assms obtain w g where ow: "owned e l c = Inr w" "w_phase w \<in> {PH_CLAIMED, CHECKPOINTED}"
    and op: "op = SourceCalls \<longrightarrow> w_checkpoint w = None \<and> may_call_source l (c_key c) w" "op = Writes \<longrightarrow> w_task w = FACTUAL_REFRESH"
    and per: "permit e l (c_key c) w (w_authority w) (Some op) = Inr g" and n: "n \<le> allowance op g"
    and l': "l' = upd_attempt (c_key c) (c_fence c) (\<lambda>a. a\<lparr>a_phase := intent_phase op\<rparr>)
           (set_row (c_key c) (w\<lparr>w_phase := intent_phase op\<rparr>) (set_grant (w_authority w) (spend op n g) l))"
    unfolding intent_tx_def by (cases op) (auto simp: ok_simps split: sum.splits if_splits)
  from permit_Inr [OF per] obtain nm where "w_authority w = Some nm" "map_of (grants l) nm = Some g"
    by (auto simp: find_grant_def split: option.splits)
  with ow op n l' show thesis
    by (intro that) (simp_all add: set_grant_def)
qed

lemma intent_tx_moves: "intent_tx e c op n l = Inr (u, l') \<Longrightarrow> moves True z l l'"
  by (erule intent_tx_Inr, erule (1) owned_move) (rule intend, simp_all, cases op, simp_all)

lemma intent_op_Inr: "intent_op e c op n l = Inr (u, l') \<Longrightarrow> 1 \<le> n \<and> n \<le> 2 \<and> tx e (intent_tx e c op n) l = Inr (u, l')"
  by (auto simp: intent_op_def split: if_splits)

lemma intent_moves: "control_ok l \<Longrightarrow> intent_op e c op n l = Inr (u, l') \<Longrightarrow> moves True z l l'"
  using intent_op_Inr tx_moves intent_tx_moves by metis

lemma resolve_receipt_Inr:
  assumes "resolve_receipt c r w l = Inr (w', l')"
  shows "row_of l' = row_of l \<and> grants l' = grants l \<and> global_stop l' = global_stop l \<and>
    (w' = w \<or> (\<exists>v. v \<noteq> JNull \<and> w' = w\<lparr>w_checkpoint := json_column v, w_phase := CHECKPOINTED\<rparr> \<and> admit_evidence v w = Inr ()))"
proof (cases "Option.bind r json_column")
  case None
  with assms show ?thesis by (simp add: resolve_receipt_def)
next
  case (Some v)
  then have "v \<noteq> JNull" by (cases r) (auto simp: json_column_def split: if_splits)
  then have "canon v \<noteq> JNull" by (cases v) auto
  then show ?thesis
    using assms Some by (auto simp: resolve_receipt_def bounded_def Let_def upd_attempt_def row_of_def fun_eq_iff split: sum.splits if_splits)
qed

lemma finish_tx_Inr:
  assumes "finish_tx e c out st re d rc ds l = Inr (u, l')"
  obtains w0 w where "owned e l c = Inr w0"
    and "w = w0 \<or> (\<exists>v. v \<noteq> JNull \<and> w = w0\<lparr>w_checkpoint := json_column v, w_phase := CHECKPOINTED\<rparr> \<and> admit_evidence v w0 = Inr ())"
    and "w_phase w \<notin> {SOURCE_INTENT, WRITE_INTENT}"
    and "\<exists>n. row_of l' = (row_of l)(c_key c \<mapsto> w\<lparr>w_state := st, w_reason := re, w_outcome := json_column out,
        w_eligible_at := now e + d, w_owner := None, w_lease_until := None, w_phase := FINISHED, w_next_action := n\<rparr>)"
    and "grants l' = grants l" and "st = PERSISTENCE_UNCERTAIN \<longrightarrow> global_stop l' \<noteq> None"
    and "st \<noteq> PERSISTENCE_UNCERTAIN \<longrightarrow> global_stop l' = global_stop l"
proof -
  from assms obtain w0 w m1 m2 m3 where own: "owned e l c = Inr w0" and res: "resolve_receipt c rc w0 l = Inr (w, m1)"
    and ph: "w_phase w \<notin> {SOURCE_INTENT, WRITE_INTENT}"
    and m2: "(if ds = 0 then Inr m1 else defer_until e (subject_council (w_subject w)) (now e + ds) m1) = Inr m2"
    and m3: "(if st = PERSISTENCE_UNCERTAIN
          then put_control e (m2\<lparr>global_stop := Some (JObj [(''reason'', JStr ''UNCERTAIN_PERSISTENCE'')])\<rparr>) else Inr m2) = Inr m3"
    and l': "l' = upd_attempt (c_key c) (c_fence c)
             (\<lambda>a. a\<lparr>a_finished_at := Some (now e), a_phase := FINISHED, a_outcome := json_column out\<rparr>)
           (set_row (c_key c) (w\<lparr>w_state := st, w_reason := re, w_outcome := json_column out,
              w_eligible_at := now e + d, w_owner := None, w_lease_until := None, w_phase := FINISHED,
              w_next_action := (if st = COMPLETE then ''NONE'' else if st \<in> BLOCKED then ''REVIEW''
                 else ''WAIT_THEN_RECHECK_AUTHORITY'')\<rparr>) m3)"
    unfolding finish_tx_def by (auto split: sum.splits if_splits)
  note r = resolve_receipt_Inr [OF res]
  from m2 have m2': "row_of m2 = row_of m1" "grants m2 = grants m1" "global_stop m2 = global_stop m1"
    by (auto split: if_splits dest!: defer_until_Inr)
  from m3 have m3': "row_of m3 = row_of m2" "grants m3 = grants m2"
    "st = PERSISTENCE_UNCERTAIN \<longrightarrow> global_stop m3 \<noteq> None" "st \<noteq> PERSISTENCE_UNCERTAIN \<longrightarrow> global_stop m3 = global_stop m2"
    by (auto simp: ok_simps split: if_splits)
  have rows: "row_of m3 = row_of l" "grants m3 = grants l" "global_stop m2 = global_stop l" using r m2' m3' by simp_all
  have w: "w = w0 \<or> (\<exists>v. v \<noteq> JNull \<and> w = w0\<lparr>w_checkpoint := json_column v, w_phase := CHECKPOINTED\<rparr> \<and> admit_evidence v w0 = Inr ())"
    using r by blast
  have out: "\<exists>n. row_of l' = (row_of m3)(c_key c \<mapsto> w\<lparr>w_state := st, w_reason := re, w_outcome := json_column out,
        w_eligible_at := now e + d, w_owner := None, w_lease_until := None, w_phase := FINISHED, w_next_action := n\<rparr>)"
    unfolding l' by (rule exI) simp
  show thesis
  proof (rule that [OF own w ph])
    show "grants l' = grants l" "st = PERSISTENCE_UNCERTAIN \<longrightarrow> global_stop l' \<noteq> None" "st \<noteq> PERSISTENCE_UNCERTAIN \<longrightarrow> global_stop l' = global_stop l"
      using rows m3' by (simp_all add: l')
  qed (use out rows(1) in simp)
qed

lemma finish_tx_moves:
  assumes "finish_tx e c out st re d rc ds l = Inr (u, l')" and "st \<in> {COMPLETE, DEFERRED} \<union> BLOCKED"
  shows "moves b z l l'"
  using assms(1)
proof (rule finish_tx_Inr)
  fix w0 w
  assume own: "owned e l c = Inr w0"
    and w: "w = w0 \<or> (\<exists>v. v \<noteq> JNull \<and> w = w0\<lparr>w_checkpoint := json_column v, w_phase := CHECKPOINTED\<rparr> \<and> admit_evidence v w0 = Inr ())"
    and ph: "w_phase w \<notin> {SOURCE_INTENT, WRITE_INTENT}" and same: "grants l' = grants l"
    and stop: "st = PERSISTENCE_UNCERTAIN \<longrightarrow> global_stop l' \<noteq> None" "st \<noteq> PERSISTENCE_UNCERTAIN \<longrightarrow> global_stop l' = global_stop l"
    and "\<exists>n. row_of l' = (row_of l)(c_key c \<mapsto> w\<lparr>w_state := st, w_reason := re, w_outcome := json_column out,
        w_eligible_at := now e + d, w_owner := None, w_lease_until := None, w_phase := FINISHED, w_next_action := n\<rparr>)"
  then obtain n where rows: "row_of l' = (row_of l)(c_key c \<mapsto> w\<lparr>w_state := st, w_reason := re, w_outcome := json_column out,
        w_eligible_at := now e + d, w_owner := None, w_lease_until := None, w_phase := FINISHED, w_next_action := n\<rparr>)"
    by blast
  have cl: "w_state w0 = CLAIMED" using own by (rule owned_claimed)
  with w have "w_state w = CLAIMED" by auto
  then have "row_move b (z (c_key c)) (Some w) (Some (w\<lparr>w_state := st, w_reason := re, w_outcome := json_column out,
        w_eligible_at := now e + d, w_owner := None, w_lease_until := None, w_phase := FINISHED, w_next_action := n\<rparr>))"
    using ph assms(2) by (rule close_out)
  moreover from w have "(row_move b (z (c_key c)))\<^sup>*\<^sup>* (Some w0) (Some w)"
  proof (elim disjE exE conjE)
    fix v assume "w = w0\<lparr>w_checkpoint := json_column v, w_phase := CHECKPOINTED\<rparr>" "v \<noteq> JNull"
    with cl show ?thesis by (simp add: r_into_rtranclp seal json_column_def)
  qed simp
  ultimately have "(row_move b (z (c_key c)))\<^sup>*\<^sup>* (Some w0) (Some (w\<lparr>w_state := st, w_reason := re, w_outcome := json_column out,
        w_eligible_at := now e + d, w_owner := None, w_lease_until := None, w_phase := FINISHED, w_next_action := n\<rparr>))"
    by (rule rtranclp.rtrancl_into_rtrancl [rotated])
  with own rows same stop show ?thesis
    by (intro moves_row [OF rows]) (auto dest: owned_Inr)
qed

lemma finish_op_Inr:
  "finish_op e c out st re d rc ds l = Inr (u, l') \<Longrightarrow> st \<in> {COMPLETE, DEFERRED} \<union> BLOCKED \<and>
     tx e (finish_tx e c (canon out) st re d rc ds) l = Inr (u, l')"
  by (auto simp: finish_op_def bounded_def split: sum.splits if_splits)

lemma finish_moves: "control_ok l \<Longrightarrow> finish_op e c out st re d rc ds l = Inr (u, l') \<Longrightarrow> moves b z l l'"
  using finish_op_Inr tx_moves finish_tx_moves by metis

lemma defer_council_moves: "control_ok l \<Longrightarrow> defer_council_op e co u l = Inr (v, l') \<Longrightarrow> moves b z l l'"
  unfolding defer_council_op_def
  by (auto simp: defer_tx_def split: if_splits sum.splits dest!: defer_until_Inr elim!: tx_moves
      intro!: moves_quiet grants_kept_same)

lemma stop_claim_moves:
  assumes "stop_claim e re c u l = Inr (v, l')" shows "moves b z l l'"
proof (cases "l' = l")
  case False
  with assms obtain k w where c: "c = Some k" and row: "row_of l (c_key k) = Some w" and cl: "w_state w = CLAIMED"
    unfolding stop_claim_def by (auto split: option.splits if_splits)
  from assms False have "\<exists>s\<in>{SAFETY_BLOCKED, PERSISTENCE_UNCERTAIN}. \<exists>o' f n. l' = upd_attempt (c_key k) f o' (set_row (c_key k)
     (w\<lparr>w_state := s, w_reason := Some re, w_outcome := n, w_owner := None,
        w_lease_until := None, w_fence := w_fence w + 1, w_next_action := ''RECONCILE''\<rparr>) l)"
    unfolding stop_claim_def c row Let_def option.case by (cases u; simp split: if_splits; blast)
  then obtain s o' f n where s: "s \<in> {SAFETY_BLOCKED, PERSISTENCE_UNCERTAIN}" and l': "l' = upd_attempt (c_key k) f o' (set_row (c_key k)
     (w\<lparr>w_state := s, w_reason := Some re, w_outcome := n, w_owner := None,
        w_lease_until := None, w_fence := w_fence w + 1, w_next_action := ''RECONCILE''\<rparr>) l)"
    by blast
  show ?thesis
    unfolding l' by (rule moves_row [where k = "c_key k"]) (simp_all add: row, rule r_into_rtranclp, rule halt [OF cl s])
qed simp

lemma stop_tx_Inr:
  assumes "stop_tx e re c u l = Inr (v, l')"
  obtains m where "stop_claim e re c u m = Inr (v, l')" and "row_of m = row_of l" and "grants m = grants l" and "global_stop m \<noteq> None"
  using assms unfolding stop_tx_def by (auto simp: ok_simps split: sum.splits)

lemma stop_tx_moves:
  assumes "stop_tx e re c u l = Inr (v, l')" shows "moves b z l l'"
  using assms
proof (rule stop_tx_Inr)
  fix m assume "stop_claim e re c u m = Inr (v, l')" and "row_of m = row_of l" and "grants m = grants l" and "global_stop m \<noteq> None"
  then show ?thesis
    by (intro moves_trans [of b z l m l'] stop_claim_moves moves_quiet grants_kept_same) auto
qed

lemma stop_moves: "control_ok l \<Longrightarrow> stop_op e re c u l = Inr (v, l') \<Longrightarrow> moves b z l l'"
  unfolding stop_op_def by (erule (1) tx_moves, erule stop_tx_moves)

lemma recover_tx_Inr:
  assumes "recover_tx e c cl l = Inr (u, l')"
  obtains w r v n where "row_of l (c_key c) = Some w" and "w_state w = CLAIMED" and "w_fence w = c_fence c" and "w_owner w = Some (c_owner c)"
    and "\<exists>t. w_lease_until w = Some t \<and> t \<le> now e"
    and "row_of l' = (row_of l)(c_key c \<mapsto> w\<lparr>w_state := recovered_state (w_phase w) cl, w_reason := r, w_owner := None, w_lease_until := None,
      w_fence := w_fence w + 1, w_outcome := v, w_next_action := n, w_phase := RECOVERED\<rparr>)"
    and "grants l' = grants l"
    and "global_stop l' = (if recovered_state (w_phase w) cl \<in> BLOCKED then Some (abandoned_stop (c_key c)) else global_stop l)"
  using assms unfolding recover_tx_def Let_def
  by (auto simp: ok_simps split: option.splits sum.splits if_splits)

lemma recover_tx_moves:
  assumes "recover_tx e c cl l = Inr (u, l')" shows "moves b z l l'"
  using assms
proof (rule recover_tx_Inr)
  fix w r v n
  assume row: "row_of l (c_key c) = Some w" and cl: "w_state w = CLAIMED" and same: "grants l' = grants l"
    and rows: "row_of l' = (row_of l)(c_key c \<mapsto> w\<lparr>w_state := recovered_state (w_phase w) cl, w_reason := r, w_owner := None,
      w_lease_until := None, w_fence := w_fence w + 1, w_outcome := v, w_next_action := n, w_phase := RECOVERED\<rparr>)"
    and stop: "global_stop l' = (if recovered_state (w_phase w) cl \<in> BLOCKED then Some (abandoned_stop (c_key c)) else global_stop l)"
  show ?thesis
    by (rule moves_row [OF rows]) (simp_all only: row same stop split: if_split, rule r_into_rtranclp, rule salvage [OF cl refl], simp)
qed

lemma recover_moves: "control_ok l \<Longrightarrow> recover_op e c cl l = Inr (u, l') \<Longrightarrow> moves b z l l'"
  unfolding recover_op_def by (erule (1) tx_moves, erule recover_tx_moves)

lemma fenced_tx_Inr:
  assumes "fenced_tx e c wr l = Inr (v, l')"
  obtains w where "owned e l c = Inr w" and "w_phase w = WRITE_INTENT"
    and "row_of l' = (row_of l)(c_key c \<mapsto> w\<lparr>w_checkpoint := json_column v, w_phase := CHECKPOINTED\<rparr>)"
    and "grants l' = grants l" and "global_stop l' = global_stop l"
  using assms unfolding fenced_tx_def by (auto split: sum.splits if_splits)

lemma fenced_tx_moves: "fenced_tx e c wr l = Inr (v, l') \<Longrightarrow> v \<noteq> JNull \<or> z (c_key c) \<Longrightarrow> moves b z l l'"
  by (erule fenced_tx_Inr, erule (1) owned_move) (simp_all add: seal json_column_def)

lemma uncertain_stop_moves: "control_ok l \<Longrightarrow> moves b z l (fst (uncertain_stop e c l))"
  unfolding uncertain_stop_def by (auto split: sum.split dest: stop_moves)

lemma fenced_effect_moves:
  assumes "control_ok l" and null: "\<And>v m. tx e (fenced_tx e c wr) l = Inr (v, m) \<Longrightarrow> v \<noteq> JNull \<or> z (c_key c)"
  shows "moves b z l (fst (fenced_effect_op e c wr ack l))"
proof (cases "tx e (fenced_tx e c wr) l")
  case (Inl x)
  with assms(1) show ?thesis by (simp add: fenced_effect_op_def uncertain_stop_moves)
next
  case (Inr r)
  then obtain v m where r: "tx e (fenced_tx e c wr) l = Inr (v, m)" by (cases r) auto
  have body: "fenced_tx e c wr (reserve e l) = Inr (v, m)" using r by (simp add: tx_Inr)
  have m: "moves b z l m" by (rule moves_trans [OF reserve_moves [OF assms(1)]]) (rule fenced_tx_moves, rule body, rule null, rule r)
  show ?thesis
    using m moves_trans [OF m uncertain_stop_moves [OF moves_control [OF m assms(1)]]] uncertain_stop_moves [OF assms(1)]
    by (cases ack) (simp_all add: fenced_effect_op_def r)
qed

fun is_intent :: "call \<Rightarrow> bool" where
  "is_intent (Intent c op n) = True"
| "is_intent _ = False"

text \<open>The call stores null evidence on the row of \<open>k\<close>.\<close>

fun voids :: "ledger \<Rightarrow> env \<times> call \<Rightarrow> str \<Rightarrow> bool" where
  "voids l (e, Checkpoint c v) k = (k = c_key c \<and> canon v = JNull)"
| "voids l (e, FencedEffect c wr ack) k = (k = c_key c \<and> (case tx e (fenced_tx e c wr) l of Inl _ \<Rightarrow> False | Inr (v, _) \<Rightarrow> v = JNull))"
| "voids l (e, _) k = False"

lemmas op_moves = grant_moves enqueue_moves claim_moves checkpoint_moves intent_moves finish_moves defer_council_moves
  stop_moves recover_moves

lemma after_moves: "(\<And>a l'. r = Inr (a, l') \<Longrightarrow> moves b z l l') \<Longrightarrow> moves b z l (after l r)"
  by (auto simp: after_def split: sum.split)

lemma ledger_step_moves: "control_ok l \<Longrightarrow> moves (is_intent (snd ec)) (voids l ec) l (ledger_step l ec)"
  by (cases "(l, ec)" rule: ledger_step.cases)
    (auto intro!: after_moves claim_next_moves fenced_effect_moves intro: op_moves)

end
