(* ===== verification/LedgerInvariant.thy ===== *)
theory LedgerInvariant
  imports LedgerSafety
begin

text \<open>
  The invariant of the task ledger, kept by every run of its operations:
  \<open>ledger_ok\<close> is proved per operation from the row moves; the interpretation of \<open>machine\<close>
  lifts it to runs.
\<close>

section \<open>The invariant\<close>

definition row_ok :: "work_item \<Rightarrow> bool" where
  "row_ok w = (0 \<le> w_attempt_count w \<and> w_attempt_count w \<le> w_max_attempts w \<and> w_max_attempts w \<le> 3 \<and>
     w_attempt_count w \<le> w_fence w \<and>
     (w_state w = CLAIMED \<longrightarrow> w_owner w \<noteq> None \<and> w_lease_until w \<noteq> None \<and> w_authority w \<noteq> None \<and>
        1 \<le> w_attempt_count w \<and> w_phase w \<in> {PH_CLAIMED, CHECKPOINTED, SOURCE_INTENT, WRITE_INTENT}) \<and>
     (w_state w \<noteq> CLAIMED \<longrightarrow> w_owner w = None \<and> w_lease_until w = None) \<and>
     (w_state w \<in> {QUEUED, DEFERRED} \<longrightarrow> w_phase w \<in> {IDLE, FINISHED, RECOVERED}) \<and>
     (w_state w = COMPLETE \<longrightarrow> w_phase w = FINISHED) \<and>
     (w_state w = CONTROL_STATE \<longrightarrow> w_phase w = IDLE))"

definition one_write :: "ledger \<Rightarrow> bool" where
  "one_write l = (\<forall>k k' w w'. row_of l k = Some w \<longrightarrow> row_of l k' = Some w' \<longrightarrow>
     w_phase w = WRITE_INTENT \<longrightarrow> w_phase w' = WRITE_INTENT \<longrightarrow> k = k')"

definition grants_ok :: "ledger \<Rightarrow> bool" where
  "grants_ok l = (\<forall>a g. map_of (grants l) a = Some g \<longrightarrow> 0 \<le> g_source_calls g \<and> 0 \<le> g_writes g)"

definition ledger_ok :: "ledger \<Rightarrow> bool" where
  "ledger_ok l = (control_ok l \<and> (\<forall>k w. row_of l k = Some w \<longrightarrow> row_ok w) \<and> one_write l \<and> grants_ok l)"

lemma ledger_okD:
  assumes "ledger_ok l"
  shows "control_ok l" and "row_of l k = Some w \<Longrightarrow> row_ok w" and "one_write l" and "grants_ok l"
  using assms by (auto simp: ledger_ok_def)

lemma recovered_state_cases: "recovered_state p c \<in> {PERSISTENCE_UNCERTAIN, SAFETY_BLOCKED, DEFERRED}"
  by (simp add: recovered_state_def)

lemma create_ok: "w_state w \<in> {QUEUED, DEFERRED} \<union> BLOCKED \<Longrightarrow> w_attempt_count w = 0 \<Longrightarrow> w_fence w = 0 \<Longrightarrow>
    1 \<le> w_max_attempts w \<Longrightarrow> w_max_attempts w \<le> 3 \<Longrightarrow> w_phase w = IDLE \<Longrightarrow> w_owner w = None \<Longrightarrow> w_lease_until w = None \<Longrightarrow> row_ok w"
  by (auto simp: row_ok_def BLOCKED_def)

lemma salvage_ok:
  assumes "row_ok w" and "w_state w = CLAIMED"
  shows "row_ok (w\<lparr>w_state := recovered_state (w_phase w) cl, w_reason := r, w_owner := None, w_lease_until := None,
      w_fence := w_fence w + 1, w_outcome := v, w_next_action := n, w_phase := RECOVERED\<rparr>)"
  using assms recovered_state_cases [of "w_phase w" cl] by (auto simp: row_ok_def)

lemma close_ok:
  assumes "row_ok w" and "w_state w = CLAIMED" and "s \<in> {COMPLETE, DEFERRED} \<union> BLOCKED"
  shows "row_ok (w\<lparr>w_state := s, w_reason := r, w_outcome := v, w_eligible_at := t, w_owner := None,
      w_lease_until := None, w_phase := FINISHED, w_next_action := n\<rparr>)"
  using assms by (auto simp: row_ok_def BLOCKED_def)

lemma take_ok:
  assumes "row_ok w" and "w_attempt_count w < w_max_attempts w"
  shows "row_ok (w\<lparr>w_state := CLAIMED, w_owner := Some o', w_authority := Some a, w_fence := w_fence w + 1,
      w_lease_until := Some t, w_attempt_count := w_attempt_count w + 1, w_phase := PH_CLAIMED, w_reason := None,
      w_next_action := n\<rparr>)"
  using assms by (simp add: row_ok_def)

lemma halt_ok:
  assumes "row_ok w" and "s \<in> {SAFETY_BLOCKED, PERSISTENCE_UNCERTAIN}"
  shows "row_ok (w\<lparr>w_state := s, w_reason := r, w_outcome := v, w_owner := None, w_lease_until := None,
      w_fence := w_fence w + 1, w_next_action := n\<rparr>)"
  using assms by (auto simp: row_ok_def)

lemma phase_ok: "row_ok w \<Longrightarrow> w_state w = CLAIMED \<Longrightarrow> p \<in> {PH_CLAIMED, CHECKPOINTED, SOURCE_INTENT, WRITE_INTENT} \<Longrightarrow>
    row_ok (w\<lparr>w_phase := p\<rparr>) \<and> row_ok (w\<lparr>w_checkpoint := v, w_phase := p\<rparr>)"
  by (simp add: row_ok_def)

lemma bump_ok: "row_ok w \<Longrightarrow> row_ok (w\<lparr>w_fence := w_fence w + 1\<rparr>)"
  by (simp add: row_ok_def)

lemma row_move_ok:
  assumes "row_move b z r r'" and "\<And>w. r = Some w \<Longrightarrow> row_ok w" and "r' = Some w'"
  shows "row_ok w'"
  using assms(1)
proof cases
  case (create w)
  with assms(3) create_ok show ?thesis by blast
next
  case (take w)
  with assms(2,3) show ?thesis by (auto intro: take_ok)
next
  case (seal w)
  with assms(2,3) show ?thesis by (auto intro: phase_ok [THEN conjunct2])
next
  case (intend w p)
  with assms(2,3) show ?thesis by (auto intro: phase_ok [THEN conjunct1])
next
  case (close_out w)
  with assms(2,3) show ?thesis by (auto intro: close_ok)
next
  case (halt w)
  with assms(2,3) show ?thesis by (auto intro: halt_ok)
next
  case (salvage w)
  with assms(2,3) show ?thesis by (auto intro: salvage_ok)
next
  case (bump w)
  with assms(2,3) show ?thesis by (auto intro: bump_ok)
qed

lemma row_moves_ok: "(row_move b z)\<^sup>*\<^sup>* r r' \<Longrightarrow> (\<And>w. r = Some w \<Longrightarrow> row_ok w) \<Longrightarrow> r' = Some w' \<Longrightarrow> row_ok w'"
proof (induction arbitrary: w' rule: rtranclp_induct)
  case (step y z)
  then show ?case using row_move_ok by blast
qed

lemma row_move_write:
  "row_move False z r r' \<Longrightarrow> r' = Some w' \<Longrightarrow> w_phase w' = WRITE_INTENT \<Longrightarrow> \<exists>w. r = Some w \<and> w_phase w = WRITE_INTENT"
  by (erule row_moveE) auto

lemma row_moves_write:
  "(row_move False z)\<^sup>*\<^sup>* r r' \<Longrightarrow> r' = Some w' \<Longrightarrow> w_phase w' = WRITE_INTENT \<Longrightarrow> \<exists>w. r = Some w \<and> w_phase w = WRITE_INTENT"
proof (induction arbitrary: w' rule: rtranclp_induct)
  case (step y z)
  then show ?case using row_move_write by blast
qed blast

lemma moves_rows: "moves b z l l' \<Longrightarrow> (row_move b (z k))\<^sup>*\<^sup>* (row_of l k) (row_of l' k)"
  by (simp add: moves_def)

lemma moves_row_ok: "moves b z l l' \<Longrightarrow> (\<forall>k w. row_of l k = Some w \<longrightarrow> row_ok w) \<Longrightarrow> row_of l' k = Some w \<Longrightarrow> row_ok w"
  by (rule row_moves_ok [OF moves_rows]) auto

lemma moves_one_write: "moves False z l l' \<Longrightarrow> one_write l \<Longrightarrow> one_write l'"
  unfolding one_write_def by (metis moves_rows row_moves_write)

lemma moves_grants_ok: "moves False z l l' \<Longrightarrow> grants_ok l \<Longrightarrow> grants_ok l'"
  unfolding grants_ok_def moves_def grants_kept_def by (fastforce split: option.splits)

lemma no_barrier: "\<not> write_barrier l k \<Longrightarrow> row_of l k' = Some w \<Longrightarrow> w_phase w = WRITE_INTENT \<Longrightarrow> k' = k"
  unfolding write_barrier_def row_of_def by (auto simp: list_ex_iff dest: map_of_SomeD)

lemma spend_nonneg: "0 \<le> g_source_calls g \<and> 0 \<le> g_writes g \<Longrightarrow> n \<le> allowance op g \<Longrightarrow> 0 \<le> g_source_calls (spend op n g) \<and> 0 \<le> g_writes (spend op n g)"
  by (cases op) auto

lemma intent_keeps:
  assumes "intent_op e c op n l = Inr (u, l')" and "grants_ok l"
  shows "one_write l'" and "grants_ok l'"
proof -
  from assms(1) have "intent_tx e c op n (reserve e l) = Inr (u, l')"
    by (auto dest!: intent_op_Inr simp: tx_Inr)
  then obtain w g nm where own: "owned e (reserve e l) c = Inr w"
    and g: "map_of (grants l) nm = Some g" "n \<le> allowance op g"
    and rows: "row_of l' = (row_of (reserve e l))(c_key c \<mapsto> w\<lparr>w_phase := intent_phase op\<rparr>)"
    and gs: "grants l' = AList.update nm (spend op n g) (grants l)"
    by (elim intent_tx_Inr) (simp only: reserve_fields)
  have "\<not> write_barrier (reserve e l) (c_key c)" using owned_Inr [OF own] by blast
  then show "one_write l'"
    unfolding one_write_def rows by (metis fun_upd_apply no_barrier)
  have "0 \<le> g_source_calls (spend op n g) \<and> 0 \<le> g_writes (spend op n g)"
    by (rule spend_nonneg [OF _ g(2)]) (use assms(2) g(1) in \<open>auto simp: grants_ok_def\<close>)
  with assms(2) show "grants_ok l'"
    by (simp add: grants_ok_def gs update_conv')
qed

lemma ledger_step_ok:
  assumes "ledger_ok l" shows "ledger_ok (ledger_step l ec)"
proof -
  obtain e cl where ec: "ec = (e, cl)" by (cases ec)
  have m: "moves (is_intent cl) (voids l ec) l (ledger_step l ec)"
    using ledger_step_moves [OF ledger_okD(1) [OF assms], of ec] by (simp add: ec)
  have "one_write (ledger_step l ec) \<and> grants_ok (ledger_step l ec)"
  proof (cases "is_intent cl")
    case True
    then obtain c op n where "cl = Intent c op n" by (cases cl) auto
    then show ?thesis
      using intent_keeps ledger_okD(3,4) [OF assms] by (auto simp: ec after_def split: sum.split)
  next
    case False
    with m ledger_okD(3,4) [OF assms] show ?thesis
      using moves_one_write moves_grants_ok by simp
  qed
  then show ?thesis
    using moves_control [OF m] moves_row_ok [OF m] assms unfolding ledger_ok_def by blast
qed

interpretation ledger_machine: machine ledger_step ledger_ok
  by unfold_locales (rule ledger_step_ok)

lemma installed_ok: "ledger_ok installed"
  by (auto simp: ledger_ok_def control_ok_def row_of_def installed_def row_ok_def control_row_def one_write_def grants_ok_def
      split: if_splits)

end
