(* ===== verification/LedgerScenario.thy ===== *)
theory LedgerScenario
  imports LedgerInvariant "HOL-Library.Code_Target_Nat"
begin

text \<open>A concrete run used by the witnesses: a discovery scope is queued, an allowance registered and the work claimed.\<close>

definition demo_key :: str where
  "demo_key = replicate 64 CHR ''a''"

definition demo_env :: "rat \<Rightarrow> env" where
  "demo_env t = \<lparr>now = t, sha = (\<lambda>_. demo_key), repr = (\<lambda>_. ''1.0''), octets = (\<lambda>_. 4096), sqlite = True\<rparr>"

definition demo_subject :: json where
  "demo_subject = JObj [(''council'', JStr ''salford''), (''end'', JStr ''2026-03-31''), (''kind'', JStr ''DISCOVERY_SCOPE''),
     (''semantics'', JStr ''VALIDATED''), (''start'', JStr ''2026-03-01'')]"

definition demo_calls :: "(env \<times> call) list" where
  "demo_calls = [
     (demo_env 10, Enqueue demo_subject DISCOVERY ''DISCOVERY_V1'' ''r1'' [] 50 0 QUEUED None 2 None None),
     (demo_env 11, Grant ''INGESTION_TEST_A'' [demo_key] 3 2 1000 [''DISCOVERY_V1''] []),
     (demo_env 12, ClaimKey demo_key ''worker-1'' ''INGESTION_TEST_A'' 120)]"

definition demo_claim :: claim where
  "demo_claim = \<lparr>c_key = demo_key, c_fence = 1, c_owner = ''worker-1''\<rparr>"

definition demo_ledger :: ledger where
  "demo_ledger = run ledger_step installed demo_calls"

text \<open>Further calls on the claimed ledger: a source call and its sealed evidence; a stop; a lapsed worker.\<close>

definition demo_evidence :: json where
  "demo_evidence = JObj [(''rows'', JInt 3)]"

definition demo_stopped :: ledger where
  "demo_stopped = ledger_step demo_ledger (demo_env 20, Stop ''OPERATOR'' None False)"

definition demo_sealed :: ledger where
  "demo_sealed = ledger_step demo_ledger (demo_env 20, Checkpoint demo_claim demo_evidence)"

definition demo_calling :: ledger where
  "demo_calling = ledger_step demo_ledger (demo_env 20, Intent demo_claim SourceCalls 1)"

lemma demo_ledger_ok: "ledger_ok demo_ledger"
  unfolding demo_ledger_def by (rule ledger_machine.run_inv [OF installed_ok])

end
