(* ===== verification/LedgerProperties.thy ===== *)
theory LedgerProperties
  imports LedgerScenario
begin

text \<open>
  The properties of the task ledger: what holds after every run, what a stop, a lapsed claim
  and sealed evidence rule out for ever, and how allowances are spent. Each rests on the row moves of
  \<open>LedgerSafety\<close> lifted to runs by the interpretation \<open>ledger_machine\<close>.
\<close>

section \<open>Lifting to runs\<close>

lemma run_lift:
  assumes "control_ok l" and "P l" and "\<And>b z l l'. moves b z l l' \<Longrightarrow> control_ok l \<Longrightarrow> P l \<Longrightarrow> P l'"
  shows "control_ok (run ledger_step l es) \<and> P (run ledger_step l es)"
  using assms(1,2)
proof (induction es arbitrary: l)
  case (Cons c es)
  have m: "moves (is_intent (snd c)) (voids l c) l (ledger_step l c)"
    using Cons.prems(1) by (rule ledger_step_moves)
  show ?case
    using Cons.IH [OF moves_control [OF m Cons.prems(1)] assms(3) [OF m Cons.prems]] by simp
qed simp

lemma row_moves_keep:
  assumes "(row_move b z)\<^sup>*\<^sup>* r r'" and "\<exists>w. r = Some w \<and> P w" and "\<And>w r'. row_move b z (Some w) r' \<Longrightarrow> P w \<Longrightarrow> \<exists>w'. r' = Some w' \<and> P w'"
  shows "\<exists>w. r' = Some w \<and> P w"
  using assms(1,2) by (induction rule: rtranclp_induct) (auto dest: assms(3))

lemma tx_Inl:
  "(\<And>m. row_of m = row_of (reserve e l) \<Longrightarrow> global_stop m = global_stop l \<Longrightarrow> grants m = grants l \<Longrightarrow> \<exists>x. body m = Inl x) \<Longrightarrow> \<exists>x. tx e body l = Inl x"
proof -
  assume h: "\<And>m. row_of m = row_of (reserve e l) \<Longrightarrow> global_stop m = global_stop l \<Longrightarrow> grants m = grants l \<Longrightarrow> \<exists>x. body m = Inl x"
  have "\<exists>x. body (reserve e l) = Inl x" by (rule h) simp_all
  then show ?thesis by (auto simp: tx_def)
qed

lemma not_Inr: "(\<And>x. r \<noteq> Inr x) \<Longrightarrow> \<exists>x. r = Inl x"
  by (cases r) auto

section \<open>The invariant\<close>

text \<open>
  C1. After any sequence of ledger operations from a fresh installation, whatever they return, every row is well
  formed (attempts within the maximum of at most 3, the fence at least the number of attempts, an owner, lease and
  authority exactly while claimed, the phase one the state allows), at most one row is in a write intent, no
  allowance is negative and the control row is in place.
\<close>

theorem ledger_runs_ok: "ledger_ok (run ledger_step installed es)"
  by (rule ledger_machine.run_inv [OF installed_ok])

section \<open>A stop is final\<close>

definition stopped :: "ledger \<Rightarrow> bool" where
  "stopped l = (global_stop l \<noteq> None)"

lemma stopped_run: "control_ok l \<Longrightarrow> stopped l \<Longrightarrow> stopped (run ledger_step l es)"
  using run_lift [of l stopped] by (auto simp: stopped_def moves_def)

lemma owned_stopped: "global_stop l \<noteq> None \<Longrightarrow> \<exists>x. owned e l c = Inl x"
  by (rule not_Inr) (auto dest: owned_Inr)

lemma claim_tx_stopped: "global_stop l \<noteq> None \<Longrightarrow> \<exists>x. claim_tx e k w a s l = Inl x"
  by (rule not_Inr) (auto elim!: claim_tx_Inr dest: permit_Inr)

lemma claim_op_live: "claim_op e k w a s l = Inr (c, l') \<Longrightarrow> global_stop l = None"
  using claim_op_Inr tx_Inr claim_tx_stopped reserve_fields by (metis sum.distinct(1))

lemma claim_stopped: "global_stop l \<noteq> None \<Longrightarrow> isl (claim_op e k w a s l)"
  using claim_op_live by (cases "claim_op e k w a s l") auto

lemma claim_first_stopped: "claim_first e w a ks l = Inr (c, l') \<Longrightarrow> global_stop l \<noteq> None \<Longrightarrow> c = None"
proof (induction ks)
  case (Cons k ks)
  from claim_stopped [OF Cons.prems(2), of e k w a 120] Cons show ?case
    by (auto split: sum.splits if_splits)
qed simp

definition refuses :: "env \<Rightarrow> claim \<Rightarrow> ledger \<Rightarrow> bool" where
  "refuses e c l = ((\<forall>v op n out st re d rc ds wr ack. isl (checkpoint_op e c v l) \<and> isl (intent_op e c op n l) \<and>
     isl (finish_op e c out st re d rc ds l) \<and> isl (snd (fenced_effect_op e c wr ack l))) \<and>
     (\<forall>s t ct r ds p x st re m lm. isl (enqueue_op e s t ct r ds p x st re m lm (Some c) l)))"

lemma refusesI:
  assumes "\<And>m. row_of m = row_of (reserve e l) \<Longrightarrow> global_stop m = global_stop l \<Longrightarrow> \<exists>x. owned e m c = Inl x"
  shows "refuses e c l"
proof -
  have own: "\<exists>x. owned e (reserve e l) c = Inl x" by (rule assms) simp_all
  then have bad: "isl (tx e (checkpoint_tx e c v) l)" "isl (tx e (intent_tx e c op n) l)"
    "isl (tx e (finish_tx e c out st re d rc ds) l)" "isl (tx e (fenced_tx e c wr) l)" for v op n out st re d rc ds wr
    by (auto simp: tx_def checkpoint_tx_def intent_tx_def finish_tx_def fenced_tx_def)
  have "isl (snd (fenced_effect_op e c wr ack l))" for wr ack
    using bad(4) [of wr] by (auto simp: fenced_effect_op_def uncertain_stop_def isl_def split: sum.split)
  moreover have "isl (enqueue_op e s t ct r ds p x st re m lm (Some c) l)" for s t ct r ds p x st re m lm
  proof -
    have "isl (tx e (enqueue_tx e key s' t ct r deps p x st re m lmt (Some c)) l)" for key s' deps lmt
      using own by (auto simp: tx_def enqueue_tx_def)
    then show ?thesis unfolding enqueue_op_def Let_def by (auto split: sum.split option.split)
  qed
  ultimately show ?thesis
    using bad(1-3) unfolding refuses_def checkpoint_op_def intent_op_def finish_op_def by (simp split: sum.split)
qed

text \<open>
  C2. Once the ledger is stopped it stays stopped whatever is called, no operation claims work any more (by key or
  by scan), and no holder of a claim can seal evidence, start a source call or write, finish, run a
  guarded effect or queue a child.
\<close>

theorem stop_is_final:
  assumes "control_ok l" and "global_stop l \<noteq> None"
  shows "let l' = run ledger_step l es in global_stop l' \<noteq> None \<and> isl (claim_op e k w a s l') \<and>
    (case snd (claim_next_op e w a l') of Inl x \<Rightarrow> True | Inr c \<Rightarrow> c = None) \<and> refuses e c l'"
proof -
  define l' where "l' = run ledger_step l es"
  have st: "global_stop l' \<noteq> None"
    using stopped_run [OF assms(1)] assms(2) by (simp add: l'_def stopped_def)
  have "case snd (claim_next_op e w a l') of Inl x \<Rightarrow> True | Inr c \<Rightarrow> c = None"
  proof (cases "tx e (scan_tx e a) l'")
    case (Inr r)
    then obtain ks m where r: "tx e (scan_tx e a) l' = Inr (ks, m)" by (cases r) auto
    then have "m = reserve e l'" by (auto simp: tx_Inr dest: scan_tx_Inr)
    with st have "global_stop m \<noteq> None" by simp
    with r show ?thesis
      by (auto simp: claim_next_op_def split: sum.split dest!: claim_first_stopped)
  qed (simp add: claim_next_op_def)
  moreover have "refuses e c l'"
    by (rule refusesI) (use st owned_stopped in simp)
  ultimately show ?thesis
    using st claim_stopped [OF st, of e k w a s] by (auto simp: Let_def l'_def [symmetric])
qed

theorem stop_is_final_witness:
  "global_stop (run ledger_step demo_stopped demo_calls) \<noteq> None \<and> refuses (demo_env 30) demo_claim (run ledger_step demo_stopped demo_calls)"
proof -
  have ok: "control_ok demo_stopped"
    unfolding demo_stopped_def by (rule ledger_okD(1)) (rule ledger_step_ok [OF demo_ledger_ok])
  have "global_stop demo_stopped \<noteq> None" by code_simp
  with ok show ?thesis
    using stop_is_final [of demo_stopped demo_calls "demo_env 30" demo_key "''w''" "''INGESTION_TEST_A''" 120 demo_claim]
    by (simp add: Let_def)
qed


section \<open>A lost claim stays lost\<close>

text \<open>The row has moved past the claim's fence, or keeps it but is no longer claimed.\<close>

definition lost :: "claim \<Rightarrow> ledger \<Rightarrow> bool" where
  "lost c l = (case row_of l (c_key c) of None \<Rightarrow> False
     | Some w \<Rightarrow> c_fence c < w_fence w \<or> (c_fence c = w_fence w \<and> w_state w \<noteq> CLAIMED))"

lemma lost_move:
  "row_move b z (Some w) r' \<Longrightarrow> f < w_fence w \<or> (f = w_fence w \<and> w_state w \<noteq> CLAIMED) \<Longrightarrow>
    \<exists>w'. r' = Some w' \<and> (f < w_fence w' \<or> (f = w_fence w' \<and> w_state w' \<noteq> CLAIMED))"
  by (erule row_moveE) auto

lemma lost_iff: "lost c l = (\<exists>w. row_of l (c_key c) = Some w \<and>
    (c_fence c < w_fence w \<or> (c_fence c = w_fence w \<and> w_state w \<noteq> CLAIMED)))"
  by (simp add: lost_def split: option.split)

lemma lost_moves: "moves b z l l' \<Longrightarrow> lost c l \<Longrightarrow> lost c l'"
  unfolding lost_iff by (rule row_moves_keep [OF moves_rows]) (auto dest: lost_move)

lemma lost_reserve: "control_ok l \<Longrightarrow> lost c l \<Longrightarrow> lost c (reserve e l)"
  by (rule lost_moves [OF reserve_moves])

lemma lost_same_rows: "row_of m = row_of l \<Longrightarrow> lost c m = lost c l"
  by (simp add: lost_def)

lemma lost_not_owned: "lost c l \<Longrightarrow> \<exists>x. owned e l c = Inl x"
  by (rule not_Inr) (auto simp: lost_iff holds_def dest: owned_Inr)

lemma lost_refuses: "control_ok l \<Longrightarrow> lost c l \<Longrightarrow> refuses e c l"
  by (rule refusesI) (metis lost_reserve lost_same_rows lost_not_owned)

lemma lost_no_recovery:
  assumes "control_ok l" and "lost c l" shows "isl (recover_op e c cl l)"
proof -
  have "lost c (reserve e l)" using assms by (rule lost_reserve)
  then have "\<exists>x. recover_tx e c cl (reserve e l) = Inl x"
    by (intro not_Inr) (auto simp: lost_iff elim!: recover_tx_Inr)
  then show ?thesis by (auto simp: recover_op_def tx_def)
qed

lemma lost_stop:
  assumes "control_ok l" and "lost c l" shows "stop_op e re (Some c) u l = stop_op e re None u l"
proof -
  have "stop_claim e re (Some c) u m = stop_claim e re None u m" if "row_of m = row_of (reserve e l)" for m
    using lost_reserve [OF assms, of e] unfolding lost_same_rows [OF that, of c, symmetric] by (auto simp: stop_claim_def lost_iff)
  moreover have "row_of m = row_of (reserve e l)" if "put_control e (reserve e l\<lparr>global_stop := s\<rparr>) = Inr m" for s m
    using that by (auto simp: ok_simps)
  ultimately have "stop_tx e re (Some c) u (reserve e l) = stop_tx e re None u (reserve e l)"
    unfolding stop_tx_def by (simp cong: sum.case_cong split: sum.split)
  then show ?thesis by (simp add: stop_op_def tx_def)
qed

text \<open>
  C3. Fencing: once a claim is lost (its row was taken by a later claim, stopped, recovered or finished), then after
  any further operations, at any time and whatever the arguments, that claim can never seal evidence, open an intent,
  finish, run a guarded effect, queue a child task or be recovered. The one other operation that takes a claim is the stop,
  which anyone may call: with a lost claim it does exactly what it does without a claim, so it touches no row of a task.
\<close>

theorem lost_claim_stays_lost:
  assumes "control_ok l" and "lost c l"
  shows "let l' = run ledger_step l es in lost c l' \<and> refuses e c l' \<and> isl (recover_op e c cl l') \<and>
    stop_op e re (Some c) u l' = stop_op e re None u l'"
proof -
  have "control_ok (run ledger_step l es) \<and> lost c (run ledger_step l es)"
    using assms lost_moves by (rule run_lift)
  then show ?thesis by (simp add: Let_def lost_refuses lost_no_recovery lost_stop)
qed

definition demo_late :: ledger where
  "demo_late = ledger_step demo_ledger (demo_env 200, Recover demo_claim True)"

theorem lost_claim_stays_lost_witness:
  "lost demo_claim demo_late \<and> refuses (demo_env 210) demo_claim
     (run ledger_step demo_late [(demo_env 201, ClaimKey demo_key ''worker-2'' ''INGESTION_TEST_A'' 60)])"
proof -
  have "control_ok demo_late"
    unfolding demo_late_def by (rule ledger_okD(1)) (rule ledger_step_ok [OF demo_ledger_ok])
  moreover have "lost demo_claim demo_late" by code_simp
  ultimately show ?thesis
    using lost_claim_stays_lost [of demo_late demo_claim "[(demo_env 201, ClaimKey demo_key ''worker-2'' ''INGESTION_TEST_A'' 60)]" "demo_env 210" True
      "''OPERATOR''" False]
    by (simp add: Let_def)
qed

section \<open>Sealed evidence is never fetched again\<close>

lemma checkpoint_move: "row_move b False (Some w) r' \<Longrightarrow> w_checkpoint w \<noteq> None \<Longrightarrow> \<exists>w'. r' = Some w' \<and> w_checkpoint w' \<noteq> None"
  by (erule row_moveE) auto

definition sealed :: "str \<Rightarrow> ledger \<Rightarrow> bool" where
  "sealed k l = (\<exists>w. row_of l k = Some w \<and> w_checkpoint w \<noteq> None)"

lemma sealed_moves: "moves b z l l' \<Longrightarrow> \<not> z k \<Longrightarrow> sealed k l \<Longrightarrow> sealed k l'"
  unfolding sealed_def by (drule moves_rows [where k = k]) (erule row_moves_keep, auto dest: checkpoint_move)

text \<open>No call of the run stores null evidence over what the row of \<open>k\<close> holds.\<close>

fun never_voided :: "str \<Rightarrow> ledger \<Rightarrow> (env \<times> call) list \<Rightarrow> bool" where
  "never_voided k l [] = True"
| "never_voided k l (c # cs) = (\<not> voids l c k \<and> never_voided k (ledger_step l c) cs)"

lemma sealed_run: "control_ok l \<Longrightarrow> sealed k l \<Longrightarrow> never_voided k l es \<Longrightarrow> control_ok (run ledger_step l es) \<and> sealed k (run ledger_step l es)"
proof (induction es arbitrary: l)
  case (Cons c es)
  have m: "moves (is_intent (snd c)) (voids l c) l (ledger_step l c)" using Cons.prems(1) by (rule ledger_step_moves)
  show ?case
    using Cons.IH [OF moves_control [OF m Cons.prems(1)] sealed_moves [OF m _ Cons.prems(2)]] Cons.prems(3) by simp
qed simp

text \<open>
  C8. Once a row holds sealed evidence it does so through every run in which its own holder does not store null
  evidence over it, whoever claims it later, and a source call on it is refused for every claim: an interrupted task never
  repeats the source access whose result it has kept. Null evidence is the exception the code leaves open
  (\<open>null_evidence_unseals\<close> below): it is admitted and empties the row, and the source call is allowed again.
\<close>

theorem no_source_replay:
  assumes "control_ok l" and "sealed k l" and "never_voided k l es" and "c_key c = k"
  shows "sealed k (run ledger_step l es) \<and> isl (intent_op e c SourceCalls n (run ledger_step l es))"
proof -
  define l' where "l' = run ledger_step l es"
  have kept: "control_ok l' \<and> sealed k l'" unfolding l'_def using assms(1-3) by (rule sealed_run)
  then have "sealed k (reserve e l')" using sealed_moves [OF reserve_moves, of l' "\<lambda>_. False"] by blast
  then have "\<exists>x. intent_tx e c SourceCalls n (reserve e l') = Inl x"
    by (intro not_Inr) (auto simp: sealed_def assms(4) [symmetric] elim!: intent_tx_Inr dest!: owned_Inr)
  then show ?thesis using kept by (auto simp: intent_op_def tx_def l'_def [symmetric] isl_def)
qed

definition demo_lapsed :: "(env \<times> call) list" where
  "demo_lapsed = [(demo_env 200, Recover demo_claim True), (demo_env 201, ClaimKey demo_key ''worker-2'' ''INGESTION_TEST_A'' 60)]"

definition demo_second :: claim where
  "demo_second = \<lparr>c_key = demo_key, c_fence = 3, c_owner = ''worker-2''\<rparr>"

lemma demo_sealed_ok: "control_ok demo_sealed" "sealed demo_key demo_sealed"
proof -
  show "control_ok demo_sealed"
    unfolding demo_sealed_def by (rule ledger_okD(1)) (rule ledger_step_ok [OF demo_ledger_ok])
  have "map_option (\<lambda>w. w_checkpoint w \<noteq> None) (row_of demo_sealed demo_key) = Some True" by code_simp
  then show "sealed demo_key demo_sealed" by (auto simp: sealed_def)
qed

theorem no_source_replay_witness:
  "isl (intent_op (demo_env 210) demo_second SourceCalls 1 (run ledger_step demo_sealed demo_lapsed))"
  by (rule no_source_replay [OF demo_sealed_ok, THEN conjunct2]) (code_simp, simp add: demo_second_def)

text \<open>The holder of a sealed row stores null evidence over it, and may call the source again.\<close>

lemma null_evidence_unseals:
  "\<not> isl (checkpoint_op (demo_env 21) demo_claim JNull demo_sealed) \<and>
   \<not> isl (intent_op (demo_env 22) demo_claim SourceCalls 1 (ledger_step demo_sealed (demo_env 21, Checkpoint demo_claim JNull)))"
  by (rule conjI) code_simp+

section \<open>Allowances\<close>

text \<open>What one call, and a sequence of calls, spends of authority \<open>a\<close>'s allowance for \<open>op\<close>.\<close>

fun spend_of :: "str \<Rightarrow> operation \<Rightarrow> ledger \<Rightarrow> env \<times> call \<Rightarrow> int" where
  "spend_of a op l (e, Intent c o' n) = (case intent_op e c o' n l of Inl _ \<Rightarrow> 0
     | Inr _ \<Rightarrow> if o' = op \<and> Option.bind (row_of l (c_key c)) w_authority = Some a then n else 0)"
| "spend_of a op l (e, _) = 0"

fun spent :: "str \<Rightarrow> operation \<Rightarrow> ledger \<Rightarrow> (env \<times> call) list \<Rightarrow> int" where
  "spent a op l [] = 0"
| "spent a op l (c # cs) = spend_of a op l c + spent a op (ledger_step l c) cs"

lemma reserve_authority: "row_of (reserve e l) k = Some w \<Longrightarrow> Option.bind (row_of l k) w_authority = w_authority w"
  by (auto simp: reserve_def split: if_splits option.splits)

lemma allowance_spend: "allowance op (spend o' n g) = allowance op g - (if o' = op then n else 0)"
  by (cases op; cases o') auto

lemma spend_step:
  assumes "ledger_ok l" and "map_of (grants l) a = Some g"
  shows "\<exists>g'. map_of (grants (ledger_step l c)) a = Some g' \<and> allowance op g' + spend_of a op l c = allowance op g"
proof (cases "is_intent (snd c)")
  case False
  then have "moves False (voids l c) l (ledger_step l c)"
    using ledger_step_moves [OF ledger_okD(1) [OF assms(1)], of c] by simp
  then have "map_of (grants (ledger_step l c)) a = Some g"
    using assms(2) unfolding moves_def grants_kept_def by (fastforce split: option.splits)
  moreover have "spend_of a op l c = 0"
    using False by (cases "(a, op, l, c)" rule: spend_of.cases) auto
  ultimately show ?thesis by simp
next
  case True
  then obtain e k o' n where c: "c = (e, Intent k o' n)" by (cases c, cases "snd c") auto
  show ?thesis
  proof (cases "intent_op e k o' n l")
    case (Inl x)
    then show ?thesis using assms(2) by (simp add: c after_def)
  next
    case (Inr r)
    then obtain u l' where r: "intent_op e k o' n l = Inr (u, l')" by (cases r) auto
    then have "intent_tx e k o' n (reserve e l) = Inr (u, l')" by (auto dest!: intent_op_Inr simp: tx_Inr)
    then obtain w g0 nm where own: "owned e (reserve e l) k = Inr w" and nm: "w_authority w = Some nm"
      and g0: "map_of (grants l) nm = Some g0" and gs: "grants l' = AList.update nm (spend o' n g0) (grants l)"
      by (elim intent_tx_Inr) (simp only: reserve_fields)
    have "Option.bind (row_of l (c_key k)) w_authority = Some nm"
      using reserve_authority owned_Inr [OF own] nm by metis
    then show ?thesis
      using r assms(2) g0 by (auto simp: c after_def gs update_conv' allowance_spend)
  qed
qed

text \<open>
  C4. Allowances are conserved: over any sequence of operations, what is left of a registered allowance plus what the
  successful intents under it spent is what it held at the start, and it never goes below zero; no operation
  tops it up or registers it again.
\<close>

theorem allowance_conserved:
  assumes "ledger_ok l" and "map_of (grants l) a = Some g"
  shows "\<exists>g'. map_of (grants (run ledger_step l es)) a = Some g' \<and>
    allowance op g' + spent a op l es = allowance op g \<and> 0 \<le> allowance op g'"
  using assms
proof (induction es arbitrary: l g)
  case Nil
  then show ?case by (cases op) (auto simp: ledger_ok_def grants_ok_def)
next
  case (Cons c es)
  from spend_step [OF Cons.prems] obtain g1 where g1: "map_of (grants (ledger_step l c)) a = Some g1"
    and eq: "allowance op g1 + spend_of a op l c = allowance op g" by blast
  from Cons.IH [OF ledger_step_ok [OF Cons.prems(1)] g1] eq show ?case by auto
qed

definition demo_grant :: grant where
  "demo_grant = \<lparr>g_keys = [demo_key], g_contracts = [''DISCOVERY_V1''], g_source_calls = 3, g_writes = 2,
     g_expires_at = 1000, g_detail_source_keys = []\<rparr>"

theorem allowance_conserved_witness:
  "\<exists>g'. map_of (grants (run ledger_step demo_ledger [(demo_env 20, Intent demo_claim SourceCalls 1)])) ''INGESTION_TEST_A'' = Some g' \<and>
    allowance SourceCalls g' + 1 = 3"
proof -
  have "map_of (grants demo_ledger) ''INGESTION_TEST_A'' = Some demo_grant" by code_simp
  note this' = allowance_conserved [OF demo_ledger_ok this, of "[(demo_env 20, Intent demo_claim SourceCalls 1)]" SourceCalls]
  have "spent ''INGESTION_TEST_A'' SourceCalls demo_ledger [(demo_env 20, Intent demo_claim SourceCalls 1)] = 1"
    by code_simp
  moreover have "allowance SourceCalls demo_grant = 3" by code_simp
  ultimately show ?thesis using this' by auto
qed

section \<open>Lapsed workers and interrupted writes\<close>

text \<open>
  C9. Recovering a lapsed claim decides by the phase its worker reached: an open write becomes persistence-uncertain
  and an open source call or unclosed cleanup safety-blocked, both with the ledger stopped; only otherwise may the row be
  claimed again. The claim is fenced off, the row's sealed evidence is kept, and no allowance is given back.
\<close>

theorem recovery_by_phase:
  assumes "recover_op e c cl l = Inr (u, l')" and "row_of l (c_key c) = Some w" and "c_key c \<noteq> CONTROL"
  shows "\<exists>w'. row_of l' (c_key c) = Some w' \<and> lost c l' \<and> w_checkpoint w' = w_checkpoint w \<and> grants l' = grants l \<and>
    (if w_phase w = WRITE_INTENT then w_state w' = PERSISTENCE_UNCERTAIN \<and> global_stop l' = Some (abandoned_stop (c_key c))
     else if w_phase w = SOURCE_INTENT \<or> \<not> cl then w_state w' = SAFETY_BLOCKED \<and> global_stop l' = Some (abandoned_stop (c_key c))
     else w_state w' = DEFERRED \<and> global_stop l' = global_stop l)"
proof -
  from assms(1) have tx: "recover_tx e c cl (reserve e l) = Inr (u, l')"
    by (simp add: recover_op_def tx_Inr)
  have same: "row_of (reserve e l) (c_key c) = Some w"
    using assms(2,3) by (simp add: reserve_def split: option.split)
  from tx show ?thesis
  proof (rule recover_tx_Inr)
    fix v r o' n
    assume "row_of (reserve e l) (c_key c) = Some v" "w_fence v = c_fence c" "grants l' = grants (reserve e l)"
      and rows: "row_of l' = (row_of (reserve e l))(c_key c \<mapsto> v\<lparr>w_state := recovered_state (w_phase v) cl, w_reason := r,
        w_owner := None, w_lease_until := None, w_fence := w_fence v + 1, w_outcome := o', w_next_action := n, w_phase := RECOVERED\<rparr>)"
      and "global_stop l' = (if recovered_state (w_phase v) cl \<in> BLOCKED then Some (abandoned_stop (c_key c)) else global_stop (reserve e l))"
    with same show ?thesis
      by (simp add: lost_def recovered_state_def BLOCKED_def)
  qed
qed

theorem recovery_by_phase_witness:
  "\<exists>l'. recover_op (demo_env 200) demo_claim True demo_calling = Inr ((), l') \<and> global_stop l' = Some (abandoned_stop demo_key)"
proof -
  have ok: "case recover_op (demo_env 200) demo_claim True demo_calling of Inl _ \<Rightarrow> False | Inr _ \<Rightarrow> True" by code_simp
  then obtain u l' where r: "recover_op (demo_env 200) demo_claim True demo_calling = Inr (u, l')"
    by (auto split: sum.splits)
  have "map_option w_phase (row_of demo_calling demo_key) = Some SOURCE_INTENT" by code_simp
  then obtain w where w: "row_of demo_calling (c_key demo_claim) = Some w" "w_phase w = SOURCE_INTENT"
    by (auto simp: demo_claim_def)
  have "c_key demo_claim \<noteq> CONTROL" by code_simp
  from recovery_by_phase [OF r w(1) this] w(2) r show ?thesis by (auto simp: demo_claim_def)
qed

text \<open>
  C10. A guarded effect that fails after the writer was entered, for whatever reason, is reported as uncertain
  persistence, and leaves the ledger stopped with the claim lost; only where even that stop could not be recorded is
  the ledger left as the transaction left it.
\<close>

theorem failed_effect_stops:
  assumes "entered e c l" and "snd (fenced_effect_op e c wr ack l) = Inl x"
  shows "x = UncertainPersistence ''RECONCILE_BEFORE_ANY_WRITE'' \<and>
    (let l0 = (if ack = LostApplied then after l (tx e (fenced_tx e c wr) l) else l); l' = fst (fenced_effect_op e c wr ack l) in
       (case stop_op e ''UNCERTAIN_COMMIT_OR_READBACK'' (Some c) True l0 of Inl _ \<Rightarrow> l' = l0
        | Inr (_, m) \<Rightarrow> l' = m \<and> global_stop m \<noteq> None))"
proof -
  have stops: "stop_op e r k u m = Inr (v, m') \<Longrightarrow> global_stop m' \<noteq> None" for r k u m v m'
  proof -
    assume "stop_op e r k u m = Inr (v, m')"
    then have "stop_tx e r k u (reserve e m) = Inr (v, m')" by (simp add: stop_op_def tx_Inr)
    then show "global_stop m' \<noteq> None"
    proof (rule stop_tx_Inr)
      fix n assume n: "stop_claim e r k u n = Inr (v, m')" "global_stop n \<noteq> None"
      then show "global_stop m' \<noteq> None" using stop_claim_moves [OF n(1), of True] by (simp add: moves_def)
    qed
  qed
  have un: "snd (uncertain_stop e c m) = Inl (UncertainPersistence ''RECONCILE_BEFORE_ANY_WRITE'')" for m
    by (simp add: uncertain_stop_def split: sum.split prod.split)
  have first: "fst (uncertain_stop e c m) = (case stop_op e ''UNCERTAIN_COMMIT_OR_READBACK'' (Some c) True m of Inl _ \<Rightarrow> m | Inr (_, m') \<Rightarrow> m')" for m
    by (simp add: uncertain_stop_def split: sum.split prod.split)
  show ?thesis
    using assms un stops
    by (cases "tx e (fenced_tx e c wr) l"; cases ack)
      (auto simp: fenced_effect_op_def first Let_def after_def split: sum.split prod.split)
qed

definition demo_application :: json where
  "demo_application = JObj [(''council'', JStr ''salford''), (''kind'', JStr ''APPLICATION''), (''reference'', JStr ''26/1/FUL'')]"

definition demo_writing :: ledger where
  "demo_writing = run ledger_step installed [
     (demo_env 10, Enqueue demo_application FACTUAL_REFRESH ''DISCOVERY_V1'' ''r1'' [] 50 0 QUEUED None 2 None None),
     (demo_env 11, Grant ''INGESTION_TEST_A'' [demo_key] 3 2 1000 [''DISCOVERY_V1''] []),
     (demo_env 12, ClaimKey demo_key ''worker-1'' ''INGESTION_TEST_A'' 120),
     (demo_env 13, Intent demo_claim Writes 1)]"

theorem failed_effect_stops_witness:
  "entered (demo_env 14) demo_claim demo_writing \<and>
   global_stop (fst (fenced_effect_op (demo_env 14) demo_claim (\<lambda>_. Inl TypeError) Acknowledged demo_writing)) \<noteq> None"
proof -
  have a: "entered (demo_env 14) demo_claim demo_writing" by code_simp
  have "case snd (fenced_effect_op (demo_env 14) demo_claim (\<lambda>_. Inl TypeError) Acknowledged demo_writing) of Inl _ \<Rightarrow> True | Inr _ \<Rightarrow> False"
    by code_simp
  then obtain x where b: "snd (fenced_effect_op (demo_env 14) demo_claim (\<lambda>_. Inl TypeError) Acknowledged demo_writing) = Inl x"
    by (auto split: sum.splits)
  have "case stop_op (demo_env 14) ''UNCERTAIN_COMMIT_OR_READBACK'' (Some demo_claim) True demo_writing of Inl _ \<Rightarrow> False | Inr _ \<Rightarrow> True"
    by code_simp
  with a failed_effect_stops [OF a b] show ?thesis
    by (auto simp: Let_def split: sum.splits)
qed

section \<open>Queueing twice\<close>

lemma reserve_length: "length (items (reserve e l)) = length (items l)"
proof -
  have "map_of xs k = Some v \<Longrightarrow> length (AList.update k w xs) = length xs" for k :: str and v w :: work_item and xs
    using arg_cong [OF update_keys [of k w xs], of length] by (force dest: map_of_SomeD)
  then show ?thesis by (auto simp: reserve_def set_row_def row_of_def split: option.split)
qed

lemma reserve_row:
  assumes "row_of l k = Some w" shows "\<exists>f. row_of (reserve e l) k = Some (w\<lparr>w_fence := f\<rparr>)"
proof (cases "sqlite e \<and> k = CONTROL")
  case True
  with assms show ?thesis by (auto simp: reserve_def)
next
  case False
  with assms have "row_of (reserve e l) k = Some (w\<lparr>w_fence := w_fence w\<rparr>)"
    by (auto simp: reserve_def split: option.split)
  then show ?thesis by blast
qed

text \<open>
  Queueing is idempotent: repeating a successful request at any later time gives the same key and changes
  no row (the transaction's own bump of the control row apart), no attempt, no allowance and no stop.
\<close>

theorem enqueue_idempotent:
  assumes "enqueue_op e s t c r ds p x st re m lm None l = Inr (k, l')" and "sha e' = sha e" and "octets e' (reserve e' l') \<le> 32 * 1024 ^ 2"
  shows "enqueue_op e' s t c r ds p x st re m lm None l' = Inr (k, reserve e' l')"
proof -
  from assms(1) obtain subj lmt where b: "bounded 4096 s = Inr subj" "check_subject subj t = Inr ()"
    "1 \<le> length c \<and> length c \<le> 100 \<and> 1 \<le> length r \<and> length r \<le> 100" "st \<in> {QUEUED, DEFERRED} \<union> BLOCKED"
    "st \<noteq> QUEUED \<longrightarrow> truthy re" "0 \<le> p \<and> p \<le> 100 \<and> 1 \<le> m \<and> m \<le> 3" "length (sorted_set ds) \<le> 32"
    and lm: "(case lm of None \<Rightarrow> Some DEFAULT_LIMITS | Some fs \<Rightarrow> limits_of fs) = Some lmt"
    and run: "tx e (enqueue_tx e (work_key e subj t c r) subj t c r (sorted_set ds) p x st re m lmt None) l = Inr (k, l')"
    unfolding enqueue_op_def Let_def by (auto split: sum.splits if_splits option.splits)
  have key: "work_key e' subj t c r = work_key e subj t c r"
    using assms(2) by (simp add: work_key_def)
  define key where "key = work_key e subj t c r"
  from run have body: "enqueue_tx e key subj t c r (sorted_set ds) p x st re m lmt None (reserve e l) = Inr (k, l')"
    and ctl: "row_of l CONTROL \<noteq> None" and cap: "ceilings e l' = Inr ()"
    by (auto simp: tx_Inr key_def)
  then obtain w where w: "k = key" "row_of l' key = Some w" "w_limits w = lmt" "w_max_attempts w = m" "w_dependencies w = sorted_set ds"
    by (auto simp: enqueue_tx_def split: option.splits if_splits)
  then obtain w' where w': "row_of (reserve e' l') key = Some w'" "w_limits w' = lmt" "w_max_attempts w' = m" "w_dependencies w' = sorted_set ds"
    using reserve_row [OF w(2), of e'] by fastforce
  then have again: "enqueue_tx e' key subj t c r (sorted_set ds) p x st re m lmt None (reserve e' l') = Inr (k, reserve e' l')"
    using w(1) by (simp add: enqueue_tx_def)
  have "row_of l' CONTROL \<noteq> None"
    using body ctl by (auto simp: enqueue_tx_def reserve_def split: option.splits if_splits)
  moreover have "ceilings e' (reserve e' l') = Inr ()"
    using cap assms(3) by (simp add: ceilings_def reserve_length split: if_splits)
  ultimately have "tx e' (enqueue_tx e' key subj t c r (sorted_set ds) p x st re m lmt None) l' = Inr (k, reserve e' l')"
    by (simp add: tx_def again)
  with b lm key show ?thesis
    unfolding enqueue_op_def key_def Let_def by auto
qed

theorem enqueue_idempotent_witness:
  "\<exists>l'. enqueue_op (demo_env 99) demo_subject DISCOVERY ''DISCOVERY_V1'' ''r1'' [] 50 0 QUEUED None 2 None None l' = Inr (demo_key, reserve (demo_env 99) l')"
proof -
  have "case enqueue_op (demo_env 10) demo_subject DISCOVERY ''DISCOVERY_V1'' ''r1'' [] 50 0 QUEUED None 2 None None installed of Inl _ \<Rightarrow> False
      | Inr (k, _) \<Rightarrow> k = demo_key" by code_simp
  then obtain l' where l': "enqueue_op (demo_env 10) demo_subject DISCOVERY ''DISCOVERY_V1'' ''r1'' [] 50 0 QUEUED None 2 None None installed = Inr (demo_key, l')"
    by (auto split: sum.splits)
  show ?thesis
    by (rule exI [of _ l']) (rule enqueue_idempotent [OF l'], simp_all add: demo_env_def)
qed

end
