(* ===== verification/WorkerInterface.thy ===== *)
theory WorkerInterface
  imports LedgerProperties
begin

text \<open>
  The worker-facing seam over the ledger, app/ingestion/worker_interface.py: a worker chooses among prebound
  keys only, and may claim a task and seal evidence a trusted validator accepts. The controller's validators
  are arguments (contract to a function of the row's JSON and the receipt). What the seam needs of the ledger is the
  locale \<open>leased_store\<close>, interpreted on the ledger's operations.
\<close>

section \<open>Bindings\<close>

record task_binding =
  b_key :: str
  b_task :: str
  b_contract :: str
  b_revision :: str
  b_subject_sha256 :: str

record worker =
  wi_owner :: str
  wi_authority :: str
  wi_bindings :: "(str \<times> task_binding) list"
  wi_validators :: "(str \<times> (json \<Rightarrow> json \<Rightarrow> bool)) list"

fun state_str :: "wstate \<Rightarrow> str" where
  "state_str QUEUED = ''QUEUED''"
| "state_str DEFERRED = ''DEFERRED''"
| "state_str CLAIMED = ''CLAIMED''"
| "state_str COMPLETE = ''COMPLETE''"
| "state_str UNSUPPORTED_CONTRACT = ''UNSUPPORTED_CONTRACT''"
| "state_str SAFETY_BLOCKED = ''SAFETY_BLOCKED''"
| "state_str PERSISTENCE_UNCERTAIN = ''PERSISTENCE_UNCERTAIN''"
| "state_str CONTROL_STATE = ''CONTROL''"

definition limits_json :: "task_limits \<Rightarrow> json" where
  "limits_json lmt = JObj (map (\<lambda>(n, sel). (n, JInt (sel lmt))) limit_fields)"

definition opt_json :: "('a \<Rightarrow> json) \<Rightarrow> 'a option \<Rightarrow> json" where
  "opt_json f x = (case x of None \<Rightarrow> JNull | Some y \<Rightarrow> f y)"

definition row_json :: "env \<Rightarrow> str \<Rightarrow> work_item \<Rightarrow> json" where
  "row_json e k w = (let float = \<lambda>t. JFloat (repr e t) t in
     JObj [(''key'', JStr k), (''subject'', w_subject w), (''task'', JStr (task_str (w_task w))),
       (''contract'', JStr (w_contract w)), (''revision'', JStr (w_revision w)),
       (''dependencies'', JArr (map JStr (w_dependencies w))), (''priority'', JInt (w_priority w)),
       (''eligible_at'', float (w_eligible_at w)), (''state'', JStr (state_str (w_state w))),
       (''reason'', opt_json JStr (w_reason w)), (''next_action'', JStr (w_next_action w)),
       (''limits'', limits_json (w_limits w)), (''authority'', opt_json JStr (w_authority w)),
       (''attempt_count'', JInt (w_attempt_count w)), (''max_attempts'', JInt (w_max_attempts w)),
       (''fence'', JInt (w_fence w)), (''owner'', opt_json JStr (w_owner w)),
       (''lease_until'', opt_json float (w_lease_until w)), (''phase'', JStr (phase_str (w_phase w))),
       (''checkpoint'', opt_json (\<lambda>v. v) (w_checkpoint w)), (''outcome'', opt_json (\<lambda>v. v) (w_outcome w))])"

definition bound :: "env \<Rightarrow> worker \<Rightarrow> str \<Rightarrow> ledger \<Rightarrow> pyexc + work_item" where
  "bound e wi key l = (case map_of (wi_bindings wi) key of None \<Rightarrow> Inl (Denied ''TASK_NOT_BOUND'')
     | Some b \<Rightarrow> (case get_op key l of Inl x \<Rightarrow> Inl x
         | Inr w \<Rightarrow> if (task_str (w_task w), w_contract w, w_revision w, digest (sha e) (w_subject w)) \<noteq>
                       (b_task b, b_contract b, b_revision b, b_subject_sha256 b)
             then Inl (Denied ''TASK_BINDING_CHANGED'') else Inr w))"

fun check_bindings :: "(str \<times> (json \<Rightarrow> json \<Rightarrow> bool)) list \<Rightarrow> task_binding list \<Rightarrow> pyexc + unit" where
  "check_bindings vs [] = Inr ()"
| "check_bindings vs (b # bs) = (if \<not> hex64 (b_key b) then Inl (Denied ''TASK_BINDING'')
     else if b_task b \<notin> {''DISCOVERY'', ''LISTING_METADATA'', ''SCREENING'', ''FACTUAL_REFRESH''} then Inl (Denied ''TASK_BINDING'')
     else if map_of vs (b_contract b) = None then Inl (Denied ''TRUSTED_CHECKPOINT_VALIDATOR_REQUIRED'')
     else check_bindings vs bs)"

fun check_bound :: "env \<Rightarrow> worker \<Rightarrow> str list \<Rightarrow> ledger \<Rightarrow> pyexc + unit" where
  "check_bound e wi [] l = Inr ()"
| "check_bound e wi (k # ks) l = (case bound e wi k l of Inl x \<Rightarrow> Inl x | Inr _ \<Rightarrow> check_bound e wi ks l)"

definition make_worker :: "env \<Rightarrow> str \<Rightarrow> str \<Rightarrow> task_binding list \<Rightarrow> (str \<times> (json \<Rightarrow> json \<Rightarrow> bool)) list \<Rightarrow> ledger \<Rightarrow> pyexc + worker" where
  "make_worker e owner authority bs vs l =
    (if \<not> word_ident 100 owner then Inl (Denied ''WORKER_IDENTITY'')
     else if \<not> test_authority authority then Inl (Denied ''NO_LIVE_WORKER_AUTHORITY'')
     else if \<not> (1 \<le> length bs \<and> length bs \<le> 60) then Inl (Denied ''FINITE_TASK_BINDING'')
     else if \<not> distinct (map b_key bs) then Inl (Denied ''FINITE_TASK_BINDING'')
     else (case check_bindings vs bs of Inl x \<Rightarrow> Inl x | Inr _ \<Rightarrow>
       let wi = \<lparr>wi_owner = owner, wi_authority = authority, wi_bindings = map (\<lambda>b. (b_key b, b)) bs, wi_validators = vs\<rparr> in
       (case check_bound e wi (map b_key bs) l of Inl x \<Rightarrow> Inl x | Inr _ \<Rightarrow> Inr wi)))"

section \<open>Claiming and sealing\<close>

definition worker_claim :: "env \<Rightarrow> worker \<Rightarrow> str \<Rightarrow> rat \<Rightarrow> ledger \<Rightarrow> pyexc + claim \<times> ledger" where
  "worker_claim e wi key lease_seconds l = (case bound e wi key l of Inl x \<Rightarrow> Inl x
     | Inr _ \<Rightarrow> claim_op e key (wi_owner wi) (wi_authority wi) lease_seconds l)"

text \<open>\<open>self._validators[row['contract']](bounded(row), receipt)\<close>: the row's own bound comes first.\<close>

definition validated :: "env \<Rightarrow> worker \<Rightarrow> str \<Rightarrow> work_item \<Rightarrow> json \<Rightarrow> pyexc + unit" where
  "validated e wi k w receipt = (case map_of (wi_validators wi) (w_contract w) of None \<Rightarrow> Inl (KeyError (w_contract w))
     | Some v \<Rightarrow> (case bounded MAX_PAYLOAD (row_json e k w) of Inl x \<Rightarrow> Inl x
         | Inr r \<Rightarrow> if v r receipt then Inr () else Inl (Denied ''CHECKPOINT_CONTRACT'')))"

definition worker_checkpoint :: "env \<Rightarrow> worker \<Rightarrow> claim \<Rightarrow> json \<Rightarrow> ledger \<Rightarrow> pyexc + str \<times> ledger" where
  "worker_checkpoint e wi c evidence l =
    (if c_owner c \<noteq> wi_owner wi then Inl (Denied ''WORKER_CLAIM_IDENTITY'')
     else (case bound e wi (c_key c) l of Inl x \<Rightarrow> Inl x | Inr w \<Rightarrow>
       if w_authority w \<noteq> Some (wi_authority wi) then Inl (Denied ''WORKER_AUTHORITY_BINDING'')
       else if w_phase w \<notin> {PH_CLAIMED, CHECKPOINTED} then Inl (Denied ''EFFECT_RESOLUTION_NOT_EXPOSED'')
       else (case bounded (nat (min (128 * 1024) (lim_audit_bytes (w_limits w)))) evidence of Inl x \<Rightarrow> Inl x | Inr receipt \<Rightarrow>
         case validated e wi (c_key c) w receipt of Inl x \<Rightarrow> Inl x | Inr _ \<Rightarrow>
         case checkpoint_op e c receipt l of Inl x \<Rightarrow> Inl x | Inr (_, l') \<Rightarrow> Inr (digest (sha e) receipt, l'))))"

section \<open>What the seam needs of a ledger\<close>

text \<open>
  A store of leased work: \<open>take\<close> hands out a claim on a free item, \<open>put\<close> seals evidence under a held
  claim, as \<open>seen\<close> reads it back, and touches no other item.
\<close>

locale leased_store =
  fixes good :: "'l \<Rightarrow> bool" and held :: "'c \<Rightarrow> 'l \<Rightarrow> bool" and evidence :: "'k \<Rightarrow> 'l \<Rightarrow> 'v option" and key_of :: "'c \<Rightarrow> 'k" and seen :: "'v \<Rightarrow> 'v option"
    and take :: "'k \<Rightarrow> 'l \<Rightarrow> 'x + 'c \<times> 'l" and put :: "'c \<Rightarrow> 'v \<Rightarrow> 'l \<Rightarrow> 'x + unit \<times> 'l"
  assumes take_good: "good l \<Longrightarrow> take k l = Inr (c, l') \<Longrightarrow> good l'"
    and take_key: "good l \<Longrightarrow> take k l = Inr (c, l') \<Longrightarrow> key_of c = k"
    and take_held: "good l \<Longrightarrow> take k l = Inr (c, l') \<Longrightarrow> held c l'"
    and take_keeps: "good l \<Longrightarrow> take k l = Inr (c, l') \<Longrightarrow> evidence j l' = evidence j l"
    and put_good: "good l \<Longrightarrow> put c v l = Inr (u, l') \<Longrightarrow> good l'"
    and put_held: "good l \<Longrightarrow> put c v l = Inr (u, l') \<Longrightarrow> held c l"
    and put_stays: "good l \<Longrightarrow> put c v l = Inr (u, l') \<Longrightarrow> held c l'"
    and put_same: "good l \<Longrightarrow> put c v l = Inr (u, l') \<Longrightarrow> evidence (key_of c) l' = seen v"
    and put_other: "good l \<Longrightarrow> put c v l = Inr (u, l') \<Longrightarrow> j \<noteq> key_of c \<Longrightarrow> evidence j l' = evidence j l"
begin

fun put_all :: "'c \<Rightarrow> 'v list \<Rightarrow> 'l \<Rightarrow> 'x + 'l" where
  "put_all c [] l = Inr l"
| "put_all c (v # vs) l = (case put c v l of Inl x \<Rightarrow> Inl x | Inr (_, l') \<Rightarrow> put_all c vs l')"

lemma put_all_last: "good l \<Longrightarrow> put_all c (vs @ [v]) l = Inr l' \<Longrightarrow> held c l' \<and> evidence (key_of c) l' = seen v"
proof (induction vs arbitrary: l)
  case Nil
  then show ?case by (auto split: sum.splits intro: put_same put_stays)
next
  case (Cons x vs)
  then show ?case by (fastforce split: sum.splits dest: put_good)
qed

lemma put_all_other: "good l \<Longrightarrow> put_all c vs l = Inr l' \<Longrightarrow> j \<noteq> key_of c \<Longrightarrow> evidence j l' = evidence j l"
proof (induction vs arbitrary: l)
  case (Cons x vs)
  then obtain u m where m: "put c x l = Inr (u, m)" "put_all c vs m = Inr l'" by (auto split: sum.splits)
  with Cons.IH [OF put_good [OF Cons.prems(1) m(1)] m(2) Cons.prems(3)] put_other Cons.prems show ?case by metis
qed simp

lemma take_put:
  assumes "good l" and "take k l = Inr (c, l1)" and "put_all c (vs @ [v]) l1 = Inr l2"
  shows "held c l2 \<and> evidence k l2 = seen v \<and> (\<forall>j. j \<noteq> k \<longrightarrow> evidence j l2 = evidence j l)"
  using put_all_last [OF take_good [OF assms(1,2)] assms(3)] put_all_other [OF take_good [OF assms(1,2)] assms(3)]
    take_key [OF assms(1,2)] take_keeps [OF assms(1,2)] by metis

end

definition held_at :: "env \<Rightarrow> claim \<Rightarrow> ledger \<Rightarrow> bool" where
  "held_at e c l = (case row_of l (c_key c) of None \<Rightarrow> False | Some w \<Rightarrow> holds e c w)"

definition evidence_at :: "str \<Rightarrow> ledger \<Rightarrow> json option" where
  "evidence_at k l = Option.bind (row_of l k) w_checkpoint"

definition take_at :: "env \<Rightarrow> str \<Rightarrow> str \<Rightarrow> rat \<Rightarrow> str \<Rightarrow> ledger \<Rightarrow> pyexc + claim \<times> ledger" where
  "take_at e owner authority s k = claim_op e k owner authority s"

text \<open>\<open>checkpoint\<close> stores the canonical copy, so the store's law is about evidence in that form.\<close>

definition put_at :: "env \<Rightarrow> claim \<Rightarrow> json \<Rightarrow> ledger \<Rightarrow> pyexc + unit \<times> ledger" where
  "put_at e c v l = (if canon v = v then checkpoint_op e c v l else Inl TypeError)"

lemma evidence_reserve [simp]: "evidence_at k (reserve e l) = evidence_at k l"
  by (simp add: evidence_at_def reserve_def split: option.split)

lemma take_at_facts:
  assumes "take_at e ow a s k l = Inr (c, l')"
  shows "c_key c = k" and "c_owner c = ow" and "held_at e c l'" and "evidence_at j l' = evidence_at j l"
proof -
  from assms have s: "1 \<le> s" and tx: "claim_tx e k ow a s (reserve e l) = Inr (c, l')"
    by (auto simp: take_at_def tx_Inr dest!: claim_op_Inr)
  from tx obtain r n where r: "row_of (reserve e l) k = Some r" and c: "c = \<lparr>c_key = k, c_fence = w_fence r + 1, c_owner = ow\<rparr>"
    and rows: "row_of l' = (row_of (reserve e l))(k \<mapsto> r\<lparr>w_state := CLAIMED, w_owner := Some ow, w_authority := Some a, w_fence := w_fence r + 1,
        w_lease_until := Some (now e + s), w_attempt_count := w_attempt_count r + 1, w_phase := PH_CLAIMED, w_reason := None,
        w_next_action := n\<rparr>)" by (rule claim_tx_Inr)
  show "c_key c = k" "c_owner c = ow" by (simp_all add: c)
  show "held_at e c l'" using s by (simp add: held_at_def c rows holds_def)
  have "evidence_at j l' = evidence_at j (reserve e l)" using r by (simp add: evidence_at_def rows)
  then show "evidence_at j l' = evidence_at j l" by simp
qed

lemma put_at_facts:
  assumes "put_at e c v l = Inr (u, l')" and "control_ok l"
  shows "held_at e c l" and "held_at e c l'" and "evidence_at (c_key c) l' = json_column v"
    and "j \<noteq> c_key c \<Longrightarrow> evidence_at j l' = evidence_at j l"
proof -
  from assms have cv: "canon v = v" and "tx e (checkpoint_tx e c (canon v)) l = Inr (u, l')"
    by (auto simp: put_at_def split: if_splits dest: checkpoint_op_Inr)
  then have tx: "checkpoint_tx e c v (reserve e l) = Inr (u, l')" by (simp add: tx_Inr)
  then obtain w where own: "owned e (reserve e l) c = Inr w"
    and rows: "row_of l' = (row_of (reserve e l))(c_key c \<mapsto> w\<lparr>w_checkpoint := json_column v, w_phase := CHECKPOINTED\<rparr>)"
    by (rule checkpoint_tx_Inr)
  then have w: "row_of (reserve e l) (c_key c) = Some w" "holds e c w" using owned_Inr by blast+
  have "c_key c \<noteq> CONTROL"
    using w assms(2) by (auto simp: control_ok_def reserve_def holds_def split: if_splits)
  with w show "held_at e c l"
    by (simp add: held_at_def reserve_def split: if_splits option.splits)
  show "held_at e c l'" using w by (simp add: held_at_def rows holds_def)
  show "evidence_at (c_key c) l' = json_column v" by (simp add: evidence_at_def rows)
  have "j \<noteq> c_key c \<Longrightarrow> evidence_at j l' = evidence_at j (reserve e l)" by (simp add: evidence_at_def rows)
  then show "j \<noteq> c_key c \<Longrightarrow> evidence_at j l' = evidence_at j l" by simp
qed

interpretation worker_store: leased_store control_ok "held_at e" evidence_at c_key json_column "take_at e ow a s" "put_at e"
proof
  fix l k c l' assume t: "take_at e ow a s k l = Inr (c, l')" "control_ok l"
  then show "control_ok l'" using claim_moves moves_control by (metis take_at_def)
next
  fix l c v u l' assume p: "put_at e c v l = Inr (u, l')" "control_ok l"
  then have "checkpoint_op e c v l = Inr (u, l')" by (auto simp: put_at_def split: if_splits)
  then show "control_ok l'" using p(2) checkpoint_moves [of l e c v u l' "\<lambda>_. True"] moves_control by blast
qed (auto dest: take_at_facts put_at_facts)

section \<open>The seam's properties\<close>

lemma bound_Inr:
  "bound e wi k l = Inr w \<Longrightarrow> row_of l k = Some w \<and> (\<exists>b. map_of (wi_bindings wi) k = Some b \<and> task_str (w_task w) = b_task b \<and>
     w_contract w = b_contract b \<and> w_revision w = b_revision b \<and> digest (sha e) (w_subject w) = b_subject_sha256 b)"
  by (auto simp: bound_def get_op_def split: option.splits sum.splits if_splits)

lemma worker_checkpoint_Inr:
  assumes "worker_checkpoint e wi c v l = Inr (d, l')"
  obtains w where "bound e wi (c_key c) l = Inr w" and "c_owner c = wi_owner wi" and "w_authority w = Some (wi_authority wi)"
    and "w_phase w \<in> {PH_CLAIMED, CHECKPOINTED}" and "validated e wi (c_key c) w (canon v) = Inr ()"
    and "put_at e c (canon v) l = Inr ((), l')" and "d = digest (sha e) v"
    and "length (dumps v) \<le> nat (min (128 * 1024) (lim_audit_bytes (w_limits w)))"
proof -
  from assms obtain w where "bound e wi (c_key c) l = Inr w" "c_owner c = wi_owner wi" "w_authority w = Some (wi_authority wi)"
    "w_phase w \<in> {PH_CLAIMED, CHECKPOINTED}" "validated e wi (c_key c) w (canon v) = Inr ()"
    "checkpoint_op e c (canon v) l = Inr ((), l')" "d = digest (sha e) (canon v)"
    "length (dumps v) \<le> nat (min (128 * 1024) (lim_audit_bytes (w_limits w)))"
    unfolding worker_checkpoint_def bounded_def by (auto split: sum.splits if_splits)
  then show thesis by (intro that) (simp_all add: put_at_def canon_idem digest_canon)
qed

text \<open>
  C11. Evidence a worker seals through the seam is within the task's size limit, was accepted by the contract's validator, and
  was sealed under a live claim of this worker and its authority on a bound task whose identity still matches; it is
  stored in canonical form (null evidence as no evidence) under the digest returned, and no other task's evidence changes.
\<close>

theorem worker_seals_bound_task:
  assumes "control_ok l" and "worker_checkpoint e wi c v l = Inr (d, l')"
  shows "c_owner c = wi_owner wi \<and> held_at e c l \<and> evidence_at (c_key c) l' = json_column (canon v) \<and> d = digest (sha e) (canon v) \<and>
    (\<forall>j. j \<noteq> c_key c \<longrightarrow> evidence_at j l' = evidence_at j l) \<and>
    (\<exists>w b. row_of l (c_key c) = Some w \<and> map_of (wi_bindings wi) (c_key c) = Some b \<and> w_contract w = b_contract b \<and>
       digest (sha e) (w_subject w) = b_subject_sha256 b \<and> w_authority w = Some (wi_authority wi) \<and>
       w_phase w \<in> {PH_CLAIMED, CHECKPOINTED} \<and> validated e wi (c_key c) w (canon v) = Inr () \<and>
       length (dumps v) \<le> nat (lim_audit_bytes (w_limits w)))"
  using assms(2)
proof (rule worker_checkpoint_Inr)
  fix w
  assume w: "bound e wi (c_key c) l = Inr w" "c_owner c = wi_owner wi" "w_authority w = Some (wi_authority wi)"
    "w_phase w \<in> {PH_CLAIMED, CHECKPOINTED}" "validated e wi (c_key c) w (canon v) = Inr ()" "d = digest (sha e) v"
    and len: "length (dumps v) \<le> nat (min (128 * 1024) (lim_audit_bytes (w_limits w)))"
    and put: "put_at e c (canon v) l = Inr ((), l')"
  then show ?thesis
    using w bound_Inr [OF w(1)] worker_store.put_held [OF assms(1) put] worker_store.put_same [OF assms(1) put]
      worker_store.put_other [OF assms(1) put]
    by (auto simp: digest_canon)
qed

definition demo_worker :: worker where
  "demo_worker = \<lparr>wi_owner = ''worker-1'', wi_authority = ''INGESTION_TEST_A'',
     wi_bindings = [(demo_key, \<lparr>b_key = demo_key, b_task = ''DISCOVERY'', b_contract = ''DISCOVERY_V1'', b_revision = ''r1'',
       b_subject_sha256 = demo_key\<rparr>)],
     wi_validators = [(''DISCOVERY_V1'', \<lambda>row r. jint (jget ''rows'' r) = Some 3)]\<rparr>"

theorem worker_seals_bound_task_witness:
  "\<exists>l'. evidence_at demo_key l' = Some (canon demo_evidence) \<and>
     worker_checkpoint (demo_env 20) demo_worker demo_claim demo_evidence demo_ledger = Inr (demo_key, l')"
proof -
  have "case worker_checkpoint (demo_env 20) demo_worker demo_claim demo_evidence demo_ledger of Inl _ \<Rightarrow> False | Inr (d, _) \<Rightarrow> d = demo_key"
    by code_simp
  then obtain l' where l': "worker_checkpoint (demo_env 20) demo_worker demo_claim demo_evidence demo_ledger = Inr (demo_key, l')"
    by (auto split: sum.splits)
  from worker_seals_bound_task [OF ledger_okD(1) [OF demo_ledger_ok] l'] l' show ?thesis
    by (auto simp: demo_claim_def demo_evidence_def json_column_def)
qed

end
