(* ===== verification/FitTrace.thy ===== *)
theory FitTrace
  imports BuyerFitProperties
begin

text \<open>
  The explanation trace of a buyer fit accounts for its classification: \<open>coherent\<close> ties every flag that
  drives the classification to a trace entry with that driver, and each block keeps it.
\<close>

definition drivers :: "fit \<Rightarrow> driver set" where
  "drivers s = {d. Some d \<in> te_driver ` set (ft_trace s)}"

definition coherent :: "fit \<Rightarrow> bool" where
  "coherent s = ((Hard \<in> drivers s) = (ft_against s \<noteq> []) \<and> (Blocking \<in> drivers s) = ft_blocking s \<and>
     (Outside \<in> drivers s) = ft_outside s \<and> (Possible \<in> drivers s) = ft_possible s)"

lemma drivers_emit [simp]:
  "drivers (match r t None s) = drivers s" "drivers (match r t (Some d) s) = insert d (drivers s)"
  "drivers (against r t s) = insert Hard (drivers s)" "drivers (unknown r t s) = drivers s"
  "drivers (blocking r t s) = insert Blocking (drivers s)"
  "drivers (investigate r t None s) = drivers s" "drivers (investigate r t (Some d) s) = insert d (drivers s)"
  "drivers (exceptional s) = drivers s" "drivers (possible s) = drivers s" "drivers (outside s) = drivers s"
  "drivers empty_fit = {}" "drivers (unverified_minimum s) = insert Blocking (drivers s)"
  by (auto simp: drivers_def emit_defs trace_of_def empty_fit_def unverified_minimum_def)

lemma coherent_empty: "coherent empty_fit"
  by (simp add: coherent_def)

lemma coherent_emit:
  "coherent s \<Longrightarrow> coherent (match r t None s)" "coherent s \<Longrightarrow> coherent (against r t s)" "coherent s \<Longrightarrow> coherent (unknown r t s)"
  "coherent s \<Longrightarrow> coherent (blocking r t s)" "coherent s \<Longrightarrow> coherent (investigate r t None s)" "coherent s \<Longrightarrow> coherent (exceptional s)"
  "coherent s \<Longrightarrow> coherent (possible (match r t (Some Possible) s))" "coherent s \<Longrightarrow> coherent (outside (investigate r t (Some Outside) s))"
  "coherent s \<Longrightarrow> coherent (unverified_minimum s)"
  by (auto simp: coherent_def)

lemma coherent_first_blocks:
  "coherent s \<Longrightarrow> coherent (specialist_block m f s)" "coherent s \<Longrightarrow> coherent (affordable_block m f s)"
  "coherent s \<Longrightarrow> coherent (planning_block m f s)" "coherent s \<Longrightarrow> coherent (proposal_block f s)"
  "coherent s \<Longrightarrow> coherent (no_activity_block m f s)" "coherent s \<Longrightarrow> coherent (control_gap_block f s)"
  "coherent s \<Longrightarrow> coherent (geography_block m c s)"
  by (simp_all add: specialist_block_def affordable_block_def planning_block_def proposal_block_def no_activity_block_def
      control_gap_block_def geography_block_def Let_def coherent_emit split: option.split bool.split)

lemma coherent_known: "coherent s \<Longrightarrow> coherent (known_block m f c n s)"
  by (simp add: known_block_def Let_def coherent_emit)

lemma coherent_uncertain: "coherent s \<Longrightarrow> coherent (uncertain_block m f c a s)"
  by (simp add: uncertain_block_def uncertain_verdict_def Let_def coherent_emit)

lemma coherent_scale: "coherent s \<Longrightarrow> coherent (scale_block m f c s)"
  by (simp add: scale_block_def strategic_range_block_def coherent_known coherent_uncertain coherent_emit split: option.split)

lemma coherent_folds:
  "coherent s \<Longrightarrow> coherent (fold (against r) ts s)" "coherent s \<Longrightarrow> coherent (fold (blocking r) ts s)"
  by (induction ts arbitrary: s) (simp_all add: coherent_emit)

lemma coherent_legs: "coherent s \<Longrightarrow> coherent (snd (legs m f c s))"
  by (simp add: legs_def strategic_leg_def affordable_leg_def homes_leg_def coherent_emit)

lemma coherent_acquisition: "coherent s \<Longrightarrow> coherent (acquisition_block m f c s)"
  by (simp add: acquisition_block_legs Let_def coherent_folds coherent_legs)

lemma coherent_last_blocks:
  "coherent s \<Longrightarrow> coherent (development_block m c s)" "coherent s \<Longrightarrow> coherent (control_block m c s)"
  by (simp_all add: development_block_def control_block_def Let_def coherent_emit split: option.split)

lemma coherent_fit: "coherent (fit_of m f ctx)"
  by (simp add: fit_of_def core_blocks_def coherent_first_blocks coherent_scale coherent_acquisition coherent_last_blocks coherent_empty
      split: option.split)

text \<open>
  The trace explains the classification: an assessment is anything other than a strong fit exactly when some trace entry is marked as
  having contributed, and no strong fit has a contributing entry.
\<close>

theorem trace_explains_classification:
  "(as_classification (assess_buyer_fit m f ctx) \<noteq> STRONG_FIT) = (\<exists>x\<in>set (as_trace (assess_buyer_fit m f ctx)). ex_contributed x)"
proof -
  define s where "s = fit_of m f ctx"
  have c: "coherent s" by (simp add: s_def coherent_fit)
  have "(\<exists>x\<in>set (map (explain cl) (ft_trace s)). ex_contributed x) = (drivers s \<inter> contributing_drivers cl \<noteq> {})" for cl
    by (force simp: explain_def drivers_def split: option.splits)
  moreover have "(classify s \<noteq> STRONG_FIT) = (drivers s \<inter> contributing_drivers (classify s) \<noteq> {})"
    using c by (auto simp: coherent_def classify_def)
  ultimately show ?thesis by (simp add: assess_buyer_fit_def Let_def s_def [symmetric])
qed

end
