(* ===== verification/ResidualFit.thy ===== *)
theory ResidualFit
  imports ResidualProperties BuyerFitProperties
begin

text \<open>
  Buyer fit of a derived residual: app/policy/residual_fit.py, a wrapper around \<open>assess_buyer_fit\<close> that substitutes the residual scale,
  drops the parent's affordable evidence and caps the result at a possible fit.
\<close>

definition CAP_NOTE :: str where
  "CAP_NOTE = ''Fit is capped at Possible Fit: this is a derived (apparent) residual planning capacity, not a consented, separately evidenced scheme.''"

datatype not_a_residual_subject = NotAResidualSubject level

definition residual_matching_facts :: "matching_facts \<Rightarrow> qualification \<Rightarrow> not_a_residual_subject + matching_facts" where
  "residual_matching_facts f q =
    (if rq_level q \<noteq> R1 \<or> rq_assessment q = None then Inl (NotAResidualSubject (rq_level q))
     else Inr (f\<lparr>mf_unit_count := py_int (rq_value q), mf_count_assessment := rq_assessment q, mf_affordable_unit_count := None,
       mf_affordable_percentage := None, mf_affordable_percentage_trusted := False, mf_whole_site_affordable_state := AFFORDABLE_STATE_UNKNOWN\<rparr>))"

definition cap_fit :: "assessment \<Rightarrow> assessment" where
  "cap_fit a = (let strong = as_classification a = STRONG_FIT in
     a\<lparr>as_classification := (if strong then POSSIBLE_FIT else as_classification a),
       as_matches := (if strong then as_matches a @ [CAP_NOTE] else as_matches a),
       as_investigate := as_investigate a @ [R1_CAVEAT]\<rparr>)"

definition assess_residual_fit :: "mandate \<Rightarrow> matching_facts \<Rightarrow> qualification \<Rightarrow> b2_context option \<Rightarrow> not_a_residual_subject + assessment" where
  "assess_residual_fit m f q ctx = (case residual_matching_facts f q of Inl e \<Rightarrow> Inl e | Inr g \<Rightarrow> Inr (cap_fit (assess_buyer_fit m g ctx)))"

lemma assess_residual_fit_Inr:
  "(assess_residual_fit m f q ctx = Inr a) = (\<exists>g. residual_matching_facts f q = Inr g \<and> a = cap_fit (assess_buyer_fit m g ctx))"
  by (auto simp: assess_residual_fit_def split: sum.split)

lemma residual_facts_fields:
  "residual_matching_facts f q = Inr g \<Longrightarrow> rq_level q = R1 \<and> mf_whole_site_affordable_state g = AFFORDABLE_STATE_UNKNOWN \<and>
    mf_affordable_percentage g = None \<and> mf_affordable_unit_count g = None"
  by (auto simp: residual_matching_facts_def split: if_split_asm)

text \<open>
  Only an R1 residual is fitted, and never as a strong fit: a would-be strong fit is shown as possible, with the cap stated; every other
  answer is that of the ordinary assessment. The caveat is always among the points to investigate, and the residual is judged by none of the parent's affordable evidence.
\<close>

theorem residual_fit_capped:
  assumes "assess_residual_fit m f q ctx = Inr a"
  shows "rq_level q = R1 \<and> as_classification a \<noteq> STRONG_FIT \<and> R1_CAVEAT \<in> set (as_investigate a) \<and>
    (\<exists>g. residual_matching_facts f q = Inr g \<and> as_does_not_match a = as_does_not_match (assess_buyer_fit m g ctx) \<and>
      (if as_classification (assess_buyer_fit m g ctx) = STRONG_FIT then as_classification a = POSSIBLE_FIT \<and> CAP_NOTE \<in> set (as_matches a)
       else as_classification a = as_classification (assess_buyer_fit m g ctx))) \<and>
    assess_residual_fit m (f\<lparr>mf_affordable_unit_count := u, mf_affordable_percentage := p, mf_affordable_percentage_trusted := t,
      mf_whole_site_affordable_state := w\<rparr>) q ctx = Inr a"
proof -
  from assms obtain g where g: "residual_matching_facts f q = Inr g" and a: "a = cap_fit (assess_buyer_fit m g ctx)"
    unfolding assess_residual_fit_Inr by blast
  have "residual_matching_facts (f\<lparr>mf_affordable_unit_count := u, mf_affordable_percentage := p, mf_affordable_percentage_trusted := t,
      mf_whole_site_affordable_state := w\<rparr>) q = Inr g"
    using g unfolding residual_matching_facts_def by (cases f) (simp split: if_split_asm)
  then have same: "assess_residual_fit m (f\<lparr>mf_affordable_unit_count := u, mf_affordable_percentage := p, mf_affordable_percentage_trusted := t,
      mf_whole_site_affordable_state := w\<rparr>) q ctx = Inr a"
    unfolding assess_residual_fit_Inr a by blast
  moreover have "rq_level q = R1" using residual_facts_fields [OF g] by blast
  ultimately show ?thesis using g unfolding a cap_fit_def Let_def by auto
qed

definition demo_qualification :: qualification where
  "demo_qualification = (case qualify_residual demo_sha demo_parent [demo_child] demo_complete of Inr q \<Rightarrow> q | Inl _ \<Rightarrow>
     \<lparr>rq_level = R3, rq_reason = REASON_RESOLVED, rq_site_id = None, rq_parent = None, rq_children = [], rq_predicates = [], rq_explanation = [],
      rq_value = None, rq_assessment = None, rq_subject_id = None, rq_fingerprint = None\<rparr>)"

theorem residual_fit_capped_witness:
  "\<exists>a. assess_residual_fit NESTEN_HOMES demo_strong demo_qualification None = Inr a \<and> as_classification a \<noteq> STRONG_FIT \<and>
     R1_CAVEAT \<in> set (as_investigate a)"
proof -
  have "\<not> isl (assess_residual_fit NESTEN_HOMES demo_strong demo_qualification None)" by code_simp
  then obtain a where "assess_residual_fit NESTEN_HOMES demo_strong demo_qualification None = Inr a"
    by (cases "assess_residual_fit NESTEN_HOMES demo_strong demo_qualification None") auto
  with residual_fit_capped [OF this] show ?thesis by blast
qed

end
