(* ===== verification/AffordableScope.thy ===== *)
theory AffordableScope
  imports PhaseTracking
begin

text \<open>
  Affordable housing scope by scope: app/reporting/affordable_housing_scope.py, with \<open>legacy_assessment\<close> of app/policy/ah_assessment.py, from which its
  positions are made. An application's figures are read together, from its own extraction or a prospective override of it, which is the update
  of the fields it names. Percentages are rationals: \<open>round(x, 1)\<close> is exact here, ties to even.
\<close>

section \<open>The figures of one application\<close>

record ah_fields =
  af_percentage :: "rat option"
  af_units :: "int option"
  af_tenure :: "str option"
  af_status :: "str option"
  af_notes :: "str option"
  af_total :: pyval

type_synonym ah_overrides = "int \<Rightarrow> (ah_fields \<Rightarrow> ah_fields) option"

definition fields_of_scheme :: "scheme_row option \<Rightarrow> ah_fields" where
  "fields_of_scheme s = (case s of
      None \<Rightarrow> \<lparr>af_percentage = None, af_units = None, af_tenure = None, af_status = None, af_notes = None, af_total = PyNone\<rparr>
    | Some s \<Rightarrow> \<lparr>af_percentage = sr_affordable_percentage s, af_units = sr_affordable_units s, af_tenure = sr_affordable_tenure s,
        af_status = sr_affordable_status s, af_notes = sr_affordable_notes s, af_total = sr_total_units s\<rparr>)"

definition effective_fields :: "portal_row \<Rightarrow> ah_overrides \<Rightarrow> ah_fields option" where
  "effective_fields a overrides = (case (rw_scheme a, overrides (rw_id a)) of
      (None, None) \<Rightarrow> None
    | (s, None) \<Rightarrow> Some (fields_of_scheme s)
    | (s, Some f) \<Rightarrow> Some (f (fields_of_scheme s)))"

definition ABSENCE_OF_INFORMATION_NOTE_PHRASES :: "str list" where
  "ABSENCE_OF_INFORMATION_NOTE_PHRASES = [''no affordable housing provision mentioned'', ''not mentioned in the decision notice'',
     ''no mention of affordable housing'', ''no information'', ''not identified'']"

definition has_no_independent_affordable_position :: "ah_fields \<Rightarrow> bool" where
  "has_no_independent_affordable_position f =
    (let notes = strip (str_or (af_notes f) []) in
     \<not> (af_status f \<notin> {None, Some ''unknown''} \<or> (notes \<noteq> [] \<and> \<not> any_in ABSENCE_OF_INFORMATION_NOTE_PHRASES (lower notes)) \<or>
        af_percentage f \<notin> {None, Some 0} \<or> af_units f \<notin> {None, Some 0}))"

definition authority_rank :: "str option \<Rightarrow> int" where
  "authority_rank s = (case s of None \<Rightarrow> 0 | Some t \<Rightarrow> opt_or (map_of [(''legally_secured'', 6), (''agreed'', 5), (''conditioned'', 5),
     (''committee_position'', 4), (''officer_recommended'', 4), (''subject_to_viability_review'', 3), (''policy_required'', 2), (''proposed'', 2),
     (''unknown'', 0)] t) 0)"

text \<open>The total is an integer column or \<open>NULL\<close>.\<close>

definition units_implied_percentage_reconciliation :: "ah_fields \<Rightarrow> rat option \<times> bool" where
  "units_implied_percentage_reconciliation f = (case (af_units f, af_total f) of
      (Some u, PyInt t) \<Rightarrow> if t = 0 then (None, True)
        else (let implied = of_int (round_half_even (of_int u / of_int t * 100 * 10)) / 10 in
          (Some implied, case af_percentage f of None \<Rightarrow> True | Some p \<Rightarrow> \<bar>implied - p\<bar> \<le> 2))
    | _ \<Rightarrow> (None, True))"

text \<open>
  The pattern of a number, a percent sign and a label, matched at a place: the digits and the fraction are read as far as they go, since shortening either leaves a digit or
  a point where the pattern wants a space or the sign.
\<close>

definition digits_of :: "str \<Rightarrow> nat" where
  "digits_of s = foldl (\<lambda>n c. 10 * n + (of_char c - 48)) 0 s"

definition decimal :: "str \<Rightarrow> str \<Rightarrow> rat" where
  "decimal w f = of_nat (digits_of w) + of_nat (digits_of f) / 10 ^ length f"

definition percent_at :: "(str \<Rightarrow> bool) \<Rightarrow> str \<Rightarrow> rat option" where
  "percent_at labelled s =
    (let w = takeWhile is_digit s; r = dropWhile is_digit s;
         f = (case r of c # r' \<Rightarrow> if c = CHR ''.'' then takeWhile is_digit r' else [] | [] \<Rightarrow> []);
         r2 = dropWhile is_space (if f = [] then r else drop (Suc (length f)) r) in
     if w \<noteq> [] \<and> r2 \<noteq> [] \<and> hd r2 = CHR ''%'' \<and> labelled (lower (dropWhile is_space (tl r2))) then Some (decimal w f) else None)"

fun first_percent :: "(str \<Rightarrow> bool) \<Rightarrow> str \<Rightarrow> rat option" where
  "first_percent labelled [] = None"
| "first_percent labelled (c # s) = (case percent_at labelled (c # s) of Some p \<Rightarrow> Some p | None \<Rightarrow> first_percent labelled s)"

definition labelled_onsite :: "str \<Rightarrow> bool" where
  "labelled_onsite s = (prefix ''on'' s \<and>
     (let r = drop 2 s in prefix ''site'' (dropWhile is_space (if r \<noteq> [] \<and> hd r = CHR ''-'' then tl r else r))))"

definition explicit_evidence_percentages :: "str option \<Rightarrow> rat option \<times> rat option" where
  "explicit_evidence_percentages t = (if \<not> truthy t then (None, None)
     else (first_percent labelled_onsite (str_or t []), first_percent (prefix ''financial contribution'') (str_or t [])))"

definition compute_percentage_reconciliation :: "scheme_row option \<Rightarrow> (rat option \<times> bool) \<times> rat option \<times> rat option" where
  "compute_percentage_reconciliation s = (case s of None \<Rightarrow> ((None, True), None, None)
     | Some r \<Rightarrow> (units_implied_percentage_reconciliation (fields_of_scheme s), explicit_evidence_percentages (sr_affordable_tenure r)))"

section \<open>Reported assessments\<close>

record ah_reported =
  ar_assessment :: ah_assessment
  ar_percentage :: "rat option"
  ar_percentage_review :: "str option"
  ar_tenure :: "str option"
  ar_evidence :: "str option"

definition unknown_claim :: ah_claim where
  "unknown_claim = \<lparr>ah_value = PyNone, ah_lower = PyNone, ah_upper = PyNone, ah_qualifier = ''unknown'', ah_state = ''unknown'',
     ah_application_reference = None, ah_scope_type = ''unclear'', ah_scope_label = None, ah_stage = None, ah_document_id = None, ah_source_url = None,
     ah_document_date = None, ah_passage = None, ah_review_reason = None\<rparr>"

definition LEGACY_REASON :: str where
  "LEGACY_REASON = ''Count-level source, qualifier and scope evidence not linked; reported value is unverified.''"

definition py_of_int :: "int option \<Rightarrow> pyval" where
  "py_of_int v = (case v of None \<Rightarrow> PyNone | Some n \<Rightarrow> PyInt n)"

definition legacy_assessment :: "scheme_row option \<Rightarrow> str option \<Rightarrow> str \<Rightarrow> str option \<Rightarrow> ah_fields option \<Rightarrow> ah_reported" where
  "legacy_assessment si ref scope_type scope_label given =
    (let f = opt_or given (fields_of_scheme si) in
     \<lparr>ar_assessment = \<lparr>aa_count = unknown_claim\<lparr>ah_value := py_of_int (af_units f), ah_application_reference := ref, ah_scope_type := scope_type,
          ah_scope_label := scope_label, ah_stage := af_status f, ah_review_reason := Some LEGACY_REASON\<rparr>, aa_alternatives = []\<rparr>,
      ar_percentage = af_percentage f, ar_percentage_review = Option.bind si sr_affordable_status_note, ar_tenure = af_tenure f,
      ar_evidence = Option.bind si sr_affordable_evidence\<rparr>)"

text \<open>\<open>AHAssessment.label\<close> on such an assessment: the qualifier and the state are unknown, no document, link or alternative is there.\<close>

definition legacy_label :: "ah_reported \<Rightarrow> str" where
  "legacy_label r = (let a = ar_assessment r; c = aa_count a in
     (case ah_value c of PyInt n \<Rightarrow> int_str n | _ \<Rightarrow> ''unknown'') @ '' affordable homes '' @ EM_DASH @ '' '' @ ah_qualifier c @ '', '' @ ah_state c @
     (if ah_value c \<noteq> PyNone \<and> \<not> claim_qualified c then ''; reported; source and scope unverified'' else []) @ ''; '' @
     str_or (ah_scope_label c) ''scope unknown'' @ ''; '' @ str_or (ah_application_reference c) ''application unknown'' @ ''; '' @ stage_label a @
     ''; source unlinked; document date unknown'')"

section \<open>Positions\<close>

record ah_position =
  ap_scope_type :: str
  ap_scope_label :: str
  ap_application_id :: int
  ap_application_reference :: str
  ap_percentage :: "rat option"
  ap_units :: "int option"
  ap_tenure :: "str option"
  ap_status :: "str option"
  ap_notes :: "str option"
  ap_assessment :: ah_reported
  ap_decided :: decided
  ap_units_implied :: "rat option"
  ap_reconciles :: bool
  ap_onsite :: "rat option"
  ap_contribution :: "rat option"

record scope_conflict =
  sc_scope_type :: str
  sc_scope_label :: str
  sc_positions :: "ah_position list"

record ah_summary =
  su_whole_site :: "ah_position option"
  su_phases :: "ah_position list"
  su_active_whole_site :: "ah_position option"
  su_active_phases :: "ah_position list"
  su_historical :: "ah_position list"
  su_conflicts :: "scope_conflict list"
  su_sources :: "ah_position list"

definition ah_position_of :: "str \<Rightarrow> str \<Rightarrow> portal_row \<Rightarrow> ah_fields \<Rightarrow> ah_position" where
  "ah_position_of ty lbl a f =
    (let (implied, reconciles) = units_implied_percentage_reconciliation f; (onsite, contribution) = explicit_evidence_percentages (af_tenure f) in
     \<lparr>ap_scope_type = ty, ap_scope_label = lbl, ap_application_id = rw_id a, ap_application_reference = rw_reference a,
      ap_percentage = af_percentage f, ap_units = af_units f, ap_tenure = af_tenure f, ap_status = af_status f, ap_notes = af_notes f,
      ap_assessment = legacy_assessment (rw_scheme a) (Some (rw_reference a)) ty (Some lbl) (Some f), ap_decided = decided_state a,
      ap_units_implied = implied, ap_reconciles = reconciles, ap_onsite = onsite, ap_contribution = contribution\<rparr>)"

definition evidenced_candidates :: "ah_overrides \<Rightarrow> portal_row list \<Rightarrow> (portal_row \<times> ah_fields) list" where
  "evidenced_candidates overrides apps = List.map_filter (\<lambda>a. case effective_fields a overrides of None \<Rightarrow> None
     | Some f \<Rightarrow> if has_no_independent_affordable_position f then None else Some (a, f)) apps"

text \<open>Fully extracted first, then the most recently received; Python's reversed sort keeps the order of equals.\<close>

definition candidate_key :: "portal_row \<times> ah_fields \<Rightarrow> bool \<times> int" where
  "candidate_key c = (\<not> (case rw_scheme (fst c) of None \<Rightarrow> False | Some s \<Rightarrow> sr_core_complete s), - toordinal (parse_portal_date (rw_received (fst c))))"

definition order_candidates :: "(portal_row \<times> ah_fields) list \<Rightarrow> (portal_row \<times> ah_fields) list" where
  "order_candidates cs = sort_key candidate_key cs"

definition stated_percentages :: "(portal_row \<times> ah_fields) list \<Rightarrow> rat set" where
  "stated_percentages cs = set (List.map_filter (\<lambda>c. af_percentage (snd c)) cs)"

definition candidate_rank :: "portal_row \<times> ah_fields \<Rightarrow> int" where
  "candidate_rank c = authority_rank (af_status (snd c))"

definition tied_at_top :: "(portal_row \<times> ah_fields) list \<Rightarrow> (portal_row \<times> ah_fields) list" where
  "tied_at_top cs = (let ranked = sort_key (\<lambda>c. - candidate_rank c) cs in
     case ranked of [] \<Rightarrow> [] | c # _ \<Rightarrow> filter (\<lambda>d. candidate_rank d = candidate_rank c) ranked)"

definition resolve_group_position :: "str \<Rightarrow> str \<Rightarrow> portal_row list \<Rightarrow> ah_overrides \<Rightarrow> ah_position option \<times> scope_conflict option" where
  "resolve_group_position ty lbl apps overrides =
    (let cs = order_candidates (evidenced_candidates overrides apps); made = (\<lambda>c. ah_position_of ty lbl (fst c) (snd c)) in
     case cs of [] \<Rightarrow> (None, None)
     | c # _ \<Rightarrow>
       if card (stated_percentages cs) \<le> 1 then (Some (made c), None)
       else (let tied = tied_at_top cs in
         if card (stated_percentages tied) \<le> 1 then (Some (made (hd tied)), None)
         else (None, Some \<lparr>sc_scope_type = ty, sc_scope_label = lbl, sc_positions = map made cs\<rparr>)))"

section \<open>The summary of a site\<close>

definition partition_by_decided_state :: "portal_row list \<Rightarrow> portal_row list \<times> portal_row list \<times> portal_row list" where
  "partition_by_decided_state apps =
    (filter (\<lambda>a. decided_state a = DECIDED_GRANTED) apps,
     filter (\<lambda>a. decided_state a \<in> {DECIDED_RECOMMENDATION_ONLY, DECIDED_UNDETERMINED}) apps,
     filter (\<lambda>a. decided_state a \<in> {DECIDED_WITHDRAWN, DECIDED_REFUSED}) apps)"

definition historical_positions :: "str \<Rightarrow> str \<Rightarrow> portal_row list \<Rightarrow> ah_overrides \<Rightarrow> ah_position list" where
  "historical_positions ty lbl apps overrides = map (\<lambda>(a, f). ah_position_of ty lbl a f) (evidenced_candidates overrides apps)"

record scope_result =
  sr_consented :: "ah_position option"
  sr_active :: "ah_position option"
  sr_conflicts :: "scope_conflict list"
  sr_historical :: "ah_position list"

definition resolve_scope :: "str \<Rightarrow> str \<Rightarrow> portal_row list \<Rightarrow> ah_overrides \<Rightarrow> scope_result" where
  "resolve_scope ty lbl apps overrides =
    (let (granted, live, dead) = partition_by_decided_state apps;
         (p, c) = resolve_group_position ty lbl granted overrides; (q, d) = resolve_group_position ty lbl live overrides in
     \<lparr>sr_consented = p, sr_active = q, sr_conflicts = List.map_filter id [c, d], sr_historical = historical_positions ty lbl dead overrides\<rparr>)"

definition named_scope :: "str \<times> str \<Rightarrow> str \<times> str" where
  "named_scope k = (case k of (code, kind) \<Rightarrow> (if kind = ''phase'' then SCOPE_PHASE else SCOPE_PLOT, title kind @ '' '' @ code))"

definition unnamed_scope :: "groups \<Rightarrow> str \<times> str" where
  "unnamed_scope named = (if named \<noteq> [] then (SCOPE_WHOLE_SITE, ''Whole site'') else WHOLE_SITE_UNCONFIRMED)"

definition compute_affordable_housing_scope_summary :: "text_rules \<Rightarrow> portal_row list \<Rightarrow> ah_overrides \<Rightarrow> ah_summary" where
  "compute_affordable_housing_scope_summary rules apps overrides =
    (let gs = group_applications_by_operative_scope rules apps; named = named_groups rules apps;
         phases = map (\<lambda>(k, as). case named_scope k of (ty, lbl) \<Rightarrow> resolve_scope ty lbl as overrides) named;
         site = (case map_of gs unphased_key of None \<Rightarrow> [] | Some as \<Rightarrow> if as = [] then []
           else (case unnamed_scope named of (ty, lbl) \<Rightarrow> [resolve_scope ty lbl as overrides])) in
     \<lparr>su_whole_site = (case site of [] \<Rightarrow> None | r # _ \<Rightarrow> sr_consented r), su_phases = sort_key ap_scope_label (List.map_filter sr_consented phases),
      su_active_whole_site = (case site of [] \<Rightarrow> None | r # _ \<Rightarrow> sr_active r), su_active_phases = sort_key ap_scope_label (List.map_filter sr_active phases),
      su_historical = concat (map sr_historical (phases @ site)), su_conflicts = concat (map sr_conflicts (phases @ site)), su_sources = []\<rparr>)"

text \<open>\<open>source_positions\<close> is left at its default by every caller in the repository.\<close>

section \<open>Selecting one position\<close>

definition phase_labels :: "str option \<Rightarrow> str list option" where
  "phase_labels code = (if code \<in> {None, Some UNPHASED_LABEL} then None else Some [''Phase '' @ opt_or code [], ''Plot '' @ opt_or code []])"

definition at_source :: "str list option \<Rightarrow> ah_position \<Rightarrow> bool" where
  "at_source labels p = (case labels of None \<Rightarrow> ap_scope_label p = ''AH source selection'' | Some ls \<Rightarrow> ap_scope_label p \<in> set ls)"

definition in_labels :: "str list option \<Rightarrow> ah_position \<Rightarrow> bool" where
  "in_labels labels p = (case labels of None \<Rightarrow> ap_scope_type p \<in> {SCOPE_WHOLE_SITE, SCOPE_UNCLEAR} | Some ls \<Rightarrow> ap_scope_label p \<in> set ls)"

definition current_and_past :: "ah_summary \<Rightarrow> ah_position list" where
  "current_and_past s = List.map_filter id [su_whole_site s, su_active_whole_site s] @ su_phases s @ su_active_phases s @ su_historical s"

definition only :: "'a list \<Rightarrow> 'a option" where
  "only xs = (case xs of [x] \<Rightarrow> Some x | _ \<Rightarrow> None)"

definition select_by_reference :: "ah_summary \<Rightarrow> str list option \<Rightarrow> str \<Rightarrow> ah_position option" where
  "select_by_reference s labels ref =
    (let sources = filter (\<lambda>p. ap_application_reference p = ref \<and> at_source labels p) (su_sources s);
         ps = filter (\<lambda>p. ap_application_reference p = ref \<and> in_labels labels p) (current_and_past s);
         cs = filter (\<lambda>p. ap_application_reference p = ref \<and> in_labels labels p) (concat (map sc_positions (su_conflicts s))) in
     if sources \<noteq> [] then only sources else only (foldl (\<lambda>ps p. if p \<in> set ps then ps else ps @ [p]) ps cs))"

definition select_for_site :: "ah_summary \<Rightarrow> nat \<Rightarrow> ah_position option" where
  "select_for_site s active_count =
    (if list_ex (\<lambda>c. sc_scope_type c \<in> {SCOPE_WHOLE_SITE, SCOPE_UNCLEAR}) (su_conflicts s) then None
     else if su_whole_site s \<noteq> None then su_whole_site s else if active_count = 1 then su_active_whole_site s else None)"

definition select_for_phase :: "ah_summary \<Rightarrow> str list \<Rightarrow> nat \<Rightarrow> ah_position option" where
  "select_for_phase s labels active_count =
    (let consented = filter (\<lambda>p. ap_scope_label p \<in> set labels) (su_phases s); active = filter (\<lambda>p. ap_scope_label p \<in> set labels) (su_active_phases s) in
     if list_ex (\<lambda>c. sc_scope_label c \<in> set labels) (su_conflicts s) then None
     else if card (ap_scope_label ` set (consented @ active)) > 1 then None
     else if length consented = 1 then only consented
     else if consented = [] \<and> active_count = 1 then only active else None)"

definition select_affordable_position_for_scope :: "ah_summary \<Rightarrow> str option \<Rightarrow> nat \<Rightarrow> str option \<Rightarrow> ah_position option" where
  "select_affordable_position_for_scope s code active_count ref = (case ref of
      Some r \<Rightarrow> select_by_reference s (phase_labels code) r
    | None \<Rightarrow> (let sources = filter (at_source (phase_labels code)) (su_sources s) in
        if sources \<noteq> [] then only sources
        else (case phase_labels code of None \<Rightarrow> select_for_site s active_count | Some ls \<Rightarrow> select_for_phase s ls active_count)))"

end
