(* ===== verification/FilterFacts.thy ===== *)
theory FilterFacts
  imports AffordableScope
begin

text \<open>
  The facts that lists of sites are searched and sorted by: the last section of app/reporting/scheme_reconciliation.py. They are read from the same
  reconciled positions a buyer is matched on, and from the affordable position of the application that is displayed.
\<close>

section \<open>The decision status\<close>

definition NOT_DETERMINED_DECISION_STATUS :: str where
  "NOT_DETERMINED_DECISION_STATUS = ''not_determined''"

definition OPERATIVE_DECISION_STATUS_LABELS :: "(str \<times> str) list" where
  "OPERATIVE_DECISION_STATUS_LABELS = [(''granted'', ''Granted''), (''refused'', ''Refused''), (''withdrawn'', ''Withdrawn''),
     (''not_yet_decided'', ''Awaiting decision''), (NOT_DETERMINED_DECISION_STATUS, ''Not yet verified'')]"

definition resolve_canonical_decision_status :: "consented_position \<Rightarrow> live_position list \<Rightarrow> bool \<Rightarrow> str option \<Rightarrow> str option" where
  "resolve_canonical_decision_status cp active seen fallback =
    (let s = cp_planning_status cp; stated = of_state s = FACT_RESOLVED in
     if stated \<and> of_value s = TextValue ''Permission granted'' then Some ''granted''
     else if stated \<and> of_value s = TextValue ''Refused'' then Some ''refused''
     else if stated \<and> of_value s = TextValue ''Withdrawn'' then Some ''withdrawn''
     else if active \<noteq> [] then Some ''not_yet_decided''
     else if seen then None else fallback)"

section \<open>The facts\<close>

record filter_facts =
  ff_decision_status :: str
  ff_has_active_proposal :: bool
  ff_active_proposal_count :: nat
  ff_units :: "int option"
  ff_units_source :: "str option"
  ff_units_kind :: "str option"
  ff_units_is_estimated :: bool
  ff_units_not_determined :: bool
  ff_active_units :: "int option"
  ff_active_units_kind :: "str option"
  ff_affordable_units :: "int option"
  ff_affordable_percentage :: "rat option"
  ff_affordable_source :: "str option"
  ff_affordable_reconciles :: bool
  ff_affordable_assessment :: ah_reported
  ff_other_reports :: str
  ff_count_assessment :: count_assessment

definition known_value :: "fact_value \<Rightarrow> int option" where
  "known_value v = (case v of CountValue n \<Rightarrow> known_unit_count (PyInt n) | _ \<Rightarrow> None)"

definition resolve_units_from_units_facts :: "operative_fact \<Rightarrow> operative_fact \<Rightarrow> int option \<times> str option \<times> bool" where
  "resolve_units_from_units_facts residential all_use =
    (if of_state residential = FACT_CONFLICT then (None, None, False)
     else if of_state residential = FACT_RESOLVED then (known_value (of_value residential), Some ''residential'', of_confidence residential = ''low'')
     else if of_state all_use = FACT_RESOLVED then (known_value (of_value all_use), Some ''all_use'', of_confidence all_use = ''low'')
     else (None, None, False))"

definition selected_ah_application_reference :: "planning_facts \<Rightarrow> str option" where
  "selected_ah_application_reference f =
    (let ref = cp_reference (pf_consented f) in
     if of_state ref = FACT_RESOLVED then (case of_value ref of TextValue t \<Rightarrow> Some t | _ \<Rightarrow> None)
     else (case pf_active f of
         [p] \<Rightarrow> map_option (\<lambda>r. rw_reference (rr_row r)) (max_by recency_key
           (filter (\<lambda>r. is_substantive r \<and> live r \<and> scope_of_row r = (lp_scope_type p, lp_scope_label p)) (pf_resolved f)))
       | _ \<Rightarrow> None))"

definition affordable_housing_of :: "text_rules \<Rightarrow> resolved_row list \<Rightarrow> ah_summary" where
  "affordable_housing_of rules rs = compute_affordable_housing_scope_summary rules
     (map rr_row (filter (\<lambda>r. is_substantive r \<or> rr_role r = ROLE_S73_VARIATION) rs)) (\<lambda>i. None)"

text \<open>The displayed application is an identity: one row bears the reference, all rows are of one council.\<close>

definition one_identity :: "planning_facts \<Rightarrow> str \<Rightarrow> bool" where
  "one_identity f ref = (length (filter (\<lambda>r. rw_reference (rr_row r) = ref) (pf_resolved f)) = 1 \<and>
     card (set (map (\<lambda>r. rw_council (rr_row r)) (pf_resolved f))) = 1)"

definition displayed_position :: "planning_facts \<Rightarrow> ah_summary \<Rightarrow> str option \<Rightarrow> ah_position option" where
  "displayed_position f ah ref = (case ref of None \<Rightarrow> None | Some r \<Rightarrow>
     (case select_affordable_position_for_scope ah None (length (pf_active f)) (Some r) of None \<Rightarrow> None
      | Some p \<Rightarrow> if one_identity f r \<and> ah_application_reference (aa_count (ar_assessment (ap_assessment p))) = Some r then Some p else None))"

definition all_positions :: "ah_summary \<Rightarrow> ah_position list" where
  "all_positions ah = current_and_past ah @ su_sources ah @ concat (map sc_positions (su_conflicts ah))"

definition other_reports :: "planning_facts \<Rightarrow> ah_summary \<Rightarrow> str option \<Rightarrow> str list" where
  "other_reports f ah ref =
    (let others = filter (\<lambda>p. Some (ap_application_reference p) \<noteq> ref) (all_positions ah);
         prior = (\<lambda>r. legacy_assessment (rw_scheme (rr_row r)) (Some (rw_reference (rr_row r))) ''unclear''
           (Some ''Other application extraction; not current AH evidence'') None);
         rows = filter (\<lambda>r. Some (rw_reference (rr_row r)) \<noteq> ref \<and> rw_reference (rr_row r) \<notin> set (map ap_application_reference others) \<and>
           rw_scheme (rr_row r) \<noteq> None \<and>
           (ah_value (aa_count (ar_assessment (prior r))) \<noteq> PyNone \<or> ar_percentage (prior r) \<noteq> None \<or> truthy (ar_tenure (prior r)))) (pf_resolved f) in
     first_seen (map (\<lambda>p. legacy_label (ap_assessment p)) others) @ map (\<lambda>r. legacy_label (prior r)) rows)"

definition affordable_source :: "ah_summary \<Rightarrow> ah_position option \<Rightarrow> str option" where
  "affordable_source ah p = (case p of None \<Rightarrow> None | Some q \<Rightarrow>
     if ap_units q = None \<and> ap_percentage q = None then None
     else if su_whole_site ah = Some q then Some ''consented''
     else if su_active_whole_site ah = Some q then Some ''active'' else Some ''selected_application'')"

definition no_assessment :: "str option \<Rightarrow> ah_reported" where
  "no_assessment ref = \<lparr>ar_assessment = \<lparr>aa_count = unknown_claim\<lparr>ah_application_reference := ref\<rparr>, aa_alternatives = []\<rparr>,
     ar_percentage = None, ar_percentage_review = None, ar_tenure = None, ar_evidence = None\<rparr>"

definition resolve_operative_filter_facts :: "planning_facts \<Rightarrow> ah_summary \<Rightarrow> str option \<Rightarrow> filter_facts" where
  "resolve_operative_filter_facts f ah application_reference =
    (let ref = (if application_reference = None then selected_ah_application_reference f else application_reference);
         active = pf_active f; seen = pf_resolved f \<noteq> []; ca = count_assessment_for_facts f; units = exact_value ca;
         (active_units, active_kind, est) = (case active of [p] \<Rightarrow> resolve_units_from_units_facts (lp_residential_only p) (lp_all_use_total p)
           | _ \<Rightarrow> (None, None, False));
         p = displayed_position f ah ref in
     \<lparr>ff_decision_status = opt_or (resolve_canonical_decision_status (pf_consented f) active seen None) NOT_DETERMINED_DECISION_STATUS,
      ff_has_active_proposal = (active \<noteq> []), ff_active_proposal_count = length active,
      ff_units = units, ff_units_source = ca_basis ca,
      ff_units_kind = (if units = None then None else Some (if ca_metric ca = ''all_use_units'' then ''all_use'' else ''residential'')),
      ff_units_is_estimated = (ca_precision ca = APPROXIMATE), ff_units_not_determined = (seen \<and> units = None),
      ff_active_units = active_units, ff_active_units_kind = active_kind,
      ff_affordable_units = Option.bind p ap_units, ff_affordable_percentage = Option.bind p ap_percentage,
      ff_affordable_source = affordable_source ah p, ff_affordable_reconciles = (case p of None \<Rightarrow> True | Some q \<Rightarrow> ap_reconciles q),
      ff_affordable_assessment = (case p of None \<Rightarrow> no_assessment ref | Some q \<Rightarrow> ap_assessment q),
      ff_other_reports = join '' | '' (other_reports f ah ref), ff_count_assessment = ca\<rparr>)"

section \<open>Labels\<close>

text \<open>The status of filter facts is always a key of the labels.\<close>

definition format_operative_decision_status_label :: "filter_facts \<Rightarrow> str option" where
  "format_operative_decision_status_label f =
    (if ff_decision_status f = ''not_yet_decided'' \<and> ff_active_proposal_count f > 1
     then Some (nat_str (ff_active_proposal_count f) @ '' active planning proposals'')
     else map_of OPERATIVE_DECISION_STATUS_LABELS (ff_decision_status f))"

definition format_operative_units_basis_label :: "filter_facts \<Rightarrow> str option" where
  "format_operative_units_basis_label f =
    (if ff_units f = None then None
     else (let bits = (if truthy (ff_units_kind f) then [if ff_units_kind f = Some ''residential'' then ''Residential'' else ''All-use''] else []) @
           (if truthy (ff_units_source f) then [if ff_units_source f = Some ''consented'' then ''consented'' else ''active proposal''] else []) in
       if bits = [] then None else Some (join '' - '' bits)))"

definition resolve_explore_affordable_percentage_display :: "filter_facts \<Rightarrow> rat option" where
  "resolve_explore_affordable_percentage_display f = (if \<not> ff_affordable_reconciles f then None else ff_affordable_percentage f)"

end
