(* ===== verification/AffordableProperties.thy ===== *)
theory AffordableProperties
  imports FilterFacts OperativeProperties
begin

text \<open>
  What the affordable-housing summary and the facts built on it promise: whose figures they are, which of them count as current, when they conflict, and
  what of them reaches a buyer.
\<close>

section \<open>Candidates\<close>

lemma in_map_filter: "y \<in> set (List.map_filter f xs) \<longleftrightarrow> (\<exists>x\<in>set xs. f x = Some y)"
  by (force simp: map_filter_def)

definition evidenced :: "ah_overrides \<Rightarrow> portal_row \<Rightarrow> bool" where
  "evidenced ov a = (case effective_fields a ov of None \<Rightarrow> False | Some f \<Rightarrow> \<not> has_no_independent_affordable_position f)"

lemma evidenced_candidates_iff:
  "c \<in> set (evidenced_candidates ov apps) \<longleftrightarrow> fst c \<in> set apps \<and> evidenced ov (fst c) \<and> effective_fields (fst c) ov = Some (snd c)"
  by (cases c) (auto simp: evidenced_candidates_def in_map_filter evidenced_def split: option.splits if_splits)

lemma evidenced_candidates_filter: "evidenced_candidates ov (filter (evidenced ov) apps) = evidenced_candidates ov apps"
  by (induction apps) (auto simp: evidenced_candidates_def map_filter_simps evidenced_def split: option.splits)

lemma set_order_candidates [simp]: "set (order_candidates cs) = set cs"
  by (simp add: order_candidates_def)

lemma order_candidates_Nil [simp]: "(order_candidates cs = []) = (cs = [])"
  by (metis set_empty set_order_candidates)

lemma stated_percentages_iff: "p \<in> stated_percentages cs \<longleftrightarrow> (\<exists>c\<in>set cs. af_percentage (snd c) = Some p)"
  by (simp add: stated_percentages_def in_map_filter)

lemma stated_percentages_cong: "set cs = set ds \<Longrightarrow> stated_percentages cs = stated_percentages ds"
  by (rule set_eqI) (simp add: stated_percentages_iff)

text \<open>The candidates of the highest authority.\<close>

definition most_authoritative :: "(portal_row \<times> ah_fields) list \<Rightarrow> (portal_row \<times> ah_fields) list" where
  "most_authoritative cs = filter (\<lambda>c. list_all (\<lambda>d. candidate_rank d \<le> candidate_rank c) cs) cs"

lemma set_tied_at_top: "set (tied_at_top cs) = set (most_authoritative cs)"
proof (cases "sort_key (\<lambda>c. - candidate_rank c) cs")
  case Nil
  then have "cs = []" by simp
  then show ?thesis by (simp add: tied_at_top_def most_authoritative_def)
next
  case (Cons c rest)
  have s: "sorted (map (\<lambda>c. - candidate_rank c) (c # rest))" using sorted_sort_key [of "\<lambda>c. - candidate_rank c" cs] Cons by simp
  have e: "set cs = set (c # rest)" by (metis Cons set_sort)
  have top: "candidate_rank d \<le> candidate_rank c" if "d \<in> set cs" for d using s that e by auto
  have "tied_at_top cs = filter (\<lambda>d. candidate_rank d = candidate_rank c) (c # rest)" by (simp only: tied_at_top_def Let_def Cons list.case)
  then have "set (tied_at_top cs) = {d \<in> set cs. candidate_rank d = candidate_rank c}" using e by auto
  moreover have "(candidate_rank d = candidate_rank c) = list_all (\<lambda>x. candidate_rank x \<le> candidate_rank d) cs" if d: "d \<in> set cs" for d
  proof
    assume "candidate_rank d = candidate_rank c"
    then show "list_all (\<lambda>x. candidate_rank x \<le> candidate_rank d) cs" using top by (simp add: list_all_iff)
  next
    assume "list_all (\<lambda>x. candidate_rank x \<le> candidate_rank d) cs"
    then have "candidate_rank c \<le> candidate_rank d" using e by (simp add: list_all_iff)
    with top [OF d] show "candidate_rank d = candidate_rank c" by simp
  qed
  ultimately show ?thesis by (simp add: most_authoritative_def cong: conj_cong)
qed

lemma tied_subset: "set (tied_at_top cs) \<subseteq> set cs"
  unfolding set_tied_at_top by (auto simp: most_authoritative_def)

lemma stated_mono: "set ds \<subseteq> set cs \<Longrightarrow> card (stated_percentages ds) \<le> card (stated_percentages cs)"
  by (rule card_mono) (simp add: stated_percentages_def, rule subsetI, simp only: stated_percentages_iff, blast)

lemma tied_Nil [simp]: "(tied_at_top cs = []) = (cs = [])"
proof -
  have "cs \<noteq> [] \<Longrightarrow> tied_at_top cs \<noteq> []"
    by (auto simp: tied_at_top_def Let_def filter_empty_conv split: list.split dest: arg_cong [of _ _ length])
  then show ?thesis by (auto simp: tied_at_top_def)
qed

lemma resolve_group_cases:
  fixes ov :: ah_overrides and apps :: "portal_row list" and ty lbl :: str
  defines "cs \<equiv> evidenced_candidates ov apps" and "r \<equiv> resolve_group_position ty lbl apps ov"
  obtains (none) "cs = []" "r = (None, None)"
  | (agreed) c where "c \<in> set cs" "card (stated_percentages (most_authoritative cs)) \<le> 1" "r = (Some (ah_position_of ty lbl (fst c) (snd c)), None)"
  | (disputed) ps where "card (stated_percentages (most_authoritative cs)) > 1" "set ps = (\<lambda>c. ah_position_of ty lbl (fst c) (snd c)) ` set cs"
      "r = (None, Some \<lparr>sc_scope_type = ty, sc_scope_label = lbl, sc_positions = ps\<rparr>)"
proof (cases "order_candidates cs")
  case Nil
  then have "cs = []" by simp
  then show ?thesis using none by (simp add: r_def resolve_group_position_def cs_def [symmetric] order_candidates_def Let_def)
next
  case (Cons c rest)
  then have ne: "cs \<noteq> []" by (metis list.distinct(1) order_candidates_Nil)
  have first: "c \<in> set cs" using Cons by (metis list.set_intros(1) set_order_candidates)
  have chosen: "hd (tied_at_top (order_candidates cs)) \<in> set cs"
    using ne tied_subset [of "order_candidates cs"] by (metis hd_in_set order_candidates_Nil set_order_candidates subsetD tied_Nil)
  have same: "stated_percentages (order_candidates cs) = stated_percentages cs" by (rule stated_percentages_cong) simp
  have top: "stated_percentages (tied_at_top (order_candidates cs)) = stated_percentages (most_authoritative cs)"
    by (rule stated_percentages_cong) (simp add: set_tied_at_top most_authoritative_def list_all_iff)
  have le: "card (stated_percentages (most_authoritative cs)) \<le> card (stated_percentages cs)"
    by (rule stated_mono) (simp add: most_authoritative_def)
  have r: "r = (if card (stated_percentages cs) \<le> 1 then (Some (ah_position_of ty lbl (fst c) (snd c)), None)
      else if card (stated_percentages (most_authoritative cs)) \<le> 1
        then (let h = hd (tied_at_top (order_candidates cs)) in (Some (ah_position_of ty lbl (fst h) (snd h)), None))
      else (None, Some \<lparr>sc_scope_type = ty, sc_scope_label = lbl, sc_positions = map (\<lambda>c. ah_position_of ty lbl (fst c) (snd c)) (order_candidates cs)\<rparr>))"
    using Cons same top by (simp add: r_def resolve_group_position_def cs_def [symmetric] Let_def)
  show ?thesis
  proof (cases "card (stated_percentages (most_authoritative cs)) > 1")
    case True
    show ?thesis by (rule disputed [of "map (\<lambda>c. ah_position_of ty lbl (fst c) (snd c)) (order_candidates cs)"]) (use True le r in auto)
  next
    case False
    show ?thesis
    proof (cases "card (stated_percentages cs) \<le> 1")
      case True
      then show ?thesis using agreed [OF first] False r by simp
    next
      case F: False
      then show ?thesis using agreed [OF chosen] False r by (simp add: Let_def)
    qed
  qed
qed

text \<open>
  The affordable position of one scope among applications of one state: there is one, or a conflict, exactly where some application states evidence of its own, and a conflict
  exactly where the most authoritative of those state different percentages; applications without evidence of their own change nothing. What is chosen is one of those applications' own
  record, whole.
\<close>

theorem scope_position_by_authority:
  "let cs = evidenced_candidates ov apps; disputed = card (stated_percentages (most_authoritative cs)) > 1; r = resolve_group_position ty lbl apps ov in
    (snd r \<noteq> None) = disputed \<and> (fst r \<noteq> None) = (cs \<noteq> [] \<and> \<not> disputed) \<and>
    (case fst r of None \<Rightarrow> True | Some p \<Rightarrow> list_ex (\<lambda>c. p = ah_position_of ty lbl (fst c) (snd c)) cs) \<and>
    r = resolve_group_position ty lbl (filter (evidenced ov) apps) ov"
proof -
  have same: "resolve_group_position ty lbl (filter (evidenced ov) apps) ov = resolve_group_position ty lbl apps ov"
    by (simp add: resolve_group_position_def evidenced_candidates_filter)
  have none: "\<not> card (stated_percentages (most_authoritative [])) > 1" by (simp add: stated_percentages_def most_authoritative_def map_filter_simps)
  show ?thesis
  proof (cases rule: resolve_group_cases [of ov apps ty lbl])
    case none
    then show ?thesis using \<open>\<not> card (stated_percentages (most_authoritative [])) > 1\<close> by (simp add: Let_def same)
  next
    case (agreed c)
    then have "evidenced_candidates ov apps \<noteq> []" by auto
    with agreed show ?thesis by (auto simp: Let_def same list_ex_iff)
  next
    case (disputed ps)
    then show ?thesis by (simp add: Let_def same)
  qed
qed

section \<open>Whose figures a summary shows\<close>

text \<open>A position is one listed application's own record.\<close>

definition own_record :: "ah_overrides \<Rightarrow> portal_row list \<Rightarrow> ah_position \<Rightarrow> bool" where
  "own_record ov apps p = list_ex (\<lambda>a. case effective_fields a ov of None \<Rightarrow> False
     | Some f \<Rightarrow> evidenced ov a \<and> p = ah_position_of (ap_scope_type p) (ap_scope_label p) a f) apps"

lemma position_simps [simp]:
  "ap_scope_type (ah_position_of ty lbl a f) = ty" "ap_scope_label (ah_position_of ty lbl a f) = lbl"
  "ap_application_reference (ah_position_of ty lbl a f) = rw_reference a" "ap_decided (ah_position_of ty lbl a f) = decided_state a"
  "ap_units (ah_position_of ty lbl a f) = af_units f" "ap_percentage (ah_position_of ty lbl a f) = af_percentage f"
  "ap_assessment (ah_position_of ty lbl a f) = legacy_assessment (rw_scheme a) (Some (rw_reference a)) ty (Some lbl) (Some f)"
  by (simp_all add: ah_position_of_def case_prod_beta Let_def)

text \<open>What the groups below need of a position: it is an application's own, and the application's state is allowed.\<close>

definition made_from :: "ah_overrides \<Rightarrow> portal_row list \<Rightarrow> (decided \<Rightarrow> bool) \<Rightarrow> ah_position \<Rightarrow> bool" where
  "made_from ov apps st p = (own_record ov apps p \<and> st (ap_decided p))"

lemma made_fromI:
  assumes "c \<in> set (evidenced_candidates ov apps)" and "set apps \<subseteq> set all" and "st (decided_state (fst c))"
  shows "made_from ov all st (ah_position_of ty lbl (fst c) (snd c))"
  using assms by (auto simp: made_from_def own_record_def list_ex_iff evidenced_candidates_iff intro!: bexI [of _ "fst c"])

lemma group_made_from:
  assumes "set apps \<subseteq> set all" and "\<And>a. a \<in> set apps \<Longrightarrow> st (decided_state a)"
  shows "fst (resolve_group_position ty lbl apps ov) = Some p \<Longrightarrow> made_from ov all st p"
    and "snd (resolve_group_position ty lbl apps ov) = Some k \<Longrightarrow> q \<in> set (sc_positions k) \<Longrightarrow> made_from ov all st q"
proof -
  have made: "made_from ov all st (ah_position_of ty lbl (fst c) (snd c))" if "c \<in> set (evidenced_candidates ov apps)" for c
    using that assms by (intro made_fromI [OF that assms(1)]) (simp add: evidenced_candidates_iff)
  show "fst (resolve_group_position ty lbl apps ov) = Some p \<Longrightarrow> made_from ov all st p"
    by (cases rule: resolve_group_cases [of ov apps ty lbl]) (auto intro: made)
  show "snd (resolve_group_position ty lbl apps ov) = Some k \<Longrightarrow> q \<in> set (sc_positions k) \<Longrightarrow> made_from ov all st q"
    by (cases rule: resolve_group_cases [of ov apps ty lbl]) (auto intro: made)
qed

definition current_state :: "decided \<Rightarrow> bool" where
  "current_state d = (d \<notin> {DECIDED_WITHDRAWN, DECIDED_REFUSED})"

lemma resolve_scope_made_from:
  assumes sub: "set apps \<subseteq> set all"
  shows "sr_consented (resolve_scope ty lbl apps ov) = Some p \<Longrightarrow> made_from ov all (\<lambda>d. d = DECIDED_GRANTED) p"
    and "sr_active (resolve_scope ty lbl apps ov) = Some p \<Longrightarrow> made_from ov all (\<lambda>d. d \<in> {DECIDED_RECOMMENDATION_ONLY, DECIDED_UNDETERMINED}) p"
    and "p \<in> set (sr_historical (resolve_scope ty lbl apps ov)) \<Longrightarrow> made_from ov all (\<lambda>d. d \<in> {DECIDED_WITHDRAWN, DECIDED_REFUSED}) p"
    and "k \<in> set (sr_conflicts (resolve_scope ty lbl apps ov)) \<Longrightarrow> q \<in> set (sc_positions k) \<Longrightarrow> made_from ov all current_state q"
proof -
  let ?g = "filter (\<lambda>a. decided_state a = DECIDED_GRANTED) apps"
  let ?l = "filter (\<lambda>a. decided_state a \<in> {DECIDED_RECOMMENDATION_ONLY, DECIDED_UNDETERMINED}) apps"
  have r: "resolve_scope ty lbl apps ov = \<lparr>sr_consented = fst (resolve_group_position ty lbl ?g ov), sr_active = fst (resolve_group_position ty lbl ?l ov),
      sr_conflicts = List.map_filter id [snd (resolve_group_position ty lbl ?g ov), snd (resolve_group_position ty lbl ?l ov)],
      sr_historical = historical_positions ty lbl (filter (\<lambda>a. decided_state a \<in> {DECIDED_WITHDRAWN, DECIDED_REFUSED}) apps) ov\<rparr>"
    by (simp only: resolve_scope_def partition_by_decided_state_def case_prod_beta Let_def fst_conv snd_conv)
  have g: "set ?g \<subseteq> set all" "set ?l \<subseteq> set all" using sub by auto
  show "sr_consented (resolve_scope ty lbl apps ov) = Some p \<Longrightarrow> made_from ov all (\<lambda>d. d = DECIDED_GRANTED) p"
    unfolding r by simp (rule group_made_from(1) [OF g(1)], auto)
  show "sr_active (resolve_scope ty lbl apps ov) = Some p \<Longrightarrow> made_from ov all (\<lambda>d. d \<in> {DECIDED_RECOMMENDATION_ONLY, DECIDED_UNDETERMINED}) p"
    unfolding r by simp (rule group_made_from(1) [OF g(2)], auto)
  show "p \<in> set (sr_historical (resolve_scope ty lbl apps ov)) \<Longrightarrow> made_from ov all (\<lambda>d. d \<in> {DECIDED_WITHDRAWN, DECIDED_REFUSED}) p"
    unfolding r using sub by (auto simp: historical_positions_def case_prod_beta evidenced_candidates_iff intro!: made_fromI)
  show "k \<in> set (sr_conflicts (resolve_scope ty lbl apps ov)) \<Longrightarrow> q \<in> set (sc_positions k) \<Longrightarrow> made_from ov all current_state q"
  proof -
    assume k: "k \<in> set (sr_conflicts (resolve_scope ty lbl apps ov))" and q: "q \<in> set (sc_positions k)"
    have "sr_conflicts (resolve_scope ty lbl apps ov) = List.map_filter id [snd (resolve_group_position ty lbl ?g ov), snd (resolve_group_position ty lbl ?l ov)]"
      unfolding r by (simp only: scope_result.simps)
    with k consider "snd (resolve_group_position ty lbl ?g ov) = Some k" | "snd (resolve_group_position ty lbl ?l ov) = Some k"
      unfolding in_map_filter by (auto simp only: in_map_filter list.set id_apply)
    then show ?thesis
    proof cases
      case 1
      show ?thesis by (rule group_made_from(2) [OF g(1) _ 1 q]) (simp add: current_state_def)
    next
      case 2
      show ?thesis by (rule group_made_from(2) [OF g(2) _ 2 q]) (auto simp: current_state_def)
    qed
  qed
qed

lemma group_rows:
  assumes "(k, as) \<in> set (group_applications_by_operative_scope rules apps)"
  shows "set as \<subseteq> set apps"
proof -
  define rows where "rows gs = (\<Union>g\<in>set gs. set (snd g))" for gs :: groups
  have add: "rows (add_to_group k as gs) = set as \<union> rows gs" for k as gs
    by (induction k as gs rule: add_to_group.induct) (auto simp: rows_def)
  have labels: "rows (foldl (\<lambda>gs k. add_to_group k [a] gs) gs ks) \<subseteq> {a} \<union> rows gs" for a gs ks
  proof (induction ks arbitrary: gs)
    case (Cons k ks)
    from Cons [of "add_to_group k [a] gs"] show ?case by (auto simp: add)
  qed auto
  have phase: "rows (foldl (\<lambda>gs a. if rule_labels rules a = [] then add_to_group unphased_key [a] gs
      else foldl (\<lambda>gs k. add_to_group k [a] gs) gs (rule_labels rules a)) gs as) \<subseteq> rows gs \<union> set as" for gs as
  proof (induction as arbitrary: gs)
    case (Cons a as)
    show ?case using Cons [of "if rule_labels rules a = [] then add_to_group unphased_key [a] gs
        else foldl (\<lambda>gs k. add_to_group k [a] gs) gs (rule_labels rules a)"] labels [of a gs "rule_labels rules a"]
      by (auto simp: add split: if_splits)
  qed simp
  have new: "set (not_yet_in gs k as) \<subseteq> set as" for gs k as
  proof -
    have "set (foldl (\<lambda>new a. if rw_id a \<in> set (map rw_id (b @ new)) then new else new @ [a]) new as) \<subseteq> set as \<union> set new" for b new
    proof (induction as arbitrary: new)
      case (Cons a as)
      from Cons [of "if rw_id a \<in> set (map rw_id (b @ new)) then new else new @ [a]"] show ?case by (auto split: if_splits)
    qed simp
    from this [of "opt_or (map_of gs k) []" "[]"] show ?thesis by (simp add: not_yet_in_def)
  qed
  have scope: "rows (foldl (\<lambda>gs g. let k = operative_key rules g in add_to_group k (not_yet_in gs k (snd g)) gs) gs hs) \<subseteq> rows gs \<union> rows hs" for gs hs
  proof (induction hs arbitrary: gs)
    case (Cons h hs)
    let ?gs = "add_to_group (operative_key rules h) (not_yet_in gs (operative_key rules h) (snd h)) gs"
    have "rows ?gs \<subseteq> rows gs \<union> set (snd h)" using new by (simp add: add) blast
    with Cons [of ?gs] show ?case by (simp add: Let_def rows_def) blast
  qed (simp add: rows_def)
  have "rows (group_applications_by_operative_scope rules apps) \<subseteq> set apps"
    using scope [of "[]" "group_applications_by_phase rules apps"] phase [of "[]" apps]
    by (simp add: group_applications_by_operative_scope_def group_applications_by_phase_def) (auto simp: rows_def)
  with assms show ?thesis by (force simp: rows_def)
qed

text \<open>Every scope a summary resolves is one of a sublist of the applications.\<close>

definition site_results :: "text_rules \<Rightarrow> portal_row list \<Rightarrow> ah_overrides \<Rightarrow> scope_result list" where
  "site_results rules apps ov = (case map_of (group_applications_by_operative_scope rules apps) unphased_key of None \<Rightarrow> [] | Some as \<Rightarrow> if as = [] then []
     else (case unnamed_scope (named_groups rules apps) of (ty, lbl) \<Rightarrow> [resolve_scope ty lbl as ov]))"

definition phase_results :: "text_rules \<Rightarrow> portal_row list \<Rightarrow> ah_overrides \<Rightarrow> scope_result list" where
  "phase_results rules apps ov = map (\<lambda>(k, as). case named_scope k of (ty, lbl) \<Rightarrow> resolve_scope ty lbl as ov) (named_groups rules apps)"

lemma summary_from_results:
  "compute_affordable_housing_scope_summary rules apps ov = (let phases = phase_results rules apps ov; site = site_results rules apps ov in
     \<lparr>su_whole_site = (case site of [] \<Rightarrow> None | r # _ \<Rightarrow> sr_consented r), su_phases = sort_key ap_scope_label (List.map_filter sr_consented phases),
      su_active_whole_site = (case site of [] \<Rightarrow> None | r # _ \<Rightarrow> sr_active r), su_active_phases = sort_key ap_scope_label (List.map_filter sr_active phases),
      su_historical = concat (map sr_historical (phases @ site)), su_conflicts = concat (map sr_conflicts (phases @ site)), su_sources = []\<rparr>)"
  by (simp only: compute_affordable_housing_scope_summary_def phase_results_def site_results_def Let_def)

lemma results_from_rows:
  assumes "r \<in> set (phase_results rules apps ov @ site_results rules apps ov)"
  obtains ty lbl as where "r = resolve_scope ty lbl as ov" "set as \<subseteq> set apps"
proof -
  from assms consider "r \<in> set (phase_results rules apps ov)" | "r \<in> set (site_results rules apps ov)" by auto
  then show ?thesis
  proof cases
    case 1
    then obtain k as where "(k, as) \<in> set (named_groups rules apps)" "r = (case named_scope k of (ty, lbl) \<Rightarrow> resolve_scope ty lbl as ov)"
      by (auto simp: phase_results_def)
    then show ?thesis using that [of "fst (named_scope k)" "snd (named_scope k)" as] group_rows [of k as rules apps]
      by (auto simp: named_groups_def case_prod_beta)
  next
    case 2
    then obtain as where "map_of (group_applications_by_operative_scope rules apps) unphased_key = Some as"
      "r = (case unnamed_scope (named_groups rules apps) of (ty, lbl) \<Rightarrow> resolve_scope ty lbl as ov)"
      by (cases "map_of (group_applications_by_operative_scope rules apps) unphased_key") (auto simp: site_results_def case_prod_beta split: if_splits)
    then show ?thesis using that [of "fst (unnamed_scope (named_groups rules apps))" "snd (unnamed_scope (named_groups rules apps))" as]
        group_rows [OF map_of_SomeD] by (auto simp: case_prod_beta)
  qed
qed

lemma site_result_head: "(case site_results rules apps ov of [] \<Rightarrow> None | r # _ \<Rightarrow> f r) = Some p \<Longrightarrow> \<exists>r\<in>set (site_results rules apps ov). f r = Some p"
  by (auto split: list.splits)

lemma summary_made_from:
  defines "s rules apps ov \<equiv> compute_affordable_housing_scope_summary rules apps ov"
  shows "p \<in> set (List.map_filter id [su_whole_site (s rules apps ov)] @ su_phases (s rules apps ov)) \<Longrightarrow> made_from ov apps (\<lambda>d. d = DECIDED_GRANTED) p"
    and "p \<in> set (List.map_filter id [su_active_whole_site (s rules apps ov)] @ su_active_phases (s rules apps ov)) \<Longrightarrow>
      made_from ov apps (\<lambda>d. d \<in> {DECIDED_RECOMMENDATION_ONLY, DECIDED_UNDETERMINED}) p"
    and "p \<in> set (su_historical (s rules apps ov)) \<Longrightarrow> made_from ov apps (\<lambda>d. d \<in> {DECIDED_WITHDRAWN, DECIDED_REFUSED}) p"
    and "c \<in> set (su_conflicts (s rules apps ov)) \<Longrightarrow> p \<in> set (sc_positions c) \<Longrightarrow> made_from ov apps current_state p"
proof -
  let ?rs = "phase_results rules apps ov @ site_results rules apps ov"
  show "p \<in> set (List.map_filter id [su_whole_site (s rules apps ov)] @ su_phases (s rules apps ov)) \<Longrightarrow> made_from ov apps (\<lambda>d. d = DECIDED_GRANTED) p"
  proof -
    assume "p \<in> set (List.map_filter id [su_whole_site (s rules apps ov)] @ su_phases (s rules apps ov))"
    then have "\<exists>r\<in>set ?rs. sr_consented r = Some p"
      by (auto simp: s_def summary_from_results Let_def in_map_filter map_filter_simps split: option.splits dest!: site_result_head)
    then show ?thesis by (metis results_from_rows resolve_scope_made_from(1))
  qed
  show "p \<in> set (List.map_filter id [su_active_whole_site (s rules apps ov)] @ su_active_phases (s rules apps ov)) \<Longrightarrow>
      made_from ov apps (\<lambda>d. d \<in> {DECIDED_RECOMMENDATION_ONLY, DECIDED_UNDETERMINED}) p"
  proof -
    assume "p \<in> set (List.map_filter id [su_active_whole_site (s rules apps ov)] @ su_active_phases (s rules apps ov))"
    then have "\<exists>r\<in>set ?rs. sr_active r = Some p"
      by (auto simp: s_def summary_from_results Let_def in_map_filter map_filter_simps split: option.splits dest!: site_result_head)
    then show ?thesis by (metis results_from_rows resolve_scope_made_from(2))
  qed
  show "p \<in> set (su_historical (s rules apps ov)) \<Longrightarrow> made_from ov apps (\<lambda>d. d \<in> {DECIDED_WITHDRAWN, DECIDED_REFUSED}) p"
  proof -
    assume "p \<in> set (su_historical (s rules apps ov))"
    then have "\<exists>r\<in>set ?rs. p \<in> set (sr_historical r)" by (auto simp: s_def summary_from_results Let_def)
    then show ?thesis by (metis results_from_rows resolve_scope_made_from(3))
  qed
  show "c \<in> set (su_conflicts (s rules apps ov)) \<Longrightarrow> p \<in> set (sc_positions c) \<Longrightarrow> made_from ov apps current_state p"
  proof -
    assume "c \<in> set (su_conflicts (s rules apps ov))" and p: "p \<in> set (sc_positions c)"
    then have "\<exists>r\<in>set ?rs. c \<in> set (sr_conflicts r)" by (auto simp: s_def summary_from_results Let_def)
    then show ?thesis using p by (metis results_from_rows resolve_scope_made_from(4))
  qed
qed

lemma summary_own:
  "p \<in> set (all_positions (compute_affordable_housing_scope_summary rules apps ov)) \<Longrightarrow> own_record ov apps p"
proof -
  let ?s = "compute_affordable_housing_scope_summary rules apps ov"
  assume "p \<in> set (all_positions ?s)"
  moreover have "su_sources ?s = []" by (simp add: summary_from_results Let_def)
  ultimately consider "p \<in> set (List.map_filter id [su_whole_site ?s] @ su_phases ?s)" | "p \<in> set (List.map_filter id [su_active_whole_site ?s] @ su_active_phases ?s)"
    | "p \<in> set (su_historical ?s)" | c where "c \<in> set (su_conflicts ?s)" "p \<in> set (sc_positions c)"
    by (auto simp: all_positions_def current_and_past_def map_filter_simps split: option.splits)
  then show ?thesis using summary_made_from(1,2,3) [of p rules apps ov] summary_made_from(4) [of _ rules apps ov p] by cases (auto simp: made_from_def)
qed

text \<open>
  A summary keeps what is consented, what is proposed and what is past apart, and each of its positions is the record of one listed application with
  evidence of its own: figures of a withdrawn or refused application appear only as history, never as a current position and never in a conflict, and no
  position mixes the figures of two applications.
\<close>

theorem affordable_positions_by_state:
  "let s = compute_affordable_housing_scope_summary rules apps ov in
    list_all (\<lambda>p. ap_decided p = DECIDED_GRANTED) (List.map_filter id [su_whole_site s] @ su_phases s) \<and>
    list_all (\<lambda>p. ap_decided p \<in> {DECIDED_RECOMMENDATION_ONLY, DECIDED_UNDETERMINED}) (List.map_filter id [su_active_whole_site s] @ su_active_phases s) \<and>
    list_all (\<lambda>p. ap_decided p \<in> {DECIDED_WITHDRAWN, DECIDED_REFUSED}) (su_historical s) \<and>
    list_all (\<lambda>c. list_all (\<lambda>p. ap_decided p \<notin> {DECIDED_WITHDRAWN, DECIDED_REFUSED}) (sc_positions c)) (su_conflicts s) \<and>
    list_all (own_record ov apps) (all_positions s)"
  using summary_made_from(1,2,3) [of _ rules apps ov] summary_made_from(4) [of _ rules apps ov] summary_own [of _ rules apps ov]
  unfolding Let_def list_all_iff made_from_def current_state_def by blast

section \<open>What is displayed\<close>

lemma only_SomeD: "only xs = Some x \<Longrightarrow> x \<in> set xs"
  by (auto simp: only_def split: list.splits)

lemma set_appended: "set (foldl (\<lambda>ps p. if p \<in> set ps then ps else ps @ [p]) ps cs) = set ps \<union> set cs"
proof (induction cs arbitrary: ps)
  case (Cons c cs)
  show ?case unfolding foldl_Cons Cons by auto
qed simp

lemma select_by_reference_in:
  assumes "select_by_reference s labels r = Some p"
  shows "p \<in> set (all_positions s) \<and> ap_application_reference p = r"
  using assms by (auto simp: select_by_reference_def Let_def all_positions_def set_appended split: if_splits dest!: only_SomeD)

lemma displayed_position_in:
  assumes "displayed_position f ah ref = Some p"
  obtains r where "ref = Some r" "p \<in> set (all_positions ah)" "ap_application_reference p = r" "one_identity f r"
  using assms by (auto simp: displayed_position_def select_affordable_position_for_scope_def split: option.splits if_splits dest!: select_by_reference_in)

lemma rows_of_resolved [simp]: "map rr_row (resolve_applications rules apps) = apps"
  by (simp add: resolve_applications_def Let_def case_prod_beta o_def)

lemma role_of_resolved: "r \<in> set (resolve_applications rules apps) \<Longrightarrow> rr_role r = resolve_planning_role rules (rr_row r) \<and> rr_row r \<in> set apps"
  by (auto simp: resolve_applications_def Let_def case_prod_beta)

lemma pf_resolved_build [simp]: "pf_resolved (build_operative_planning_facts rules apps) = resolve_applications rules apps"
  by (simp add: build_operative_planning_facts_def facts_of_rows_def)

lemma filter_facts_simps [simp]:
  fixes f ah ref defines "shown \<equiv> (if ref = None then selected_ah_application_reference f else ref)"
  shows "ff_affordable_units (resolve_operative_filter_facts f ah ref) = Option.bind (displayed_position f ah shown) ap_units"
    "ff_affordable_percentage (resolve_operative_filter_facts f ah ref) = Option.bind (displayed_position f ah shown) ap_percentage"
    "ff_affordable_source (resolve_operative_filter_facts f ah ref) = affordable_source ah (displayed_position f ah shown)"
    "ff_affordable_assessment (resolve_operative_filter_facts f ah ref) =
      (case displayed_position f ah shown of None \<Rightarrow> no_assessment shown | Some q \<Rightarrow> ap_assessment q)"
    "ff_decision_status (resolve_operative_filter_facts f ah ref) =
      opt_or (resolve_canonical_decision_status (pf_consented f) (pf_active f) (pf_resolved f \<noteq> []) None) NOT_DETERMINED_DECISION_STATUS"
    "ff_has_active_proposal (resolve_operative_filter_facts f ah ref) = (pf_active f \<noteq> [])"
    "ff_active_proposal_count (resolve_operative_filter_facts f ah ref) = length (pf_active f)"
  by (simp_all only: resolve_operative_filter_facts_def Let_def case_prod_beta shown_def filter_facts.simps)

definition eligible_applications :: "text_rules \<Rightarrow> portal_row list \<Rightarrow> portal_row list" where
  "eligible_applications rules apps = map rr_row (filter (\<lambda>r. is_substantive r \<or> rr_role r = ROLE_S73_VARIATION) (resolve_applications rules apps))"

lemma displayed_own:
  assumes "displayed_position (build_operative_planning_facts rules apps) (affordable_housing_of rules (resolve_applications rules apps)) ref = Some p"
  obtains a s where "ref = Some (rw_reference a)" "rw_scheme a = Some s" "filter (\<lambda>b. rw_reference b = rw_reference a) apps = [a]"
    "resolve_planning_role rules a \<in> set (ROLE_S73_VARIATION # SUBSTANTIVE_ROLES)"
    "p = ah_position_of (ap_scope_type p) (ap_scope_label p) a (fields_of_scheme (Some s))"
proof -
  obtain r where r: "ref = Some r" "ap_application_reference p = r" "one_identity (build_operative_planning_facts rules apps) r"
    and "p \<in> set (all_positions (affordable_housing_of rules (resolve_applications rules apps)))"
    using displayed_position_in [OF assms] by blast
  then have "own_record (\<lambda>i. None) (eligible_applications rules apps) p"
    unfolding affordable_housing_of_def eligible_applications_def by (intro summary_own)
  then obtain a s where a: "a \<in> set (eligible_applications rules apps)" "rw_scheme a = Some s"
    and p: "p = ah_position_of (ap_scope_type p) (ap_scope_label p) a (fields_of_scheme (Some s))"
    by (auto simp: own_record_def list_ex_iff effective_fields_def split: option.splits)
  have role: "resolve_planning_role rules a \<in> set (ROLE_S73_VARIATION # SUBSTANTIVE_ROLES)" "a \<in> set apps"
    using a(1) role_of_resolved by (force simp: eligible_applications_def is_substantive_def)+
  have ref: "rw_reference a = r" using r(2) p position_simps(3) by metis
  have "length (filter (\<lambda>b. rw_reference b = r) (map rr_row (resolve_applications rules apps))) = 1"
    using r(3) by (simp only: one_identity_def pf_resolved_build filter_map length_map o_def)
  then have one: "length (filter (\<lambda>b. rw_reference b = r) apps) = 1" by simp
  then obtain b where b: "filter (\<lambda>b. rw_reference b = r) apps = [b]" by (auto simp: length_Suc_conv)
  then have "set (filter (\<lambda>b. rw_reference b = r) apps) = {b}" by simp
  with role(2) ref have "a = b" by auto
  with that [of a s] r(1) ref a(2) b role(1) p show ?thesis by simp
qed

text \<open>
  Affordable figures shown for a site are the displayed application's own: where a source is given for them, the application is the one asked for or
  selected, the only one of the site with its reference, substantive or a variation, and units and percentage are both as its extraction recorded them, never another application's.
\<close>

theorem displayed_affordable_figures_own:
  assumes "ff_affordable_source (resolve_operative_filter_facts (build_operative_planning_facts rules apps)
      (affordable_housing_of rules (resolve_applications rules apps)) ref) = Some src"
  shows "\<exists>a s. rw_scheme a = Some s \<and> filter (\<lambda>b. rw_reference b = rw_reference a) apps = [a] \<and>
    resolve_planning_role rules a \<in> set (ROLE_S73_VARIATION # SUBSTANTIVE_ROLES) \<and> ref \<in> {None, Some (rw_reference a)} \<and>
    (let ff = resolve_operative_filter_facts (build_operative_planning_facts rules apps) (affordable_housing_of rules (resolve_applications rules apps)) ref in
      ff_affordable_units ff = sr_affordable_units s \<and> ff_affordable_percentage ff = sr_affordable_percentage s)"
proof -
  let ?f = "build_operative_planning_facts rules apps" and ?ah = "affordable_housing_of rules (resolve_applications rules apps)"
  let ?shown = "if ref = None then selected_ah_application_reference ?f else ref"
  from assms obtain p where p: "displayed_position ?f ?ah ?shown = Some p"
    by (simp only: filter_facts_simps) (auto simp: affordable_source_def split: option.splits)
  from displayed_own [OF p] obtain a s where a: "?shown = Some (rw_reference a)" "rw_scheme a = Some s" "filter (\<lambda>b. rw_reference b = rw_reference a) apps = [a]"
    "resolve_planning_role rules a \<in> set (ROLE_S73_VARIATION # SUBSTANTIVE_ROLES)" "p = ah_position_of (ap_scope_type p) (ap_scope_label p) a (fields_of_scheme (Some s))"
    by metis
  have "ap_units p = sr_affordable_units s" "ap_percentage p = sr_affordable_percentage s"
    using arg_cong [OF a(5), of ap_units] arg_cong [OF a(5), of ap_percentage] by (simp_all add: fields_of_scheme_def)
  then show ?thesis using a(1,2,3,4) p by (intro exI [of _ a] exI [of _ s]) (simp only: Let_def filter_facts_simps bind.simps, auto split: if_splits)
qed

definition demo_scheme :: scheme_row where
  "demo_scheme = \<lparr>sr_total_units = PyInt 66, sr_housing_typology = None, sr_specialist_type = None, sr_development_type = None,
     sr_affordable_percentage = Some (197 / 10), sr_affordable_units = Some 13, sr_affordable_tenure = None, sr_affordable_status = Some ''agreed'',
     sr_affordable_notes = None, sr_affordable_status_note = None, sr_affordable_evidence = None, sr_core_complete = True\<rparr>"

theorem displayed_affordable_figures_own_witness:
  "let apps = [(demo_row 1 (Some ''2024-02-29''))\<lparr>rw_scheme := Some demo_scheme\<rparr>, (demo_row 2 None)\<lparr>rw_reference := ''DC/2''\<rparr>] in
    ff_affordable_units (resolve_operative_filter_facts (build_operative_planning_facts demo_rules apps)
      (affordable_housing_of demo_rules (resolve_applications demo_rules apps)) (Some ''DC/1'')) = Some 13"
proof -
  let ?apps = "[(demo_row 1 (Some ''2024-02-29''))\<lparr>rw_scheme := Some demo_scheme\<rparr>, (demo_row 2 None)\<lparr>rw_reference := ''DC/2''\<rparr>]"
  have "ff_affordable_source (resolve_operative_filter_facts (build_operative_planning_facts demo_rules ?apps)
      (affordable_housing_of demo_rules (resolve_applications demo_rules ?apps)) (Some ''DC/1'')) = Some ''consented''" by code_simp
  from displayed_affordable_figures_own [OF this] obtain a s where a: "rw_scheme a = Some s" "filter (\<lambda>b. rw_reference b = rw_reference a) ?apps = [a]"
    and u: "ff_affordable_units (resolve_operative_filter_facts (build_operative_planning_facts demo_rules ?apps)
      (affordable_housing_of demo_rules (resolve_applications demo_rules ?apps)) (Some ''DC/1'')) = sr_affordable_units s"
    by (auto simp only: Let_def)
  have "a \<in> set (filter (\<lambda>b. rw_reference b = rw_reference a) ?apps)" unfolding a(2) by simp
  then have "a \<in> set ?apps" unfolding set_filter by blast
  then have "rw_scheme a \<in> {Some demo_scheme, None}" by (auto simp: demo_row_def)
  with a(1) have "s = demo_scheme" by simp
  with u show ?thesis by (simp only: Let_def) (simp add: demo_scheme_def)
qed

section \<open>What reaches a buyer\<close>

lemma legacy_unqualified [simp]: "\<not> claim_qualified (aa_count (ar_assessment (legacy_assessment si ref ty lbl given)))"
  by (simp add: legacy_assessment_def claim_qualified_def unknown_claim_def Let_def)

lemma displayed_assessment_legacy:
  "\<exists>c. ar_assessment (ff_affordable_assessment (resolve_operative_filter_facts (build_operative_planning_facts rules apps)
      (affordable_housing_of rules (resolve_applications rules apps)) ref)) = \<lparr>aa_count = c, aa_alternatives = []\<rparr> \<and> ah_state c = ''unknown''"
proof -
  let ?f = "build_operative_planning_facts rules apps" and ?ah = "affordable_housing_of rules (resolve_applications rules apps)"
  let ?shown = "if ref = None then selected_ah_application_reference ?f else ref"
  show ?thesis
  proof (cases "displayed_position ?f ?ah ?shown")
    case None
    then show ?thesis by (simp only: filter_facts_simps) (simp add: no_assessment_def unknown_claim_def)
  next
    case (Some p)
    from displayed_own [OF Some] obtain a s where "p = ah_position_of (ap_scope_type p) (ap_scope_label p) a (fields_of_scheme (Some s))" by metis
    then have "ap_assessment p = legacy_assessment (rw_scheme a) (Some (rw_reference a)) (ap_scope_type p) (Some (ap_scope_label p)) (Some (fields_of_scheme (Some s)))"
      by (metis position_simps(7))
    with Some show ?thesis by (simp only: filter_facts_simps) (simp add: legacy_assessment_def unknown_claim_def Let_def)
  qed
qed

text \<open>
  Stored affordable-housing numbers never establish anything: whatever the extractions of a site's applications hold and whichever application is displayed, the assessment
  that comes out is not a qualified claim and has no alternatives, so a buyer is matched on no affordable count, no affordable percentage and an unknown whole-site state.
\<close>

theorem stored_affordable_numbers_never_qualify:
  "let f = build_operative_planning_facts rules apps; ff = resolve_operative_filter_facts f (affordable_housing_of rules (resolve_applications rules apps)) ref;
       a = ar_assessment (ff_affordable_assessment ff); m = build_matching_facts_from_operative (operative_view f) aps (ff_count_assessment ff) a in
    \<not> claim_qualified (aa_count a) \<and> aa_alternatives a = [] \<and> mf_affordable_unit_count m = None \<and> mf_affordable_percentage m = None \<and>
    mf_whole_site_affordable_state m = AFFORDABLE_STATE_UNKNOWN"
proof -
  obtain c where c: "ar_assessment (ff_affordable_assessment (resolve_operative_filter_facts (build_operative_planning_facts rules apps)
      (affordable_housing_of rules (resolve_applications rules apps)) ref)) = \<lparr>aa_count = c, aa_alternatives = []\<rparr>" "ah_state c = ''unknown''"
    using displayed_assessment_legacy by blast
  then have n: "\<not> claim_qualified c" by (simp add: claim_qualified_def)
  then have "derive_whole_site_affordable_state (Some ca) (Some \<lparr>aa_count = c, aa_alternatives = []\<rparr>) cur = AFFORDABLE_STATE_UNKNOWN" for ca cur
    by (simp add: derive_whole_site_affordable_state_def affordable_is_exact_def)
  with c n show ?thesis by (simp add: Let_def build_matching_facts_from_operative_def delivery_facts_def)
qed

text \<open>
  A list of sites and a buyer's match read one planning state: the match says permission granted exactly where the list says granted, an active proposal
  exactly where the list has one and does not say granted, and nothing else; the list's status is always one it has a label for, and it says not yet decided only where it has an active proposal.
\<close>

theorem list_and_match_agree:
  "let f = build_operative_planning_facts rules apps; ff = resolve_operative_filter_facts f ah ref;
       m = build_matching_facts_from_operative (operative_view f) aps ca aa in
    mf_planning_state m = (if ff_decision_status ff = ''granted'' then PERMISSION_GRANTED
      else if ff_has_active_proposal ff then PLANNING_ACTIVE_PROPOSAL else OTHER_OR_UNKNOWN) \<and>
    mf_has_active_proposal m = ff_has_active_proposal ff \<and> mf_active_proposal_count m = int (ff_active_proposal_count ff) \<and>
    format_operative_decision_status_label ff \<noteq> None \<and> (if ff_decision_status ff = ''not_yet_decided'' then ff_has_active_proposal ff else True)"
proof -
  let ?f = "build_operative_planning_facts rules apps"
  let ?s = "cp_planning_status (pf_consented ?f)"
  define status where "status = ff_decision_status (resolve_operative_filter_facts ?f ah ref)"
  have cases: "status = (if of_state ?s = FACT_RESOLVED \<and> of_value ?s = TextValue ''Permission granted'' then ''granted''
      else if of_state ?s = FACT_RESOLVED \<and> of_value ?s = TextValue ''Refused'' then ''refused''
      else if of_state ?s = FACT_RESOLVED \<and> of_value ?s = TextValue ''Withdrawn'' then ''withdrawn''
      else if pf_active ?f \<noteq> [] then ''not_yet_decided'' else ''not_determined'')"
    by (simp add: status_def resolve_canonical_decision_status_def Let_def opt_or_def NOT_DETERMINED_DECISION_STATUS_def)
  have granted: "status = ''granted'' \<longleftrightarrow> of_state ?s = FACT_RESOLVED \<and> of_value ?s = TextValue ''Permission granted''"
    unfolding cases by (simp split: if_split)
  have label: "map_of OPERATIVE_DECISION_STATUS_LABELS status \<noteq> None"
    unfolding cases OPERATIVE_DECISION_STATUS_LABELS_def NOT_DETERMINED_DECISION_STATUS_def by (simp split: if_split)
  have pending: "status = ''not_yet_decided'' \<Longrightarrow> pf_active ?f \<noteq> []"
    unfolding cases by (simp split: if_split_asm)
  have v: "(case x of TextValue t \<Rightarrow> Some t | _ \<Rightarrow> None) = Some u \<longleftrightarrow> x = TextValue u" for x u by (cases x) auto
  have "format_operative_decision_status_label (resolve_operative_filter_facts ?f ah ref) \<noteq> None"
    using label unfolding format_operative_decision_status_label_def status_def by simp
  moreover have "mf_planning_state (build_matching_facts_from_operative (operative_view ?f) aps ca aa) = (if status = ''granted'' then PERMISSION_GRANTED
      else if pf_active ?f \<noteq> [] then PLANNING_ACTIVE_PROPOSAL else OTHER_OR_UNKNOWN)"
    unfolding matched_planning_state granted Let_def v by simp
  ultimately show ?thesis
    using pending by (simp add: Let_def status_def build_matching_facts_from_operative_def operative_view_def Suc_le_eq)
qed

end
