(* ===== verification/PortalHealth.thy ===== *)
theory PortalHealth
  imports Prelude
begin

text \<open>
  Run health: app/pipeline/portal_circuit_breaker.py, acquisition_health.py and freshness.py. The breaker and the health
  counters are objects that a run feeds with events; both are deterministic machines, interpretations of the locale \<open>machine\<close>.
  Specifications read the list of events: \<open>streak\<close> is the number of host failures since the last success. The
  exception classes the breaker tells apart are a datatype; instants are rational seconds.
\<close>

section \<open>The circuit breaker\<close>

datatype portal_exception = RequestsConnectTimeout | RequestsConnectionError | PlaywrightTimeoutError str | PlaywrightError str | OtherException str

definition CHROMIUM_NETWORK_ERROR_CODES :: "str list" where
  "CHROMIUM_NETWORK_ERROR_CODES = [''ERR_CONNECTION_TIMED_OUT'', ''ERR_CONNECTION_REFUSED'', ''ERR_NAME_NOT_RESOLVED'', ''ERR_CONNECTION_RESET'',
     ''ERR_NETWORK_CHANGED'', ''ERR_INTERNET_DISCONNECTED'']"

definition PORTAL_CIRCUIT_FAILURE_THRESHOLD :: int where
  "PORTAL_CIRCUIT_FAILURE_THRESHOLD = 3"

fun is_portal_host_failure :: "portal_exception \<Rightarrow> bool" where
  "is_portal_host_failure RequestsConnectTimeout = True"
| "is_portal_host_failure RequestsConnectionError = True"
| "is_portal_host_failure (PlaywrightTimeoutError message) = True"
| "is_portal_host_failure (PlaywrightError message) = list_ex (\<lambda>code. contains code message) CHROMIUM_NETWORK_ERROR_CODES"
| "is_portal_host_failure (OtherException message) = False"

record breaker =
  cb_council :: str
  cb_threshold :: int
  cb_failures :: int
  cb_open_reason :: "str option"
  cb_opened_stage :: "str option"
  cb_open :: bool

definition new_breaker :: "str \<Rightarrow> int \<Rightarrow> breaker" where
  "new_breaker council threshold = \<lparr>cb_council = council, cb_threshold = threshold, cb_failures = 0, cb_open_reason = None, cb_opened_stage = None, cb_open = False\<rparr>"

definition record_success :: "breaker \<Rightarrow> breaker" where
  "record_success b = (if cb_open b then b else b\<lparr>cb_failures := 0\<rparr>)"

definition record_failure :: "portal_exception \<Rightarrow> str \<Rightarrow> breaker \<Rightarrow> bool \<times> breaker" where
  "record_failure exc stage b =
    (if cb_open b then (False, b)
     else if \<not> is_portal_host_failure exc then (False, b)
     else let b' = b\<lparr>cb_failures := cb_failures b + 1\<rparr> in
       if cb_failures b' \<ge> cb_threshold b'
         then (True, b'\<lparr>cb_open := True, cb_open_reason := Some ''portal_unavailable'', cb_opened_stage := Some stage\<rparr>)
       else (False, b'))"

datatype portal_event = PortalSuccess | PortalFailure portal_exception str

fun breaker_step :: "breaker \<Rightarrow> portal_event \<Rightarrow> breaker" where
  "breaker_step b PortalSuccess = record_success b"
| "breaker_step b (PortalFailure exc stage) = snd (record_failure exc stage b)"

definition breaker_ok :: "breaker \<Rightarrow> bool" where
  "breaker_ok b = (0 \<le> cb_failures b \<and> (if cb_open b then cb_threshold b \<le> cb_failures b \<and> cb_open_reason b = Some ''portal_unavailable'' \<and> cb_opened_stage b \<noteq> None
     else cb_open_reason b = None \<and> cb_opened_stage b = None \<and> (0 < cb_failures b \<longrightarrow> cb_failures b < cb_threshold b)))"

interpretation circuit: machine breaker_step breaker_ok
proof
  fix b e assume "breaker_ok b"
  then show "breaker_ok (breaker_step b e)"
    by (cases e) (auto simp: breaker_ok_def record_success_def record_failure_def Let_def)
qed

definition host_failure :: "portal_event \<Rightarrow> bool" where
  "host_failure e = (case e of PortalSuccess \<Rightarrow> False | PortalFailure exc stage \<Rightarrow> is_portal_host_failure exc)"

text \<open>Host failures since the last success.\<close>

definition streak :: "portal_event list \<Rightarrow> int" where
  "streak es = int (length (filter host_failure (takeWhile (\<lambda>e. e \<noteq> PortalSuccess) (rev es))))"

definition stage_of :: "portal_event \<Rightarrow> str option" where
  "stage_of e = (case e of PortalSuccess \<Rightarrow> None | PortalFailure exc stage \<Rightarrow> Some stage)"

text \<open>The first event at which the streak reaches the threshold.\<close>

fun tripping :: "int \<Rightarrow> portal_event list \<Rightarrow> portal_event list \<Rightarrow> portal_event option" where
  "tripping n seen [] = None"
| "tripping n seen (e # es) = (if n \<le> streak (seen @ [e]) \<and> host_failure e then Some e else tripping n (seen @ [e]) es)"

lemma streak_snoc: "streak (es @ [e]) = (case e of PortalSuccess \<Rightarrow> 0 | _ \<Rightarrow> streak es + of_bool (host_failure e))"
  by (auto simp: streak_def host_failure_def split: portal_event.split)

lemma open_stays: "cb_open b \<Longrightarrow> run breaker_step b es = b"
proof (induction es)
  case (Cons e es)
  then show ?case by (cases e) (simp_all add: record_success_def record_failure_def)
qed simp

lemma breaker_run:
  assumes "\<not> cb_open b" and "cb_failures b = streak seen" and "cb_threshold b = n"
  shows "cb_open (run breaker_step b es) = (tripping n seen es \<noteq> None) \<and>
    (cb_open (run breaker_step b es) \<longrightarrow> cb_opened_stage (run breaker_step b es) = Option.bind (tripping n seen es) stage_of) \<and>
    (\<not> cb_open (run breaker_step b es) \<longrightarrow> cb_failures (run breaker_step b es) = streak (seen @ es))"
  using assms
proof (induction es arbitrary: b seen)
  case (Cons e es)
  let ?b = "breaker_step b e"
  show ?case
  proof (cases "n \<le> streak (seen @ [e]) \<and> host_failure e")
    case True
    then obtain exc stage where e: "e = PortalFailure exc stage" "is_portal_host_failure exc"
      by (auto simp: host_failure_def split: portal_event.splits)
    with True Cons.prems have "cb_open ?b" "cb_opened_stage ?b = Some stage"
      by (simp_all add: record_failure_def Let_def streak_snoc host_failure_def)
    with True e open_stays show ?thesis by (simp add: stage_of_def)
  next
    case False
    have "\<not> cb_open ?b \<and> cb_failures ?b = streak (seen @ [e]) \<and> cb_threshold ?b = n"
      using False Cons.prems by (cases e) (auto simp: record_success_def record_failure_def Let_def streak_snoc host_failure_def)
    note ih = Cons.IH [of ?b "seen @ [e]"]
    have "tripping n seen (e # es) = tripping n (seen @ [e]) es" by (simp only: tripping.simps if_not_P [OF False])
    with ih \<open>\<not> cb_open ?b \<and> _\<close> show ?thesis by (simp del: tripping.simps)
  qed
qed (simp add: assms)

lemma tripping_iff: "(tripping n seen es \<noteq> None) = (\<exists>p e s. es = p @ e # s \<and> host_failure e \<and> n \<le> streak (seen @ p @ [e]))"
proof (induction es arbitrary: seen)
  case (Cons x es)
  have "(\<exists>p e s. x # es = p @ e # s \<and> host_failure e \<and> n \<le> streak (seen @ p @ [e])) =
      ((host_failure x \<and> n \<le> streak (seen @ [x])) \<or> (\<exists>p e s. es = p @ e # s \<and> host_failure e \<and> n \<le> streak (seen @ x # p @ [e])))"
    by (simp add: Cons_eq_append_conv) (metis append_Cons append_Nil)
  with Cons.IH [of "seen @ [x]"] show ?case by auto
qed simp

text \<open>
  C39. Over any run of events a fresh breaker is open exactly if some event was a host failure that brought the failures since the last success up to the
  threshold. Failures of other kinds and successes in between never open it, and once open it stays exactly as it was, whatever follows.
\<close>

theorem circuit_opens_at_threshold:
  "cb_open (run breaker_step (new_breaker c n) es) = (\<exists>p e s. es = p @ e # s \<and> host_failure e \<and> n \<le> streak (p @ [e])) \<and>
   (if cb_open (run breaker_step (new_breaker c n) es) then run breaker_step (new_breaker c n) (es @ fs) = run breaker_step (new_breaker c n) es
    else cb_failures (run breaker_step (new_breaker c n) es) = streak es) \<and> breaker_ok (run breaker_step (new_breaker c n) es)"
proof -
  have b: "\<not> cb_open (new_breaker c n)" "cb_failures (new_breaker c n) = streak []" "cb_threshold (new_breaker c n) = n"
    by (simp_all add: new_breaker_def streak_def)
  have "breaker_ok (new_breaker c n)" by (simp add: breaker_ok_def new_breaker_def)
  then have "breaker_ok (run breaker_step (new_breaker c n) es)" by (rule circuit.run_inv)
  with breaker_run [OF b, of es] tripping_iff [of n "[]" es] open_stays show ?thesis by simp
qed

section \<open>Acquisition health\<close>

record health =
  ah_primary_attempted :: bool
  ah_primary_completed :: bool
  ah_parents_attempted :: nat
  ah_parents_succeeded :: nat
  ah_parents_failed :: nat
  ah_documents_attempted :: nat
  ah_documents_succeeded :: nat
  ah_documents_failed :: nat
  ah_circuit_opened :: bool
  ah_circuit_opened_stage :: "str option"
  ah_refresh_attempted :: nat
  ah_refresh_succeeded :: nat
  ah_refresh_failed :: nat

definition new_health :: health where
  "new_health = \<lparr>ah_primary_attempted = False, ah_primary_completed = False, ah_parents_attempted = 0, ah_parents_succeeded = 0, ah_parents_failed = 0,
     ah_documents_attempted = 0, ah_documents_succeeded = 0, ah_documents_failed = 0, ah_circuit_opened = False, ah_circuit_opened_stage = None,
     ah_refresh_attempted = 0, ah_refresh_succeeded = 0, ah_refresh_failed = 0\<rparr>"

definition record_primary_scrape_attempt :: "health \<Rightarrow> health" where
  "record_primary_scrape_attempt h = h\<lparr>ah_primary_attempted := True\<rparr>"

definition record_primary_scrape_completed :: "health \<Rightarrow> health" where
  "record_primary_scrape_completed h = h\<lparr>ah_primary_completed := True\<rparr>"

definition record_portal_unavailable :: "str \<Rightarrow> health \<Rightarrow> health" where
  "record_portal_unavailable stage h = h\<lparr>ah_circuit_opened := True, ah_circuit_opened_stage := Some stage\<rparr>"

definition record_parent_lookup :: "bool \<Rightarrow> health \<Rightarrow> health" where
  "record_parent_lookup ok h = (let h' = h\<lparr>ah_parents_attempted := ah_parents_attempted h + 1\<rparr> in
     if ok then h'\<lparr>ah_parents_succeeded := ah_parents_succeeded h + 1\<rparr> else h'\<lparr>ah_parents_failed := ah_parents_failed h + 1\<rparr>)"

definition record_document_discovery :: "bool \<Rightarrow> health \<Rightarrow> health" where
  "record_document_discovery ok h = (let h' = h\<lparr>ah_documents_attempted := ah_documents_attempted h + 1\<rparr> in
     if ok then h'\<lparr>ah_documents_succeeded := ah_documents_succeeded h + 1\<rparr> else h'\<lparr>ah_documents_failed := ah_documents_failed h + 1\<rparr>)"

definition record_evidence_refresh :: "bool \<Rightarrow> health \<Rightarrow> health" where
  "record_evidence_refresh ok h = (let h' = h\<lparr>ah_refresh_attempted := ah_refresh_attempted h + 1\<rparr> in
     if ok then h'\<lparr>ah_refresh_succeeded := ah_refresh_succeeded h + 1\<rparr> else h'\<lparr>ah_refresh_failed := ah_refresh_failed h + 1\<rparr>)"

datatype run_status = RUN_SUCCESS | RUN_PARTIAL | RUN_FAILED

definition classify_health :: "health \<Rightarrow> run_status" where
  "classify_health h = (if ah_primary_attempted h \<and> \<not> ah_primary_completed h then RUN_FAILED
     else if ah_parents_failed h > 0 \<or> ah_documents_failed h > 0 \<or> ah_circuit_opened h \<or> ah_refresh_failed h > 0 then RUN_PARTIAL
     else RUN_SUCCESS)"

fun run_status_str :: "run_status \<Rightarrow> str" where
  "run_status_str RUN_SUCCESS = ''success''"
| "run_status_str RUN_PARTIAL = ''partial''"
| "run_status_str RUN_FAILED = ''failed''"

definition bit :: "bool \<Rightarrow> str" where
  "bit b = (if b then ''1'' else ''0'')"

definition health_summary_line :: "health \<Rightarrow> str" where
  "health_summary_line h = ''[run-health] status='' @ run_status_str (classify_health h) @
     '' primary_scrape_attempted='' @ bit (ah_primary_attempted h) @
     '' primary_scrape_completed='' @ bit (ah_primary_completed h) @
     '' parents_attempted='' @ nat_str (ah_parents_attempted h) @
     '' parents_succeeded='' @ nat_str (ah_parents_succeeded h) @
     '' parents_failed='' @ nat_str (ah_parents_failed h) @
     '' documents_applications_attempted='' @ nat_str (ah_documents_attempted h) @
     '' documents_applications_succeeded='' @ nat_str (ah_documents_succeeded h) @
     '' documents_applications_failed='' @ nat_str (ah_documents_failed h) @
     '' portal_circuit_opened='' @ bit (ah_circuit_opened h) @
     '' portal_circuit_opened_stage='' @ str_or (ah_circuit_opened_stage h) ''none'' @
     '' evidence_refresh_attempted='' @ nat_str (ah_refresh_attempted h) @
     '' evidence_refresh_succeeded='' @ nat_str (ah_refresh_succeeded h) @
     '' evidence_refresh_failed='' @ nat_str (ah_refresh_failed h)"

datatype health_event = PrimaryAttempted | PrimaryCompleted | PortalUnavailable str | ParentLookup bool | DocumentDiscovery bool | EvidenceRefresh bool

fun health_step :: "health \<Rightarrow> health_event \<Rightarrow> health" where
  "health_step h PrimaryAttempted = record_primary_scrape_attempt h"
| "health_step h PrimaryCompleted = record_primary_scrape_completed h"
| "health_step h (PortalUnavailable stage) = record_portal_unavailable stage h"
| "health_step h (ParentLookup ok) = record_parent_lookup ok h"
| "health_step h (DocumentDiscovery ok) = record_document_discovery ok h"
| "health_step h (EvidenceRefresh ok) = record_evidence_refresh ok h"

lemmas health_defs = record_primary_scrape_attempt_def record_primary_scrape_completed_def record_portal_unavailable_def record_parent_lookup_def
  record_document_discovery_def record_evidence_refresh_def Let_def

definition health_ok :: "health \<Rightarrow> bool" where
  "health_ok h = (ah_parents_attempted h = ah_parents_succeeded h + ah_parents_failed h \<and>
     ah_documents_attempted h = ah_documents_succeeded h + ah_documents_failed h \<and>
     ah_refresh_attempted h = ah_refresh_succeeded h + ah_refresh_failed h \<and> (ah_circuit_opened h = (ah_circuit_opened_stage h \<noteq> None)))"

interpretation health_run: machine health_step health_ok
proof
  fix h e assume "health_ok h"
  then show "health_ok (health_step h e)" by (cases e) (simp_all add: health_ok_def health_defs)
qed

definition unresolved :: "health_event \<Rightarrow> bool" where
  "unresolved e = (case e of PortalUnavailable s \<Rightarrow> True | ParentLookup ok \<Rightarrow> \<not> ok | DocumentDiscovery ok \<Rightarrow> \<not> ok | EvidenceRefresh ok \<Rightarrow> \<not> ok | _ \<Rightarrow> False)"

definition damaged :: "health \<Rightarrow> bool" where
  "damaged h = (ah_parents_failed h > 0 \<or> ah_documents_failed h > 0 \<or> ah_circuit_opened h \<or> ah_refresh_failed h > 0)"

lemma health_run_fields:
  "ah_primary_attempted (run health_step h es) = (ah_primary_attempted h \<or> PrimaryAttempted \<in> set es) \<and>
   ah_primary_completed (run health_step h es) = (ah_primary_completed h \<or> PrimaryCompleted \<in> set es) \<and>
   damaged (run health_step h es) = (damaged h \<or> list_ex unresolved es)"
proof (induction es arbitrary: h)
  case (Cons e es)
  have "ah_primary_attempted (health_step h e) = (ah_primary_attempted h \<or> e = PrimaryAttempted)"
    "ah_primary_completed (health_step h e) = (ah_primary_completed h \<or> e = PrimaryCompleted)"
    "damaged (health_step h e) = (damaged h \<or> unresolved e)"
    by (cases e; auto simp: health_defs damaged_def unresolved_def)+
  with Cons.IH [of "health_step h e"] show ?case by auto
qed simp

text \<open>The end of a run: \<open>main\<close> translates an open breaker into the health record.\<close>

definition close_run :: "breaker \<Rightarrow> health \<Rightarrow> health" where
  "close_run b h = (if cb_open b then record_portal_unavailable (str_or (cb_opened_stage b) ''unknown'') h else h)"

text \<open>
  The health of a run is read off its events: failed exactly if the primary scrape was attempted and not completed, otherwise partial exactly if some lookup,
  document discovery or refresh stayed unresolved or the breaker ended open, and success otherwise. Attempts are always successes plus failures.
\<close>

theorem run_health_from_events:
  "classify_health (close_run b (run health_step new_health es)) =
     (if PrimaryAttempted \<in> set es \<and> PrimaryCompleted \<notin> set es then RUN_FAILED
      else if list_ex unresolved es \<or> cb_open b then RUN_PARTIAL else RUN_SUCCESS) \<and>
   health_ok (close_run b (run health_step new_health es))"
proof -
  have "health_ok new_health" by (simp add: health_ok_def new_health_def)
  then have ok: "health_ok (run health_step new_health es)" by (rule health_run.run_inv)
  have d: "classify_health h = (if ah_primary_attempted h \<and> \<not> ah_primary_completed h then RUN_FAILED else if damaged h then RUN_PARTIAL else RUN_SUCCESS)" for h
    by (simp add: classify_health_def damaged_def)
  have "\<not> ah_primary_attempted new_health" "\<not> ah_primary_completed new_health" "\<not> damaged new_health"
    by (simp_all add: new_health_def damaged_def)
  with health_run_fields [of new_health es] ok show ?thesis
    unfolding d by (auto simp: close_run_def record_portal_unavailable_def damaged_def health_ok_def)
qed

section \<open>Freshness\<close>

datatype freshness = FRESH | WARNING | STALE | FRESHNESS_UNKNOWN

text \<open>An aware instant, or the wall clock of a naive datetime, in seconds.\<close>

datatype stamp = Aware rat | Naive rat

definition FRESH_HOURS :: rat where "FRESH_HOURS = 48"
definition WARNING_HOURS :: rat where "WARNING_HOURS = 72"

definition classify_scraper_freshness :: "stamp option \<Rightarrow> stamp \<Rightarrow> pyexc + freshness" where
  "classify_scraper_freshness last_run now = (case last_run of None \<Rightarrow> Inr FRESHNESS_UNKNOWN
     | Some l \<Rightarrow> (case now of Naive _ \<Rightarrow> Inl TypeError
       | Aware n \<Rightarrow> let t = (case l of Aware x \<Rightarrow> x | Naive x \<Rightarrow> x); age = (n - t) / 3600 in
          Inr (if age \<le> FRESH_HOURS then FRESH else if age \<le> WARNING_HOURS then WARNING else STALE)))"

lemma freshness_unknown_iff: "(classify_scraper_freshness last_run now = Inr FRESHNESS_UNKNOWN) = (last_run = None)"
  by (auto simp: classify_scraper_freshness_def Let_def split: option.splits stamp.splits)

end
