(* ===== verification/Spec2Isabelle.thy ===== *)
theory Spec2Isabelle
  imports AccessProperties AgentClaimsProperties AgentProperties MonitoringProperties ResidualFeedProperties SourceProperties QualificationProperties ExtractionProperties HistoryProperties FamilyProperties PlanProperties WorkerInterface TerminalExclusion FitTrace ResidualFit MandateInterpretation AffordableProperties
    PortalHealth DiscoveryContract
begin

text \<open>
  PropertyAIgent finds residential land opportunities for housebuilders and housing associations: it discovers planning
  applications and Local Plan allocations, keeps what a source stated about them, decides what that evidence supports, and says
  which buyer an opportunity fits. This development models the decision logic of that program, the Python under src/app, and proves what it promises.

  \<^bold>\<open>The parts and how they interact.\<close> The task ledger (ingestion/ledger.py) admits the work of bounded tasks, one claim, one
  allowance and one write at a time; a worker reaches it only through a seam (worker_interface.py) and seals evidence that the resource validators (coordinator.py)
  have passed. Discovery (pipeline/discovery_contract.py) accounts for the windows a source was searched in; the circuit breaker and the run health
  (pipeline) say what a run did not see. Portal text becomes planning states, deadlines and lifecycle events (pipeline/lapse_tracking.py, material_change.py,
  lifecycle_events.py); scheme reconciliation (reporting/scheme_reconciliation.py, pipeline/phase_tracking.py) decides which application of a site governs what, scope by scope. Counts of homes (reporting/residential_count.py, strategic_capacity.py) and affordable-housing claims (policy/ah_assessment.py) become assessments
  that keep their uncertainty; residual capacity (reporting/residual_capacity.py, residual_opportunity.py) is what such counts leave of a permission; subjects are named by
  the grammar of acquisition_subjects.py. Buyer matching (policy/buyer_matching.py) sets the facts of an opportunity against a mandate (buyer_profiles.py);
  terminal_hard_exclusion.py, residual_fit.py and mandate_interpretation.py read or wrap its answer.

  \<^bold>\<open>Theories.\<close>
  \<^item> \<open>Prelude\<close>, \<open>Json\<close>, \<open>Dates\<close>: Python strings as \<open>char list\<close>, exceptions as values, canonical JSON, the proleptic Gregorian calendar; the locale \<open>machine\<close> of a
    state, its step and an invariant, with the lemmas on runs.
  \<^item> \<open>SourceSafety\<close>: validate_outer, validate_source_resources, the budget registry.
  \<^item> \<open>Ledger\<close>: the rows of schema.py as records, the database as \<open>ledger\<close>, each method of \<open>Ledger\<close> as a transaction from a ledger to a result and a ledger; an exception
    leaves the ledger as it was. \<open>LedgerSafety\<close>: the inductive relation \<open>row_move\<close> of what may happen to a row, and that every operation is made of such moves.
    \<open>LedgerInvariant\<close>, \<open>LedgerScenario\<close>, \<open>LedgerProperties\<close>: the invariant, concrete runs for the witnesses, and the properties.
  \<^item> \<open>WorkerInterface\<close>: the locale \<open>leased_store\<close> is what the seam relies on; it is interpreted on the ledger.
  \<^item> \<open>CountEvidence\<close>, \<open>StrategicCapacity\<close>, \<open>AhClaims\<close>: assessments and the set of counts each leaves possible.
  \<^item> \<open>BuyerProfiles\<close>, \<open>FitTexts\<close>, \<open>MatchingFacts\<close>, \<open>BuyerFit\<close>: mandates, the reasons' texts, the facts builders, and the blocks of assess_buyer_fit as
    transformers of the four lists of reasons, the trace and the flags. \<open>BuyerFitProperties\<close>, \<open>TerminalExclusion\<close>, \<open>FitTrace\<close>: the properties.
  \<^item> \<open>SubjectIdentity\<close>, \<open>ResidualCapacity\<close>, \<open>ResidualOpportunity\<close>, \<open>ResidualProperties\<close>, \<open>ResidualFit\<close>: identities and residuals.
  \<^item> \<open>OpportunityFamilies\<close>, \<open>FamilyProperties\<close>: the subjects of one site or allocation as a family with a representative for a buyer (reporting/opportunity_families.py),
    over subject identities and the classifications of buyer matching.
  \<^item> \<open>SubjectRelationships\<close>, \<open>ResidualFeed\<close>, \<open>ResidualFeedProperties\<close>: which phase a permission contains, by the references its applications cite
    (reporting/subject_relationships.py), the residuals of a site's planning facts (residual_feed.py) and the route of an opportunity (opportunity_route.py).
  \<^item> \<open>OpportunityMonitoring\<close>, \<open>MonitoringProperties\<close>: fingerprints and their differences, the sync that keeps a row per opportunity and its preview
    (reporting/opportunity_change.py), and the paging of opportunity_universe.py.
  \<^item> \<open>AgentResult\<close>, \<open>AgentValidator\<close>, \<open>AcquisitionPrinciples\<close>, \<open>AgentContext\<close>, \<open>AgentEvaluation\<close>, \<open>AgentProperties\<close>: the evaluation of an opportunity by a
    language model (policy/agent_evaluation_result.py, agent_evaluation_validator.py, agent_evaluation_prompt.py, acquisition_type_interpretation.py, acquisition_evaluate.py):
    what it may cite, what it is told, how often it is asked, and which answers are accepted. The model itself is a parameter.
  \<^item> \<open>MandateStore\<close>, \<open>MandateStoreProperties\<close>: buyers and mandates as rows (policy/buyer_profile_store.py), read as the policies the matcher takes: the fingerprint covers
    all the matcher reads, a seeded mandate reads back, and seeding and the bootstrap settle.
  \<^item> \<open>AgentClaims\<close>, \<open>AgentClaimsProperties\<close>: the evaluations that are kept (policy/agent_evaluation_persistence.py). \<open>run_persisted_evaluation\<close> composes the access check, the
    staleness of the mandate, the subject's anchor, the claim, the evaluation and the record. A worker acts on the claim row it saw, which others may have changed since: \<open>work_step\<close>
    interleaves any number of workers, and two instances of \<open>machine\<close> lift the invariants of the claims and of the current states to every interleaving.
  \<^item> \<open>AccessPolicy\<close>, \<open>AccessLeases\<close>, \<open>AccessProperties\<close>: who may act (security/access.py, cli.py): the policy document, and the registry of leases with its
    admissions, checks, logouts and machine launches as \<open>access_step\<close>s that take the clock and policy readings they make; the registry stays bounded, a logout is final, and the
    guards pass only what the policy in force grants.
  \<^item> \<open>MandateInterpretation\<close>: the declared reading of a mandate against what assess_buyer_fit does.
  \<^item> \<open>PlanningState\<close>: portal dates, planning states, the lapse clock, material change, the lifecycle log.
  \<^item> \<open>Reconciliation\<close>, \<open>PhaseTracking\<close>, \<open>OperativeProperties\<close>: the applications of a site become roles, scopes, the consented and active positions and the lapse
    anchor, as \<open>operative_view\<close> and \<open>anchor_of\<close> hand them to buyer matching and to the lapse clock; the properties follow a portal row through to both.
  \<^item> \<open>AffordableScope\<close>, \<open>FilterFacts\<close>, \<open>AffordableProperties\<close>: affordable housing by scope and decided state (reporting/affordable_housing_scope.py), and the facts that lists
    of sites are filtered by, which are read from the same positions.
  \<^item> \<open>Instants\<close>, \<open>ObservationHistory\<close>, \<open>HistoryProperties\<close>: UTC timestamps, and the append-only history of applications over listing evidence
    (ingestion/observation_history.py), a \<open>machine\<close> whose events are appended evidence and linked captures.
  \<^item> \<open>Regex\<close>: the patterns of Python's re as a datatype with a declarative meaning, and a matcher with groups and lazy repetition, in the order of preference
    of a backtracking matcher; that it finds a match exactly where the meaning says there is one is proved.
  \<^item> \<open>CountEligibility\<close>, \<open>SourceRules\<close>: which stored counts a proposal contradicts (app/reporting/residential_count_eligibility.py), the phase and plot labels of a text, and
    \<open>source_rules\<close>, the program's own text classifiers as one value of \<open>text_rules\<close>; \<open>AcquisitionPhasing\<close>, \<open>SourceProperties\<close>: the phasing evidence of a site
    (app/reporting/acquisition_phasing.py), and what the whole chain guarantees with those classifiers.
  \<^item> \<open>UnitFilter\<close>, \<open>QualificationProperties\<close>: the qualifying-scheme filter (app/scrapers/unit_filter.py): the counts of homes a proposal states, its category, and
    whether it is pursued; what decides it, and that no impossible count is read.
  \<^item> \<open>SchemeExtraction\<close>, \<open>ExtractionProperties\<close>: a classifier's answer, a pattern pass and the portal's estimate become the figures of a scheme
    (extraction/reconcile.py), step by step.
  \<^item> \<open>PlanLifecycle\<close>, \<open>PlanProperties\<close>: the statuses of Local Plans and allocations, the differences between two versions of a plan, the names of plans, and when a
    source is checked again (policy/status.py, progression.py, change_detection.py, plan_identity.py, report_cadence.py).
  \<^item> \<open>PortalHealth\<close>: the breaker and the run health, both interpreted as \<open>machine\<close>s, and scraper freshness.
  \<^item> \<open>DiscoveryContract\<close>: windows, literals, envelopes and the coverage watermark.

  \<^bold>\<open>What the lemmas show.\<close> On the ledger (\<open>LedgerProperties\<close>, \<open>WorkerInterface\<close>): its invariant over all runs, that a stop is final and a lost claim stays lost (an ordinary stop apart, which anyone may call), that
  allowances are conserved, that sealed evidence is never fetched again unless its holder stores null over it, how recovery decides, and that the seam refines its contract. On evidence (\<open>CountEvidence\<close>, \<open>AhClaims\<close>): counts
  and claims are never stated beyond what their evidence leaves possible. On the buyer fit (\<open>BuyerFitProperties\<close>, \<open>TerminalExclusion\<close>, \<open>FitTrace\<close>, \<open>BuyerProfiles\<close>): exactly when it excludes, what a
  strong fit rests on, and how its trace explains it. On sites (\<open>OperativeProperties\<close>, \<open>AffordableProperties\<close>): planning position, lapse clock, approved count, scopes and affordable figures
  are traced to the portal rows they come from. On subjects (\<open>SubjectIdentity\<close>, \<open>ResidualCapacity\<close>, \<open>ResidualProperties\<close>, \<open>ResidualFit\<close>): the id grammar, and when a residual is
  resolved and qualified. \<open>MandateInterpretation\<close>, \<open>PlanningState\<close>, \<open>PortalHealth\<close> and \<open>DiscoveryContract\<close> each end with the properties of their part.

  \<^bold>\<open>Where the code departs from its documentation.\<close> The properties state what the code does. Lemmas beside them show where it is not what the repository says of it, among them
  \<open>null_evidence_unseals\<close> (\<open>LedgerProperties\<close>), \<open>no_affordable_content_excludes\<close> (\<open>BuyerFitProperties\<close>), \<open>unguarded_question\<close> and \<open>malformed_item_raises\<close> (\<open>AgentProperties\<close>),
  \<open>future_adoption_signalled\<close> (\<open>PlanProperties\<close>), \<open>newline_accepted\<close> (\<open>SubjectIdentity\<close>), \<open>bedrooms_counted\<close> (\<open>QualificationProperties\<close>) and \<open>early_logout_forgotten\<close> (\<open>AccessProperties\<close>).

  \<^bold>\<open>Parameters.\<close> SHA-256, the clock, the rendering of floats, the storage size of a ledger, the checkpoint validators, the proposal qualifier and the
  classifiers of free text (\<open>text_rules\<close>, of which \<open>source_rules\<close> is the program's own value) are arguments of the definitions that use them. No property assumes more of them than its statement shows.

  \<^bold>\<open>Bounds and termination.\<close> Loops are recursions on a list or on a number that falls, so the definitions are total and no fuel is used; the paging loop, whose end depends on the pages, is a
  partial function that is proved to return. Python's integers are \<open>int\<close>; the
  bounds the code sets itself (payload and storage sizes, attempts, anchor ids below 2^31, lengths of ids) are in the definitions. Money and percentages are \<open>rat\<close>: the float arithmetic of
  the few percentages is exact there. Text is a list of bytes, so case folding and character classes are those of ASCII.

  \<^bold>\<open>Not modelled.\<close> Scrapers, HTTP and browser clients, document parsing and model calls (effects, or third-party code); the ORM models and
  queries (the rows read are records here); the user interface, dashboards and reports (presentation); run_weekly.py beyond the two lines that close a run from the breaker
  (orchestration of effects). Of scheme reconciliation only fields copied for display are left out; of the universe of opportunities the queries that gather its facts.
\<close>

end
